(* ===== verification/Prelude.thy ===== *)
theory Prelude
  imports Main
begin

text \<open>
  Prelude: what every component theory shares.

  \<^item> The error values of the program (\<open>session/types.go\<close>, \<open>session/admission.go\<close>,
    \<open>session/title.go\<close>, \<open>session/content.go\<close>, \<open>session/checkpoint.go\<close>,
    \<open>session/model_request.go\<close>) as one datatype.
  \<^item> Operations on a state as functions \<open>'s \<Rightarrow> (err + 'a) \<times> 's\<close>. An operation that
    fails keeps the writes it already made; only \<open>atomicE\<close> (a savepoint) undoes them,
    exactly as in the SQL stores.
  \<^item> A weakest-precondition calculus for these operations (collection \<open>wp\<close>), in which
    the invariants of the component theories are proved.
  \<^item> Tables as lists of rows: lookup by predicate, conditional update, counting.
\<close>

section \<open>Collections\<close>

named_theorems wp \<open>weakest preconditions of the store's primitive operations\<close>
named_theorems table \<open>lookups in tables after an insertion or an update\<close>
named_theorems frame \<open>tables an operation leaves alone\<close>

section \<open>Errors\<close>

datatype err =
    ErrSessionBusy | ErrConflict | ErrNotFound | ErrRunClosed | ErrRunHasQueuedInput
  | ErrAdmissionConflict | ErrAdmissionInvalid | ErrAdmissionUnknown | ErrAdmissionStore
  | ErrSessionTitleInvalid | ErrSessionTitleStore
  | ErrCheckpointTooLarge | ErrModelRequestTooLarge
  | ErrContentTooLarge | ErrContentInvalid | ErrContentUnsupported
  | ErrPauseLifecycle | ErrMarshal | ErrTransactionOutcomeUnknown

text \<open>
  \<open>ErrPauseLifecycle\<close> and \<open>ErrMarshal\<close> stand for the anonymous errors of
  \<open>ValidatePauseLifecycle\<close> and \<open>json.Marshal\<close>, and \<open>ErrTransactionOutcomeUnknown\<close> for an error marked by
  \<open>MarkTransactionOutcomeUnknown\<close> (\<open>store/outcome.go\<close>).
  \<open>errors.Is(e, ErrConflict)\<close>: \<open>ErrRunHasQueuedInput\<close> wraps \<open>ErrConflict\<close>.
\<close>

definition isConflict :: "err \<Rightarrow> bool" where
  "isConflict e \<longleftrightarrow> e = ErrConflict \<or> e = ErrRunHasQueuedInput"

section \<open>Operations with state and errors\<close>

type_synonym ('s, 'a) op = "'s \<Rightarrow> (err + 'a) \<times> 's"

definition returnE :: "'a \<Rightarrow> ('s, 'a) op" where
  "returnE x = (\<lambda>s. (Inr x, s))"

definition throwE :: "err \<Rightarrow> ('s, 'a) op" where
  "throwE e = (\<lambda>s. (Inl e, s))"

definition bindE :: "('s, 'a) op \<Rightarrow> ('a \<Rightarrow> ('s, 'b) op) \<Rightarrow> ('s, 'b) op" where
  "bindE m f = (\<lambda>s. case m s of (Inl e, t) \<Rightarrow> (Inl e, t) | (Inr x, t) \<Rightarrow> f x t)"

definition thenE :: "('s, 'a) op \<Rightarrow> ('s, 'b) op \<Rightarrow> ('s, 'b) op" where
  "thenE m n = bindE m (\<lambda>_. n)"

definition askE :: "('s \<Rightarrow> 'a) \<Rightarrow> ('s, 'a) op" where
  "askE f = (\<lambda>s. (Inr (f s), s))"

definition modifyE :: "('s \<Rightarrow> 's) \<Rightarrow> ('s, unit) op" where
  "modifyE f = (\<lambda>s. (Inr (), f s))"

definition liftE :: "err + 'a \<Rightarrow> ('s, 'a) op" where
  "liftE r = (\<lambda>s. (r, s))"

definition whenE :: "bool \<Rightarrow> ('s, unit) op \<Rightarrow> ('s, unit) op" where
  "whenE b m = (if b then m else returnE ())"

text \<open>\<open>if b then return e\<close>, the early return that every operation of the store opens with.\<close>

definition guardE :: "bool \<Rightarrow> err \<Rightarrow> ('s, unit) op" where
  "guardE b e = (if b then returnE () else throwE e)"

text \<open>The error of an operation rewritten, as in \<open>if errors.Is(err, a) return b\<close>.\<close>

definition mapErrE :: "(err \<Rightarrow> err) \<Rightarrow> ('s, 'a) op \<Rightarrow> ('s, 'a) op" where
  "mapErrE g m = (\<lambda>s. case m s of (Inl e, t) \<Rightarrow> (Inl (g e), t) | (Inr x, t) \<Rightarrow> (Inr x, t))"

definition someE :: "err \<Rightarrow> 'a option \<Rightarrow> ('s, 'a) op" where
  "someE e r = (case r of None \<Rightarrow> throwE e | Some x \<Rightarrow> returnE x)"

fun forE :: "'x list \<Rightarrow> ('x \<Rightarrow> ('s, unit) op) \<Rightarrow> ('s, unit) op" where
  "forE [] f = returnE ()"
| "forE (x # xs) f = thenE (f x) (forE xs f)"

text \<open>
  A savepoint of a transaction (\<open>Store.atomic\<close>): a failed operation leaves the state as it found it, even if its caller catches the error. When
  the savepoint cannot be rolled back, the whole transaction fails.
\<close>

definition atomicE :: "('s, 'a) op \<Rightarrow> ('s, 'a) op" where
  "atomicE m = (\<lambda>s. case m s of (Inl e, _) \<Rightarrow> (Inl e, s) | (Inr x, t) \<Rightarrow> (Inr x, t))"

section \<open>Weakest preconditions\<close>

text \<open>
  \<open>wp m Q s\<close>: if \<open>m\<close> succeeds from \<open>s\<close>, its result and final state satisfy \<open>Q\<close>.
  A failing operation satisfies every postcondition: the savepoint around each public
  operation discards its state.
\<close>

definition wpE :: "('s, 'a) op \<Rightarrow> ('a \<Rightarrow> 's \<Rightarrow> bool) \<Rightarrow> 's \<Rightarrow> bool" where
  "wpE m Q s \<longleftrightarrow> (case m s of (Inl e, t) \<Rightarrow> True | (Inr x, t) \<Rightarrow> Q x t)"

lemma wpE_iff: "wpE m Q s \<longleftrightarrow> (\<forall>x t. m s = (Inr x, t) \<longrightarrow> Q x t)"
  by (auto simp: wpE_def split: prod.splits sum.splits)

lemma wpE_D: "wpE m Q s \<Longrightarrow> m s = (Inr x, t) \<Longrightarrow> Q x t"
  by (simp add: wpE_iff)

lemma wpE_mono: "wpE m Q s \<Longrightarrow> (\<And>x t. Q x t \<Longrightarrow> R x t) \<Longrightarrow> wpE m R s"
  by (simp add: wpE_iff)

lemma wpE_conj: "wpE m Q s \<Longrightarrow> wpE m R s \<Longrightarrow> wpE m (\<lambda>x t. Q x t \<and> R x t) s"
  by (simp add: wpE_iff)

lemma wp_return [wp]: "wpE (returnE x) Q s \<longleftrightarrow> Q x s"
  by (simp add: wpE_def returnE_def)

lemma wp_throw [wp]: "wpE (throwE e) Q s"
  by (simp add: wpE_def throwE_def)

lemma wp_bind [wp]: "wpE (bindE m f) Q s \<longleftrightarrow> wpE m (\<lambda>x. wpE (f x) Q) s"
  by (simp add: wpE_def bindE_def split: prod.split sum.split)

lemma wp_then [wp]: "wpE (thenE m n) Q s \<longleftrightarrow> wpE m (\<lambda>_. wpE n Q) s"
  by (simp add: thenE_def wp_bind)

lemma wp_ask [wp]: "wpE (askE f) Q s \<longleftrightarrow> Q (f s) s"
  by (simp add: wpE_def askE_def)

lemma wp_modify [wp]: "wpE (modifyE f) Q s \<longleftrightarrow> Q () (f s)"
  by (simp add: wpE_def modifyE_def)

lemma wp_lift [wp]: "wpE (liftE r) Q s \<longleftrightarrow> (\<forall>x. r = Inr x \<longrightarrow> Q x s)"
  by (simp add: wpE_def liftE_def split: sum.split)

lemma wp_when [wp]: "wpE (whenE b m) Q s \<longleftrightarrow> (if b then wpE m Q s else Q () s)"
  by (simp add: whenE_def wp_return)

lemma wp_guard [wp]: "wpE (guardE b e) Q s \<longleftrightarrow> (b \<longrightarrow> Q () s)"
  by (simp add: guardE_def wp_return wp_throw)

lemma wp_mapErr [wp]: "wpE (mapErrE g m) Q s \<longleftrightarrow> wpE m Q s"
  by (simp add: wpE_def mapErrE_def split: prod.split sum.split)

lemma wp_some [wp]: "wpE (someE e r) Q s \<longleftrightarrow> (\<forall>x. r = Some x \<longrightarrow> Q x s)"
  by (simp add: someE_def wp_return wp_throw split: option.split)

lemma wp_atomic [wp]: "wpE (atomicE m) Q s \<longleftrightarrow> wpE m Q s"
  by (simp add: wpE_def atomicE_def split: prod.split sum.split)

lemma wp_if [wp]: "wpE (if b then m else n) Q s \<longleftrightarrow> (if b then wpE m Q s else wpE n Q s)"
  by simp

lemma wp_case_option [wp]:
  "wpE (case r of None \<Rightarrow> m | Some x \<Rightarrow> f x) Q s \<longleftrightarrow>
     (case r of None \<Rightarrow> wpE m Q s | Some x \<Rightarrow> wpE (f x) Q s)"
  by (simp split: option.split)

lemma wp_case_prod [wp]:
  "wpE (case p of (a, b) \<Rightarrow> f a b) Q s \<longleftrightarrow> (case p of (a, b) \<Rightarrow> wpE (f a b) Q s)"
  by (simp split: prod.split)

text \<open>Loops: an invariant kept by every iteration.\<close>

lemma wp_for:
  assumes step: "\<And>x t. x \<in> set xs \<Longrightarrow> I t \<Longrightarrow> wpE (f x) (\<lambda>_. I) t" and init: "I s"
    and post: "\<And>t. I t \<Longrightarrow> Q () t"
  shows "wpE (forE xs f) Q s"
  using step init
proof (induction xs arbitrary: s)
  case Nil
  then show ?case by (simp add: wp_return post)
next
  case (Cons x xs)
  have "wpE (f x) (\<lambda>_. I) s" using Cons.prems by simp
  then have "wpE (f x) (\<lambda>_ t. wpE (forE xs f) Q t) s"
    by (rule wpE_mono) (use Cons in simp)
  then show ?case by (simp add: wp_then)
qed

section \<open>Savepoints\<close>

lemma atomicE_error: "atomicE m s = (Inl e, t) \<Longrightarrow> t = s"
  by (auto simp: atomicE_def split: prod.splits sum.splits)

lemma atomicE_ok_iff: "atomicE m s = (Inr x, t) \<longleftrightarrow> m s = (Inr x, t)"
  by (auto simp: atomicE_def split: prod.splits sum.splits)

lemma atomicE_preserves:
  assumes "I s" and "wpE m (\<lambda>_. I) s"
  shows "I (snd (atomicE m s))"
  using assms by (auto simp: atomicE_def wpE_def split: prod.splits sum.splits)

section \<open>Running operations\<close>

lemma run_return [simp]: "returnE x s = (Inr x, s)"
  by (simp add: returnE_def)

lemma run_throw [simp]: "throwE e s = (Inl e, s)"
  by (simp add: throwE_def)

lemma run_ask [simp]: "askE f s = (Inr (f s), s)"
  by (simp add: askE_def)

lemma run_modify [simp]: "modifyE f s = (Inr (), f s)"
  by (simp add: modifyE_def)

lemma run_lift [simp]: "liftE r s = (r, s)"
  by (simp add: liftE_def)

lemma run_guard [simp]: "guardE b e s = (if b then (Inr (), s) else (Inl e, s))"
  by (simp add: guardE_def)

lemma run_when [simp]: "whenE b m s = (if b then m s else (Inr (), s))"
  by (simp add: whenE_def)

lemma run_some [simp]: "someE e r s = (case r of None \<Rightarrow> (Inl e, s) | Some x \<Rightarrow> (Inr x, s))"
  by (simp add: someE_def split: option.split)

lemma run_bind: "bindE m f s = (case m s of (Inl e, t) \<Rightarrow> (Inl e, t) | (Inr x, t) \<Rightarrow> f x t)"
  by (simp add: bindE_def)

lemma run_then: "thenE m n s = (case m s of (Inl e, t) \<Rightarrow> (Inl e, t) | (Inr x, t) \<Rightarrow> n t)"
  by (simp add: thenE_def bindE_def)

lemma run_mapErr:
  "mapErrE g m s = (case m s of (Inl e, t) \<Rightarrow> (Inl (g e), t) | (Inr x, t) \<Rightarrow> (Inr x, t))"
  by (simp add: mapErrE_def)

lemma run_atomic:
  "atomicE m s = (case m s of (Inl e, _) \<Rightarrow> (Inl e, s) | (Inr x, t) \<Rightarrow> (Inr x, t))"
  by (simp add: atomicE_def)

lemmas run = run_bind run_then run_mapErr run_atomic

section \<open>Tables\<close>

text \<open>\<open>UPDATE ... WHERE P\<close> and the number of rows it touches.\<close>

definition updateWhere :: "('r \<Rightarrow> bool) \<Rightarrow> ('r \<Rightarrow> 'r) \<Rightarrow> 'r list \<Rightarrow> 'r list" where
  "updateWhere P f rows = map (\<lambda>r. if P r then f r else r) rows"

definition countWhere :: "('r \<Rightarrow> bool) \<Rightarrow> 'r list \<Rightarrow> nat" where
  "countWhere P rows = length (filter P rows)"

lemma countWhere_0 [simp]: "countWhere P rows = 0 \<longleftrightarrow> (\<forall>r \<in> set rows. \<not> P r)"
  by (induction rows) (auto simp: countWhere_def)

lemma length_updateWhere [simp]: "length (updateWhere P f rows) = length rows"
  by (simp add: updateWhere_def)

lemma set_updateWhere: "set (updateWhere P f rows) = (\<lambda>r. if P r then f r else r) ` set rows"
  by (simp add: updateWhere_def)

lemma map_updateWhere:
  assumes "\<And>r. P r \<Longrightarrow> g (f r) = g r"
  shows "map g (updateWhere P f rows) = map g rows"
  using assms by (simp add: updateWhere_def)

lemma updateWhere_none: "(\<And>r. r \<in> set rows \<Longrightarrow> \<not> P r) \<Longrightarrow> updateWhere P f rows = rows"
  by (simp add: updateWhere_def map_idI)

lemma find_append: "List.find P (xs @ ys) = (case List.find P xs of None \<Rightarrow> List.find P ys | Some x \<Rightarrow> Some x)"
  by (induction xs) auto

lemma find_SomeD: "List.find P xs = Some x \<Longrightarrow> x \<in> set xs \<and> P x"
  by (induction xs) (auto split: if_splits)

lemma find_None_iff_all: "List.find P xs = None \<longleftrightarrow> (\<forall>x \<in> set xs. \<not> P x)"
  by (induction xs) auto

lemma find_map: "List.find P (map f xs) = map_option f (List.find (P \<circ> f) xs)"
  by (induction xs) auto

text \<open>A key function that is injective on a table finds the row that carries the key.\<close>

lemma find_unique:
  assumes "distinct (map k xs)" and "x \<in> set xs"
  shows "List.find (\<lambda>r. k r = k x) xs = Some x"
  using assms by (induction xs) (auto simp: image_iff)

lemma find_key_iff:
  assumes "distinct (map k xs)"
  shows "List.find (\<lambda>r. k r = v) xs = Some x \<longleftrightarrow> x \<in> set xs \<and> k x = v"
  using assms find_unique [OF assms] by (auto dest: find_SomeD)

lemma find_updateWhere:
  assumes "\<And>r. P r \<Longrightarrow> k (f r) = k r"
  shows "List.find (\<lambda>r. k r = v) (updateWhere P f rows) =
    map_option (\<lambda>r. if P r then f r else r) (List.find (\<lambda>r. k r = v) rows)"
proof (induction rows)
  case Nil
  then show ?case by (simp add: updateWhere_def)
next
  case (Cons r rows)
  then show ?case using assms [of r] by (auto simp: updateWhere_def)
qed

end
