(* ===== verification/GoBase.thy ===== *)
theory GoBase
  imports Prelude
begin

text \<open>
  The parts of the Go language and standard library that the program uses, as HOL values.

  \<^item> A Go \<open>string\<close> and a \<open>[]byte\<close> are byte lists: \<open>string\<close>, that is \<open>char list\<close>.
  \<^item> A slice is \<open>'a list option\<close>: \<open>None\<close> is the nil slice, which \<open>encoding/json\<close> writes as
    \<open>null\<close> and which therefore differs from the empty slice in a stored record.
  \<^item> A \<open>map[string]string\<close> is an association list sorted by distinct keys, or \<open>None\<close> for
    the nil map (\<open>reflect.DeepEqual\<close> and \<open>encoding/json\<close> both tell them apart).
  \<^item> A \<open>time.Time\<close> is an instant in nanoseconds since 0001-01-01T00:00:00Z with the offset
    of its location in seconds. \<open>IsZero\<close> and \<open>Equal\<close> look at the instant only,
    \<open>UTC\<close> resets the offset, and JSON keeps both.
  \<^item> A \<open>float64\<close> that JSON can carry is finite, hence an integral multiple of the smallest
    positive one; it is that integer. The code only compares such values for equality.
  \<^item> \<open>utf8.ValidString\<close>, \<open>unicode/utf8\<close>.
\<close>

type_synonym bytes = string
type_synonym 'a slice = "'a list option"
type_synonym smap = "(string \<times> string) list option"
type_synonym float64 = int

definition elems :: "'a slice \<Rightarrow> 'a list" where
  "elems s = (case s of None \<Rightarrow> [] | Some xs \<Rightarrow> xs)"

lemma elems_simps [simp]: "elems None = []" "elems (Some xs) = xs"
  by (simp_all add: elems_def)

text \<open>\<open>append([]T(nil), xs...)\<close>: a copy, nil when there is nothing to copy.\<close>

definition copySlice :: "'a slice \<Rightarrow> 'a slice" where
  "copySlice s = (if elems s = [] then None else Some (elems s))"

lemma elems_copySlice [simp]: "elems (copySlice s) = elems s"
  by (simp add: copySlice_def)

section \<open>Time\<close>

record gotime =
  instant :: int
  zone :: int

definition zeroTime :: gotime where
  "zeroTime = \<lparr>instant = 0, zone = 0\<rparr>"

definition IsZero :: "gotime \<Rightarrow> bool" where
  "IsZero t \<longleftrightarrow> instant t = 0"

definition UTC :: "gotime \<Rightarrow> gotime" where
  "UTC t = t\<lparr>zone := 0\<rparr>"

definition EqualTime :: "gotime \<Rightarrow> gotime \<Rightarrow> bool" where
  "EqualTime t u \<longleftrightarrow> instant t = instant u"

definition AfterTime :: "gotime \<Rightarrow> gotime \<Rightarrow> bool" where
  "AfterTime t u \<longleftrightarrow> instant u < instant t"

text \<open>\<open>time.UnixMicro(l).UTC()\<close>: 719162 days lie between year 1 and 1970.\<close>

definition unixMicro :: "int \<Rightarrow> gotime" where
  "unixMicro l = \<lparr>instant = 719162 * 86400 * 1000000000 + l * 1000, zone = 0\<rparr>"

text \<open>\<open>t.UTC().Year()\<close> lies in 0..9999: year 0 has 366 days, and year 10000 starts
  3652059 days after year 1.\<close>

definition yearInRange :: "gotime \<Rightarrow> bool" where
  "yearInRange t \<longleftrightarrow> - 366 * 86400 * 1000000000 \<le> instant t \<and> instant t < 3652059 * 86400 * 1000000000"

lemma instant_UTC [simp]: "instant (UTC t) = instant t"
  by (simp add: UTC_def)

lemma UTC_UTC [simp]: "UTC (UTC t) = UTC t"
  by (simp add: UTC_def)

lemma EqualTime_UTC [simp]:
  "EqualTime (UTC t) u = EqualTime t u" "EqualTime t (UTC u) = EqualTime t u"
  by (simp_all add: EqualTime_def)

lemma EqualTime_refl [simp]: "EqualTime t t"
  by (simp add: EqualTime_def)

lemma IsZero_UTC [simp]: "IsZero (UTC t) = IsZero t"
  by (simp add: IsZero_def)

section \<open>UTF-8\<close>

definition byteOf :: "char \<Rightarrow> nat" where
  "byteOf c = of_char c"

definition inRange :: "nat \<Rightarrow> nat \<Rightarrow> nat \<Rightarrow> bool" where
  "inRange lo hi b \<longleftrightarrow> lo \<le> b \<and> b \<le> hi"

text \<open>
  \<open>utf8.DecodeRune\<close>: the number of bytes of the well-formed rune at the head of the input,
  0 when the bytes there are not one (an empty input, a bad leading or continuation byte, an
  overlong form, a surrogate or a value above U+10FFFF).
\<close>

definition cont :: "nat \<Rightarrow> bool" where
  "cont b = inRange 128 191 b"

definition runeLen :: "nat list \<Rightarrow> nat" where
  "runeLen bs =
     (case bs of [] \<Rightarrow> 0
      | a # s \<Rightarrow>
         if a < 128 then 1
         else case s of [] \<Rightarrow> 0
         | b # s2 \<Rightarrow>
            if inRange 194 223 a then (if cont b then 2 else 0)
            else case s2 of [] \<Rightarrow> 0
            | c # s3 \<Rightarrow>
               if inRange 224 239 a then
                 (if inRange (if a = 224 then 160 else 128) (if a = 237 then 159 else 191) b \<and> cont c
                  then 3 else 0)
               else case s3 of [] \<Rightarrow> 0
               | d # s4 \<Rightarrow>
                  if inRange 240 244 a \<and>
                     inRange (if a = 240 then 144 else 128) (if a = 244 then 143 else 191) b \<and> cont c \<and> cont d
                  then 4 else 0)"

fun validUTF8 :: "nat list \<Rightarrow> bool" where
  "validUTF8 [] = True"
| "validUTF8 (a # s) = (runeLen (a # s) \<noteq> 0 \<and> validUTF8 (drop (runeLen (a # s) - 1) s))"

definition ValidString :: "string \<Rightarrow> bool" where
  "ValidString s = validUTF8 (map byteOf s)"

lemma validUTF8_ascii: "(\<And>b. b \<in> set bs \<Longrightarrow> b < 128) \<Longrightarrow> validUTF8 bs"
proof (induction bs)
  case (Cons b bs)
  then have "b < 128" by simp
  then have "runeLen (b # bs) = 1" by (simp add: runeLen_def)
  with Cons show ?case by simp
qed simp

section \<open>Bytes\<close>

definition asciiSpace :: "char \<Rightarrow> bool" where
  "asciiSpace c \<longleftrightarrow> c = CHR '' '' \<or> c = CHR 0x09 \<or> c = CHR 0x0A \<or> c = CHR 0x0B \<or> c = CHR 0x0C \<or> c = CHR 0x0D"

text \<open>
  \<open>strings.TrimSpace\<close> and \<open>bytes.TrimSpace\<close>: the UTF-8 forms of the runes for which
  \<open>unicode.IsSpace\<close> holds are cut off at both ends.
\<close>

definition spaceRunes :: "nat list list" where
  "spaceRunes = map (\<lambda>b. [b]) [9, 10, 11, 12, 13, 32] @ [[194, 133], [194, 160], [225, 154, 128]] @
     map (\<lambda>b. [226, 128, b]) ([128..<139] @ [168, 169, 175]) @ [[226, 129, 159], [227, 128, 128]]"

function trimBytes :: "nat list list \<Rightarrow> nat list \<Rightarrow> nat list" where
  "trimBytes sps s =
     (case List.find (\<lambda>w. w \<noteq> [] \<and> take (length w) s = w) sps of None \<Rightarrow> s
      | Some w \<Rightarrow> if s = [] then [] else trimBytes sps (drop (length w) s))"
  by pat_completeness auto
termination by (relation "measure (length \<circ> snd)") (auto dest!: find_SomeD)

declare trimBytes.simps [simp del]

definition TrimSpace :: "string \<Rightarrow> string" where
  "TrimSpace s =
     map char_of (rev (trimBytes (map rev spaceRunes) (rev (trimBytes spaceRunes (map byteOf s)))))"

text \<open>Decimal digits of an integer, as \<open>strconv\<close> and \<open>encoding/json\<close> write it.\<close>

fun digitsOf :: "nat \<Rightarrow> string" where
  "digitsOf n = (if n < 10 then [char_of (48 + n)] else digitsOf (n div 10) @ [char_of (48 + n mod 10)])"

declare digitsOf.simps [simp del]

definition intText :: "int \<Rightarrow> string" where
  "intText i = (if i < 0 then CHR ''-'' # digitsOf (nat (- i)) else digitsOf (nat i))"

end
