(* ===== verification/Json.thy ===== *)
theory Json
  imports GoBase
begin

text \<open>
  What the program uses of \<open>encoding/json\<close>.

  A JSON document is a tree whose strings and object keys keep their raw bodies (the bytes
  between the quotes, escapes included) and whose numbers keep their text, so that writing a
  tree gives back the compact form of the text it was read from. \<open>unquote\<close> and \<open>quote\<close> are
  the translations between raw bodies and Go strings.

  Reading is a lexer followed by a stack machine over the tokens. For \<open>Unmarshal\<close> and
  \<open>Valid\<close> the stack machine refuses more than 10000 nested arrays and objects, the limit
  of the Go scanner.
\<close>

datatype json = JNull | JBool bool | JNum string | JStr string
  | JArr "json list" | JObj "(string \<times> json) list"

section \<open>Lexer\<close>

datatype tok = TNull | TBool bool | TNum string | TStr string
  | TLBrack | TRBrack | TLBrace | TRBrace | TComma | TColon

definition isHex :: "char \<Rightarrow> bool" where
  "isHex c \<longleftrightarrow> inRange 48 57 (byteOf c) \<or> inRange 65 70 (byteOf c) \<or> inRange 97 102 (byteOf c)"

definition hexVal :: "char \<Rightarrow> nat" where
  "hexVal c = (let b = byteOf c in if b \<le> 57 then b - 48 else if b \<le> 70 then b - 55 else b - 87)"

definition isDigit :: "char \<Rightarrow> bool" where
  "isDigit c = inRange 48 57 (byteOf c)"

definition simpleEscape :: "char \<Rightarrow> bool" where
  "simpleEscape c \<longleftrightarrow> c \<in> set [CHR 0x22, CHR 0x5C, CHR ''/'', CHR ''b'', CHR ''f'', CHR ''n'', CHR ''r'', CHR ''t'']"

text \<open>The raw body of a string literal whose opening quote has been read.\<close>

fun lexStr :: "string \<Rightarrow> string \<Rightarrow> (string \<times> string) option" where
  "lexStr acc [] = None"
| "lexStr acc (c # cs) =
     (if c = CHR 0x22 then Some (rev acc, cs)
      else if c = CHR 0x5C then
        (case cs of [] \<Rightarrow> None
         | d # ds \<Rightarrow>
            if simpleEscape d then lexStr (d # c # acc) ds
            else if d = CHR ''u'' then
              (case ds of
                 h1 # h2 # h3 # h4 # r \<Rightarrow>
                   if isHex h1 \<and> isHex h2 \<and> isHex h3 \<and> isHex h4
                   then lexStr (h4 # h3 # h2 # h1 # d # c # acc) r else None
               | _ \<Rightarrow> None)
            else None)
      else if byteOf c < 32 then None
      else lexStr (c # acc) cs)"

lemma lexStr_length: "lexStr acc s = Some (b, r) \<Longrightarrow> length r < length s"
  by (induction acc s rule: lexStr.induct) (fastforce split: if_splits list.splits)+

definition numChar :: "char \<Rightarrow> bool" where
  "numChar c \<longleftrightarrow> isDigit c \<or> c \<in> set ''+-.eE''"

text \<open>The grammar of numbers: optional minus, integer part without leading zeros, optional
  fraction, optional exponent.\<close>

definition expPart :: "string \<Rightarrow> bool" where
  "expPart s =
     (case s of [] \<Rightarrow> True
      | c # cs \<Rightarrow> c \<in> set ''eE'' \<and>
          (let ds = (case cs of d # r \<Rightarrow> if d \<in> set ''+-'' then r else cs | [] \<Rightarrow> cs)
           in ds \<noteq> [] \<and> list_all isDigit ds))"

definition fracPart :: "string \<Rightarrow> bool" where
  "fracPart s =
     (case s of c # cs \<Rightarrow>
        if c = CHR ''.'' then takeWhile isDigit cs \<noteq> [] \<and> expPart (dropWhile isDigit cs) else expPart s
      | [] \<Rightarrow> True)"

definition validNumber :: "string \<Rightarrow> bool" where
  "validNumber s =
     (let u = (case s of c # cs \<Rightarrow> if c = CHR ''-'' then cs else s | [] \<Rightarrow> s) in
      case u of [] \<Rightarrow> False
      | c # cs \<Rightarrow> if c = CHR ''0'' then fracPart cs
                 else isDigit c \<and> fracPart (dropWhile isDigit cs))"

definition jsonSpace :: "char \<Rightarrow> bool" where
  "jsonSpace c \<longleftrightarrow> c \<in> set [CHR '' '', CHR 0x09, CHR 0x0A, CHR 0x0D]"

definition punct :: "char \<Rightarrow> tok option" where
  "punct c =
     (if c = CHR ''['' then Some TLBrack else if c = CHR '']'' then Some TRBrack
      else if c = CHR ''{'' then Some TLBrace else if c = CHR ''}'' then Some TRBrace
      else if c = CHR '','' then Some TComma else if c = CHR '':'' then Some TColon else None)"

definition keyword :: "string \<Rightarrow> (tok \<times> string) option" where
  "keyword s =
     (if take 4 s = ''null'' then Some (TNull, drop 4 s)
      else if take 4 s = ''true'' then Some (TBool True, drop 4 s)
      else if take 5 s = ''false'' then Some (TBool False, drop 5 s) else None)"

lemma keyword_length: "keyword s = Some (t, r) \<Longrightarrow> length r < length s"
proof -
  assume "keyword s = Some (t, r)"
  then have "r = drop 4 s \<and> length (take 4 s) = 4 \<or> r = drop 5 s \<and> length (take 5 s) = 5"
    by (auto simp: keyword_def split: if_splits)
  then show ?thesis by auto
qed

function lex :: "string \<Rightarrow> tok list option" where
  "lex [] = Some []"
| "lex (c # cs) =
     (if jsonSpace c then lex cs
      else case punct c of Some t \<Rightarrow> map_option (Cons t) (lex cs)
      | None \<Rightarrow>
         if c = CHR 0x22 then
           (case lexStr [] cs of None \<Rightarrow> None
            | Some (b, r) \<Rightarrow> map_option (Cons (TStr b)) (lex r))
         else if c = CHR ''-'' \<or> isDigit c then
           (let n = c # takeWhile numChar cs in
            if validNumber n then map_option (Cons (TNum n)) (lex (dropWhile numChar cs)) else None)
         else (case keyword (c # cs) of None \<Rightarrow> None
            | Some (t, r) \<Rightarrow> map_option (Cons t) (lex r)))"
  by pat_completeness auto
termination
  by (relation "measure length")
    (auto dest: lexStr_length keyword_length simp: le_imp_less_Suc length_dropWhile_le)

section \<open>Parser\<close>

text \<open>
  The scanner's parse stack: the elements or members read so far of every open array or
  object, innermost first, and for an object the key whose value is being read. The mode says
  what may come next.
\<close>

datatype frame = FArr "json list" | FObj "(string \<times> json) list" string

datatype mode = MValue | MValueOrClose | MKey | MKeyOrClose | MColon | MNext | MDone json | MFail

definition maxNestingDepth :: nat where
  "maxNestingDepth = 10000"

type_synonym pstate = "mode \<times> frame list"

definition deliver :: "json \<Rightarrow> frame list \<Rightarrow> pstate" where
  "deliver v st =
     (case st of [] \<Rightarrow> (MDone v, [])
      | FArr acc # r \<Rightarrow> (MNext, FArr (v # acc) # r)
      | FObj acc k # r \<Rightarrow> (MNext, FObj ((k, v) # acc) k # r))"

definition openFrame :: "nat option \<Rightarrow> mode \<Rightarrow> frame \<Rightarrow> frame list \<Rightarrow> pstate" where
  "openFrame lim m f st =
     (if case lim of None \<Rightarrow> True | Some n \<Rightarrow> length st < n then (m, f # st) else (MFail, st))"

definition startValue :: "nat option \<Rightarrow> tok \<Rightarrow> frame list \<Rightarrow> pstate" where
  "startValue lim t st =
     (case t of TNull \<Rightarrow> deliver JNull st | TBool b \<Rightarrow> deliver (JBool b) st
      | TNum n \<Rightarrow> deliver (JNum n) st | TStr b \<Rightarrow> deliver (JStr b) st
      | TLBrack \<Rightarrow> openFrame lim MValueOrClose (FArr []) st
      | TLBrace \<Rightarrow> openFrame lim MKeyOrClose (FObj [] []) st
      | _ \<Rightarrow> (MFail, st))"

definition closeFrame :: "tok \<Rightarrow> frame list \<Rightarrow> pstate" where
  "closeFrame t st =
     (case st of [] \<Rightarrow> (MFail, st)
      | FArr acc # r \<Rightarrow> if t = TRBrack then deliver (JArr (rev acc)) r else (MFail, st)
      | FObj acc k # r \<Rightarrow> if t = TRBrace then deliver (JObj (rev acc)) r else (MFail, st))"

definition startKey :: "tok \<Rightarrow> frame list \<Rightarrow> pstate" where
  "startKey t st =
     (case (t, st) of (TStr k, FObj acc k' # r) \<Rightarrow> (MColon, FObj acc k # r) | _ \<Rightarrow> (MFail, st))"

definition nextItem :: "frame list \<Rightarrow> pstate" where
  "nextItem st = (case st of FArr acc # r \<Rightarrow> (MValue, st) | FObj acc k # r \<Rightarrow> (MKey, st) | [] \<Rightarrow> (MFail, st))"

definition stepTok :: "nat option \<Rightarrow> tok \<Rightarrow> pstate \<Rightarrow> pstate" where
  "stepTok lim t p =
     (case p of (m, st) \<Rightarrow>
       case m of MValue \<Rightarrow> startValue lim t st
       | MValueOrClose \<Rightarrow> if t = TRBrack then closeFrame t st else startValue lim t st
       | MKey \<Rightarrow> startKey t st
       | MKeyOrClose \<Rightarrow> if t = TRBrace then closeFrame t st else startKey t st
       | MColon \<Rightarrow> if t = TColon then (MValue, st) else (MFail, st)
       | MNext \<Rightarrow> if t = TComma then nextItem st else closeFrame t st
       | MDone v \<Rightarrow> (MFail, st)
       | MFail \<Rightarrow> (MFail, st))"

definition parseToks :: "nat option \<Rightarrow> tok list \<Rightarrow> json option" where
  "parseToks lim ts = (case fold (stepTok lim) ts (MValue, []) of (MDone v, []) \<Rightarrow> Some v | _ \<Rightarrow> None)"

definition jsonParse :: "string \<Rightarrow> json option" where
  "jsonParse s = Option.bind (lex s) (parseToks (Some maxNestingDepth))"

text \<open>A document read token by token (\<open>Decoder.Token\<close>): the same grammar without the
  limit on nesting, which only the scanner of whole values enforces.\<close>

definition jsonTokens :: "string \<Rightarrow> json option" where
  "jsonTokens s = Option.bind (lex s) (parseToks None)"

definition jsonValid :: "string \<Rightarrow> bool" where
  "jsonValid s \<longleftrightarrow> jsonParse s \<noteq> None"

section \<open>Strings\<close>

definition encodeRune :: "nat \<Rightarrow> string" where
  "encodeRune r =
     map char_of
       (if r < 128 then [r]
        else if r < 2048 then [192 + r div 64, 128 + r mod 64]
        else if r < 65536 then [224 + r div 4096, 128 + r div 64 mod 64, 128 + r mod 64]
        else [240 + r div 262144, 128 + r div 4096 mod 64, 128 + r div 64 mod 64, 128 + r mod 64])"

definition replacement :: string where
  "replacement = encodeRune 65533"

definition hex4 :: "string \<Rightarrow> nat option" where
  "hex4 s =
     (case s of
        a # b # c # d # r \<Rightarrow>
          if isHex a \<and> isHex b \<and> isHex c \<and> isHex d
          then Some (4096 * hexVal a + 256 * hexVal b + 16 * hexVal c + hexVal d) else None
      | _ \<Rightarrow> None)"

definition unescape :: "char \<Rightarrow> char" where
  "unescape d = (if d = CHR ''b'' then CHR 0x08 else if d = CHR ''f'' then CHR 0x0C
     else if d = CHR ''n'' then CHR 0x0A else if d = CHR ''r'' then CHR 0x0D
     else if d = CHR ''t'' then CHR 0x09 else d)"

text \<open>
  The rune of a \<open>\u\<close> escape and the number of further bytes it takes: a surrogate pair
  takes the following escape too, a lone surrogate becomes the replacement character.
\<close>

definition escapedRune :: "nat \<Rightarrow> string \<Rightarrow> nat \<times> nat" where
  "escapedRune r rest =
     (if inRange 55296 57343 r then
        (case (if take 2 rest = [CHR 0x5C, CHR ''u''] then hex4 (drop 2 rest) else None) of
           None \<Rightarrow> (65533, 0)
         | Some r2 \<Rightarrow>
             if r < 56320 \<and> inRange 56320 57343 r2
             then (65536 + 1024 * (r - 55296) + (r2 - 56320), 6) else (65533, 0))
      else (r, 0))"

fun unquote :: "string \<Rightarrow> string" where
  "unquote [] = []"
| "unquote (c # cs) =
     (if c = CHR 0x5C then
        (case cs of [] \<Rightarrow> []
         | d # ds \<Rightarrow>
            if d = CHR ''u'' then
              (case hex4 ds of None \<Rightarrow> []
               | Some r \<Rightarrow> (let p = escapedRune r (drop 4 ds)
                           in encodeRune (fst p) @ unquote (drop (4 + snd p) ds)))
            else unescape d # unquote ds)
      else if byteOf c < 128 then c # unquote cs
      else (let n = runeLen (map byteOf (c # cs)) in
            if n = 0 then replacement @ unquote cs
            else take n (c # cs) @ unquote (drop (n - 1) cs)))"

definition hexDigit :: "nat \<Rightarrow> char" where
  "hexDigit n = (if n < 10 then char_of (48 + n) else char_of (87 + n))"

definition htmlSpecial :: "char \<Rightarrow> bool" where
  "htmlSpecial c \<longleftrightarrow> c = CHR ''<'' \<or> c = CHR ''>'' \<or> c = CHR ''&''"

definition escapeByte :: "char \<Rightarrow> string" where
  "escapeByte c =
     (if c = CHR 0x22 \<or> c = CHR 0x5C then [CHR 0x5C, c]
      else if c = CHR 0x08 then [CHR 0x5C, CHR ''b''] else if c = CHR 0x0C then [CHR 0x5C, CHR ''f'']
      else if c = CHR 0x0A then [CHR 0x5C, CHR ''n''] else if c = CHR 0x0D then [CHR 0x5C, CHR ''r'']
      else if c = CHR 0x09 then [CHR 0x5C, CHR ''t'']
      else if byteOf c < 32 \<or> htmlSpecial c then
        [CHR 0x5C, CHR ''u'', CHR ''0'', CHR ''0'', hexDigit (byteOf c div 16), hexDigit (byteOf c mod 16)]
      else [c])"

text \<open>Line separators (U+2028, U+2029) are escaped, ill-formed bytes become \<open>\ufffd\<close>.\<close>

definition lineSep :: "string \<Rightarrow> string option" where
  "lineSep s =
     (if map byteOf (take 3 s) = [226, 128, 168] then Some (CHR 0x5C # ''u2028'')
      else if map byteOf (take 3 s) = [226, 128, 169] then Some (CHR 0x5C # ''u2029'') else None)"

fun quote :: "string \<Rightarrow> string" where
  "quote [] = []"
| "quote (c # cs) =
     (if byteOf c < 128 then escapeByte c @ quote cs
      else (let n = runeLen (map byteOf (c # cs)) in
            if n = 0 then (CHR 0x5C # ''ufffd'') @ quote cs
            else (case lineSep (c # cs) of Some e \<Rightarrow> e | None \<Rightarrow> take n (c # cs)) @ quote (drop (n - 1) cs)))"

text \<open>A raw body as \<open>json.Marshal\<close> re-emits it from a \<open>json.RawMessage\<close>.\<close>

fun htmlEscape :: "string \<Rightarrow> string" where
  "htmlEscape [] = []"
| "htmlEscape (c # cs) =
     (if htmlSpecial c then escapeByte c @ htmlEscape cs
      else case lineSep (c # cs) of Some e \<Rightarrow> e @ htmlEscape (drop 2 cs)
      | None \<Rightarrow> c # htmlEscape cs)"

section \<open>Writing\<close>

fun joinWith :: "string \<Rightarrow> string list \<Rightarrow> string" where
  "joinWith sep [] = []"
| "joinWith sep [x] = x"
| "joinWith sep (x # xs) = x @ sep @ joinWith sep xs"

fun emit :: "json \<Rightarrow> string" where
  "emit JNull = ''null''"
| "emit (JBool b) = (if b then ''true'' else ''false'')"
| "emit (JNum n) = n"
| "emit (JStr b) = CHR 0x22 # b @ [CHR 0x22]"
| "emit (JArr vs) = CHR ''['' # joinWith '','' (map emit vs) @ '']''"
| "emit (JObj kvs) = CHR ''{'' # joinWith '','' (map (\<lambda>(k, v). CHR 0x22 # k @ [CHR 0x22, CHR '':''] @ emit v) kvs) @ ''}''"

fun escapeTree :: "json \<Rightarrow> json" where
  "escapeTree (JStr b) = JStr (htmlEscape b)"
| "escapeTree (JArr vs) = JArr (map escapeTree vs)"
| "escapeTree (JObj kvs) = JObj (map (\<lambda>(k, v). (htmlEscape k, escapeTree v)) kvs)"
| "escapeTree v = v"

definition jstr :: "string \<Rightarrow> json" where
  "jstr s = JStr (quote s)"

definition jint :: "int \<Rightarrow> json" where
  "jint i = JNum (intText i)"

text \<open>The JSON of a raw message: nil is \<open>null\<close>, invalid bytes are an error.\<close>

definition jraw :: "string \<Rightarrow> json option" where
  "jraw r = (if r = [] then Some JNull else map_option escapeTree (jsonParse r))"

section \<open>Object members\<close>

text \<open>Members by key, the last one winning, as \<open>Unmarshal\<close> into a struct does.\<close>

definition member :: "string \<Rightarrow> (string \<times> json) list \<Rightarrow> json option" where
  "member k kvs = map_of (rev (map (\<lambda>(j, v). (unquote j, v)) kvs)) k"

end
