(* ===== verification/JsonText.thy ===== *)
theory JsonText
  imports Json
begin

text \<open>
  Writing and reading JSON: the text of a tree reads back as that tree, so the bytes of a
  \<open>json.RawMessage\<close> that were written once are a fixed point of writing.
\<close>

section \<open>String bodies\<close>

text \<open>The bytes between two quotes: whole characters and escapes.\<close>

inductive body :: "string \<Rightarrow> bool" where
  body_Nil: "body []"
| body_plain: "c \<noteq> CHR 0x22 \<Longrightarrow> c \<noteq> CHR 0x5C \<Longrightarrow> \<not> byteOf c < 32 \<Longrightarrow> body cs \<Longrightarrow> body (c # cs)"
| body_simple: "simpleEscape d \<Longrightarrow> body cs \<Longrightarrow> body (CHR 0x5C # d # cs)"
| body_hex: "isHex h1 \<Longrightarrow> isHex h2 \<Longrightarrow> isHex h3 \<Longrightarrow> isHex h4 \<Longrightarrow> body cs \<Longrightarrow>
    body (CHR 0x5C # CHR ''u'' # h1 # h2 # h3 # h4 # cs)"

inductive_cases body_ConsE: "body (c # cs)"

lemma body_append: "body u \<Longrightarrow> body v \<Longrightarrow> body (u @ v)"
  by (induction u rule: body.induct) (auto intro: body.intros)

lemma body_lex: "body b \<Longrightarrow> lexStr acc (b @ CHR 0x22 # r) = Some (rev acc @ b, r)"
  by (induction b arbitrary: acc rule: body.induct) (auto simp: simpleEscape_def)

lemma lexStr_body:
  "lexStr acc s = Some (b, r) \<Longrightarrow> \<exists>w. b = rev acc @ w \<and> s = w @ CHR 0x22 # r \<and> body w"
proof (induction acc s rule: lexStr.induct)
  case (2 acc c cs)
  consider "c = CHR 0x22" | "c \<noteq> CHR 0x22" "c = CHR 0x5C" | "c \<noteq> CHR 0x22" "c \<noteq> CHR 0x5C" by blast
  then show ?case
  proof cases
    case 1
    with 2 show ?thesis by (simp add: body_Nil)
  next
    case plain: 3
    then have nb: "\<not> byteOf c < 32" using 2 by (auto split: if_splits)
    then obtain w where w: "b = rev (c # acc) @ w" "cs = w @ CHR 0x22 # r" "body w"
      using 2(3,4) plain by auto
    with plain nb show ?thesis by (intro exI [of _ "c # w"]) (simp add: body_plain)
  next
    case esc: 2
    then obtain d ds where cs: "cs = d # ds" using 2 by (cases cs) auto
    show ?thesis
    proof (cases "simpleEscape d")
      case True
      then obtain w where w: "b = rev (d # c # acc) @ w" "ds = w @ CHR 0x22 # r" "body w"
        using 2(1) [OF esc cs True] 2(4) esc cs by auto
      with True cs esc show ?thesis by (intro exI [of _ "CHR 0x5C # d # w"]) (simp add: body_simple)
    next
      case False
      with 2 esc cs obtain h1 h2 h3 h4 rest where ds: "d = CHR ''u''" "ds = h1 # h2 # h3 # h4 # rest"
        "isHex h1 \<and> isHex h2 \<and> isHex h3 \<and> isHex h4" "lexStr (h4 # h3 # h2 # h1 # d # c # acc) rest = Some (b, r)"
        by (auto split: if_splits list.splits)
      then have "\<exists>w. b = rev (h4 # h3 # h2 # h1 # d # c # acc) @ w \<and> rest = w @ CHR 0x22 # r \<and> body w"
        using 2(2) [OF esc cs False ds(1)] ds by simp
      then obtain w where w: "b = rev (h4 # h3 # h2 # h1 # d # c # acc) @ w" "rest = w @ CHR 0x22 # r" "body w"
        by blast
      with cs ds esc show ?thesis
        by (intro exI [of _ "CHR 0x5C # CHR ''u'' # h1 # h2 # h3 # h4 # w"]) (simp add: body_hex)
    qed
  qed
qed simp

text \<open>Escaping keeps a body a body, and a second time changes nothing.\<close>

lemma hexDigit_isHex: "n < 16 \<Longrightarrow> isHex (hexDigit n)"
  by (auto simp: hexDigit_def isHex_def inRange_def byteOf_def)

lemma escapeByte_body: "byteOf c < 128 \<Longrightarrow> body (escapeByte c)"
proof -
  assume c: "byteOf c < 128"
  have "body [c]" if "c \<noteq> CHR 0x22" "c \<noteq> CHR 0x5C" "\<not> byteOf c < 32" using that by (intro body.intros)
  moreover have "body [CHR 0x5C, d]" if "d \<in> {CHR 0x22, CHR 0x5C, CHR ''b'', CHR ''f'', CHR ''n'', CHR ''r'', CHR ''t''}" for d
    using that by (intro body.intros) (auto simp: simpleEscape_def)
  moreover have "body [CHR 0x5C, CHR ''u'', CHR ''0'', CHR ''0'', hexDigit (byteOf c div 16), hexDigit (byteOf c mod 16)]"
    using c by (intro body.intros hexDigit_isHex) (auto simp: isHex_def inRange_def byteOf_def)
  ultimately show ?thesis unfolding escapeByte_def by (simp split: if_split)
qed

lemma hex_plain: "isHex h \<Longrightarrow> \<not> htmlSpecial h \<and> byteOf h < 128"
  by (auto simp: isHex_def inRange_def byteOf_def htmlSpecial_def)

lemma htmlEscape_ascii:
  "byteOf c < 128 \<Longrightarrow> \<not> htmlSpecial c \<Longrightarrow> htmlEscape (c # cs) = c # htmlEscape cs"
  by (auto simp: lineSep_def)

declare htmlEscape.simps(2) [simp del]

lemma body_high: "body (c # cs) \<Longrightarrow> 127 < byteOf c \<Longrightarrow> body cs"
  by (erule body_ConsE) (auto simp: byteOf_def)

lemma lineSep_cases:
  assumes "lineSep (c # cs) = Some e"
  obtains x y r where "cs = x # y # r" "127 < byteOf c" "127 < byteOf x" "127 < byteOf y"
    "e = CHR 0x5C # ''u2028'' \<or> e = CHR 0x5C # ''u2029''"
  using assms by (cases cs; cases "tl cs") (auto simp: lineSep_def split: if_splits)

lemma body_htmlEscape: "body b \<Longrightarrow> body (htmlEscape b)"
proof (induction b rule: length_induct)
  case (1 b)
  show ?case using 1(2)
  proof (cases rule: body.cases)
    case (body_plain c cs)
    consider "htmlSpecial c"
      | e where "\<not> htmlSpecial c" "lineSep (c # cs) = Some e"
      | "\<not> htmlSpecial c" "lineSep (c # cs) = None" by (meson option.exhaust)
    then show ?thesis
    proof cases
      case 1
      then have "body (escapeByte c)" by (intro escapeByte_body) (auto simp: byteOf_def htmlSpecial_def)
      with 1 body_plain show ?thesis using \<open>\<forall>ys. _\<close> by (simp add: htmlEscape.simps(2) body_append)
    next
      case (2 e)
      from 2(2) show ?thesis
      proof (cases rule: lineSep_cases)
        case (1 x y r)
        then have "body r" using body_plain body_high by metis
        moreover have "body e" using 1(5) by (auto intro!: body_hex body_Nil simp: isHex_def inRange_def byteOf_def)
        ultimately show ?thesis
          using \<open>\<forall>ys. _\<close> 1 2 body_plain by (simp add: htmlEscape.simps(2) body_append)
      qed
    next
      case 3
      with body_plain show ?thesis
        using \<open>\<forall>ys. _\<close> by (simp add: htmlEscape.simps(2) body.body_plain)
    qed
  next
    case (body_simple d cs)
    moreover have "byteOf d < 128 \<and> \<not> htmlSpecial d"
      using body_simple by (auto simp: simpleEscape_def byteOf_def htmlSpecial_def)
    moreover have "body (htmlEscape cs)" using 1(1) body_simple by simp
    ultimately show ?thesis by (simp add: htmlEscape_ascii body.body_simple byteOf_def htmlSpecial_def)
  next
    case (body_hex h1 h2 h3 h4 cs)
    moreover have "body (htmlEscape cs)" using 1(1) body_hex by simp
    ultimately show ?thesis
      using hex_plain [of h1] hex_plain [of h2] hex_plain [of h3] hex_plain [of h4]
      by (simp add: htmlEscape_ascii body.body_hex byteOf_def htmlSpecial_def)
  qed (simp add: body_Nil)
qed

lemma htmlEscape_ascii_append:
  "\<forall>c \<in> set w. byteOf c < 128 \<and> \<not> htmlSpecial c \<Longrightarrow> htmlEscape (w @ s) = w @ htmlEscape s"
  by (induction w) (auto simp: htmlEscape_ascii)

lemma escapeByte_html:
  "htmlSpecial c \<Longrightarrow>
     \<forall>d \<in> set (escapeByte c). byteOf d < 128 \<and> \<not> htmlSpecial d"
proof -
  have "list_all (\<lambda>c. list_all (\<lambda>d. byteOf d < 128 \<and> \<not> htmlSpecial d) (escapeByte c)) ''<>&''"
    by code_simp
  then show "htmlSpecial c \<Longrightarrow> ?thesis" by (auto simp: htmlSpecial_def [of c] list_all_iff)
qed

lemma escapeByte_nonempty: "escapeByte c = [] \<Longrightarrow> False"
  by (simp add: escapeByte_def split: if_split_asm)

lemma htmlEscape_high:
  assumes "htmlEscape s = x # t" "127 < byteOf x" shows "\<exists>r. s = x # r \<and> t = htmlEscape r"
proof (cases s)
  case (Cons c cs)
  have "\<not> htmlSpecial c"
  proof
    assume c: "htmlSpecial c"
    then have "x \<in> set (escapeByte c)"
      using assms(1) by (cases "escapeByte c") (auto simp: Cons htmlEscape.simps(2) dest: escapeByte_nonempty)
    then show False using escapeByte_html [OF c] assms(2) by auto
  qed
  moreover have "lineSep (c # cs) = None"
  proof (rule ccontr)
    assume "lineSep (c # cs) \<noteq> None"
    then obtain e where e: "lineSep (c # cs) = Some e" by auto
    then have "hd e = CHR 0x5C \<and> e \<noteq> []" by (auto elim!: lineSep_cases)
    then show False using assms e calculation by (cases e) (auto simp: Cons htmlEscape.simps(2) byteOf_def)
  qed
  ultimately show ?thesis using assms(1) by (auto simp: Cons htmlEscape.simps(2))
qed (use assms in simp)

lemma lineSep_htmlEscape:
  assumes "lineSep (c # cs) = None" shows "lineSep (c # htmlEscape cs) = None"
proof (rule ccontr)
  assume "lineSep (c # htmlEscape cs) \<noteq> None"
  then obtain e where e: "lineSep (c # htmlEscape cs) = Some e" by auto
  then obtain x y r where h: "htmlEscape cs = x # y # r" "127 < byteOf x" "127 < byteOf y"
    by (rule lineSep_cases)
  then obtain cs1 where c1: "cs = x # cs1" "htmlEscape cs1 = y # r" by (metis htmlEscape_high)
  then obtain cs2 where "cs1 = y # cs2" using h by (metis htmlEscape_high)
  then have "lineSep (c # cs) = lineSep (c # x # y # r)" using c1 by (simp add: lineSep_def eval_nat_numeral)
  with h e assms show False by simp
qed

lemma htmlEscape_idem [simp]: "htmlEscape (htmlEscape s) = htmlEscape s"
proof (induction s rule: length_induct)
  case (1 s)
  show ?case
  proof (cases s)
    case (Cons c cs)
    consider "htmlSpecial c"
      | e where "\<not> htmlSpecial c" "lineSep (c # cs) = Some e"
      | "\<not> htmlSpecial c" "lineSep (c # cs) = None" by (meson option.exhaust)
    then show ?thesis
    proof cases
      case 1
      then show ?thesis using \<open>\<forall>ys. _\<close> htmlEscape_ascii_append [OF escapeByte_html [OF 1]]
        by (simp add: Cons htmlEscape.simps(2))
    next
      case (2 e)
      then have "\<forall>d \<in> set e. byteOf d < 128 \<and> \<not> htmlSpecial d"
        by (auto elim!: lineSep_cases simp: byteOf_def htmlSpecial_def)
      then show ?thesis using 2 \<open>\<forall>ys. _\<close>
        by (simp add: Cons htmlEscape.simps(2) htmlEscape_ascii_append)
    next
      case 3
      then show ?thesis using \<open>\<forall>ys. _\<close>
        by (simp add: Cons htmlEscape.simps(2) lineSep_htmlEscape)
    qed
  qed simp
qed

section \<open>Texts of trees\<close>

fun wfJson :: "json \<Rightarrow> bool" where
  "wfJson (JNum n) = validNumber n"
| "wfJson (JStr b) = (lexStr [] (b @ [CHR 0x22]) = Some (b, []))"
| "wfJson (JArr vs) = list_all wfJson vs"
| "wfJson (JObj kvs) = list_all (\<lambda>(k, v). lexStr [] (k @ [CHR 0x22]) = Some (k, []) \<and> wfJson v) kvs"
| "wfJson _ = True"

fun depth :: "json \<Rightarrow> nat" where
  "depth (JArr vs) = Suc (foldr max (map depth vs) 0)"
| "depth (JObj kvs) = Suc (foldr max (map (\<lambda>(k, v). depth v) kvs) 0)"
| "depth _ = 0"

fun sepBy :: "'a list \<Rightarrow> 'a list list \<Rightarrow> 'a list" where
  "sepBy sep [] = []"
| "sepBy sep [x] = x"
| "sepBy sep (x # xs) = x @ sep @ sepBy sep xs"

fun toks :: "json \<Rightarrow> tok list" where
  "toks JNull = [TNull]"
| "toks (JBool b) = [TBool b]"
| "toks (JNum n) = [TNum n]"
| "toks (JStr b) = [TStr b]"
| "toks (JArr vs) = TLBrack # sepBy [TComma] (map toks vs) @ [TRBrack]"
| "toks (JObj kvs) = TLBrace # sepBy [TComma] (map (\<lambda>(k, v). TStr k # TColon # toks v) kvs) @ [TRBrace]"

lemma lexStr_iff_body: "lexStr [] (b @ [CHR 0x22]) = Some (b, []) \<longleftrightarrow> body b"
  using lexStr_body [of "[]" "b @ [CHR 0x22]" b "[]"] body_lex [of b "[]" "[]"] by auto

lemma lex_punct: "punct c = Some t \<Longrightarrow> lex (c # cs) = map_option (Cons t) (lex cs)"
  by (auto simp: punct_def jsonSpace_def split: if_splits)

lemma lex_string: "body b \<Longrightarrow> lex (CHR 0x22 # b @ CHR 0x22 # r) = map_option (Cons (TStr b)) (lex r)"
  using body_lex [of b "[]" r] by (simp add: punct_def jsonSpace_def)

definition stops :: "string \<Rightarrow> bool" where
  "stops s \<longleftrightarrow> s = [] \<or> \<not> numChar (hd s)"

definition numShape :: "string \<Rightarrow> string \<Rightarrow> string \<Rightarrow> string \<Rightarrow> bool" where
  "numShape u w f e \<longleftrightarrow> u = w @ f @ e \<and> w \<noteq> [] \<and> list_all isDigit w \<and>
     (f = [] \<or> (\<exists>g. f = CHR ''.'' # g \<and> list_all isDigit g)) \<and> expPart e"

lemma fracPart_shape:
  assumes "fracPart s"
  obtains f e where "s = f @ e" "f = [] \<or> (\<exists>g. f = CHR ''.'' # g \<and> list_all isDigit g)" "expPart e"
proof (cases "s \<noteq> [] \<and> hd s = CHR ''.''")
  case True
  then obtain cs where s: "s = CHR ''.'' # cs" by (cases s) auto
  show ?thesis
  proof (rule that)
    show "s = (CHR ''.'' # takeWhile isDigit cs) @ dropWhile isDigit cs" by (simp add: s)
    show "expPart (dropWhile isDigit cs)" using assms by (simp add: s fracPart_def)
  qed (auto simp: list_all_iff dest: set_takeWhileD)
next
  case False
  then have "expPart s" using assms by (cases s) (auto simp: fracPart_def expPart_def)
  then show ?thesis using that [of "[]" s] by simp
qed

lemma validNumber_shape:
  assumes "validNumber n"
  obtains w f e where "numShape (if take 1 n = ''-'' then drop 1 n else n) w f e"
proof -
  define u where "u = (if take 1 n = ''-'' then drop 1 n else n)"
  have u: "u = (case n of c # cs \<Rightarrow> if c = CHR ''-'' then cs else n | [] \<Rightarrow> n)"
    by (cases n) (auto simp: u_def)
  obtain c cs where uc: "u = c # cs"
    and v: "if c = CHR ''0'' then fracPart cs else isDigit c \<and> fracPart (dropWhile isDigit cs)"
    using assms unfolding validNumber_def Let_def u [symmetric] by (cases u) auto
  show ?thesis
  proof (cases "c = CHR ''0''")
    case True
    with v have "fracPart cs" by simp
    then obtain f e where "cs = f @ e" "f = [] \<or> (\<exists>g. f = CHR ''.'' # g \<and> list_all isDigit g)" "expPart e"
      by (rule fracPart_shape)
    with True have "numShape u [c] f e"
      by (simp add: numShape_def uc isDigit_def inRange_def byteOf_def)
    then show ?thesis using that by (simp add: u_def)
  next
    case False
    with v have "fracPart (dropWhile isDigit cs)" by simp
    then obtain f e where fe: "dropWhile isDigit cs = f @ e"
      "f = [] \<or> (\<exists>g. f = CHR ''.'' # g \<and> list_all isDigit g)" "expPart e"
      by (rule fracPart_shape)
    have "u = (c # takeWhile isDigit cs) @ f @ e"
      using takeWhile_dropWhile_id [of isDigit cs] by (simp add: uc flip: fe(1))
    moreover have "list_all isDigit (c # takeWhile isDigit cs)"
      using False v by (auto simp: list_all_iff dest: set_takeWhileD)
    ultimately have "numShape u (c # takeWhile isDigit cs) f e"
      using fe by (simp add: numShape_def)
    then show ?thesis using that by (simp add: u_def)
  qed
qed

lemma validNumber_chars:
  assumes "validNumber n"
  obtains c cs where "n = c # cs" "c = CHR ''-'' \<or> isDigit c" "list_all numChar cs"
proof -
  obtain w f e where sh: "numShape (if take 1 n = ''-'' then drop 1 n else n) w f e"
    using assms by (rule validNumber_shape)
  have e: "list_all numChar e"
    using sh by (cases e) (auto simp: numShape_def expPart_def Let_def numChar_def list_all_iff split: list.splits if_splits)
  have "list_all numChar w" "list_all numChar f"
    using sh by (auto simp: numShape_def list_all_iff numChar_def)
  with e have all: "list_all numChar (w @ f @ e)" by simp
  obtain a as where w: "w = a # as" "isDigit a" using sh by (cases w) (auto simp: numShape_def)
  show ?thesis
  proof (cases "take 1 n = ''-''")
    case True
    then have "n = CHR ''-'' # drop 1 n" by (cases n) auto
    moreover have "drop 1 n = w @ f @ e" using sh True by (simp add: numShape_def)
    ultimately show ?thesis using that [of "CHR ''-''" "w @ f @ e"] all by metis
  next
    case False
    then have "n = a # as @ f @ e" using sh w by (simp add: numShape_def)
    then show ?thesis using that [of a "as @ f @ e"] all w by simp
  qed
qed

lemma lex_number:
  assumes "validNumber n" "stops r" shows "lex (n @ r) = map_option (Cons (TNum n)) (lex r)"
proof -
  obtain c cs where n: "n = c # cs" "c = CHR ''-'' \<or> isDigit c" "list_all numChar cs"
    using assms(1) by (rule validNumber_chars)
  have "\<not> jsonSpace c" "punct c = None" "c \<noteq> CHR 0x22"
    using n(2) by (auto simp: jsonSpace_def punct_def isDigit_def inRange_def byteOf_def)
  moreover have "takeWhile numChar (cs @ r) = cs" "dropWhile numChar (cs @ r) = r"
    using n(3) assms(2) by (cases r; auto simp: stops_def list_all_iff takeWhile_append dropWhile_append)+
  ultimately show ?thesis using n assms(1) by simp
qed

lemma lex_keywords:
  "lex (''null'' @ r) = map_option (Cons TNull) (lex r)"
  "lex (''true'' @ r) = map_option (Cons (TBool True)) (lex r)"
  "lex (''false'' @ r) = map_option (Cons (TBool False)) (lex r)"
  by (simp_all add: jsonSpace_def punct_def isDigit_def inRange_def byteOf_def keyword_def)

declare lex.simps(2) [simp del]

lemma joinWith_sepBy: "joinWith sep xs = sepBy sep xs"
  by (induction sep xs rule: joinWith.induct) auto

text \<open>Lexing a separated sequence whose items lex one by one.\<close>

lemma lex_sepBy:
  assumes items: "\<And>x r. x \<in> set xs \<Longrightarrow> stops r \<Longrightarrow> lex (f x @ r) = map_option ((@) (g x)) (lex r)"
    and "stops r"
  shows "lex (sepBy '','' (map f xs) @ r) = map_option ((@) (sepBy [TComma] (map g xs))) (lex r)"
  using items
proof (induction xs)
  case Nil
  then show ?case by (simp add: option.map_ident)
next
  case (Cons x xs)
  have comma: "lex (CHR '','' # s) = map_option (Cons TComma) (lex s)" for s
    by (simp add: lex_punct punct_def)
  have st: "stops (CHR '','' # s)" for s by (simp add: stops_def numChar_def isDigit_def inRange_def byteOf_def)
  show ?case
  proof (cases xs)
    case Nil
    then show ?thesis using Cons assms(2) by simp
  next
    case (Cons y ys)
    then have eq: "sepBy '','' (map f (x # xs)) @ r = f x @ CHR '','' # (sepBy '','' (map f xs) @ r)"
      and eq': "sepBy [TComma] (map g (x # xs)) = g x @ TComma # sepBy [TComma] (map g xs)" by simp_all
    have "lex (f x @ CHR '','' # (sepBy '','' (map f xs) @ r)) =
        map_option ((@) (g x)) (map_option (Cons TComma) (lex (sepBy '','' (map f xs) @ r)))"
      using Cons.prems st by (simp add: comma)
    also have "\<dots> = map_option ((@) (g x)) (map_option (Cons TComma) (map_option ((@) (sepBy [TComma] (map g xs))) (lex r)))"
      using Cons.IH Cons.prems by simp
    finally show ?thesis unfolding eq eq' by (simp add: option.map_comp comp_def)
  qed
qed

lemma lex_emit:
  "wfJson j \<Longrightarrow> stops r \<Longrightarrow> lex (emit j @ r) = map_option ((@) (toks j)) (lex r)"
proof (induction j arbitrary: r rule: emit.induct)
  case (3 n)
  then show ?case using lex_number by simp
next
  case (4 b)
  then show ?case using lex_string by (simp add: lexStr_iff_body)
next
  case (5 vs)
  have st: "stops (CHR '']'' # s)" for s by (simp add: stops_def numChar_def isDigit_def inRange_def byteOf_def)
  have "lex (sepBy '','' (map emit vs) @ CHR '']'' # r) = map_option ((@) (sepBy [TComma] (map toks vs))) (lex (CHR '']'' # r))"
    using 5 by (intro lex_sepBy st) (auto simp: list_all_iff)
  then show ?case by (simp add: joinWith_sepBy lex_punct punct_def option.map_comp comp_def)
next
  case (6 kvs)
  let ?e = "\<lambda>(k, v). CHR 0x22 # k @ [CHR 0x22, CHR '':''] @ emit v" and ?t = "\<lambda>(k, v). TStr k # TColon # toks v"
  have st: "stops (CHR ''}'' # s)" for s by (simp add: stops_def numChar_def isDigit_def inRange_def byteOf_def)
  have item: "lex (?e x @ s) = map_option ((@) (?t x)) (lex s)" if x: "x \<in> set kvs" "stops s" for x s
  proof -
    obtain k v where kv: "x = (k, v)" by (cases x)
    have "body k" "wfJson v" using 6(2) x by (auto simp: kv list_all_iff lexStr_iff_body)
    then have "lex (CHR 0x22 # k @ CHR 0x22 # CHR '':'' # emit v @ s) =
        map_option (Cons (TStr k)) (map_option (Cons TColon) (map_option ((@) (toks v)) (lex s)))"
      using 6(1) [of "(k, v)"] x by (simp add: kv lex_string lex_punct punct_def)
    then show ?thesis by (cases "lex s") (simp_all add: kv)
  qed
  have "lex (sepBy '','' (map ?e kvs) @ CHR ''}'' # r) = map_option ((@) (sepBy [TComma] (map ?t kvs))) (lex (CHR ''}'' # r))"
    using item by (intro lex_sepBy st)
  then show ?case by (simp add: joinWith_sepBy lex_punct punct_def option.map_comp comp_def)
next
  case (1 r)
  show ?case using lex_keywords(1) by (cases "lex r") auto
next
  case (2 b r)
  show ?case using lex_keywords(2,3) by (cases "lex r") auto
qed

section \<open>Trees of texts\<close>

definition inLimit :: "nat option \<Rightarrow> nat \<Rightarrow> bool" where
  "inLimit limit n \<longleftrightarrow> (case limit of None \<Rightarrow> True | Some m \<Rightarrow> n \<le> m)"

lemma toks_start: "\<exists>t ts. toks j = t # ts \<and> t \<noteq> TRBrack"
  by (cases j) auto

lemma step_MValueOrClose: "t \<noteq> TRBrack \<Longrightarrow> stepTok limit t (MValueOrClose, st) = stepTok limit t (MValue, st)"
  by (simp add: stepTok_def)

lemma step_openArr: "inLimit limit (Suc (length st)) \<Longrightarrow> stepTok limit TLBrack (MValue, st) = (MValueOrClose, FArr [] # st)"
  by (auto simp: stepTok_def startValue_def openFrame_def inLimit_def split: option.splits)

lemma step_openObj: "inLimit limit (Suc (length st)) \<Longrightarrow> stepTok limit TLBrace (MValue, st) = (MKeyOrClose, FObj [] [] # st)"
  by (auto simp: stepTok_def startValue_def openFrame_def inLimit_def split: option.splits)

lemma step_close:
  "stepTok limit TRBrack (MNext, FArr acc # st) = deliver (JArr (rev acc)) st"
  "stepTok limit TRBrace (MNext, FObj ms k # st) = deliver (JObj (rev ms)) st"
  by (simp_all add: stepTok_def closeFrame_def)

lemma fold_elems:
  assumes "vs \<noteq> []"
    and "\<And>v acc. v \<in> set vs \<Longrightarrow> fold (stepTok limit) (toks v) (MValue, FArr acc # st) = deliver v (FArr acc # st)"
  shows "fold (stepTok limit) (sepBy [TComma] (map toks vs)) (MValue, FArr acc # st) = (MNext, FArr (rev vs @ acc) # st)"
  using assms
proof (induction vs arbitrary: acc)
  case (Cons v vs)
  then have v: "fold (stepTok limit) (toks v) (MValue, FArr acc # st) = (MNext, FArr (v # acc) # st)"
    by (simp add: deliver_def)
  show ?case
  proof (cases vs)
    case Nil
    then show ?thesis using v by simp
  next
    case (Cons w ws)
    have "stepTok limit TComma (MNext, FArr (v # acc) # st) = (MValue, FArr (v # acc) # st)"
      by (simp add: stepTok_def nextItem_def)
    then show ?thesis using v Cons Cons.IH [of "v # acc"] Cons.prems by simp
  qed
qed simp

lemma fold_members:
  assumes "kvs \<noteq> []"
    and "\<And>k v acc j. (k, v) \<in> set kvs \<Longrightarrow> fold (stepTok limit) (toks v) (MValue, FObj acc j # st) = deliver v (FObj acc j # st)"
    and "m = MKey \<or> m = MKeyOrClose"
  shows "\<exists>k'. fold (stepTok limit) (sepBy [TComma] (map (\<lambda>(k, v). TStr k # TColon # toks v) kvs)) (m, FObj acc k0 # st) =
    (MNext, FObj (rev kvs @ acc) k' # st)"
  using assms
proof (induction kvs arbitrary: acc k0 m)
  case (Cons kv kvs)
  obtain k v where kv: "kv = (k, v)" by (cases kv)
  have "stepTok limit TColon (stepTok limit (TStr k) (m, FObj acc k0 # st)) = (MValue, FObj acc k # st)"
    using Cons.prems(3) by (auto simp: stepTok_def startKey_def)
  moreover have "fold (stepTok limit) (toks v) (MValue, FObj acc k # st) = (MNext, FObj ((k, v) # acc) k # st)"
    using Cons.prems(2) [of k v acc k] by (simp add: kv deliver_def)
  ultimately have v: "fold (stepTok limit) (TStr k # TColon # toks v) (m, FObj acc k0 # st) = (MNext, FObj ((k, v) # acc) k # st)"
    by simp
  show ?case
  proof (cases kvs)
    case Nil
    then show ?thesis using v by (simp add: kv)
  next
    case (Cons w ws)
    have "stepTok limit TComma (MNext, FObj ((k, v) # acc) k # st) = (MKey, FObj ((k, v) # acc) k # st)"
      by (simp add: stepTok_def nextItem_def)
    moreover have "\<exists>k'. fold (stepTok limit) (sepBy [TComma] (map (\<lambda>(k, v). TStr k # TColon # toks v) kvs))
        (MKey, FObj ((k, v) # acc) k # st) = (MNext, FObj (rev kvs @ (k, v) # acc) k' # st)"
      using Cons Cons.prems(2) by (intro Cons.IH) auto
    ultimately show ?thesis using v Cons by (simp add: kv)
  qed
qed simp

lemma depth_elem: "x \<in> set xs \<Longrightarrow> f x \<le> foldr max (map f xs) (0::nat)"
  by (induction xs) auto

lemma inLimit_mono: "inLimit limit n \<Longrightarrow> m \<le> n \<Longrightarrow> inLimit limit m"
  by (auto simp: inLimit_def split: option.splits)

lemma parse_toks:
  "inLimit limit (depth j + length st) \<Longrightarrow> fold (stepTok limit) (toks j) (MValue, st) = deliver j st"
proof (induction j arbitrary: st rule: toks.induct)
  case (5 vs)
  have o: "stepTok limit TLBrack (MValue, st) = (MValueOrClose, FArr [] # st)"
    using 5(2) by (intro step_openArr) (auto elim: inLimit_mono)
  show ?case
  proof (cases "vs = []")
    case True
    then show ?thesis using o by (simp add: stepTok_def closeFrame_def)
  next
    case False
    have d: "inLimit limit (depth v + length (f # st))" if "v \<in> set vs" for v and f :: frame
      using 5(2) depth_elem [OF that, of depth] by (auto elim: inLimit_mono)
    obtain w ws t ts where w: "vs = w # ws" "toks w = t # ts" "t \<noteq> TRBrack"
      using False toks_start by (metis neq_Nil_conv)
    have start: "fold (stepTok limit) (sepBy [TComma] (map toks vs)) (MValueOrClose, FArr [] # st) =
        fold (stepTok limit) (sepBy [TComma] (map toks vs)) (MValue, FArr [] # st)"
      using w by (cases ws) (simp_all add: step_MValueOrClose)
    have "fold (stepTok limit) (sepBy [TComma] (map toks vs)) (MValue, FArr [] # st) = (MNext, FArr (rev vs @ []) # st)"
      using False 5(1) d by (intro fold_elems) auto
    then show ?thesis using o start by (simp add: step_close)
  qed
next
  case (6 kvs)
  have o: "stepTok limit TLBrace (MValue, st) = (MKeyOrClose, FObj [] [] # st)"
    using 6(2) by (intro step_openObj) (auto elim: inLimit_mono)
  show ?case
  proof (cases "kvs = []")
    case True
    then show ?thesis using o by (simp add: stepTok_def closeFrame_def)
  next
    case False
    have d: "inLimit limit (depth v + length (f # st))" if "(k, v) \<in> set kvs" for k v and f :: frame
      using 6(2) depth_elem [OF that, of "\<lambda>(k, v). depth v"] by (auto elim: inLimit_mono)
    obtain k' where "fold (stepTok limit) (sepBy [TComma] (map (\<lambda>(k, v). TStr k # TColon # toks v) kvs))
        (MKeyOrClose, FObj [] [] # st) = (MNext, FObj (rev kvs @ []) k' # st)"
      using fold_members [of kvs limit st MKeyOrClose "[]" "[]"] False 6(1) d by fastforce
    then show ?thesis using o by (simp add: step_close)
  qed
qed (simp_all add: stepTok_def startValue_def)

text \<open>The text of a tree reads back as the tree.\<close>

lemma jsonParse_emit: "wfJson j \<Longrightarrow> depth j \<le> maxNestingDepth \<Longrightarrow> jsonParse (emit j) = Some j"
  using lex_emit [of j "[]"] parse_toks [of "Some maxNestingDepth" j "[]"]
  by (simp add: jsonParse_def parseToks_def stops_def inLimit_def deliver_def)

text \<open>A tree that was read is well formed and within the limit.\<close>

definition okAt :: "nat option \<Rightarrow> nat \<Rightarrow> json \<Rightarrow> bool" where
  "okAt limit n v \<longleftrightarrow> wfJson v \<and> inLimit limit (depth v + n)"

definition tokOK :: "tok \<Rightarrow> bool" where
  "tokOK t \<longleftrightarrow> (case t of TStr b \<Rightarrow> body b | TNum n \<Rightarrow> validNumber n | _ \<Rightarrow> True)"

fun frameOK :: "nat option \<Rightarrow> nat \<Rightarrow> frame \<Rightarrow> bool" where
  "frameOK limit n (FArr vs) = list_all (okAt limit n) vs"
| "frameOK limit n (FObj kvs k) = (body k \<and> list_all (\<lambda>(k, v). body k \<and> okAt limit n v) kvs)"

fun stackOK :: "nat option \<Rightarrow> frame list \<Rightarrow> bool" where
  "stackOK limit [] = True"
| "stackOK limit (f # st) = (frameOK limit (Suc (length st)) f \<and> inLimit limit (Suc (length st)) \<and> stackOK limit st)"

fun pstateOK :: "nat option \<Rightarrow> pstate \<Rightarrow> bool" where
  "pstateOK limit (m, st) = (stackOK limit st \<and> (case m of MDone v \<Rightarrow> okAt limit 0 v | _ \<Rightarrow> True))"

lemma lex_step:
  assumes "lex (c # cs) = Some ts"
  obtains r where "length r \<le> length cs" "lex r = Some ts"
  | r t us where "length r \<le> length cs" "lex r = Some us" "ts = t # us" "tokOK t"
proof -
  have kw: "keyword x = Some (t, r) \<Longrightarrow> tokOK t" for x t r
    by (auto simp: keyword_def tokOK_def split: if_splits)
  have pu: "punct c = Some t \<Longrightarrow> tokOK t" for t
    by (auto simp: punct_def tokOK_def split: if_splits)
  have len: "length (dropWhile numChar cs) \<le> length cs" by (rule length_dropWhile_le)
  show thesis
  proof (cases "jsonSpace c")
    case True
    then show thesis using assms that(1) [of cs] by (simp add: lex.simps(2))
  next
    case sp: False
    show ?thesis
    proof (cases "punct c")
      case (Some t)
      then show ?thesis using assms sp pu that(2) [of cs] by (auto simp: lex.simps(2))
    next
      case None
      note assms' = assms sp None
      consider "c = CHR 0x22" | "c \<noteq> CHR 0x22" "c = CHR ''-'' \<or> isDigit c"
        | "c \<noteq> CHR 0x22" "\<not> (c = CHR ''-'' \<or> isDigit c)" by blast
      then show ?thesis
      proof cases
        case 1
        with assms' obtain b r us where b: "lexStr [] cs = Some (b, r)" "lex r = Some us" "ts = TStr b # us"
          by (auto simp: lex.simps(2) split: option.splits)
        then have "tokOK (TStr b)" using lexStr_body [OF b(1)] by (auto simp: tokOK_def)
        then show ?thesis using that(2) [OF _ b(2,3)] lexStr_length [OF b(1)] by simp
      next
        case 2
        with assms' obtain us where n: "validNumber (c # takeWhile numChar cs)" "lex (dropWhile numChar cs) = Some us"
          "ts = TNum (c # takeWhile numChar cs) # us"
          by (simp add: lex.simps(2) Let_def split: if_split_asm) blast
        then show ?thesis using that(2) [OF len n(2,3)] by (simp add: tokOK_def)
      next
        case 3
        with assms' obtain t r us where k: "keyword (c # cs) = Some (t, r)" "lex r = Some us" "ts = t # us"
          by (auto simp: lex.simps(2) split: option.splits)
        then show ?thesis using that(2) [of r us t] keyword_length [OF k(1)] kw [OF k(1)] by simp
      qed
    qed
  qed
qed

lemma lex_toksOK: "lex s = Some ts \<Longrightarrow> list_all tokOK ts"
proof (induction s arbitrary: ts rule: length_induct)
  case (1 s)
  have IH: "length r < length s \<Longrightarrow> lex r = Some us \<Longrightarrow> list_all tokOK us" for r us
    using 1(1) by blast
  show ?case
  proof (cases s)
    case Nil
    with 1 show ?thesis by simp
  next
    case (Cons c cs)
    from 1(2) have "lex (c # cs) = Some ts" by (simp add: Cons)
    then show ?thesis
    proof (cases rule: lex_step)
      case (1 r)
      then show ?thesis using IH [of r ts] by (simp add: Cons)
    next
      case (2 r t us)
      then show ?thesis using IH [of r us] by (auto simp: Cons)
    qed
  qed
qed

lemma deliver_OK: "okAt limit (length st) v \<Longrightarrow> stackOK limit st \<Longrightarrow> pstateOK limit (deliver v st)"
  by (cases st; cases "hd st") (auto simp: deliver_def)

lemma foldr_max_le: "foldr max (map f xs) (0::nat) \<le> m \<longleftrightarrow> (\<forall>x \<in> set xs. f x \<le> m)"
  by (induction xs) auto

lemma inLimit_max:
  "inLimit limit (Suc (foldr max (map f xs) 0 + n)) \<longleftrightarrow> inLimit limit (Suc n) \<and> (\<forall>x \<in> set xs. inLimit limit (f x + Suc n))"
proof (cases limit)
  case (Some m)
  have "Suc (foldr max (map f xs) 0 + n) \<le> m \<longleftrightarrow> Suc n \<le> m \<and> foldr max (map f xs) 0 \<le> m - Suc n" by auto
  also have "\<dots> \<longleftrightarrow> Suc n \<le> m \<and> (\<forall>x \<in> set xs. f x + Suc n \<le> m)" unfolding foldr_max_le by auto
  finally show ?thesis by (simp add: Some inLimit_def)
qed (simp add: inLimit_def)

lemma step_OK:
  assumes "pstateOK limit p" "tokOK t" shows "pstateOK limit (stepTok limit t p)"
proof -
  obtain m st where p: "p = (m, st)" by (cases p)
  have st: "stackOK limit st" using assms(1) by (simp add: p)
  have lim0: "inLimit limit (length st)"
    using st by (cases st) (auto simp: inLimit_def split: option.splits)
  have o: "pstateOK limit (startValue limit t st)"
    using st lim0 assms(2)
    by (cases t) (auto simp: startValue_def openFrame_def okAt_def tokOK_def lexStr_iff_body inLimit_def body_Nil
        split: option.splits intro!: deliver_OK)
  have c: "pstateOK limit (closeFrame t st)"
  proof (cases st)
    case (Cons f r)
    then show ?thesis using st
      by (cases f) (auto simp: closeFrame_def okAt_def inLimit_max list_all_iff lexStr_iff_body case_prod_unfold
          simp del: rev_map intro!: deliver_OK)
  qed (simp add: closeFrame_def)
  have k: "pstateOK limit (startKey t st)"
    using st assms(2) by (auto simp: startKey_def tokOK_def split: tok.splits list.splits frame.splits)
  show ?thesis using o c k st
    by (auto simp: p stepTok_def nextItem_def split: mode.splits list.splits frame.splits)
qed

lemma parseToks_OK:
  assumes "list_all tokOK ts" "parseToks limit ts = Some j" shows "wfJson j \<and> inLimit limit (depth j)"
proof -
  have "pstateOK limit p \<Longrightarrow> pstateOK limit (fold (stepTok limit) ts p)" for p
    using assms(1)
  proof (induction ts arbitrary: p)
    case (Cons t ts)
    have "pstateOK limit (stepTok limit t p)" using Cons.prems by (intro step_OK) auto
    then show ?case using Cons by (simp del: pstateOK.simps)
  qed simp
  then have "pstateOK limit (fold (stepTok limit) ts (MValue, []))" by simp
  then show ?thesis using assms(2)
    by (auto simp: parseToks_def okAt_def split: prod.splits mode.splits list.splits)
qed

lemma jsonTokens_wf: "jsonTokens s = Some j \<Longrightarrow> wfJson j"
  unfolding jsonTokens_def Option.bind_eq_Some_conv using parseToks_OK lex_toksOK by blast

lemma jsonParse_wf: "jsonParse s = Some j \<Longrightarrow> wfJson j \<and> depth j \<le> maxNestingDepth"
  using parseToks_OK lex_toksOK by (fastforce simp: jsonParse_def inLimit_def Option.bind_eq_Some_conv)

section \<open>Raw messages\<close>

lemma escapeTree_wf: "wfJson j \<Longrightarrow> wfJson (escapeTree j)"
  by (induction j rule: escapeTree.induct) (auto simp: list_all_iff lexStr_iff_body body_htmlEscape)

lemma escapeTree_depth [simp]: "depth (escapeTree j) = depth j"
proof (induction j rule: escapeTree.induct)
  case (3 kvs)
  have "map (\<lambda>(k, v). depth v) (map (\<lambda>(k, v). (htmlEscape k, escapeTree v)) kvs) = map (\<lambda>(k, v). depth v) kvs"
    using 3 by (auto simp: case_prod_unfold comp_def)
  then show ?case by (simp only: escapeTree.simps depth.simps)
qed (simp_all add: comp_def cong: map_cong)

lemma escapeTree_idem [simp]: "escapeTree (escapeTree j) = escapeTree j"
  by (induction j rule: escapeTree.induct) auto

text \<open>
  The bytes \<open>json.Marshal\<close> writes for a \<open>json.RawMessage\<close>, \<open>None\<close> when it refuses:
  nil becomes \<open>null\<close>, anything else is validated, compacted and escaped.
\<close>

definition marshalRaw :: "string \<Rightarrow> string option" where
  "marshalRaw r = map_option emit (jraw r)"

lemma marshalRaw_idem: "marshalRaw r = Some w \<Longrightarrow> marshalRaw w = Some w"
proof -
  assume r: "marshalRaw r = Some w"
  show ?thesis
  proof (cases "r = []")
    case True
    then have "w = ''null''" using r by (simp add: marshalRaw_def jraw_def)
    moreover have "jsonParse (emit JNull) = Some JNull" by (rule jsonParse_emit) simp_all
    ultimately show ?thesis by (simp add: marshalRaw_def jraw_def)
  next
    case False
    then obtain j where j: "jsonParse r = Some j" "w = emit (escapeTree j)"
      using r by (auto simp: marshalRaw_def jraw_def)
    then have "jsonParse w = Some (escapeTree j)"
      using jsonParse_wf by (auto intro!: jsonParse_emit escapeTree_wf)
    moreover have "w \<noteq> []"
    proof
      assume "w = []"
      with calculation show False by (simp add: jsonParse_def parseToks_def)
    qed
    ultimately show ?thesis using j by (simp add: marshalRaw_def jraw_def)
  qed
qed

end
