(* ===== verification/SessionTypes.thy ===== *)
theory SessionTypes
  imports JsonText
begin

text \<open>
  The durable data of package \<open>session\<close>: every struct as a record with the fields of the
  source (a short prefix keeps the field names of different structs apart), every string
  enumeration as a datatype with one constructor per declared constant and one for the other
  strings Go admits in it.
\<close>

type_synonym ID = string
type_synonym RunID = string
type_synonym MessageID = string
type_synonym PartID = string
type_synonym ToolCallID = string
type_synonym EpochID = string
type_synonym TurnID = string
type_synonym InboxID = string
type_synonym EventID = string
type_synonym ModelRequestID = string

text \<open>A \<open>json.RawMessage\<close>: its bytes, the empty list for nil.\<close>

type_synonym RawMessage = bytes

section \<open>Sessions and runs\<close>

record Session =
  s_ID :: ID
  s_ParentID :: ID
  s_WorkspaceID :: string
  s_Directory :: string
  s_Title :: string
  s_Metadata :: smap
  s_CreatedAt :: gotime
  s_UpdatedAt :: gotime

datatype RunStatus = RunPending | RunRunning | RunInterrupted | RunFailed | RunCompleted | RunPaused
  | RunStatusOther string

text \<open>Extension plans travel with a run; the store never looks inside one.\<close>

record Scope =
  sc_Kind :: string
  sc_Key :: string

record Artifact =
  ar_Name :: string
  ar_Version :: string
  ar_Hash :: string
  ar_ConfigHash :: string
  ar_SourceKind :: string

record RegistrationIdentity =
  ri_ID :: string
  ri_Contract :: string
  ri_Version :: string
  ri_Order :: int
  ri_Scope :: Scope
  ri_Kind :: string

record ToolPlanIdentity =
  tp_Name :: string
  tp_RegistrationID :: string
  tp_Scope :: Scope
  tp_SchemaHash :: string
  tp_ExecutorHash :: string
  tp_Order :: int
  tp_Aliases :: "string slice"
  tp_Deferred :: bool

record PromptPlanIdentity =
  pp_Name :: string
  pp_RegistrationID :: string
  pp_Scope :: Scope
  pp_Order :: int

record GuardPlanIdentity =
  gp_RegistrationID :: string
  gp_Scope :: Scope
  gp_Order :: int

record RestrictionPlanIdentity =
  rp_RegistrationID :: string
  rp_RulesHash :: string
  rp_Scope :: Scope

record HandlerToolIdentity =
  ht_Name :: string
  ht_SchemaHash :: string

record AgentHandlerPlanIdentity =
  ah_ID :: string
  ah_Kind :: string
  ah_Version :: string
  ah_ConfigHash :: string
  ah_Order :: int
  ah_Scope :: Scope
  ah_Tools :: "HandlerToolIdentity slice"

record ComponentPlan =
  cpl_InstanceID :: string
  cpl_Artifact :: Artifact
  cpl_Handlers :: "RegistrationIdentity slice"
  cpl_Tools :: "ToolPlanIdentity slice"
  cpl_Prompts :: "PromptPlanIdentity slice"
  cpl_Guards :: "GuardPlanIdentity slice"
  cpl_Restrictions :: "RestrictionPlanIdentity slice"
  cpl_AgentHandlers :: "AgentHandlerPlanIdentity slice"

record ExtensionPlanDescriptor =
  ep_Fingerprint :: string
  ep_ToolSearch :: string
  ep_Components :: "ComponentPlan slice"

record Run =
  r_ID :: RunID
  r_SessionID :: ID
  r_ParentRunID :: RunID
  r_ParentMsgID :: MessageID
  r_OwnerID :: string
  r_ClaimToken :: string
  r_LeaseUntil :: gotime
  r_Agent :: string
  r_ProviderID :: string
  r_ModelID :: string
  r_ContextEpoch :: EpochID
  r_Status :: RunStatus
  r_Config :: smap
  r_ExtensionPlan :: ExtensionPlanDescriptor
  r_CreatedAt :: gotime
  r_StartedAt :: gotime
  r_FinishedAt :: gotime
  r_Error :: string

record RunFence =
  f_RunID :: RunID
  f_ClaimToken :: string

record RunClaim =
  c_RunID :: RunID
  c_OwnerID :: string
  c_ClaimToken :: string
  c_LeaseDuration :: int

definition Terminal :: "Run \<Rightarrow> bool" where
  "Terminal r \<longleftrightarrow> r_Status r = RunInterrupted \<or> r_Status r = RunFailed \<or> r_Status r = RunCompleted"

definition Paused :: "Run \<Rightarrow> bool" where
  "Paused r \<longleftrightarrow> r_Status r = RunPaused"

section \<open>Messages and parts\<close>

datatype Role = RoleSystem | RoleUser | RoleAssistant | RoleTool | RoleOther string

record Message =
  m_ID :: MessageID
  m_SessionID :: ID
  m_RunID :: RunID
  m_ParentID :: MessageID
  m_Role :: Role
  m_Agent :: string
  m_ModelID :: string
  m_TurnID :: TurnID
  m_AgentPath :: string
  m_CreatedAt :: gotime
  m_UpdatedAt :: gotime

datatype PartKind =
    PartReasoning | PartCompaction | PartProviderState | PartApprovalDecision
  | PartUserInputText | PartUserInputImage | PartUserInputAudio | PartUserInputVideo
  | PartUserInputFile | PartToolSearchResult | PartAssistantGenText | PartAssistantGenImage
  | PartAssistantGenAudio | PartAssistantGenVideo | PartFunctionToolCall
  | PartFunctionToolResult | PartServerToolCall | PartServerToolResult | PartMCPToolCall
  | PartMCPToolResult | PartMCPListToolsResult | PartMCPToolApprovalRequest
  | PartMCPToolApprovalResponse | PartResponseMeta | PartKindOther string

record Part =
  p_ID :: PartID
  p_MessageID :: MessageID
  p_SessionID :: ID
  p_RunID :: RunID
  p_Kind :: PartKind
  p_Ordinal :: int
  p_Payload :: RawMessage
  p_CreatedAt :: gotime
  p_UpdatedAt :: gotime

section \<open>Tool calls\<close>

datatype ToolCallStatus = ToolCallPending | ToolCallRunning | ToolCallCompleted | ToolCallFailed
  | ToolCallInterrupted | ToolCallStatusOther string

datatype ToolTransitionPhase = ToolTransitionNone | ToolTransitionPending | ToolTransitionRunning
  | ToolTransitionTerminal | ToolTransitionOther string

record ToolCall =
  tc_ID :: ToolCallID
  tc_SessionID :: ID
  tc_RunID :: RunID
  tc_MessageID :: MessageID
  tc_RequestPartID :: PartID
  tc_ResultMessageID :: MessageID
  tc_ResultPartID :: PartID
  tc_Name :: string
  tc_RequestedName :: string
  tc_ProviderCallID :: string
  tc_Pattern :: string
  tc_Input :: RawMessage
  tc_Output :: RawMessage
  tc_Status :: ToolCallStatus
  tc_RetrySafe :: bool
  tc_Metadata :: smap
  tc_ClaimedBy :: string
  tc_ClaimToken :: string
  tc_LeaseUntil :: gotime
  tc_StartedAt :: gotime
  tc_CompletedAt :: gotime
  tc_Error :: string

section \<open>Context epochs\<close>

datatype EpochNextAction = EpochNextStop | EpochNextAutoContinue | EpochNextReplay
  | EpochNextOther string

record ContextEpoch =
  ce_ID :: EpochID
  ce_SessionID :: ID
  ce_ParentEpochID :: EpochID
  ce_SummaryMessageID :: MessageID
  ce_SummarizedFromID :: MessageID
  ce_SummarizedToID :: MessageID
  ce_TailStartID :: MessageID
  ce_ModelID :: string
  ce_ProviderID :: string
  ce_Trigger :: string
  ce_Reason :: string
  ce_NextAction :: EpochNextAction
  ce_CreatedAt :: gotime
  ce_ClosedAt :: gotime

section \<open>Events\<close>

record Usage =
  u_InputTokens :: int
  u_TotalTokens :: int
  u_OutputTokens :: int
  u_ReasoningTokens :: int
  u_CacheReadTokens :: int
  u_CacheWriteTokens :: int
  u_Cost :: float64

record EventError =
  ee_Code :: string
  ee_Message :: string
  ee_Retryable :: bool

datatype RedactionClass = RedactionNone | RedactionMetadata | RedactionContent
  | RedactionOther string

record EventRecord =
  ev_ID :: EventID
  ev_SessionID :: ID
  ev_RunID :: RunID
  ev_MessageID :: MessageID
  ev_PartID :: PartID
  ev_ToolCallID :: ToolCallID
  ev_ToolTransition :: ToolTransitionPhase
  ev_EpochID :: EpochID
  ev_TurnID :: TurnID
  ev_AgentPath :: string
  ev_ProviderID :: string
  ev_ModelID :: string
  ev_ParentID :: string
  ev_Kind :: string
  ev_Correlation :: string
  ev_Usage :: Usage
  ev_Error :: EventError
  ev_Redaction :: RedactionClass
  ev_Payload :: RawMessage
  ev_LiveOnly :: bool
  ev_CreatedAt :: gotime

definition zeroUsage :: Usage where
  "zeroUsage = \<lparr>u_InputTokens = 0, u_TotalTokens = 0, u_OutputTokens = 0,
     u_ReasoningTokens = 0, u_CacheReadTokens = 0, u_CacheWriteTokens = 0, u_Cost = 0\<rparr>"

definition zeroEventError :: EventError where
  "zeroEventError = \<lparr>ee_Code = '''', ee_Message = '''', ee_Retryable = False\<rparr>"

text \<open>The event kinds of \<open>session/event_kinds.go\<close> and \<open>session/run_settlement.go\<close>.\<close>

definition RunSettlementEventKind :: string where "RunSettlementEventKind = ''run_finished''"
definition ToolTransitionEventKind :: string where "ToolTransitionEventKind = ''tool_call_updated''"
definition TurnStartedEventKind :: string where "TurnStartedEventKind = ''turn_started''"
definition TurnCompletedEventKind :: string where "TurnCompletedEventKind = ''turn_completed''"
definition RunPausedEventKind :: string where "RunPausedEventKind = ''run_paused''"
definition RunResumedEventKind :: string where "RunResumedEventKind = ''run_resumed''"

lemmas event_kind_defs = RunSettlementEventKind_def ToolTransitionEventKind_def
  TurnStartedEventKind_def TurnCompletedEventKind_def RunPausedEventKind_def RunResumedEventKind_def

section \<open>Turns, inbox items, checkpoints\<close>

datatype TurnState = TurnAdmitted | TurnRunning | TurnCompleted | TurnInterrupted | TurnFailed
  | TurnStateOther string

record Turn =
  t_ID :: TurnID
  t_RunID :: RunID
  t_SessionID :: ID
  t_Ordinal :: int
  t_State :: TurnState
  t_InboxIDs :: "InboxID slice"
  t_UserMessageIDs :: "MessageID slice"
  t_AssistantMessageID :: MessageID
  t_ResponseMessageIDs :: "MessageID slice"
  t_Usage :: Usage
  t_EpochID :: EpochID
  t_CreatedAt :: gotime
  t_StartedAt :: gotime
  t_FinishedAt :: gotime

datatype InboxState = InboxQueued | InboxConsumed | InboxCompleted | InboxInterrupted
  | InboxStateOther string

datatype CheckpointKind = CheckpointKindRunner | CheckpointKindLoop | CheckpointKindOther string

record Checkpoint =
  cp_RunID :: RunID
  cp_Revision :: int
  cp_Kind :: CheckpointKind
  cp_AgentFingerprint :: string
  cp_EinoVersion :: string
  cp_CodecVersion :: int
  cp_CheckpointID :: string
  cp_Bytes :: bytes
  cp_Promoted :: bool
  cp_CreatedAt :: gotime

section \<open>Model requests and admission receipts\<close>

datatype ModelRequestState = ModelRequestPrepared | ModelRequestDispatchStarted
  | ModelRequestCompleted | ModelRequestFailed | ModelRequestStateOther string

record ModelRequestRecord =
  mr_ID :: ModelRequestID
  mr_SessionID :: ID
  mr_RunID :: RunID
  mr_AssistantMessageID :: MessageID
  mr_InvocationID :: string
  mr_TurnID :: TurnID
  mr_AgentPath :: string
  mr_Attempt :: int
  mr_Step :: int
  mr_ProviderID :: string
  mr_ModelID :: string
  mr_State :: ModelRequestState
  mr_Messages :: RawMessage
  mr_System :: string
  mr_Tools :: RawMessage
  mr_Controls :: RawMessage
  mr_SafeCallConfig :: RawMessage
  mr_ContentSHA256 :: string
  mr_ExtensionPlanHash :: string
  mr_ErrorCode :: string
  mr_CreatedAt :: gotime
  mr_UpdatedAt :: gotime

record AdmissionReceipt =
  a_SessionID :: ID
  a_Key :: string
  a_RunID :: RunID
  a_UserMessageID :: MessageID
  a_AssistantMessageID :: MessageID
  a_CreatedAt :: gotime

record AdmissionRecord =
  ad_Receipt :: AdmissionReceipt
  ad_FingerprintVersion :: int
  ad_Fingerprint :: bytes
  ad_RunStatus :: RunStatus

section \<open>Records as JSON carries them\<close>

text \<open>
  A stored record is the JSON of the struct, and the store compares records by comparing
  their JSON (\<open>SameRecord\<close>, \<open>store/internal/sqlstore/records.go\<close>). For all the structs
  above JSON keeps every field, so a record column holds the value itself, except for
  fields of type \<open>json.RawMessage\<close>: \<open>json.Marshal\<close> fails when one is not valid JSON,
  and otherwise writes it compacted and escaped, a nil one as \<open>null\<close>. The \<open>marshal\<close>
  functions give the record as it will be read back, or the error.
  (That JSON keeps every field holds for strings of valid UTF-8 and times of the years 0 to 9999 with a zone of
  whole minutes; \<open>encoding/json\<close> rewrites or refuses the others. Theory \<open>PlainCalls\<close> says so of a record and of a call, and
  the properties that need it carry it as a hypothesis.)
\<close>

definition marshalPart :: "Part \<Rightarrow> err + Part" where
  "marshalPart p = (case marshalRaw (p_Payload p) of None \<Rightarrow> Inl ErrMarshal
     | Some w \<Rightarrow> Inr (p\<lparr>p_Payload := w\<rparr>))"

definition marshalEvent :: "EventRecord \<Rightarrow> err + EventRecord" where
  "marshalEvent e = (case marshalRaw (ev_Payload e) of None \<Rightarrow> Inl ErrMarshal
     | Some w \<Rightarrow> Inr (e\<lparr>ev_Payload := w\<rparr>))"

definition marshalToolCall :: "ToolCall \<Rightarrow> err + ToolCall" where
  "marshalToolCall c = (case (marshalRaw (tc_Input c), marshalRaw (tc_Output c)) of
       (Some i, Some out) \<Rightarrow> Inr (c\<lparr>tc_Input := i, tc_Output := out\<rparr>)
     | _ \<Rightarrow> Inl ErrMarshal)"

definition marshalModelRequest :: "ModelRequestRecord \<Rightarrow> err + ModelRequestRecord" where
  "marshalModelRequest q =
     (case (marshalRaw (mr_Messages q), marshalRaw (mr_Tools q), marshalRaw (mr_Controls q), marshalRaw (mr_SafeCallConfig q)) of
       (Some m, Some t, Some c, Some s) \<Rightarrow>
         Inr (q\<lparr>mr_Messages := m, mr_Tools := t, mr_Controls := c, mr_SafeCallConfig := s\<rparr>)
     | _ \<Rightarrow> Inl ErrMarshal)"

text \<open>What was written once is written unchanged the next time.\<close>

lemma marshalPart_idem: "marshalPart p = Inr q \<Longrightarrow> marshalPart q = Inr q"
  by (auto simp: marshalPart_def marshalRaw_idem split: option.splits)

lemma marshalEvent_idem: "marshalEvent p = Inr q \<Longrightarrow> marshalEvent q = Inr q"
  by (auto simp: marshalEvent_def marshalRaw_idem split: option.splits)

lemma marshalToolCall_idem: "marshalToolCall p = Inr q \<Longrightarrow> marshalToolCall q = Inr q"
  by (auto simp: marshalToolCall_def marshalRaw_idem split: option.splits)

lemma marshalModelRequest_idem: "marshalModelRequest p = Inr q \<Longrightarrow> marshalModelRequest q = Inr q"
  by (auto simp: marshalModelRequest_def marshalRaw_idem split: option.splits)

lemmas marshal_idem = marshalPart_idem marshalEvent_idem marshalToolCall_idem marshalModelRequest_idem

end
