(* ===== verification/ContentTypes.thy ===== *)
theory ContentTypes
  imports SessionTypes "HOL-Library.Monad_Syntax"
begin

text \<open>
  The durable content of a message (\<open>session/content.go\<close>): the twenty kinds of block, the
  public payload of each, and response metadata, with their JSON forms.

  Three things the code takes from libraries outside the repository are gathered in one
  record of parameters, \<open>libs\<close>: how Eino decodes a \<open>schema.ToolInfo\<close> (its name, or a
  failure), the annotation types that the OpenAI and Claude schemas declare, and the shortest
  decimal texts by which \<open>strconv\<close> writes and reads floating-point numbers.
\<close>

record libs =
  lib_toolInfo :: "RawMessage \<Rightarrow> string option"
  lib_openAIAnnotations :: "string list"
  lib_claudeAnnotations :: "string list"
  lib_floatText :: "int \<Rightarrow> string"
  lib_floatParse :: "string \<Rightarrow> int option"
  lib_float32Text :: "int \<Rightarrow> string"
  lib_float32Parse :: "string \<Rightarrow> int option"

section \<open>Block kinds\<close>

datatype BlockKind =
    BlockKindReasoning | BlockKindUserInputText | BlockKindUserInputImage | BlockKindUserInputAudio
  | BlockKindUserInputVideo | BlockKindUserInputFile | BlockKindToolSearchResult
  | BlockKindAssistantGenText | BlockKindAssistantGenImage | BlockKindAssistantGenAudio
  | BlockKindAssistantGenVideo | BlockKindFunctionToolCall | BlockKindFunctionToolResult
  | BlockKindServerToolCall | BlockKindServerToolResult | BlockKindMCPToolCall
  | BlockKindMCPToolResult | BlockKindMCPListToolsResult | BlockKindMCPToolApprovalRequest
  | BlockKindMCPToolApprovalResponse | BlockKindOther string

definition AllBlockKinds :: "BlockKind list" where
  "AllBlockKinds = [BlockKindReasoning, BlockKindUserInputText, BlockKindUserInputImage,
     BlockKindUserInputAudio, BlockKindUserInputVideo, BlockKindUserInputFile,
     BlockKindToolSearchResult, BlockKindAssistantGenText, BlockKindAssistantGenImage,
     BlockKindAssistantGenAudio, BlockKindAssistantGenVideo, BlockKindFunctionToolCall,
     BlockKindFunctionToolResult, BlockKindServerToolCall, BlockKindServerToolResult,
     BlockKindMCPToolCall, BlockKindMCPToolResult, BlockKindMCPListToolsResult,
     BlockKindMCPToolApprovalRequest, BlockKindMCPToolApprovalResponse]"

fun blockKindText :: "BlockKind \<Rightarrow> string" where
  "blockKindText BlockKindReasoning = ''reasoning''"
| "blockKindText BlockKindUserInputText = ''user_input_text''"
| "blockKindText BlockKindUserInputImage = ''user_input_image''"
| "blockKindText BlockKindUserInputAudio = ''user_input_audio''"
| "blockKindText BlockKindUserInputVideo = ''user_input_video''"
| "blockKindText BlockKindUserInputFile = ''user_input_file''"
| "blockKindText BlockKindToolSearchResult = ''tool_search_result''"
| "blockKindText BlockKindAssistantGenText = ''assistant_gen_text''"
| "blockKindText BlockKindAssistantGenImage = ''assistant_gen_image''"
| "blockKindText BlockKindAssistantGenAudio = ''assistant_gen_audio''"
| "blockKindText BlockKindAssistantGenVideo = ''assistant_gen_video''"
| "blockKindText BlockKindFunctionToolCall = ''function_tool_call''"
| "blockKindText BlockKindFunctionToolResult = ''function_tool_result''"
| "blockKindText BlockKindServerToolCall = ''server_tool_call''"
| "blockKindText BlockKindServerToolResult = ''server_tool_result''"
| "blockKindText BlockKindMCPToolCall = ''mcp_tool_call''"
| "blockKindText BlockKindMCPToolResult = ''mcp_tool_result''"
| "blockKindText BlockKindMCPListToolsResult = ''mcp_list_tools_result''"
| "blockKindText BlockKindMCPToolApprovalRequest = ''mcp_tool_approval_request''"
| "blockKindText BlockKindMCPToolApprovalResponse = ''mcp_tool_approval_response''"
| "blockKindText (BlockKindOther s) = s"

definition blockKindOfText :: "string \<Rightarrow> BlockKind" where
  "blockKindOfText s =
     (case List.find (\<lambda>k. blockKindText k = s) AllBlockKinds of None \<Rightarrow> BlockKindOther s | Some k \<Rightarrow> k)"

text \<open>\<open>PartKindForBlock\<close>: \<open>PartKindOther []\<close> is the empty string of an unknown kind.\<close>

fun PartKindForBlock :: "BlockKind \<Rightarrow> PartKind" where
  "PartKindForBlock BlockKindReasoning = PartReasoning"
| "PartKindForBlock BlockKindUserInputText = PartUserInputText"
| "PartKindForBlock BlockKindUserInputImage = PartUserInputImage"
| "PartKindForBlock BlockKindUserInputAudio = PartUserInputAudio"
| "PartKindForBlock BlockKindUserInputVideo = PartUserInputVideo"
| "PartKindForBlock BlockKindUserInputFile = PartUserInputFile"
| "PartKindForBlock BlockKindToolSearchResult = PartToolSearchResult"
| "PartKindForBlock BlockKindAssistantGenText = PartAssistantGenText"
| "PartKindForBlock BlockKindAssistantGenImage = PartAssistantGenImage"
| "PartKindForBlock BlockKindAssistantGenAudio = PartAssistantGenAudio"
| "PartKindForBlock BlockKindAssistantGenVideo = PartAssistantGenVideo"
| "PartKindForBlock BlockKindFunctionToolCall = PartFunctionToolCall"
| "PartKindForBlock BlockKindFunctionToolResult = PartFunctionToolResult"
| "PartKindForBlock BlockKindServerToolCall = PartServerToolCall"
| "PartKindForBlock BlockKindServerToolResult = PartServerToolResult"
| "PartKindForBlock BlockKindMCPToolCall = PartMCPToolCall"
| "PartKindForBlock BlockKindMCPToolResult = PartMCPToolResult"
| "PartKindForBlock BlockKindMCPListToolsResult = PartMCPListToolsResult"
| "PartKindForBlock BlockKindMCPToolApprovalRequest = PartMCPToolApprovalRequest"
| "PartKindForBlock BlockKindMCPToolApprovalResponse = PartMCPToolApprovalResponse"
| "PartKindForBlock (BlockKindOther s) = PartKindOther []"

definition BlockKindForPart :: "PartKind \<Rightarrow> BlockKind option" where
  "BlockKindForPart p = List.find (\<lambda>k. PartKindForBlock k = p) AllBlockKinds"

section \<open>Payloads\<close>

record ReasoningBlock =
  rb_Text :: string
  rb_Summary :: "string slice"

record TextAnnotation =
  ta_Type :: string
  ta_Title :: string
  ta_URL :: string
  ta_FileID :: string
  ta_Filename :: string
  ta_ContainerID :: string
  ta_StartIndex :: int
  ta_EndIndex :: int
  ta_CitedText :: string
  ta_DocumentTitle :: string
  ta_DocumentIndex :: int
  ta_StartPage :: int
  ta_EndPage :: int
  ta_StartBlock :: int
  ta_EndBlock :: int
  ta_AnnotationIndex :: int

record TextBlock =
  tb_Text :: string
  tb_Refusal :: string
  tb_Annotations :: "TextAnnotation slice"

record MediaBlock =
  mb_URL :: string
  mb_Base64Data :: string
  mb_MIMEType :: string
  mb_Name :: string
  mb_Detail :: string

record FunctionCallBlock =
  fc_CallID :: string
  fc_Name :: string
  fc_Arguments :: string

datatype ResultContentType = ResultContentText | ResultContentImage | ResultContentAudio
  | ResultContentVideo | ResultContentFile | ResultContentOther string

record ResultContent =
  rc_Type :: ResultContentType
  rc_Text :: string
  rc_Media :: "MediaBlock option"

record FunctionResultBlock =
  fr_CallID :: string
  fr_Name :: string
  fr_Content :: "ResultContent slice"

record ToolSearchBlock =
  tq_CallID :: string
  tq_Name :: string
  tq_Tools :: "RawMessage slice"

record ServerCallBlock =
  sb_Name :: string
  sb_CallID :: string
  sb_Arguments :: RawMessage

record ServerResultBlock =
  sv_Name :: string
  sv_CallID :: string
  sv_Content :: RawMessage

record MCPCallBlock =
  mc_ServerLabel :: string
  mc_ApprovalRequestID :: string
  mc_CallID :: string
  mc_Name :: string
  mc_Arguments :: string

record MCPResultBlock =
  mx_ServerLabel :: string
  mx_CallID :: string
  mx_Name :: string
  mx_Content :: string
  mx_ErrorCode :: "int option"
  mx_ErrorMessage :: string

record MCPToolDefinition =
  md_Name :: string
  md_Description :: string
  md_InputSchema :: RawMessage

record MCPListToolsBlock =
  ml_ServerLabel :: string
  ml_Tools :: "MCPToolDefinition slice"
  ml_Error :: string

record MCPApprovalRequestBlock =
  mq_ID :: string
  mq_Name :: string
  mq_Arguments :: string
  mq_ServerLabel :: string

record MCPApprovalResponseBlock =
  mp_ApprovalRequestID :: string
  mp_Approve :: bool
  mp_Reason :: string

record ContentBlock =
  cb_ID :: string
  cb_Kind :: BlockKind
  cb_Reasoning :: "ReasoningBlock option"
  cb_Text :: "TextBlock option"
  cb_Media :: "MediaBlock option"
  cb_FunctionCall :: "FunctionCallBlock option"
  cb_FunctionResult :: "FunctionResultBlock option"
  cb_ToolSearch :: "ToolSearchBlock option"
  cb_ServerCall :: "ServerCallBlock option"
  cb_ServerResult :: "ServerResultBlock option"
  cb_MCPCall :: "MCPCallBlock option"
  cb_MCPResult :: "MCPResultBlock option"
  cb_MCPListTools :: "MCPListToolsBlock option"
  cb_MCPApprovalRequest :: "MCPApprovalRequestBlock option"
  cb_MCPApprovalResponse :: "MCPApprovalResponseBlock option"

definition zeroBlock :: ContentBlock where
  "zeroBlock = \<lparr>cb_ID = [], cb_Kind = BlockKindOther [], cb_Reasoning = None, cb_Text = None,
     cb_Media = None, cb_FunctionCall = None, cb_FunctionResult = None, cb_ToolSearch = None,
     cb_ServerCall = None, cb_ServerResult = None, cb_MCPCall = None, cb_MCPResult = None,
     cb_MCPListTools = None, cb_MCPApprovalRequest = None, cb_MCPApprovalResponse = None\<rparr>"

text \<open>The payload a block carries, as the \<open>any\<close> that \<open>blockVariant\<close> returns.\<close>

datatype variant =
    VReasoning ReasoningBlock | VTextBlock TextBlock | VMedia MediaBlock
  | VFunctionCall FunctionCallBlock | VFunctionResult FunctionResultBlock
  | VToolSearch ToolSearchBlock | VServerCall ServerCallBlock | VServerResult ServerResultBlock
  | VMCPCall MCPCallBlock | VMCPResult MCPResultBlock | VMCPListTools MCPListToolsBlock
  | VMCPApprovalRequest MCPApprovalRequestBlock | VMCPApprovalResponse MCPApprovalResponseBlock

section \<open>Response metadata\<close>

record Segment =
  sg_Start :: int
  sg_End :: int
  sg_PartIndex :: int
  sg_Text :: string

record GroundingChunk =
  gc_Domain :: string
  gc_Title :: string
  gc_URI :: string

record GroundingSupport =
  gs_ConfidenceScores :: "int slice"
  gs_ChunkIndices :: "int slice"
  gs_Segment :: "Segment option"

record Grounding =
  gr_Chunks :: "GroundingChunk slice"
  gr_Supports :: "GroundingSupport slice"
  gr_RenderedEntryPoint :: string
  gr_WebSearchQueries :: "string slice"

record OpenAIResponseMeta =
  om_Status :: string
  om_ErrorCode :: string
  om_ErrorMessage :: string
  om_IncompleteReason :: string
  om_ServiceTier :: string
  om_ReasoningEffort :: string
  om_ReasoningSummary :: string
  om_PromptCacheRetention :: string

record ClaudeResponseMeta =
  cm_StopReason :: string
  cm_StopSequence :: string
  cm_StopCategory :: string
  cm_StopExplanation :: string

record GeminiResponseMeta =
  gm_FinishReason :: string
  gm_Grounding :: "Grounding option"

record ResponseMeta =
  rm_Usage :: "Usage option"
  rm_OpenAI :: "OpenAIResponseMeta option"
  rm_Claude :: "ClaudeResponseMeta option"
  rm_Gemini :: "GeminiResponseMeta option"

record Content =
  co_Role :: Role
  co_Blocks :: "ContentBlock list"
  co_Meta :: "ResponseMeta option"

record ContentLimits =
  cl_MaxMessageBytes :: int
  cl_MaxBlocks :: int
  cl_MaxBlockBytes :: int

definition DefaultContentLimits :: ContentLimits where
  "DefaultContentLimits = \<lparr>cl_MaxMessageBytes = 8 * 2 ^ 20, cl_MaxBlocks = 1024, cl_MaxBlockBytes = 2 ^ 20\<rparr>"

definition MaxContentLimits :: ContentLimits where
  "MaxContentLimits = \<lparr>cl_MaxMessageBytes = 64 * 2 ^ 20, cl_MaxBlocks = 4096, cl_MaxBlockBytes = 16 * 2 ^ 20\<rparr>"

definition ValidateLimits :: "ContentLimits \<Rightarrow> err + unit" where
  "ValidateLimits l =
     (if cl_MaxMessageBytes l \<le> 0 \<or> cl_MaxBlocks l \<le> 0 \<or> cl_MaxBlockBytes l \<le> 0
      then Inl ErrContentInvalid else Inr ())"

text \<open>Equality of blocks up to their ids.\<close>

fun ContentBlocksEqualIgnoringID :: "ContentBlock list \<Rightarrow> ContentBlock list \<Rightarrow> bool" where
  "ContentBlocksEqualIgnoringID [] [] = True"
| "ContentBlocksEqualIgnoringID (a # as) (b # bs) =
     (a\<lparr>cb_ID := []\<rparr> = b\<lparr>cb_ID := []\<rparr> \<and> ContentBlocksEqualIgnoringID as bs)"
| "ContentBlocksEqualIgnoringID _ _ = False"

end
