(* ===== verification/JsonDecode.thy ===== *)
theory JsonDecode
  imports JsonText
begin

text \<open>
  \<open>json.Unmarshal\<close> into structs, as far as the program relies on it. The members of an
  object are decoded one after the other into the same value: an unknown key is skipped, a
  key selects the field of that name or else the field whose name is equal under case
  folding, a repeated key is decoded again on top of what is there, \<open>null\<close> leaves a scalar
  alone and clears a pointer or a slice, and any value of the wrong type makes the call fail.
\<close>

type_synonym 'r setter = "json \<Rightarrow> 'r \<Rightarrow> 'r option"
type_synonym 'r fields = "(string \<times> 'r setter) list"

text \<open>
  Case folding of keys: ASCII letters, and the two runes outside ASCII that fold to one
  (U+017F to s, U+212A to k).
\<close>

fun foldKey :: "nat list \<Rightarrow> nat list" where
  "foldKey [] = []"
| "foldKey (b # bs) =
     (if inRange 97 122 b then (b - 32) # foldKey bs
      else if b = 197 \<and> take 1 bs = [191] then 83 # foldKey (drop 1 bs)
      else if b = 226 \<and> take 2 bs = [132, 170] then 75 # foldKey (drop 2 bs)
      else b # foldKey bs)"

definition selectField :: "'r fields \<Rightarrow> string \<Rightarrow> 'r setter option" where
  "selectField fs key =
     (case List.find (\<lambda>(n, u). n = key) fs of Some (n, u) \<Rightarrow> Some u
      | None \<Rightarrow> map_option snd (List.find (\<lambda>(n, u). foldKey (map byteOf n) = foldKey (map byteOf key)) fs))"

fun decodeMembers :: "'r fields \<Rightarrow> (string \<times> json) list \<Rightarrow> 'r \<Rightarrow> 'r option" where
  "decodeMembers fs [] r = Some r"
| "decodeMembers fs ((k, v) # kvs) r =
     (case selectField fs (unquote k) of None \<Rightarrow> decodeMembers fs kvs r
      | Some u \<Rightarrow> (case u v r of None \<Rightarrow> None | Some r' \<Rightarrow> decodeMembers fs kvs r'))"

definition decodeStruct :: "'r fields \<Rightarrow> 'r setter" where
  "decodeStruct fs v r = (case v of JNull \<Rightarrow> Some r | JObj kvs \<Rightarrow> decodeMembers fs kvs r | _ \<Rightarrow> None)"

definition unmarshal :: "'r setter \<Rightarrow> 'r \<Rightarrow> string \<Rightarrow> 'r option" where
  "unmarshal u zero raw = (case jsonParse raw of None \<Rightarrow> None | Some v \<Rightarrow> u v zero)"

text \<open>Values: each decodes a JSON value on top of the current one.\<close>

definition decString :: "json \<Rightarrow> string \<Rightarrow> string option" where
  "decString v old = (case v of JNull \<Rightarrow> Some old | JStr b \<Rightarrow> Some (unquote b) | _ \<Rightarrow> None)"

definition decBool :: "json \<Rightarrow> bool \<Rightarrow> bool option" where
  "decBool v old = (case v of JNull \<Rightarrow> Some old | JBool b \<Rightarrow> Some b | _ \<Rightarrow> None)"

text \<open>\<open>strconv.ParseInt(s, 10, 64)\<close> on the text of a JSON number.\<close>

definition natText :: "string \<Rightarrow> int option" where
  "natText s = (if s \<noteq> [] \<and> list_all isDigit s then Some (foldl (\<lambda>n c. 10 * n + (int (byteOf c) - 48)) 0 s) else None)"

definition int64Text :: "string \<Rightarrow> int option" where
  "int64Text s =
     (let i = (if take 1 s = ''-'' then map_option uminus (natText (drop 1 s)) else natText s) in
      case i of None \<Rightarrow> None | Some n \<Rightarrow> if - (2 ^ 63) \<le> n \<and> n < 2 ^ 63 then Some n else None)"

definition decInt :: "json \<Rightarrow> int \<Rightarrow> int option" where
  "decInt v old = (case v of JNull \<Rightarrow> Some old | JNum n \<Rightarrow> int64Text n | _ \<Rightarrow> None)"

definition decPtr :: "'a \<Rightarrow> 'a setter \<Rightarrow> json \<Rightarrow> 'a option \<Rightarrow> 'a option option" where
  "decPtr zero u v old =
     (case v of JNull \<Rightarrow> Some None
      | _ \<Rightarrow> map_option Some (u v (case old of None \<Rightarrow> zero | Some x \<Rightarrow> x)))"

text \<open>The elements of an array are decoded on top of those a repeated key left behind.\<close>

fun decElems :: "'a \<Rightarrow> 'a setter \<Rightarrow> json list \<Rightarrow> 'a list \<Rightarrow> 'a list option" where
  "decElems zero u [] old = Some []"
| "decElems zero u (v # vs) old =
     (case u v (case old of [] \<Rightarrow> zero | x # xs \<Rightarrow> x) of None \<Rightarrow> None
      | Some y \<Rightarrow> map_option (Cons y) (decElems zero u vs (tl old)))"

definition decSlice :: "'a \<Rightarrow> 'a setter \<Rightarrow> json \<Rightarrow> 'a slice \<Rightarrow> 'a slice option" where
  "decSlice zero u v old =
     (case v of JNull \<Rightarrow> Some None | JArr vs \<Rightarrow> map_option Some (decElems zero u vs (elems old)) | _ \<Rightarrow> None)"

text \<open>A field: how to decode its value and how to store it.\<close>

definition field :: "string \<Rightarrow> ('a setter) \<Rightarrow> ('r \<Rightarrow> 'a) \<Rightarrow> (('a \<Rightarrow> 'a) \<Rightarrow> 'r \<Rightarrow> 'r) \<Rightarrow> string \<times> 'r setter" where
  "field name u get put = (name, \<lambda>v r. map_option (\<lambda>x. put (\<lambda>_. x) r) (u v (get r)))"

end
