(* ===== verification/ContentCodec.thy ===== *)
theory ContentCodec
  imports ContentTypes JsonDecode
begin

text \<open>
  The JSON forms of content payloads: \<open>json.Marshal\<close> of each struct with the struct's tags
  (field order, \<open>omitempty\<close>), and the decoding that \<open>decodeStrict\<close> builds on. Because
  \<open>decodeStrict\<close> accepts a document only if marshalling the decoded value gives back the
  same bytes, decoding looks members up by their literal key: a document whose keys are
  spelled, ordered or repeated in any other way is refused by the comparison of bytes.
\<close>

section \<open>Members\<close>

type_synonym members = "(string \<times> json) list"

definition strM :: "string \<Rightarrow> string \<Rightarrow> members" where
  "strM k s = [(k, jstr s)]"

definition strO :: "string \<Rightarrow> string \<Rightarrow> members" where
  "strO k s = (if s = [] then [] else [(k, jstr s)])"

definition intO :: "string \<Rightarrow> int \<Rightarrow> members" where
  "intO k i = (if i = 0 then [] else [(k, jint i)])"

definition arrJ :: "('a \<Rightarrow> json) \<Rightarrow> 'a slice \<Rightarrow> json" where
  "arrJ f s = (case s of None \<Rightarrow> JNull | Some xs \<Rightarrow> JArr (map f xs))"

definition arrOptJ :: "('a \<Rightarrow> json option) \<Rightarrow> 'a slice \<Rightarrow> json option" where
  "arrOptJ f s = (case s of None \<Rightarrow> Some JNull | Some xs \<Rightarrow> map_option JArr (those (map f xs)))"

definition ptrO :: "string \<Rightarrow> ('a \<Rightarrow> json) \<Rightarrow> 'a option \<Rightarrow> members" where
  "ptrO k f p = (case p of None \<Rightarrow> [] | Some x \<Rightarrow> [(k, f x)])"

definition rawO :: "string \<Rightarrow> RawMessage \<Rightarrow> members option" where
  "rawO k r = (if r = [] then Some [] else map_option (\<lambda>v. [(k, v)]) (jraw r))"

definition getM :: "string \<Rightarrow> members \<Rightarrow> json option" where
  "getM k ms = map_of ms k"

definition getStr :: "string \<Rightarrow> members \<Rightarrow> string option" where
  "getStr k ms = (case getM k ms of None \<Rightarrow> Some [] | Some v \<Rightarrow> decString v [])"

definition getInt :: "string \<Rightarrow> members \<Rightarrow> int option" where
  "getInt k ms = (case getM k ms of None \<Rightarrow> Some 0 | Some v \<Rightarrow> decInt v 0)"

definition getBool :: "string \<Rightarrow> members \<Rightarrow> bool option" where
  "getBool k ms = (case getM k ms of None \<Rightarrow> Some False | Some v \<Rightarrow> decBool v False)"

definition getRaw :: "string \<Rightarrow> members \<Rightarrow> RawMessage option" where
  "getRaw k ms = (case getM k ms of None \<Rightarrow> Some [] | Some v \<Rightarrow> Some (emit v))"

definition getPtr :: "string \<Rightarrow> (json \<Rightarrow> 'a option) \<Rightarrow> members \<Rightarrow> 'a option option" where
  "getPtr k f ms = (case getM k ms of None \<Rightarrow> Some None | Some JNull \<Rightarrow> Some None | Some v \<Rightarrow> map_option Some (f v))"

definition getArr :: "string \<Rightarrow> (json \<Rightarrow> 'a option) \<Rightarrow> members \<Rightarrow> 'a slice option" where
  "getArr k f ms = (case getM k ms of None \<Rightarrow> Some None | Some JNull \<Rightarrow> Some None
     | Some (JArr vs) \<Rightarrow> map_option Some (those (map f vs)) | Some v \<Rightarrow> None)"

definition objD :: "(members \<Rightarrow> 'a option) \<Rightarrow> json \<Rightarrow> 'a option" where
  "objD f v = (case v of JObj ms \<Rightarrow> f ms | JNull \<Rightarrow> f [] | _ \<Rightarrow> None)"

definition strD :: "json \<Rightarrow> string option" where
  "strD v = decString v []"

section \<open>Payloads\<close>

definition reasoningJ :: "ReasoningBlock \<Rightarrow> json" where
  "reasoningJ b = JObj (strO ''text'' (rb_Text b) @ [(''summary'', arrJ jstr (rb_Summary b))])"

definition reasoningD :: "json \<Rightarrow> ReasoningBlock option" where
  "reasoningD = objD (\<lambda>m. do { t \<leftarrow> getStr ''text'' m; s \<leftarrow> getArr ''summary'' strD m;
     Some \<lparr>rb_Text = t, rb_Summary = s\<rparr> })"

definition annotationJ :: "TextAnnotation \<Rightarrow> json" where
  "annotationJ a = JObj (strM ''type'' (ta_Type a) @ strO ''title'' (ta_Title a) @ strO ''url'' (ta_URL a) @
     strO ''file_id'' (ta_FileID a) @ strO ''filename'' (ta_Filename a) @ strO ''container_id'' (ta_ContainerID a) @
     intO ''start_index'' (ta_StartIndex a) @ intO ''end_index'' (ta_EndIndex a) @
     strO ''cited_text'' (ta_CitedText a) @ strO ''document_title'' (ta_DocumentTitle a) @
     intO ''document_index'' (ta_DocumentIndex a) @ intO ''start_page'' (ta_StartPage a) @
     intO ''end_page'' (ta_EndPage a) @ intO ''start_block'' (ta_StartBlock a) @ intO ''end_block'' (ta_EndBlock a) @
     intO ''annotation_index'' (ta_AnnotationIndex a))"

definition annotationD :: "json \<Rightarrow> TextAnnotation option" where
  "annotationD = objD (\<lambda>m. do {
     ty \<leftarrow> getStr ''type'' m; ti \<leftarrow> getStr ''title'' m; u \<leftarrow> getStr ''url'' m; fi \<leftarrow> getStr ''file_id'' m;
     fn \<leftarrow> getStr ''filename'' m; ci \<leftarrow> getStr ''container_id'' m; si \<leftarrow> getInt ''start_index'' m;
     ei \<leftarrow> getInt ''end_index'' m; ct \<leftarrow> getStr ''cited_text'' m; dt \<leftarrow> getStr ''document_title'' m;
     di \<leftarrow> getInt ''document_index'' m; sp \<leftarrow> getInt ''start_page'' m; ep \<leftarrow> getInt ''end_page'' m;
     sb \<leftarrow> getInt ''start_block'' m; eb \<leftarrow> getInt ''end_block'' m; ai \<leftarrow> getInt ''annotation_index'' m;
     Some \<lparr>ta_Type = ty, ta_Title = ti, ta_URL = u, ta_FileID = fi, ta_Filename = fn, ta_ContainerID = ci,
       ta_StartIndex = si, ta_EndIndex = ei, ta_CitedText = ct, ta_DocumentTitle = dt, ta_DocumentIndex = di,
       ta_StartPage = sp, ta_EndPage = ep, ta_StartBlock = sb, ta_EndBlock = eb, ta_AnnotationIndex = ai\<rparr> })"

definition textJ :: "TextBlock \<Rightarrow> json" where
  "textJ b = JObj (strO ''text'' (tb_Text b) @ strO ''refusal'' (tb_Refusal b) @
     [(''annotations'', arrJ annotationJ (tb_Annotations b))])"

definition textD :: "json \<Rightarrow> TextBlock option" where
  "textD = objD (\<lambda>m. do { t \<leftarrow> getStr ''text'' m; r \<leftarrow> getStr ''refusal'' m; a \<leftarrow> getArr ''annotations'' annotationD m;
     Some \<lparr>tb_Text = t, tb_Refusal = r, tb_Annotations = a\<rparr> })"

definition mediaJ :: "MediaBlock \<Rightarrow> json" where
  "mediaJ b = JObj (strO ''url'' (mb_URL b) @ strO ''base64_data'' (mb_Base64Data b) @
     strO ''mime_type'' (mb_MIMEType b) @ strO ''name'' (mb_Name b) @ strO ''detail'' (mb_Detail b))"

definition mediaD :: "json \<Rightarrow> MediaBlock option" where
  "mediaD = objD (\<lambda>m. do { u \<leftarrow> getStr ''url'' m; d \<leftarrow> getStr ''base64_data'' m; t \<leftarrow> getStr ''mime_type'' m;
     n \<leftarrow> getStr ''name'' m; x \<leftarrow> getStr ''detail'' m;
     Some \<lparr>mb_URL = u, mb_Base64Data = d, mb_MIMEType = t, mb_Name = n, mb_Detail = x\<rparr> })"

definition functionCallJ :: "FunctionCallBlock \<Rightarrow> json" where
  "functionCallJ b = JObj (strM ''call_id'' (fc_CallID b) @ strM ''name'' (fc_Name b) @ strO ''arguments'' (fc_Arguments b))"

definition functionCallD :: "json \<Rightarrow> FunctionCallBlock option" where
  "functionCallD = objD (\<lambda>m. do { c \<leftarrow> getStr ''call_id'' m; n \<leftarrow> getStr ''name'' m; a \<leftarrow> getStr ''arguments'' m;
     Some \<lparr>fc_CallID = c, fc_Name = n, fc_Arguments = a\<rparr> })"

fun resultTypeText :: "ResultContentType \<Rightarrow> string" where
  "resultTypeText ResultContentText = ''text''"
| "resultTypeText ResultContentImage = ''image''"
| "resultTypeText ResultContentAudio = ''audio''"
| "resultTypeText ResultContentVideo = ''video''"
| "resultTypeText ResultContentFile = ''file''"
| "resultTypeText (ResultContentOther s) = s"

definition resultTypeOfText :: "string \<Rightarrow> ResultContentType" where
  "resultTypeOfText s =
     (case List.find (\<lambda>k. resultTypeText k = s)
        [ResultContentText, ResultContentImage, ResultContentAudio, ResultContentVideo, ResultContentFile]
      of None \<Rightarrow> ResultContentOther s | Some k \<Rightarrow> k)"

definition resultContentJ :: "ResultContent \<Rightarrow> json" where
  "resultContentJ c = JObj (strM ''type'' (resultTypeText (rc_Type c)) @ strO ''text'' (rc_Text c) @
     ptrO ''media'' mediaJ (rc_Media c))"

definition resultContentD :: "json \<Rightarrow> ResultContent option" where
  "resultContentD = objD (\<lambda>m. do { k \<leftarrow> getStr ''type'' m; t \<leftarrow> getStr ''text'' m; d \<leftarrow> getPtr ''media'' mediaD m;
     Some \<lparr>rc_Type = resultTypeOfText k, rc_Text = t, rc_Media = d\<rparr> })"

definition functionResultJ :: "FunctionResultBlock \<Rightarrow> json" where
  "functionResultJ b = JObj (strM ''call_id'' (fr_CallID b) @ strM ''name'' (fr_Name b) @
     [(''content'', arrJ resultContentJ (fr_Content b))])"

definition functionResultD :: "json \<Rightarrow> FunctionResultBlock option" where
  "functionResultD = objD (\<lambda>m. do { c \<leftarrow> getStr ''call_id'' m; n \<leftarrow> getStr ''name'' m;
     x \<leftarrow> getArr ''content'' resultContentD m; Some \<lparr>fr_CallID = c, fr_Name = n, fr_Content = x\<rparr> })"

definition toolSearchJ :: "ToolSearchBlock \<Rightarrow> json option" where
  "toolSearchJ b = map_option (\<lambda>ts. JObj (strM ''call_id'' (tq_CallID b) @ strM ''name'' (tq_Name b) @ [(''tools'', ts)]))
     (arrOptJ jraw (tq_Tools b))"

definition toolSearchD :: "json \<Rightarrow> ToolSearchBlock option" where
  "toolSearchD = objD (\<lambda>m. do { c \<leftarrow> getStr ''call_id'' m; n \<leftarrow> getStr ''name'' m;
     t \<leftarrow> getArr ''tools'' (\<lambda>v. Some (emit v)) m; Some \<lparr>tq_CallID = c, tq_Name = n, tq_Tools = t\<rparr> })"

definition serverCallJ :: "ServerCallBlock \<Rightarrow> json option" where
  "serverCallJ b = map_option (\<lambda>a. JObj (strM ''name'' (sb_Name b) @ strO ''call_id'' (sb_CallID b) @ a))
     (rawO ''arguments'' (sb_Arguments b))"

definition serverCallD :: "json \<Rightarrow> ServerCallBlock option" where
  "serverCallD = objD (\<lambda>m. do { n \<leftarrow> getStr ''name'' m; c \<leftarrow> getStr ''call_id'' m; a \<leftarrow> getRaw ''arguments'' m;
     Some \<lparr>sb_Name = n, sb_CallID = c, sb_Arguments = a\<rparr> })"

definition serverResultJ :: "ServerResultBlock \<Rightarrow> json option" where
  "serverResultJ b = map_option (\<lambda>a. JObj (strM ''name'' (sv_Name b) @ strO ''call_id'' (sv_CallID b) @ a))
     (rawO ''content'' (sv_Content b))"

definition serverResultD :: "json \<Rightarrow> ServerResultBlock option" where
  "serverResultD = objD (\<lambda>m. do { n \<leftarrow> getStr ''name'' m; c \<leftarrow> getStr ''call_id'' m; a \<leftarrow> getRaw ''content'' m;
     Some \<lparr>sv_Name = n, sv_CallID = c, sv_Content = a\<rparr> })"

definition mcpCallJ :: "MCPCallBlock \<Rightarrow> json" where
  "mcpCallJ b = JObj (strO ''server_label'' (mc_ServerLabel b) @ strO ''approval_request_id'' (mc_ApprovalRequestID b) @
     strO ''call_id'' (mc_CallID b) @ strM ''name'' (mc_Name b) @ strO ''arguments'' (mc_Arguments b))"

definition mcpCallD :: "json \<Rightarrow> MCPCallBlock option" where
  "mcpCallD = objD (\<lambda>m. do { l \<leftarrow> getStr ''server_label'' m; r \<leftarrow> getStr ''approval_request_id'' m;
     c \<leftarrow> getStr ''call_id'' m; n \<leftarrow> getStr ''name'' m; a \<leftarrow> getStr ''arguments'' m;
     Some \<lparr>mc_ServerLabel = l, mc_ApprovalRequestID = r, mc_CallID = c, mc_Name = n, mc_Arguments = a\<rparr> })"

definition mcpResultJ :: "MCPResultBlock \<Rightarrow> json" where
  "mcpResultJ b = JObj (strO ''server_label'' (mx_ServerLabel b) @ strO ''call_id'' (mx_CallID b) @
     strM ''name'' (mx_Name b) @ strO ''content'' (mx_Content b) @ ptrO ''error_code'' jint (mx_ErrorCode b) @
     strO ''error_message'' (mx_ErrorMessage b))"

definition mcpResultD :: "json \<Rightarrow> MCPResultBlock option" where
  "mcpResultD = objD (\<lambda>m. do { l \<leftarrow> getStr ''server_label'' m; c \<leftarrow> getStr ''call_id'' m; n \<leftarrow> getStr ''name'' m;
     x \<leftarrow> getStr ''content'' m; e \<leftarrow> getPtr ''error_code'' (\<lambda>v. decInt v 0) m; g \<leftarrow> getStr ''error_message'' m;
     Some \<lparr>mx_ServerLabel = l, mx_CallID = c, mx_Name = n, mx_Content = x, mx_ErrorCode = e, mx_ErrorMessage = g\<rparr> })"

definition mcpToolJ :: "MCPToolDefinition \<Rightarrow> json option" where
  "mcpToolJ d = map_option (\<lambda>s. JObj (strM ''name'' (md_Name d) @ strM ''description'' (md_Description d) @ s))
     (rawO ''input_schema'' (md_InputSchema d))"

definition mcpToolD :: "json \<Rightarrow> MCPToolDefinition option" where
  "mcpToolD = objD (\<lambda>m. do { n \<leftarrow> getStr ''name'' m; d \<leftarrow> getStr ''description'' m; s \<leftarrow> getRaw ''input_schema'' m;
     Some \<lparr>md_Name = n, md_Description = d, md_InputSchema = s\<rparr> })"

definition mcpListToolsJ :: "MCPListToolsBlock \<Rightarrow> json option" where
  "mcpListToolsJ b = map_option (\<lambda>ts. JObj (strO ''server_label'' (ml_ServerLabel b) @ [(''tools'', ts)] @ strO ''error'' (ml_Error b)))
     (arrOptJ mcpToolJ (ml_Tools b))"

definition mcpListToolsD :: "json \<Rightarrow> MCPListToolsBlock option" where
  "mcpListToolsD = objD (\<lambda>m. do { l \<leftarrow> getStr ''server_label'' m; t \<leftarrow> getArr ''tools'' mcpToolD m;
     e \<leftarrow> getStr ''error'' m; Some \<lparr>ml_ServerLabel = l, ml_Tools = t, ml_Error = e\<rparr> })"

definition mcpApprovalRequestJ :: "MCPApprovalRequestBlock \<Rightarrow> json" where
  "mcpApprovalRequestJ b = JObj (strM ''id'' (mq_ID b) @ strM ''name'' (mq_Name b) @
     strO ''arguments'' (mq_Arguments b) @ strO ''server_label'' (mq_ServerLabel b))"

definition mcpApprovalRequestD :: "json \<Rightarrow> MCPApprovalRequestBlock option" where
  "mcpApprovalRequestD = objD (\<lambda>m. do { i \<leftarrow> getStr ''id'' m; n \<leftarrow> getStr ''name'' m; a \<leftarrow> getStr ''arguments'' m;
     l \<leftarrow> getStr ''server_label'' m; Some \<lparr>mq_ID = i, mq_Name = n, mq_Arguments = a, mq_ServerLabel = l\<rparr> })"

definition mcpApprovalResponseJ :: "MCPApprovalResponseBlock \<Rightarrow> json" where
  "mcpApprovalResponseJ b = JObj (strM ''approval_request_id'' (mp_ApprovalRequestID b) @
     [(''approve'', JBool (mp_Approve b))] @ strO ''reason'' (mp_Reason b))"

definition mcpApprovalResponseD :: "json \<Rightarrow> MCPApprovalResponseBlock option" where
  "mcpApprovalResponseD = objD (\<lambda>m. do { i \<leftarrow> getStr ''approval_request_id'' m; a \<leftarrow> getBool ''approve'' m;
     r \<leftarrow> getStr ''reason'' m; Some \<lparr>mp_ApprovalRequestID = i, mp_Approve = a, mp_Reason = r\<rparr> })"

definition variantJ :: "variant \<Rightarrow> json option" where
  "variantJ v = (case v of
     VReasoning b \<Rightarrow> Some (reasoningJ b) | VTextBlock b \<Rightarrow> Some (textJ b) | VMedia b \<Rightarrow> Some (mediaJ b)
   | VFunctionCall b \<Rightarrow> Some (functionCallJ b) | VFunctionResult b \<Rightarrow> Some (functionResultJ b)
   | VToolSearch b \<Rightarrow> toolSearchJ b | VServerCall b \<Rightarrow> serverCallJ b | VServerResult b \<Rightarrow> serverResultJ b
   | VMCPCall b \<Rightarrow> Some (mcpCallJ b) | VMCPResult b \<Rightarrow> Some (mcpResultJ b) | VMCPListTools b \<Rightarrow> mcpListToolsJ b
   | VMCPApprovalRequest b \<Rightarrow> Some (mcpApprovalRequestJ b)
   | VMCPApprovalResponse b \<Rightarrow> Some (mcpApprovalResponseJ b))"

section \<open>Response metadata\<close>

definition usageJ :: "libs \<Rightarrow> Usage \<Rightarrow> json" where
  "usageJ L u = JObj [(''InputTokens'', jint (u_InputTokens u)), (''TotalTokens'', jint (u_TotalTokens u)),
     (''OutputTokens'', jint (u_OutputTokens u)), (''ReasoningTokens'', jint (u_ReasoningTokens u)),
     (''CacheReadTokens'', jint (u_CacheReadTokens u)), (''CacheWriteTokens'', jint (u_CacheWriteTokens u)),
     (''Cost'', JNum (lib_floatText L (u_Cost u)))]"

definition floatD :: "(string \<Rightarrow> int option) \<Rightarrow> json \<Rightarrow> int option" where
  "floatD p v = (case v of JNull \<Rightarrow> Some 0 | JNum n \<Rightarrow> p n | _ \<Rightarrow> None)"

definition usageD :: "libs \<Rightarrow> json \<Rightarrow> Usage option" where
  "usageD L = objD (\<lambda>m. do { i \<leftarrow> getInt ''InputTokens'' m; t \<leftarrow> getInt ''TotalTokens'' m; p \<leftarrow> getInt ''OutputTokens'' m;
     r \<leftarrow> getInt ''ReasoningTokens'' m; c \<leftarrow> getInt ''CacheReadTokens'' m; w \<leftarrow> getInt ''CacheWriteTokens'' m;
     x \<leftarrow> (case getM ''Cost'' m of None \<Rightarrow> Some 0 | Some v \<Rightarrow> floatD (lib_floatParse L) v);
     Some \<lparr>u_InputTokens = i, u_TotalTokens = t, u_OutputTokens = p, u_ReasoningTokens = r,
       u_CacheReadTokens = c, u_CacheWriteTokens = w, u_Cost = x\<rparr> })"

definition segmentJ :: "Segment \<Rightarrow> json" where
  "segmentJ s = JObj (intO ''start'' (sg_Start s) @ intO ''end'' (sg_End s) @ intO ''part_index'' (sg_PartIndex s) @
     strO ''text'' (sg_Text s))"

definition segmentD :: "json \<Rightarrow> Segment option" where
  "segmentD = objD (\<lambda>m. do { s \<leftarrow> getInt ''start'' m; e \<leftarrow> getInt ''end'' m; p \<leftarrow> getInt ''part_index'' m;
     t \<leftarrow> getStr ''text'' m; Some \<lparr>sg_Start = s, sg_End = e, sg_PartIndex = p, sg_Text = t\<rparr> })"

definition chunkJ :: "GroundingChunk \<Rightarrow> json" where
  "chunkJ c = JObj (strO ''domain'' (gc_Domain c) @ strO ''title'' (gc_Title c) @ strO ''uri'' (gc_URI c))"

definition chunkD :: "json \<Rightarrow> GroundingChunk option" where
  "chunkD = objD (\<lambda>m. do { d \<leftarrow> getStr ''domain'' m; t \<leftarrow> getStr ''title'' m; u \<leftarrow> getStr ''uri'' m;
     Some \<lparr>gc_Domain = d, gc_Title = t, gc_URI = u\<rparr> })"

definition supportJ :: "libs \<Rightarrow> GroundingSupport \<Rightarrow> json" where
  "supportJ L s = JObj ([(''confidence_scores'', arrJ (\<lambda>x. JNum (lib_float32Text L x)) (gs_ConfidenceScores s)),
     (''chunk_indices'', arrJ jint (gs_ChunkIndices s))] @ ptrO ''segment'' segmentJ (gs_Segment s))"

definition supportD :: "libs \<Rightarrow> json \<Rightarrow> GroundingSupport option" where
  "supportD L = objD (\<lambda>m. do { c \<leftarrow> getArr ''confidence_scores'' (floatD (lib_float32Parse L)) m;
     i \<leftarrow> getArr ''chunk_indices'' (\<lambda>v. decInt v 0) m; s \<leftarrow> getPtr ''segment'' segmentD m;
     Some \<lparr>gs_ConfidenceScores = c, gs_ChunkIndices = i, gs_Segment = s\<rparr> })"

definition groundingJ :: "libs \<Rightarrow> Grounding \<Rightarrow> json" where
  "groundingJ L g = JObj ([(''chunks'', arrJ chunkJ (gr_Chunks g)), (''supports'', arrJ (supportJ L) (gr_Supports g))] @
     strO ''rendered_entry_point'' (gr_RenderedEntryPoint g) @ [(''web_search_queries'', arrJ jstr (gr_WebSearchQueries g))])"

definition groundingD :: "libs \<Rightarrow> json \<Rightarrow> Grounding option" where
  "groundingD L = objD (\<lambda>m. do { c \<leftarrow> getArr ''chunks'' chunkD m; s \<leftarrow> getArr ''supports'' (supportD L) m;
     r \<leftarrow> getStr ''rendered_entry_point'' m; w \<leftarrow> getArr ''web_search_queries'' strD m;
     Some \<lparr>gr_Chunks = c, gr_Supports = s, gr_RenderedEntryPoint = r, gr_WebSearchQueries = w\<rparr> })"

definition openAIMetaJ :: "OpenAIResponseMeta \<Rightarrow> json" where
  "openAIMetaJ o1 = JObj (strO ''status'' (om_Status o1) @ strO ''error_code'' (om_ErrorCode o1) @
     strO ''error_message'' (om_ErrorMessage o1) @ strO ''incomplete_reason'' (om_IncompleteReason o1) @
     strO ''service_tier'' (om_ServiceTier o1) @ strO ''reasoning_effort'' (om_ReasoningEffort o1) @
     strO ''reasoning_summary'' (om_ReasoningSummary o1) @ strO ''prompt_cache_retention'' (om_PromptCacheRetention o1))"

definition openAIMetaD :: "json \<Rightarrow> OpenAIResponseMeta option" where
  "openAIMetaD = objD (\<lambda>m. do { s \<leftarrow> getStr ''status'' m; c \<leftarrow> getStr ''error_code'' m; e \<leftarrow> getStr ''error_message'' m;
     i \<leftarrow> getStr ''incomplete_reason'' m; t \<leftarrow> getStr ''service_tier'' m; r \<leftarrow> getStr ''reasoning_effort'' m;
     u \<leftarrow> getStr ''reasoning_summary'' m; p \<leftarrow> getStr ''prompt_cache_retention'' m;
     Some \<lparr>om_Status = s, om_ErrorCode = c, om_ErrorMessage = e, om_IncompleteReason = i, om_ServiceTier = t,
       om_ReasoningEffort = r, om_ReasoningSummary = u, om_PromptCacheRetention = p\<rparr> })"

definition claudeMetaJ :: "ClaudeResponseMeta \<Rightarrow> json" where
  "claudeMetaJ c = JObj (strO ''stop_reason'' (cm_StopReason c) @ strO ''stop_sequence'' (cm_StopSequence c) @
     strO ''stop_category'' (cm_StopCategory c) @ strO ''stop_explanation'' (cm_StopExplanation c))"

definition claudeMetaD :: "json \<Rightarrow> ClaudeResponseMeta option" where
  "claudeMetaD = objD (\<lambda>m. do { r \<leftarrow> getStr ''stop_reason'' m; s \<leftarrow> getStr ''stop_sequence'' m;
     c \<leftarrow> getStr ''stop_category'' m; e \<leftarrow> getStr ''stop_explanation'' m;
     Some \<lparr>cm_StopReason = r, cm_StopSequence = s, cm_StopCategory = c, cm_StopExplanation = e\<rparr> })"

definition geminiMetaJ :: "libs \<Rightarrow> GeminiResponseMeta \<Rightarrow> json" where
  "geminiMetaJ L g = JObj (strO ''finish_reason'' (gm_FinishReason g) @ ptrO ''grounding'' (groundingJ L) (gm_Grounding g))"

definition geminiMetaD :: "libs \<Rightarrow> json \<Rightarrow> GeminiResponseMeta option" where
  "geminiMetaD L = objD (\<lambda>m. do { f \<leftarrow> getStr ''finish_reason'' m; g \<leftarrow> getPtr ''grounding'' (groundingD L) m;
     Some \<lparr>gm_FinishReason = f, gm_Grounding = g\<rparr> })"

definition metaJ :: "libs \<Rightarrow> ResponseMeta \<Rightarrow> json" where
  "metaJ L r = JObj (ptrO ''usage'' (usageJ L) (rm_Usage r) @ ptrO ''openai'' openAIMetaJ (rm_OpenAI r) @
     ptrO ''claude'' claudeMetaJ (rm_Claude r) @ ptrO ''gemini'' (geminiMetaJ L) (rm_Gemini r))"

definition metaD :: "libs \<Rightarrow> json \<Rightarrow> ResponseMeta option" where
  "metaD L = objD (\<lambda>m. do { u \<leftarrow> getPtr ''usage'' (usageD L) m; p \<leftarrow> getPtr ''openai'' openAIMetaD m;
     c \<leftarrow> getPtr ''claude'' claudeMetaD m; g \<leftarrow> getPtr ''gemini'' (geminiMetaD L) m;
     Some \<lparr>rm_Usage = u, rm_OpenAI = p, rm_Claude = c, rm_Gemini = g\<rparr> })"

end
