(* ===== verification/ContentLogic.thy ===== *)
theory ContentLogic
  imports ContentCodec
begin

text \<open>
  Validation of content, its envelopes, and the encoding of content into durable parts and
  back (\<open>session/content.go\<close>). The parameter \<open>L\<close> carries what the code takes from Eino
  and \<open>strconv\<close>.
\<close>

section \<open>Validation\<close>

definition ContentSchemaVersion :: int where "ContentSchemaVersion = 1"
definition maxBlockIDBytes :: nat where "maxBlockIDBytes = 128"

fun envelopeKeyForKind :: "BlockKind \<Rightarrow> string option" where
  "envelopeKeyForKind BlockKindReasoning = Some ''reasoning''"
| "envelopeKeyForKind BlockKindUserInputText = Some ''text''"
| "envelopeKeyForKind BlockKindAssistantGenText = Some ''text''"
| "envelopeKeyForKind BlockKindUserInputImage = Some ''media''"
| "envelopeKeyForKind BlockKindUserInputAudio = Some ''media''"
| "envelopeKeyForKind BlockKindUserInputVideo = Some ''media''"
| "envelopeKeyForKind BlockKindUserInputFile = Some ''media''"
| "envelopeKeyForKind BlockKindAssistantGenImage = Some ''media''"
| "envelopeKeyForKind BlockKindAssistantGenAudio = Some ''media''"
| "envelopeKeyForKind BlockKindAssistantGenVideo = Some ''media''"
| "envelopeKeyForKind BlockKindFunctionToolCall = Some ''function_call''"
| "envelopeKeyForKind BlockKindFunctionToolResult = Some ''function_result''"
| "envelopeKeyForKind BlockKindToolSearchResult = Some ''tool_search''"
| "envelopeKeyForKind BlockKindServerToolCall = Some ''server_call''"
| "envelopeKeyForKind BlockKindServerToolResult = Some ''server_result''"
| "envelopeKeyForKind BlockKindMCPToolCall = Some ''mcp_call''"
| "envelopeKeyForKind BlockKindMCPToolResult = Some ''mcp_result''"
| "envelopeKeyForKind BlockKindMCPListToolsResult = Some ''mcp_list_tools''"
| "envelopeKeyForKind BlockKindMCPToolApprovalRequest = Some ''mcp_approval_request''"
| "envelopeKeyForKind BlockKindMCPToolApprovalResponse = Some ''mcp_approval_response''"
| "envelopeKeyForKind (BlockKindOther s) = None"

definition roleAllowedKinds :: "Role \<Rightarrow> BlockKind list option" where
  "roleAllowedKinds r = (case r of
     RoleUser \<Rightarrow> Some [BlockKindUserInputText, BlockKindUserInputImage, BlockKindUserInputAudio,
       BlockKindUserInputVideo, BlockKindUserInputFile, BlockKindFunctionToolResult,
       BlockKindToolSearchResult, BlockKindMCPToolApprovalResponse]
   | RoleAssistant \<Rightarrow> Some [BlockKindReasoning, BlockKindAssistantGenText, BlockKindAssistantGenImage,
       BlockKindAssistantGenAudio, BlockKindAssistantGenVideo, BlockKindFunctionToolCall,
       BlockKindServerToolCall, BlockKindServerToolResult, BlockKindMCPToolCall, BlockKindMCPToolResult,
       BlockKindMCPListToolsResult, BlockKindMCPToolApprovalRequest]
   | RoleSystem \<Rightarrow> Some [BlockKindUserInputText]
   | _ \<Rightarrow> None)"

definition variantsSet :: "ContentBlock \<Rightarrow> nat" where
  "variantsSet b = length (filter id
     [cb_Reasoning b \<noteq> None, cb_Text b \<noteq> None, cb_Media b \<noteq> None, cb_FunctionCall b \<noteq> None,
      cb_FunctionResult b \<noteq> None, cb_ToolSearch b \<noteq> None, cb_ServerCall b \<noteq> None,
      cb_ServerResult b \<noteq> None, cb_MCPCall b \<noteq> None, cb_MCPResult b \<noteq> None, cb_MCPListTools b \<noteq> None,
      cb_MCPApprovalRequest b \<noteq> None, cb_MCPApprovalResponse b \<noteq> None])"

definition orInvalid :: "('a \<Rightarrow> variant) \<Rightarrow> 'a option \<Rightarrow> err + variant" where
  "orInvalid f p = (case p of None \<Rightarrow> Inl ErrContentInvalid | Some x \<Rightarrow> Inr (f x))"

definition blockVariant :: "BlockKind \<Rightarrow> ContentBlock \<Rightarrow> err + variant" where
  "blockVariant kind b =
     (if variantsSet b \<noteq> 1 then Inl ErrContentInvalid
      else case kind of
        BlockKindReasoning \<Rightarrow> orInvalid VReasoning (cb_Reasoning b)
      | BlockKindUserInputText \<Rightarrow> orInvalid VTextBlock (cb_Text b)
      | BlockKindAssistantGenText \<Rightarrow> orInvalid VTextBlock (cb_Text b)
      | BlockKindUserInputImage \<Rightarrow> orInvalid VMedia (cb_Media b)
      | BlockKindUserInputAudio \<Rightarrow> orInvalid VMedia (cb_Media b)
      | BlockKindUserInputVideo \<Rightarrow> orInvalid VMedia (cb_Media b)
      | BlockKindUserInputFile \<Rightarrow> orInvalid VMedia (cb_Media b)
      | BlockKindAssistantGenImage \<Rightarrow> orInvalid VMedia (cb_Media b)
      | BlockKindAssistantGenAudio \<Rightarrow> orInvalid VMedia (cb_Media b)
      | BlockKindAssistantGenVideo \<Rightarrow> orInvalid VMedia (cb_Media b)
      | BlockKindFunctionToolCall \<Rightarrow> orInvalid VFunctionCall (cb_FunctionCall b)
      | BlockKindFunctionToolResult \<Rightarrow> orInvalid VFunctionResult (cb_FunctionResult b)
      | BlockKindToolSearchResult \<Rightarrow> orInvalid VToolSearch (cb_ToolSearch b)
      | BlockKindServerToolCall \<Rightarrow> orInvalid VServerCall (cb_ServerCall b)
      | BlockKindServerToolResult \<Rightarrow> orInvalid VServerResult (cb_ServerResult b)
      | BlockKindMCPToolCall \<Rightarrow> orInvalid VMCPCall (cb_MCPCall b)
      | BlockKindMCPToolResult \<Rightarrow> orInvalid VMCPResult (cb_MCPResult b)
      | BlockKindMCPListToolsResult \<Rightarrow> orInvalid VMCPListTools (cb_MCPListTools b)
      | BlockKindMCPToolApprovalRequest \<Rightarrow> orInvalid VMCPApprovalRequest (cb_MCPApprovalRequest b)
      | BlockKindMCPToolApprovalResponse \<Rightarrow> orInvalid VMCPApprovalResponse (cb_MCPApprovalResponse b)
      | BlockKindOther s \<Rightarrow> Inl ErrContentUnsupported)"

definition isOpenAIAnnotationType :: "libs \<Rightarrow> string \<Rightarrow> bool" where
  "isOpenAIAnnotationType L t = List.member (lib_openAIAnnotations L) t"

definition isClaudeAnnotationType :: "libs \<Rightarrow> string \<Rightarrow> bool" where
  "isClaudeAnnotationType L t = List.member (lib_claudeAnnotations L) t"

definition validateAnnotation :: "libs \<Rightarrow> TextAnnotation \<Rightarrow> err + unit" where
  "validateAnnotation L a =
     (if ta_Type a = [] \<or> \<not> ValidString (ta_Type a) \<or> \<not> ValidString (ta_Title a) \<or> \<not> ValidString (ta_URL a) \<or>
         \<not> ValidString (ta_FileID a) \<or> \<not> ValidString (ta_Filename a) \<or> \<not> ValidString (ta_ContainerID a) \<or>
         \<not> ValidString (ta_CitedText a) \<or> \<not> ValidString (ta_DocumentTitle a)
      then Inl ErrContentInvalid
      else if \<not> isOpenAIAnnotationType L (ta_Type a) \<and> \<not> isClaudeAnnotationType L (ta_Type a)
      then Inl ErrContentUnsupported else Inr ())"

text \<open>\<open>base64.StdEncoding.Strict().DecodeString\<close> succeeds: line breaks are skipped, the
  padding is complete and the unused bits of the last group are zero.\<close>

definition base64Val :: "char \<Rightarrow> nat option" where
  "base64Val c = (let b = byteOf c in
     if inRange 65 90 b then Some (b - 65) else if inRange 97 122 b then Some (b - 71)
     else if inRange 48 57 b then Some (b + 4) else if c = CHR ''+'' then Some 62
     else if c = CHR ''/'' then Some 63 else None)"

fun base64Groups :: "string \<Rightarrow> bool" where
  "base64Groups [] = True"
| "base64Groups (a # b # c # d # r) =
     (base64Val a \<noteq> None \<and>
      (case base64Val b of None \<Rightarrow> False
       | Some vb \<Rightarrow>
          if c = CHR ''='' then d = CHR ''='' \<and> r = [] \<and> vb mod 16 = 0
          else (case base64Val c of None \<Rightarrow> False
                | Some vc \<Rightarrow> if d = CHR ''='' then r = [] \<and> vc mod 4 = 0
                             else base64Val d \<noteq> None \<and> base64Groups r)))"
| "base64Groups _ = False"

definition validBase64 :: "string \<Rightarrow> bool" where
  "validBase64 s = base64Groups (filter (\<lambda>c. c \<noteq> CHR 0x0A \<and> c \<noteq> CHR 0x0D) s)"

definition validMIMEType :: "string \<Rightarrow> bool" where
  "validMIMEType s \<longleftrightarrow> ValidString s \<and>
     (let t = takeWhile (\<lambda>c. c \<noteq> CHR ''/'') s; r = drop (length t + 1) s in
      length t < length s \<and> list_all (\<lambda>c. c \<noteq> CHR ''/'') r \<and> t \<noteq> [] \<and> r \<noteq> [])"

definition validateMediaFields :: "MediaBlock option \<Rightarrow> bool \<Rightarrow> bool \<Rightarrow> ContentLimits \<Rightarrow> err + unit" where
  "validateMediaFields p allowName allowDetail limits =
     (case p of None \<Rightarrow> Inl ErrContentInvalid
      | Some m \<Rightarrow>
         if (mb_URL m \<noteq> []) = (mb_Base64Data m \<noteq> []) then Inl ErrContentInvalid
         else if mb_URL m \<noteq> [] \<and> \<not> ValidString (mb_URL m) then Inl ErrContentInvalid
         else if mb_Base64Data m \<noteq> [] \<and> int (length (mb_Base64Data m)) > cl_MaxBlockBytes limits then Inl ErrContentTooLarge
         else if mb_Base64Data m \<noteq> [] \<and> \<not> validBase64 (mb_Base64Data m) then Inl ErrContentInvalid
         else if mb_MIMEType m \<noteq> [] \<and> \<not> validMIMEType (mb_MIMEType m) then Inl ErrContentInvalid
         else if mb_Name m \<noteq> [] \<and> (\<not> allowName \<or> \<not> ValidString (mb_Name m)) then Inl ErrContentInvalid
         else if mb_Detail m \<noteq> [] \<and> (\<not> allowDetail \<or> \<not> ValidString (mb_Detail m)) then Inl ErrContentInvalid
         else Inr ())"

definition validateMedia :: "BlockKind \<Rightarrow> MediaBlock \<Rightarrow> ContentLimits \<Rightarrow> err + unit" where
  "validateMedia kind m limits =
     validateMediaFields (Some m) (kind = BlockKindUserInputFile)
       (kind = BlockKindUserInputImage \<or> kind = BlockKindAssistantGenImage) limits"

definition validateResultContent :: "ResultContent \<Rightarrow> ContentLimits \<Rightarrow> err + unit" where
  "validateResultContent item limits =
     (case rc_Type item of
        ResultContentText \<Rightarrow>
          if rc_Media item \<noteq> None \<or> \<not> ValidString (rc_Text item) then Inl ErrContentInvalid else Inr ()
      | ResultContentImage \<Rightarrow>
          if rc_Text item \<noteq> [] then Inl ErrContentInvalid else validateMediaFields (rc_Media item) False True limits
      | ResultContentAudio \<Rightarrow>
          if rc_Text item \<noteq> [] then Inl ErrContentInvalid else validateMediaFields (rc_Media item) False False limits
      | ResultContentVideo \<Rightarrow>
          if rc_Text item \<noteq> [] then Inl ErrContentInvalid else validateMediaFields (rc_Media item) False False limits
      | ResultContentFile \<Rightarrow>
          if rc_Text item \<noteq> [] then Inl ErrContentInvalid else validateMediaFields (rc_Media item) True False limits
      | ResultContentOther s \<Rightarrow> Inl ErrContentInvalid)"

definition validJSONObjectString :: "string \<Rightarrow> bool" where
  "validJSONObjectString s =
     (if s = [] then True else if \<not> ValidString s then False
      else (let t = TrimSpace s in length t \<ge> 2 \<and> hd t = CHR ''{'' \<and> jsonValid t))"

definition printableASCII :: "string \<Rightarrow> nat \<Rightarrow> bool" where
  "printableASCII s maxBytes \<longleftrightarrow> s \<noteq> [] \<and> length s \<le> maxBytes \<and> list_all (\<lambda>c. inRange 32 126 (byteOf c)) s"

text \<open>Tokens in order, with the depth after each opening delimiter and the number of
  scalars and keys so far.\<close>

fun boundedTokens :: "nat \<Rightarrow> nat \<Rightarrow> tok list \<Rightarrow> bool" where
  "boundedTokens level entries [] = True"
| "boundedTokens level entries (t # ts) =
     (if t = TLBrace \<or> t = TLBrack then (if level + 1 > 64 then False else boundedTokens (level + 1) entries ts)
      else if t = TRBrace \<or> t = TRBrack then boundedTokens (level - 1) entries ts
      else if t = TComma \<or> t = TColon then boundedTokens level entries ts
      else (if entries + 1 > 4096 then False else boundedTokens level (entries + 1) ts))"

definition boundedFiniteJSON :: "RawMessage \<Rightarrow> err + unit" where
  "boundedFiniteJSON raw =
     (if raw = [] then Inr ()
      else if \<not> jsonValid raw then Inl ErrContentUnsupported
      else case lex raw of None \<Rightarrow> Inl ErrContentUnsupported
      | Some ts \<Rightarrow> if boundedTokens 0 0 ts then Inr () else Inl ErrContentUnsupported)"

text \<open>The first failure of a list of checks.\<close>

fun firstErr :: "('a \<Rightarrow> err + unit) \<Rightarrow> 'a list \<Rightarrow> err + unit" where
  "firstErr f [] = Inr ()"
| "firstErr f (x # xs) = (case f x of Inl e \<Rightarrow> Inl e | Inr u \<Rightarrow> firstErr f xs)"

definition check :: "bool \<Rightarrow> err \<Rightarrow> err + unit" where
  "check ok e = (if ok then Inr () else Inl e)"

text \<open>\<open>validateVariant\<close> returns the call ids of function results seen so far.\<close>

definition validateVariant :: "libs \<Rightarrow> BlockKind \<Rightarrow> variant \<Rightarrow> string list \<Rightarrow> ContentLimits \<Rightarrow> err + string list" where
  "validateVariant L kind v seen limits =
     (let keep = (\<lambda>r. case r of Inl e \<Rightarrow> Inl e | Inr (u :: unit) \<Rightarrow> Inr seen);
          big = (\<lambda>raw :: RawMessage. int (length raw) > cl_MaxBlockBytes limits) in
      case v of
        VReasoning b \<Rightarrow> keep (check (ValidString (rb_Text b) \<and> list_all ValidString (elems (rb_Summary b))) ErrContentInvalid)
      | VTextBlock b \<Rightarrow>
          if big (tb_Text b) then Inl ErrContentTooLarge
          else if \<not> ValidString (tb_Text b) \<or> \<not> ValidString (tb_Refusal b) then Inl ErrContentInvalid
          else if kind = BlockKindUserInputText \<and> (tb_Refusal b \<noteq> [] \<or> elems (tb_Annotations b) \<noteq> []) then Inl ErrContentInvalid
          else keep (firstErr (validateAnnotation L) (elems (tb_Annotations b)))
      | VMedia b \<Rightarrow> keep (validateMedia kind b limits)
      | VFunctionCall b \<Rightarrow>
          keep (check (fc_CallID b \<noteq> [] \<and> fc_Name b \<noteq> [] \<and> ValidString (fc_Name b) \<and> ValidString (fc_CallID b) \<and>
            validJSONObjectString (fc_Arguments b)) ErrContentInvalid)
      | VFunctionResult b \<Rightarrow>
          if fr_CallID b = [] \<or> fr_Name b = [] \<or> \<not> ValidString (fr_Name b) \<or> \<not> ValidString (fr_CallID b)
          then Inl ErrContentInvalid
          else if List.member seen (fr_CallID b) then Inl ErrContentInvalid
          else (case firstErr (\<lambda>c. validateResultContent c limits) (elems (fr_Content b)) of Inl e \<Rightarrow> Inl e
                | Inr u \<Rightarrow> Inr (fr_CallID b # seen))
      | VToolSearch b \<Rightarrow>
          if tq_CallID b = [] \<or> tq_Name b = [] \<or> \<not> ValidString (tq_Name b) \<or> \<not> ValidString (tq_CallID b)
          then Inl ErrContentInvalid
          else keep (firstErr (\<lambda>raw. if big raw then Inl ErrContentTooLarge
                       else check (lib_toolInfo L raw \<noteq> None) ErrContentInvalid) (elems (tq_Tools b)))
      | VServerCall b \<Rightarrow>
          if sb_Name b = [] \<or> \<not> ValidString (sb_Name b) \<or> \<not> ValidString (sb_CallID b) then Inl ErrContentInvalid
          else if big (sb_Arguments b) then Inl ErrContentTooLarge
          else keep (boundedFiniteJSON (sb_Arguments b))
      | VServerResult b \<Rightarrow>
          if sv_Name b = [] \<or> \<not> ValidString (sv_Name b) \<or> \<not> ValidString (sv_CallID b) then Inl ErrContentInvalid
          else if big (sv_Content b) then Inl ErrContentTooLarge
          else keep (boundedFiniteJSON (sv_Content b))
      | VMCPCall b \<Rightarrow>
          keep (check (mc_CallID b \<noteq> [] \<and> mc_Name b \<noteq> [] \<and> ValidString (mc_Name b) \<and> ValidString (mc_ServerLabel b) \<and>
            validJSONObjectString (mc_Arguments b)) ErrContentInvalid)
      | VMCPResult b \<Rightarrow>
          keep (check (mx_CallID b \<noteq> [] \<and> mx_Name b \<noteq> [] \<and> ValidString (mx_Name b) \<and> ValidString (mx_Content b) \<and>
            ValidString (mx_ErrorMessage b)) ErrContentInvalid)
      | VMCPListTools b \<Rightarrow>
          if \<not> ValidString (ml_ServerLabel b) \<or> \<not> ValidString (ml_Error b) then Inl ErrContentInvalid
          else keep (firstErr (\<lambda>t.
            if md_Name t = [] \<or> \<not> ValidString (md_Name t) \<or> \<not> ValidString (md_Description t) then Inl ErrContentInvalid
            else if md_InputSchema t \<noteq> [] then
              (if big (md_InputSchema t) then Inl ErrContentTooLarge else boundedFiniteJSON (md_InputSchema t))
            else Inr ()) (elems (ml_Tools b)))
      | VMCPApprovalRequest b \<Rightarrow>
          keep (check (mq_ID b \<noteq> [] \<and> mq_Name b \<noteq> [] \<and> ValidString (mq_Name b) \<and>
            validJSONObjectString (mq_Arguments b)) ErrContentInvalid)
      | VMCPApprovalResponse b \<Rightarrow>
          keep (check (mp_ApprovalRequestID b \<noteq> [] \<and> ValidString (mp_Reason b)) ErrContentInvalid))"

text \<open>The loop of \<open>Validate\<close> over the blocks: ids and call ids seen, bytes so far.\<close>

fun validateBlocks :: "libs \<Rightarrow> ContentLimits \<Rightarrow> BlockKind list \<Rightarrow> string list \<Rightarrow> string list \<Rightarrow> int \<Rightarrow> ContentBlock list \<Rightarrow> err + int" where
  "validateBlocks L limits allowed ids calls used [] = Inr used"
| "validateBlocks L limits allowed ids calls used (b # bs) =
     (if \<not> List.member allowed (cb_Kind b) then
        (if envelopeKeyForKind (cb_Kind b) = None then Inl ErrContentUnsupported else Inl ErrContentInvalid)
      else if cb_ID b = [] \<or> List.member ids (cb_ID b) \<or> \<not> printableASCII (cb_ID b) maxBlockIDBytes then Inl ErrContentInvalid
      else case blockVariant (cb_Kind b) b of Inl e \<Rightarrow> Inl e
      | Inr v \<Rightarrow>
         (case validateVariant L (cb_Kind b) v calls limits of Inl e \<Rightarrow> Inl e
          | Inr calls' \<Rightarrow>
             (case variantJ v of None \<Rightarrow> Inl ErrContentInvalid
              | Some j \<Rightarrow>
                 if int (length (emit j)) > cl_MaxBlockBytes limits then Inl ErrContentTooLarge
                 else if used + int (length (emit j)) > cl_MaxMessageBytes limits then Inl ErrContentTooLarge
                 else validateBlocks L limits allowed (cb_ID b # ids) calls' (used + int (length (emit j))) bs)))"

text \<open>
  \<open>Content.Validate\<close>. Writing the metadata cannot fail here: \<open>json.Marshal\<close> refuses a \<open>float64\<close> that is not finite, and the numbers
  of the model are finite (theory \<open>GoBase\<close>).
\<close>

definition ValidateContent :: "libs \<Rightarrow> Content \<Rightarrow> ContentLimits \<Rightarrow> err + unit" where
  "ValidateContent L c limits =
     (case ValidateLimits limits of Inl e \<Rightarrow> Inl e
      | Inr u \<Rightarrow>
         (case roleAllowedKinds (co_Role c) of None \<Rightarrow> Inl ErrContentInvalid
          | Some allowed \<Rightarrow>
             if co_Meta c \<noteq> None \<and> co_Role c \<noteq> RoleAssistant then Inl ErrContentInvalid
             else if int (length (co_Blocks c)) > cl_MaxBlocks limits then Inl ErrContentTooLarge
             else case validateBlocks L limits allowed [] [] 0 (co_Blocks c) of Inl e \<Rightarrow> Inl e
             | Inr used \<Rightarrow>
                (case co_Meta c of None \<Rightarrow> Inr ()
                 | Some m \<Rightarrow>
                    let n = int (length (emit (metaJ L m))) in
                    if n > cl_MaxBlockBytes limits then Inl ErrContentTooLarge
                    else if used + n > cl_MaxMessageBytes limits then Inl ErrContentTooLarge
                    else Inr ())))"

section \<open>Envelopes\<close>

definition variantKey :: "variant \<Rightarrow> string" where
  "variantKey v = (case v of VReasoning b \<Rightarrow> ''reasoning'' | VTextBlock b \<Rightarrow> ''text'' | VMedia b \<Rightarrow> ''media''
   | VFunctionCall b \<Rightarrow> ''function_call'' | VFunctionResult b \<Rightarrow> ''function_result'' | VToolSearch b \<Rightarrow> ''tool_search''
   | VServerCall b \<Rightarrow> ''server_call'' | VServerResult b \<Rightarrow> ''server_result'' | VMCPCall b \<Rightarrow> ''mcp_call''
   | VMCPResult b \<Rightarrow> ''mcp_result'' | VMCPListTools b \<Rightarrow> ''mcp_list_tools''
   | VMCPApprovalRequest b \<Rightarrow> ''mcp_approval_request'' | VMCPApprovalResponse b \<Rightarrow> ''mcp_approval_response'')"

definition envelopeHead :: "int \<Rightarrow> string \<Rightarrow> BlockKind \<Rightarrow> members" where
  "envelopeHead schema blockID kind =
     [(''schema'', jint schema)] @ strM ''block_id'' blockID @ strM ''kind'' (blockKindText kind)"

definition encodeBlockEnvelope :: "ContentBlock \<Rightarrow> err + RawMessage" where
  "encodeBlockEnvelope b =
     (case blockVariant (cb_Kind b) b of Inl e \<Rightarrow> Inl e
      | Inr v \<Rightarrow>
         (case variantJ v of None \<Rightarrow> Inl ErrContentInvalid
          | Some j \<Rightarrow> Inr (emit (JObj (envelopeHead ContentSchemaVersion (cb_ID b) (cb_Kind b) @ [(variantKey v, j)])))))"

text \<open>A decoded \<open>contentBlockEnvelope\<close>: its schema and the block it holds.\<close>

definition envelopeD :: "json \<Rightarrow> (int \<times> ContentBlock) option" where
  "envelopeD = objD (\<lambda>m. do {
     s \<leftarrow> getInt ''schema'' m; i \<leftarrow> getStr ''block_id'' m; k \<leftarrow> getStr ''kind'' m;
     r \<leftarrow> getPtr ''reasoning'' reasoningD m; t \<leftarrow> getPtr ''text'' textD m; d \<leftarrow> getPtr ''media'' mediaD m;
     fc \<leftarrow> getPtr ''function_call'' functionCallD m; fr \<leftarrow> getPtr ''function_result'' functionResultD m;
     ts \<leftarrow> getPtr ''tool_search'' toolSearchD m; sc \<leftarrow> getPtr ''server_call'' serverCallD m;
     sr \<leftarrow> getPtr ''server_result'' serverResultD m; mc \<leftarrow> getPtr ''mcp_call'' mcpCallD m;
     mr \<leftarrow> getPtr ''mcp_result'' mcpResultD m; ml \<leftarrow> getPtr ''mcp_list_tools'' mcpListToolsD m;
     mq \<leftarrow> getPtr ''mcp_approval_request'' mcpApprovalRequestD m;
     mp \<leftarrow> getPtr ''mcp_approval_response'' mcpApprovalResponseD m;
     Some (s, \<lparr>cb_ID = i, cb_Kind = blockKindOfText k, cb_Reasoning = r, cb_Text = t, cb_Media = d,
       cb_FunctionCall = fc, cb_FunctionResult = fr, cb_ToolSearch = ts, cb_ServerCall = sc,
       cb_ServerResult = sr, cb_MCPCall = mc, cb_MCPResult = mr, cb_MCPListTools = ml,
       cb_MCPApprovalRequest = mq, cb_MCPApprovalResponse = mp\<rparr>) })"

definition optJ :: "string \<Rightarrow> ('a \<Rightarrow> json option) \<Rightarrow> 'a option \<Rightarrow> members option" where
  "optJ k f p = (case p of None \<Rightarrow> Some [] | Some x \<Rightarrow> map_option (\<lambda>j. [(k, j)]) (f x))"

definition envelopeJ :: "int \<times> ContentBlock \<Rightarrow> json option" where
  "envelopeJ e =
     (let b = snd e in
      map_option (\<lambda>ms. JObj (envelopeHead (fst e) (cb_ID b) (cb_Kind b) @ concat ms))
        (those [optJ ''reasoning'' (Some \<circ> reasoningJ) (cb_Reasoning b), optJ ''text'' (Some \<circ> textJ) (cb_Text b),
          optJ ''media'' (Some \<circ> mediaJ) (cb_Media b), optJ ''function_call'' (Some \<circ> functionCallJ) (cb_FunctionCall b),
          optJ ''function_result'' (Some \<circ> functionResultJ) (cb_FunctionResult b), optJ ''tool_search'' toolSearchJ (cb_ToolSearch b),
          optJ ''server_call'' serverCallJ (cb_ServerCall b), optJ ''server_result'' serverResultJ (cb_ServerResult b),
          optJ ''mcp_call'' (Some \<circ> mcpCallJ) (cb_MCPCall b), optJ ''mcp_result'' (Some \<circ> mcpResultJ) (cb_MCPResult b),
          optJ ''mcp_list_tools'' mcpListToolsJ (cb_MCPListTools b),
          optJ ''mcp_approval_request'' (Some \<circ> mcpApprovalRequestJ) (cb_MCPApprovalRequest b),
          optJ ''mcp_approval_response'' (Some \<circ> mcpApprovalResponseJ) (cb_MCPApprovalResponse b)]))"

definition metaEnvelopeJ :: "libs \<Rightarrow> int \<times> ResponseMeta option \<Rightarrow> json" where
  "metaEnvelopeJ L e = JObj [(''schema'', jint (fst e)), (''meta'', case snd e of None \<Rightarrow> JNull | Some m \<Rightarrow> metaJ L m)]"

definition metaEnvelopeD :: "libs \<Rightarrow> json \<Rightarrow> (int \<times> ResponseMeta option) option" where
  "metaEnvelopeD L = objD (\<lambda>m. do { s \<leftarrow> getInt ''schema'' m; r \<leftarrow> getPtr ''meta'' (metaD L) m; Some (s, r) })"

definition decodeStrict :: "(json \<Rightarrow> 'a option) \<Rightarrow> ('a \<Rightarrow> json option) \<Rightarrow> RawMessage \<Rightarrow> ContentLimits \<Rightarrow> err + 'a" where
  "decodeStrict dec enc raw limits =
     (if int (length raw) > cl_MaxBlockBytes limits then Inl ErrContentTooLarge
      else (let trimmed = TrimSpace raw in
        if trimmed = [] then Inl ErrContentInvalid
        else case Option.bind (jsonParse trimmed) dec of None \<Rightarrow> Inl ErrContentInvalid
        | Some value \<Rightarrow> if map_option emit (enc value) = Some trimmed then Inr value else Inl ErrContentInvalid))"

definition decodeBlockEnvelope :: "RawMessage \<Rightarrow> BlockKind \<Rightarrow> ContentLimits \<Rightarrow> err + ContentBlock" where
  "decodeBlockEnvelope raw expected limits =
     (case decodeStrict envelopeD envelopeJ raw limits of Inl e \<Rightarrow> Inl e
      | Inr (schema, block) \<Rightarrow>
         if schema \<noteq> ContentSchemaVersion then Inl ErrContentInvalid
         else if envelopeKeyForKind (cb_Kind block) = None then Inl ErrContentUnsupported
         else if cb_Kind block \<noteq> expected then Inl ErrContentInvalid
         else (case blockVariant (cb_Kind block) block of Inl e \<Rightarrow> Inl e | Inr v \<Rightarrow> Inr block))"

definition decodeResponseMetaEnvelope :: "libs \<Rightarrow> RawMessage \<Rightarrow> ContentLimits \<Rightarrow> err + ResponseMeta option" where
  "decodeResponseMetaEnvelope L raw limits =
     (case decodeStrict (metaEnvelopeD L) (Some \<circ> metaEnvelopeJ L) raw limits of Inl e \<Rightarrow> Inl e
      | Inr (schema, meta) \<Rightarrow> if schema \<noteq> ContentSchemaVersion then Inl ErrContentInvalid else Inr meta)"

section \<open>Parts\<close>

text \<open>The loop of \<open>EncodeContentParts\<close>; \<open>ids\<close> gives the id of the n-th part.\<close>

fun encodeBlocks :: "(nat \<Rightarrow> PartID) \<Rightarrow> MessageID \<Rightarrow> ID \<Rightarrow> RunID \<Rightarrow> gotime \<Rightarrow> ContentLimits \<Rightarrow> nat \<Rightarrow> int \<Rightarrow>
    ContentBlock list \<Rightarrow> err + (Part list \<times> int)" where
  "encodeBlocks ids msg sess run at limits i used [] = Inr ([], used)"
| "encodeBlocks ids msg sess run at limits i used (b # bs) =
     (case encodeBlockEnvelope b of Inl e \<Rightarrow> Inl e
      | Inr raw \<Rightarrow>
         if int (length raw) > cl_MaxBlockBytes limits then Inl ErrContentTooLarge
         else if used + int (length raw) > cl_MaxMessageBytes limits then Inl ErrContentTooLarge
         else case encodeBlocks ids msg sess run at limits (i + 1) (used + int (length raw)) bs of Inl e \<Rightarrow> Inl e
         | Inr (ps, t) \<Rightarrow> Inr (\<lparr>p_ID = ids i, p_MessageID = msg, p_SessionID = sess, p_RunID = run,
             p_Kind = PartKindForBlock (cb_Kind b), p_Ordinal = int i, p_Payload = raw,
             p_CreatedAt = at, p_UpdatedAt = at\<rparr> # ps, t))"

definition EncodeContentParts :: "libs \<Rightarrow> Content \<Rightarrow> (nat \<Rightarrow> PartID) \<Rightarrow> MessageID \<Rightarrow> ID \<Rightarrow> RunID \<Rightarrow> gotime \<Rightarrow> ContentLimits \<Rightarrow> err + Part list" where
  "EncodeContentParts L content ids msg sess run at limits =
     (case ValidateContent L content limits of Inl e \<Rightarrow> Inl e
      | Inr u \<Rightarrow>
         (case encodeBlocks ids msg sess run at limits 0 0 (co_Blocks content) of Inl e \<Rightarrow> Inl e
          | Inr (parts, used) \<Rightarrow>
             (case co_Meta content of None \<Rightarrow> Inr parts
              | Some m \<Rightarrow>
                 let raw = emit (metaEnvelopeJ L (ContentSchemaVersion, Some m)) in
                 if int (length raw) > cl_MaxBlockBytes limits then Inl ErrContentTooLarge
                 else if used + int (length raw) > cl_MaxMessageBytes limits then Inl ErrContentTooLarge
                 else Inr (parts @ [\<lparr>p_ID = ids (length (co_Blocks content)), p_MessageID = msg, p_SessionID = sess,
                   p_RunID = run, p_Kind = PartResponseMeta, p_Ordinal = int (length (co_Blocks content)),
                   p_Payload = raw, p_CreatedAt = at, p_UpdatedAt = at\<rparr>]))))"

text \<open>The first loop of \<open>DecodeContentParts\<close>: counts and sizes.\<close>

fun measureParts :: "ContentLimits \<Rightarrow> int \<Rightarrow> int \<Rightarrow> Part list \<Rightarrow> err + unit" where
  "measureParts limits blocks bytes [] = Inr ()"
| "measureParts limits blocks bytes (p # ps) =
     (if p_Kind p = PartProviderState then measureParts limits blocks bytes ps
      else
        (let n = int (length (p_Payload p)); isBlock = BlockKindForPart (p_Kind p) \<noteq> None;
             counted = p_Kind p = PartResponseMeta \<or> isBlock;
             blocks' = (if p_Kind p \<noteq> PartResponseMeta \<and> isBlock then blocks + 1 else blocks);
             bytes' = (if counted then bytes + n else bytes) in
         if blocks' \<noteq> blocks \<and> blocks' > cl_MaxBlocks limits then Inl ErrContentTooLarge
         else if counted \<and> n > cl_MaxBlockBytes limits then Inl ErrContentTooLarge
         else if bytes' > cl_MaxMessageBytes limits then Inl ErrContentTooLarge
         else measureParts limits blocks' bytes' ps))"

text \<open>The second loop: blocks in strictly increasing ordinal order, metadata last.\<close>

fun decodePartsLoop :: "libs \<Rightarrow> ContentLimits \<Rightarrow> ContentBlock list \<Rightarrow> ResponseMeta option \<Rightarrow> bool \<Rightarrow> int option \<Rightarrow>
    Part list \<Rightarrow> err + (ContentBlock list \<times> ResponseMeta option)" where
  "decodePartsLoop L limits blocks meta metaSeen prev [] = Inr (blocks, meta)"
| "decodePartsLoop L limits blocks meta metaSeen prev (p # ps) =
     (if p_Kind p = PartProviderState then decodePartsLoop L limits blocks meta metaSeen prev ps
      else case BlockKindForPart (p_Kind p) of
        Some kind \<Rightarrow>
          if metaSeen \<or> (case prev of None \<Rightarrow> False | Some l \<Rightarrow> p_Ordinal p \<le> l) then Inl ErrContentInvalid
          else (case decodeBlockEnvelope (p_Payload p) kind limits of Inl e \<Rightarrow> Inl e
                | Inr b \<Rightarrow> decodePartsLoop L limits (blocks @ [b]) meta metaSeen (Some (p_Ordinal p)) ps)
      | None \<Rightarrow>
          if p_Kind p = PartResponseMeta then
            (if metaSeen \<or> (case prev of None \<Rightarrow> False | Some l \<Rightarrow> p_Ordinal p \<le> l) then Inl ErrContentInvalid
             else (case decodeResponseMetaEnvelope L (p_Payload p) limits of Inl e \<Rightarrow> Inl e
                   | Inr m \<Rightarrow> decodePartsLoop L limits blocks m True (Some (p_Ordinal p)) ps))
          else decodePartsLoop L limits blocks meta metaSeen prev ps)"

definition DecodeContentParts :: "libs \<Rightarrow> Role \<Rightarrow> Part list \<Rightarrow> ContentLimits \<Rightarrow> err + Content" where
  "DecodeContentParts L role parts limits =
     (case ValidateLimits limits of Inl e \<Rightarrow> Inl e
      | Inr u \<Rightarrow>
         (case measureParts limits 0 0 parts of Inl e \<Rightarrow> Inl e
          | Inr u2 \<Rightarrow>
             (case decodePartsLoop L limits [] None False None parts of Inl e \<Rightarrow> Inl e
              | Inr (blocks, meta) \<Rightarrow>
                 (let content = \<lparr>co_Role = role, co_Blocks = blocks, co_Meta = meta\<rparr> in
                  case ValidateContent L content limits of Inl e \<Rightarrow> Inl e | Inr u3 \<Rightarrow> Inr content))))"

end
