(* ===== verification/TurnLogic.thy ===== *)
theory TurnLogic
  imports SessionTypes
begin

text \<open>
  The pure turn transitions of \<open>session/turn.go\<close>: what a request must look like, and the
  canonical turn each transition derives from the durable one. A transition either returns
  the next turn or reports \<open>ErrConflict\<close>. The locale \<open>transition\<close> states the contract
  they share: identity is kept, a repeated request is idempotent (a caller that lost the
  acknowledgement may retry), and a turn that reached a final state never leaves it.
\<close>

section \<open>Requests\<close>

record AdmitTurnRequest =
  at_Turn :: Turn
  at_UserMessages :: "Message list"
  at_UserParts :: "Part list"
  at_AssistantPlaceholder :: Message
  at_Event :: EventRecord
  at_InboxIDs :: "InboxID list"

record CompleteTurnRequest =
  ct_TurnID :: TurnID
  ct_ResponseMessageIDs :: "MessageID slice"
  ct_Usage :: Usage
  ct_Event :: EventRecord

record InterruptTurnRequest =
  it_TurnID :: TurnID
  it_Event :: EventRecord

record ResumeInterruptedTurnRequest =
  rt_TurnID :: TurnID
  rt_ResumedAt :: gotime

section \<open>Transitions\<close>

definition ApplyResumeInterruptedTurn :: "Turn \<Rightarrow> ResumeInterruptedTurnRequest \<Rightarrow> err + Turn" where
  "ApplyResumeInterruptedTurn current request =
     (if t_ID current = [] \<or> t_ID current \<noteq> rt_TurnID request \<or> IsZero (rt_ResumedAt request)
      then Inl ErrConflict
      else if t_State current = TurnRunning then Inr current
      else if t_State current \<noteq> TurnInterrupted then Inl ErrConflict
      else Inr (current\<lparr>t_State := TurnRunning\<rparr>))"

definition validUserMessage :: "Run \<Rightarrow> Turn \<Rightarrow> Message \<Rightarrow> bool" where
  "validUserMessage run t m \<longleftrightarrow> \<not> (m_RunID m \<noteq> r_ID run \<or> m_SessionID m \<noteq> r_SessionID run \<or>
     m_Role m \<noteq> RoleUser \<or> (m_TurnID m \<noteq> [] \<and> m_TurnID m \<noteq> t_ID t))"

definition ValidateAdmitTurn :: "Run \<Rightarrow> AdmitTurnRequest \<Rightarrow> err + unit" where
  "ValidateAdmitTurn run request =
     (let t = at_Turn request; e = at_Event request; ph = at_AssistantPlaceholder request in
      if t_ID t = [] \<or> t_RunID t \<noteq> r_ID run \<or> t_SessionID t \<noteq> r_SessionID run \<or> t_Ordinal t \<le> 0 \<or>
         t_State t \<noteq> TurnAdmitted \<or> \<not> IsZero (t_FinishedAt t) \<or> elems (t_ResponseMessageIDs t) \<noteq> []
      then Inl ErrConflict
      else if ev_ID e = [] \<or> ev_Kind e \<noteq> TurnStartedEventKind \<or> ev_RunID e \<noteq> r_ID run \<or>
         ev_SessionID e \<noteq> r_SessionID run \<or> ev_TurnID e \<noteq> t_ID t
      then Inl ErrConflict
      else if \<not> list_all (validUserMessage run t) (at_UserMessages request) then Inl ErrConflict
      else if \<not> list_all (\<lambda>p. p_RunID p = r_ID run \<and> p_SessionID p = r_SessionID run) (at_UserParts request)
      then Inl ErrConflict
      else if m_ID ph \<noteq> [] \<and>
         (m_RunID ph \<noteq> r_ID run \<or> m_SessionID ph \<noteq> r_SessionID run \<or> m_Role ph \<noteq> RoleAssistant \<or>
          (m_TurnID ph \<noteq> [] \<and> m_TurnID ph \<noteq> t_ID t))
      then Inl ErrConflict
      else Inr ())"

fun sameMessageIDs :: "MessageID list \<Rightarrow> MessageID list \<Rightarrow> bool" where
  "sameMessageIDs [] [] = True"
| "sameMessageIDs (x # xs) (y # ys) = (x = y \<and> sameMessageIDs xs ys)"
| "sameMessageIDs _ _ = False"

definition ApplyCompleteTurn :: "Turn \<Rightarrow> CompleteTurnRequest \<Rightarrow> err + Turn" where
  "ApplyCompleteTurn current request =
     (if t_ID current = [] \<or> t_ID current \<noteq> ct_TurnID request \<or> ev_ID (ct_Event request) = [] \<or>
         ev_Kind (ct_Event request) \<noteq> TurnCompletedEventKind \<or> IsZero (ev_CreatedAt (ct_Event request))
      then Inl ErrConflict
      else if t_State current = TurnCompleted then
        (if sameMessageIDs (elems (t_ResponseMessageIDs current)) (elems (ct_ResponseMessageIDs request)) \<and>
            EqualTime (t_FinishedAt current) (UTC (ev_CreatedAt (ct_Event request))) \<and>
            t_Usage current = ct_Usage request
         then Inr current else Inl ErrConflict)
      else if t_State current \<noteq> TurnAdmitted \<and> t_State current \<noteq> TurnRunning \<and> t_State current \<noteq> TurnInterrupted
      then Inl ErrConflict
      else Inr (current\<lparr>t_State := TurnCompleted,
        t_ResponseMessageIDs := copySlice (ct_ResponseMessageIDs request),
        t_Usage := ct_Usage request,
        t_FinishedAt := UTC (ev_CreatedAt (ct_Event request))\<rparr>))"

definition ApplyInterruptTurn :: "Turn \<Rightarrow> InterruptTurnRequest \<Rightarrow> err + Turn" where
  "ApplyInterruptTurn current request =
     (if t_ID current = [] \<or> t_ID current \<noteq> it_TurnID request \<or> ev_ID (it_Event request) = [] \<or>
         IsZero (ev_CreatedAt (it_Event request))
      then Inl ErrConflict
      else if t_State current = TurnInterrupted then
        (if EqualTime (t_FinishedAt current) (UTC (ev_CreatedAt (it_Event request)))
         then Inr current else Inl ErrConflict)
      else if t_State current \<noteq> TurnAdmitted \<and> t_State current \<noteq> TurnRunning then Inl ErrConflict
      else Inr (current\<lparr>t_State := TurnInterrupted, t_FinishedAt := UTC (ev_CreatedAt (it_Event request))\<rparr>))"

definition ApplyFailTurn :: "Turn \<Rightarrow> gotime \<Rightarrow> err + Turn" where
  "ApplyFailTurn current at =
     (if t_ID current = [] \<or> IsZero at then Inl ErrConflict
      else if t_State current = TurnFailed then
        (if EqualTime (t_FinishedAt current) (UTC at) then Inr current else Inl ErrConflict)
      else if t_State current \<noteq> TurnAdmitted \<and> t_State current \<noteq> TurnRunning \<and> t_State current \<noteq> TurnInterrupted
      then Inl ErrConflict
      else Inr (current\<lparr>t_State := TurnFailed, t_FinishedAt := UTC at\<rparr>))"

section \<open>The contract of a transition\<close>

text \<open>
  A durable record type \<open>'r\<close> with an identity, a set of final states and a transition on
  requests. \<open>ident\<close> is what no transition may change, \<open>target\<close> the state a successful
  transition leaves the record in.
\<close>

locale transition =
  fixes trans :: "'r \<Rightarrow> 'q \<Rightarrow> err + 'r" and ident :: "'r \<Rightarrow> 'i"
    and final :: "'r \<Rightarrow> bool" and target :: "'r \<Rightarrow> bool"
  assumes apply_ident: "trans r q = Inr r' \<Longrightarrow> ident r' = ident r"
    and apply_target: "trans r q = Inr r' \<Longrightarrow> target r'"
    and apply_replay: "trans r q = Inr r' \<Longrightarrow> trans r' q = Inr r'"
    and apply_final: "trans r q = Inr r' \<Longrightarrow> final r \<Longrightarrow> r' = r"
    and apply_err: "trans r q = Inl e \<Longrightarrow> e = ErrConflict"
begin

text \<open>Retrying a request any number of times gives what the first attempt gave.\<close>

fun applyAll :: "'r \<Rightarrow> 'q list \<Rightarrow> err + 'r" where
  "applyAll r [] = Inr r"
| "applyAll r (q # qs) = (case trans r q of Inl e \<Rightarrow> Inl e | Inr r' \<Rightarrow> applyAll r' qs)"

lemma retry_same: "trans r q = Inr r' \<Longrightarrow> applyAll r (replicate (Suc n) q) = Inr r'"
proof (induction n arbitrary: r)
  case 0
  then show ?case by simp
next
  case (Suc n)
  from Suc.prems have "trans r' q = Inr r'" by (rule apply_replay)
  then have "applyAll r' (replicate (Suc n) q) = Inr r'" by (rule Suc.IH)
  with Suc.prems show ?case by simp
qed

lemma applyAll_ident: "applyAll r qs = Inr r' \<Longrightarrow> ident r' = ident r"
  by (induction qs arbitrary: r) (auto split: sum.splits dest: apply_ident)

lemma applyAll_final: "applyAll r qs = Inr r' \<Longrightarrow> final r \<Longrightarrow> r' = r"
proof (induction qs arbitrary: r)
  case Nil
  then show ?case by simp
next
  case (Cons q qs)
  then obtain r1 where r1: "trans r q = Inr r1" "applyAll r1 qs = Inr r'"
    by (auto split: sum.splits)
  with Cons.prems(2) have "r1 = r" by (auto dest: apply_final)
  with r1 Cons show ?case by auto
qed

text \<open>Two requests that both succeed on a final record agree on it.\<close>

lemma final_agree: "final r \<Longrightarrow> trans r q = Inr r1 \<Longrightarrow> trans r q' = Inr r2 \<Longrightarrow> r1 = r2"
  by (auto dest: apply_final)

end

text \<open>The states a turn never leaves: \<open>TurnCompleted\<close> and \<open>TurnFailed\<close>.\<close>

definition turnFinal :: "Turn \<Rightarrow> bool" where
  "turnFinal t \<longleftrightarrow> t_State t = TurnCompleted \<or> t_State t = TurnFailed"

text \<open>Whose turn it is, and what was admitted with it.\<close>

definition turnIdent :: "Turn \<Rightarrow> TurnID \<times> RunID \<times> ID \<times> int \<times> InboxID slice \<times> MessageID slice \<times> MessageID" where
  "turnIdent t = (t_ID t, t_RunID t, t_SessionID t, t_Ordinal t, t_InboxIDs t, t_UserMessageIDs t, t_AssistantMessageID t)"

lemma sameMessageIDs_iff [simp]: "sameMessageIDs xs ys \<longleftrightarrow> xs = ys"
  by (induction xs ys rule: sameMessageIDs.induct) auto

text \<open>What a successful transition did: it replayed a settled turn, or it moved a live one.\<close>

lemma ApplyCompleteTurn_elim:
  assumes "ApplyCompleteTurn r q = Inr r'"
  obtains (replay) "t_State r = TurnCompleted" "r' = r"
  | (move) "t_State r \<in> {TurnAdmitted, TurnRunning, TurnInterrupted}"
      "r' = r\<lparr>t_State := TurnCompleted, t_ResponseMessageIDs := copySlice (ct_ResponseMessageIDs q),
         t_Usage := ct_Usage q, t_FinishedAt := UTC (ev_CreatedAt (ct_Event q))\<rparr>"
  using assms by (simp add: ApplyCompleteTurn_def split: if_split_asm)

lemma ApplyInterruptTurn_elim:
  assumes "ApplyInterruptTurn r q = Inr r'"
  obtains (replay) "t_State r = TurnInterrupted" "r' = r"
  | (move) "t_State r \<in> {TurnAdmitted, TurnRunning}"
      "r' = r\<lparr>t_State := TurnInterrupted, t_FinishedAt := UTC (ev_CreatedAt (it_Event q))\<rparr>"
  using assms by (simp add: ApplyInterruptTurn_def split: if_split_asm)

lemma ApplyFailTurn_elim:
  assumes "ApplyFailTurn r at = Inr r'"
  obtains (replay) "t_State r = TurnFailed" "r' = r"
  | (move) "t_State r \<in> {TurnAdmitted, TurnRunning, TurnInterrupted}"
      "r' = r\<lparr>t_State := TurnFailed, t_FinishedAt := UTC at\<rparr>"
  using assms by (simp add: ApplyFailTurn_def split: if_split_asm)

lemma ApplyResumeInterruptedTurn_elim:
  assumes "ApplyResumeInterruptedTurn r q = Inr r'"
  obtains (replay) "t_State r = TurnRunning" "r' = r"
  | (move) "t_State r = TurnInterrupted" "r' = r\<lparr>t_State := TurnRunning\<rparr>"
  using assms by (simp add: ApplyResumeInterruptedTurn_def split: if_split_asm)

text \<open>Applied again to its own result, a transition finds the replay branch.\<close>

lemma ApplyCompleteTurn_replay:
  assumes "ApplyCompleteTurn r q = Inr r'" shows "ApplyCompleteTurn r' q = Inr r'"
  using assms
proof (cases rule: ApplyCompleteTurn_elim)
  case move
  with assms show ?thesis
    by (simp only: move(2)) (simp add: ApplyCompleteTurn_def split: if_split_asm)
qed (use assms in simp)

lemma ApplyInterruptTurn_replay:
  assumes "ApplyInterruptTurn r q = Inr r'" shows "ApplyInterruptTurn r' q = Inr r'"
  using assms
proof (cases rule: ApplyInterruptTurn_elim)
  case move
  with assms show ?thesis
    by (simp only: move(2)) (simp add: ApplyInterruptTurn_def split: if_split_asm)
qed (use assms in simp)

lemma ApplyFailTurn_replay:
  assumes "ApplyFailTurn r at = Inr r'" shows "ApplyFailTurn r' at = Inr r'"
  using assms
proof (cases rule: ApplyFailTurn_elim)
  case move
  with assms show ?thesis
    by (simp only: move(2)) (simp add: ApplyFailTurn_def split: if_split_asm)
qed (use assms in simp)

lemma ApplyResumeInterruptedTurn_replay:
  assumes "ApplyResumeInterruptedTurn r q = Inr r'" shows "ApplyResumeInterruptedTurn r' q = Inr r'"
  using assms
proof (cases rule: ApplyResumeInterruptedTurn_elim)
  case move
  with assms show ?thesis
    by (simp only: move(2)) (simp add: ApplyResumeInterruptedTurn_def split: if_split_asm)
qed (use assms in simp)

text \<open>Every failure of a transition is a conflict.\<close>

lemma turn_apply_err:
  "ApplyCompleteTurn r q1 = Inl e \<Longrightarrow> e = ErrConflict"
  "ApplyInterruptTurn r q2 = Inl e \<Longrightarrow> e = ErrConflict"
  "ApplyFailTurn r at = Inl e \<Longrightarrow> e = ErrConflict"
  "ApplyResumeInterruptedTurn r q3 = Inl e \<Longrightarrow> e = ErrConflict"
  by (simp_all add: ApplyCompleteTurn_def ApplyInterruptTurn_def ApplyFailTurn_def
      ApplyResumeInterruptedTurn_def split: if_split_asm)

interpretation complete: transition ApplyCompleteTurn turnIdent turnFinal "\<lambda>t. t_State t = TurnCompleted"
  by unfold_locales
    (erule ApplyCompleteTurn_replay | fastforce elim!: ApplyCompleteTurn_elim simp: turnIdent_def turnFinal_def dest: turn_apply_err)+

interpretation interrupt: transition ApplyInterruptTurn turnIdent turnFinal "\<lambda>t. t_State t = TurnInterrupted"
  by unfold_locales
    (erule ApplyInterruptTurn_replay | fastforce elim!: ApplyInterruptTurn_elim simp: turnIdent_def turnFinal_def dest: turn_apply_err)+

interpretation fail: transition ApplyFailTurn turnIdent turnFinal "\<lambda>t. t_State t = TurnFailed"
  by unfold_locales
    (erule ApplyFailTurn_replay | fastforce elim!: ApplyFailTurn_elim simp: turnIdent_def turnFinal_def dest: turn_apply_err)+

interpretation resume: transition ApplyResumeInterruptedTurn turnIdent turnFinal "\<lambda>t. t_State t = TurnRunning"
  by unfold_locales
    (erule ApplyResumeInterruptedTurn_replay | fastforce elim!: ApplyResumeInterruptedTurn_elim simp: turnIdent_def turnFinal_def dest: turn_apply_err)+

end
