(* ===== verification/JsonEqual.thy ===== *)
theory JsonEqual
  imports Complex_Main JsonText
begin

text \<open>
  \<open>internal/jsonequal\<close>: semantic equality of JSON documents. Numbers are compared as exact
  decimals, objects as maps; a document with a repeated key is never equal to anything.
\<close>

record decimal =
  negative :: bool
  digits :: string
  scale :: int

datatype jvalue = VNull | VBool bool | VString string | VNumber decimal
  | VArray "jvalue list" | VObject "(string \<times> jvalue) list"

section \<open>Numbers\<close>

text \<open>\<open>big.Int.SetString(_, 10)\<close> on the exponent of a number: optional sign, digits.\<close>

definition digitVal :: "char \<Rightarrow> int" where
  "digitVal c = int (byteOf c) - 48"

definition digitsVal :: "string \<Rightarrow> int" where
  "digitsVal ds = foldl (\<lambda>n c. 10 * n + digitVal c) 0 ds"

definition setString :: "string \<Rightarrow> int option" where
  "setString s =
     (let neg = take 1 s = ''-''; ds = (if take 1 s = ''-'' \<or> take 1 s = ''+'' then drop 1 s else s) in
      if ds \<noteq> [] \<and> list_all isDigit ds then Some ((if neg then - 1 else 1) * digitsVal ds) else None)"

definition trimLeft0 :: "string \<Rightarrow> string" where
  "trimLeft0 = dropWhile (\<lambda>c. c = CHR ''0'')"

definition trimRight0 :: "string \<Rightarrow> string" where
  "trimRight0 s = rev (trimLeft0 (rev s))"

definition isE :: "char \<Rightarrow> bool" where
  "isE c \<longleftrightarrow> c = CHR ''e'' \<or> c = CHR ''E''"

definition parseDecimal :: "string \<Rightarrow> decimal option" where
  "parseDecimal raw0 =
     (let neg = take 1 raw0 = ''-'';
          raw1 = (if neg then drop 1 raw0 else raw0);
          mantissa = takeWhile (\<lambda>c. \<not> isE c) raw1;
          exponent = (if list_ex isE raw1 then drop (length mantissa + 1) raw1 else ''0'');
          whole = takeWhile (\<lambda>c. c \<noteq> CHR ''.'') mantissa;
          fraction = drop (length whole + 1) mantissa;
          fractionDigits = length fraction;
          ds = trimLeft0 (whole @ fraction) in
      if ds = [] then Some \<lparr>negative = False, digits = ''0'', scale = 0\<rparr>
      else
        (let trailing = length ds - length (trimRight0 ds) in
         case setString exponent of None \<Rightarrow> None
         | Some e \<Rightarrow> Some \<lparr>negative = neg, digits = take (length ds - trailing) ds,
             scale = e - int fractionDigits + int trailing\<rparr>))"

section \<open>Documents\<close>

fun parseValue :: "json \<Rightarrow> jvalue option"
  and parseItems :: "json list \<Rightarrow> jvalue list option"
  and parseMembers :: "(string \<times> jvalue) list \<Rightarrow> (string \<times> json) list \<Rightarrow> (string \<times> jvalue) list option" where
  "parseValue JNull = Some VNull"
| "parseValue (JBool b) = Some (VBool b)"
| "parseValue (JStr s) = Some (VString (unquote s))"
| "parseValue (JNum n) = map_option VNumber (parseDecimal n)"
| "parseValue (JArr vs) = map_option VArray (parseItems vs)"
| "parseValue (JObj kvs) = map_option VObject (parseMembers [] kvs)"
| "parseItems [] = Some []"
| "parseItems (v # vs) =
     (case parseValue v of None \<Rightarrow> None | Some w \<Rightarrow> map_option (Cons w) (parseItems vs))"
| "parseMembers items [] = Some items"
| "parseMembers items ((k, v) # kvs) =
     (if map_of items (unquote k) \<noteq> None then None
      else case parseValue v of None \<Rightarrow> None
      | Some w \<Rightarrow> parseMembers (items @ [(unquote k, w)]) kvs)"

definition parseDoc :: "string \<Rightarrow> jvalue option" where
  "parseDoc raw = Option.bind (jsonTokens raw) parseValue"

fun equalValue :: "jvalue \<Rightarrow> jvalue \<Rightarrow> bool"
  and equalItems :: "jvalue list \<Rightarrow> jvalue list \<Rightarrow> bool"
  and equalMembers :: "(string \<times> jvalue) list \<Rightarrow> (string \<times> jvalue) list \<Rightarrow> bool" where
  "equalValue l VNull = (l = VNull)"
| "equalValue l (VBool b) = (l = VBool b)"
| "equalValue l (VString s) = (l = VString s)"
| "equalValue l (VNumber d) = (case l of VNumber e \<Rightarrow> negative e = negative d \<and> digits e = digits d \<and> scale e = scale d | _ \<Rightarrow> False)"
| "equalValue l (VArray ws) = (case l of VArray vs \<Rightarrow> equalItems vs ws | _ \<Rightarrow> False)"
| "equalValue l (VObject ws) = (case l of VObject vs \<Rightarrow> length vs = length ws \<and> equalMembers vs ws | _ \<Rightarrow> False)"
| "equalItems [] ws = (ws = [])"
| "equalItems (v # vs) ws = (case ws of [] \<Rightarrow> False | w # us \<Rightarrow> equalValue v w \<and> equalItems vs us)"
| "equalMembers [] ws = True"
| "equalMembers ((k, v) # vs) ws =
     ((case map_of ws k of None \<Rightarrow> False | Some w \<Rightarrow> equalValue v w) \<and> equalMembers vs ws)"

definition EqualJSON :: "string \<Rightarrow> string \<Rightarrow> bool" where
  "EqualJSON left0 right0 =
     (let left = TrimSpace left0; right = TrimSpace right0 in
      if left = [] \<or> right = [] then left = [] \<and> right = []
      else case parseDoc left of None \<Rightarrow> False
      | Some l \<Rightarrow> (case parseDoc right of None \<Rightarrow> False | Some r \<Rightarrow> equalValue l r))"

section \<open>Numbers are compared by value\<close>

definition sgnOf :: "bool \<Rightarrow> real" where
  "sgnOf b = (if b then - 1 else 1)"

text \<open>The value of a number: integer part, fraction and exponent read as a real.\<close>

definition numVal :: "string \<Rightarrow> real" where
  "numVal s =
     (let neg = take 1 s = ''-''; u = (if neg then drop 1 s else s);
          m = takeWhile (\<lambda>c. \<not> isE c) u;
          e = (if list_ex isE u then the (setString (drop (length m + 1) u)) else 0);
          w = takeWhile (\<lambda>c. c \<noteq> CHR ''.'') m; f = drop (length w + 1) m in
      sgnOf neg * (digitsVal w + digitsVal f / 10 ^ length f) * 10 powi e)"

definition decVal :: "decimal \<Rightarrow> real" where
  "decVal d = sgnOf (negative d) * digitsVal (digits d) * 10 powi scale d"

lemma digitsVal_snoc: "digitsVal (ds @ [c]) = 10 * digitsVal ds + digitVal c"
  by (simp add: digitsVal_def)

lemma digitsVal_Nil [simp]: "digitsVal [] = 0"
  by (simp add: digitsVal_def)

lemma digitsVal_append: "digitsVal (xs @ ys) = digitsVal xs * 10 ^ length ys + digitsVal ys"
proof (induction ys rule: rev_induct)
  case (snoc y ys)
  have "digitsVal (xs @ ys @ [y]) = 10 * digitsVal (xs @ ys) + digitVal y"
    using digitsVal_snoc [of "xs @ ys" y] by simp
  with snoc show ?case by (simp add: digitsVal_snoc algebra_simps)
qed simp

lemma digitVal_0 [simp]: "digitVal CHR ''0'' = 0"
  by (simp add: digitVal_def byteOf_def)

lemma digitsVal_zeros: "list_all (\<lambda>c. c = CHR ''0'') zs \<Longrightarrow> digitsVal zs = 0"
  by (induction zs rule: rev_induct) (auto simp: digitsVal_snoc)

lemma trimLeft0_split:
  obtains zs where "s = zs @ trimLeft0 s" "list_all (\<lambda>c. c = CHR ''0'') zs"
proof
  show "s = takeWhile (\<lambda>c. c = CHR ''0'') s @ trimLeft0 s" by (simp add: trimLeft0_def)
  show "list_all (\<lambda>c. c = CHR ''0'') (takeWhile (\<lambda>c. c = CHR ''0'') s)"
    by (auto simp: list_all_iff dest: set_takeWhileD)
qed

lemma trimRight0_split:
  obtains zs where "s = trimRight0 s @ zs" "list_all (\<lambda>c. c = CHR ''0'') zs"
proof -
  obtain zs where "rev s = zs @ trimLeft0 (rev s)" "list_all (\<lambda>c. c = CHR ''0'') zs"
    using trimLeft0_split [of "rev s"] by metis
  then have "s = trimRight0 s @ rev zs" "list_all (\<lambda>c. c = CHR ''0'') (rev zs)"
    unfolding trimRight0_def by (metis rev_append rev_rev_ident, simp)
  then show ?thesis using that by blast
qed

lemma digitsVal_trimLeft0 [simp]: "digitsVal (trimLeft0 s) = digitsVal s"
proof -
  obtain zs where "s = zs @ trimLeft0 s" "list_all (\<lambda>c. c = CHR ''0'') zs" by (rule trimLeft0_split)
  then show ?thesis by (metis digitsVal_append digitsVal_zeros add_0 mult_zero_left)
qed

lemma digitsVal_trimRight0:
  "digitsVal s = digitsVal (trimRight0 s) * 10 ^ (length s - length (trimRight0 s))"
proof -
  obtain zs where z: "s = trimRight0 s @ zs" "list_all (\<lambda>c. c = CHR ''0'') zs" by (rule trimRight0_split)
  then have "length s - length (trimRight0 s) = length zs"
    by (metis add_diff_cancel_left' length_append)
  with z show ?thesis by (metis digitsVal_append digitsVal_zeros add.right_neutral)
qed

lemma trimRight0_take: "take (length s - (length s - length (trimRight0 s))) s = trimRight0 s"
proof -
  obtain zs where "s = trimRight0 s @ zs" "list_all (\<lambda>c. c = CHR ''0'') zs" by (rule trimRight0_split)
  then show ?thesis by (metis append_eq_conv_conj diff_diff_cancel le_add1 length_append)
qed

lemma setString_0 [simp]: "setString ''0'' = Some 0"
  by (simp add: setString_def digitsVal_def digitVal_def byteOf_def isDigit_def inRange_def)

text \<open>The decimal of a number has its value.\<close>

lemma parseDecimal_value:
  assumes "parseDecimal n = Some d"
  shows "decVal d = numVal n"
proof -
  define neg where "neg = (take 1 n = ''-'')"
  define u where "u = (if neg then drop 1 n else n)"
  define m where "m = takeWhile (\<lambda>c. \<not> isE c) u"
  define e where "e = (if list_ex isE u then drop (length m + 1) u else ''0'')"
  define w where "w = takeWhile (\<lambda>c. c \<noteq> CHR ''.'') m"
  define f where "f = drop (length w + 1) m"
  define ds where "ds = trimLeft0 (w @ f)"
  define tr where "tr = length ds - length (trimRight0 ds)"
  have P: "Some d = (if ds = [] then Some \<lparr>negative = False, digits = ''0'', scale = 0\<rparr>
      else case setString e of None \<Rightarrow> None
        | Some x \<Rightarrow> Some \<lparr>negative = neg, digits = trimRight0 ds, scale = x - int (length f) + int tr\<rparr>)"
    using assms [symmetric] by (simp only: parseDecimal_def Let_def neg_def [symmetric] u_def [symmetric]
        m_def [symmetric] e_def [symmetric] w_def [symmetric] f_def [symmetric] ds_def [symmetric] tr_def [symmetric] trimRight0_take [of ds, folded tr_def])
  have dv: "digitsVal w * 10 ^ length f + digitsVal f = digitsVal ds"
    by (simp add: ds_def digitsVal_append)
  have ex: "(if list_ex isE u then the (setString (drop (length m + 1) u)) else 0) = the (setString e)"
    by (simp add: e_def)
  have N: "numVal n = sgnOf neg * (digitsVal w + digitsVal f / 10 ^ length f) * 10 powi the (setString e)"
    by (simp only: numVal_def Let_def neg_def [symmetric] u_def [symmetric] m_def [symmetric] w_def [symmetric] f_def [symmetric] ex)
  have M: "real_of_int (digitsVal w) + digitsVal f / 10 ^ length f = digitsVal ds / 10 ^ length f"
    using dv [symmetric] by (simp add: field_simps)
  show ?thesis
  proof (cases "ds = []")
    case True
    then have "digitsVal ds = 0" by simp
    with True P N M show ?thesis by (simp add: decVal_def digitsVal_def digitVal_def byteOf_def)
  next
    case False
    with P obtain x where x: "setString e = Some x"
      and d: "d = \<lparr>negative = neg, digits = trimRight0 ds, scale = x - int (length f) + int tr\<rparr>"
      by (auto split: option.splits)
    have T: "real_of_int (digitsVal ds) = digitsVal (trimRight0 ds) * 10 ^ tr"
      unfolding tr_def by (subst digitsVal_trimRight0) simp
    have "(10::real) powi (x - int (length f) + int tr) = 10 powi x / 10 ^ length f * 10 ^ tr"
      by (simp add: power_int_add power_int_diff)
    with d N M T x show ?thesis by (simp add: decVal_def)
  qed
qed

text \<open>A decimal with neither leading nor trailing zeros is determined by its value.\<close>

definition canonicalDec :: "decimal \<Rightarrow> bool" where
  "canonicalDec d \<longleftrightarrow> d = \<lparr>negative = False, digits = ''0'', scale = 0\<rparr> \<or>
     (digits d \<noteq> [] \<and> list_all isDigit (digits d) \<and> hd (digits d) \<noteq> CHR ''0'' \<and> last (digits d) \<noteq> CHR ''0'')"

lemma isDigit_cases: "isDigit c \<Longrightarrow> 0 \<le> digitVal c \<and> digitVal c \<le> 9"
  by (auto simp: isDigit_def inRange_def digitVal_def)

lemma digitVal_inj: "isDigit c \<Longrightarrow> isDigit d \<Longrightarrow> digitVal c = digitVal d \<Longrightarrow> c = d"
  by (auto simp: isDigit_def inRange_def digitVal_def byteOf_def dest: injD [OF inj_of_char])

lemma digitVal_pos: "isDigit c \<Longrightarrow> c \<noteq> CHR ''0'' \<Longrightarrow> 0 < digitVal c"
  using digitVal_inj [of c "CHR ''0''"] isDigit_cases [of c]
  by (force simp: isDigit_def inRange_def byteOf_def)

lemma digitsVal_nonneg: "list_all isDigit ds \<Longrightarrow> 0 \<le> digitsVal ds"
  by (induction ds rule: rev_induct) (auto simp: digitsVal_snoc dest: isDigit_cases)

lemma digitsVal_pos:
  assumes "list_all isDigit ds" "ds \<noteq> []" "hd ds \<noteq> CHR ''0''" shows "0 < digitsVal ds"
proof -
  obtain c cs where ds: "ds = c # cs" using assms(2) by (cases ds) auto
  have "digitsVal ds = digitVal c * 10 ^ length cs + digitsVal cs"
    using digitsVal_append [of "[c]" cs] by (simp add: ds digitsVal_def)
  moreover have "0 < digitVal c" "0 \<le> digitsVal cs"
    using assms by (auto simp: ds intro: digitVal_pos digitsVal_nonneg)
  ultimately show ?thesis by (simp add: add_pos_nonneg)
qed

lemma digitsVal_inj:
  assumes "list_all isDigit xs" "list_all isDigit ys" "xs \<noteq> []" "ys \<noteq> []"
    and "hd xs \<noteq> CHR ''0''" "hd ys \<noteq> CHR ''0''" "digitsVal xs = digitsVal ys"
  shows "xs = ys"
  using assms
proof (induction xs arbitrary: ys rule: rev_induct)
  case (snoc x xs)
  obtain y zs where ys: "ys = zs @ [y]" using snoc.prems(4) by (cases ys rule: rev_cases) auto
  have eq: "10 * digitsVal xs + digitVal x = 10 * digitsVal zs + digitVal y"
    using snoc.prems(7) by (simp add: ys digitsVal_snoc)
  have r: "0 \<le> digitVal x" "digitVal x \<le> 9" "0 \<le> digitVal y" "digitVal y \<le> 9"
    using snoc.prems(1,2) isDigit_cases by (auto simp: ys)
  with eq have v: "digitsVal xs = digitsVal zs" by linarith
  with eq have v': "digitVal x = digitVal y" by simp
  have "x = y" using v' snoc.prems(1,2) by (auto simp: ys intro: digitVal_inj)
  moreover have "xs = zs"
  proof (cases "xs = [] \<or> zs = []")
    case True
    then show ?thesis
      using v snoc.prems digitsVal_pos [of xs] digitsVal_pos [of zs] by (auto simp: ys hd_append split: if_splits)
  next
    case False
    then show ?thesis using snoc.IH [of zs] v snoc.prems by (auto simp: ys hd_append)
  qed
  ultimately show ?case by (simp add: ys)
qed simp

lemma last_not_dvd:
  assumes "list_all isDigit ds" "ds \<noteq> []" "last ds \<noteq> CHR ''0''" shows "\<not> 10 dvd digitsVal ds"
proof -
  obtain c cs where ds: "ds = cs @ [c]" using assms(2) by (cases ds rule: rev_cases) auto
  have "0 < digitVal c" "digitVal c \<le> 9"
    using assms isDigit_cases by (auto simp: ds intro: digitVal_pos)
  then show ?thesis by (auto simp: ds digitsVal_snoc dvd_add_right_iff dest: zdvd_imp_le)
qed

lemma decimal_shift:
  fixes m1 m2 :: int
  assumes "real_of_int m1 * 10 powi s1 = m2 * 10 powi s2" "s1 < s2" shows "10 dvd m1"
proof -
  obtain k where k: "s2 = s1 + int (Suc k)" using assms(2) by (metis zless_iff_Suc_zadd)
  have "real_of_int m1 = m2 * 10 ^ Suc k"
    using assms(1) by (simp add: k power_int_add del: power_Suc of_nat_Suc)
  also have "\<dots> = real_of_int (10 * (m2 * 10 ^ k))" by simp
  finally have "m1 = 10 * (m2 * 10 ^ k)" by (simp only: of_int_eq_iff)
  then show ?thesis by simp
qed

lemma canonical_unique:
  assumes "canonicalDec a" "canonicalDec b" "decVal a = decVal b" shows "a = b"
proof -
  let ?z = "\<lparr>negative = False, digits = ''0'', scale = 0\<rparr>"
  have z: "decVal ?z = 0" by (simp add: decVal_def digitsVal_def digitVal_def byteOf_def)
  have nz: "c = ?z \<or> decVal c \<noteq> 0" if "canonicalDec c" for c :: decimal
    using that digitsVal_pos [of "digits c"] by (auto simp: canonicalDec_def decVal_def sgnOf_def)
  show ?thesis
  proof (cases "a = ?z \<or> b = ?z")
    case True
    then show ?thesis using nz assms z by metis
  next
    case False
    with assms have A: "digits a \<noteq> []" "list_all isDigit (digits a)" "hd (digits a) \<noteq> CHR ''0''" "last (digits a) \<noteq> CHR ''0''"
      and B: "digits b \<noteq> []" "list_all isDigit (digits b)" "hd (digits b) \<noteq> CHR ''0''" "last (digits b) \<noteq> CHR ''0''"
      by (auto simp: canonicalDec_def)
    have pa: "0 < real_of_int (digitsVal (digits a)) * 10 powi scale a" using A digitsVal_pos by simp
    have pb: "0 < real_of_int (digitsVal (digits b)) * 10 powi scale b" using B digitsVal_pos by simp
    have eq: "sgnOf (negative a) * (digitsVal (digits a) * 10 powi scale a) =
        sgnOf (negative b) * (digitsVal (digits b) * 10 powi scale b)"
      using assms(3) by (simp add: decVal_def mult.assoc)
    with pa pb have n: "negative a = negative b" by (auto simp: sgnOf_def split: if_splits)
    with eq have v: "digitsVal (digits a) * 10 powi scale a = (digitsVal (digits b) * 10 powi scale b :: real)"
      by (simp add: sgnOf_def split: if_splits)
    have "scale a = scale b"
      using decimal_shift [OF v] decimal_shift [OF v [symmetric]] last_not_dvd [of "digits a"] last_not_dvd [of "digits b"] A B
      by (meson linorder_less_linear)
    moreover have "digits a = digits b"
      using v \<open>scale a = scale b\<close> A B by (intro digitsVal_inj) auto
    ultimately show ?thesis using n by simp
  qed
qed

text \<open>The shape of a number that the lexer lets through.\<close>

lemma isDigit_not: "isDigit c \<Longrightarrow> \<not> isE c \<and> c \<noteq> CHR ''.'' \<and> c \<noteq> CHR ''-'' \<and> c \<noteq> CHR ''+''"
  by (auto simp: isDigit_def inRange_def isE_def byteOf_def)

lemma expPart_setString:
  assumes "expPart s" "s \<noteq> []" shows "isE (hd s)" "setString (tl s) \<noteq> None"
proof -
  obtain c cs where s: "s = c # cs" using assms(2) by (cases s) auto
  show "isE (hd s)" using assms by (simp add: s expPart_def isE_def)
  show "setString (tl s) \<noteq> None"
  proof (cases cs)
    case Nil
    then show ?thesis using assms by (simp add: s expPart_def)
  next
    case (Cons d r)
    have "isDigit d \<Longrightarrow> d \<noteq> CHR ''-'' \<and> d \<noteq> CHR ''+''" using isDigit_not by blast
    then show ?thesis using assms by (auto simp: s Cons expPart_def setString_def Let_def)
  qed
qed

lemma list_all_no_E:
  assumes "list_all isDigit w" "f = [] \<or> (\<exists>g. f = CHR ''.'' # g \<and> list_all isDigit g)"
  shows "\<forall>c \<in> set (w @ f). \<not> isE c"
proof -
  have "\<not> isE CHR ''.''" by (simp add: isE_def)
  moreover have "list_all isDigit v \<Longrightarrow> \<forall>c \<in> set v. \<not> isE c" for v
    using isDigit_not unfolding list_all_iff by blast
  ultimately show ?thesis using assms by fastforce
qed

lemma takeWhile_stop: "\<forall>c \<in> set xs. P c \<Longrightarrow> ys = [] \<or> \<not> P (hd ys) \<Longrightarrow> takeWhile P (xs @ ys) = xs"
  by (cases ys) (auto simp: takeWhile_append)

lemma numShape_parts:
  assumes "numShape u w f e"
  shows "takeWhile (\<lambda>c. \<not> isE c) u = w @ f" "list_ex isE u \<longleftrightarrow> e \<noteq> []"
    "takeWhile (\<lambda>c. c \<noteq> CHR ''.'') (w @ f) = w" "list_all isDigit (drop (length w + 1) (w @ f))"
    "e \<noteq> [] \<Longrightarrow> drop (length (w @ f) + 1) u = tl e"
proof -
  have u: "u = (w @ f) @ e" and w: "list_all isDigit w" and e: "expPart e"
    and f: "f = [] \<or> (\<exists>g. f = CHR ''.'' # g \<and> list_all isDigit g)"
    using assms by (simp_all add: numShape_def)
  note nE = list_all_no_E [OF w f] and hdE = expPart_setString(1) [OF e]
  show "takeWhile (\<lambda>c. \<not> isE c) u = w @ f"
    unfolding u by (rule takeWhile_stop) (use nE hdE in auto)
  show "list_ex isE u \<longleftrightarrow> e \<noteq> []"
    using nE hdE hd_in_set [of e] by (auto simp: u list_ex_iff)
  show "takeWhile (\<lambda>c. c \<noteq> CHR ''.'') (w @ f) = w"
  proof (rule takeWhile_stop)
    show "\<forall>c \<in> set w. c \<noteq> CHR ''.''" using w isDigit_not unfolding list_all_iff by blast
  qed (use f in auto)
  show "list_all isDigit (drop (length w + 1) (w @ f))" using f by auto
  show "e \<noteq> [] \<Longrightarrow> drop (length (w @ f) + 1) u = tl e" by (cases e) (simp_all add: u)
qed

lemma trimLeft0_hd: "trimLeft0 s \<noteq> [] \<Longrightarrow> hd (trimLeft0 s) \<noteq> CHR ''0''"
  unfolding trimLeft0_def by (rule hd_dropWhile [where P = "\<lambda>c. c = CHR ''0''"])

lemma trimRight0_last: "trimRight0 s \<noteq> [] \<Longrightarrow> last (trimRight0 s) \<noteq> CHR ''0''"
  by (simp add: trimRight0_def last_rev trimLeft0_hd)

lemma trimRight0_hd:
  assumes "s \<noteq> []" "hd s \<noteq> CHR ''0''" shows "trimRight0 s \<noteq> [] \<and> hd (trimRight0 s) = hd s"
proof -
  obtain zs where z: "s = trimRight0 s @ zs" "list_all (\<lambda>c. c = CHR ''0'') zs" by (rule trimRight0_split)
  show ?thesis
  proof (cases "trimRight0 s = []")
    case True
    then have "hd s \<in> set zs" using z(1) assms(1) by simp
    then show ?thesis using z(2) assms(2) by (simp add: list_all_iff)
  next
    case False
    then show ?thesis using z(1) by (metis hd_append2)
  qed
qed

lemma list_all_trim: "list_all P s \<Longrightarrow> list_all P (trimLeft0 s)" "list_all P s \<Longrightarrow> list_all P (trimRight0 s)"
  by (auto simp: list_all_iff trimLeft0_def trimRight0_def dest: set_dropWhileD)

lemma parseDecimal_valid:
  assumes "validNumber n" shows "\<exists>d. parseDecimal n = Some d \<and> canonicalDec d"
proof -
  obtain w f e where sh: "numShape (if take 1 n = ''-'' then drop 1 n else n) w f e"
    using assms by (rule validNumber_shape)
  note p = numShape_parts [OF sh]
  define ds where "ds = trimLeft0 (w @ drop (length w + 1) (w @ f))"
  have P: "parseDecimal n = (if ds = [] then Some \<lparr>negative = False, digits = ''0'', scale = 0\<rparr>
      else case setString (if e \<noteq> [] then tl e else ''0'') of None \<Rightarrow> None
        | Some x \<Rightarrow> Some \<lparr>negative = take 1 n = ''-'', digits = trimRight0 ds,
            scale = x - int (length (drop (length w + 1) (w @ f))) + int (length ds - length (trimRight0 ds))\<rparr>)"
    unfolding parseDecimal_def Let_def p(1,2,3) ds_def [symmetric] trimRight0_take
    using p(5) by (cases "e = []") (simp_all only: if_False if_True not_False_eq_True simp_thms)
  have "setString (if e \<noteq> [] then tl e else ''0'') \<noteq> None"
    using sh expPart_setString by (auto simp: numShape_def)
  moreover have "list_all isDigit (trimRight0 ds)"
    using sh p(4) by (simp add: ds_def numShape_def list_all_trim)
  moreover have "ds \<noteq> [] \<Longrightarrow> hd ds \<noteq> CHR ''0''" unfolding ds_def by (rule trimLeft0_hd)
  ultimately show ?thesis
    using trimRight0_hd [of ds] trimRight0_last [of ds] by (auto simp: P canonicalDec_def)
qed

text \<open>Two numbers parse to the same decimal exactly when they have the same value.\<close>

lemma parseDecimal_eq_iff:
  assumes "validNumber a" "validNumber b"
  shows "parseDecimal a = parseDecimal b \<longleftrightarrow> numVal a = numVal b"
  using parseDecimal_valid [OF assms(1)] parseDecimal_valid [OF assms(2)]
  by (metis canonical_unique option.inject parseDecimal_value)

section \<open>Documents are compared by meaning\<close>

datatype den = DNull | DBool bool | DStr string | DNum real | DArr "den list" | DObj "string \<Rightarrow> den option"

fun denote :: "json \<Rightarrow> den" where
  "denote JNull = DNull"
| "denote (JBool b) = DBool b"
| "denote (JStr s) = DStr (unquote s)"
| "denote (JNum n) = DNum (numVal n)"
| "denote (JArr vs) = DArr (map denote vs)"
| "denote (JObj kvs) = DObj (map_of (map (\<lambda>(k, v). (unquote k, denote v)) kvs))"

fun unambiguous :: "json \<Rightarrow> bool" where
  "unambiguous (JArr vs) = list_all unambiguous vs"
| "unambiguous (JObj kvs) = (distinct (map (\<lambda>(k, v). unquote k) kvs) \<and> list_all (\<lambda>(k, v). unambiguous v) kvs)"
| "unambiguous _ = True"

fun validNums :: "json \<Rightarrow> bool" where
  "validNums (JNum n) = validNumber n"
| "validNums (JArr vs) = list_all validNums vs"
| "validNums (JObj kvs) = list_all (\<lambda>(k, v). validNums v) kvs"
| "validNums _ = True"

fun vden :: "jvalue \<Rightarrow> den" where
  "vden VNull = DNull"
| "vden (VBool b) = DBool b"
| "vden (VString s) = DStr s"
| "vden (VNumber d) = DNum (decVal d)"
| "vden (VArray vs) = DArr (map vden vs)"
| "vden (VObject kvs) = DObj (map_of (map (\<lambda>(k, v). (k, vden v)) kvs))"

fun wfValue :: "jvalue \<Rightarrow> bool" where
  "wfValue (VNumber d) = canonicalDec d"
| "wfValue (VArray vs) = list_all wfValue vs"
| "wfValue (VObject kvs) = (distinct (map fst kvs) \<and> list_all (\<lambda>(k, v). wfValue v) kvs)"
| "wfValue _ = True"

lemma parse_denotes:
  shows "validNums j \<Longrightarrow>
      (if unambiguous j then \<exists>v. parseValue j = Some v \<and> vden v = denote j \<and> wfValue v else parseValue j = None)"
    and "list_all validNums js \<Longrightarrow>
      (if list_all unambiguous js then \<exists>vs. parseItems js = Some vs \<and> map vden vs = map denote js \<and> list_all wfValue vs
       else parseItems js = None)"
    and "list_all (\<lambda>(k, v). validNums v) kvs \<Longrightarrow> distinct (map fst items) \<Longrightarrow>
      (if distinct (map fst items @ map (\<lambda>(k, v). unquote k) kvs) \<and> list_all (\<lambda>(k, v). unambiguous v) kvs
       then \<exists>us. parseMembers items kvs = Some (items @ us) \<and>
         map (\<lambda>(k, v). (k, vden v)) us = map (\<lambda>(k, v). (unquote k, denote v)) kvs \<and> list_all (\<lambda>(k, v). wfValue v) us
       else parseMembers items kvs = None)"
proof (induction j and js and items kvs rule: parseValue_parseItems_parseMembers.induct)
  case (4 n)
  then show ?case using parseDecimal_valid [of n] by (auto dest: parseDecimal_value)
next
  case (6 kvs)
  then have IH: "if distinct (map (\<lambda>(k, v). unquote k) kvs) \<and> list_all (\<lambda>(k, v). unambiguous v) kvs
       then \<exists>us. parseMembers [] kvs = Some us \<and>
         map (\<lambda>(k, v). (k, vden v)) us = map (\<lambda>(k, v). (unquote k, denote v)) kvs \<and> list_all (\<lambda>(k, v). wfValue v) us
       else parseMembers [] kvs = None" by (simp cong: if_cong)
  have keys: "map (\<lambda>(k, v). (k, vden v)) us = map (\<lambda>(k, v). (unquote k, denote v)) kvs \<Longrightarrow>
      map fst us = map (\<lambda>(k, v). unquote k) kvs" for us
    by (drule arg_cong [where f = "map fst"]) (simp add: comp_def case_prod_unfold)
  show ?case using IH by (auto split: if_splits simp: keys)
next
  case (10 items k v kvs)
  show ?case
  proof (cases "map_of items (unquote k) = None \<and> unambiguous v")
    case True
    with 10(1,3) obtain w where w: "parseValue v = Some w" "vden w = denote v" "wfValue w" by auto
    let ?i = "items @ [(unquote k, w)]"
    have d: "distinct (map fst ?i)" using 10(4) True by (auto simp: map_of_eq_None_iff)
    have "parseMembers items ((k, v) # kvs) = parseMembers ?i kvs" using True w by simp
    moreover have "if distinct (map fst ?i @ map (\<lambda>(k, v). unquote k) kvs) \<and> list_all (\<lambda>(k, v). unambiguous v) kvs
       then \<exists>us. parseMembers ?i kvs = Some (?i @ us) \<and>
         map (\<lambda>(k, v). (k, vden v)) us = map (\<lambda>(k, v). (unquote k, denote v)) kvs \<and> list_all (\<lambda>(k, v). wfValue v) us
       else parseMembers ?i kvs = None"
      using 10(2) [of w] 10(3) True w d by auto
    moreover have "distinct (map fst ?i @ map (\<lambda>(k, v). unquote k) kvs) \<longleftrightarrow>
        distinct (map fst items @ map (\<lambda>(k, v). unquote k) ((k, v) # kvs))"
      by auto
    ultimately show ?thesis using w True
      by (cases "distinct (map fst ?i @ map (\<lambda>(k, v). unquote k) kvs) \<and> list_all (\<lambda>(k, v). unambiguous v) kvs")
        (auto 0 3 simp del: parseMembers.simps distinct_append)
  next
    case False
    then have "parseMembers items ((k, v) # kvs) = None"
      using 10(1,3) by (auto split: if_splits)
    moreover have "map_of items (unquote k) \<noteq> None \<Longrightarrow>
        \<not> distinct (map fst items @ map (\<lambda>(k, v). unquote k) ((k, v) # kvs))"
      by (auto simp: map_of_eq_None_iff)
    ultimately show ?thesis using False by auto
  qed
qed (auto split: if_splits option.splits)

lemma map_of_vden:
  "map_of (map (\<lambda>(k, v). (k, vden v)) kvs) = map_option vden \<circ> map_of kvs"
  by (induction kvs) auto

lemma equal_denotes:
  shows "wfValue l \<Longrightarrow> wfValue r \<Longrightarrow> equalValue l r \<longleftrightarrow> vden l = vden r"
    and "list_all wfValue ls \<Longrightarrow> list_all wfValue rs \<Longrightarrow> equalItems ls rs \<longleftrightarrow> map vden ls = map vden rs"
    and "list_all (\<lambda>(k, v). wfValue v) lm \<Longrightarrow> list_all (\<lambda>(k, v). wfValue v) rm \<Longrightarrow>
      equalMembers lm rm \<longleftrightarrow> (\<forall>(k, v) \<in> set lm. map_option vden (map_of rm k) = Some (vden v))"
proof (induction l r and ls rs and lm rm rule: equalValue_equalItems_equalMembers.induct)
  case (4 l d)
  have "negative e = negative d \<and> digits e = digits d \<and> scale e = scale d \<longleftrightarrow> e = d" for e :: decimal
    by (cases e; cases d) auto
  with 4 show ?case by (cases l) (auto dest: canonical_unique)
next
  case (6 l ws)
  show ?case
  proof (cases l)
    case (VObject vs)
    have eq: "equalMembers vs ws \<longleftrightarrow> (\<forall>(k, v) \<in> set vs. map_option vden (map_of ws k) = Some (vden v))"
      using 6 by (simp add: VObject)
    have dv: "distinct (map fst vs)" and dw: "distinct (map fst ws)" using 6 by (auto simp: VObject)
    let ?V = "map_option vden \<circ> map_of vs" and ?W = "map_option vden \<circ> map_of ws"
    have sub: "(\<forall>(k, v) \<in> set vs. ?W k = Some (vden v)) \<longleftrightarrow> ?V \<subseteq>\<^sub>m ?W"
    proof -
      have "(\<forall>(k, v) \<in> set vs. ?W k = Some (vden v)) \<longleftrightarrow> (\<forall>k v. map_of vs k = Some v \<longrightarrow> ?W k = Some (vden v))"
        using dv by auto
      also have "\<dots> \<longleftrightarrow> ?V \<subseteq>\<^sub>m ?W" 
        by (simp add: map_le_def dom_def del: map_option_eq_Some) (metis option.simps(9))
      finally show ?thesis .
    qed
    have cV: "card (dom ?V) = length vs" and cW: "card (dom ?W) = length ws"
      using dv dw by (simp_all add: dom_map_option_comp dom_map_of_conv_image_fst distinct_card flip: set_map)
    have "length vs = length ws \<and> ?V \<subseteq>\<^sub>m ?W \<longleftrightarrow> ?V = ?W"
    proof
      assume a: "length vs = length ws \<and> ?V \<subseteq>\<^sub>m ?W"
      then have "dom ?V \<subseteq> dom ?W" by (blast dest: map_le_implies_dom_le)
      moreover have "finite (dom ?W)" by (simp add: dom_map_option_comp finite_dom_map_of)
      ultimately have "dom ?V = dom ?W" using a cV cW by (metis card_subset_eq)
      then show "?V = ?W" using a by (metis map_le_antisym map_le_def)
    next
      assume "?V = ?W"
      then show "length vs = length ws \<and> ?V \<subseteq>\<^sub>m ?W" using cV cW by (metis map_le_refl)
    qed
    then show ?thesis using eq sub by (simp add: VObject map_of_vden)
  qed auto
next
  case (8 v vs ws)
  then show ?case by (cases ws) auto
next
  case (10 k v vs ws)
  have "wfValue w" if "map_of ws k = Some w" for w
    using 10(4) map_of_SomeD [OF that] by (auto simp: list_all_iff)
  then show ?case using 10 by (auto split: option.splits)
qed (auto split: jvalue.splits elim: vden.elims)

text \<open>Every number of a document that was read has the grammar of numbers.\<close>

lemma wfJson_nums: "wfJson j \<Longrightarrow> validNums j"
  by (induction j rule: wfJson.induct) (auto simp: list_all_iff)

lemma jsonTokens_nums: "jsonTokens s = Some j \<Longrightarrow> validNums j"
  by (rule wfJson_nums) (rule jsonTokens_wf)

text \<open>\<open>Equal\<close> decides equality of meanings.\<close>

lemma parseDoc_denotes:
  "(case jsonTokens s of Some j \<Rightarrow>
      if unambiguous j then \<exists>v. parseDoc s = Some v \<and> vden v = denote j \<and> wfValue v else parseDoc s = None
    | None \<Rightarrow> parseDoc s = None)"
  using parse_denotes(1) jsonTokens_nums by (auto simp: parseDoc_def split: option.splits)

definition meaning :: "string \<Rightarrow> den option" where
  "meaning s = (case jsonTokens s of Some j \<Rightarrow> if unambiguous j then Some (denote j) else None | None \<Rightarrow> None)"

text \<open>
  C17. \<open>jsonequal.Equal\<close> decides sameness of meaning: two inputs are equal exactly when
  both are blank, or both are valid JSON without repeated keys in any object and denote the
  same value, where numbers denote reals, strings their unescaped text and objects finite maps.
\<close>

theorem EqualJSON_decides_meaning:
  "EqualJSON a b \<longleftrightarrow>
     (if TrimSpace a = [] \<or> TrimSpace b = [] then TrimSpace a = TrimSpace b
      else meaning (TrimSpace a) \<noteq> None \<and> meaning (TrimSpace a) = meaning (TrimSpace b))"
  using parseDoc_denotes [of "TrimSpace a"] parseDoc_denotes [of "TrimSpace b"]
  by (auto simp: EqualJSON_def Let_def meaning_def equal_denotes(1) split: option.splits if_splits)

end
