(* ===== verification/Settlement.thy ===== *)
theory Settlement
  imports TurnLogic JsonEqual
begin

text \<open>
  How runs and tool calls settle: \<open>session/run_settlement.go\<close>,
  \<open>session/tool_settlement.go\<close> and \<open>session/tool_transition.go\<close>. Each settlement
  derives the canonical terminal record from the durable one, and the canonical event from
  that record, so that a repeated settlement derives the same pair again.
\<close>

section \<open>Run settlement\<close>

record RunSettlement =
  rs_Status :: RunStatus
  rs_FinishedAt :: gotime
  rs_Error :: string

record RunSettlementEvent =
  re_ID :: EventID
  re_MessageID :: MessageID
  re_Usage :: Usage
  re_ErrorCode :: string
  re_Retryable :: bool

record SettleRunRequest =
  sr_Settlement :: RunSettlement
  sr_Event :: RunSettlementEvent

record RunSettlementResult =
  rr_Run :: Run
  rr_Event :: EventRecord

definition terminalRunStatus :: "RunStatus \<Rightarrow> bool" where
  "terminalRunStatus s \<longleftrightarrow> s = RunInterrupted \<or> s = RunFailed \<or> s = RunCompleted"

definition ApplyRunSettlement :: "Run \<Rightarrow> RunSettlement \<Rightarrow> err + Run" where
  "ApplyRunSettlement current settlement =
     (if r_ID current = [] \<or> r_SessionID current = [] \<or> r_ClaimToken current = [] \<or>
         \<not> terminalRunStatus (rs_Status settlement) \<or> IsZero (rs_FinishedAt settlement) \<or>
         (rs_Status settlement = RunCompleted \<and> rs_Error settlement \<noteq> [])
      then Inl ErrConflict
      else Inr (current\<lparr>r_Status := rs_Status settlement, r_FinishedAt := UTC (rs_FinishedAt settlement),
        r_Error := rs_Error settlement\<rparr>))"

definition runStatusText :: "RunStatus \<Rightarrow> string" where
  "runStatusText s = (case s of RunPending \<Rightarrow> ''pending'' | RunRunning \<Rightarrow> ''running''
     | RunInterrupted \<Rightarrow> ''interrupted'' | RunFailed \<Rightarrow> ''failed'' | RunCompleted \<Rightarrow> ''completed''
     | RunPaused \<Rightarrow> ''paused'' | RunStatusOther t \<Rightarrow> t)"

definition runSettlementPayload :: "Run \<Rightarrow> RawMessage" where
  "runSettlementPayload r =
     emit (JObj [(''status'', jstr (runStatusText (r_Status r))), (''interrupted'', JBool (r_Status r = RunInterrupted))])"

definition RunSettlementRecord :: "Run \<Rightarrow> RunSettlementEvent \<Rightarrow> err + EventRecord" where
  "RunSettlementRecord r event =
     (if \<not> Terminal r \<or> r_ID r = [] \<or> r_SessionID r = [] \<or> r_ClaimToken r = [] \<or>
         IsZero (r_FinishedAt r) \<or> re_ID event = [] \<or>
         (r_Status r = RunCompleted \<and> (re_ErrorCode event \<noteq> [] \<or> re_Retryable event))
      then Inl ErrConflict
      else Inr \<lparr>ev_ID = re_ID event, ev_SessionID = r_SessionID r, ev_RunID = r_ID r,
        ev_MessageID = re_MessageID event, ev_PartID = [], ev_ToolCallID = [],
        ev_ToolTransition = ToolTransitionNone, ev_EpochID = [], ev_TurnID = [], ev_AgentPath = [],
        ev_ProviderID = r_ProviderID r, ev_ModelID = r_ModelID r, ev_ParentID = [],
        ev_Kind = RunSettlementEventKind, ev_Correlation = [], ev_Usage = re_Usage event,
        ev_Error = \<lparr>ee_Code = re_ErrorCode event, ee_Message = r_Error r, ee_Retryable = re_Retryable event\<rparr>,
        ev_Redaction = RedactionMetadata, ev_Payload = runSettlementPayload r, ev_LiveOnly = False,
        ev_CreatedAt = UTC (r_FinishedAt r)\<rparr>)"

section \<open>Tool settlement\<close>

record ToolSettlement =
  ts_ID :: ToolCallID
  ts_ClaimedBy :: string
  ts_ClaimToken :: string
  ts_Status :: ToolCallStatus
  ts_Output :: RawMessage
  ts_Error :: string
  ts_Metadata :: smap
  ts_CompletedAt :: gotime
  ts_ResultMessage :: Message
  ts_ResultPart :: Part

definition settlementTerminal :: "ToolCallStatus \<Rightarrow> bool" where
  "settlementTerminal s \<longleftrightarrow> s = ToolCallCompleted \<or> s = ToolCallFailed \<or> s = ToolCallInterrupted"

definition callTerminal :: "ToolCallStatus \<Rightarrow> bool" where
  "callTerminal s = settlementTerminal s"

definition TerminalToolCall :: "ToolCallStatus \<Rightarrow> bool" where
  "TerminalToolCall s = callTerminal s"

definition settlementMatches :: "ToolCall \<Rightarrow> ToolSettlement \<Rightarrow> bool" where
  "settlementMatches call s \<longleftrightarrow>
     tc_Status call = ts_Status s \<and> tc_Error call = ts_Error s \<and>
     EqualJSON (tc_Output call) (ts_Output s) \<and> tc_Metadata call = ts_Metadata s \<and>
     EqualTime (tc_CompletedAt call) (ts_CompletedAt s)"

definition ApplySettlement :: "ToolCall \<Rightarrow> ToolSettlement \<Rightarrow> err + ToolCall" where
  "ApplySettlement call s =
     (if IsZero (ts_CompletedAt s) then Inl ErrConflict
      else if ts_ID s \<noteq> [] \<and> tc_ID call \<noteq> ts_ID s then Inl ErrConflict
      else if ts_ClaimedBy s = [] \<or> ts_ClaimToken s = [] \<or> tc_ClaimedBy call \<noteq> ts_ClaimedBy s \<or>
        tc_ClaimToken call \<noteq> ts_ClaimToken s then Inl ErrConflict
      else if callTerminal (tc_Status call) then
        (if settlementMatches call s then Inr call else Inl ErrConflict)
      else if \<not> settlementTerminal (ts_Status s) then Inl ErrConflict
      else Inr (call\<lparr>tc_Status := ts_Status s, tc_Output := ts_Output s, tc_Error := ts_Error s,
        tc_Metadata := ts_Metadata s, tc_CompletedAt := ts_CompletedAt s\<rparr>))"

section \<open>Tool transitions\<close>

record ToolTransitionEvent =
  te_ID :: EventID
  te_EpochID :: EpochID
  te_ProviderID :: string
  te_ModelID :: string
  te_CreatedAt :: gotime

record CreateToolCallRequest =
  cq_Call :: ToolCall
  cq_RequestPart :: Part
  cq_Event :: ToolTransitionEvent

record ClaimToolCallRequest =
  kq_ID :: ToolCallID
  kq_ClaimedBy :: string
  kq_ClaimToken :: string
  kq_StartedAt :: gotime
  kq_LeaseDuration :: int
  kq_Event :: ToolTransitionEvent

record SettleToolCallRequest =
  sq_Settlement :: ToolSettlement
  sq_Event :: ToolTransitionEvent

record ToolTransitionResult =
  tr_Call :: ToolCall
  tr_Event :: EventRecord

definition toolStatusText :: "ToolCallStatus \<Rightarrow> string" where
  "toolStatusText s = (case s of ToolCallPending \<Rightarrow> ''pending'' | ToolCallRunning \<Rightarrow> ''running''
     | ToolCallCompleted \<Rightarrow> ''completed'' | ToolCallFailed \<Rightarrow> ''failed''
     | ToolCallInterrupted \<Rightarrow> ''interrupted'' | ToolCallStatusOther t \<Rightarrow> t)"

text \<open>
  The payload of a tool event. A nil output, an empty error and an empty metadata map are
  omitted; nil arguments are \<open>null\<close>; malformed arguments or output make \<open>json.Marshal\<close>
  fail. \<open>encoding/json\<close> writes map keys in sorted order, which is the order of a \<open>smap\<close>.
\<close>

definition toolTransitionPayload :: "ToolCall \<Rightarrow> RawMessage option" where
  "toolTransitionPayload call =
     (case (jraw (tc_Input call), if tc_Output call = [] then Some [] else
          map_option (\<lambda>v. [(''output'', v)]) (jraw (tc_Output call))) of
        (Some arguments, Some output) \<Rightarrow>
          Some (emit (JObj ([(''id'', jstr (tc_ID call)), (''name'', jstr (tc_Name call)), (''arguments'', arguments)] @
            output @ [(''status'', jstr (toolStatusText (tc_Status call)))] @
            (if tc_Error call = [] then [] else [(''error'', jstr (tc_Error call))]) @
            (if elems (tc_Metadata call) = [] then []
             else [(''metadata'', JObj (map (\<lambda>(k, v). (quote k, jstr v)) (elems (tc_Metadata call))))]))))
      | _ \<Rightarrow> None)"

definition toolPhase :: "ToolCallStatus \<Rightarrow> ToolTransitionPhase" where
  "toolPhase s = (case s of ToolCallPending \<Rightarrow> ToolTransitionPending
     | ToolCallRunning \<Rightarrow> ToolTransitionRunning | _ \<Rightarrow> ToolTransitionTerminal)"

definition phaseStateOK :: "ToolCall \<Rightarrow> ToolTransitionEvent \<Rightarrow> bool" where
  "phaseStateOK call event =
     (case tc_Status call of
        ToolCallPending \<Rightarrow> tc_ClaimedBy call = [] \<and> tc_ClaimToken call = [] \<and>
          IsZero (tc_StartedAt call) \<and> IsZero (tc_CompletedAt call)
      | ToolCallRunning \<Rightarrow> tc_ClaimedBy call \<noteq> [] \<and> tc_ClaimToken call \<noteq> [] \<and>
          \<not> IsZero (tc_StartedAt call) \<and> IsZero (tc_CompletedAt call) \<and>
          EqualTime (tc_StartedAt call) (te_CreatedAt event)
      | ToolCallStatusOther t \<Rightarrow> False
      | _ \<Rightarrow> tc_ClaimedBy call \<noteq> [] \<and> tc_ClaimToken call \<noteq> [] \<and>
          \<not> IsZero (tc_CompletedAt call) \<and> EqualTime (tc_CompletedAt call) (te_CreatedAt event))"

definition ToolTransitionRecord :: "ToolCall \<Rightarrow> ToolTransitionEvent \<Rightarrow> err + EventRecord" where
  "ToolTransitionRecord call event =
     (if tc_ID call = [] \<or> tc_SessionID call = [] \<or> tc_RunID call = [] \<or> tc_MessageID call = [] \<or>
         tc_Name call = [] \<or> te_ID event = [] \<or> IsZero (te_CreatedAt event)
      then Inl ErrConflict
      else if \<not> phaseStateOK call event then Inl ErrConflict
      else case toolTransitionPayload call of None \<Rightarrow> Inl ErrMarshal
      | Some payload \<Rightarrow> Inr \<lparr>ev_ID = te_ID event, ev_SessionID = tc_SessionID call, ev_RunID = tc_RunID call,
          ev_MessageID = tc_MessageID call, ev_PartID = [], ev_ToolCallID = tc_ID call,
          ev_ToolTransition = toolPhase (tc_Status call), ev_EpochID = te_EpochID event, ev_TurnID = [],
          ev_AgentPath = [], ev_ProviderID = te_ProviderID event, ev_ModelID = te_ModelID event,
          ev_ParentID = [], ev_Kind = ToolTransitionEventKind, ev_Correlation = [], ev_Usage = zeroUsage,
          ev_Error = zeroEventError, ev_Redaction = RedactionContent, ev_Payload = payload,
          ev_LiveOnly = False, ev_CreatedAt = UTC (te_CreatedAt event)\<rparr>)"

definition SameToolTransitionState :: "ToolCall \<Rightarrow> ToolCall \<Rightarrow> bool" where
  "SameToolTransitionState l r \<longleftrightarrow>
     tc_ID l = tc_ID r \<and> tc_SessionID l = tc_SessionID r \<and> tc_RunID l = tc_RunID r \<and>
     tc_MessageID l = tc_MessageID r \<and> tc_RequestPartID l = tc_RequestPartID r \<and>
     tc_ResultMessageID l = tc_ResultMessageID r \<and> tc_ResultPartID l = tc_ResultPartID r \<and>
     tc_Name l = tc_Name r \<and> tc_Pattern l = tc_Pattern r \<and>
     EqualJSON (tc_Input l) (tc_Input r) \<and> EqualJSON (tc_Output l) (tc_Output r) \<and>
     tc_Status l = tc_Status r \<and> tc_RetrySafe l = tc_RetrySafe r \<and> tc_Metadata l = tc_Metadata r \<and>
     tc_ClaimedBy l = tc_ClaimedBy r \<and> tc_ClaimToken l = tc_ClaimToken r \<and>
     EqualTime (tc_StartedAt l) (tc_StartedAt r) \<and> EqualTime (tc_CompletedAt l) (tc_CompletedAt r) \<and>
     tc_Error l = tc_Error r"

section \<open>Lemmas\<close>

lemma ApplyRunSettlement_elim:
  assumes "ApplyRunSettlement r s = Inr r'"
  obtains "terminalRunStatus (rs_Status s)" "\<not> IsZero (rs_FinishedAt s)"
    "r' = r\<lparr>r_Status := rs_Status s, r_FinishedAt := UTC (rs_FinishedAt s), r_Error := rs_Error s\<rparr>"
  using assms by (simp add: ApplyRunSettlement_def split: if_split_asm)

lemma Terminal_iff: "Terminal r \<longleftrightarrow> terminalRunStatus (r_Status r)"
  by (simp add: Terminal_def terminalRunStatus_def)

lemma ApplySettlement_elim:
  assumes "ApplySettlement c s = Inr c'"
  obtains (replay) "callTerminal (tc_Status c)" "settlementMatches c s" "c' = c"
  | (settle) "\<not> callTerminal (tc_Status c)" "settlementTerminal (ts_Status s)"
      "c' = c\<lparr>tc_Status := ts_Status s, tc_Output := ts_Output s, tc_Error := ts_Error s,
        tc_Metadata := ts_Metadata s, tc_CompletedAt := ts_CompletedAt s\<rparr>"
  using assms by (simp add: ApplySettlement_def split: if_split_asm)

text \<open>
  A settlement whose output compares equal to itself can be repeated. \<open>Equal\<close> is not
  reflexive on malformed or ambiguous documents, so the repetition is refused for those.
\<close>

lemma ApplySettlement_replay:
  assumes "ApplySettlement c s = Inr c'" "EqualJSON (ts_Output s) (ts_Output s)"
  shows "ApplySettlement c' s = Inr c'"
  using assms(1)
proof (cases rule: ApplySettlement_elim)
  case replay
  with assms show ?thesis by simp
next
  case settle
  have "ApplySettlement (c\<lparr>tc_Status := ts_Status s, tc_Output := ts_Output s, tc_Error := ts_Error s,
        tc_Metadata := ts_Metadata s, tc_CompletedAt := ts_CompletedAt s\<rparr>) s =
      Inr (c\<lparr>tc_Status := ts_Status s, tc_Output := ts_Output s, tc_Error := ts_Error s,
        tc_Metadata := ts_Metadata s, tc_CompletedAt := ts_CompletedAt s\<rparr>)"
    using assms settle(1,2)
    by (simp add: ApplySettlement_def settlementMatches_def callTerminal_def split: if_split_asm)
  then show ?thesis by (simp only: settle(3))
qed

end
