(* ===== verification/Envelopes.thy ===== *)
theory Envelopes
  imports ContentLogic Settlement
begin

text \<open>
  Where stored records meet content: inbox items (\<open>session/inbox.go\<close>), the text column of
  observed parts (\<open>store/internal/sqlstore/observation_projection.go\<close>) and the checks that
  the request and result parts of a tool call match it
  (\<open>store/internal/sqlstore/tool_records.go\<close>).
\<close>

section \<open>Inbox items\<close>

record InboxItem =
  ib_ID :: InboxID
  ib_SessionID :: ID
  ib_IdempotencyKey :: string
  ib_Blocks :: "ContentBlock slice"
  ib_State :: InboxState
  ib_TurnID :: TurnID
  ib_CreatedAt :: gotime
  ib_UpdatedAt :: gotime

definition ValidateEnqueueInbox :: "libs \<Rightarrow> InboxItem \<Rightarrow> ContentLimits \<Rightarrow> err + unit" where
  "ValidateEnqueueInbox L item limits =
     (if ib_ID item = [] \<or> ib_SessionID item = [] \<or> ib_IdempotencyKey item = [] \<or>
         ib_State item \<noteq> InboxQueued \<or> ib_TurnID item \<noteq> [] \<or> IsZero (ib_CreatedAt item)
      then Inl ErrConflict
      else ValidateContent L \<lparr>co_Role = RoleUser, co_Blocks = elems (ib_Blocks item), co_Meta = None\<rparr> limits)"

text \<open>The raw messages inside a block as \<open>json.Marshal\<close> writes them; empty optional ones
  are omitted and read back empty.\<close>

definition marshalRawO :: "RawMessage \<Rightarrow> RawMessage option" where
  "marshalRawO r = (if r = [] then Some [] else marshalRaw r)"

definition marshalRaws :: "RawMessage slice \<Rightarrow> RawMessage slice option" where
  "marshalRaws s = (case s of None \<Rightarrow> Some None | Some rs \<Rightarrow> map_option Some (those (map marshalRaw rs)))"

definition optMap :: "('a \<Rightarrow> 'b option) \<Rightarrow> 'a option \<Rightarrow> 'b option option" where
  "optMap f p = (case p of None \<Rightarrow> Some None | Some x \<Rightarrow> map_option Some (f x))"

definition marshalTool :: "MCPToolDefinition \<Rightarrow> MCPToolDefinition option" where
  "marshalTool t = map_option (\<lambda>w. t\<lparr>md_InputSchema := w\<rparr>) (marshalRawO (md_InputSchema t))"

definition marshalTools :: "MCPToolDefinition slice \<Rightarrow> MCPToolDefinition slice option" where
  "marshalTools s = (case s of None \<Rightarrow> Some None | Some ts \<Rightarrow> map_option Some (those (map marshalTool ts)))"

definition marshalToolSearch :: "ToolSearchBlock \<Rightarrow> ToolSearchBlock option" where
  "marshalToolSearch t = map_option (\<lambda>w. t\<lparr>tq_Tools := w\<rparr>) (marshalRaws (tq_Tools t))"

definition marshalServerCall :: "ServerCallBlock \<Rightarrow> ServerCallBlock option" where
  "marshalServerCall t = map_option (\<lambda>w. t\<lparr>sb_Arguments := w\<rparr>) (marshalRawO (sb_Arguments t))"

definition marshalServerResult :: "ServerResultBlock \<Rightarrow> ServerResultBlock option" where
  "marshalServerResult t = map_option (\<lambda>w. t\<lparr>sv_Content := w\<rparr>) (marshalRawO (sv_Content t))"

definition marshalListTools :: "MCPListToolsBlock \<Rightarrow> MCPListToolsBlock option" where
  "marshalListTools t = map_option (\<lambda>w. t\<lparr>ml_Tools := w\<rparr>) (marshalTools (ml_Tools t))"

definition marshalBlock :: "ContentBlock \<Rightarrow> ContentBlock option" where
  "marshalBlock b = do {
     ts \<leftarrow> optMap marshalToolSearch (cb_ToolSearch b); sc \<leftarrow> optMap marshalServerCall (cb_ServerCall b);
     sr \<leftarrow> optMap marshalServerResult (cb_ServerResult b); ml \<leftarrow> optMap marshalListTools (cb_MCPListTools b);
     Some (b\<lparr>cb_ToolSearch := ts, cb_ServerCall := sc, cb_ServerResult := sr, cb_MCPListTools := ml\<rparr>) }"

definition marshalInbox :: "InboxItem \<Rightarrow> err + InboxItem" where
  "marshalInbox item =
     (case ib_Blocks item of None \<Rightarrow> Inr item
      | Some bs \<Rightarrow> (case those (map marshalBlock bs) of None \<Rightarrow> Inl ErrMarshal
                   | Some ws \<Rightarrow> Inr (item\<lparr>ib_Blocks := Some ws\<rparr>)))"

section \<open>Observed text\<close>

record contentTextEnvelope =
  ct_Text :: "string option"

definition textFields :: "string fields" where
  "textFields = [field ''text'' decString id (\<lambda>f x. f x)]"

definition contentTextFields :: "contentTextEnvelope fields" where
  "contentTextFields = [field ''text'' (decPtr [] (decodeStruct textFields)) ct_Text ct_Text_update]"

definition ObservationText :: "Part \<Rightarrow> string \<times> bool" where
  "ObservationText p =
     (if p_Kind p = PartUserInputText \<or> p_Kind p = PartAssistantGenText then
        (if \<not> ValidString (p_Payload p) then ([], False)
         else case unmarshal (decodeStruct contentTextFields) \<lparr>ct_Text = None\<rparr> (p_Payload p) of None \<Rightarrow> ([], False)
         | Some e \<Rightarrow> (case ct_Text e of None \<Rightarrow> ([], False) | Some t \<Rightarrow> (t, ValidString t)))
      else ([], True))"

section \<open>Tool request and result envelopes\<close>

definition ValidToolRequestEnvelope :: "libs \<Rightarrow> ToolCall \<Rightarrow> Part \<Rightarrow> bool" where
  "ValidToolRequestEnvelope L call part =
     (if tc_RequestPartID call = [] \<or> p_ID part \<noteq> tc_RequestPartID call \<or> p_MessageID part \<noteq> tc_MessageID call \<or>
         p_SessionID part \<noteq> tc_SessionID call \<or> p_RunID part \<noteq> tc_RunID call \<or> p_Kind part \<noteq> PartFunctionToolCall
      then False
      else case DecodeContentParts L RoleAssistant [part] MaxContentLimits of Inl e \<Rightarrow> False
      | Inr content \<Rightarrow>
         (case co_Blocks content of
            [b] \<Rightarrow>
              (case cb_FunctionCall b of None \<Rightarrow> False
               | Some fc \<Rightarrow>
                  (let expectedName = (if tc_RequestedName call = [] then tc_Name call else tc_RequestedName call) in
                   fc_CallID fc = tc_ID call \<and> fc_Name fc = expectedName \<and> EqualJSON (fc_Arguments fc) (tc_Input call)))
          | _ \<Rightarrow> False))"

record recordedPart =
  rp_Type :: string
  rp_Omitted :: bool

definition recordedPartFields :: "recordedPart fields" where
  "recordedPartFields = [field ''type'' decString rp_Type rp_Type_update, field ''omitted'' decBool rp_Omitted rp_Omitted_update]"

record recordedToolOutputShape =
  ro_Parts :: "recordedPart slice"

definition recordedToolOutputFields :: "recordedToolOutputShape fields" where
  "recordedToolOutputFields =
     [field ''parts'' (decSlice \<lparr>rp_Type = [], rp_Omitted = False\<rparr> (decodeStruct recordedPartFields)) ro_Parts ro_Parts_update]"

definition wantedType :: "recordedPart \<Rightarrow> ResultContentType" where
  "wantedType r =
     (if rp_Omitted r then ResultContentText
      else if rp_Type r = ''image'' then ResultContentImage
      else if rp_Type r = ''audio'' then ResultContentAudio
      else if rp_Type r = ''video'' then ResultContentVideo
      else if rp_Type r = ''file'' then ResultContentFile
      else ResultContentText)"

definition validFunctionToolResultEnvelope :: "libs \<Rightarrow> ToolCall \<Rightarrow> ToolSettlement \<Rightarrow> Part \<Rightarrow> bool" where
  "validFunctionToolResultEnvelope L call s part =
     (case DecodeContentParts L RoleUser [part] MaxContentLimits of Inl e \<Rightarrow> False
      | Inr content \<Rightarrow>
         (case co_Blocks content of
            [b] \<Rightarrow>
              (case cb_FunctionResult b of None \<Rightarrow> False
               | Some fr \<Rightarrow>
                  if fr_CallID fr \<noteq> tc_ID call \<or> elems (fr_Content fr) = [] then False
                  else case unmarshal (decodeStruct recordedToolOutputFields) \<lparr>ro_Parts = None\<rparr> (ts_Output s) of
                    None \<Rightarrow> False
                  | Some recorded \<Rightarrow>
                     (let parts = elems (ro_Parts recorded); items = elems (fr_Content fr) in
                      if parts = [] then
                        length items = 1 \<and> rc_Type (hd items) = ResultContentText \<and> rc_Text (hd items) = ts_Output s
                      else length items = length parts \<and> map rc_Type items = map wantedType parts))
          | _ \<Rightarrow> False))"

record recordedToolSearchOutputShape =
  rt_DiscoveredToolNames :: "string slice"

definition recordedToolSearchFields :: "recordedToolSearchOutputShape fields" where
  "recordedToolSearchFields = [field ''discovered_tool_names'' (decSlice [] decString)
     rt_DiscoveredToolNames rt_DiscoveredToolNames_update]"

text \<open>\<open>ToolInfos\<close>: the names of the decoded tools, or a failure.\<close>

definition ToolInfos :: "libs \<Rightarrow> ToolSearchBlock \<Rightarrow> string list option" where
  "ToolInfos L b = (case tq_Tools b of None \<Rightarrow> Some [] | Some raws \<Rightarrow> those (map (lib_toolInfo L) raws))"

definition validToolSearchResultEnvelope :: "libs \<Rightarrow> ToolCall \<Rightarrow> ToolSettlement \<Rightarrow> Part \<Rightarrow> bool" where
  "validToolSearchResultEnvelope L call s part =
     (case DecodeContentParts L RoleUser [part] MaxContentLimits of Inl e \<Rightarrow> False
      | Inr content \<Rightarrow>
         (case co_Blocks content of
            [b] \<Rightarrow>
              (case cb_ToolSearch b of None \<Rightarrow> False
               | Some block \<Rightarrow>
                  if tq_CallID block \<noteq> tc_ID call then False
                  else if tq_Name block \<noteq> tc_Name call then False
                  else case ToolInfos L block of None \<Rightarrow> False
                  | Some names \<Rightarrow>
                     (case unmarshal (decodeStruct recordedToolSearchFields) \<lparr>rt_DiscoveredToolNames = None\<rparr> (ts_Output s) of
                        None \<Rightarrow> False
                      | Some recorded \<Rightarrow> names = elems (rt_DiscoveredToolNames recorded)))
          | _ \<Rightarrow> False))"

definition ValidToolResultEnvelope :: "libs \<Rightarrow> ToolCall \<Rightarrow> ToolSettlement \<Rightarrow> bool" where
  "ValidToolResultEnvelope L call s =
     (let message = ts_ResultMessage s; part = ts_ResultPart s in
      if tc_ResultMessageID call = [] \<or> tc_ResultPartID call = [] \<or> m_ID message \<noteq> tc_ResultMessageID call \<or>
         m_SessionID message \<noteq> tc_SessionID call \<or> m_RunID message \<noteq> tc_RunID call \<or>
         m_ParentID message \<noteq> tc_MessageID call \<or> m_Role message \<noteq> RoleUser \<or>
         p_ID part \<noteq> tc_ResultPartID call \<or> p_MessageID part \<noteq> tc_ResultMessageID call \<or>
         p_SessionID part \<noteq> tc_SessionID call \<or> p_RunID part \<noteq> tc_RunID call
      then False
      else if p_Kind part = PartFunctionToolResult then validFunctionToolResultEnvelope L call s part
      else if p_Kind part = PartToolSearchResult then validToolSearchResultEnvelope L call s part
      else False)"

section \<open>Lemmas\<close>

lemma marshalRawO_idem: "marshalRawO r = Some w \<Longrightarrow> marshalRawO w = Some w"
  by (auto simp: marshalRawO_def marshalRaw_idem split: if_split_asm)

lemma those_idem:
  assumes "\<And>x y. f x = Some y \<Longrightarrow> f y = Some y" and "those (map f xs) = Some ys"
  shows "those (map f ys) = Some ys"
  using assms(2)
proof (induction xs arbitrary: ys)
  case (Cons x xs)
  then show ?case using assms(1) by (auto split: option.splits)
qed simp

lemma optMap_idem:
  assumes "\<And>x y. f x = Some y \<Longrightarrow> f y = Some y" and "optMap f p = Some q"
  shows "optMap f q = Some q"
  using assms by (auto simp: optMap_def split: option.splits)

lemma marshalRaws_idem: "marshalRaws s = Some t \<Longrightarrow> marshalRaws t = Some t"
  using those_idem [of marshalRaw] marshalRaw_idem by (auto simp: marshalRaws_def split: option.splits)

lemma marshalTool_idem: "marshalTool s = Some t \<Longrightarrow> marshalTool t = Some t"
  by (auto simp: marshalTool_def dest: marshalRawO_idem)

lemma marshalTools_idem: "marshalTools s = Some t \<Longrightarrow> marshalTools t = Some t"
  using those_idem [of marshalTool] marshalTool_idem by (auto simp: marshalTools_def split: option.splits)

lemma marshalVariants_idem:
  "marshalToolSearch a = Some a' \<Longrightarrow> marshalToolSearch a' = Some a'"
  "marshalServerCall b = Some b' \<Longrightarrow> marshalServerCall b' = Some b'"
  "marshalServerResult c = Some c' \<Longrightarrow> marshalServerResult c' = Some c'"
  "marshalListTools d = Some d' \<Longrightarrow> marshalListTools d' = Some d'"
  by (auto simp: marshalToolSearch_def marshalServerCall_def marshalServerResult_def marshalListTools_def
      dest: marshalRaws_idem marshalRawO_idem marshalTools_idem)

lemma marshalBlock_idem: "marshalBlock b = Some c \<Longrightarrow> marshalBlock c = Some c"
proof -
  assume b: "marshalBlock b = Some c"
  obtain ts sc sr ml where w: "optMap marshalToolSearch (cb_ToolSearch b) = Some ts"
    "optMap marshalServerCall (cb_ServerCall b) = Some sc" "optMap marshalServerResult (cb_ServerResult b) = Some sr"
    "optMap marshalListTools (cb_MCPListTools b) = Some ml"
    "c = b\<lparr>cb_ToolSearch := ts, cb_ServerCall := sc, cb_ServerResult := sr, cb_MCPListTools := ml\<rparr>"
    using b by (auto simp: marshalBlock_def Option.bind_eq_Some_conv)
  have "optMap marshalToolSearch ts = Some ts" "optMap marshalServerCall sc = Some sc"
    "optMap marshalServerResult sr = Some sr" "optMap marshalListTools ml = Some ml"
    using w marshalVariants_idem by (metis optMap_idem)+
  then show "marshalBlock c = Some c" by (simp add: w(5) marshalBlock_def)
qed

lemma marshalInbox_idem: "marshalInbox i = Inr j \<Longrightarrow> marshalInbox j = Inr j"
  using those_idem [of marshalBlock] marshalBlock_idem
  by (auto simp: marshalInbox_def split: option.splits)

text \<open>Changing the state, turn or time of an item leaves its blocks to be written as before.\<close>

lemma marshalInbox_update:
  assumes "marshalInbox i = Inr i"
  shows "marshalInbox (i\<lparr>ib_State := s, ib_TurnID := t, ib_UpdatedAt := u\<rparr>) =
      Inr (i\<lparr>ib_State := s, ib_TurnID := t, ib_UpdatedAt := u\<rparr>)"
  using assms by (cases i) (auto simp: marshalInbox_def split: option.splits)

end
