(* ===== verification/PauseLogic.thy ===== *)
theory PauseLogic
  imports SessionTypes JsonDecode
begin

text \<open>
  Pauses: the lifecycle fact carried by a \<open>run_paused\<close> or \<open>run_resumed\<close> event
  (\<open>session/pause_lifecycle.go\<close>), the validation of staged checkpoints and of the
  promotion of one into a pause (\<open>session/checkpoint.go\<close>), and the compensating repause
  (\<open>session/repause.go\<close>).
\<close>

section \<open>Lifecycle facts\<close>

record PauseInterruptTarget =
  pt_ID :: string
  pt_Address :: string

record PauseApprovalLink =
  pa_RequestID :: string
  pa_TargetID :: string
  pa_Address :: string

record PauseLifecycleV1 =
  pl_Version :: int
  pl_PauseID :: string
  pl_CheckpointRevision :: int
  pl_Generation :: int
  pl_Targets :: "PauseInterruptTarget slice"
  pl_Approval :: "PauseApprovalLink option"
  pl_AgentPath :: string
  pl_MessageID :: MessageID
  pl_AttemptID :: string
  pl_EventRevision :: string
  pl_ResumedPauseID :: string
  pl_ResumedTargetIDs :: "string slice"
  pl_ResumeMode :: string
  pl_NewTurnID :: TurnID
  pl_NewAttemptID :: string
  pl_ResumePhase :: string

definition PauseLifecycleVersion :: int where "PauseLifecycleVersion = 1"
definition ResumeModeFull :: string where "ResumeModeFull = ''full''"
definition ResumeModeTargeted :: string where "ResumeModeTargeted = ''targeted''"
definition ResumePhaseFact :: string where "ResumePhaseFact = ''post_redrive''"

text \<open>The targets, entered one by one into a map from id to address.\<close>

fun collectTargets :: "PauseInterruptTarget list \<Rightarrow> (string \<rightharpoonup> string) \<Rightarrow> (string \<rightharpoonup> string) option" where
  "collectTargets [] m = Some m"
| "collectTargets (t # ts) m =
     (if pt_ID t = [] \<or> pt_Address t = [] then None
      else if m (pt_ID t) \<noteq> None then None
      else collectTargets ts (m(pt_ID t \<mapsto> pt_Address t)))"

definition ValidatePauseLifecycle :: "string \<Rightarrow> PauseLifecycleV1 \<Rightarrow> err + unit" where
  "ValidatePauseLifecycle kind value =
     (if pl_Version value \<noteq> PauseLifecycleVersion \<or> pl_PauseID value = [] \<or> pl_EventRevision value = [] \<or>
         pl_AgentPath value = [] \<or> pl_MessageID value = [] \<or> pl_AttemptID value = [] \<or> pl_Generation value \<le> 0
      then Inl ErrPauseLifecycle
      else case collectTargets (elems (pl_Targets value)) Map.empty of None \<Rightarrow> Inl ErrPauseLifecycle
      | Some targets \<Rightarrow>
         if (case pl_Approval value of None \<Rightarrow> False
             | Some a \<Rightarrow> pa_RequestID a = [] \<or> pa_TargetID a = [] \<or> pa_Address a = [] \<or>
                 (case targets (pa_TargetID a) of None \<Rightarrow> [] | Some x \<Rightarrow> x) \<noteq> pa_Address a)
         then Inl ErrPauseLifecycle
         else if kind = RunPausedEventKind then
           (if pl_CheckpointRevision value \<le> 0 \<or> pl_ResumedPauseID value \<noteq> []
            then Inl ErrPauseLifecycle else Inr ())
         else if kind = RunResumedEventKind then
           (if pl_ResumedPauseID value = [] \<or>
               (pl_ResumeMode value \<noteq> ResumeModeFull \<and> pl_ResumeMode value \<noteq> ResumeModeTargeted) \<or>
               pl_ResumePhase value \<noteq> ResumePhaseFact \<or> pl_NewTurnID value = [] \<or> pl_NewAttemptID value = []
            then Inl ErrPauseLifecycle
            else if \<not> list_all (\<lambda>i. i \<noteq> []) (elems (pl_ResumedTargetIDs value)) then Inl ErrPauseLifecycle
            else Inr ())
         else Inl ErrPauseLifecycle)"

text \<open>Decoding a fact from the payload of its event.\<close>

definition targetFields :: "PauseInterruptTarget fields" where
  "targetFields = [field ''id'' decString pt_ID pt_ID_update, field ''address'' decString pt_Address pt_Address_update]"

definition approvalFields :: "PauseApprovalLink fields" where
  "approvalFields = [field ''request_id'' decString pa_RequestID pa_RequestID_update,
     field ''target_id'' decString pa_TargetID pa_TargetID_update,
     field ''address'' decString pa_Address pa_Address_update]"

definition zeroTarget :: PauseInterruptTarget where
  "zeroTarget = \<lparr>pt_ID = [], pt_Address = []\<rparr>"

definition zeroApproval :: PauseApprovalLink where
  "zeroApproval = \<lparr>pa_RequestID = [], pa_TargetID = [], pa_Address = []\<rparr>"

definition zeroLifecycle :: PauseLifecycleV1 where
  "zeroLifecycle = \<lparr>pl_Version = 0, pl_PauseID = [], pl_CheckpointRevision = 0, pl_Generation = 0,
     pl_Targets = None, pl_Approval = None, pl_AgentPath = [], pl_MessageID = [], pl_AttemptID = [],
     pl_EventRevision = [], pl_ResumedPauseID = [], pl_ResumedTargetIDs = None, pl_ResumeMode = [],
     pl_NewTurnID = [], pl_NewAttemptID = [], pl_ResumePhase = []\<rparr>"

definition lifecycleFields :: "PauseLifecycleV1 fields" where
  "lifecycleFields = [
     field ''version'' decInt pl_Version pl_Version_update,
     field ''pause_id'' decString pl_PauseID pl_PauseID_update,
     field ''checkpoint_revision'' decInt pl_CheckpointRevision pl_CheckpointRevision_update,
     field ''generation'' decInt pl_Generation pl_Generation_update,
     field ''targets'' (decSlice zeroTarget (decodeStruct targetFields)) pl_Targets pl_Targets_update,
     field ''approval'' (decPtr zeroApproval (decodeStruct approvalFields)) pl_Approval pl_Approval_update,
     field ''agent_path'' decString pl_AgentPath pl_AgentPath_update,
     field ''message_id'' decString pl_MessageID pl_MessageID_update,
     field ''attempt_id'' decString pl_AttemptID pl_AttemptID_update,
     field ''event_revision'' decString pl_EventRevision pl_EventRevision_update,
     field ''resumed_pause_id'' decString pl_ResumedPauseID pl_ResumedPauseID_update,
     field ''resumed_target_ids'' (decSlice [] decString) pl_ResumedTargetIDs pl_ResumedTargetIDs_update,
     field ''resume_mode'' decString pl_ResumeMode pl_ResumeMode_update,
     field ''new_turn_id'' decString pl_NewTurnID pl_NewTurnID_update,
     field ''new_attempt_id'' decString pl_NewAttemptID pl_NewAttemptID_update,
     field ''resume_phase'' decString pl_ResumePhase pl_ResumePhase_update]"

definition decodeLifecycle :: "RawMessage \<Rightarrow> PauseLifecycleV1 option" where
  "decodeLifecycle raw = unmarshal (decodeStruct lifecycleFields) zeroLifecycle raw"

section \<open>Checkpoints\<close>

record StageCheckpointRequest =
  sc_Checkpoint :: Checkpoint
  sc_MaxBytes :: int

record PromotePauseRequest =
  pq_Revision :: int
  pq_TurnID :: TurnID
  pq_InboxIDs :: "InboxID list"
  pq_Event :: EventRecord

definition DefaultMaxCheckpointBytes :: int where
  "DefaultMaxCheckpointBytes = 16 * 2 ^ 20"

definition effectiveMaxCheckpointBytes :: "int \<Rightarrow> err + int" where
  "effectiveMaxCheckpointBytes maxBytes =
     (if maxBytes = 0 then Inr DefaultMaxCheckpointBytes
      else if maxBytes < 0 then Inl ErrConflict else Inr maxBytes)"

definition ValidateStageCheckpoint :: "Run \<Rightarrow> StageCheckpointRequest \<Rightarrow> err + int" where
  "ValidateStageCheckpoint run request =
     (case effectiveMaxCheckpointBytes (sc_MaxBytes request) of Inl e \<Rightarrow> Inl e
      | Inr maxBytes \<Rightarrow>
         (let c = sc_Checkpoint request in
          if cp_RunID c \<noteq> r_ID run \<or> cp_Revision c \<le> 0 \<or> cp_CheckpointID c = [] \<or> cp_EinoVersion c = [] \<or>
             cp_AgentFingerprint c = [] \<or> (cp_Kind c \<noteq> CheckpointKindRunner \<and> cp_Kind c \<noteq> CheckpointKindLoop) \<or>
             cp_CodecVersion c \<le> 0 \<or> cp_Promoted c \<or> IsZero (cp_CreatedAt c)
          then Inl ErrConflict
          else if int (length (cp_Bytes c)) > maxBytes then Inl ErrCheckpointTooLarge
          else Inr maxBytes))"

definition ValidatePromotePause :: "Run \<Rightarrow> PromotePauseRequest \<Rightarrow> err + unit" where
  "ValidatePromotePause run request =
     (let e = pq_Event request in
      if pq_Revision request \<le> 0 \<or> ev_ID e = [] \<or> ev_Kind e \<noteq> RunPausedEventKind \<or>
         ev_RunID e \<noteq> r_ID run \<or> ev_SessionID e \<noteq> r_SessionID run
      then Inl ErrConflict
      else if ev_Payload e \<noteq> [] then
        (case decodeLifecycle (ev_Payload e) of None \<Rightarrow> Inl ErrConflict
         | Some lifecycle \<Rightarrow>
            (case ValidatePauseLifecycle RunPausedEventKind lifecycle of Inl x \<Rightarrow> Inl ErrConflict
             | Inr u \<Rightarrow>
                if pl_CheckpointRevision lifecycle \<noteq> pq_Revision request \<or> pl_PauseID lifecycle \<noteq> ev_ID e
                then Inl ErrConflict else Inr ()))
      else Inr ())"

section \<open>Repause\<close>

record RepauseRunRequest =
  rq_Event :: EventRecord
  rq_PromoteRevision :: int

record RepauseRunResult =
  rx_Run :: Run
  rx_Event :: EventRecord

definition ValidateRepauseRun :: "Run \<Rightarrow> RepauseRunRequest \<Rightarrow> err + unit" where
  "ValidateRepauseRun run request =
     (let e = rq_Event request in
      if ev_ID e = [] \<or> ev_Kind e \<noteq> RunPausedEventKind \<or> ev_RunID e \<noteq> r_ID run \<or> ev_SessionID e \<noteq> r_SessionID run
      then Inl ErrConflict
      else if rq_PromoteRevision request < 0 then Inl ErrConflict else Inr ())"

section \<open>Lemmas\<close>

lemma collectTargets_iff:
  "collectTargets ts m \<noteq> None \<longleftrightarrow>
     list_all (\<lambda>t. pt_ID t \<noteq> [] \<and> pt_Address t \<noteq> [] \<and> m (pt_ID t) = None) ts \<and> distinct (map pt_ID ts)"
  by (induction ts arbitrary: m) (auto simp: list_all_iff image_iff)

lemma collectTargets_lookup:
  "collectTargets ts m = Some m' \<Longrightarrow> m' = m ++ map_of (map (\<lambda>t. (pt_ID t, pt_Address t)) ts)"
proof (induction ts arbitrary: m)
  case (Cons t ts)
  then have "m' = m(pt_ID t \<mapsto> pt_Address t) ++ map_of (map (\<lambda>t. (pt_ID t, pt_Address t)) ts)"
    by (auto split: if_splits)
  moreover have "pt_ID t \<notin> pt_ID ` set ts"
    using Cons.prems collectTargets_iff [of "t # ts" m] by auto
  ultimately show ?case
    by (auto simp: fun_eq_iff map_add_def map_of_eq_None_iff image_image split: option.splits)
qed simp

text \<open>
  What a valid paused fact promises: it identifies a positive checkpoint revision and a
  generation, its targets have distinct ids, and an approval link names one of them.
\<close>

lemma ValidatePauseLifecycle_paused:
  assumes "ValidatePauseLifecycle RunPausedEventKind v = Inr ()"
  shows "pl_Version v = 1" "0 < pl_CheckpointRevision v" "0 < pl_Generation v"
    "distinct (map pt_ID (elems (pl_Targets v)))"
    "pl_Approval v = Some a \<Longrightarrow> \<exists>t \<in> set (elems (pl_Targets v)). pt_ID t = pa_TargetID a \<and> pt_Address t = pa_Address a"
proof -
  obtain m where m: "collectTargets (elems (pl_Targets v)) Map.empty = Some m"
    using assms by (auto simp: ValidatePauseLifecycle_def split: if_split_asm option.split_asm)
  show "pl_Version v = 1" "0 < pl_CheckpointRevision v" "0 < pl_Generation v"
    using assms by (auto simp: ValidatePauseLifecycle_def PauseLifecycleVersion_def event_kind_defs
        split: if_split_asm option.split_asm)
  show "distinct (map pt_ID (elems (pl_Targets v)))"
    using m collectTargets_iff [of "elems (pl_Targets v)" Map.empty] by auto
  assume a: "pl_Approval v = Some a"
  then have "(case m (pa_TargetID a) of None \<Rightarrow> [] | Some x \<Rightarrow> x) = pa_Address a \<and> pa_Address a \<noteq> []"
    using assms m by (auto simp: ValidatePauseLifecycle_def split: if_split_asm)
  then have "m (pa_TargetID a) = Some (pa_Address a)" by (auto split: option.splits)
  then show "\<exists>t \<in> set (elems (pl_Targets v)). pt_ID t = pa_TargetID a \<and> pt_Address t = pa_Address a"
    using collectTargets_lookup [OF m] map_of_SomeD
      [of "map (\<lambda>t. (pt_ID t, pt_Address t)) (elems (pl_Targets v))" "pa_TargetID a" "pa_Address a"]
    by auto
qed

end
