(* ===== verification/AdmissionTitle.thy ===== *)
theory AdmissionTitle
  imports SessionTypes
begin

text \<open>
  Validation of admission keys and receipts (\<open>session/admission.go\<close>), of session titles
  (\<open>session/title.go\<close>) and of model-request transitions (\<open>session/model_request.go\<close>).
\<close>

section \<open>Admission\<close>

definition AdmissionFingerprintVersion :: int where "AdmissionFingerprintVersion = 1"
definition maxAdmissionKeyBytes :: nat where "maxAdmissionKeyBytes = 256"

definition alphanumeric :: "char \<Rightarrow> bool" where
  "alphanumeric c \<longleftrightarrow> inRange 65 90 (byteOf c) \<or> inRange 97 122 (byteOf c) \<or> inRange 48 57 (byteOf c)"

definition admissionChar :: "char \<Rightarrow> bool" where
  "admissionChar c \<longleftrightarrow> alphanumeric c \<or> c = CHR ''.'' \<or> c = CHR ''_'' \<or> c = CHR '':'' \<or> c = CHR ''-''"

fun admissionKeyChars :: "nat \<Rightarrow> string \<Rightarrow> bool" where
  "admissionKeyChars i [] = True"
| "admissionKeyChars i (c # cs) =
     (if \<not> admissionChar c \<or> i = 0 \<and> \<not> alphanumeric c then False else admissionKeyChars (i + 1) cs)"

definition ValidateAdmissionKey :: "string \<Rightarrow> err + unit" where
  "ValidateAdmissionKey key =
     (if length key = 0 \<or> length key > maxAdmissionKeyBytes \<or> \<not> ValidString key then Inl ErrAdmissionInvalid
      else if \<not> admissionKeyChars 0 key then Inl ErrAdmissionInvalid else Inr ())"

definition ValidateAdmissionRecord :: "AdmissionRecord \<Rightarrow> err + unit" where
  "ValidateAdmissionRecord record =
     (let r = ad_Receipt record in
      case ValidateAdmissionKey (a_Key r) of Inl e \<Rightarrow> Inl e
      | Inr u \<Rightarrow>
         if a_SessionID r = [] \<or> a_RunID r = [] \<or> a_UserMessageID r = [] \<or> a_AssistantMessageID r = [] \<or>
            IsZero (a_CreatedAt r) \<or> \<not> ValidString (a_SessionID r) \<or> \<not> ValidString (a_RunID r) \<or>
            \<not> ValidString (a_UserMessageID r) \<or> \<not> ValidString (a_AssistantMessageID r) \<or>
            ad_FingerprintVersion record \<noteq> AdmissionFingerprintVersion
         then Inl ErrAdmissionInvalid else Inr ())"

section \<open>Titles\<close>

definition DiscoveryMaxIdentityBytes :: nat where "DiscoveryMaxIdentityBytes = 1024"
definition DiscoveryMaxTitleBytes :: nat where "DiscoveryMaxTitleBytes = 16384"

record SessionTitleRequest =
  st_SessionID :: ID
  st_WorkspaceID :: string
  st_Title :: string

record SessionTitleResult =
  sx_Title :: string
  sx_UpdatedAt :: gotime
  sx_Changed :: bool

definition ValidateSessionTitle :: "string \<Rightarrow> err + unit" where
  "ValidateSessionTitle title =
     (if length title > DiscoveryMaxTitleBytes \<or> \<not> ValidString title then Inl ErrSessionTitleInvalid else Inr ())"

definition ValidateTitleRequest :: "SessionTitleRequest \<Rightarrow> err + unit" where
  "ValidateTitleRequest r =
     (if st_SessionID r = [] \<or> length (st_SessionID r) > DiscoveryMaxIdentityBytes \<or>
         \<not> ValidString (st_SessionID r) \<or> length (st_WorkspaceID r) > DiscoveryMaxIdentityBytes \<or>
         \<not> ValidString (st_WorkspaceID r)
      then Inl ErrSessionTitleInvalid else ValidateSessionTitle (st_Title r))"

section \<open>Model requests\<close>

definition ValidModelRequestTransition :: "ModelRequestState \<Rightarrow> ModelRequestState \<Rightarrow> bool" where
  "ValidModelRequestTransition prior to \<longleftrightarrow>
     prior = ModelRequestPrepared \<and> (to = ModelRequestDispatchStarted \<or> to = ModelRequestFailed) \<or>
     prior = ModelRequestDispatchStarted \<and> (to = ModelRequestCompleted \<or> to = ModelRequestFailed)"

section \<open>Lemmas\<close>

lemma admissionKeyChars_iff:
  "admissionKeyChars i s \<longleftrightarrow> list_all admissionChar s \<and> (i = 0 \<and> s \<noteq> [] \<longrightarrow> alphanumeric (hd s))"
  by (induction i s rule: admissionKeyChars.induct) auto

lemma admissionChar_ascii: "admissionChar c \<Longrightarrow> byteOf c < 128"
  by (auto simp: admissionChar_def alphanumeric_def inRange_def byteOf_def)

text \<open>
  The keys that are accepted, as a language: an alphanumeric byte followed by at most 255
  bytes of alphanumerics, dots, underscores, colons and dashes. The UTF-8 check of the code
  never refuses such a key.
\<close>

lemma ValidateAdmissionKey_iff:
  "ValidateAdmissionKey key = Inr () \<longleftrightarrow>
     (\<exists>c cs. key = c # cs \<and> alphanumeric c \<and> list_all admissionChar cs \<and> length cs \<le> 255)"
proof
  assume "ValidateAdmissionKey key = Inr ()"
  then show "\<exists>c cs. key = c # cs \<and> alphanumeric c \<and> list_all admissionChar cs \<and> length cs \<le> 255"
    by (cases key) (auto simp: ValidateAdmissionKey_def admissionKeyChars_iff maxAdmissionKeyBytes_def split: if_split_asm)
next
  assume "\<exists>c cs. key = c # cs \<and> alphanumeric c \<and> list_all admissionChar cs \<and> length cs \<le> 255"
  then obtain c cs where k: "key = c # cs" "alphanumeric c" "list_all admissionChar cs" "length cs \<le> 255" by blast
  then have all: "list_all admissionChar key" by (simp add: admissionChar_def)
  then have "ValidString key"
    unfolding ValidString_def by (intro validUTF8_ascii) (auto simp: list_all_iff dest: admissionChar_ascii)
  with k all show "ValidateAdmissionKey key = Inr ()"
    by (simp add: ValidateAdmissionKey_def admissionKeyChars_iff maxAdmissionKeyBytes_def)
qed

end
