(* ===== verification/GoTime.thy ===== *)
theory GoTime
  imports GoBase
begin

text \<open>
  Instants as text: the proleptic Gregorian calendar of package \<open>time\<close>, the fixed-width
  sort key of \<open>store/internal/sqlstore/time.go\<close> (\<open>TimeText\<close>, and \<open>DiscoveryTime\<close> that
  reads it back) and the RFC 3339 form \<open>encoding/json\<close> writes.
\<close>

section \<open>The calendar\<close>

record civil =
  cv_year :: int
  cv_month :: int
  cv_day :: int

text \<open>Days are counted from 0001-01-01, which is day 306 of the year that starts on
  0000-03-01; counting years from March puts the leap day last.\<close>

definition civilOf :: "int \<Rightarrow> civil" where
  "civilOf days =
     (let z = days + 306; era = z div 146097; doe = z mod 146097;
          yoe = (doe - doe div 1460 + doe div 36524 - doe div 146096) div 365;
          doy = doe - (365 * yoe + yoe div 4 - yoe div 100);
          mp = (5 * doy + 2) div 153;
          m = (if mp < 10 then mp + 3 else mp - 9)
      in \<lparr>cv_year = yoe + era * 400 + (if m \<le> 2 then 1 else 0), cv_month = m,
          cv_day = doy - (153 * mp + 2) div 5 + 1\<rparr>)"

definition daysOf :: "int \<Rightarrow> int \<Rightarrow> int \<Rightarrow> int" where
  "daysOf y m d =
     (let y' = (if m \<le> 2 then y - 1 else y); era = y' div 400; yoe = y' mod 400;
          mp = (if m \<le> 2 then m + 9 else m - 3);
          doy = (153 * mp + 2) div 5 + d - 1
      in era * 146097 + (365 * yoe + yoe div 4 - yoe div 100 + doy) - 306)"

definition isLeap :: "int \<Rightarrow> bool" where
  "isLeap y \<longleftrightarrow> y mod 4 = 0 \<and> (y mod 100 \<noteq> 0 \<or> y mod 400 = 0)"

definition daysIn :: "int \<Rightarrow> int \<Rightarrow> int" where
  "daysIn y m = (if m = 2 then (if isLeap y then 29 else 28) else if m \<in> {4, 6, 9, 11} then 30 else 31)"

section \<open>Formatting\<close>

function decDigits :: "int \<Rightarrow> string" where
  "decDigits n = (if n < 10 then [char_of (48 + n)] else decDigits (n div 10) @ [char_of (48 + n mod 10)])"
  by pat_completeness auto
termination by (relation "measure nat") auto

declare decDigits.simps [simp del]

definition padInt :: "nat \<Rightarrow> int \<Rightarrow> string" where
  "padInt w i =
     (let ds = decDigits (abs i); z = replicate (w - length ds) (CHR ''0'')
      in if i < 0 then CHR ''-'' # z @ ds else z @ ds)"

definition nanosPerDay :: int where "nanosPerDay = 86400 * 1000000000"

text \<open>\<open>2006-01-02T15:04:05\<close> of the instant shifted by an offset in seconds.\<close>

definition dateTime :: "int \<Rightarrow> string" where
  "dateTime t =
     (let c = civilOf (t div nanosPerDay); s = (t mod nanosPerDay) div 1000000000
      in padInt 4 (cv_year c) @ ''-'' @ padInt 2 (cv_month c) @ ''-'' @ padInt 2 (cv_day c) @ ''T'' @
         padInt 2 (s div 3600) @ '':'' @ padInt 2 (s div 60 mod 60) @ '':'' @ padInt 2 (s mod 60))"

definition TimeText :: "gotime \<Rightarrow> string" where
  "TimeText t = (if IsZero t then [] else dateTime (instant t) @ ''.'' @ padInt 9 (instant t mod 1000000000) @ ''Z'')"

definition dropTrailingZeros :: "string \<Rightarrow> string" where
  "dropTrailingZeros s = rev (dropWhile (\<lambda>c. c = CHR ''0'') (rev s))"

text \<open>\<open>time.RFC3339Nano\<close>, the form of a time inside a JSON record.\<close>

definition rfc3339Nano :: "gotime \<Rightarrow> string" where
  "rfc3339Nano t =
     (let l = instant t + zone t * 1000000000; frac = dropTrailingZeros (padInt 9 (l mod 1000000000));
          z = zone t div 60
      in dateTime l @ (if frac = [] then [] else CHR ''.'' # frac) @
         (if z = 0 then ''Z''
          else (if z < 0 then ''-'' else ''+'') @ padInt 2 (abs z div 60) @ '':'' @ padInt 2 (abs z mod 60)))"

section \<open>Parsing the sort key\<close>

definition digit :: "char \<Rightarrow> bool" where
  "digit c \<longleftrightarrow> inRange 48 57 (byteOf c)"

definition decimalOf :: "string \<Rightarrow> int" where
  "decimalOf s = foldl (\<lambda>n c. 10 * n + (int (byteOf c) - 48)) 0 s"

definition slice :: "nat \<Rightarrow> nat \<Rightarrow> string \<Rightarrow> string" where
  "slice i j s = take (j - i) (drop i s)"

definition layoutOK :: "string \<Rightarrow> bool" where
  "layoutOK v \<longleftrightarrow> length v = 30 \<and> v ! 4 = CHR ''-'' \<and> v ! 7 = CHR ''-'' \<and> v ! 10 = CHR ''T'' \<and>
     v ! 13 = CHR '':'' \<and> v ! 16 = CHR '':'' \<and> v ! 19 = CHR ''.'' \<and> v ! 29 = CHR ''Z'' \<and>
     list_all digit (slice 0 4 v @ slice 5 7 v @ slice 8 10 v @ slice 11 13 v @ slice 14 16 v @ slice 17 19 v @ slice 20 29 v)"

definition parseLayout :: "string \<Rightarrow> gotime option" where
  "parseLayout v =
     (if \<not> layoutOK v then None
      else let y = decimalOf (slice 0 4 v); mo = decimalOf (slice 5 7 v); d = decimalOf (slice 8 10 v);
               h = decimalOf (slice 11 13 v); mi = decimalOf (slice 14 16 v); s = decimalOf (slice 17 19 v);
               ns = decimalOf (slice 20 29 v)
           in if mo < 1 \<or> 12 < mo \<or> d < 1 \<or> daysIn y mo < d \<or> 24 \<le> h \<or> 60 \<le> mi \<or> 60 \<le> s then None
              else Some \<lparr>instant = daysOf y mo d * nanosPerDay + (h * 3600 + mi * 60 + s) * 1000000000 + ns, zone = 0\<rparr>)"

text \<open>\<open>DiscoveryTime\<close>: \<open>None\<close> is the invalid-cursor error.\<close>

definition DiscoveryTime :: "string \<Rightarrow> gotime option" where
  "DiscoveryTime v =
     (if v = [] then Some zeroTime
      else if length v \<noteq> 30 then None
      else case parseLayout v of None \<Rightarrow> None
      | Some t \<Rightarrow> if TimeText t \<noteq> v then None else Some t)"

text \<open>What is read back is in UTC and renders as the text it was read from.\<close>

lemma DiscoveryTime_sound: "DiscoveryTime v = Some t \<Longrightarrow> TimeText t = v \<and> zone t = 0"
  by (auto simp: DiscoveryTime_def parseLayout_def zeroTime_def TimeText_def IsZero_def Let_def
      split: if_split_asm option.split_asm)

lemma TimeText_UTC [simp]: "TimeText (UTC t) = TimeText t"
  by (simp add: TimeText_def)

end
