(* ===== verification/StoreDb.thy ===== *)
theory StoreDb
  imports Envelopes PauseLogic AdmissionTitle GoTime
    "HOL-Library.Char_ord" "HOL-Library.List_Lexorder" "HOL-Library.Product_Lexorder"
begin

text \<open>
  The tables of the SQL store and the few statements the store issues on them
  (\<open>store/internal/sqlstore\<close>: \<open>entity_rows.go\<close>, \<open>lifecycle_rows.go\<close>, \<open>store.go\<close>,
  \<open>records.go\<close>; the schema is \<open>store/sqlite/migrations/00001_initial.sql\<close>).

  A table is the list of its rows in insertion order; a row has its database-owned key, its
  indexed columns and its record column. The record column holds the JSON of a record, which is
  represented by the record that JSON reads back as (see the marshal functions of the theories
  below). For a record with a string that is not valid UTF-8, or a time JSON does not carry, this representation differs from what the code
  stores (\<open>json.Marshal\<close> writes U+FFFD for each such byte, and the columns keep the bytes); theory \<open>PlainCalls\<close> excludes these. Foreign keys are row keys. A statement that violates a CHECK or unique constraint is
  \<open>ErrConflict\<close> (\<open>Dialect.MapError\<close>); an insert with \<open>ON CONFLICT DO NOTHING\<close> reports
  whether it inserted. A query is a function from the database to the rows of its join, in
  the order of its \<open>ORDER BY\<close>.
\<close>

section \<open>Reading\<close>

definition bindS :: "err + 'a \<Rightarrow> ('a \<Rightarrow> err + 'b) \<Rightarrow> err + 'b" where
  "bindS r f = (case r of Inl e \<Rightarrow> Inl e | Inr x \<Rightarrow> f x)"

text \<open>\<open>Take\<close>: the first row, or \<open>ErrNotFound\<close>.\<close>

definition take1 :: "'a list \<Rightarrow> err + 'a" where
  "take1 xs = (case xs of [] \<Rightarrow> Inl ErrNotFound | x # _ \<Rightarrow> Inr x)"

definition relationError :: "err \<Rightarrow> err" where
  "relationError e = (if e = ErrNotFound then ErrConflict else e)"

definition asConflict :: "err + 'a \<Rightarrow> err + 'a" where
  "asConflict r = (case r of Inl e \<Rightarrow> Inl (relationError e) | Inr x \<Rightarrow> Inr x)"

text \<open>A lookup whose \<open>ErrNotFound\<close> is an answer.\<close>

definition foundS :: "err + 'a \<Rightarrow> err + 'a option" where
  "foundS r = (case r of Inl e \<Rightarrow> if e = ErrNotFound then Inr None else Inl e | Inr x \<Rightarrow> Inr (Some x))"

fun mapS :: "('a \<Rightarrow> err + 'b) \<Rightarrow> 'a list \<Rightarrow> err + 'b list" where
  "mapS f [] = Inr []"
| "mapS f (x # xs) = bindS (f x) (\<lambda>y. bindS (mapS f xs) (\<lambda>ys. Inr (y # ys)))"

definition readE :: "('s \<Rightarrow> err + 'a) \<Rightarrow> ('s, 'a) op" where
  "readE f = (\<lambda>s. (f s, s))"

section \<open>Rows\<close>

record sessionRow =
  sw_RowKey :: int
  sw_ID :: ID
  sw_Record :: Session
  sw_Workspace :: string
  sw_Title :: string
  sw_CreatedAt :: string
  sw_UpdatedAt :: string

record runRow =
  rw_RowKey :: int
  rw_ID :: RunID
  rw_SessionKey :: int
  rw_Status :: RunStatus
  rw_ProviderID :: string
  rw_ModelID :: string
  rw_OwnerID :: string
  rw_ClaimToken :: string
  rw_LeaseUntil :: int
  rw_Record :: Run
  rw_CreatedAt :: string

record messageRow =
  mw_RowKey :: int
  mw_ID :: MessageID
  mw_SessionKey :: int
  mw_RunKey :: int
  mw_Role :: Role
  mw_Finalized :: bool
  mw_Record :: Message
  mw_CreatedAt :: string

record partRow =
  pw_RowKey :: int
  pw_ID :: PartID
  pw_MessageKey :: int
  pw_SessionKey :: int
  pw_RunKey :: int
  pw_Ordinal :: int
  pw_Kind :: PartKind
  pw_DisplayText :: string
  pw_TextValid :: bool
  pw_Record :: Part
  pw_CreatedAt :: string

record toolCallRow =
  tw_RowKey :: int
  tw_ID :: ToolCallID
  tw_SessionKey :: int
  tw_RunKey :: int
  tw_RequestMessageKey :: int
  tw_RequestPartKey :: int
  tw_ResultMessageID :: MessageID
  tw_ResultPartID :: PartID
  tw_Status :: ToolCallStatus
  tw_Name :: string
  tw_ClaimedBy :: string
  tw_ClaimToken :: string
  tw_Record :: ToolCall

record contextEpochRow =
  ew_RowKey :: int
  ew_ID :: EpochID
  ew_SessionKey :: int
  ew_Record :: ContextEpoch
  ew_CreatedAt :: string
  ew_ClosedAt :: string

record modelRequestRow =
  qw_RowKey :: int
  qw_ID :: ModelRequestID
  qw_SessionKey :: int
  qw_RunKey :: int
  qw_AssistantMessageID :: MessageID
  qw_InvocationID :: string
  qw_State :: ModelRequestState
  qw_Attempt :: int
  qw_Step :: int
  qw_Record :: ModelRequestRecord
  qw_CreatedAt :: string

record turnRow =
  nw_RowKey :: int
  nw_ID :: TurnID
  nw_RunKey :: int
  nw_SessionKey :: int
  nw_Ordinal :: int
  nw_State :: TurnState
  nw_Record :: Turn
  nw_CreatedAt :: string

record inboxRow =
  iw_RowKey :: int
  iw_ID :: InboxID
  iw_SessionKey :: int
  iw_TurnKey :: "int option"
  iw_IdempotencyKey :: string
  iw_State :: InboxState
  iw_Record :: InboxItem
  iw_CreatedAt :: string
  iw_UpdatedAt :: string

record checkpointRow =
  kw_RowKey :: int
  kw_RunKey :: int
  kw_Revision :: int
  kw_Promoted :: bool
  kw_Bytes :: bytes
  kw_Record :: Checkpoint
  kw_CreatedAt :: string

record eventRow =
  vw_RowKey :: int
  vw_ID :: EventID
  vw_SessionKey :: int
  vw_RunKey :: int
  vw_ToolKey :: "int option"
  vw_Kind :: string
  vw_ToolTransition :: "ToolTransitionPhase option"
  vw_Record :: EventRecord
  vw_CreatedAt :: string

record admissionRow =
  aw_RowKey :: int
  aw_SessionKey :: int
  aw_AdmissionKey :: string
  aw_RunKey :: int
  aw_UserMessageKey :: int
  aw_AssistantMessageKey :: int
  aw_FingerprintVersion :: int
  aw_Fingerprint :: bytes
  aw_CreatedAt :: string

record db =
  sessions :: "sessionRow list"
  runs :: "runRow list"
  messages :: "messageRow list"
  parts :: "partRow list"
  tool_calls :: "toolCallRow list"
  context_epochs :: "contextEpochRow list"
  model_requests :: "modelRequestRow list"
  turns :: "turnRow list"
  inbox :: "inboxRow list"
  checkpoints :: "checkpointRow list"
  events :: "eventRow list"
  admission_receipts :: "admissionRow list"

definition emptyDb :: db where
  "emptyDb = \<lparr>sessions = [], runs = [], messages = [], parts = [], tool_calls = [], context_epochs = [],
     model_requests = [], turns = [], inbox = [], checkpoints = [], events = [], admission_receipts = []\<rparr>"

section \<open>Constraints\<close>

definition activeStatus :: "RunStatus \<Rightarrow> bool" where
  "activeStatus s \<longleftrightarrow> s = RunPending \<or> s = RunRunning \<or> s = RunPaused"

definition liveStatus :: "RunStatus \<Rightarrow> bool" where
  "liveStatus s \<longleftrightarrow> s = RunPending \<or> s = RunRunning"

definition runCheck :: "runRow \<Rightarrow> bool" where
  "runCheck r = (case rw_Status r of RunStatusOther s \<Rightarrow> False | _ \<Rightarrow> True)"

definition messageCheck :: "messageRow \<Rightarrow> bool" where
  "messageCheck m = (case mw_Role m of RoleOther s \<Rightarrow> False | _ \<Rightarrow> True)"

definition partCheck :: "partRow \<Rightarrow> bool" where
  "partCheck p = (case pw_Kind p of PartKindOther s \<Rightarrow> False | _ \<Rightarrow> True)"

definition toolCheck :: "toolCallRow \<Rightarrow> bool" where
  "toolCheck t = (case tw_Status t of ToolCallStatusOther s \<Rightarrow> False | _ \<Rightarrow> True)"

definition modelRequestCheck :: "modelRequestRow \<Rightarrow> bool" where
  "modelRequestCheck q = (case qw_State q of ModelRequestStateOther s \<Rightarrow> False | _ \<Rightarrow> True)"

definition turnCheck :: "turnRow \<Rightarrow> bool" where
  "turnCheck t \<longleftrightarrow> 0 < nw_Ordinal t \<and> (case nw_State t of TurnStateOther s \<Rightarrow> False | _ \<Rightarrow> True)"

definition inboxCheck :: "inboxRow \<Rightarrow> bool" where
  "inboxCheck i \<longleftrightarrow> (case iw_State i of InboxStateOther s \<Rightarrow> False | _ \<Rightarrow> True) \<and>
     (iw_State i \<noteq> InboxQueued \<or> iw_TurnKey i = None)"

definition checkpointCheck :: "checkpointRow \<Rightarrow> bool" where
  "checkpointCheck c \<longleftrightarrow> 0 < kw_Revision c"

definition eventCheck :: "eventRow \<Rightarrow> bool" where
  "eventCheck e \<longleftrightarrow>
     (case vw_ToolTransition e of None \<Rightarrow> True
      | Some p \<Rightarrow> p = ToolTransitionPending \<or> p = ToolTransitionRunning \<or> p = ToolTransitionTerminal) \<and>
     (vw_ToolKey e = None \<longleftrightarrow> vw_ToolTransition e = None)"

definition admissionCheck :: "admissionRow \<Rightarrow> bool" where
  "admissionCheck a \<longleftrightarrow> 1 \<le> length (aw_AdmissionKey a) \<and> length (aw_AdmissionKey a) \<le> 256 \<and>
     aw_FingerprintVersion a = 1 \<and> length (aw_Fingerprint a) = 32"

text \<open>The unique indexes: \<open>runs_session_active_unique_idx\<close> allows a session one run that is
  pending, running or paused.\<close>

definition runsUnique :: "runRow list \<Rightarrow> bool" where
  "runsUnique rs \<longleftrightarrow> distinct (map rw_ID rs) \<and>
     distinct (map rw_SessionKey (filter (\<lambda>r. activeStatus (rw_Status r)) rs))"

definition modelRequestsUnique :: "modelRequestRow list \<Rightarrow> bool" where
  "modelRequestsUnique qs \<longleftrightarrow> distinct (map qw_ID qs) \<and> distinct (map (\<lambda>q. (qw_RunKey q, qw_InvocationID q)) qs)"

definition turnsUnique :: "turnRow list \<Rightarrow> bool" where
  "turnsUnique ts \<longleftrightarrow> distinct (map nw_ID ts) \<and> distinct (map (\<lambda>t. (nw_RunKey t, nw_Ordinal t)) ts)"

definition inboxUnique :: "inboxRow list \<Rightarrow> bool" where
  "inboxUnique is \<longleftrightarrow> distinct (map iw_ID is) \<and> distinct (map (\<lambda>i. (iw_SessionKey i, iw_IdempotencyKey i)) is)"

definition checkpointsUnique :: "checkpointRow list \<Rightarrow> bool" where
  "checkpointsUnique cs \<longleftrightarrow> distinct (map (\<lambda>c. (kw_RunKey c, kw_Revision c)) cs)"

definition eventsUnique :: "eventRow list \<Rightarrow> bool" where
  "eventsUnique es \<longleftrightarrow> distinct (map vw_ID es) \<and>
     distinct (map (\<lambda>e. (vw_ToolKey e, vw_ToolTransition e)) (filter (\<lambda>e. vw_ToolTransition e \<noteq> None) es)) \<and>
     distinct (map vw_RunKey (filter (\<lambda>e. vw_Kind e = RunSettlementEventKind) es))"

definition admissionsUnique :: "admissionRow list \<Rightarrow> bool" where
  "admissionsUnique as \<longleftrightarrow> distinct (map aw_RunKey as) \<and> distinct (map (\<lambda>a. (aw_SessionKey a, aw_AdmissionKey a)) as)"

section \<open>Statements\<close>

text \<open>An \<open>INTEGER PRIMARY KEY\<close> is one more than the largest in use.\<close>

definition freshKey :: "int list \<Rightarrow> int" where
  "freshKey ks = foldr max ks 0 + 1"

definition insertT :: "(db \<Rightarrow> 'r list) \<Rightarrow> (('r list \<Rightarrow> 'r list) \<Rightarrow> db \<Rightarrow> db) \<Rightarrow> ('r \<Rightarrow> int) \<Rightarrow> ('r \<Rightarrow> bool) \<Rightarrow>
    ('r list \<Rightarrow> bool) \<Rightarrow> (int \<Rightarrow> 'r) \<Rightarrow> (db, bool) op" where
  "insertT get upd key ok uniq mk =
     bindE (askE get) (\<lambda>rows. let row = mk (freshKey (map key rows)) in
       thenE (guardE (ok row) ErrConflict)
         (if uniq (rows @ [row]) then thenE (modifyE (upd (\<lambda>rs. rs @ [row]))) (returnE True) else returnE False))"

text \<open>\<open>UPDATE ... WHERE\<close>: the number of rows affected.\<close>

definition updateT :: "(db \<Rightarrow> 'r list) \<Rightarrow> (('r list \<Rightarrow> 'r list) \<Rightarrow> db \<Rightarrow> db) \<Rightarrow> ('r \<Rightarrow> bool) \<Rightarrow>
    ('r list \<Rightarrow> bool) \<Rightarrow> ('r \<Rightarrow> bool) \<Rightarrow> ('r \<Rightarrow> 'r) \<Rightarrow> (db, nat) op" where
  "updateT get upd ok uniq P f =
     bindE (askE get) (\<lambda>rows.
       thenE (guardE (list_all ok (updateWhere P f rows) \<and> uniq (updateWhere P f rows)) ErrConflict)
         (thenE (modifyE (upd (updateWhere P f))) (returnE (countWhere P rows))))"

text \<open>\<open>rowsAffected\<close>: an update that touched nothing is \<open>ErrNotFound\<close>.\<close>

definition rowsAffected :: "nat \<Rightarrow> ('s, unit) op" where
  "rowsAffected n = guardE (n \<noteq> 0) ErrNotFound"

definition insertSession :: "(int \<Rightarrow> sessionRow) \<Rightarrow> (db, bool) op" where
  "insertSession = insertT sessions sessions_update sw_RowKey (\<lambda>_. True) (\<lambda>rs. distinct (map sw_ID rs))"

definition updateSessions :: "(sessionRow \<Rightarrow> bool) \<Rightarrow> (sessionRow \<Rightarrow> sessionRow) \<Rightarrow> (db, nat) op" where
  "updateSessions = updateT sessions sessions_update (\<lambda>_. True) (\<lambda>rs. distinct (map sw_ID rs))"

definition insertRun :: "(int \<Rightarrow> runRow) \<Rightarrow> (db, bool) op" where
  "insertRun = insertT runs runs_update rw_RowKey runCheck runsUnique"

definition updateRuns :: "(runRow \<Rightarrow> bool) \<Rightarrow> (runRow \<Rightarrow> runRow) \<Rightarrow> (db, nat) op" where
  "updateRuns = updateT runs runs_update runCheck runsUnique"

definition insertMessage :: "(int \<Rightarrow> messageRow) \<Rightarrow> (db, bool) op" where
  "insertMessage = insertT messages messages_update mw_RowKey messageCheck (\<lambda>rs. distinct (map mw_ID rs))"

definition updateMessages :: "(messageRow \<Rightarrow> bool) \<Rightarrow> (messageRow \<Rightarrow> messageRow) \<Rightarrow> (db, nat) op" where
  "updateMessages = updateT messages messages_update messageCheck (\<lambda>rs. distinct (map mw_ID rs))"

definition insertPart :: "(int \<Rightarrow> partRow) \<Rightarrow> (db, bool) op" where
  "insertPart = insertT parts parts_update pw_RowKey partCheck (\<lambda>rs. distinct (map pw_ID rs))"

definition updateParts :: "(partRow \<Rightarrow> bool) \<Rightarrow> (partRow \<Rightarrow> partRow) \<Rightarrow> (db, nat) op" where
  "updateParts = updateT parts parts_update partCheck (\<lambda>rs. distinct (map pw_ID rs))"

definition insertTool :: "(int \<Rightarrow> toolCallRow) \<Rightarrow> (db, bool) op" where
  "insertTool = insertT tool_calls tool_calls_update tw_RowKey toolCheck (\<lambda>rs. distinct (map tw_ID rs))"

definition updateTools :: "(toolCallRow \<Rightarrow> bool) \<Rightarrow> (toolCallRow \<Rightarrow> toolCallRow) \<Rightarrow> (db, nat) op" where
  "updateTools = updateT tool_calls tool_calls_update toolCheck (\<lambda>rs. distinct (map tw_ID rs))"

definition insertEpoch :: "(int \<Rightarrow> contextEpochRow) \<Rightarrow> (db, bool) op" where
  "insertEpoch = insertT context_epochs context_epochs_update ew_RowKey (\<lambda>_. True) (\<lambda>rs. distinct (map ew_ID rs))"

definition updateEpochs :: "(contextEpochRow \<Rightarrow> bool) \<Rightarrow> (contextEpochRow \<Rightarrow> contextEpochRow) \<Rightarrow> (db, nat) op" where
  "updateEpochs = updateT context_epochs context_epochs_update (\<lambda>_. True) (\<lambda>rs. distinct (map ew_ID rs))"

definition insertModelRequest :: "(int \<Rightarrow> modelRequestRow) \<Rightarrow> (db, bool) op" where
  "insertModelRequest = insertT model_requests model_requests_update qw_RowKey modelRequestCheck modelRequestsUnique"

definition updateModelRequests :: "(modelRequestRow \<Rightarrow> bool) \<Rightarrow> (modelRequestRow \<Rightarrow> modelRequestRow) \<Rightarrow> (db, nat) op" where
  "updateModelRequests = updateT model_requests model_requests_update modelRequestCheck modelRequestsUnique"

definition insertTurn :: "(int \<Rightarrow> turnRow) \<Rightarrow> (db, bool) op" where
  "insertTurn = insertT turns turns_update nw_RowKey turnCheck turnsUnique"

definition updateTurns :: "(turnRow \<Rightarrow> bool) \<Rightarrow> (turnRow \<Rightarrow> turnRow) \<Rightarrow> (db, nat) op" where
  "updateTurns = updateT turns turns_update turnCheck turnsUnique"

definition insertInbox :: "(int \<Rightarrow> inboxRow) \<Rightarrow> (db, bool) op" where
  "insertInbox = insertT inbox inbox_update iw_RowKey inboxCheck inboxUnique"

definition updateInbox :: "(inboxRow \<Rightarrow> bool) \<Rightarrow> (inboxRow \<Rightarrow> inboxRow) \<Rightarrow> (db, nat) op" where
  "updateInbox = updateT inbox inbox_update inboxCheck inboxUnique"

definition insertCheckpoint :: "(int \<Rightarrow> checkpointRow) \<Rightarrow> (db, bool) op" where
  "insertCheckpoint = insertT checkpoints checkpoints_update kw_RowKey checkpointCheck checkpointsUnique"

definition updateCheckpoints :: "(checkpointRow \<Rightarrow> bool) \<Rightarrow> (checkpointRow \<Rightarrow> checkpointRow) \<Rightarrow> (db, nat) op" where
  "updateCheckpoints = updateT checkpoints checkpoints_update checkpointCheck checkpointsUnique"

definition insertEventRow :: "(int \<Rightarrow> eventRow) \<Rightarrow> (db, bool) op" where
  "insertEventRow = insertT events events_update vw_RowKey eventCheck eventsUnique"

definition insertAdmission :: "(int \<Rightarrow> admissionRow) \<Rightarrow> (db, bool) op" where
  "insertAdmission = insertT admission_receipts admission_receipts_update aw_RowKey admissionCheck admissionsUnique"

section \<open>Keys\<close>

text \<open>\<open>Store.key\<close>: the row key of a public identity.\<close>

definition keyIn :: "('r \<Rightarrow> string) \<Rightarrow> ('r \<Rightarrow> int) \<Rightarrow> 'r list \<Rightarrow> string \<Rightarrow> err + int" where
  "keyIn ident key rows i = (case List.find (\<lambda>r. ident r = i) rows of None \<Rightarrow> Inl ErrNotFound | Some r \<Rightarrow> Inr (key r))"

definition sessionKeyOf :: "ID \<Rightarrow> db \<Rightarrow> err + int" where
  "sessionKeyOf i d = keyIn sw_ID sw_RowKey (sessions d) i"

definition runKeyOf :: "RunID \<Rightarrow> db \<Rightarrow> err + int" where
  "runKeyOf i d = keyIn rw_ID rw_RowKey (runs d) i"

definition messageKeyOf :: "MessageID \<Rightarrow> db \<Rightarrow> err + int" where
  "messageKeyOf i d = keyIn mw_ID mw_RowKey (messages d) i"

definition partKeyOf :: "PartID \<Rightarrow> db \<Rightarrow> err + int" where
  "partKeyOf i d = keyIn pw_ID pw_RowKey (parts d) i"

definition toolKeyOf :: "ToolCallID \<Rightarrow> db \<Rightarrow> err + int" where
  "toolKeyOf i d = keyIn tw_ID tw_RowKey (tool_calls d) i"

definition turnKeyOf :: "TurnID \<Rightarrow> db \<Rightarrow> err + int" where
  "turnKeyOf i d = keyIn nw_ID nw_RowKey (turns d) i"

text \<open>The rows a join finds by key.\<close>

definition sessionByKey :: "db \<Rightarrow> int \<Rightarrow> sessionRow option" where
  "sessionByKey d k = List.find (\<lambda>s. sw_RowKey s = k) (sessions d)"

definition runByKey :: "db \<Rightarrow> int \<Rightarrow> runRow option" where
  "runByKey d k = List.find (\<lambda>r. rw_RowKey r = k) (runs d)"

definition messageByKey :: "db \<Rightarrow> int \<Rightarrow> messageRow option" where
  "messageByKey d k = List.find (\<lambda>m. mw_RowKey m = k) (messages d)"

definition partByKey :: "db \<Rightarrow> int \<Rightarrow> partRow option" where
  "partByKey d k = List.find (\<lambda>p. pw_RowKey p = k) (parts d)"

definition toolByKey :: "db \<Rightarrow> int \<Rightarrow> toolCallRow option" where
  "toolByKey d k = List.find (\<lambda>t. tw_RowKey t = k) (tool_calls d)"

section \<open>Records\<close>

text \<open>\<open>SameRecord\<close>: two records are the same when their JSON is.\<close>

definition SameRecord :: "('r \<Rightarrow> err + 'r) \<Rightarrow> 'r \<Rightarrow> 'r \<Rightarrow> bool" where
  "SameRecord marshal l r = (case (marshal l, marshal r) of (Inr a, Inr b) \<Rightarrow> a = b | _ \<Rightarrow> False)"

text \<open>\<open>durationMicros\<close>: a \<open>time.Duration\<close> counts nanoseconds and truncates toward zero.\<close>

definition durationMicros :: "int \<Rightarrow> int" where
  "durationMicros d = max 1 (if d < 0 then - ((- d) div 1000) else d div 1000)"

section \<open>Lemmas\<close>

lemma wp_read [wp]: "wpE (readE f) Q s \<longleftrightarrow> (\<forall>x. f s = Inr x \<longrightarrow> Q x s)"
  by (simp add: wpE_def readE_def split: sum.split)

lemma run_read [simp]: "readE f s = (f s, s)"
  by (simp add: readE_def)

lemma bindS_Inr [simp]: "bindS r f = Inr y \<longleftrightarrow> (\<exists>x. r = Inr x \<and> f x = Inr y)"
  by (cases r) (auto simp: bindS_def)

lemma bindS_simps [simp]: "bindS (Inl e) f = Inl e" "bindS (Inr x) f = f x"
  by (simp_all add: bindS_def)

lemma check_Inr [simp]: "check b e = Inr u \<longleftrightarrow> b"
  by (simp add: check_def)

lemma take1_Inr: "take1 xs = Inr x \<Longrightarrow> x \<in> set xs"
  by (auto simp: take1_def split: list.splits)

lemma asConflict_Inr [simp]: "asConflict r = Inr x \<longleftrightarrow> r = Inr x"
  by (cases r) (auto simp: asConflict_def)

lemma foundS_Inr [simp]:
  "foundS r = Inr (Some x) \<longleftrightarrow> r = Inr x" "foundS r = Inr None \<longleftrightarrow> r = Inl ErrNotFound"
  by (cases r; auto simp: foundS_def)+

lemma foldr_max_ge: "k \<in> set ks \<Longrightarrow> k \<le> foldr max ks (0 :: int)"
  by (induction ks) auto

lemma freshKey_gt: "k \<in> set ks \<Longrightarrow> k < freshKey ks"
  using foldr_max_ge by (fastforce simp: freshKey_def)

lemma freshKey_notin [simp]: "freshKey ks \<notin> set ks"
  using freshKey_gt by blast

lemma keyIn_Inr: "keyIn ident key rows i = Inr k \<Longrightarrow> \<exists>r \<in> set rows. ident r = i \<and> key r = k"
  by (auto simp: keyIn_def split: option.splits dest: find_SomeD)

lemma wp_insertT:
  "wpE (insertT get upd key ok uniq mk) Q s \<longleftrightarrow>
     (let row = mk (freshKey (map key (get s))) in ok row \<longrightarrow>
       (if uniq (get s @ [row]) then Q True (upd (\<lambda>rs. rs @ [row]) s) else Q False s))"
  by (simp add: insertT_def wp Let_def)

lemma wp_updateT:
  "wpE (updateT get upd ok uniq P f) Q s \<longleftrightarrow>
     (list_all ok (updateWhere P f (get s)) \<and> uniq (updateWhere P f (get s)) \<longrightarrow>
       Q (countWhere P (get s)) (upd (updateWhere P f) s))"
  by (simp add: updateT_def wp)

lemma wp_rowsAffected [wp]: "wpE (rowsAffected n) Q s \<longleftrightarrow> (n \<noteq> 0 \<longrightarrow> Q () s)"
  by (simp add: rowsAffected_def wp)

lemmas statements = insertSession_def updateSessions_def insertRun_def updateRuns_def insertMessage_def
  updateMessages_def insertPart_def updateParts_def insertTool_def updateTools_def insertEpoch_def
  updateEpochs_def insertModelRequest_def updateModelRequests_def insertTurn_def updateTurns_def
  insertInbox_def updateInbox_def insertCheckpoint_def updateCheckpoints_def insertEventRow_def
  insertAdmission_def

lemmas wp_statements = statements wp_insertT wp_updateT

end
