(* ===== verification/StoreRuns.thy ===== *)
theory StoreRuns
  imports StoreDb
begin

text \<open>
  Sessions, runs and the run fence: \<open>sessions.go\<close>, \<open>runs.go\<close>, \<open>locking.go\<close> and the fence
  of \<open>execution.go\<close> (package \<open>store/internal/sqlstore\<close>). Row locks do not appear: the
  operations of a database run one after the other, which is what the session and run locks
  enforce for the rows an operation uses. The store's clock is the argument \<open>now\<close>, in
  microseconds since 1970.
\<close>

section \<open>Sessions\<close>

definition validSessionProjection :: "Session \<Rightarrow> bool" where
  "validSessionProjection record \<longleftrightarrow>
     list_all ValidString [s_ID record, s_WorkspaceID record, s_Title record] \<and>
     list_all (\<lambda>t. IsZero t \<or> yearInRange t) [s_CreatedAt record, s_UpdatedAt record]"

definition sessionRowMatches :: "sessionRow \<Rightarrow> Session \<Rightarrow> bool" where
  "sessionRowMatches row record \<longleftrightarrow> sw_ID row = s_ID record \<and> sw_Workspace row = s_WorkspaceID record \<and>
     sw_Title row = s_Title record \<and> TimeText (s_CreatedAt record) = sw_CreatedAt row \<and>
     TimeText (s_UpdatedAt record) = sw_UpdatedAt row"

definition sessionRowByID :: "ID \<Rightarrow> db \<Rightarrow> err + sessionRow" where
  "sessionRowByID i d = take1 (filter (\<lambda>s. sw_ID s = i) (sessions d))"

definition sessionRowOf :: "Session \<Rightarrow> int \<Rightarrow> sessionRow" where
  "sessionRowOf record k = \<lparr>sw_RowKey = k, sw_ID = s_ID record, sw_Record = record,
     sw_Workspace = s_WorkspaceID record, sw_Title = s_Title record,
     sw_CreatedAt = TimeText (s_CreatedAt record), sw_UpdatedAt = TimeText (s_UpdatedAt record)\<rparr>"

definition validateExistingSession :: "Session \<Rightarrow> sessionRow \<Rightarrow> err + Session" where
  "validateExistingSession record row =
     (let existing = sw_Record row in
      if \<not> sessionRowMatches row existing \<or> s_ID existing \<noteq> s_ID record then Inl ErrConflict
      else if \<not> SameRecord Inr existing record then Inl ErrConflict else Inr existing)"

definition CreateSession :: "Session \<Rightarrow> (db, Session) op" where
  "CreateSession record =
     (if \<not> validSessionProjection record then throwE ErrConflict
      else atomicE (bindE (readE (\<lambda>d. foundS (sessionRowByID (s_ID record) d))) (\<lambda>found.
        case found of Some row \<Rightarrow> liftE (validateExistingSession record row)
        | None \<Rightarrow>
           bindE (insertSession (sessionRowOf record)) (\<lambda>created.
             if created then returnE record
             else bindE (readE (sessionRowByID (s_ID record))) (\<lambda>row. liftE (validateExistingSession record row))))))"

definition GetSession :: "ID \<Rightarrow> db \<Rightarrow> err + Session" where
  "GetSession i d =
     bindS (sessionRowByID i d) (\<lambda>row.
       if \<not> sessionRowMatches row (sw_Record row) \<or> s_ID (sw_Record row) \<noteq> i then Inl ErrConflict else Inr (sw_Record row))"

definition UpdateSession :: "Session \<Rightarrow> (db, unit) op" where
  "UpdateSession record =
     (if \<not> validSessionProjection record then throwE ErrConflict
      else atomicE (bindE (readE (sessionKeyOf (s_ID record))) (\<lambda>k.
        bindE (updateSessions (\<lambda>s. sw_RowKey s = k)
          (\<lambda>s. s\<lparr>sw_Record := record, sw_Workspace := s_WorkspaceID record, sw_Title := s_Title record,
             sw_CreatedAt := TimeText (s_CreatedAt record), sw_UpdatedAt := TimeText (s_UpdatedAt record)\<rparr>))
          rowsAffected)))"

section \<open>Reading runs\<close>

definition runQuery :: "db \<Rightarrow> (runRow \<times> ID) list" where
  "runQuery d = List.map_filter (\<lambda>r. map_option (\<lambda>s. (r, sw_ID s)) (sessionByKey d (rw_SessionKey r))) (runs d)"

definition decodeRunRow :: "runRow \<times> ID \<Rightarrow> err + Run" where
  "decodeRunRow q =
     (let row = fst q; sessionID = snd q; value = rw_Record row in
      if rw_ID row \<noteq> r_ID value \<or> sessionID \<noteq> r_SessionID value \<or> rw_Status row \<noteq> r_Status value \<or>
         rw_ProviderID row \<noteq> r_ProviderID value \<or> rw_ModelID row \<noteq> r_ModelID value \<or>
         rw_OwnerID row \<noteq> r_OwnerID value \<or> rw_ClaimToken row \<noteq> r_ClaimToken value \<or>
         TimeText (r_CreatedAt value) \<noteq> rw_CreatedAt row
      then Inl ErrConflict
      else Inr (value\<lparr>r_LeaseUntil := unixMicro (rw_LeaseUntil row)\<rparr>))"

definition getRun :: "RunID \<Rightarrow> db \<Rightarrow> err + Run" where
  "getRun i d = bindS (take1 (filter (\<lambda>q. rw_ID (fst q) = i) (runQuery d))) decodeRunRow"

definition activeRun :: "ID \<Rightarrow> db \<Rightarrow> err + Run" where
  "activeRun sessionID d =
     bindS (sessionKeyOf sessionID d) (\<lambda>k.
       bindS (take1 (sort_key (\<lambda>q. (rw_CreatedAt (fst q), rw_ID (fst q)))
         (filter (\<lambda>q. rw_SessionKey (fst q) = k \<and> activeStatus (rw_Status (fst q))) (runQuery d)))) decodeRunRow)"

definition ListUnfinishedRuns :: "db \<Rightarrow> err + Run list" where
  "ListUnfinishedRuns d =
     mapS decodeRunRow (sort_key (\<lambda>q. (rw_CreatedAt (fst q), rw_ID (fst q)))
       (filter (\<lambda>q. liveStatus (rw_Status (fst q))) (runQuery d)))"

definition lockRun :: "RunID \<Rightarrow> db \<Rightarrow> err + runRow \<times> ID" where
  "lockRun i d =
     bindS (take1 (filter (\<lambda>r. rw_ID r = i) (runs d))) (\<lambda>preliminary.
       case sessionByKey d (rw_SessionKey preliminary) of None \<Rightarrow> Inl ErrNotFound
       | Some s \<Rightarrow>
          bindS (take1 (filter (\<lambda>q. rw_ID (fst q) = i) (runQuery d))) (\<lambda>q.
            if rw_SessionKey (fst q) \<noteq> rw_SessionKey preliminary then Inl ErrConflict else Inr q))"

section \<open>Admitting and claiming runs\<close>

text \<open>The record column: for a plain record (theory \<open>PlainCalls\<close>), what \<open>json.Unmarshal\<close> reads from the stored JSON.\<close>

definition runRowOf :: "int \<Rightarrow> Run \<Rightarrow> int \<Rightarrow> int \<Rightarrow> runRow" where
  "runRowOf sessionKey record lease k = \<lparr>rw_RowKey = k, rw_ID = r_ID record, rw_SessionKey = sessionKey,
     rw_Status = r_Status record, rw_ProviderID = r_ProviderID record, rw_ModelID = r_ModelID record,
     rw_OwnerID = r_OwnerID record, rw_ClaimToken = r_ClaimToken record, rw_LeaseUntil = lease,
     rw_Record = record, rw_CreatedAt = TimeText (r_CreatedAt record)\<rparr>"

definition AdmitRun :: "int \<Rightarrow> Run \<Rightarrow> int \<Rightarrow> (db, Run) op" where
  "AdmitRun now record leaseDuration =
     (if r_ID record = [] \<or> r_SessionID record = [] \<or> r_ClaimToken record = [] \<or> leaseDuration \<le> 0
      then throwE ErrConflict
      else atomicE (bindE (readE (\<lambda>d. foundS (getRun (r_ID record) d))) (\<lambda>duplicate.
        thenE (guardE (duplicate = None) ErrConflict)
        (bindE (readE (\<lambda>d. asConflict (sessionKeyOf (r_SessionID record) d))) (\<lambda>sessionKey.
         bindE (readE (\<lambda>d. foundS (activeRun (r_SessionID record) d))) (\<lambda>active.
         thenE (guardE (case active of None \<Rightarrow> True | Some a \<Rightarrow> r_ID a = r_ID record) ErrSessionBusy)
         (bindE (insertRun (runRowOf sessionKey record (now + durationMicros leaseDuration))) (\<lambda>created.
           if created then readE (getRun (r_ID record))
           else
             bindE (readE (\<lambda>d. foundS (getRun (r_ID record) d))) (\<lambda>existing.
               case existing of Some x \<Rightarrow> throwE ErrConflict
               | None \<Rightarrow>
                  bindE (askE (activeRun (r_SessionID record))) (\<lambda>current.
                    case current of Inr a \<Rightarrow> if r_ID a \<noteq> r_ID record then throwE ErrSessionBusy else throwE ErrConflict
                    | Inl e \<Rightarrow> throwE ErrConflict))))))))))"

text \<open>A paused run is claimed at once; a pending or running one only after its lease expired.\<close>

definition ClaimRun :: "int \<Rightarrow> RunClaim \<Rightarrow> (db, Run) op" where
  "ClaimRun now claim =
     (if c_RunID claim = [] \<or> c_OwnerID claim = [] \<or> c_ClaimToken claim = [] \<or> c_LeaseDuration claim \<le> 0
      then throwE ErrConflict
      else atomicE (bindE (readE (\<lambda>d. asConflict (lockRun (c_RunID claim) d))) (\<lambda>q.
        bindE (liftE (decodeRunRow q)) (\<lambda>current.
          let candidate = current\<lparr>r_Status := RunRunning, r_OwnerID := c_OwnerID claim, r_ClaimToken := c_ClaimToken claim\<rparr>;
              write = (\<lambda>r. r\<lparr>rw_Status := RunRunning, rw_OwnerID := c_OwnerID claim, rw_ClaimToken := c_ClaimToken claim,
                 rw_Record := candidate, rw_LeaseUntil := now + durationMicros (c_LeaseDuration claim)\<rparr>)
          in
          bindE (if r_Status current = RunPaused
             then updateRuns (\<lambda>r. rw_RowKey r = rw_RowKey (fst q) \<and> rw_Status r = RunPaused) write
             else updateRuns (\<lambda>r. rw_RowKey r = rw_RowKey (fst q) \<and> liveStatus (rw_Status r) \<and> rw_LeaseUntil r \<le> now) write)
            (\<lambda>n. if n = 0 then
               bindE (readE (\<lambda>d. asConflict (getRun (c_RunID claim) d))) (\<lambda>latest.
                 if \<not> Terminal latest then throwE ErrSessionBusy else throwE ErrConflict)
             else readE (getRun (c_RunID claim)))))))"

text \<open>The record a claim or a settlement writes is the run as JSON carries it, for a plain claim or settlement.\<close>

definition writeRun :: "Run \<Rightarrow> (db, unit) op" where
  "writeRun record =
     bindE (updateRuns (\<lambda>r. rw_ID r = r_ID record \<and> rw_ClaimToken r = r_ClaimToken record \<and> liveStatus (rw_Status r))
       (\<lambda>r. r\<lparr>rw_Status := r_Status record, rw_OwnerID := r_OwnerID record, rw_ClaimToken := r_ClaimToken record,
          rw_ProviderID := r_ProviderID record, rw_ModelID := r_ModelID record, rw_Record := record\<rparr>))
       (\<lambda>n. if n = 0 then
          bindE (readE (getRun (r_ID record))) (\<lambda>latest.
            if Terminal latest \<and> SameRecord Inr latest record then returnE () else throwE ErrConflict)
        else returnE ())"

section \<open>The fence\<close>

definition loadRunFence :: "RunFence \<Rightarrow> bool \<Rightarrow> db \<Rightarrow> err + Run" where
  "loadRunFence fence allowTerminal d =
     bindS (asConflict (lockRun (f_RunID fence) d)) (\<lambda>q.
       bindS (decodeRunRow q) (\<lambda>run.
         if r_ClaimToken run \<noteq> f_ClaimToken fence \<or>
            (\<not> allowTerminal \<and> r_Status run \<noteq> RunPending \<and> r_Status run \<noteq> RunRunning)
         then Inl ErrConflict else Inr run))"

definition withFenceState :: "RunFence \<Rightarrow> bool \<Rightarrow> (Run \<Rightarrow> (db, 'a) op) \<Rightarrow> (db, 'a) op" where
  "withFenceState fence allowTerminal fn =
     (if f_RunID fence = [] \<or> f_ClaimToken fence = [] then throwE ErrConflict
      else atomicE (bindE (readE (loadRunFence fence allowTerminal)) fn))"

definition withFence :: "RunFence \<Rightarrow> (Run \<Rightarrow> (db, 'a) op) \<Rightarrow> (db, 'a) op" where
  "withFence fence fn = withFenceState fence False fn"

definition renewRunLease :: "int \<Rightarrow> RunFence \<Rightarrow> int \<Rightarrow> (db, unit) op" where
  "renewRunLease now fence leaseDuration =
     bindE (updateRuns (\<lambda>r. rw_ID r = f_RunID fence \<and> rw_ClaimToken r = f_ClaimToken fence \<and> liveStatus (rw_Status r))
       (\<lambda>r. r\<lparr>rw_LeaseUntil := now + durationMicros leaseDuration\<rparr>))
       (\<lambda>n. guardE (n \<noteq> 0) ErrConflict)"

end
