(* ===== verification/StoreMessages.thy ===== *)
theory StoreMessages
  imports StoreRuns
begin

text \<open>
  Messages and their parts: \<open>messages.go\<close> and the authoritative decoding of \<open>records.go\<close>.
  A message or part is inserted once; repeating the insert returns the stored record when it
  is the same. Replay pages through a session's messages with the parts each owns.
\<close>

section \<open>Messages\<close>

definition messageRowByID :: "MessageID \<Rightarrow> db \<Rightarrow> err + messageRow" where
  "messageRowByID i d = take1 (filter (\<lambda>m. mw_ID m = i) (messages d))"

definition messageRowMatches :: "messageRow \<Rightarrow> Message \<Rightarrow> bool" where
  "messageRowMatches row record \<longleftrightarrow> mw_ID row = m_ID record \<and> mw_Role row = m_Role record \<and>
     (m_Role record = RoleAssistant \<or> mw_Finalized row) \<and> TimeText (m_CreatedAt record) = mw_CreatedAt row"

text \<open>The record column: for a plain record (theory \<open>PlainCalls\<close>), what \<open>json.Unmarshal\<close> reads from the stored JSON.\<close>

definition messageRowOf :: "Message \<Rightarrow> int \<Rightarrow> int \<Rightarrow> int \<Rightarrow> messageRow" where
  "messageRowOf record sessionKey runKey k = \<lparr>mw_RowKey = k, mw_ID = m_ID record, mw_SessionKey = sessionKey,
     mw_RunKey = runKey, mw_Role = m_Role record, mw_Finalized = (m_Role record \<noteq> RoleAssistant),
     mw_Record = record, mw_CreatedAt = TimeText (m_CreatedAt record)\<rparr>"

definition validateExistingMessage :: "Message \<Rightarrow> int \<Rightarrow> int \<Rightarrow> messageRow \<Rightarrow> err + Message" where
  "validateExistingMessage record sessionKey runKey row =
     (let existing = mw_Record row in
      if \<not> messageRowMatches row existing \<or> mw_SessionKey row \<noteq> sessionKey \<or> mw_RunKey row \<noteq> runKey then Inl ErrConflict
      else if \<not> SameRecord Inr existing record then Inl ErrConflict else Inr existing)"

text \<open>\<open>runs.row_key = ? AND session_key = ?\<close>, counted: the run belongs to the session.\<close>

definition ownerCount :: "int \<Rightarrow> int \<Rightarrow> db \<Rightarrow> nat" where
  "ownerCount runKey sessionKey d = countWhere (\<lambda>r. rw_RowKey r = runKey \<and> rw_SessionKey r = sessionKey) (runs d)"

definition appendMessage :: "Message \<Rightarrow> (db, Message) op" where
  "appendMessage record =
     bindE (readE (sessionKeyOf (m_SessionID record))) (\<lambda>sessionKey.
     bindE (readE (runKeyOf (m_RunID record))) (\<lambda>runKey.
     bindE (askE (ownerCount runKey sessionKey)) (\<lambda>owners.
     thenE (guardE (owners = 1) ErrConflict)
     (bindE (readE (\<lambda>d. foundS (messageRowByID (m_ID record) d))) (\<lambda>found.
       case found of Some row \<Rightarrow> liftE (validateExistingMessage record sessionKey runKey row)
       | None \<Rightarrow>
          bindE (insertMessage (messageRowOf record sessionKey runKey)) (\<lambda>created.
            if created then returnE record
            else bindE (readE (messageRowByID (m_ID record))) (\<lambda>row.
              liftE (validateExistingMessage record sessionKey runKey row))))))))"

section \<open>Parts\<close>

definition partRowByID :: "PartID \<Rightarrow> db \<Rightarrow> err + partRow" where
  "partRowByID i d = take1 (filter (\<lambda>p. pw_ID p = i) (parts d))"

definition partRowMatches :: "partRow \<Rightarrow> Part \<Rightarrow> bool" where
  "partRowMatches row record \<longleftrightarrow> pw_ID row = p_ID record \<and> pw_Ordinal row = p_Ordinal record \<and>
     pw_Kind row = p_Kind record \<and> pw_DisplayText row = fst (ObservationText record) \<and>
     pw_TextValid row = snd (ObservationText record) \<and> TimeText (p_CreatedAt record) = pw_CreatedAt row"

definition partOwnerKeys :: "Part \<Rightarrow> db \<Rightarrow> err + int \<times> int \<times> int" where
  "partOwnerKeys record d =
     bindS (sessionKeyOf (p_SessionID record) d) (\<lambda>sessionKey.
     bindS (runKeyOf (p_RunID record) d) (\<lambda>runKey.
     bindS (messageKeyOf (p_MessageID record) d) (\<lambda>messageKey. Inr (messageKey, sessionKey, runKey))))"

definition validatedPartOwnerKeys :: "Part \<Rightarrow> db \<Rightarrow> err + int \<times> int \<times> int" where
  "validatedPartOwnerKeys record d =
     bindS (asConflict (partOwnerKeys record d)) (\<lambda>(messageKey, sessionKey, runKey).
       case messageByKey d messageKey of None \<Rightarrow> Inl ErrConflict
       | Some owner \<Rightarrow> if mw_SessionKey owner \<noteq> sessionKey \<or> mw_RunKey owner \<noteq> runKey then Inl ErrConflict
                      else Inr (messageKey, sessionKey, runKey))"

definition partRowOf :: "Part \<Rightarrow> Part \<Rightarrow> int \<times> int \<times> int \<Rightarrow> int \<Rightarrow> partRow" where
  "partRowOf record stored keys k = \<lparr>pw_RowKey = k, pw_ID = p_ID record, pw_MessageKey = fst keys,
     pw_SessionKey = fst (snd keys), pw_RunKey = snd (snd keys), pw_Ordinal = p_Ordinal record, pw_Kind = p_Kind record,
     pw_DisplayText = fst (ObservationText record), pw_TextValid = snd (ObservationText record),
     pw_Record = stored, pw_CreatedAt = TimeText (p_CreatedAt record)\<rparr>"

definition validateExistingPart :: "Part \<Rightarrow> int \<times> int \<times> int \<Rightarrow> partRow \<Rightarrow> err + Part" where
  "validateExistingPart record keys row =
     (let existing = pw_Record row in
      if \<not> partRowMatches row existing \<or> (pw_MessageKey row, pw_SessionKey row, pw_RunKey row) \<noteq> keys then Inl ErrConflict
      else if \<not> SameRecord marshalPart existing record then Inl ErrConflict else Inr existing)"

definition appendPart :: "Part \<Rightarrow> (db, Part) op" where
  "appendPart record =
     bindE (readE (validatedPartOwnerKeys record)) (\<lambda>keys.
     bindE (readE (\<lambda>d. foundS (partRowByID (p_ID record) d))) (\<lambda>found.
       case found of Some row \<Rightarrow> liftE (validateExistingPart record keys row)
       | None \<Rightarrow>
          bindE (liftE (marshalPart record)) (\<lambda>stored.
          bindE (insertPart (partRowOf record stored keys)) (\<lambda>created.
            if created then returnE record
            else bindE (readE (partRowByID (p_ID record))) (\<lambda>row. liftE (validateExistingPart record keys row))))))"

definition updatePart :: "Part \<Rightarrow> (db, unit) op" where
  "updatePart record =
     bindE (readE (validatedPartOwnerKeys record)) (\<lambda>(messageKey, sessionKey, runKey).
     bindE (liftE (marshalPart record)) (\<lambda>stored.
     bindE (updateParts (\<lambda>p. pw_ID p = p_ID record \<and> pw_SessionKey p = sessionKey \<and> pw_RunKey p = runKey \<and>
          pw_MessageKey p = messageKey)
        (\<lambda>p. p\<lparr>pw_Ordinal := p_Ordinal record, pw_Kind := p_Kind record,
           pw_DisplayText := fst (ObservationText record), pw_TextValid := snd (ObservationText record),
           pw_Record := stored, pw_CreatedAt := TimeText (p_CreatedAt record)\<rparr>))
        rowsAffected))"

section \<open>Replay\<close>

record ReplayCursor =
  rcu_AfterMessageID :: MessageID
  rcu_Limit :: int

record ReplayBatch =
  rb_Messages :: "Message list"
  rb_Parts :: "Part list"
  rb_PartOwnerMessageIDs :: "MessageID list"
  rb_Next :: ReplayCursor

definition zeroReplayCursor :: ReplayCursor where
  "zeroReplayCursor = \<lparr>rcu_AfterMessageID = [], rcu_Limit = 0\<rparr>"

definition DecodeAuthoritativeMessage :: "messageRow \<times> ID \<times> RunID \<Rightarrow> err + Message" where
  "DecodeAuthoritativeMessage q =
     (let row = fst q; message = mw_Record row in
      if m_ID message \<noteq> mw_ID row \<or> m_SessionID message \<noteq> fst (snd q) \<or> m_RunID message \<noteq> snd (snd q) \<or>
         m_Role message \<noteq> mw_Role row \<or> TimeText (m_CreatedAt message) \<noteq> mw_CreatedAt row
      then Inl ErrConflict else Inr message)"

text \<open>The ids a part row is joined with: its message, session and run.\<close>

definition DecodeAuthoritativePart :: "partRow \<times> MessageID \<times> ID \<times> RunID \<Rightarrow> err + Part" where
  "DecodeAuthoritativePart q =
     (let row = fst q; part = pw_Record row in
      if p_ID part \<noteq> pw_ID row \<or> p_MessageID part \<noteq> fst (snd q) \<or> p_SessionID part \<noteq> fst (snd (snd q)) \<or>
         p_RunID part \<noteq> snd (snd (snd q)) \<or> p_Ordinal part \<noteq> pw_Ordinal row
      then Inl ErrConflict else Inr part)"

definition replayMessageQuery :: "db \<Rightarrow> (messageRow \<times> ID \<times> RunID) list" where
  "replayMessageQuery d = List.map_filter (\<lambda>m.
     case (sessionByKey d (mw_SessionKey m), runByKey d (mw_RunKey m)) of
       (Some s, Some r) \<Rightarrow> Some (m, sw_ID s, rw_ID r) | _ \<Rightarrow> None) (messages d)"

definition messageOrder :: "messageRow \<times> ID \<times> RunID \<Rightarrow> string \<times> string" where
  "messageOrder q = (mw_CreatedAt (fst q), mw_ID (fst q))"

definition loadReplayMessages :: "nat \<Rightarrow> (messageRow \<Rightarrow> bool) \<Rightarrow> db \<Rightarrow> err + Message list" where
  "loadReplayMessages n P d =
     mapS DecodeAuthoritativeMessage (take n (sort_key messageOrder (filter (\<lambda>q. P (fst q)) (replayMessageQuery d))))"

definition ProviderStateHardMaxItems :: nat where "ProviderStateHardMaxItems = 64"
definition ProviderStateHardMaxStoredMessageBytes :: int where "ProviderStateHardMaxStoredMessageBytes = 22632024"

definition replayPartQuery :: "db \<Rightarrow> (partRow \<times> messageRow \<times> ID \<times> RunID) list" where
  "replayPartQuery d = List.map_filter (\<lambda>p.
     case (messageByKey d (pw_MessageKey p), sessionByKey d (pw_SessionKey p), runByKey d (pw_RunKey p)) of
       (Some m, Some s, Some r) \<Rightarrow> Some (p, m, sw_ID s, rw_ID r) | _ \<Rightarrow> None) (parts d)"

definition partOrder :: "partRow \<times> messageRow \<times> ID \<times> RunID \<Rightarrow> string \<times> string \<times> int \<times> string" where
  "partOrder q = (mw_CreatedAt (fst (snd q)), mw_ID (fst (snd q)), pw_Ordinal (fst q), pw_ID (fst q))"

text \<open>The loop over the part rows: what it counts and sums per message are the provider-state
  parts seen so far.\<close>

fun collectParts :: "(partRow \<times> messageRow \<times> ID \<times> RunID) list \<Rightarrow> (MessageID \<Rightarrow> nat) \<Rightarrow> (MessageID \<Rightarrow> nat) \<Rightarrow>
    err + Part list" where
  "collectParts [] counts sizes = Inr []"
| "collectParts (q # qs) counts sizes =
     bindS (DecodeAuthoritativePart (fst q, mw_ID (fst (snd q)), snd (snd q))) (\<lambda>part.
       if p_Kind part = PartProviderState then
         (let owner = p_MessageID part in
          if ProviderStateHardMaxItems \<le> counts owner \<or>
             int (length (p_Payload part)) > ProviderStateHardMaxStoredMessageBytes - int (sizes owner)
          then Inl ErrConflict
          else bindS (collectParts qs (counts(owner := counts owner + 1)) (sizes(owner := sizes owner + length (p_Payload part))))
            (\<lambda>ps. Inr (part # ps)))
       else bindS (collectParts qs counts sizes) (\<lambda>ps. Inr (part # ps)))"

definition loadReplayParts :: "MessageID list \<Rightarrow> db \<Rightarrow> err + Part list" where
  "loadReplayParts ids d =
     (if ids = [] then Inr []
      else bindS (mapS (\<lambda>i. messageKeyOf i d) ids) (\<lambda>keys.
        collectParts (sort_key partOrder (filter (\<lambda>q. pw_MessageKey (fst q) \<in> set keys) (replayPartQuery d)))
          (\<lambda>_. 0) (\<lambda>_. 0)))"

definition replayLimit :: "int \<Rightarrow> nat" where
  "replayLimit l = (if l \<le> 0 then 100 else nat l)"

definition ListMessages :: "ID \<Rightarrow> ReplayCursor \<Rightarrow> db \<Rightarrow> err + ReplayBatch" where
  "ListMessages sessionID cursor d =
     (let limit = replayLimit (rcu_Limit cursor) in
      bindS (sessionKeyOf sessionID d) (\<lambda>k.
      bindS (if rcu_AfterMessageID cursor = [] then Inr (\<lambda>m. True)
             else bindS (take1 (filter (\<lambda>m. mw_ID m = rcu_AfterMessageID cursor \<and> mw_SessionKey m = k) (messages d))) (\<lambda>after.
               Inr (\<lambda>m. mw_CreatedAt after < mw_CreatedAt m \<or>
                  mw_CreatedAt after = mw_CreatedAt m \<and> rcu_AfterMessageID cursor < mw_ID m)))
        (\<lambda>beyond.
      bindS (loadReplayMessages (limit + 1) (\<lambda>m. mw_SessionKey m = k \<and> beyond m) d) (\<lambda>found.
        let more = limit < length found;
            page = (if more then take limit found else found);
            next = (if more then \<lparr>rcu_AfterMessageID = m_ID (found ! (limit - 1)), rcu_Limit = int limit\<rparr> else zeroReplayCursor)
        in if page = [] then Inr \<lparr>rb_Messages = page, rb_Parts = [], rb_PartOwnerMessageIDs = [], rb_Next = next\<rparr>
           else bindS (loadReplayParts (map m_ID page) d) (\<lambda>ps.
             Inr \<lparr>rb_Messages = page, rb_Parts = ps, rb_PartOwnerMessageIDs = map p_MessageID ps, rb_Next = next\<rparr>)))))"

definition GetMessage :: "MessageID \<Rightarrow> db \<Rightarrow> err + Message" where
  "GetMessage i d =
     bindS (take1 (filter (\<lambda>q. mw_ID (fst q) = i) (replayMessageQuery d))) DecodeAuthoritativeMessage"

end
