(* ===== verification/StoreEvents.thy ===== *)
theory StoreEvents
  imports StoreRuns
begin

text \<open>
  The event log: \<open>events.go\<close>. An event is inserted at most once; a caller that repeats an
  insert gets the stored event back when the two records agree. Listing pages through a
  session's events in the order of their creation.
\<close>

section \<open>Reading\<close>

text \<open>The columns the event query adds by its joins: the ids of session and run, and of the
  tool call when there is one.\<close>

record eventJoin =
  vj_SessionID :: ID
  vj_RunID :: RunID
  vj_Tool :: "toolCallRow option"

definition eventQuery :: "db \<Rightarrow> (eventRow \<times> eventJoin) list" where
  "eventQuery d = List.map_filter (\<lambda>e.
     case (sessionByKey d (vw_SessionKey e), runByKey d (vw_RunKey e)) of
       (Some s, Some r) \<Rightarrow> Some (e, \<lparr>vj_SessionID = sw_ID s, vj_RunID = rw_ID r,
          vj_Tool = Option.bind (vw_ToolKey e) (toolByKey d)\<rparr>)
     | _ \<Rightarrow> None) (events d)"

definition joinedToolID :: "eventJoin \<Rightarrow> ToolCallID" where
  "joinedToolID j = (case vj_Tool j of None \<Rightarrow> [] | Some t \<Rightarrow> tw_ID t)"

definition joinedToolSessionKey :: "eventJoin \<Rightarrow> int" where
  "joinedToolSessionKey j = (case vj_Tool j of None \<Rightarrow> 0 | Some t \<Rightarrow> tw_SessionKey t)"

definition joinedToolRunKey :: "eventJoin \<Rightarrow> int" where
  "joinedToolRunKey j = (case vj_Tool j of None \<Rightarrow> 0 | Some t \<Rightarrow> tw_RunKey t)"

definition decodeEventRow :: "eventRow \<times> eventJoin \<Rightarrow> err + EventRecord" where
  "decodeEventRow q =
     (let row = fst q; j = snd q; value = vw_Record row in
      if vw_ID row \<noteq> ev_ID value \<or> vj_SessionID j \<noteq> ev_SessionID value \<or> vj_RunID j \<noteq> ev_RunID value \<or>
         vw_Kind row \<noteq> ev_Kind value \<or> TimeText (ev_CreatedAt value) \<noteq> vw_CreatedAt row
      then Inl ErrConflict
      else case vw_ToolTransition row of
        None \<Rightarrow> if ev_ToolTransition value \<noteq> ToolTransitionNone \<or> joinedToolID j \<noteq> [] then Inl ErrConflict else Inr value
      | Some p \<Rightarrow>
         if ev_ToolTransition value \<noteq> p \<or> joinedToolID j \<noteq> ev_ToolCallID value \<or>
            joinedToolSessionKey j \<noteq> vw_SessionKey row \<or> joinedToolRunKey j \<noteq> vw_RunKey row
         then Inl ErrConflict else Inr value)"

definition eventByID :: "EventID \<Rightarrow> db \<Rightarrow> err + EventRecord" where
  "eventByID i d = bindS (take1 (filter (\<lambda>q. vw_ID (fst q) = i) (eventQuery d))) decodeEventRow"

definition eventByToolTransition :: "int \<Rightarrow> ToolTransitionPhase \<Rightarrow> db \<Rightarrow> err + EventRecord" where
  "eventByToolTransition toolKey p d =
     bindS (take1 (filter (\<lambda>q. vw_ToolKey (fst q) = Some toolKey \<and> vw_ToolTransition (fst q) = Some p) (eventQuery d)))
       decodeEventRow"

definition eventByRunFinished :: "int \<Rightarrow> string \<Rightarrow> db \<Rightarrow> err + EventRecord" where
  "eventByRunFinished runKey kind d =
     bindS (take1 (filter (\<lambda>q. vw_RunKey (fst q) = runKey \<and> vw_Kind (fst q) = kind) (eventQuery d))) decodeEventRow"

section \<open>Writing\<close>

definition canonicalOnlyEventKinds :: "string \<Rightarrow> bool" where
  "canonicalOnlyEventKinds k \<longleftrightarrow> k = RunSettlementEventKind \<or> k = TurnStartedEventKind \<or>
     k = TurnCompletedEventKind \<or> k = RunPausedEventKind"

definition eventRowOf :: "EventRecord \<Rightarrow> EventRecord \<Rightarrow> int \<Rightarrow> int \<Rightarrow> int option \<Rightarrow> int \<Rightarrow> eventRow" where
  "eventRowOf record stored sessionKey runKey toolKey k = \<lparr>vw_RowKey = k, vw_ID = ev_ID record,
     vw_SessionKey = sessionKey, vw_RunKey = runKey, vw_ToolKey = toolKey, vw_Kind = ev_Kind record,
     vw_ToolTransition = (if ev_ToolTransition record = ToolTransitionNone then None else Some (ev_ToolTransition record)),
     vw_Record = stored, vw_CreatedAt = TimeText (ev_CreatedAt record)\<rparr>"

text \<open>A retry of a stored event: the record read back, or a conflict.\<close>

definition sameEvent :: "EventRecord \<Rightarrow> EventRecord \<Rightarrow> err + EventRecord" where
  "sameEvent record existing = (if SameRecord marshalEvent existing record then Inr existing else Inl ErrConflict)"

definition existingEvent :: "EventRecord \<Rightarrow> int \<Rightarrow> int option \<Rightarrow> db \<Rightarrow> err + EventRecord" where
  "existingEvent record runKey toolKey d =
     bindS (foundS (eventByID (ev_ID record) d)) (\<lambda>byID.
       case byID of Some existing \<Rightarrow> sameEvent record existing
       | None \<Rightarrow>
          (case toolKey of
             Some tk \<Rightarrow>
               bindS (foundS (eventByToolTransition tk (ev_ToolTransition record) d)) (\<lambda>byTool.
                 case byTool of Some existing \<Rightarrow> sameEvent record existing | None \<Rightarrow> Inl ErrConflict)
           | None \<Rightarrow>
               if ev_Kind record = RunSettlementEventKind then
                 bindS (foundS (eventByRunFinished runKey (ev_Kind record) d)) (\<lambda>byRun.
                   case byRun of Some existing \<Rightarrow> sameEvent record existing | None \<Rightarrow> Inl ErrConflict)
               else Inl ErrConflict))"

definition insertEvent :: "EventRecord \<Rightarrow> bool \<Rightarrow> (db, EventRecord) op" where
  "insertEvent record canonical =
     (if \<not> canonical \<and> (canonicalOnlyEventKinds (ev_Kind record) \<or> ev_ToolTransition record \<noteq> ToolTransitionNone)
      then throwE ErrConflict
      else
       bindE (liftE (marshalEvent record)) (\<lambda>stored.
       bindE (readE (\<lambda>d. asConflict (sessionKeyOf (ev_SessionID record) d))) (\<lambda>sessionKey.
       bindE (readE (\<lambda>d. asConflict (runKeyOf (ev_RunID record) d))) (\<lambda>runKey.
       bindE (if ev_ToolTransition record \<noteq> ToolTransitionNone
              then readE (\<lambda>d. bindS (asConflict (toolKeyOf (ev_ToolCallID record) d)) (\<lambda>k. Inr (Some k)))
              else returnE None) (\<lambda>toolKey.
       bindE (insertEventRow (eventRowOf record stored sessionKey runKey toolKey)) (\<lambda>created.
         if created then returnE record else readE (existingEvent record runKey toolKey)))))))"

definition appendEvent :: "EventRecord \<Rightarrow> (db, EventRecord) op" where
  "appendEvent record =
     (if ev_ID record = [] \<or> ev_SessionID record = [] \<or> ev_RunID record = [] \<or> ev_ToolTransition record \<noteq> ToolTransitionNone
      then throwE ErrConflict else insertEvent record False)"

definition appendCanonicalEvent :: "EventRecord \<Rightarrow> (db, EventRecord) op" where
  "appendCanonicalEvent record =
     (if ev_ToolTransition record = ToolTransitionNone \<and> \<not> canonicalOnlyEventKinds (ev_Kind record)
      then throwE ErrConflict else insertEvent record True)"

section \<open>Listing\<close>

record EventCursor =
  ecu_AfterEventID :: EventID
  ecu_Limit :: int

record EventBatch =
  eb_Events :: "EventRecord list"
  eb_Next :: EventCursor

definition zeroEventCursor :: EventCursor where
  "zeroEventCursor = \<lparr>ecu_AfterEventID = [], ecu_Limit = 0\<rparr>"

definition pageLimit :: "int \<Rightarrow> nat" where
  "pageLimit l = (if l \<le> 0 then 100 else nat l)"

definition eventOrder :: "eventRow \<times> eventJoin \<Rightarrow> string \<times> string" where
  "eventOrder q = (vw_CreatedAt (fst q), vw_ID (fst q))"

definition ListEvents :: "ID \<Rightarrow> EventCursor \<Rightarrow> db \<Rightarrow> err + EventBatch" where
  "ListEvents sessionID cursor d =
     (let limit = pageLimit (ecu_Limit cursor) in
      bindS (sessionKeyOf sessionID d) (\<lambda>k.
      bindS (if ecu_AfterEventID cursor = [] then Inr (\<lambda>q. True)
             else bindS (eventByID (ecu_AfterEventID cursor) d) (\<lambda>after.
               if ev_SessionID after \<noteq> sessionID then Inl ErrConflict
               else Inr (\<lambda>q. TimeText (ev_CreatedAt after) < vw_CreatedAt (fst q) \<or>
                  TimeText (ev_CreatedAt after) = vw_CreatedAt (fst q) \<and> ecu_AfterEventID cursor < vw_ID (fst q))))
        (\<lambda>beyond.
      bindS (mapS decodeEventRow (take (limit + 1) (sort_key eventOrder
          (filter (\<lambda>q. vw_SessionKey (fst q) = k \<and> beyond q) (eventQuery d))))) (\<lambda>values.
        if limit < length values
        then Inr \<lparr>eb_Events = take limit values,
               eb_Next = \<lparr>ecu_AfterEventID = ev_ID (values ! (limit - 1)), ecu_Limit = int limit\<rparr>\<rparr>
        else Inr \<lparr>eb_Events = values, eb_Next = zeroEventCursor\<rparr>))))"

end
