(* ===== verification/StoreInbox.thy ===== *)
theory StoreInbox
  imports StoreRuns
begin

text \<open>
  The session inbox: \<open>inbox.go\<close>. An item is enqueued once per idempotency key, consumed by the
  turn that admits it, and completed or interrupted with that turn. \<open>L\<close> supplies the
  third-party functions content validation calls.
\<close>

section \<open>Reading\<close>

definition inboxQuery :: "db \<Rightarrow> (inboxRow \<times> ID) list" where
  "inboxQuery d = List.map_filter (\<lambda>i. map_option (\<lambda>s. (i, sw_ID s)) (sessionByKey d (iw_SessionKey i))) (inbox d)"

definition decodeInboxRow :: "inboxRow \<times> ID \<Rightarrow> err + InboxItem" where
  "decodeInboxRow q =
     (let row = fst q; value = iw_Record row in
      if iw_ID row \<noteq> ib_ID value \<or> snd q \<noteq> ib_SessionID value \<or> iw_IdempotencyKey row \<noteq> ib_IdempotencyKey value \<or>
         iw_State row \<noteq> ib_State value
      then Inl ErrConflict
      else if iw_TurnKey row = None \<and> ib_TurnID value \<noteq> [] then Inl ErrConflict
      else Inr value)"

definition inboxRowByID :: "InboxID \<Rightarrow> db \<Rightarrow> err + inboxRow \<times> ID" where
  "inboxRowByID i d = take1 (filter (\<lambda>q. iw_ID (fst q) = i) (inboxQuery d))"

definition inboxRowByIdempotencyKey :: "int \<Rightarrow> string \<Rightarrow> db \<Rightarrow> err + inboxRow \<times> ID" where
  "inboxRowByIdempotencyKey sessionKey key d =
     take1 (filter (\<lambda>q. iw_SessionKey (fst q) = sessionKey \<and> iw_IdempotencyKey (fst q) = key) (inboxQuery d))"

definition ListInbox :: "ID \<Rightarrow> InboxState list \<Rightarrow> db \<Rightarrow> err + InboxItem list" where
  "ListInbox sessionID states d =
     bindS (sessionKeyOf sessionID d) (\<lambda>k.
       mapS decodeInboxRow (sort_key (\<lambda>q. (iw_CreatedAt (fst q), iw_ID (fst q)))
         (filter (\<lambda>q. iw_SessionKey (fst q) = k \<and> (states = [] \<or> iw_State (fst q) \<in> set states)) (inboxQuery d))))"

section \<open>Enqueueing\<close>

definition matchExistingInbox :: "InboxItem \<Rightarrow> inboxRow \<times> ID \<Rightarrow> err + InboxItem \<times> bool" where
  "matchExistingInbox item q =
     bindS (decodeInboxRow q) (\<lambda>existing.
       if \<not> ContentBlocksEqualIgnoringID (elems (ib_Blocks existing)) (elems (ib_Blocks item)) then Inl ErrConflict
       else Inr (existing, False))"

text \<open>The record column: for a plain record (theory \<open>PlainCalls\<close>), what \<open>json.Unmarshal\<close> reads from the stored JSON.\<close>

definition inboxRowOf :: "InboxItem \<Rightarrow> InboxItem \<Rightarrow> int \<Rightarrow> int \<Rightarrow> inboxRow" where
  "inboxRowOf item stored sessionKey k = \<lparr>iw_RowKey = k, iw_ID = ib_ID item, iw_SessionKey = sessionKey,
     iw_TurnKey = None, iw_IdempotencyKey = ib_IdempotencyKey item, iw_State = ib_State item, iw_Record = stored,
     iw_CreatedAt = TimeText (ib_CreatedAt item), iw_UpdatedAt = TimeText (ib_UpdatedAt item)\<rparr>"

definition enqueueInboxLocked :: "int \<Rightarrow> InboxItem \<Rightarrow> (db, InboxItem \<times> bool) op" where
  "enqueueInboxLocked sessionKey item =
     bindE (readE (\<lambda>d. foundS (inboxRowByIdempotencyKey sessionKey (ib_IdempotencyKey item) d))) (\<lambda>found.
       case found of Some q \<Rightarrow> liftE (matchExistingInbox item q)
       | None \<Rightarrow>
          bindE (liftE (marshalInbox item)) (\<lambda>stored.
          bindE (insertInbox (inboxRowOf item stored sessionKey)) (\<lambda>created.
            if created then returnE (item, True)
            else bindE (readE (\<lambda>d. asConflict (inboxRowByIdempotencyKey sessionKey (ib_IdempotencyKey item) d)))
              (\<lambda>q. liftE (matchExistingInbox item q)))))"

definition EnqueueInbox :: "libs \<Rightarrow> InboxItem \<Rightarrow> ContentLimits \<Rightarrow> (db, InboxItem) op" where
  "EnqueueInbox L item limits =
     thenE (liftE (ValidateEnqueueInbox L item limits))
       (atomicE (bindE (readE (\<lambda>d. asConflict (sessionKeyOf (ib_SessionID item) d))) (\<lambda>sessionKey.
          bindE (enqueueInboxLocked sessionKey item) (\<lambda>r. returnE (fst r)))))"

definition EnqueueInboxForRun :: "libs \<Rightarrow> RunID \<Rightarrow> InboxItem \<Rightarrow> ContentLimits \<Rightarrow> (db, InboxItem \<times> bool) op" where
  "EnqueueInboxForRun L runID item limits =
     thenE (liftE (ValidateEnqueueInbox L item limits))
       (if runID = [] then throwE ErrConflict
        else atomicE (bindE (mapErrE (\<lambda>e. if e = ErrNotFound then ErrRunClosed else e) (readE (lockRun runID))) (\<lambda>q.
          bindE (liftE (decodeRunRow q)) (\<lambda>run.
          thenE (guardE (r_SessionID run = ib_SessionID item) ErrConflict)
          (thenE (guardE (\<not> Terminal run) ErrRunClosed)
            (enqueueInboxLocked (rw_SessionKey (fst q)) item))))))"

section \<open>Transitions\<close>

text \<open>The update every transition ends with: the row must still be in the state it was
  read in. Only consuming an item writes its turn key.\<close>

definition moveInbox :: "inboxRow \<Rightarrow> InboxItem \<Rightarrow> InboxState \<Rightarrow> (int option \<Rightarrow> int option) \<Rightarrow> (db, unit) op" where
  "moveInbox row item fromState turnKey =
     bindE (liftE (marshalInbox item)) (\<lambda>stored.
     bindE (updateInbox (\<lambda>i. iw_RowKey i = iw_RowKey row \<and> iw_State i = fromState)
       (\<lambda>i. i\<lparr>iw_State := ib_State item, iw_TurnKey := turnKey (iw_TurnKey i), iw_Record := stored,
          iw_UpdatedAt := TimeText (ib_UpdatedAt item)\<rparr>))
       (\<lambda>n. guardE (n \<noteq> 0) ErrConflict))"

definition consumeOne :: "int \<Rightarrow> int \<Rightarrow> TurnID \<Rightarrow> gotime \<Rightarrow> InboxID \<Rightarrow> (db, unit) op" where
  "consumeOne sessionKey turnKey turnID stamp i =
     bindE (readE (\<lambda>d. asConflict (inboxRowByID i d))) (\<lambda>q.
     thenE (guardE (iw_SessionKey (fst q) = sessionKey) ErrConflict)
     (bindE (liftE (decodeInboxRow q)) (\<lambda>item.
       if ib_State item = InboxConsumed \<and> ib_TurnID item = turnID then returnE ()
       else thenE (guardE (ib_State item = InboxQueued) ErrConflict)
         (moveInbox (fst q) (item\<lparr>ib_State := InboxConsumed, ib_TurnID := turnID, ib_UpdatedAt := UTC stamp\<rparr>)
            InboxQueued (\<lambda>_. Some turnKey)))))"

definition consumeInboxForTurn :: "int \<Rightarrow> int \<Rightarrow> TurnID \<Rightarrow> InboxID list \<Rightarrow> gotime \<Rightarrow> (db, unit) op" where
  "consumeInboxForTurn sessionKey turnKey turnID ids stamp = forE ids (consumeOne sessionKey turnKey turnID stamp)"

definition settleOne :: "InboxState \<Rightarrow> gotime \<Rightarrow> inboxRow \<times> ID \<Rightarrow> (db, unit) op" where
  "settleOne to stamp q =
     bindE (liftE (decodeInboxRow q)) (\<lambda>item.
       moveInbox (fst q) (item\<lparr>ib_State := to, ib_UpdatedAt := UTC stamp\<rparr>) (ib_State item) id)"

definition settleInboxForTurn :: "int \<Rightarrow> InboxState list \<Rightarrow> InboxState \<Rightarrow> gotime \<Rightarrow> (db, unit) op" where
  "settleInboxForTurn turnKey froms to stamp =
     bindE (askE (\<lambda>d. filter (\<lambda>q. iw_TurnKey (fst q) = Some turnKey \<and> iw_State (fst q) \<in> set froms) (inboxQuery d)))
       (\<lambda>rows. forE rows (settleOne to stamp))"

definition interruptOne :: "int \<Rightarrow> gotime \<Rightarrow> InboxID \<Rightarrow> (db, unit) op" where
  "interruptOne sessionKey stamp i =
     bindE (readE (\<lambda>d. asConflict (inboxRowByID i d))) (\<lambda>q.
     thenE (guardE (iw_SessionKey (fst q) = sessionKey) ErrConflict)
     (bindE (liftE (decodeInboxRow q)) (\<lambda>item.
       if ib_State item = InboxInterrupted then returnE ()
       else thenE (guardE (ib_State item = InboxQueued \<or> ib_State item = InboxConsumed) ErrConflict)
         (moveInbox (fst q) (item\<lparr>ib_State := InboxInterrupted, ib_UpdatedAt := UTC stamp\<rparr>) (ib_State item) id))))"

definition interruptInboxItems :: "int \<Rightarrow> InboxID list \<Rightarrow> gotime \<Rightarrow> (db, unit) op" where
  "interruptInboxItems sessionKey ids stamp = forE ids (interruptOne sessionKey stamp)"

end
