(* ===== verification/StoreTurns.thy ===== *)
theory StoreTurns
  imports StoreEvents StoreMessages StoreInbox
begin

text \<open>
  Durable turns: \<open>turns.go\<close>. A turn is admitted with its messages and the inbox items it
  consumes, and is completed, interrupted, resumed or failed under the fence of its run.
\<close>

section \<open>Reading\<close>

definition turnQuery :: "db \<Rightarrow> (turnRow \<times> RunID \<times> ID) list" where
  "turnQuery d = List.map_filter (\<lambda>t.
     case (runByKey d (nw_RunKey t), sessionByKey d (nw_SessionKey t)) of
       (Some r, Some s) \<Rightarrow> Some (t, rw_ID r, sw_ID s) | _ \<Rightarrow> None) (turns d)"

definition decodeTurnRow :: "turnRow \<times> RunID \<times> ID \<Rightarrow> err + Turn" where
  "decodeTurnRow q =
     (let row = fst q; value = nw_Record row in
      if nw_ID row \<noteq> t_ID value \<or> fst (snd q) \<noteq> t_RunID value \<or> snd (snd q) \<noteq> t_SessionID value \<or>
         nw_Ordinal row \<noteq> t_Ordinal value \<or> nw_State row \<noteq> t_State value
      then Inl ErrConflict else Inr value)"

definition turnRowByID :: "TurnID \<Rightarrow> db \<Rightarrow> err + turnRow \<times> RunID \<times> ID" where
  "turnRowByID i d = take1 (filter (\<lambda>q. nw_ID (fst q) = i) (turnQuery d))"

definition GetTurn :: "TurnID \<Rightarrow> db \<Rightarrow> err + Turn" where
  "GetTurn i d = bindS (turnRowByID i d) decodeTurnRow"

definition ListTurns :: "RunID \<Rightarrow> db \<Rightarrow> err + Turn list" where
  "ListTurns runID d =
     bindS (runKeyOf runID d) (\<lambda>k.
       mapS decodeTurnRow (sort_key (\<lambda>q. nw_Ordinal (fst q)) (filter (\<lambda>q. nw_RunKey (fst q) = k) (turnQuery d))))"

section \<open>Admission\<close>

definition nextOrdinal :: "int \<Rightarrow> db \<Rightarrow> int" where
  "nextOrdinal runKey d =
     (case filter (\<lambda>t. nw_RunKey t = runKey) (turns d) of [] \<Rightarrow> 1
      | t # ts \<Rightarrow> foldr max (map nw_Ordinal ts) (nw_Ordinal t) + 1)"

text \<open>The record column: for a plain record (theory \<open>PlainCalls\<close>), what \<open>json.Unmarshal\<close> reads from the stored JSON.\<close>

definition turnRowOf :: "Turn \<Rightarrow> int \<Rightarrow> int \<Rightarrow> int \<Rightarrow> turnRow" where
  "turnRowOf t runKey sessionKey k = \<lparr>nw_RowKey = k, nw_ID = t_ID t, nw_RunKey = runKey, nw_SessionKey = sessionKey,
     nw_Ordinal = t_Ordinal t, nw_State = t_State t, nw_Record = t, nw_CreatedAt = TimeText (t_CreatedAt t)\<rparr>"

definition validateExistingTurn :: "Turn \<Rightarrow> turnRow \<times> RunID \<times> ID \<Rightarrow> err + Turn" where
  "validateExistingTurn t q =
     bindS (decodeTurnRow q) (\<lambda>existing. if \<not> SameRecord Inr existing t then Inl ErrConflict else Inr existing)"

definition createTurn :: "Turn \<Rightarrow> (db, Turn) op" where
  "createTurn t =
     (if t_ID t = [] \<or> t_RunID t = [] \<or> t_SessionID t = [] \<or> t_Ordinal t \<le> 0 \<or> t_State t \<noteq> TurnAdmitted
      then throwE ErrConflict
      else bindE (readE (\<lambda>d. foundS (turnRowByID (t_ID t) d))) (\<lambda>found.
        case found of Some q \<Rightarrow> liftE (validateExistingTurn t q)
        | None \<Rightarrow>
           bindE (readE (\<lambda>d. asConflict (sessionKeyOf (t_SessionID t) d))) (\<lambda>sessionKey.
           bindE (readE (\<lambda>d. asConflict (runKeyOf (t_RunID t) d))) (\<lambda>runKey.
           bindE (askE (ownerCount runKey sessionKey)) (\<lambda>owner.
           thenE (guardE (owner = 1) ErrConflict)
           (bindE (askE (nextOrdinal runKey)) (\<lambda>expected.
           thenE (guardE (t_Ordinal t = expected) ErrConflict)
           (bindE (insertTurn (turnRowOf t runKey sessionKey)) (\<lambda>created.
             if created then returnE t
             else bindE (readE (\<lambda>d. asConflict (turnRowByID (t_ID t) d))) (\<lambda>q. liftE (validateExistingTurn t q)))))))))))"

definition AdmitTurn :: "RunFence \<Rightarrow> AdmitTurnRequest \<Rightarrow> (db, Turn \<times> EventRecord) op" where
  "AdmitTurn fence request =
     (if t_RunID (at_Turn request) \<noteq> f_RunID fence then throwE ErrConflict
      else withFence fence (\<lambda>run.
        thenE (liftE (ValidateAdmitTurn run request))
        (thenE (forE (at_UserMessages request) (\<lambda>m. thenE (appendMessage m) (returnE ())))
        (thenE (forE (at_UserParts request) (\<lambda>p. thenE (appendPart p) (returnE ())))
        (thenE (whenE (m_ID (at_AssistantPlaceholder request) \<noteq> [])
            (thenE (appendMessage (at_AssistantPlaceholder request)) (returnE ())))
        (bindE (createTurn (at_Turn request)) (\<lambda>createdTurn.
         thenE (whenE (at_InboxIDs request \<noteq> [])
            (bindE (readE (sessionKeyOf (r_SessionID run))) (\<lambda>sessionKey.
             bindE (readE (turnKeyOf (t_ID createdTurn))) (\<lambda>turnKey.
               consumeInboxForTurn sessionKey turnKey (t_ID createdTurn) (at_InboxIDs request)
                 (t_CreatedAt (at_Turn request))))))
         (bindE (appendCanonicalEvent (at_Event request)) (\<lambda>event. returnE (createdTurn, event))))))))))"

section \<open>Transitions\<close>

text \<open>The turn a fenced operation works on: it must belong to the fence's run and session.\<close>

definition ownedTurn :: "RunFence \<Rightarrow> Run \<Rightarrow> TurnID \<Rightarrow> db \<Rightarrow> err + turnRow \<times> Turn" where
  "ownedTurn fence run i d =
     bindS (asConflict (turnRowByID i d)) (\<lambda>q.
       bindS (decodeTurnRow q) (\<lambda>current.
         if t_RunID current \<noteq> r_ID run \<or> t_SessionID current \<noteq> r_SessionID run \<or> t_RunID current \<noteq> f_RunID fence
         then Inl ErrConflict else Inr (fst q, current)))"

definition writeTurn :: "turnRow \<Rightarrow> Turn \<Rightarrow> (db, unit) op" where
  "writeTurn row candidate =
     bindE (updateTurns (\<lambda>t. nw_RowKey t = nw_RowKey row) (\<lambda>t. t\<lparr>nw_State := t_State candidate, nw_Record := candidate\<rparr>))
       rowsAffected"

definition CompleteTurn :: "RunFence \<Rightarrow> CompleteTurnRequest \<Rightarrow> (db, Turn \<times> EventRecord) op" where
  "CompleteTurn fence request =
     withFence fence (\<lambda>run.
       bindE (readE (ownedTurn fence run (ct_TurnID request))) (\<lambda>(row, current).
       bindE (liftE (ApplyCompleteTurn current request)) (\<lambda>candidate.
       thenE (writeTurn row candidate)
       (thenE (settleInboxForTurn (nw_RowKey row) [InboxConsumed, InboxInterrupted] InboxCompleted (ev_CreatedAt (ct_Event request)))
       (bindE (appendCanonicalEvent (ct_Event request)) (\<lambda>event. returnE (candidate, event)))))))"

definition InterruptTurn :: "RunFence \<Rightarrow> InterruptTurnRequest \<Rightarrow> (db, Turn \<times> EventRecord) op" where
  "InterruptTurn fence request =
     withFence fence (\<lambda>run.
       bindE (readE (ownedTurn fence run (it_TurnID request))) (\<lambda>(row, current).
       bindE (liftE (ApplyInterruptTurn current request)) (\<lambda>candidate.
       thenE (writeTurn row candidate)
       (thenE (settleInboxForTurn (nw_RowKey row) [InboxConsumed] InboxInterrupted (ev_CreatedAt (it_Event request)))
       (bindE (insertEvent (it_Event request) True) (\<lambda>event. returnE (candidate, event)))))))"

text \<open>A \<open>ReconcileInterruptedTurnRequest\<close> has the fields of an \<open>InterruptTurnRequest\<close>.\<close>

definition ReconcileInterruptedTurn :: "RunFence \<Rightarrow> InterruptTurnRequest \<Rightarrow> (db, Turn \<times> EventRecord) op" where
  "ReconcileInterruptedTurn fence request =
     withFence fence (\<lambda>run.
       bindE (readE (ownedTurn fence run (it_TurnID request))) (\<lambda>(row, current).
       bindE (liftE (ApplyInterruptTurn current request)) (\<lambda>candidate.
       thenE (writeTurn row candidate)
       (thenE (settleInboxForTurn (nw_RowKey row) [InboxConsumed] InboxInterrupted (ev_CreatedAt (it_Event request)))
       (bindE (insertEvent (it_Event request) True) (\<lambda>event. returnE (candidate, event)))))))"

definition failOne :: "gotime \<Rightarrow> turnRow \<times> RunID \<times> ID \<Rightarrow> (db, unit) op" where
  "failOne stamp q =
     bindE (liftE (decodeTurnRow q)) (\<lambda>current.
     bindE (liftE (ApplyFailTurn current stamp)) (\<lambda>candidate.
     thenE (writeTurn (fst q) candidate)
       (settleInboxForTurn (nw_RowKey (fst q)) [InboxConsumed, InboxInterrupted] InboxInterrupted stamp)))"

definition terminalizeResidualTurns :: "int \<Rightarrow> gotime \<Rightarrow> (db, unit) op" where
  "terminalizeResidualTurns runKey stamp =
     bindE (askE (\<lambda>d. filter (\<lambda>q. nw_RunKey (fst q) = runKey \<and>
         nw_State (fst q) \<in> {TurnAdmitted, TurnRunning, TurnInterrupted}) (turnQuery d)))
       (\<lambda>rows. forE rows (failOne stamp))"

definition ResumeInterruptedTurn :: "RunFence \<Rightarrow> ResumeInterruptedTurnRequest \<Rightarrow> (db, Turn) op" where
  "ResumeInterruptedTurn fence request =
     withFence fence (\<lambda>run.
       bindE (readE (ownedTurn fence run (rt_TurnID request))) (\<lambda>(row, current).
       bindE (liftE (ApplyResumeInterruptedTurn current request)) (\<lambda>candidate.
         if t_State candidate = t_State current then returnE candidate
         else thenE (writeTurn row candidate)
           (thenE (settleInboxForTurn (nw_RowKey row) [InboxInterrupted] InboxConsumed (rt_ResumedAt request))
             (returnE candidate)))))"

end
