(* ===== verification/StoreCheckpoints.thy ===== *)
theory StoreCheckpoints
  imports StoreTurns
begin

text \<open>
  Checkpoints and pausing: \<open>checkpoints.go\<close>, and \<open>RepauseRun\<close> of \<open>execution.go\<close>.
  A revision is staged while the run is live; promoting it interrupts the turn, interrupts
  the named inbox items and moves the run to paused in one step. (A nil \<open>Bytes\<close> is taken to
  be an empty one.)
\<close>

section \<open>Reading\<close>

definition checkpointQuery :: "db \<Rightarrow> (checkpointRow \<times> RunID) list" where
  "checkpointQuery d = List.map_filter (\<lambda>c. map_option (\<lambda>r. (c, rw_ID r)) (runByKey d (kw_RunKey c))) (checkpoints d)"

definition decodeCheckpointRow :: "checkpointRow \<times> RunID \<Rightarrow> err + Checkpoint" where
  "decodeCheckpointRow q =
     (let row = fst q; value = kw_Record row in
      if snd q \<noteq> cp_RunID value \<or> kw_Revision row \<noteq> cp_Revision value \<or> kw_Promoted row \<noteq> cp_Promoted value \<or>
         kw_Bytes row \<noteq> cp_Bytes value
      then Inl ErrConflict else Inr value)"

definition checkpointRowByRevision :: "int \<Rightarrow> int \<Rightarrow> db \<Rightarrow> err + checkpointRow \<times> RunID" where
  "checkpointRowByRevision runKey revision d =
     take1 (filter (\<lambda>q. kw_RunKey (fst q) = runKey \<and> kw_Revision (fst q) = revision) (checkpointQuery d))"

text \<open>\<open>ReadPromotedCheckpoint\<close>: \<open>None\<close> when the run is unknown or nothing is promoted.\<close>

definition ReadPromotedCheckpoint :: "RunID \<Rightarrow> db \<Rightarrow> err + Checkpoint option" where
  "ReadPromotedCheckpoint runID d =
     bindS (foundS (runKeyOf runID d)) (\<lambda>found.
       case found of None \<Rightarrow> Inr None
       | Some k \<Rightarrow>
          (case sort_key (\<lambda>q. - kw_Revision (fst q))
             (filter (\<lambda>q. kw_RunKey (fst q) = k \<and> kw_Promoted (fst q)) (checkpointQuery d)) of
             [] \<Rightarrow> Inr None
           | q # _ \<Rightarrow> bindS (decodeCheckpointRow q) (\<lambda>c. Inr (Some c))))"

section \<open>Staging\<close>

definition checkpointRowOf :: "Checkpoint \<Rightarrow> int \<Rightarrow> int \<Rightarrow> checkpointRow" where
  "checkpointRowOf c runKey k = \<lparr>kw_RowKey = k, kw_RunKey = runKey, kw_Revision = cp_Revision c,
     kw_Promoted = cp_Promoted c, kw_Bytes = cp_Bytes c, kw_Record = c, kw_CreatedAt = TimeText (cp_CreatedAt c)\<rparr>"

definition validateExistingCheckpoint :: "Checkpoint \<Rightarrow> checkpointRow \<times> RunID \<Rightarrow> err + Checkpoint" where
  "validateExistingCheckpoint c q =
     bindS (decodeCheckpointRow q) (\<lambda>existing. if \<not> SameRecord Inr existing c then Inl ErrConflict else Inr existing)"

definition createCheckpoint :: "Checkpoint \<Rightarrow> (db, Checkpoint) op" where
  "createCheckpoint c =
     bindE (readE (\<lambda>d. asConflict (runKeyOf (cp_RunID c) d))) (\<lambda>runKey.
     bindE (readE (\<lambda>d. foundS (checkpointRowByRevision runKey (cp_Revision c) d))) (\<lambda>found.
       case found of Some q \<Rightarrow> liftE (validateExistingCheckpoint c q)
       | None \<Rightarrow>
          bindE (insertCheckpoint (checkpointRowOf c runKey)) (\<lambda>created.
            if created then returnE c
            else bindE (readE (\<lambda>d. asConflict (checkpointRowByRevision runKey (cp_Revision c) d)))
              (\<lambda>q. liftE (validateExistingCheckpoint c q)))))"

definition StageCheckpoint :: "RunFence \<Rightarrow> StageCheckpointRequest \<Rightarrow> (db, Checkpoint) op" where
  "StageCheckpoint fence request =
     (if cp_RunID (sc_Checkpoint request) \<noteq> f_RunID fence then throwE ErrConflict
      else withFence fence (\<lambda>run.
        thenE (liftE (ValidateStageCheckpoint run request)) (createCheckpoint (sc_Checkpoint request))))"

section \<open>Pausing\<close>

text \<open>Promoting a staged revision of a run; a promoted one is left alone.\<close>

definition promoteRevision :: "int \<Rightarrow> int \<Rightarrow> (db, Checkpoint) op" where
  "promoteRevision runKey revision =
     bindE (readE (\<lambda>d. asConflict (checkpointRowByRevision runKey revision d))) (\<lambda>q.
     bindE (liftE (decodeCheckpointRow q)) (\<lambda>c.
       if cp_Promoted c then returnE c
       else
         bindE (updateCheckpoints (\<lambda>r. kw_RowKey r = kw_RowKey (fst q) \<and> \<not> kw_Promoted r)
           (\<lambda>r. r\<lparr>kw_Promoted := True, kw_Record := c\<lparr>cp_Promoted := True\<rparr>\<rparr>)) (\<lambda>n.
         thenE (rowsAffected n) (returnE (c\<lparr>cp_Promoted := True\<rparr>)))))"

text \<open>Both pausing operations end the lease and move the run to paused.\<close>

definition pauseRunRow :: "int \<Rightarrow> Run \<Rightarrow> (db, unit) op" where
  "pauseRunRow runKey run =
     bindE (updateRuns (\<lambda>r. rw_RowKey r = runKey \<and> rw_ClaimToken r = r_ClaimToken run \<and> liveStatus (rw_Status r))
       (\<lambda>r. r\<lparr>rw_Status := RunPaused, rw_LeaseUntil := 0, rw_Record := run\<lparr>r_Status := RunPaused\<rparr>\<rparr>))
       rowsAffected"

record PromotePauseResult =
  px_Run :: Run
  px_Turn :: Turn
  px_Checkpoint :: Checkpoint
  px_Event :: EventRecord

definition PromotePause :: "RunFence \<Rightarrow> PromotePauseRequest \<Rightarrow> (db, PromotePauseResult) op" where
  "PromotePause fence request =
     withFence fence (\<lambda>run.
       thenE (liftE (ValidatePromotePause run request))
       (bindE (readE (runKeyOf (r_ID run))) (\<lambda>runKey.
        bindE (promoteRevision runKey (pq_Revision request)) (\<lambda>checkpoint.
        bindE (readE (\<lambda>d. asConflict (turnRowByID (pq_TurnID request) d))) (\<lambda>q.
        bindE (liftE (decodeTurnRow q)) (\<lambda>currentTurn.
        thenE (guardE (t_RunID currentTurn = r_ID run \<and> t_SessionID currentTurn = r_SessionID run) ErrConflict)
        (bindE (liftE (ApplyInterruptTurn currentTurn \<lparr>it_TurnID = pq_TurnID request, it_Event = pq_Event request\<rparr>)) (\<lambda>interruptedTurn.
        thenE (writeTurn (fst q) interruptedTurn)
        (bindE (readE (sessionKeyOf (r_SessionID run))) (\<lambda>sessionKey.
        thenE (interruptInboxItems sessionKey (pq_InboxIDs request) (ev_CreatedAt (pq_Event request)))
        (thenE (pauseRunRow runKey run)
        (bindE (readE (getRun (r_ID run))) (\<lambda>finalRun.
         bindE (appendCanonicalEvent (pq_Event request)) (\<lambda>event.
           returnE \<lparr>px_Run = finalRun, px_Turn = interruptedTurn, px_Checkpoint = checkpoint, px_Event = event\<rparr>))))))))))))))"

definition RepauseRun :: "RunFence \<Rightarrow> RepauseRunRequest \<Rightarrow> (db, RepauseRunResult) op" where
  "RepauseRun fence request =
     withFence fence (\<lambda>run.
       thenE (liftE (ValidateRepauseRun run request))
       (bindE (readE (runKeyOf (r_ID run))) (\<lambda>runKey.
        thenE (whenE (0 < rq_PromoteRevision request)
          (thenE (promoteRevision runKey (rq_PromoteRevision request)) (returnE ())))
        (thenE (pauseRunRow runKey run)
        (bindE (readE (getRun (r_ID run))) (\<lambda>finalRun.
         bindE (appendCanonicalEvent (rq_Event request)) (\<lambda>event.
           returnE \<lparr>rx_Run = finalRun, rx_Event = event\<rparr>)))))))"

section \<open>Retiring\<close>

definition deleteCheckpointsUpTo :: "int \<Rightarrow> int \<Rightarrow> (db, unit) op" where
  "deleteCheckpointsUpTo runKey upTo =
     modifyE (checkpoints_update (filter (\<lambda>c. \<not> (kw_RunKey c = runKey \<and> kw_Revision c \<le> upTo))))"

definition RetireCheckpoints :: "RunFence \<Rightarrow> int \<Rightarrow> (db, unit) op" where
  "RetireCheckpoints fence upTo =
     (if upTo \<le> 0 then throwE ErrConflict
      else withFence fence (\<lambda>run.
        bindE (readE (runKeyOf (r_ID run))) (\<lambda>runKey. deleteCheckpointsUpTo runKey upTo)))"

definition RetireRunCheckpoints :: "RunID \<Rightarrow> int \<Rightarrow> (db, unit) op" where
  "RetireRunCheckpoints runID upTo =
     (if upTo \<le> 0 then throwE ErrConflict
      else atomicE (bindE (readE (\<lambda>d. asConflict (getRun runID d))) (\<lambda>run.
        thenE (guardE (Terminal run) ErrConflict)
        (bindE (readE (runKeyOf runID)) (\<lambda>runKey. deleteCheckpointsUpTo runKey upTo)))))"

end
