(* ===== verification/StoreTools.thy ===== *)
theory StoreTools
  imports StoreEvents StoreMessages
begin

text \<open>
  Tool calls: \<open>tool_calls.go\<close>. A call is created pending with its request part, claimed by one
  worker and settled with its result message and part.
\<close>

section \<open>Reading\<close>

text \<open>The rows a tool call is joined with: its session and run ids, request message and request part.\<close>

record toolJoin =
  tj_SessionID :: ID
  tj_RunID :: RunID
  tj_Message :: messageRow
  tj_Part :: partRow

definition toolCallQuery :: "db \<Rightarrow> (toolCallRow \<times> toolJoin) list" where
  "toolCallQuery d = List.map_filter (\<lambda>t.
     case (sessionByKey d (tw_SessionKey t), runByKey d (tw_RunKey t),
           messageByKey d (tw_RequestMessageKey t), partByKey d (tw_RequestPartKey t)) of
       (Some s, Some r, Some m, Some p) \<Rightarrow>
         Some (t, \<lparr>tj_SessionID = sw_ID s, tj_RunID = rw_ID r, tj_Message = m, tj_Part = p\<rparr>)
     | _ \<Rightarrow> None) (tool_calls d)"

definition decodeToolCallRow :: "toolCallRow \<times> toolJoin \<Rightarrow> err + ToolCall" where
  "decodeToolCallRow q =
     (let row = fst q; j = snd q; m = tj_Message j; p = tj_Part j; value = tw_Record row in
      if tw_ID row \<noteq> tc_ID value \<or>
         (tj_SessionID j \<noteq> [] \<and> tj_SessionID j \<noteq> tc_SessionID value) \<or>
         (tj_RunID j \<noteq> [] \<and> tj_RunID j \<noteq> tc_RunID value) \<or>
         (mw_ID m \<noteq> [] \<and> mw_ID m \<noteq> tc_MessageID value) \<or>
         (pw_ID p \<noteq> [] \<and> pw_ID p \<noteq> tc_RequestPartID value) \<or>
         (mw_SessionKey m \<noteq> 0 \<and> (mw_SessionKey m \<noteq> tw_SessionKey row \<or> mw_RunKey m \<noteq> tw_RunKey row)) \<or>
         (pw_MessageKey p \<noteq> 0 \<and> (pw_MessageKey p \<noteq> tw_RequestMessageKey row \<or>
            pw_SessionKey p \<noteq> tw_SessionKey row \<or> pw_RunKey p \<noteq> tw_RunKey row)) \<or>
         tw_ResultMessageID row \<noteq> tc_ResultMessageID value \<or> tw_ResultPartID row \<noteq> tc_ResultPartID value \<or>
         tw_Status row \<noteq> tc_Status value \<or> tw_Name row \<noteq> tc_Name value \<or>
         tw_ClaimedBy row \<noteq> tc_ClaimedBy value \<or> tw_ClaimToken row \<noteq> tc_ClaimToken value
      then Inl ErrConflict else Inr value)"

definition GetToolCall :: "ToolCallID \<Rightarrow> db \<Rightarrow> err + ToolCall" where
  "GetToolCall i d =
     bindS (take1 (filter (\<lambda>q. tw_ID (fst q) = i) (toolCallQuery d))) (\<lambda>q.
       bindS (decodeToolCallRow q) (\<lambda>value.
         if tj_SessionID (snd q) \<noteq> tc_SessionID value \<or> tj_RunID (snd q) \<noteq> tc_RunID value \<or> tc_MessageID value = []
         then Inl ErrConflict else Inr value))"

definition unfinishedTool :: "ToolCallStatus \<Rightarrow> bool" where
  "unfinishedTool s \<longleftrightarrow> s = ToolCallPending \<or> s = ToolCallRunning"

text \<open>In the order the model declared the calls: by request message, position and creation.\<close>

definition ListUnfinishedToolCalls :: "RunID \<Rightarrow> db \<Rightarrow> err + ToolCall list" where
  "ListUnfinishedToolCalls runID d =
     bindS (runKeyOf runID d) (\<lambda>k.
       mapS decodeToolCallRow
         (sort_key (\<lambda>q. (mw_RowKey (tj_Message (snd q)), pw_Ordinal (tj_Part (snd q)), tw_RowKey (fst q)))
           (filter (\<lambda>q. tw_RunKey (fst q) = k \<and> unfinishedTool (tw_Status (fst q))) (toolCallQuery d))))"

section \<open>Creation\<close>

definition toolRowOf :: "ToolCall \<Rightarrow> ToolCall \<Rightarrow> int \<Rightarrow> int \<Rightarrow> int \<Rightarrow> int \<Rightarrow> int \<Rightarrow> toolCallRow" where
  "toolRowOf record stored sessionKey runKey messageKey partKey k = \<lparr>tw_RowKey = k, tw_ID = tc_ID record,
     tw_SessionKey = sessionKey, tw_RunKey = runKey, tw_RequestMessageKey = messageKey, tw_RequestPartKey = partKey,
     tw_ResultMessageID = tc_ResultMessageID record, tw_ResultPartID = tc_ResultPartID record,
     tw_Status = tc_Status record, tw_Name = tc_Name record, tw_ClaimedBy = tc_ClaimedBy record,
     tw_ClaimToken = tc_ClaimToken record, tw_Record = stored\<rparr>"

definition createToolCall :: "ToolCall \<Rightarrow> (db, ToolCall) op" where
  "createToolCall record =
     (if tc_ID record = [] \<or> tc_SessionID record = [] \<or> tc_RunID record = [] \<or> tc_MessageID record = [] \<or>
         tc_RequestPartID record = [] \<or> tc_Name record = [] \<or> tc_Status record \<noteq> ToolCallPending
      then throwE ErrConflict
      else
       bindE (liftE (marshalToolCall record)) (\<lambda>stored.
       bindE (readE (\<lambda>d. asConflict (sessionKeyOf (tc_SessionID record) d))) (\<lambda>sessionKey.
       bindE (readE (\<lambda>d. asConflict (runKeyOf (tc_RunID record) d))) (\<lambda>runKey.
       bindE (readE (\<lambda>d. asConflict (messageKeyOf (tc_MessageID record) d))) (\<lambda>messageKey.
       bindE (readE (\<lambda>d. asConflict (partKeyOf (tc_RequestPartID record) d))) (\<lambda>partKey.
       bindE (askE (ownerCount runKey sessionKey)) (\<lambda>owners.
       thenE (guardE (owners = 1) ErrConflict)
       (bindE (askE (\<lambda>d. countWhere (\<lambda>m. mw_RowKey m = messageKey \<and> mw_SessionKey m = sessionKey \<and> mw_RunKey m = runKey) (messages d))) (\<lambda>ms.
       thenE (guardE (ms = 1) ErrConflict)
       (bindE (askE (\<lambda>d. countWhere (\<lambda>p. pw_RowKey p = partKey \<and> pw_MessageKey p = messageKey \<and> pw_SessionKey p = sessionKey \<and>
           pw_RunKey p = runKey \<and> pw_Kind p = PartFunctionToolCall) (parts d))) (\<lambda>ps.
       thenE (guardE (ps = 1) ErrConflict)
       (bindE (insertTool (toolRowOf record stored sessionKey runKey messageKey partKey)) (\<lambda>created.
         if created then returnE record
         else bindE (readE (\<lambda>d. foundS (GetToolCall (tc_ID record) d))) (\<lambda>existing.
           case existing of None \<Rightarrow> throwE ErrConflict
           | Some e \<Rightarrow> if SameRecord marshalToolCall e record then returnE e else throwE ErrConflict))))))))))))))"

section \<open>Claiming and settling\<close>

definition claimToolCall :: "ToolCall \<Rightarrow> (db, ToolCall) op" where
  "claimToolCall record =
     bindE (readE (\<lambda>d. asConflict (GetToolCall (tc_ID record) d))) (\<lambda>current.
       if TerminalToolCall (tc_Status current) \<or> tc_ClaimedBy current \<noteq> [] then
         (if SameToolTransitionState current record then returnE current else throwE ErrConflict)
       else if tc_Status current \<noteq> ToolCallPending \<or> tc_Status record \<noteq> ToolCallRunning then throwE ErrConflict
       else
        bindE (liftE (marshalToolCall record)) (\<lambda>stored.
        bindE (readE (toolKeyOf (tc_ID record))) (\<lambda>toolKey.
        bindE (updateTools (\<lambda>t. tw_RowKey t = toolKey \<and> tw_Status t = ToolCallPending \<and> tw_ClaimedBy t = [] \<and> tw_ClaimToken t = [])
          (\<lambda>t. t\<lparr>tw_Status := tc_Status record, tw_ClaimedBy := tc_ClaimedBy record, tw_ClaimToken := tc_ClaimToken record,
             tw_Record := stored\<rparr>)) (\<lambda>n.
          if n = 0 then
            bindE (readE (GetToolCall (tc_ID record))) (\<lambda>latest.
              if SameToolTransitionState latest record then returnE latest else throwE ErrConflict)
          else returnE record))))"

definition finishToolCall :: "ToolCall \<Rightarrow> (db, unit) op" where
  "finishToolCall record =
     (if \<not> TerminalToolCall (tc_Status record) \<or> tc_ClaimedBy record = [] \<or> tc_ClaimToken record = []
      then throwE ErrConflict
      else
       bindE (readE (GetToolCall (tc_ID record))) (\<lambda>current.
         if TerminalToolCall (tc_Status current) then
           (if SameRecord marshalToolCall current record then returnE () else throwE ErrConflict)
         else if tc_ClaimedBy current \<noteq> tc_ClaimedBy record \<or> tc_ClaimToken current \<noteq> tc_ClaimToken record
         then throwE ErrConflict
         else
          bindE (liftE (marshalToolCall record)) (\<lambda>stored.
          bindE (readE (toolKeyOf (tc_ID record))) (\<lambda>toolKey.
          bindE (updateTools (\<lambda>t. tw_RowKey t = toolKey \<and> tw_ClaimedBy t = tc_ClaimedBy record \<and>
              tw_ClaimToken t = tc_ClaimToken record \<and> unfinishedTool (tw_Status t))
            (\<lambda>t. t\<lparr>tw_Status := tc_Status record, tw_ClaimedBy := tc_ClaimedBy record, tw_ClaimToken := tc_ClaimToken record,
               tw_Record := stored\<rparr>)) (\<lambda>n.
            if n = 0 then
              bindE (readE (GetToolCall (tc_ID record))) (\<lambda>latest.
                if TerminalToolCall (tc_Status latest) \<and> SameRecord marshalToolCall latest record then returnE ()
                else throwE ErrConflict)
            else returnE ())))))"

definition settleToolCall :: "libs \<Rightarrow> ToolSettlement \<Rightarrow> (db, unit) op" where
  "settleToolCall L settlement =
     bindE (readE (GetToolCall (ts_ID settlement))) (\<lambda>call.
     thenE (guardE (ValidToolResultEnvelope L call settlement) ErrConflict)
     (bindE (liftE (ApplySettlement call settlement)) (\<lambda>settled.
     thenE (guardE (\<not> (TerminalToolCall (tc_Status call) \<and> \<not> SameRecord marshalToolCall call settled)) ErrConflict)
     (thenE (appendMessage (ts_ResultMessage settlement))
     (thenE (appendPart (ts_ResultPart settlement))
       (finishToolCall settled))))))"

section \<open>Fenced operations\<close>

definition CreateToolCall :: "libs \<Rightarrow> RunFence \<Rightarrow> CreateToolCallRequest \<Rightarrow> (db, ToolTransitionResult) op" where
  "CreateToolCall L fence request =
     (let call = cq_Call request in
      if tc_RunID call \<noteq> f_RunID fence then throwE ErrConflict
      else withFence fence (\<lambda>run.
        thenE (guardE (tc_SessionID call = r_SessionID run \<and> ValidToolRequestEnvelope L call (cq_RequestPart request)) ErrConflict)
        (case ToolTransitionRecord call (cq_Event request) of Inl e \<Rightarrow> throwE ErrConflict
         | Inr event \<Rightarrow>
            thenE (guardE (ev_ToolTransition event = ToolTransitionPending) ErrConflict)
            (thenE (appendPart (cq_RequestPart request))
            (thenE (createToolCall call)
            (bindE (appendCanonicalEvent event) (\<lambda>stored.
             bindE (readE (GetToolCall (tc_ID call))) (\<lambda>c. returnE \<lparr>tr_Call = c, tr_Event = stored\<rparr>))))))))"

definition ClaimToolCall :: "int \<Rightarrow> RunFence \<Rightarrow> ClaimToolCallRequest \<Rightarrow> (db, ToolTransitionResult) op" where
  "ClaimToolCall now fence request =
     (if kq_ID request = [] \<or> kq_ClaimedBy request = [] \<or> kq_ClaimToken request = [] \<or>
         IsZero (kq_StartedAt request) \<or> kq_LeaseDuration request \<le> 0
      then throwE ErrConflict
      else withFence fence (\<lambda>run.
        bindE (readE (\<lambda>d. asConflict (GetToolCall (kq_ID request) d))) (\<lambda>current.
        thenE (guardE (tc_RunID current = f_RunID fence \<and> tc_SessionID current = r_SessionID run) ErrConflict)
        (let candidate = current\<lparr>tc_Status := ToolCallRunning, tc_ClaimedBy := kq_ClaimedBy request,
               tc_ClaimToken := kq_ClaimToken request, tc_StartedAt := UTC (kq_StartedAt request), tc_CompletedAt := zeroTime\<rparr>
         in case ToolTransitionRecord candidate (kq_Event request) of Inl e \<Rightarrow> throwE ErrConflict
         | Inr event \<Rightarrow>
            thenE (guardE (ev_ToolTransition event = ToolTransitionRunning) ErrConflict)
            (if tc_Status current = ToolCallRunning then
               thenE (guardE (SameToolTransitionState current candidate) ErrConflict)
               (bindE (appendCanonicalEvent event) (\<lambda>stored. returnE \<lparr>tr_Call = current, tr_Event = stored\<rparr>))
             else
               thenE (guardE (tc_Status current = ToolCallPending \<and> tc_ClaimedBy current = [] \<and> tc_ClaimToken current = []) ErrConflict)
               (thenE (renewRunLease now fence (kq_LeaseDuration request))
               (bindE (readE (getRun (f_RunID fence))) (\<lambda>leasedRun.
                thenE (claimToolCall (candidate\<lparr>tc_LeaseUntil := r_LeaseUntil leasedRun\<rparr>))
                (bindE (appendCanonicalEvent event) (\<lambda>stored.
                 bindE (readE (GetToolCall (kq_ID request))) (\<lambda>c. returnE \<lparr>tr_Call = c, tr_Event = stored\<rparr>)))))))))))"

definition SettleToolCall :: "libs \<Rightarrow> RunFence \<Rightarrow> SettleToolCallRequest \<Rightarrow> (db, ToolTransitionResult) op" where
  "SettleToolCall L fence request =
     withFence fence (\<lambda>run.
       bindE (readE (\<lambda>d. asConflict (GetToolCall (ts_ID (sq_Settlement request)) d))) (\<lambda>call.
       thenE (guardE (tc_RunID call = f_RunID fence \<and> tc_SessionID call = r_SessionID run) ErrConflict)
       (bindE (liftE (ApplySettlement call (sq_Settlement request))) (\<lambda>settled.
         case ToolTransitionRecord settled (sq_Event request) of Inl e \<Rightarrow> throwE ErrConflict
         | Inr event \<Rightarrow>
            thenE (guardE (ev_ToolTransition event = ToolTransitionTerminal) ErrConflict)
            (thenE (settleToolCall L (sq_Settlement request))
            (bindE (appendCanonicalEvent event) (\<lambda>stored.
             bindE (readE (GetToolCall (tc_ID settled))) (\<lambda>c. returnE \<lparr>tr_Call = c, tr_Event = stored\<rparr>))))))))"

end
