(* ===== verification/StoreRequests.thy ===== *)
theory StoreRequests
  imports StoreMessages
begin

text \<open>
  The remaining per-run records: context epochs (\<open>context_epochs.go\<close>), model requests
  (\<open>model_requests.go\<close>, \<open>records.go\<close>), admission receipts (\<open>admissions.go\<close>) and session
  titles (\<open>title.go\<close>).
\<close>

section \<open>Context epochs\<close>

definition contextEpochQuery :: "db \<Rightarrow> (contextEpochRow \<times> ID) list" where
  "contextEpochQuery d = List.map_filter (\<lambda>e. map_option (\<lambda>s. (e, sw_ID s)) (sessionByKey d (ew_SessionKey e))) (context_epochs d)"

definition contextEpochRowByID :: "EpochID \<Rightarrow> db \<Rightarrow> err + contextEpochRow \<times> ID" where
  "contextEpochRowByID i d = take1 (filter (\<lambda>q. ew_ID (fst q) = i) (contextEpochQuery d))"

definition contextEpochRowMatches :: "contextEpochRow \<times> ID \<Rightarrow> ContextEpoch \<Rightarrow> bool" where
  "contextEpochRowMatches q record \<longleftrightarrow> ew_ID (fst q) = ce_ID record \<and> snd q = ce_SessionID record \<and>
     TimeText (ce_CreatedAt record) = ew_CreatedAt (fst q) \<and> TimeText (ce_ClosedAt record) = ew_ClosedAt (fst q)"

definition epochRowOf :: "ContextEpoch \<Rightarrow> int \<Rightarrow> int \<Rightarrow> contextEpochRow" where
  "epochRowOf record sessionKey k = \<lparr>ew_RowKey = k, ew_ID = ce_ID record, ew_SessionKey = sessionKey, ew_Record = record,
     ew_CreatedAt = TimeText (ce_CreatedAt record), ew_ClosedAt = TimeText (ce_ClosedAt record)\<rparr>"

definition validateExistingEpoch :: "ContextEpoch \<Rightarrow> int \<Rightarrow> contextEpochRow \<times> ID \<Rightarrow> err + ContextEpoch" where
  "validateExistingEpoch record sessionKey q =
     (let existing = ew_Record (fst q) in
      if \<not> contextEpochRowMatches q existing \<or> ew_SessionKey (fst q) \<noteq> sessionKey then Inl ErrConflict
      else if \<not> SameRecord Inr existing record then Inl ErrConflict else Inr existing)"

definition startContextEpoch :: "ContextEpoch \<Rightarrow> (db, ContextEpoch) op" where
  "startContextEpoch record =
     bindE (readE (sessionKeyOf (ce_SessionID record))) (\<lambda>sessionKey.
     bindE (readE (\<lambda>d. foundS (contextEpochRowByID (ce_ID record) d))) (\<lambda>found.
       case found of Some q \<Rightarrow> liftE (validateExistingEpoch record sessionKey q)
       | None \<Rightarrow>
          bindE (insertEpoch (epochRowOf record sessionKey)) (\<lambda>created.
            if created then returnE record
            else bindE (readE (contextEpochRowByID (ce_ID record))) (\<lambda>q. liftE (validateExistingEpoch record sessionKey q)))))"

definition finishContextEpoch :: "ContextEpoch \<Rightarrow> (db, unit) op" where
  "finishContextEpoch record =
     bindE (readE (sessionKeyOf (ce_SessionID record))) (\<lambda>sessionKey.
     bindE (updateEpochs (\<lambda>e. ew_ID e = ce_ID record \<and> ew_SessionKey e = sessionKey)
       (\<lambda>e. e\<lparr>ew_Record := record, ew_ClosedAt := TimeText (ce_ClosedAt record), ew_CreatedAt := TimeText (ce_CreatedAt record)\<rparr>))
       rowsAffected)"

definition ListContextEpochs :: "ID \<Rightarrow> db \<Rightarrow> err + ContextEpoch list" where
  "ListContextEpochs sessionID d =
     bindS (sessionKeyOf sessionID d) (\<lambda>k.
       mapS (\<lambda>q. if \<not> contextEpochRowMatches q (ew_Record (fst q)) then Inl ErrConflict else Inr (ew_Record (fst q)))
         (sort_key (\<lambda>q. (ew_CreatedAt (fst q), ew_ID (fst q)))
           (filter (\<lambda>q. ew_SessionKey (fst q) = k) (contextEpochQuery d))))"

section \<open>Model requests\<close>

definition maxModelRequestRecordBytes :: int where "maxModelRequestRecordBytes = 4 * 2 ^ 20"

definition modelRequestStateText :: "ModelRequestState \<Rightarrow> string" where
  "modelRequestStateText s = (case s of ModelRequestPrepared \<Rightarrow> ''prepared''
     | ModelRequestDispatchStarted \<Rightarrow> ''dispatch_started'' | ModelRequestCompleted \<Rightarrow> ''completed''
     | ModelRequestFailed \<Rightarrow> ''failed'' | ModelRequestStateOther t \<Rightarrow> t)"

text \<open>The length of the JSON of a stored request, whose raw fields are already written out.\<close>

definition modelRequestBytes :: "ModelRequestRecord \<Rightarrow> int" where
  "modelRequestBytes q =
     (let raw = (\<lambda>r. case jraw r of None \<Rightarrow> JNull | Some v \<Rightarrow> v) in
      int (length (emit (JObj [(''ID'', jstr (mr_ID q)), (''SessionID'', jstr (mr_SessionID q)), (''RunID'', jstr (mr_RunID q)),
        (''AssistantMessageID'', jstr (mr_AssistantMessageID q)), (''InvocationID'', jstr (mr_InvocationID q)),
        (''TurnID'', jstr (mr_TurnID q)), (''AgentPath'', jstr (mr_AgentPath q)), (''Attempt'', jint (mr_Attempt q)),
        (''Step'', jint (mr_Step q)), (''ProviderID'', jstr (mr_ProviderID q)), (''ModelID'', jstr (mr_ModelID q)),
        (''State'', jstr (modelRequestStateText (mr_State q))), (''Messages'', raw (mr_Messages q)),
        (''System'', jstr (mr_System q)), (''Tools'', raw (mr_Tools q)), (''Controls'', raw (mr_Controls q)),
        (''SafeCallConfig'', raw (mr_SafeCallConfig q)), (''ContentSHA256'', jstr (mr_ContentSHA256 q)),
        (''ExtensionPlanHash'', jstr (mr_ExtensionPlanHash q)), (''ErrorCode'', jstr (mr_ErrorCode q)),
        (''CreatedAt'', jstr (rfc3339Nano (mr_CreatedAt q))), (''UpdatedAt'', jstr (rfc3339Nano (mr_UpdatedAt q)))]))))"

definition modelRequestQuery :: "db \<Rightarrow> (modelRequestRow \<times> ID \<times> RunID) list" where
  "modelRequestQuery d = List.map_filter (\<lambda>q.
     case (sessionByKey d (qw_SessionKey q), runByKey d (qw_RunKey q)) of
       (Some s, Some r) \<Rightarrow> if rw_SessionKey r = qw_SessionKey q then Some (q, sw_ID s, rw_ID r) else None
     | _ \<Rightarrow> None) (model_requests d)"

definition modelRequestRowByID :: "ModelRequestID \<Rightarrow> db \<Rightarrow> err + modelRequestRow \<times> ID \<times> RunID" where
  "modelRequestRowByID i d = take1 (filter (\<lambda>q. qw_ID (fst q) = i) (modelRequestQuery d))"

definition modelRequestRowMatches :: "modelRequestRow \<times> ID \<times> RunID \<Rightarrow> ModelRequestRecord \<Rightarrow> bool" where
  "modelRequestRowMatches q record \<longleftrightarrow>
     qw_ID (fst q) = mr_ID record \<and> fst (snd q) = mr_SessionID record \<and> snd (snd q) = mr_RunID record \<and>
     qw_AssistantMessageID (fst q) = mr_AssistantMessageID record \<and> qw_InvocationID (fst q) = mr_InvocationID record \<and>
     qw_State (fst q) = mr_State record \<and> qw_Attempt (fst q) = mr_Attempt record \<and> qw_Step (fst q) = mr_Step record \<and>
     TimeText (mr_CreatedAt record) = qw_CreatedAt (fst q)"

definition decodeModelRequest :: "modelRequestRow \<times> ID \<times> RunID \<Rightarrow> err + ModelRequestRecord" where
  "decodeModelRequest q =
     (if maxModelRequestRecordBytes < modelRequestBytes (qw_Record (fst q)) then Inl ErrModelRequestTooLarge
      else Inr (qw_Record (fst q)))"

definition modelRequestRecordFromRow :: "modelRequestRow \<times> ID \<times> RunID \<Rightarrow> ModelRequestID \<Rightarrow> err + ModelRequestRecord" where
  "modelRequestRecordFromRow q i =
     bindS (decodeModelRequest q) (\<lambda>record.
       if \<not> modelRequestRowMatches q record \<or> mr_ID record \<noteq> i then Inl ErrConflict else Inr record)"

definition modelRequestOwnerKeys :: "ID \<Rightarrow> RunID \<Rightarrow> db \<Rightarrow> err + int \<times> int" where
  "modelRequestOwnerKeys sessionID runID d =
     bindS (sessionKeyOf sessionID d) (\<lambda>sessionKey.
     bindS (runKeyOf runID d) (\<lambda>runKey.
       case runByKey d runKey of None \<Rightarrow> Inl ErrNotFound
       | Some owner \<Rightarrow> if rw_SessionKey owner \<noteq> sessionKey then Inl ErrConflict else Inr (sessionKey, runKey)))"

definition SameModelRequestIdentity :: "ModelRequestRecord \<Rightarrow> ModelRequestRecord \<Rightarrow> bool" where
  "SameModelRequestIdentity l r =
     SameRecord marshalModelRequest
       (l\<lparr>mr_State := ModelRequestStateOther [], mr_ErrorCode := [], mr_UpdatedAt := zeroTime\<rparr>)
       (r\<lparr>mr_State := ModelRequestStateOther [], mr_ErrorCode := [], mr_UpdatedAt := zeroTime\<rparr>)"

definition validateExistingRequest :: "ModelRequestRecord \<Rightarrow> int \<times> int \<Rightarrow> modelRequestRow \<times> ID \<times> RunID \<Rightarrow> err + ModelRequestRecord" where
  "validateExistingRequest record keys q =
     bindS (modelRequestRecordFromRow q (mr_ID record)) (\<lambda>existing.
       if (qw_SessionKey (fst q), qw_RunKey (fst q)) \<noteq> keys then Inl ErrConflict
       else if \<not> SameRecord marshalModelRequest existing record then Inl ErrConflict else Inr existing)"

definition modelRequestRowOf :: "ModelRequestRecord \<Rightarrow> ModelRequestRecord \<Rightarrow> int \<times> int \<Rightarrow> int \<Rightarrow> modelRequestRow" where
  "modelRequestRowOf record stored keys k = \<lparr>qw_RowKey = k, qw_ID = mr_ID record, qw_SessionKey = fst keys,
     qw_RunKey = snd keys, qw_AssistantMessageID = mr_AssistantMessageID record, qw_InvocationID = mr_InvocationID record,
     qw_State = mr_State record, qw_Attempt = mr_Attempt record, qw_Step = mr_Step record, qw_Record = stored,
     qw_CreatedAt = TimeText (mr_CreatedAt record)\<rparr>"

definition createModelRequest :: "ModelRequestRecord \<Rightarrow> (db, ModelRequestRecord) op" where
  "createModelRequest record =
     (if mr_ID record = [] \<or> mr_RunID record = [] \<or> mr_InvocationID record = [] \<or> mr_State record \<noteq> ModelRequestPrepared
      then throwE ErrConflict
      else
       bindE (readE (modelRequestOwnerKeys (mr_SessionID record) (mr_RunID record))) (\<lambda>keys.
       bindE (readE (\<lambda>d. foundS (modelRequestRowByID (mr_ID record) d))) (\<lambda>found.
         case found of Some q \<Rightarrow> liftE (validateExistingRequest record keys q)
         | None \<Rightarrow>
            bindE (liftE (marshalModelRequest record)) (\<lambda>stored.
            thenE (guardE (modelRequestBytes stored \<le> maxModelRequestRecordBytes) ErrModelRequestTooLarge)
            (bindE (insertModelRequest (modelRequestRowOf record stored keys)) (\<lambda>created.
              if created then returnE record
              else bindE (readE (\<lambda>d. asConflict (modelRequestRowByID (mr_ID record) d)))
                (\<lambda>q. liftE (validateExistingRequest record keys q))))))))"

definition updateModelRequest :: "ModelRequestRecord \<Rightarrow> (db, unit) op" where
  "updateModelRequest record =
     bindE (readE (modelRequestOwnerKeys (mr_SessionID record) (mr_RunID record))) (\<lambda>keys.
     bindE (readE (modelRequestRowByID (mr_ID record))) (\<lambda>q.
     thenE (guardE ((qw_SessionKey (fst q), qw_RunKey (fst q)) = keys) ErrConflict)
     (bindE (liftE (modelRequestRecordFromRow q (mr_ID record))) (\<lambda>current.
     thenE (guardE (SameModelRequestIdentity current record) ErrConflict)
     (if mr_State current = mr_State record then guardE (SameRecord marshalModelRequest current record) ErrConflict
      else
       thenE (guardE (ValidModelRequestTransition (mr_State current) (mr_State record)) ErrConflict)
       (bindE (liftE (marshalModelRequest record)) (\<lambda>stored.
        thenE (guardE (modelRequestBytes stored \<le> maxModelRequestRecordBytes) ErrModelRequestTooLarge)
        (bindE (updateModelRequests (\<lambda>r. qw_ID r = mr_ID record \<and> qw_State r = mr_State current)
          (\<lambda>r. r\<lparr>qw_State := mr_State record, qw_Record := stored\<rparr>)) rowsAffected))))))))"

definition GetModelRequest :: "ModelRequestID \<Rightarrow> db \<Rightarrow> err + ModelRequestRecord" where
  "GetModelRequest i d = bindS (modelRequestRowByID i d) (\<lambda>q. modelRequestRecordFromRow q i)"

record ModelRequestCursor =
  qcu_AfterID :: ModelRequestID
  qcu_Limit :: int

record ModelRequestBatch =
  qb_Records :: "ModelRequestRecord list"
  qb_Next :: ModelRequestCursor

definition requestOrder :: "modelRequestRow \<times> ID \<times> RunID \<Rightarrow> string \<times> string" where
  "requestOrder q = (qw_CreatedAt (fst q), qw_ID (fst q))"

definition ListModelRequests :: "RunID \<Rightarrow> ModelRequestCursor \<Rightarrow> db \<Rightarrow> err + ModelRequestBatch" where
  "ListModelRequests runID cursor d =
     (let limit = (if qcu_Limit cursor \<le> 0 then 100 else nat (qcu_Limit cursor)) in
      bindS (runKeyOf runID d) (\<lambda>k.
      bindS (if qcu_AfterID cursor = [] then Inr (\<lambda>q. True)
             else bindS (modelRequestRowByID (qcu_AfterID cursor) d) (\<lambda>after.
               if qw_RunKey (fst after) \<noteq> k then Inl ErrNotFound
               else Inr (\<lambda>q. (qw_CreatedAt (fst after), qcu_AfterID cursor) < requestOrder q)))
        (\<lambda>beyond.
      bindS (mapS (\<lambda>q. bindS (decodeModelRequest q) (\<lambda>record.
            if \<not> modelRequestRowMatches q record then Inl ErrConflict else Inr record))
          (take (limit + 1) (sort_key requestOrder
            (filter (\<lambda>q. qw_RunKey (fst q) = k \<and> beyond q) (modelRequestQuery d))))) (\<lambda>records.
        if limit < length records
        then Inr \<lparr>qb_Records = take limit records,
               qb_Next = \<lparr>qcu_AfterID = mr_ID (records ! (limit - 1)), qcu_Limit = int limit\<rparr>\<rparr>
        else Inr \<lparr>qb_Records = records, qb_Next = \<lparr>qcu_AfterID = [], qcu_Limit = 0\<rparr>\<rparr>))))"

section \<open>Admission receipts\<close>

text \<open>The joins of \<open>admission\<close>: session, run of that session, and the user and assistant
  messages of that run.\<close>

definition admissionQuery :: "db \<Rightarrow> (admissionRow \<times> ID \<times> runRow \<times> messageRow \<times> messageRow) list" where
  "admissionQuery d = List.map_filter (\<lambda>a.
     case (sessionByKey d (aw_SessionKey a), runByKey d (aw_RunKey a),
           messageByKey d (aw_UserMessageKey a), messageByKey d (aw_AssistantMessageKey a)) of
       (Some s, Some r, Some u, Some m) \<Rightarrow>
         if rw_SessionKey r = aw_SessionKey a \<and>
            mw_SessionKey u = aw_SessionKey a \<and> mw_RunKey u = aw_RunKey a \<and> mw_Role u = RoleUser \<and>
            mw_SessionKey m = aw_SessionKey a \<and> mw_RunKey m = aw_RunKey a \<and> mw_Role m = RoleAssistant
         then Some (a, sw_ID s, r, u, m) else None
     | _ \<Rightarrow> None) (admission_receipts d)"

definition admission :: "ID \<Rightarrow> string \<Rightarrow> db \<Rightarrow> err + AdmissionRecord" where
  "admission sessionID key d =
     bindS (take1 (filter (\<lambda>(a, sid, r, u, m). sessionKeyOf sessionID d = Inr (aw_SessionKey a) \<and> aw_AdmissionKey a = key)
         (admissionQuery d))) (\<lambda>(a, sid, r, u, m).
       case DiscoveryTime (aw_CreatedAt a) of None \<Rightarrow> Inl ErrAdmissionStore
       | Some createdAt \<Rightarrow>
          if length (aw_Fingerprint a) \<noteq> 32 then Inl ErrAdmissionStore
          else
           (let record = \<lparr>ad_Receipt = \<lparr>a_SessionID = sid, a_Key = aw_AdmissionKey a, a_RunID = rw_ID r,
                  a_UserMessageID = mw_ID u, a_AssistantMessageID = mw_ID m, a_CreatedAt = createdAt\<rparr>,
                ad_FingerprintVersion = aw_FingerprintVersion a, ad_Fingerprint = aw_Fingerprint a,
                ad_RunStatus = rw_Status r\<rparr>
            in case ValidateAdmissionRecord record of Inl e \<Rightarrow> Inl ErrAdmissionStore | Inr v \<Rightarrow> Inr record))"

text \<open>\<open>LookupAdmission\<close> reads committed state only, \<open>GetAdmission\<close> only inside the
  admission transaction: \<open>inTx\<close> says whether the store is bound to one.\<close>

definition LookupAdmission :: "bool \<Rightarrow> ID \<Rightarrow> string \<Rightarrow> db \<Rightarrow> err + AdmissionRecord" where
  "LookupAdmission inTx sessionID key d =
     (if inTx then Inl ErrAdmissionStore
      else if ValidateAdmissionKey key \<noteq> Inr () \<or> sessionID = [] then Inl ErrAdmissionInvalid
      else admission sessionID key d)"

definition GetAdmission :: "bool \<Rightarrow> ID \<Rightarrow> string \<Rightarrow> db \<Rightarrow> err + AdmissionRecord" where
  "GetAdmission inTx sessionID key d =
     (if \<not> inTx then Inl ErrAdmissionStore
      else if ValidateAdmissionKey key \<noteq> Inr () \<or> sessionID = [] then Inl ErrAdmissionInvalid
      else admission sessionID key d)"

definition LockAdmissionSession :: "bool \<Rightarrow> Session \<Rightarrow> (db, Session) op" where
  "LockAdmissionSession inTx candidate =
     (if \<not> inTx then throwE ErrAdmissionStore
      else if s_ID candidate = [] \<or> \<not> validSessionProjection candidate then throwE ErrAdmissionInvalid
      else
       bindE (readE (\<lambda>d. foundS (sessionRowByID (s_ID candidate) d))) (\<lambda>found.
       bindE (case found of Some row \<Rightarrow> returnE row
              | None \<Rightarrow> thenE (insertSession (sessionRowOf candidate)) (readE (sessionRowByID (s_ID candidate)))) (\<lambda>row.
         if \<not> sessionRowMatches row (sw_Record row) \<or> s_ID (sw_Record row) \<noteq> s_ID candidate
         then throwE ErrAdmissionStore else returnE (sw_Record row))))"

definition RecordAdmission :: "RunFence \<Rightarrow> AdmissionRecord \<Rightarrow> (db, unit) op" where
  "RecordAdmission fence record =
     thenE (liftE (ValidateAdmissionRecord record))
     (withFence fence (\<lambda>run.
       let r = ad_Receipt record in
       thenE (guardE (a_SessionID r = r_SessionID run \<and> a_RunID r = r_ID run \<and> r_Status run = RunPending) ErrAdmissionInvalid)
       (bindE (readE (sessionKeyOf (a_SessionID r))) (\<lambda>sessionKey.
        bindE (readE (runKeyOf (a_RunID r))) (\<lambda>runKey.
        bindE (readE (messageRowByID (a_UserMessageID r))) (\<lambda>user.
        bindE (readE (messageRowByID (a_AssistantMessageID r))) (\<lambda>assistant.
        thenE (guardE (mw_SessionKey user = sessionKey \<and> mw_RunKey user = runKey \<and> mw_Role user = RoleUser \<and>
            mw_SessionKey assistant = sessionKey \<and> mw_RunKey assistant = runKey \<and> mw_Role assistant = RoleAssistant)
          ErrAdmissionInvalid)
        (bindE (mapErrE (\<lambda>e. if e = ErrConflict then ErrAdmissionConflict else e)
          (insertAdmission (\<lambda>k. \<lparr>aw_RowKey = k, aw_SessionKey = sessionKey, aw_AdmissionKey = a_Key r, aw_RunKey = runKey,
             aw_UserMessageKey = mw_RowKey user, aw_AssistantMessageKey = mw_RowKey assistant,
             aw_FingerprintVersion = ad_FingerprintVersion record, aw_Fingerprint = ad_Fingerprint record,
             aw_CreatedAt = TimeText (a_CreatedAt r)\<rparr>)))
          (\<lambda>created. guardE created ErrAdmissionConflict)))))))))"

section \<open>Titles\<close>

definition setSessionTitleLocked :: "int \<Rightarrow> SessionTitleRequest \<Rightarrow> (db, SessionTitleResult) op" where
  "setSessionTitleLocked now request =
     bindE (readE (sessionRowByID (st_SessionID request))) (\<lambda>row.
       let record = sw_Record row in
       thenE (guardE (sessionRowMatches row record \<and> s_ID record = st_SessionID request) ErrSessionTitleStore)
       (thenE (guardE (s_WorkspaceID record = st_WorkspaceID request) ErrConflict)
       (if s_Title record = st_Title request
        then returnE \<lparr>sx_Title = s_Title record, sx_UpdatedAt = s_UpdatedAt record, sx_Changed = False\<rparr>
        else
         (let clock = unixMicro now;
              updatedAt = (if AfterTime (s_UpdatedAt record) clock then UTC (s_UpdatedAt record) else clock);
              changed = record\<lparr>s_Title := st_Title request, s_UpdatedAt := updatedAt\<rparr> in
          thenE (guardE (yearInRange updatedAt) ErrSessionTitleStore)
          (bindE (updateSessions (\<lambda>s. sw_RowKey s = sw_RowKey row)
             (\<lambda>s. s\<lparr>sw_Record := changed, sw_Title := s_Title changed, sw_UpdatedAt := TimeText updatedAt\<rparr>)) (\<lambda>n.
           thenE (guardE (n \<noteq> 0) ErrSessionTitleStore)
             (returnE \<lparr>sx_Title = s_Title changed, sx_UpdatedAt = updatedAt, sx_Changed = True\<rparr>)))))))"

definition titleError :: "bool \<Rightarrow> err \<Rightarrow> err" where
  "titleError manual e =
     (if e = ErrSessionTitleInvalid then ErrSessionTitleInvalid
      else if e = ErrConflict then ErrConflict
      else if manual \<and> e = ErrNotFound then ErrNotFound
      else ErrSessionTitleStore)"

definition SetSessionTitle :: "int \<Rightarrow> SessionTitleRequest \<Rightarrow> (db, SessionTitleResult) op" where
  "SetSessionTitle now request =
     thenE (liftE (ValidateTitleRequest request))
       (mapErrE (titleError True) (atomicE (setSessionTitleLocked now request)))"

definition SetSessionTitleFenced :: "int \<Rightarrow> RunFence \<Rightarrow> SessionTitleRequest \<Rightarrow> (db, SessionTitleResult) op" where
  "SetSessionTitleFenced now fence request =
     thenE (liftE (ValidateTitleRequest request))
       (mapErrE (titleError False) (withFence fence (\<lambda>run.
          thenE (guardE (r_SessionID run = st_SessionID request) ErrConflict) (setSessionTitleLocked now request))))"

end
