(* ===== verification/Execution.thy ===== *)
theory Execution
  imports StoreCheckpoints StoreTools StoreRequests
begin

text \<open>
  The fenced execution store: \<open>execution.go\<close>. Every operation runs in a savepoint, loads the
  run its fence names and refuses to write when the token is not the run's or the run is no
  longer pending or running; \<open>SettleRun\<close> alone accepts a terminal run, to answer a
  repeated settlement. The datatype \<open>call\<close> lists every operation of the store that writes,
  and \<open>exec\<close> performs one.
\<close>

section \<open>Run lifecycle\<close>

definition StartRun :: "RunFence \<Rightarrow> gotime \<Rightarrow> (db, Run) op" where
  "StartRun fence startedAt =
     (if IsZero startedAt then throwE ErrConflict
      else withFence fence (\<lambda>current.
        thenE (writeRun (current\<lparr>r_Status := RunRunning, r_StartedAt := UTC startedAt\<rparr>))
          (readE (getRun (f_RunID fence)))))"

definition RenewRunLease :: "int \<Rightarrow> RunFence \<Rightarrow> int \<Rightarrow> (db, Run) op" where
  "RenewRunLease now fence leaseDuration =
     (if leaseDuration \<le> 0 then throwE ErrConflict
      else withFence fence (\<lambda>run.
        thenE (renewRunLease now fence leaseDuration) (readE (getRun (f_RunID fence)))))"

text \<open>A repeated settlement: the durable run and event must be the ones it asks for.\<close>

definition replaySettlement :: "SettleRunRequest \<Rightarrow> Run \<Rightarrow> int \<Rightarrow> db \<Rightarrow> err + RunSettlementResult" where
  "replaySettlement request current runKey d =
     (if r_Status current \<noteq> rs_Status (sr_Settlement request) \<or>
         \<not> EqualTime (r_FinishedAt current) (UTC (rs_FinishedAt (sr_Settlement request))) \<or>
         r_Error current \<noteq> rs_Error (sr_Settlement request)
      then Inl ErrConflict
      else bindS (RunSettlementRecord current (sr_Event request)) (\<lambda>expected.
        case eventByRunFinished runKey (ev_Kind expected) d of Inl e \<Rightarrow> Inl ErrConflict
        | Inr existing \<Rightarrow>
           if \<not> SameRecord marshalEvent existing expected then Inl ErrConflict
           else Inr \<lparr>rr_Run = current, rr_Event = existing\<rparr>))"

definition SettleRun :: "RunFence \<Rightarrow> SettleRunRequest \<Rightarrow> (db, RunSettlementResult) op" where
  "SettleRun fence request =
     (if re_ID (sr_Event request) = [] \<or> IsZero (rs_FinishedAt (sr_Settlement request)) then throwE ErrConflict
      else withFenceState fence True (\<lambda>current.
        bindE (readE (runKeyOf (r_ID current))) (\<lambda>runKey.
        bindE (askE (\<lambda>d. countWhere (\<lambda>t. tw_RunKey t = runKey \<and> unfinishedTool (tw_Status t)) (tool_calls d))) (\<lambda>unfinished.
        thenE (guardE (unfinished = 0) ErrConflict)
        (if Terminal current then readE (replaySettlement request current runKey)
         else
          thenE (whenE (rs_Status (sr_Settlement request) = RunCompleted)
            (bindE (readE (sessionKeyOf (r_SessionID current))) (\<lambda>sessionKey.
             bindE (askE (\<lambda>d. countWhere (\<lambda>i. iw_SessionKey i = sessionKey \<and> iw_State i = InboxQueued) (inbox d))) (\<lambda>queued.
               guardE (queued = 0) ErrRunHasQueuedInput))))
          (bindE (liftE (ApplyRunSettlement current (sr_Settlement request))) (\<lambda>canonicalRun.
           bindE (liftE (RunSettlementRecord canonicalRun (sr_Event request))) (\<lambda>canonicalEvent.
           thenE (writeRun canonicalRun)
           (thenE (terminalizeResidualTurns runKey (r_FinishedAt canonicalRun))
           (bindE (appendCanonicalEvent canonicalEvent) (\<lambda>event.
             returnE \<lparr>rr_Run = canonicalRun, rr_Event = event\<rparr>)))))))))))"

section \<open>Messages, parts and events\<close>

definition AppendMessage :: "RunFence \<Rightarrow> Message \<Rightarrow> (db, Message) op" where
  "AppendMessage fence record =
     (if m_RunID record \<noteq> f_RunID fence then throwE ErrConflict
      else withFence fence (\<lambda>run.
        thenE (guardE (m_SessionID record = r_SessionID run) ErrConflict) (appendMessage record)))"

definition FinalizeAssistantMessage :: "RunFence \<Rightarrow> MessageID \<Rightarrow> (db, unit) op" where
  "FinalizeAssistantMessage fence i =
     withFence fence (\<lambda>run.
       bindE (readE (sessionKeyOf (r_SessionID run))) (\<lambda>sessionKey.
       bindE (readE (runKeyOf (r_ID run))) (\<lambda>runKey.
       bindE (updateMessages (\<lambda>m. mw_ID m = i \<and> mw_SessionKey m = sessionKey \<and> mw_RunKey m = runKey \<and> mw_Role m = RoleAssistant)
         (\<lambda>m. m\<lparr>mw_Finalized := True\<rparr>)) rowsAffected)))"

definition AppendPart :: "RunFence \<Rightarrow> Part \<Rightarrow> (db, Part) op" where
  "AppendPart fence record =
     (if p_Kind record = PartFunctionToolCall \<or> p_Kind record = PartFunctionToolResult \<or>
         p_Kind record = PartToolSearchResult \<or> p_RunID record \<noteq> f_RunID fence
      then throwE ErrConflict
      else withFence fence (\<lambda>run.
        thenE (guardE (p_SessionID record = r_SessionID run) ErrConflict) (appendPart record)))"

definition UpdatePart :: "RunFence \<Rightarrow> Part \<Rightarrow> (db, unit) op" where
  "UpdatePart fence record =
     (if p_RunID record \<noteq> f_RunID fence then throwE ErrConflict
      else withFence fence (\<lambda>run.
        thenE (guardE (p_SessionID record = r_SessionID run) ErrConflict) (updatePart record)))"

definition AppendEvent :: "RunFence \<Rightarrow> EventRecord \<Rightarrow> (db, EventRecord) op" where
  "AppendEvent fence record =
     (if ev_RunID record \<noteq> f_RunID fence \<or> canonicalOnlyEventKinds (ev_Kind record) \<or>
         ev_ToolTransition record \<noteq> ToolTransitionNone \<or>
         (ev_Kind record = ToolTransitionEventKind \<and> ev_ToolCallID record \<noteq> [])
      then throwE ErrConflict
      else withFence fence (\<lambda>run.
        thenE (guardE (ev_SessionID record = r_SessionID run) ErrConflict) (appendEvent record)))"

section \<open>Context epochs and model requests\<close>

definition StartContextEpoch :: "RunFence \<Rightarrow> ContextEpoch \<Rightarrow> (db, ContextEpoch) op" where
  "StartContextEpoch fence record =
     withFence fence (\<lambda>run.
       thenE (guardE (ce_SessionID record = r_SessionID run) ErrConflict) (startContextEpoch record))"

definition FinishContextEpoch :: "RunFence \<Rightarrow> ContextEpoch \<Rightarrow> (db, unit) op" where
  "FinishContextEpoch fence record =
     withFence fence (\<lambda>run.
       thenE (guardE (ce_SessionID record = r_SessionID run) ErrConflict) (finishContextEpoch record))"

definition CreateModelRequest :: "RunFence \<Rightarrow> ModelRequestRecord \<Rightarrow> (db, ModelRequestRecord) op" where
  "CreateModelRequest fence record =
     (if mr_RunID record \<noteq> f_RunID fence then throwE ErrConflict
      else withFence fence (\<lambda>run.
        thenE (guardE (mr_SessionID record = r_SessionID run) ErrConflict) (createModelRequest record)))"

definition UpdateModelRequest :: "RunFence \<Rightarrow> ModelRequestRecord \<Rightarrow> (db, unit) op" where
  "UpdateModelRequest fence record =
     (if mr_RunID record \<noteq> f_RunID fence then throwE ErrConflict
      else withFence fence (\<lambda>run.
        thenE (guardE (mr_SessionID record = r_SessionID run) ErrConflict) (updateModelRequest record)))"

section \<open>Calls\<close>

text \<open>The operations under a fence.\<close>

datatype fencedCall =
    CStartRun gotime
  | CRepauseRun RepauseRunRequest
  | CRenewRunLease int int
  | CSettleRun SettleRunRequest
  | CAppendMessage Message
  | CRecordAdmission AdmissionRecord
  | CFinalizeAssistantMessage MessageID
  | CAppendPart Part
  | CUpdatePart Part
  | CAppendEvent EventRecord
  | CCreateToolCall CreateToolCallRequest
  | CClaimToolCall int ClaimToolCallRequest
  | CSettleToolCall SettleToolCallRequest
  | CStartContextEpoch ContextEpoch
  | CFinishContextEpoch ContextEpoch
  | CCreateModelRequest ModelRequestRecord
  | CUpdateModelRequest ModelRequestRecord
  | CAdmitTurn AdmitTurnRequest
  | CCompleteTurn CompleteTurnRequest
  | CInterruptTurn InterruptTurnRequest
  | CReconcileInterruptedTurn InterruptTurnRequest
  | CResumeInterruptedTurn ResumeInterruptedTurnRequest
  | CStageCheckpoint StageCheckpointRequest
  | CPromotePause PromotePauseRequest
  | CRetireCheckpoints int
  | CSetSessionTitleFenced int SessionTitleRequest

datatype call =
    CCreateSession Session
  | CUpdateSession Session
  | CAdmitRun int Run int
  | CClaimRun int RunClaim
  | CEnqueueInbox InboxItem ContentLimits
  | CEnqueueInboxForRun RunID InboxItem ContentLimits
  | CRetireRunCheckpoints RunID int
  | CLockAdmissionSession Session
  | CSetSessionTitle int SessionTitleRequest
  | CFenced RunFence fencedCall

text \<open>What a call does to the database, and its error if it fails.\<close>

definition unitE :: "(db, 'a) op \<Rightarrow> (db, unit) op" where
  "unitE m = bindE m (\<lambda>_. returnE ())"

fun fencedOp :: "libs \<Rightarrow> RunFence \<Rightarrow> fencedCall \<Rightarrow> (db, unit) op" where
  "fencedOp L f (CStartRun t) = unitE (StartRun f t)"
| "fencedOp L f (CRepauseRun q) = unitE (RepauseRun f q)"
| "fencedOp L f (CRenewRunLease now d) = unitE (RenewRunLease now f d)"
| "fencedOp L f (CSettleRun q) = unitE (SettleRun f q)"
| "fencedOp L f (CAppendMessage m) = unitE (AppendMessage f m)"
| "fencedOp L f (CRecordAdmission a) = unitE (RecordAdmission f a)"
| "fencedOp L f (CFinalizeAssistantMessage i) = unitE (FinalizeAssistantMessage f i)"
| "fencedOp L f (CAppendPart p) = unitE (AppendPart f p)"
| "fencedOp L f (CUpdatePart p) = unitE (UpdatePart f p)"
| "fencedOp L f (CAppendEvent e) = unitE (AppendEvent f e)"
| "fencedOp L f (CCreateToolCall q) = unitE (CreateToolCall L f q)"
| "fencedOp L f (CClaimToolCall now q) = unitE (ClaimToolCall now f q)"
| "fencedOp L f (CSettleToolCall q) = unitE (SettleToolCall L f q)"
| "fencedOp L f (CStartContextEpoch e) = unitE (StartContextEpoch f e)"
| "fencedOp L f (CFinishContextEpoch e) = unitE (FinishContextEpoch f e)"
| "fencedOp L f (CCreateModelRequest q) = unitE (CreateModelRequest f q)"
| "fencedOp L f (CUpdateModelRequest q) = unitE (UpdateModelRequest f q)"
| "fencedOp L f (CAdmitTurn q) = unitE (AdmitTurn f q)"
| "fencedOp L f (CCompleteTurn q) = unitE (CompleteTurn f q)"
| "fencedOp L f (CInterruptTurn q) = unitE (InterruptTurn f q)"
| "fencedOp L f (CReconcileInterruptedTurn q) = unitE (ReconcileInterruptedTurn f q)"
| "fencedOp L f (CResumeInterruptedTurn q) = unitE (ResumeInterruptedTurn f q)"
| "fencedOp L f (CStageCheckpoint q) = unitE (StageCheckpoint f q)"
| "fencedOp L f (CPromotePause q) = unitE (PromotePause f q)"
| "fencedOp L f (CRetireCheckpoints n) = unitE (RetireCheckpoints f n)"
| "fencedOp L f (CSetSessionTitleFenced now q) = unitE (SetSessionTitleFenced now f q)"

fun callOp :: "libs \<Rightarrow> call \<Rightarrow> (db, unit) op" where
  "callOp L (CCreateSession s) = unitE (CreateSession s)"
| "callOp L (CUpdateSession s) = unitE (UpdateSession s)"
| "callOp L (CAdmitRun now r d) = unitE (AdmitRun now r d)"
| "callOp L (CClaimRun now c) = unitE (ClaimRun now c)"
| "callOp L (CEnqueueInbox i l) = unitE (EnqueueInbox L i l)"
| "callOp L (CEnqueueInboxForRun r i l) = unitE (EnqueueInboxForRun L r i l)"
| "callOp L (CRetireRunCheckpoints r n) = unitE (RetireRunCheckpoints r n)"
| "callOp L (CLockAdmissionSession s) = unitE (atomicE (LockAdmissionSession True s))"
| "callOp L (CSetSessionTitle now q) = unitE (SetSessionTitle now q)"
| "callOp L (CFenced f c) = fencedOp L f c"

definition exec :: "libs \<Rightarrow> call \<Rightarrow> db \<Rightarrow> db" where
  "exec L c d = snd (callOp L c d)"

section \<open>Transactions\<close>

text \<open>
  \<open>Store.WithinTx\<close> (\<open>transaction.go\<close>). The body makes calls, each in a savepoint; it may give up at the first error or catch it and
  go on. How the transaction ends is up to the connection: the commit is acknowledged; it is given up with an error (the context is done, the
  body returns an error of its own, a savepoint could not be cleaned up, the commit was refused) and rolled back; or its
  acknowledgement is lost, or closing the connection fails after it, and the error is marked as one whose outcome is unknown: the data may
  be stored or not. An operation of the store outside of a transaction is a transaction of one call.
\<close>

datatype txEnd = Acknowledged | GivenUp err | AcknowledgementLost bool

definition commitE :: "txEnd \<Rightarrow> (db, 'a) op \<Rightarrow> (db, 'a) op" where
  "commitE ending m d =
     (case m d of (Inl e, t) \<Rightarrow> (Inl e, d)
      | (Inr x, t) \<Rightarrow>
         (case ending of Acknowledged \<Rightarrow> (Inr x, t)
          | GivenUp e \<Rightarrow> (Inl e, d)
          | AcknowledgementLost stored \<Rightarrow> (Inl ErrTransactionOutcomeUnknown, if stored then t else d)))"

definition caughtE :: "(db, unit) op \<Rightarrow> (db, unit) op" where
  "caughtE m d = (Inr (), snd (m d))"

definition txBody :: "libs \<Rightarrow> (call \<times> bool) list \<Rightarrow> (db, unit) op" where
  "txBody L cs = forE cs (\<lambda>(c, caught). if caught then caughtE (callOp L c) else callOp L c)"

definition withinTx :: "libs \<Rightarrow> txEnd \<Rightarrow> (call \<times> bool) list \<Rightarrow> (db, unit) op" where
  "withinTx L ending cs = commitE ending (txBody L cs)"

text \<open>The databases calls and transactions can produce from an empty one.\<close>

inductive reachable :: "libs \<Rightarrow> db \<Rightarrow> bool" for L where
  start: "reachable L emptyDb"
| step: "reachable L d \<Longrightarrow> reachable L (exec L c d)"
| tx: "reachable L d \<Longrightarrow> reachable L (snd (withinTx L ending cs d))"

end
