(* ===== verification/Results.thy ===== *)
theory Results
  imports Main
begin

text \<open>
  Results that carry a component's own errors: sequencing, loops that stop at the first error, and
  the facts about them that the component proofs share.
\<close>

definition bindP :: "'e + 'x \<Rightarrow> ('x \<Rightarrow> 'e + 'y) \<Rightarrow> 'e + 'y" where
  "bindP r f = (case r of Inl e \<Rightarrow> Inl e | Inr x \<Rightarrow> f x)"

lemma bindP_simps [simp]: "bindP (Inl e) f = Inl e" "bindP (Inr x) f = f x"
  by (simp_all add: bindP_def)

lemma bindP_Inr: "bindP r f = Inr y \<longleftrightarrow> (\<exists>x. r = Inr x \<and> f x = Inr y)"
  by (cases r) simp_all

text \<open>\<open>for _, x := range xs { s, err = f(s, x) }\<close>\<close>

fun foldP :: "('s \<Rightarrow> 'a \<Rightarrow> 'e + 's) \<Rightarrow> 's \<Rightarrow> 'a list \<Rightarrow> 'e + 's" where
  "foldP f s [] = Inr s"
| "foldP f s (x # xs) = bindP (f s x) (\<lambda>t. foldP f t xs)"

lemma foldP_append: "foldP f s (xs @ ys) = bindP (foldP f s xs) (\<lambda>t. foldP f t ys)"
  by (induction xs arbitrary: s) (auto simp: bindP_def split: sum.split)

lemma foldP_cong: "(\<And>s x. x \<in> set xs \<Longrightarrow> f s x = g s x) \<Longrightarrow> foldP f s xs = foldP g s xs"
  by (induction xs arbitrary: s) (simp_all add: bindP_def split: sum.split)

lemma foldP_map: "foldP f s (map h xs) = foldP (\<lambda>s x. f s (h x)) s xs"
  by (induction xs arbitrary: s) simp_all

text \<open>What every step keeps holds at the end.\<close>

lemma foldP_keeps:
  assumes "foldP f s xs = Inr t" and "I s" and "\<And>s x u. x \<in> set xs \<Longrightarrow> I s \<Longrightarrow> f s x = Inr u \<Longrightarrow> I u"
  shows "I t"
  using assms by (induction xs arbitrary: s) (auto simp: bindP_Inr)

text \<open>An error type changed on the way out (\<open>fmt.Errorf("...: %w", err)\<close>).\<close>

definition wrapP :: "('e \<Rightarrow> 'f) \<Rightarrow> 'e + 'a \<Rightarrow> 'f + 'a" where
  "wrapP w r = (case r of Inl e \<Rightarrow> Inl (w e) | Inr x \<Rightarrow> Inr x)"

lemma wrapP_simps [simp]: "wrapP w (Inl e) = Inl (w e)" "wrapP w (Inr x) = Inr x"
  by (simp_all add: wrapP_def)

lemma wrapP_Inr [simp]: "wrapP w r = Inr x \<longleftrightarrow> r = Inr x"
  by (cases r) simp_all

end
