(* ===== verification/Paging.thy ===== *)
theory Paging
  imports Main "HOL-Library.Multiset"
begin

text \<open>
  Reading a listing page by page, as every client of the store's list operations does: fetch the
  page at a cursor, use it, go on with the page's next cursor until it is zero. Nothing in the code bounds
  the number of pages, so \<open>drain\<close> is a partial function whose value is \<open>None\<close> when the loop never ends.
\<close>

partial_function (option) drain :: "('c \<Rightarrow> 'e + 'p) \<Rightarrow> ('p \<Rightarrow> 'c option) \<Rightarrow> ('s \<Rightarrow> 'p \<Rightarrow> 'e + 's) \<Rightarrow> 's \<Rightarrow> 'c \<Rightarrow> ('e + 's) option" where
  "drain fetch next_cursor consume s c =
     (case fetch c of Inl e \<Rightarrow> Some (Inl e)
      | Inr page \<Rightarrow> (case consume s page of Inl e \<Rightarrow> Some (Inl e)
         | Inr t \<Rightarrow> (case next_cursor page of None \<Rightarrow> Some (Inr t)
            | Some c' \<Rightarrow> drain fetch next_cursor consume t c')))"

declare drain.simps [code]

text \<open>
  A listing behaves: the cursor of position \<open>i\<close> gives the \<open>psize\<close> items from there, and the next cursor is
  that of the position behind them, as long as there are more.
\<close>

definition pagesOf :: "('c \<Rightarrow> 'e + 'p) \<Rightarrow> ('p \<Rightarrow> 'c option) \<Rightarrow> ('p \<Rightarrow> 'v list) \<Rightarrow> (nat \<Rightarrow> 'c) \<Rightarrow> nat \<Rightarrow> 'v list \<Rightarrow> bool" where
  "pagesOf fetch next_cursor items cursorAt psize all \<longleftrightarrow> 0 < psize \<and>
     (\<forall>i \<le> length all. \<forall>p. fetch (cursorAt i) = Inr p \<longrightarrow> items p = take psize (drop i all) \<and>
        next_cursor p = (if i + psize < length all then Some (cursorAt (i + psize)) else None))"

text \<open>The loop over such a listing ends, what holds of every prefix it used holds of the whole listing at the end,
  and it succeeds when no page fails.\<close>

lemma drain_rule:
  assumes pages: "pagesOf fetch next_cursor items cursorAt psize all"
    and step: "\<And>i s p t. \<lbrakk>i \<le> length all; I i s; fetch (cursorAt i) = Inr p; items p = take psize (drop i all); consume s p = Inr t\<rbrakk> \<Longrightarrow>
      I (min (i + psize) (length all)) t"
    and i: "i \<le> length all" and "I i s"
  shows "\<exists>r. drain fetch next_cursor consume s (cursorAt i) = Some r \<and> (\<forall>t. r = Inr t \<longrightarrow> I (length all) t) \<and>
    ((\<forall>i \<le> length all. \<forall>s. I i s \<longrightarrow> (\<exists>p t. fetch (cursorAt i) = Inr p \<and> consume s p = Inr t)) \<longrightarrow> (\<exists>t. r = Inr t))"
  using i \<open>I i s\<close>
proof (induction "length all - i" arbitrary: i s rule: less_induct)
  case less
  show ?case
  proof (cases "fetch (cursorAt i)")
    case (Inr p)
    with pages less.prems(1) have p: "items p = take psize (drop i all)" "0 < psize"
        "next_cursor p = (if i + psize < length all then Some (cursorAt (i + psize)) else None)"
      by (auto simp: pagesOf_def)
    show ?thesis
    proof (cases "consume s p")
      case (Inr t)
      with step less.prems \<open>fetch (cursorAt i) = Inr p\<close> p(1) have t: "I (min (i + psize) (length all)) t" by blast
      show ?thesis
      proof (cases "i + psize < length all")
        case True
        then show ?thesis using t p(2) less.hyps [of "i + psize" t] \<open>fetch (cursorAt i) = Inr p\<close> Inr p(3) True by (subst drain.simps) simp
      next
        case False
        then show ?thesis using \<open>fetch (cursorAt i) = Inr p\<close> Inr p(3) t by (subst drain.simps) simp
      qed
    qed (use Inr less.prems in \<open>subst drain.simps, fastforce\<close>)
  qed (use less.prems in \<open>subst drain.simps, fastforce\<close>)
qed

section \<open>Keyset pagination\<close>

text \<open>Listings are ordered by a key with no ties: what lies beyond an element is what follows it.\<close>

lemma strictly_sorted:
  fixes k :: "'a \<Rightarrow> 'k::linorder"
  assumes "distinct (map k xs)"
  shows "sorted_wrt (\<lambda>x y. k x < k y) (sort_key k xs)"
proof -
  have "mset (map k (sort_key k xs)) = mset (map k xs)" by simp
  then have "distinct (map k (sort_key k xs))" using assms mset_eq_imp_distinct_iff by blast
  then have "sorted_wrt (<) (map k (sort_key k xs))" by (simp add: strict_sorted_iff)
  then show ?thesis by (simp add: sorted_wrt_map)
qed

lemma filter_beyond:
  fixes k :: "'a \<Rightarrow> 'k::linorder"
  assumes "sorted_wrt (\<lambda>x y. k x < k y) xs" "i < length xs"
  shows "filter (\<lambda>x. k (xs ! i) < k x) xs = drop (Suc i) xs"
proof -
  have "\<not> k (xs ! i) < k (xs ! j)" if "j \<le> i" for j
    using assms that by (cases "j = i") (auto simp: sorted_wrt_iff_nth_less dest: order.asym)
  then have "\<forall>x \<in> set (take (Suc i) xs). \<not> k (xs ! i) < k x" using assms(2)
    by (auto simp: in_set_conv_nth less_Suc_eq)
  moreover have "\<forall>x \<in> set (drop (Suc i) xs). k (xs ! i) < k x"
    using assms by (auto simp: in_set_conv_nth sorted_wrt_iff_nth_less)
  ultimately have "filter (\<lambda>x. k (xs ! i) < k x) (take (Suc i) xs) = []" "filter (\<lambda>x. k (xs ! i) < k x) (drop (Suc i) xs) = drop (Suc i) xs"
    by (simp_all add: filter_empty_conv)
  then show ?thesis by (metis append_Nil append_take_drop_id filter_append)
qed

lemma map_insort_key: "map g (insort_key (\<lambda>x. f (g x)) x xs) = insort_key f (g x) (map g xs)"
  by (induction xs) simp_all

lemma map_sort_key: "map g (sort_key (\<lambda>x. f (g x)) xs) = sort_key f (map g xs)"
  by (induction xs) (simp_all add: map_insort_key)

end
