(* ===== verification/History.thy ===== *)
theory History
  imports Envelopes StoreMessages Execution Results Paging
begin

text \<open>
  What the model sees of a session: \<open>session/history\<close> (the projection of stored messages and parts into
  messages for a provider) and \<open>session/compaction\<close> (the records of a compaction summary). The message types of
  the eino library are represented by the fields the code sets; \<open>schema.ToolMessage\<close> is a constructor.
\<close>

datatype histErr = HStore err | ErrClassicUnsupported | ErrMixedContentKinds | HPayload | HMissingPayload
  | HUnexpectedBlock | HUnsupportedKind | HUnsupportedRole | HRequired

section \<open>Options\<close>

record Options =
  op_IncludeReasoning :: bool
  op_Epoch :: "ContextEpoch option"
  op_ContentLimits :: ContentLimits

definition contentLimits :: "Options \<Rightarrow> ContentLimits" where
  "contentLimits o1 =
     (if op_ContentLimits o1 = \<lparr>cl_MaxMessageBytes = 0, cl_MaxBlocks = 0, cl_MaxBlockBytes = 0\<rparr> then DefaultContentLimits
      else op_ContentLimits o1)"

section \<open>Epochs\<close>

definition ResolveReplayPartOwners :: "Part list \<Rightarrow> MessageID list \<Rightarrow> err + MessageID list" where
  "ResolveReplayPartOwners ps owners =
     (if owners \<noteq> [] \<and> length owners \<noteq> length ps then Inl ErrConflict
      else if owners \<noteq> [] then Inr owners
      else Inr (map p_MessageID ps))"

text \<open>The three loops that choose messages: each appends a message unless its id is already included.\<close>

definition includeMessage :: "Message list \<times> MessageID set \<Rightarrow> Message \<Rightarrow> Message list \<times> MessageID set" where
  "includeMessage s m = (case s of (ms, inc) \<Rightarrow> if m_ID m \<in> inc then (ms, inc) else (ms @ [m], insert (m_ID m) inc))"

text \<open>The leading system messages.\<close>

fun systemPrefix :: "Message list \<times> MessageID set \<Rightarrow> Message list \<Rightarrow> Message list \<times> MessageID set" where
  "systemPrefix s [] = s"
| "systemPrefix s (m # ms) = (if m_Role m \<noteq> RoleSystem then s else systemPrefix (includeMessage s m) ms)"

text \<open>The tail: everything from the anchor on, the anchor itself left out when it is the summary.\<close>

fun tailLoop :: "MessageID \<Rightarrow> MessageID \<Rightarrow> bool \<Rightarrow> Message list \<times> MessageID set \<Rightarrow> Message list \<Rightarrow> Message list \<times> MessageID set" where
  "tailLoop anchor summary started s [] = s"
| "tailLoop anchor summary started s (m # ms) =
     (if m_ID m = anchor \<and> anchor = summary then tailLoop anchor summary True s ms
      else let started' = (started \<or> m_ID m = anchor) in
        tailLoop anchor summary started' (if started' then includeMessage s m else s) ms)"

text \<open>\<open>byID\<close>, in which a later message of the same id replaces an earlier one.\<close>

definition messageByIDIn :: "Message list \<Rightarrow> MessageID \<Rightarrow> Message option" where
  "messageByIDIn ms i = List.find (\<lambda>m. m_ID m = i) (rev ms)"

definition applyEpoch :: "ReplayBatch \<Rightarrow> ContextEpoch option \<Rightarrow> err + ReplayBatch" where
  "applyEpoch batch epoch =
     (case epoch of None \<Rightarrow> Inr batch
      | Some e \<Rightarrow>
         if ce_SummaryMessageID e = [] \<and> ce_TailStartID e = [] then Inr batch
         else bindP (ResolveReplayPartOwners (rb_Parts batch) (rb_PartOwnerMessageIDs batch)) (\<lambda>owners.
           let s1 = systemPrefix ([], {}) (rb_Messages batch);
               s2 = (if ce_SummaryMessageID e \<noteq> [] then
                       (case messageByIDIn (rb_Messages batch) (ce_SummaryMessageID e) of None \<Rightarrow> s1
                        | Some summary \<Rightarrow> includeMessage s1 summary)
                     else s1);
               anchor = (if ce_TailStartID e = [] then ce_SummaryMessageID e else ce_TailStartID e);
               s3 = tailLoop anchor (ce_SummaryMessageID e) False s2 (rb_Messages batch);
               kept = filter (\<lambda>q. snd q \<in> snd s3) (zip (rb_Parts batch) owners)
           in Inr (batch\<lparr>rb_Messages := fst s3, rb_Parts := map fst kept, rb_PartOwnerMessageIDs := map snd kept\<rparr>)))"

section \<open>Payloads\<close>

text \<open>\<open>Decoder.DisallowUnknownFields\<close>: a key that selects no field is an error.\<close>

fun decodeKnown :: "'r fields \<Rightarrow> (string \<times> json) list \<Rightarrow> 'r \<Rightarrow> 'r option" where
  "decodeKnown fs [] r = Some r"
| "decodeKnown fs ((k, v) # kvs) r =
     (case selectField fs (unquote k) of None \<Rightarrow> None
      | Some u \<Rightarrow> (case u v r of None \<Rightarrow> None | Some r' \<Rightarrow> decodeKnown fs kvs r'))"

definition decodeCanonical :: "'r fields \<Rightarrow> 'r \<Rightarrow> RawMessage \<Rightarrow> histErr + 'r" where
  "decodeCanonical fs zero raw =
     (let trimmed = TrimSpace raw in
      if trimmed = [] \<or> trimmed = ''null'' then Inl HPayload
      else case jsonParse trimmed of
        Some (JObj kvs) \<Rightarrow> (case decodeKnown fs kvs zero of None \<Rightarrow> Inl HPayload | Some r \<Rightarrow> Inr r)
      | _ \<Rightarrow> Inl HPayload)"

record textPartPayload =
  tpp_Text :: "string option"

definition textPartFields :: "textPartPayload fields" where
  "textPartFields = [field ''text'' (decPtr [] decString) tpp_Text tpp_Text_update]"

record compactionPartPayload =
  cpp_Text :: "string option"
  cpp_EpochID :: EpochID
  cpp_SummarizedFromID :: MessageID
  cpp_SummarizedToID :: MessageID
  cpp_TailStartID :: MessageID
  cpp_Redacted :: "bool option"

definition compactionPartFields :: "compactionPartPayload fields" where
  "compactionPartFields = [field ''text'' (decPtr [] decString) cpp_Text cpp_Text_update,
     field ''epoch_id'' decString cpp_EpochID cpp_EpochID_update,
     field ''summarized_from_id'' decString cpp_SummarizedFromID cpp_SummarizedFromID_update,
     field ''summarized_to_id'' decString cpp_SummarizedToID cpp_SummarizedToID_update,
     field ''tail_start_id'' decString cpp_TailStartID cpp_TailStartID_update,
     field ''redacted'' (decPtr False decBool) cpp_Redacted cpp_Redacted_update]"

definition zeroCompaction :: compactionPartPayload where
  "zeroCompaction = \<lparr>cpp_Text = None, cpp_EpochID = [], cpp_SummarizedFromID = [], cpp_SummarizedToID = [], cpp_TailStartID = [], cpp_Redacted = None\<rparr>"

definition partText :: "Part \<Rightarrow> histErr + string" where
  "partText part =
     (case p_Kind part of
        PartReasoning \<Rightarrow>
          bindP (decodeCanonical textPartFields \<lparr>tpp_Text = None\<rparr> (p_Payload part)) (\<lambda>payload.
            case tpp_Text payload of None \<Rightarrow> Inl HMissingPayload | Some t \<Rightarrow> Inr t)
      | PartCompaction \<Rightarrow>
          bindP (decodeCanonical compactionPartFields zeroCompaction (p_Payload part)) (\<lambda>payload.
            case cpp_Text payload of None \<Rightarrow> Inl HMissingPayload
            | Some t \<Rightarrow> if cpp_EpochID payload = [] \<or> cpp_Redacted payload = None then Inl HMissingPayload else Inr t)
      | _ \<Rightarrow> Inl HUnsupportedKind)"

record schemaProbe =
  spr_Schema :: "int option"

definition hasContentSchemaField :: "RawMessage \<Rightarrow> bool" where
  "hasContentSchemaField raw =
     (case unmarshal (decodeStruct [field ''schema'' (decPtr 0 decInt) spr_Schema spr_Schema_update]) \<lparr>spr_Schema = None\<rparr> raw of
        None \<Rightarrow> False | Some probe \<Rightarrow> spr_Schema probe \<noteq> None)"

section \<open>Single blocks\<close>

definition decodeSingleBlock :: "libs \<Rightarrow> Part \<Rightarrow> BlockKind \<Rightarrow> Role \<Rightarrow> ContentLimits \<Rightarrow> histErr + ContentBlock" where
  "decodeSingleBlock L part kind decodeRole limits =
     bindP (wrapP HStore (DecodeContentParts L decodeRole [part\<lparr>p_Ordinal := 0\<rparr>] limits)) (\<lambda>content.
       case co_Blocks content of [b] \<Rightarrow> if cb_Kind b = kind then Inr b else Inl HUnexpectedBlock | _ \<Rightarrow> Inl HUnexpectedBlock)"

text \<open>A payload pointer that must not be nil.\<close>

definition required :: "'a option \<Rightarrow> histErr + 'a" where
  "required p = (case p of None \<Rightarrow> Inl HMissingPayload | Some x \<Rightarrow> Inr x)"

definition classicTextEnvelopeText :: "libs \<Rightarrow> Part \<Rightarrow> ContentLimits \<Rightarrow> histErr + string" where
  "classicTextEnvelopeText L part limits =
     bindP (case p_Kind part of PartUserInputText \<Rightarrow> Inr (BlockKindUserInputText, RoleUser)
              | PartAssistantGenText \<Rightarrow> Inr (BlockKindAssistantGenText, RoleAssistant) | _ \<Rightarrow> Inl HUnsupportedKind) (\<lambda>(kind, decodeRole).
       bindP (decodeSingleBlock L part kind decodeRole limits) (\<lambda>block.
         bindP (required (cb_Text block)) (\<lambda>t. Inr (tb_Text t))))"

definition classicReasoningEnvelopeText :: "libs \<Rightarrow> Part \<Rightarrow> ContentLimits \<Rightarrow> histErr + string" where
  "classicReasoningEnvelopeText L part limits =
     bindP (decodeSingleBlock L part BlockKindReasoning RoleAssistant limits) (\<lambda>block.
       bindP (required (cb_Reasoning block)) (\<lambda>r. Inr (rb_Text r)))"

record classicToolCall =
  ctc_ID :: string
  ctc_Type :: string
  ctc_Name :: string
  ctc_Arguments :: string

definition classicFunctionToolCallEnvelope :: "libs \<Rightarrow> Part \<Rightarrow> ContentLimits \<Rightarrow> histErr + classicToolCall" where
  "classicFunctionToolCallEnvelope L part limits =
     bindP (decodeSingleBlock L part BlockKindFunctionToolCall RoleAssistant limits) (\<lambda>block.
       bindP (required (cb_FunctionCall block)) (\<lambda>fc.
         Inr \<lparr>ctc_ID = fc_CallID fc, ctc_Type = ''function'', ctc_Name = fc_Name fc, ctc_Arguments = fc_Arguments fc\<rparr>))"

definition classicFunctionToolResultEnvelope :: "libs \<Rightarrow> Part \<Rightarrow> ContentLimits \<Rightarrow> histErr + string \<times> string" where
  "classicFunctionToolResultEnvelope L part limits =
     bindP (decodeSingleBlock L part BlockKindFunctionToolResult RoleUser limits) (\<lambda>block.
       bindP (required (cb_FunctionResult block)) (\<lambda>fr.
         bindP (foldP (\<lambda>content item. if rc_Type item \<noteq> ResultContentText then Inl ErrClassicUnsupported
               else Inr (content @ rc_Text item)) [] (elems (fr_Content fr))) (\<lambda>content.
           Inr (fr_CallID fr, content))))"

record messagePartCommon =
  mpc_MIMEType :: string
  mpc_URL :: "string option"
  mpc_Base64Data :: "string option"

datatype inputPart = TextInput string | ImageInput messagePartCommon string | AudioInput messagePartCommon
  | VideoInput messagePartCommon | FileInput messagePartCommon string

definition mediaPartBlockKind :: "PartKind \<Rightarrow> BlockKind option" where
  "mediaPartBlockKind k = (case k of PartUserInputImage \<Rightarrow> Some BlockKindUserInputImage | PartUserInputAudio \<Rightarrow> Some BlockKindUserInputAudio
     | PartUserInputVideo \<Rightarrow> Some BlockKindUserInputVideo | PartUserInputFile \<Rightarrow> Some BlockKindUserInputFile | _ \<Rightarrow> None)"

definition classicMediaEnvelopeInputPart :: "libs \<Rightarrow> Part \<Rightarrow> ContentLimits \<Rightarrow> histErr + inputPart" where
  "classicMediaEnvelopeInputPart L part limits =
     (case mediaPartBlockKind (p_Kind part) of None \<Rightarrow> Inl HUnsupportedKind
      | Some blockKind \<Rightarrow>
         bindP (decodeSingleBlock L part blockKind RoleUser limits) (\<lambda>block.
         bindP (required (cb_Media block)) (\<lambda>m.
           let common = \<lparr>mpc_MIMEType = mb_MIMEType m, mpc_URL = (if mb_URL m \<noteq> [] then Some (mb_URL m) else None),
                 mpc_Base64Data = (if mb_Base64Data m \<noteq> [] then Some (mb_Base64Data m) else None)\<rparr>
           in case blockKind of
             BlockKindUserInputImage \<Rightarrow> Inr (ImageInput common (mb_Detail m))
           | BlockKindUserInputAudio \<Rightarrow> Inr (AudioInput common)
           | BlockKindUserInputVideo \<Rightarrow> Inr (VideoInput common)
           | BlockKindUserInputFile \<Rightarrow> Inr (FileInput common (mb_Name m))
           | _ \<Rightarrow> Inl HUnsupportedKind)))"

section \<open>Classic messages\<close>

datatype einoRole = EinoSystem | EinoAssistant | EinoUser

definition einoRoleOf :: "Role \<Rightarrow> einoRole" where
  "einoRoleOf r = (case r of RoleSystem \<Rightarrow> EinoSystem | RoleAssistant \<Rightarrow> EinoAssistant | _ \<Rightarrow> EinoUser)"

record classicMessage =
  cm_Role :: einoRole
  cm_Name :: string
  cm_Content :: string
  cm_ReasoningContent :: string
  cm_UserInputMultiContent :: "inputPart list"
  cm_ToolCalls :: "classicToolCall list"

text \<open>A message of a role, or the result of \<open>schema.ToolMessage(content, toolCallID)\<close>.\<close>

datatype einoMessage = Plain classicMessage | ToolMessage string string

definition isMediaPart :: "PartKind \<Rightarrow> bool" where
  "isMediaPart k \<longleftrightarrow> k = PartUserInputImage \<or> k = PartUserInputAudio \<or> k = PartUserInputVideo \<or> k = PartUserInputFile"

definition hasUserMediaPart :: "Part list \<Rightarrow> bool" where
  "hasUserMediaPart ps = list_ex (\<lambda>p. isMediaPart (p_Kind p)) ps"

definition unsupportedKind :: "PartKind \<Rightarrow> histErr" where
  "unsupportedKind k = (if BlockKindForPart k \<noteq> None then ErrClassicUnsupported else HUnsupportedKind)"

definition projectToolResult :: "libs \<Rightarrow> ContentLimits \<Rightarrow> einoMessage list \<Rightarrow> Part \<Rightarrow> histErr + einoMessage list" where
  "projectToolResult L limits result part =
     (if p_Kind part = PartFunctionToolResult then
        bindP (classicFunctionToolResultEnvelope L part limits) (\<lambda>(toolCallID, content). Inr (result @ [ToolMessage content toolCallID]))
      else if BlockKindForPart (p_Kind part) \<noteq> None then Inl ErrClassicUnsupported
      else Inr result)"

definition projectToolResults :: "libs \<Rightarrow> Part list \<Rightarrow> ContentLimits \<Rightarrow> histErr + einoMessage list" where
  "projectToolResults L ps limits = foldP (projectToolResult L limits) [] ps"

text \<open>Text goes into the ordered parts of a message with media, otherwise into its content.\<close>

definition addText :: "bool \<Rightarrow> string \<Rightarrow> classicMessage \<Rightarrow> classicMessage" where
  "addText multi text m =
     (if multi then m\<lparr>cm_UserInputMultiContent := cm_UserInputMultiContent m @ [TextInput text]\<rparr>
      else m\<lparr>cm_Content := cm_Content m @ text\<rparr>)"

text \<open>The body of the loop over the parts: the message so far and the tool-result parts set aside.\<close>

definition projectPart :: "libs \<Rightarrow> Options \<Rightarrow> Role \<Rightarrow> bool \<Rightarrow> classicMessage \<times> Part list \<Rightarrow> Part \<Rightarrow> histErr + classicMessage \<times> Part list" where
  "projectPart L o1 role multi s part =
     (case s of (m, results) \<Rightarrow>
      let limits = contentLimits o1; kind = p_Kind part in
      if kind = PartFunctionToolResult then Inr (m, results @ [part])
      else if kind = PartReasoning then
        (if \<not> op_IncludeReasoning o1 then Inr (m, results)
         else if hasContentSchemaField (p_Payload part) then
           bindP (classicReasoningEnvelopeText L part limits) (\<lambda>text.
             Inr (m\<lparr>cm_ReasoningContent := cm_ReasoningContent m @ text\<rparr>, results))
         else bindP (partText part) (\<lambda>text. Inr (m\<lparr>cm_Content := cm_Content m @ text\<rparr>, results)))
      else if kind = PartCompaction then bindP (partText part) (\<lambda>text. Inr (addText multi text m, results))
      else if kind = PartProviderState \<or> kind = PartApprovalDecision \<or> kind = PartResponseMeta then Inr (m, results)
      else if kind = PartUserInputText \<or> kind = PartAssistantGenText then
        bindP (classicTextEnvelopeText L part limits) (\<lambda>text. Inr (addText (multi \<and> kind = PartUserInputText) text m, results))
      else if isMediaPart kind then
        (if role \<noteq> RoleUser then Inl ErrClassicUnsupported
         else bindP (classicMediaEnvelopeInputPart L part limits) (\<lambda>i.
           Inr (m\<lparr>cm_UserInputMultiContent := cm_UserInputMultiContent m @ [i]\<rparr>, results)))
      else if kind = PartFunctionToolCall then
        bindP (classicFunctionToolCallEnvelope L part limits) (\<lambda>c. Inr (m\<lparr>cm_ToolCalls := cm_ToolCalls m @ [c]\<rparr>, results))
      else Inl (unsupportedKind kind))"

definition projectMessage :: "libs \<Rightarrow> Message \<Rightarrow> Part list \<Rightarrow> Options \<Rightarrow> histErr + einoMessage list" where
  "projectMessage L message ps o1 =
     (case m_Role message of
        RoleTool \<Rightarrow> projectToolResults L ps (contentLimits o1)
      | RoleOther t \<Rightarrow> Inl HUnsupportedRole
      | role \<Rightarrow>
         let multi = (role = RoleUser \<and> hasUserMediaPart ps);
             start = \<lparr>cm_Role = einoRoleOf role, cm_Name = m_Agent message, cm_Content = [], cm_ReasoningContent = [],
               cm_UserInputMultiContent = [], cm_ToolCalls = []\<rparr>
         in bindP (foldP (projectPart L o1 role multi) (start, []) ps) (\<lambda>(projected, results).
            let result = (if role \<noteq> RoleUser \<or> ps = [] \<or> length results \<noteq> length ps then [Plain projected] else [])
            in bindP (projectToolResults L results (contentLimits o1)) (\<lambda>toolMessages. Inr (result @ toolMessages))))"

record Projection =
  pj_Messages :: "einoMessage list"
  pj_SourceMessageIDs :: "MessageID list"

definition partsOfMessage :: "ReplayBatch \<Rightarrow> MessageID \<Rightarrow> Part list" where
  "partsOfMessage batch i = sort_key p_Ordinal (filter (\<lambda>p. p_MessageID p = i) (rb_Parts batch))"

definition ProjectWithSources :: "libs \<Rightarrow> ReplayBatch \<Rightarrow> Options \<Rightarrow> histErr + Projection" where
  "ProjectWithSources L batch0 o1 =
     bindP (wrapP HStore (applyEpoch batch0 (op_Epoch o1))) (\<lambda>batch.
       foldP (\<lambda>result message.
         bindP (projectMessage L message (partsOfMessage batch (m_ID message)) o1) (\<lambda>projected.
           Inr \<lparr>pj_Messages = pj_Messages result @ projected,
             pj_SourceMessageIDs = pj_SourceMessageIDs result @ map (\<lambda>_. m_ID message) projected\<rparr>))
         \<lparr>pj_Messages = [], pj_SourceMessageIDs = []\<rparr> (rb_Messages batch))"

definition Project :: "libs \<Rightarrow> ReplayBatch \<Rightarrow> Options \<Rightarrow> histErr + einoMessage list" where
  "Project L batch o1 = bindP (ProjectWithSources L batch o1) (\<lambda>p. Inr (pj_Messages p))"

section \<open>Loading\<close>

definition nextReplay :: "ReplayBatch \<Rightarrow> ReplayCursor option" where
  "nextReplay b = (if rb_Next b = zeroReplayCursor then None else Some (rb_Next b))"

definition LoadBatch :: "db \<Rightarrow> ID \<Rightarrow> (err + ReplayBatch) option" where
  "LoadBatch d sessionID =
     map_option (\<lambda>r. bindP r (\<lambda>(ms, ps, os).
       Inr \<lparr>rb_Messages = ms, rb_Parts = ps, rb_PartOwnerMessageIDs = os, rb_Next = zeroReplayCursor\<rparr>))
       (drain (\<lambda>cursor. ListMessages sessionID cursor d) nextReplay
         (\<lambda>(ms, ps, os) batch. bindP (ResolveReplayPartOwners (rb_Parts batch) (rb_PartOwnerMessageIDs batch)) (\<lambda>owners.
            Inr (ms @ rb_Messages batch, ps @ rb_Parts batch, os @ owners)))
         ([], [], []) \<lparr>rcu_AfterMessageID = [], rcu_Limit = 100\<rparr>)"

definition LoadHistory :: "libs \<Rightarrow> db \<Rightarrow> ID \<Rightarrow> Options \<Rightarrow> (histErr + einoMessage list) option" where
  "LoadHistory L d sessionID o1 = map_option (\<lambda>r. bindP (wrapP HStore r) (\<lambda>batch. Project L batch o1)) (LoadBatch d sessionID)"

section \<open>Compaction boundaries\<close>

record BoundaryIDs =
  bi_MessageID :: MessageID
  bi_PartID :: PartID
  bi_TurnID :: TurnID
  bi_AgentPath :: string

record Boundary =
  bd_Message :: Message
  bd_Part :: Part

definition summaryPayloadJ :: "ContextEpoch \<Rightarrow> string \<Rightarrow> json" where
  "summaryPayloadJ epoch summary = JObj ([(''text'', jstr summary), (''epoch_id'', jstr (ce_ID epoch))] @
     strO ''summarized_from_id'' (ce_SummarizedFromID epoch) @ strO ''summarized_to_id'' (ce_SummarizedToID epoch) @
     strO ''tail_start_id'' (ce_TailStartID epoch) @ [(''redacted'', JBool True)])"

definition NewBoundary :: "ContextEpoch \<Rightarrow> BoundaryIDs \<Rightarrow> RunID \<Rightarrow> gotime \<Rightarrow> string \<Rightarrow> histErr + Boundary" where
  "NewBoundary epoch ids runID now summary =
     (if ce_ID epoch = [] \<or> ce_SessionID epoch = [] \<or> bi_MessageID ids = [] \<or> bi_PartID ids = [] then Inl HRequired
      else Inr \<lparr>bd_Message = \<lparr>m_ID = bi_MessageID ids, m_SessionID = ce_SessionID epoch, m_RunID = runID, m_ParentID = [],
            m_Role = RoleSystem, m_Agent = [], m_ModelID = [], m_TurnID = bi_TurnID ids, m_AgentPath = bi_AgentPath ids,
            m_CreatedAt = now, m_UpdatedAt = now\<rparr>,
          bd_Part = \<lparr>p_ID = bi_PartID ids, p_MessageID = bi_MessageID ids, p_SessionID = ce_SessionID epoch, p_RunID = runID,
            p_Kind = PartCompaction, p_Ordinal = 0, p_Payload = emit (summaryPayloadJ epoch summary),
            p_CreatedAt = now, p_UpdatedAt = now\<rparr>\<rparr>)"

text \<open>The store is the one bound to the run's fence.\<close>

definition appendBoundaryRecords :: "RunFence \<Rightarrow> ContextEpoch \<Rightarrow> BoundaryIDs \<Rightarrow> RunID \<Rightarrow> gotime \<Rightarrow> string \<Rightarrow> db \<Rightarrow> (histErr + Boundary) \<times> db" where
  "appendBoundaryRecords fence epoch ids runID now summary d =
     (case NewBoundary epoch ids runID now summary of Inl e \<Rightarrow> (Inl e, d)
      | Inr boundary \<Rightarrow>
         (case AppendMessage fence (bd_Message boundary) d of (Inl e, t) \<Rightarrow> (Inl (HStore e), t)
          | (Inr message, t) \<Rightarrow>
             (case AppendPart fence (bd_Part boundary) t of (Inl e, u) \<Rightarrow> (Inl (HStore e), u)
              | (Inr part, u) \<Rightarrow>
                 (case FinishContextEpoch fence (epoch\<lparr>ce_SummaryMessageID := m_ID message,
                      ce_ClosedAt := (if IsZero (ce_ClosedAt epoch) then now else ce_ClosedAt epoch)\<rparr>) u of
                    (Inl e, v) \<Rightarrow> (Inl (HStore e), v)
                  | (Inr _, v) \<Rightarrow> (Inr \<lparr>bd_Message = message, bd_Part = part\<rparr>, v)))))"

text \<open>In a transaction of its own: an error undoes everything.\<close>

definition AppendBoundary :: "RunFence \<Rightarrow> ContextEpoch \<Rightarrow> BoundaryIDs \<Rightarrow> RunID \<Rightarrow> gotime \<Rightarrow> string \<Rightarrow> db \<Rightarrow> (histErr + Boundary) \<times> db" where
  "AppendBoundary fence epoch ids runID now summary d =
     (case appendBoundaryRecords fence epoch ids runID now summary d of (Inl e, t) \<Rightarrow> (Inl e, d) | (Inr b, t) \<Rightarrow> (Inr b, t))"

end
