(* ===== verification/JsonStrings.thy ===== *)
theory JsonStrings
  imports JsonText JsonDecode
begin

text \<open>
  Go strings through JSON: a string of well-formed UTF-8 that \<open>encoding/json\<close> writes reads back unchanged,
  and the documents the program writes are well formed.
\<close>

section \<open>Runes\<close>

lemma runeLen_le: "runeLen bs \<le> length bs"
  by (auto simp: runeLen_def split: list.split)

lemma runeLen_simps:
  "a < 128 \<Longrightarrow> runeLen (a # s) = 1"
  "inRange 194 223 a \<Longrightarrow> runeLen (a # b # s) = (if cont b then 2 else 0)"
  "inRange 224 239 a \<Longrightarrow> runeLen (a # b # c # s) =
     (if inRange (if a = 224 then 160 else 128) (if a = 237 then 159 else 191) b \<and> cont c then 3 else 0)"
  "inRange 240 244 a \<Longrightarrow> runeLen (a # b # c # d # s) =
     (if inRange (if a = 240 then 144 else 128) (if a = 244 then 143 else 191) b \<and> cont c \<and> cont d then 4 else 0)"
  by (simp_all add: runeLen_def inRange_def)

lemma runeLenE:
  assumes "runeLen bs \<noteq> 0"
  obtains (one) a s where "bs = a # s" "a < 128"
  | (two) a b s where "bs = a # b # s" "inRange 194 223 a" "cont b"
  | (three) a b c s where "bs = a # b # c # s" "inRange 224 239 a"
      "inRange (if a = 224 then 160 else 128) (if a = 237 then 159 else 191) b" "cont c"
  | (four) a b c d s where "bs = a # b # c # d # s" "inRange 240 244 a"
      "inRange (if a = 240 then 144 else 128) (if a = 244 then 143 else 191) b" "cont c" "cont d"
proof -
  obtain a s where bs: "bs = a # s" using assms by (cases bs) (auto simp: runeLen_def)
  show ?thesis
  proof (cases "a < 128")
    case False
    then obtain b s2 where s: "s = b # s2" using assms bs by (cases s) (auto simp: runeLen_def)
    show ?thesis
    proof (cases "inRange 194 223 a")
      case True
      then show ?thesis using assms two unfolding bs s by (auto simp: runeLen_simps split: if_split_asm)
    next
      case n2: False
      then obtain c s3 where s2: "s2 = c # s3" using assms bs s False by (cases s2) (auto simp: runeLen_def)
      show ?thesis
      proof (cases "inRange 224 239 a")
        case True
        then show ?thesis using assms three unfolding bs s s2 by (auto simp: runeLen_simps split: if_split_asm)
      next
        case n3: False
        then obtain d s4 where s3: "s3 = d # s4" using assms bs s s2 False n2 by (cases s3) (auto simp: runeLen_def)
        with assms bs s s2 False n2 n3 show ?thesis by (intro four [of a b c d s4]) (auto simp: runeLen_def split: if_split_asm)
      qed
    qed
  qed (use one bs in blast)
qed

lemma runeLen_high: "128 \<le> a \<Longrightarrow> runeLen (a # s) \<noteq> 0 \<Longrightarrow> 2 \<le> runeLen (a # s)"
  by (erule runeLenE) (auto simp: runeLen_simps)

text \<open>The length of a rune depends on its own bytes only.\<close>

lemma runeLen_take:
  assumes "runeLen bs \<noteq> 0"
  shows "runeLen (take (runeLen bs) bs @ r) = runeLen bs"
  using assms by (cases rule: runeLenE) (simp_all add: runeLen_simps)

lemma runeLen_conts:
  assumes "runeLen bs \<noteq> 0" "128 \<le> hd bs" "b \<in> set (take (runeLen bs) bs)"
  shows "128 \<le> b"
  using assms(1)
proof (cases rule: runeLenE)
  case (one a s)
  with assms(2) show ?thesis by simp
next
  case (two a b s)
  then show ?thesis using assms(2,3) by (auto simp: runeLen_simps cont_def inRange_def)
next
  case (three a b c s)
  then show ?thesis using assms(2,3) by (auto simp: runeLen_simps cont_def inRange_def split: if_split_asm)
next
  case (four a b c d s)
  then show ?thesis using assms(2,3) by (auto simp: runeLen_simps cont_def inRange_def split: if_split_asm)
qed

section \<open>Quoting\<close>

lemma hexVal_hexDigit: "n < 16 \<Longrightarrow> hexVal (hexDigit n) = n"
  by (auto simp: hexVal_def hexDigit_def byteOf_def Let_def)

lemma char_of_byteOf [simp]: "char_of (byteOf c) = c"
  by (simp add: byteOf_def)

lemma byteOf_zero: "isHex CHR ''0''" "hexVal CHR ''0'' = 0"
  by code_simp+

lemma hex4_byte:
  assumes "byteOf c < 128"
  shows "hex4 (CHR ''0'' # CHR ''0'' # hexDigit (byteOf c div 16) # hexDigit (byteOf c mod 16) # r) = Some (byteOf c)"
proof -
  have "byteOf c div 16 < 16" "byteOf c mod 16 < 16" using assms by simp_all
  then show ?thesis by (simp add: hex4_def hexDigit_isHex hexVal_hexDigit byteOf_zero)
qed

lemma unquote_escapeByte:
  assumes "byteOf c < 128"
  shows "unquote (escapeByte c @ r) = c # unquote r"
proof -
  let ?h = "[CHR 0x5C, CHR ''u'', CHR ''0'', CHR ''0'', hexDigit (byteOf c div 16), hexDigit (byteOf c mod 16)]"
  have "escapedRune (byteOf c) r = (byteOf c, 0)" for r using assms by (simp add: escapedRune_def inRange_def)
  then have h: "unquote (?h @ r) = c # unquote r" using assms by (simp add: hex4_byte encodeRune_def)
  have p: "c \<noteq> CHR 0x5C \<Longrightarrow> unquote ([c] @ r) = c # unquote r" using assms by simp
  show ?thesis
    unfolding escapeByte_def using h p by (simp add: unescape_def del: append.simps) (auto simp: unescape_def)
qed

lemma unquote_rune:
  assumes "128 \<le> byteOf c" and n: "n = runeLen (map byteOf (c # cs))" "n \<noteq> 0"
  shows "unquote (take n (c # cs) @ r) = take n (c # cs) @ unquote r"
proof -
  have l: "n \<le> length (c # cs)" using runeLen_le [of "map byteOf (c # cs)"] n(1) by simp
  obtain m where m: "n = Suc m" using n(2) by (cases n) auto
  have "runeLen (map byteOf (take n (c # cs) @ r)) = n"
    using runeLen_take [OF n(2) [unfolded n(1)], of "map byteOf r"] by (simp only: n(1) take_map map_append)
  moreover have "c \<noteq> CHR 0x5C" using assms(1) by (auto simp: byteOf_def)
  ultimately show ?thesis using assms(1) l m by (simp add: Let_def min_def)
qed

lemma lineSep_unquote:
  assumes "lineSep s = Some e" "n = runeLen (map byteOf s)"
  shows "n = 3 \<and> unquote (e @ r) = take 3 s @ unquote r"
proof -
  obtain x y z t where s: "s = x # y # z # t" and b: "byteOf x = 226" "byteOf y = 128" "byteOf z = 168 \<and> e = CHR 0x5C # ''u2028'' \<or> byteOf z = 169 \<and> e = CHR 0x5C # ''u2029''"
    using assms(1) by (cases s; cases "tl s"; cases "tl (tl s)") (auto simp: lineSep_def split: if_split_asm)
  have c: "x = char_of (226::nat)" "y = char_of (128::nat)" using b(1,2) char_of_byteOf by metis+
  have z: "z = char_of (168::nat) \<and> e = CHR 0x5C # ''u2028'' \<or> z = char_of (169::nat) \<and> e = CHR 0x5C # ''u2029''" using b(3) char_of_byteOf by metis
  have "runeLen (map byteOf s) = 3" using b unfolding s by (auto simp: runeLen_def inRange_def cont_def)
  moreover have "hex4 (''2028'' @ r) = Some 8232" "hex4 (''2029'' @ r) = Some 8233"
    by (simp_all add: hex4_def isHex_def hexVal_def inRange_def byteOf_def)
  ultimately show ?thesis
    using z c assms(2) unfolding s by (auto simp: escapedRune_def inRange_def encodeRune_def)
qed

lemma unquote_quote: "ValidString s \<Longrightarrow> unquote (quote s) = s"
  unfolding ValidString_def
proof (induction s rule: quote.induct)
  case (2 c cs)
  let ?n = "runeLen (map byteOf (c # cs))"
  show ?case
  proof (cases "byteOf c < 128")
    case True
    then have "?n = 1" by (simp add: runeLen_def)
    then show ?thesis using 2 True by (simp add: unquote_escapeByte)
  next
    case False
    have n: "?n \<noteq> 0" "2 \<le> ?n" using 2(4) False runeLen_high [of "byteOf c" "map byteOf cs"] by auto
    have "unquote (quote (drop (?n - 1) cs)) = drop (?n - 1) cs"
      using 2(3) [OF False refl n(1)] 2(4) n(1) by (simp add: drop_map)
    moreover have "take ?n (c # cs) @ drop (?n - 1) cs = c # cs"
      using n(1) by (cases ?n) simp_all
    moreover have "unquote ((case lineSep (c # cs) of Some e \<Rightarrow> e | None \<Rightarrow> take ?n (c # cs)) @ r) = take ?n (c # cs) @ unquote r" for r
      using False n(1) unquote_rune lineSep_unquote [of "c # cs" _ ?n r] by (auto split: option.split)
    moreover have "quote (c # cs) = (case lineSep (c # cs) of Some e \<Rightarrow> e | None \<Rightarrow> take ?n (c # cs)) @ quote (drop (?n - 1) cs)"
      using False n(1) by (simp add: Let_def split: option.split)
    ultimately show ?thesis by (simp only:)
  qed
qed simp

section \<open>Well-formed documents\<close>

lemma body_high_bytes: "(\<And>c. c \<in> set cs \<Longrightarrow> 128 \<le> byteOf c) \<Longrightarrow> body cs"
proof (induction cs)
  case (Cons c cs)
  then have "128 \<le> byteOf c" by simp
  then have "c \<noteq> CHR 0x22" "c \<noteq> CHR 0x5C" "\<not> byteOf c < 32" by (auto simp: byteOf_def)
  moreover have "body cs" by (rule Cons.IH) (use Cons.prems in simp)
  ultimately show ?case by (rule body_plain)
qed (rule body_Nil)

lemma body_quote: "body (quote s)"
proof (induction s rule: quote.induct)
  case (2 c cs)
  let ?n = "runeLen (map byteOf (c # cs))"
  have hex: "body (CHR 0x5C # ''ufffd'')" "lineSep (c # cs) = Some e \<Longrightarrow> body e" for e
    by (auto simp: lineSep_def isHex_def inRange_def byteOf_def split: if_split_asm intro!: body_hex body_Nil)
  have "body (take ?n (c # cs))" if "128 \<le> byteOf c" "?n \<noteq> 0"
  proof (rule body_high_bytes)
    fix x assume "x \<in> set (take ?n (c # cs))"
    then have "byteOf x \<in> set (take ?n (map byteOf (c # cs)))" by (simp add: take_map del: list.map)
    then show "128 \<le> byteOf x" by (rule runeLen_conts [OF that(2), rotated]) (use that in simp)
  qed
  moreover have "body ((CHR 0x5C # ''ufffd'') @ quote cs)" if "\<not> byteOf c < 128" "?n = 0" using 2(2) [OF that(1) refl that(2)] hex(1) by (rule body_append [rotated])
  ultimately show ?case
    using 2 hex(2) by (auto simp: Let_def escapeByte_body intro!: body_append split: option.split)
qed (simp add: body_Nil)

lemma wf_jstr [simp]: "wfJson (jstr s)"
  using body_quote by (simp add: jstr_def lexStr_iff_body)

lemma depth_jstr [simp]: "depth (jstr s) = 0"
  by (simp add: jstr_def)

section \<open>Numbers\<close>

lemma char_digit: "n < 10 \<Longrightarrow> byteOf (char_of (48 + n)) = 48 + n"
  by (simp add: byteOf_def)

lemma char_of_48: "char_of (48 :: nat) = CHR ''0''"
  by code_simp

lemma digitsOf_digits: "digitsOf n \<noteq> [] \<and> list_all isDigit (digitsOf n)"
proof (induction n rule: digitsOf.induct)
  case (1 n)
  moreover have "n mod 10 < 10" by simp
  ultimately show ?case by (simp add: digitsOf.simps [of n] isDigit_def inRange_def char_digit less_Suc_eq_le [symmetric] del: mod_less_divisor)
qed

lemma digitsOf_head: "n > 0 \<Longrightarrow> hd (digitsOf n) \<noteq> CHR ''0''"
proof (induction n rule: digitsOf.induct)
  case (1 n)
  show ?case
  proof (cases "n < 10")
    case True
    then have "byteOf (hd (digitsOf n)) = 48 + n" by (subst digitsOf.simps) (simp add: char_digit)
    then show ?thesis using 1(2) by (auto simp: byteOf_def)
  next
    case False
    then have "hd (digitsOf n) = hd (digitsOf (n div 10))" using digitsOf_digits by (subst digitsOf.simps) simp
    then show ?thesis using 1(1) False by simp
  qed
qed

lemma digitsOf_value: "foldl (\<lambda>n c. 10 * n + (int (byteOf c) - 48)) 0 (digitsOf n) = int n"
proof (induction n rule: digitsOf.induct)
  case (1 n)
  show ?case by (subst digitsOf.simps) (use 1 in \<open>auto simp: char_digit zdiv_int zmod_int\<close>)
qed

lemma natText_digits: "natText (digitsOf n) = Some (int n)"
  using digitsOf_digits digitsOf_value by (simp add: natText_def)

lemma minus_no_digit: "isDigit CHR ''-'' = False"
  by (simp add: isDigit_def inRange_def byteOf_def)

lemma digitsOf_take1: "take 1 (digitsOf n) \<noteq> ''-''"
  using digitsOf_digits [of n] minus_no_digit by (cases "digitsOf n") auto

lemma validNumber_digits: "validNumber (digitsOf n)"
proof (cases "n = 0")
  case True
  then have "digitsOf n = ''0''" by (simp add: digitsOf.simps [of 0] char_of_48)
  then show ?thesis by (simp add: validNumber_def fracPart_def)
next
  case False
  obtain c cs where c: "digitsOf n = c # cs" "isDigit c" "list_all isDigit cs" "c \<noteq> CHR ''-''" "c \<noteq> CHR ''0''"
    using digitsOf_digits [of n] digitsOf_head [of n] False minus_no_digit by (cases "digitsOf n") auto
  then have "fracPart (dropWhile isDigit cs)" by (simp add: list_all_iff dropWhile_eq_Nil_conv [THEN iffD2] fracPart_def)
  then show ?thesis using c(1,2,4,5) by (simp add: validNumber_def)
qed

lemma validNumber_intText: "validNumber (intText i)"
proof (cases "i < 0")
  case True
  obtain c cs where c: "digitsOf (nat (- i)) = c # cs" using digitsOf_digits by (cases "digitsOf (nat (- i))") auto
  have "validNumber (c # cs)" "c \<noteq> CHR ''-''" using c validNumber_digits [of "nat (- i)"] digitsOf_take1 [of "nat (- i)"] by simp_all
  then show ?thesis using True c by (simp add: validNumber_def intText_def)
qed (simp add: validNumber_digits intText_def)

definition i64 :: "int \<Rightarrow> bool" where
  "i64 i \<longleftrightarrow> - (2 ^ 63) \<le> i \<and> i < 2 ^ 63"

lemma int64Text_intText: "i64 i \<Longrightarrow> int64Text (intText i) = Some i"
  using digitsOf_take1 by (simp add: int64Text_def intText_def i64_def natText_digits Let_def)

lemma decInt_jint [simp]: "i64 i \<Longrightarrow> decInt (jint i) old = Some i"
  by (simp add: decInt_def jint_def int64Text_intText)

lemma wf_jint [simp]: "wfJson (jint i)" "depth (jint i) = 0"
  by (simp_all add: jint_def validNumber_intText)

section \<open>White space\<close>

lemma trimBytes_keeps: "s \<noteq> [] \<Longrightarrow> hd s \<notin> hd ` set sps \<Longrightarrow> trimBytes sps s = s"
proof -
  assume s: "s \<noteq> []" "hd s \<notin> hd ` set sps"
  have "List.find (\<lambda>w. w \<noteq> [] \<and> take (length w) s = w) sps = None"
    unfolding find_None_iff
  proof
    assume "\<exists>w. w \<in> set sps \<and> w \<noteq> [] \<and> take (length w) s = w"
    then obtain w where "w \<in> set sps" "w \<noteq> []" "take (length w) s = w" by blast
    then have "hd s = hd w" using s(1) by (metis hd_take length_greater_0_conv)
    then show False using s(2) \<open>w \<in> set sps\<close> by blast
  qed
  then show ?thesis by (simp add: trimBytes.simps)
qed

lemma space_ends: "123 \<notin> hd ` set spaceRunes" "125 \<notin> hd ` set (map rev spaceRunes)"
  by code_simp+

lemma TrimSpace_object: "TrimSpace (emit (JObj kvs)) = emit (JObj kvs)"
proof -
  have "trimBytes spaceRunes (map byteOf (emit (JObj kvs))) = map byteOf (emit (JObj kvs))"
    by (rule trimBytes_keeps) (use space_ends(1) in \<open>simp_all add: byteOf_def\<close>)
  moreover have "trimBytes (map rev spaceRunes) (rev (map byteOf (emit (JObj kvs)))) = rev (map byteOf (emit (JObj kvs)))"
    by (rule trimBytes_keeps) (use space_ends(2) in \<open>simp_all add: byteOf_def\<close>)
  ultimately show ?thesis by (simp add: TrimSpace_def o_def)
qed

end
