(* ===== verification/StoreInv.thy ===== *)
theory StoreInv
  imports Execution
begin

text \<open>
  What every operation of the store keeps, stated once for the statements it is made of.

  \<^item> \<open>evolves d t\<close>: how the rows of \<open>d\<close> may differ in \<open>t\<close>. Rows are never removed (but for
    retired checkpoints), keep their keys and identities, and move forward only: a
    terminal run, a finished turn, a settled tool call and a completed inbox item stay as they are,
    and no inbox item is queued again. Each table's row relation is a preorder (locale
    \<open>rowOrder\<close>), so the relation composes along any sequence of operations.
  \<^item> \<open>wfDb d\<close>: every stored row agrees with its record and refers to rows that exist, keys and
    unique indexes hold, and the turns of a run are numbered 1, 2, 3, ...
  \<^item> \<open>quiet k d\<close>: once run \<open>k\<close> is terminal, none of its turns can continue and none of its
    tool calls is unfinished.
  \<^item> \<open>inv K d\<close>: \<open>wfDb d\<close>, and every run is quiet but those in \<open>K\<close> (the run being settled).
\<close>

section \<open>Tables that grow\<close>

definition grows :: "('r \<Rightarrow> 'r \<Rightarrow> bool) \<Rightarrow> 'r list \<Rightarrow> 'r list \<Rightarrow> bool" where
  "grows R xs ys \<longleftrightarrow> length xs \<le> length ys \<and> (\<forall>i < length xs. R (xs ! i) (ys ! i))"

locale rowOrder =
  fixes R :: "'r \<Rightarrow> 'r \<Rightarrow> bool"
  assumes refl: "R r r" and trans: "R r s \<Longrightarrow> R s t \<Longrightarrow> R r t"
begin

lemma grows_refl: "grows R xs xs"
  by (simp add: grows_def refl)

lemma grows_trans: "grows R xs ys \<Longrightarrow> grows R ys zs \<Longrightarrow> grows R xs zs"
  unfolding grows_def by (meson le_trans less_le_trans trans)

lemma grows_append: "grows R xs (xs @ ys)"
  by (simp add: grows_def nth_append refl)

lemma grows_update: "(\<And>r. r \<in> set xs \<Longrightarrow> P r \<Longrightarrow> R r (f r)) \<Longrightarrow> grows R xs (updateWhere P f xs)"
  by (simp add: grows_def updateWhere_def refl)

lemma grows_mem: "grows R xs ys \<Longrightarrow> r \<in> set xs \<Longrightarrow> \<exists>s \<in> set ys. R r s"
  unfolding grows_def by (metis in_set_conv_nth less_le_trans)

end

section \<open>How rows may change\<close>

definition sessionStep :: "sessionRow \<Rightarrow> sessionRow \<Rightarrow> bool" where
  "sessionStep r s \<longleftrightarrow> sw_RowKey s = sw_RowKey r \<and> sw_ID s = sw_ID r"

definition terminalRow :: "runRow \<Rightarrow> bool" where
  "terminalRow r \<longleftrightarrow> \<not> activeStatus (rw_Status r)"

definition runStep :: "runRow \<Rightarrow> runRow \<Rightarrow> bool" where
  "runStep r s \<longleftrightarrow> rw_RowKey s = rw_RowKey r \<and> rw_ID s = rw_ID r \<and> rw_SessionKey s = rw_SessionKey r \<and>
     rw_CreatedAt s = rw_CreatedAt r \<and> (terminalRow r \<longrightarrow> s = r) \<and>
     (rw_Status s = rw_Status r \<or> rw_Status s \<noteq> RunPending)"

definition messageStep :: "messageRow \<Rightarrow> messageRow \<Rightarrow> bool" where
  "messageStep r s \<longleftrightarrow> s = r \<or> s = r\<lparr>mw_Finalized := True\<rparr>"

definition partStep :: "partRow \<Rightarrow> partRow \<Rightarrow> bool" where
  "partStep r s \<longleftrightarrow> pw_RowKey s = pw_RowKey r \<and> pw_ID s = pw_ID r \<and> pw_MessageKey s = pw_MessageKey r \<and>
     pw_SessionKey s = pw_SessionKey r \<and> pw_RunKey s = pw_RunKey r"

definition toolStep :: "toolCallRow \<Rightarrow> toolCallRow \<Rightarrow> bool" where
  "toolStep r s \<longleftrightarrow> tw_RowKey s = tw_RowKey r \<and> tw_ID s = tw_ID r \<and> tw_SessionKey s = tw_SessionKey r \<and>
     tw_RunKey s = tw_RunKey r \<and> tw_RequestMessageKey s = tw_RequestMessageKey r \<and>
     tw_RequestPartKey s = tw_RequestPartKey r \<and> (\<not> unfinishedTool (tw_Status r) \<longrightarrow> s = r) \<and>
     (tw_Status s = tw_Status r \<or> tw_Status s \<noteq> ToolCallPending)"

definition epochStep :: "contextEpochRow \<Rightarrow> contextEpochRow \<Rightarrow> bool" where
  "epochStep r s \<longleftrightarrow> ew_RowKey s = ew_RowKey r \<and> ew_ID s = ew_ID r \<and> ew_SessionKey s = ew_SessionKey r"

text \<open>What a model request may become: prepared, dispatched, then completed or failed.\<close>

definition requestRank :: "ModelRequestState \<Rightarrow> nat" where
  "requestRank s = (case s of ModelRequestPrepared \<Rightarrow> 0 | ModelRequestDispatchStarted \<Rightarrow> 1 | _ \<Rightarrow> 2)"

text \<open>Everything of a request but its state, its error code and the time of its last change.\<close>

definition requestCore :: "ModelRequestRecord \<Rightarrow> ModelRequestRecord" where
  "requestCore q = q\<lparr>mr_State := ModelRequestStateOther [], mr_ErrorCode := [], mr_UpdatedAt := zeroTime\<rparr>"

definition requestStep :: "modelRequestRow \<Rightarrow> modelRequestRow \<Rightarrow> bool" where
  "requestStep r s \<longleftrightarrow> s\<lparr>qw_State := qw_State r, qw_Record := qw_Record r\<rparr> = r \<and>
     (qw_State s = qw_State r \<longrightarrow> s = r) \<and> requestRank (qw_State r) \<le> requestRank (qw_State s) \<and>
     (requestRank (qw_State r) = requestRank (qw_State s) \<longrightarrow> qw_State s = qw_State r) \<and>
     requestCore (qw_Record s) = requestCore (qw_Record r)"

definition finalTurn :: "TurnState \<Rightarrow> bool" where
  "finalTurn s \<longleftrightarrow> s = TurnCompleted \<or> s = TurnFailed"

definition turnStep :: "turnRow \<Rightarrow> turnRow \<Rightarrow> bool" where
  "turnStep r s \<longleftrightarrow> nw_RowKey s = nw_RowKey r \<and> nw_ID s = nw_ID r \<and> nw_RunKey s = nw_RunKey r \<and>
     nw_SessionKey s = nw_SessionKey r \<and> nw_Ordinal s = nw_Ordinal r \<and> nw_CreatedAt s = nw_CreatedAt r \<and>
     (finalTurn (nw_State r) \<longrightarrow> s = r) \<and> (nw_State s = nw_State r \<or> nw_State s \<noteq> TurnAdmitted)"

definition inboxStep :: "inboxRow \<Rightarrow> inboxRow \<Rightarrow> bool" where
  "inboxStep r s \<longleftrightarrow> iw_RowKey s = iw_RowKey r \<and> iw_ID s = iw_ID r \<and> iw_SessionKey s = iw_SessionKey r \<and>
     iw_IdempotencyKey s = iw_IdempotencyKey r \<and> iw_CreatedAt s = iw_CreatedAt r \<and>
     ib_Blocks (iw_Record s) = ib_Blocks (iw_Record r) \<and> (iw_State r = InboxCompleted \<longrightarrow> s = r) \<and>
     (iw_State s = InboxQueued \<longrightarrow> iw_State r = InboxQueued) \<and> (iw_TurnKey r = None \<or> iw_TurnKey s = iw_TurnKey r)"

interpretation sessionOrder: rowOrder sessionStep
  by unfold_locales (auto simp: sessionStep_def)

interpretation runOrder: rowOrder runStep
  by unfold_locales (auto simp: runStep_def terminalRow_def)

interpretation messageRowOrder: rowOrder messageStep
  by unfold_locales (auto simp: messageStep_def)

interpretation partRowOrder: rowOrder partStep
  by unfold_locales (auto simp: partStep_def)

interpretation toolOrder: rowOrder toolStep
  by unfold_locales (auto simp: toolStep_def)

interpretation epochOrder: rowOrder epochStep
  by unfold_locales (auto simp: epochStep_def)

interpretation requestRowOrder: rowOrder requestStep
proof
  show "requestStep r r" for r by (simp add: requestStep_def)
  fix r s t assume rs: "requestStep r s" and st: "requestStep s t"
  have "t\<lparr>qw_State := qw_State s, qw_Record := qw_Record s\<rparr> = s"
    "s\<lparr>qw_State := qw_State r, qw_Record := qw_Record r\<rparr> = r"
    using rs st by (simp_all add: requestStep_def)
  then have "t\<lparr>qw_State := qw_State r, qw_Record := qw_Record r\<rparr> = r"
    by (cases r; cases s; cases t) simp
  with rs st show "requestStep r t"
    unfolding requestStep_def by (metis le_antisym le_trans)
qed

interpretation turnOrder: rowOrder turnStep
  by unfold_locales (auto simp: turnStep_def)

interpretation inboxOrder: rowOrder inboxStep
  by unfold_locales (simp add: inboxStep_def, unfold inboxStep_def, metis)

interpretation logOrder: rowOrder "(=)"
  by unfold_locales auto

definition evolves :: "db \<Rightarrow> db \<Rightarrow> bool" where
  "evolves d t \<longleftrightarrow> grows sessionStep (sessions d) (sessions t) \<and> grows runStep (runs d) (runs t) \<and>
     grows messageStep (messages d) (messages t) \<and> grows partStep (parts d) (parts t) \<and>
     grows toolStep (tool_calls d) (tool_calls t) \<and> grows epochStep (context_epochs d) (context_epochs t) \<and>
     grows requestStep (model_requests d) (model_requests t) \<and> grows turnStep (turns d) (turns t) \<and>
     grows inboxStep (inbox d) (inbox t) \<and> grows (=) (events d) (events t) \<and>
     grows (=) (admission_receipts d) (admission_receipts t)"

lemmas grows_refls [simp] = sessionOrder.grows_refl runOrder.grows_refl messageRowOrder.grows_refl
  partRowOrder.grows_refl toolOrder.grows_refl epochOrder.grows_refl requestRowOrder.grows_refl
  turnOrder.grows_refl inboxOrder.grows_refl logOrder.grows_refl

lemmas grows_appends [simp] = sessionOrder.grows_append runOrder.grows_append messageRowOrder.grows_append
  partRowOrder.grows_append toolOrder.grows_append epochOrder.grows_append requestRowOrder.grows_append
  turnOrder.grows_append inboxOrder.grows_append logOrder.grows_append

lemma evolves_refl [simp]: "evolves d d"
  by (simp add: evolves_def)

lemma evolves_trans: "evolves d t \<Longrightarrow> evolves t u \<Longrightarrow> evolves d u"
  unfolding evolves_def
  by (elim conjE, intro conjI)
    (erule (1) sessionOrder.grows_trans runOrder.grows_trans messageRowOrder.grows_trans partRowOrder.grows_trans
      toolOrder.grows_trans epochOrder.grows_trans requestRowOrder.grows_trans turnOrder.grows_trans
      inboxOrder.grows_trans logOrder.grows_trans)+

section \<open>References between rows\<close>

definition hasSession :: "db \<Rightarrow> int \<Rightarrow> ID \<Rightarrow> bool" where
  "hasSession d k i \<longleftrightarrow> (\<exists>s \<in> set (sessions d). sw_RowKey s = k \<and> sw_ID s = i)"

definition hasRun :: "db \<Rightarrow> int \<Rightarrow> RunID \<Rightarrow> int \<Rightarrow> bool" where
  "hasRun d k i sk \<longleftrightarrow> (\<exists>r \<in> set (runs d). rw_RowKey r = k \<and> rw_ID r = i \<and> rw_SessionKey r = sk)"

definition hasMessage :: "db \<Rightarrow> int \<Rightarrow> MessageID \<Rightarrow> int \<Rightarrow> int \<Rightarrow> Role \<Rightarrow> bool" where
  "hasMessage d k i sk rk role \<longleftrightarrow> (\<exists>m \<in> set (messages d). mw_RowKey m = k \<and> mw_ID m = i \<and>
     mw_SessionKey m = sk \<and> mw_RunKey m = rk \<and> mw_Role m = role)"

definition hasPart :: "db \<Rightarrow> int \<Rightarrow> PartID \<Rightarrow> int \<Rightarrow> int \<Rightarrow> int \<Rightarrow> bool" where
  "hasPart d k i mk sk rk \<longleftrightarrow> (\<exists>p \<in> set (parts d). pw_RowKey p = k \<and> pw_ID p = i \<and>
     pw_MessageKey p = mk \<and> pw_SessionKey p = sk \<and> pw_RunKey p = rk)"

definition hasTool :: "db \<Rightarrow> int \<Rightarrow> ToolCallID \<Rightarrow> bool" where
  "hasTool d k i \<longleftrightarrow> (\<exists>t \<in> set (tool_calls d). tw_RowKey t = k \<and> tw_ID t = i)"

definition hasTurn :: "db \<Rightarrow> int \<Rightarrow> TurnID \<Rightarrow> bool" where
  "hasTurn d k i \<longleftrightarrow> (\<exists>t \<in> set (turns d). nw_RowKey t = k \<and> nw_ID t = i)"

text \<open>A row that is referred to stays where it is.\<close>

lemma evolves_has:
  assumes "evolves d t"
  shows "hasSession d k i \<Longrightarrow> hasSession t k i" "hasRun d k i sk \<Longrightarrow> hasRun t k i sk"
    "hasMessage d k i sk rk role \<Longrightarrow> hasMessage t k i sk rk role" "hasPart d k i mk sk rk \<Longrightarrow> hasPart t k i mk sk rk"
    "hasTool d k i \<Longrightarrow> hasTool t k i" "hasTurn d k i \<Longrightarrow> hasTurn t k i"
proof -
  note e = assms [unfolded evolves_def]
  show "hasSession d k i \<Longrightarrow> hasSession t k i"
    using e sessionOrder.grows_mem by (fastforce simp: hasSession_def sessionStep_def)
  show "hasRun d k i sk \<Longrightarrow> hasRun t k i sk"
    using e runOrder.grows_mem by (fastforce simp: hasRun_def runStep_def)
  show "hasMessage d k i sk rk role \<Longrightarrow> hasMessage t k i sk rk role"
  proof -
    assume "hasMessage d k i sk rk role"
    then obtain m where m: "m \<in> set (messages d)" "mw_RowKey m = k" "mw_ID m = i" "mw_SessionKey m = sk"
      "mw_RunKey m = rk" "mw_Role m = role"
      by (auto simp: hasMessage_def)
    from e have "grows messageStep (messages d) (messages t)" by simp
    from messageRowOrder.grows_mem [OF this m(1)] obtain n where "n \<in> set (messages t)" "messageStep m n" ..
    with m show "hasMessage t k i sk rk role"
      by (auto simp: hasMessage_def messageStep_def intro!: bexI [of _ n])
  qed
  show "hasPart d k i mk sk rk \<Longrightarrow> hasPart t k i mk sk rk"
    using e partRowOrder.grows_mem by (fastforce simp: hasPart_def partStep_def)
  show "hasTool d k i \<Longrightarrow> hasTool t k i"
    using e toolOrder.grows_mem by (fastforce simp: hasTool_def toolStep_def)
  show "hasTurn d k i \<Longrightarrow> hasTurn t k i"
    using e turnOrder.grows_mem by (fastforce simp: hasTurn_def turnStep_def)
qed

end
