(* ===== verification/StoreWf.thy ===== *)
theory StoreWf
  imports StoreInv
begin

text \<open>
  The invariant of the database and what each statement needs to keep it. A row is in order
  when its columns agree with its record and the rows it refers to exist; \<open>wfDb\<close> collects this
  with the keys, the CHECK constraints and the unique indexes of every table.
\<close>

section \<open>Rows in order\<close>

definition sessionOK :: "sessionRow \<Rightarrow> bool" where
  "sessionOK r \<longleftrightarrow> sessionRowMatches r (sw_Record r)"

definition runOK :: "db \<Rightarrow> runRow \<Rightarrow> bool" where
  "runOK d r \<longleftrightarrow> (let v = rw_Record r in
     hasSession d (rw_SessionKey r) (r_SessionID v) \<and> rw_ID r = r_ID v \<and> rw_Status r = r_Status v \<and>
     rw_ProviderID r = r_ProviderID v \<and> rw_ModelID r = r_ModelID v \<and> rw_OwnerID r = r_OwnerID v \<and>
     rw_ClaimToken r = r_ClaimToken v \<and> TimeText (r_CreatedAt v) = rw_CreatedAt r)"

definition messageOK :: "db \<Rightarrow> messageRow \<Rightarrow> bool" where
  "messageOK d r \<longleftrightarrow> (let v = mw_Record r in
     hasSession d (mw_SessionKey r) (m_SessionID v) \<and> hasRun d (mw_RunKey r) (m_RunID v) (mw_SessionKey r) \<and>
     messageRowMatches r v)"

definition partOK :: "db \<Rightarrow> partRow \<Rightarrow> bool" where
  "partOK d r \<longleftrightarrow> (let v = pw_Record r in
     hasSession d (pw_SessionKey r) (p_SessionID v) \<and> hasRun d (pw_RunKey r) (p_RunID v) (pw_SessionKey r) \<and>
     (\<exists>role. hasMessage d (pw_MessageKey r) (p_MessageID v) (pw_SessionKey r) (pw_RunKey r) role) \<and>
     pw_ID r = p_ID v \<and> pw_Ordinal r = p_Ordinal v \<and> pw_Kind r = p_Kind v \<and> marshalPart v = Inr v)"

definition toolOK :: "db \<Rightarrow> toolCallRow \<Rightarrow> bool" where
  "toolOK d r \<longleftrightarrow> (let v = tw_Record r in
     hasSession d (tw_SessionKey r) (tc_SessionID v) \<and> hasRun d (tw_RunKey r) (tc_RunID v) (tw_SessionKey r) \<and>
     (\<exists>role. hasMessage d (tw_RequestMessageKey r) (tc_MessageID v) (tw_SessionKey r) (tw_RunKey r) role) \<and>
     hasPart d (tw_RequestPartKey r) (tc_RequestPartID v) (tw_RequestMessageKey r) (tw_SessionKey r) (tw_RunKey r) \<and>
     tw_ID r = tc_ID v \<and> tw_ResultMessageID r = tc_ResultMessageID v \<and> tw_ResultPartID r = tc_ResultPartID v \<and>
     tw_Status r = tc_Status v \<and> tw_Name r = tc_Name v \<and> tw_ClaimedBy r = tc_ClaimedBy v \<and>
     tw_ClaimToken r = tc_ClaimToken v \<and> tc_MessageID v \<noteq> [] \<and> marshalToolCall v = Inr v)"

definition epochOK :: "db \<Rightarrow> contextEpochRow \<Rightarrow> bool" where
  "epochOK d r \<longleftrightarrow> (let v = ew_Record r in
     hasSession d (ew_SessionKey r) (ce_SessionID v) \<and> ew_ID r = ce_ID v \<and>
     TimeText (ce_CreatedAt v) = ew_CreatedAt r \<and> TimeText (ce_ClosedAt v) = ew_ClosedAt r)"

definition requestOK :: "db \<Rightarrow> modelRequestRow \<Rightarrow> bool" where
  "requestOK d r \<longleftrightarrow> (let v = qw_Record r in
     hasSession d (qw_SessionKey r) (mr_SessionID v) \<and> hasRun d (qw_RunKey r) (mr_RunID v) (qw_SessionKey r) \<and>
     modelRequestRowMatches (r, mr_SessionID v, mr_RunID v) v \<and> modelRequestBytes v \<le> maxModelRequestRecordBytes \<and>
     marshalModelRequest v = Inr v)"

definition turnOK :: "db \<Rightarrow> turnRow \<Rightarrow> bool" where
  "turnOK d r \<longleftrightarrow> (let v = nw_Record r in
     hasSession d (nw_SessionKey r) (t_SessionID v) \<and> hasRun d (nw_RunKey r) (t_RunID v) (nw_SessionKey r) \<and>
     nw_ID r = t_ID v \<and> nw_Ordinal r = t_Ordinal v \<and> nw_State r = t_State v)"

definition inboxOK :: "db \<Rightarrow> inboxRow \<Rightarrow> bool" where
  "inboxOK d r \<longleftrightarrow> (let v = iw_Record r in
     hasSession d (iw_SessionKey r) (ib_SessionID v) \<and> iw_ID r = ib_ID v \<and>
     iw_IdempotencyKey r = ib_IdempotencyKey v \<and> iw_State r = ib_State v \<and> marshalInbox v = Inr v \<and>
     (case iw_TurnKey r of None \<Rightarrow> ib_TurnID v = [] | Some k \<Rightarrow> hasTurn d k (ib_TurnID v)))"

definition checkpointOK :: "db \<Rightarrow> checkpointRow \<Rightarrow> bool" where
  "checkpointOK d r \<longleftrightarrow> (let v = kw_Record r in
     (\<exists>sk. hasRun d (kw_RunKey r) (cp_RunID v) sk) \<and> kw_Revision r = cp_Revision v \<and>
     kw_Promoted r = cp_Promoted v \<and> kw_Bytes r = cp_Bytes v)"

definition eventOK :: "db \<Rightarrow> eventRow \<Rightarrow> bool" where
  "eventOK d r \<longleftrightarrow> (let v = vw_Record r in
     hasSession d (vw_SessionKey r) (ev_SessionID v) \<and> (\<exists>sk. hasRun d (vw_RunKey r) (ev_RunID v) sk) \<and>
     vw_ID r = ev_ID v \<and> vw_Kind r = ev_Kind v \<and> TimeText (ev_CreatedAt v) = vw_CreatedAt r \<and>
     vw_ToolTransition r = (if ev_ToolTransition v = ToolTransitionNone then None else Some (ev_ToolTransition v)) \<and>
     (case vw_ToolKey r of None \<Rightarrow> True | Some k \<Rightarrow> hasTool d k (ev_ToolCallID v)) \<and>
     marshalEvent v = Inr v)"

definition admissionOK :: "db \<Rightarrow> admissionRow \<Rightarrow> bool" where
  "admissionOK d r \<longleftrightarrow>
     (\<exists>i. hasSession d (aw_SessionKey r) i) \<and> (\<exists>i. hasRun d (aw_RunKey r) i (aw_SessionKey r)) \<and>
     (\<exists>i. hasMessage d (aw_UserMessageKey r) i (aw_SessionKey r) (aw_RunKey r) RoleUser) \<and>
     (\<exists>i. hasMessage d (aw_AssistantMessageKey r) i (aw_SessionKey r) (aw_RunKey r) RoleAssistant)"

lemmas rowOK_defs = sessionOK_def runOK_def messageOK_def partOK_def toolOK_def epochOK_def requestOK_def turnOK_def
  inboxOK_def checkpointOK_def eventOK_def admissionOK_def

text \<open>A row stays in order when the database evolves.\<close>

lemma evolves_rowOK:
  assumes "evolves d t"
  shows "runOK d r1 \<Longrightarrow> runOK t r1" "messageOK d r2 \<Longrightarrow> messageOK t r2" "partOK d r3 \<Longrightarrow> partOK t r3"
    "toolOK d r4 \<Longrightarrow> toolOK t r4" "epochOK d r5 \<Longrightarrow> epochOK t r5" "requestOK d r6 \<Longrightarrow> requestOK t r6"
    "turnOK d r7 \<Longrightarrow> turnOK t r7" "inboxOK d r8 \<Longrightarrow> inboxOK t r8" "checkpointOK d r9 \<Longrightarrow> checkpointOK t r9"
    "eventOK d r10 \<Longrightarrow> eventOK t r10" "admissionOK d r11 \<Longrightarrow> admissionOK t r11"
  using evolves_has [OF assms]
  by (auto simp: rowOK_defs Let_def split: option.splits) blast+

section \<open>The invariant\<close>

definition tableWf :: "('r \<Rightarrow> int) \<Rightarrow> ('r \<Rightarrow> bool) \<Rightarrow> ('r \<Rightarrow> bool) \<Rightarrow> ('r list \<Rightarrow> bool) \<Rightarrow> 'r list \<Rightarrow> bool" where
  "tableWf key chk ok uniq rows \<longleftrightarrow> distinct (map key rows) \<and> (\<forall>r \<in> set rows. chk r \<and> ok r) \<and> uniq rows"

definition ordinalsOK :: "turnRow list \<Rightarrow> bool" where
  "ordinalsOK ts \<longleftrightarrow> (\<forall>k. map nw_Ordinal (filter (\<lambda>t. nw_RunKey t = k) ts) =
     map int [1..<Suc (length (filter (\<lambda>t. nw_RunKey t = k) ts))])"

abbreviation sessionsWf :: "sessionRow list \<Rightarrow> bool" where
  "sessionsWf \<equiv> tableWf sw_RowKey (\<lambda>_. True) sessionOK (\<lambda>rs. distinct (map sw_ID rs))"

abbreviation runsWf :: "db \<Rightarrow> runRow list \<Rightarrow> bool" where
  "runsWf d \<equiv> tableWf rw_RowKey runCheck (runOK d) runsUnique"

abbreviation messagesWf :: "db \<Rightarrow> messageRow list \<Rightarrow> bool" where
  "messagesWf d \<equiv> tableWf mw_RowKey messageCheck (messageOK d) (\<lambda>rs. distinct (map mw_ID rs))"

abbreviation partsWf :: "db \<Rightarrow> partRow list \<Rightarrow> bool" where
  "partsWf d \<equiv> tableWf pw_RowKey partCheck (partOK d) (\<lambda>rs. distinct (map pw_ID rs))"

abbreviation toolsWf :: "db \<Rightarrow> toolCallRow list \<Rightarrow> bool" where
  "toolsWf d \<equiv> tableWf tw_RowKey toolCheck (toolOK d) (\<lambda>rs. distinct (map tw_ID rs))"

abbreviation epochsWf :: "db \<Rightarrow> contextEpochRow list \<Rightarrow> bool" where
  "epochsWf d \<equiv> tableWf ew_RowKey (\<lambda>_. True) (epochOK d) (\<lambda>rs. distinct (map ew_ID rs))"

abbreviation requestsWf :: "db \<Rightarrow> modelRequestRow list \<Rightarrow> bool" where
  "requestsWf d \<equiv> tableWf qw_RowKey modelRequestCheck (requestOK d) modelRequestsUnique"

abbreviation turnsWf :: "db \<Rightarrow> turnRow list \<Rightarrow> bool" where
  "turnsWf d \<equiv> tableWf nw_RowKey turnCheck (turnOK d) turnsUnique"

abbreviation inboxWf :: "db \<Rightarrow> inboxRow list \<Rightarrow> bool" where
  "inboxWf d \<equiv> tableWf iw_RowKey inboxCheck (inboxOK d) inboxUnique"

abbreviation checkpointsWf :: "db \<Rightarrow> checkpointRow list \<Rightarrow> bool" where
  "checkpointsWf d \<equiv> tableWf kw_RowKey checkpointCheck (checkpointOK d) checkpointsUnique"

abbreviation eventsWf :: "db \<Rightarrow> eventRow list \<Rightarrow> bool" where
  "eventsWf d \<equiv> tableWf vw_RowKey eventCheck (eventOK d) eventsUnique"

abbreviation admissionsWf :: "db \<Rightarrow> admissionRow list \<Rightarrow> bool" where
  "admissionsWf d \<equiv> tableWf aw_RowKey admissionCheck (admissionOK d) admissionsUnique"

definition wfDb :: "db \<Rightarrow> bool" where
  "wfDb d \<longleftrightarrow>
     sessionsWf (sessions d) \<and>
     runsWf d (runs d) \<and>
     messagesWf d (messages d) \<and>
     partsWf d (parts d) \<and>
     toolsWf d (tool_calls d) \<and>
     epochsWf d (context_epochs d) \<and>
     requestsWf d (model_requests d) \<and>
     turnsWf d (turns d) \<and>
     inboxWf d (inbox d) \<and>
     checkpointsWf d (checkpoints d) \<and>
     eventsWf d (events d) \<and>
     admissionsWf d (admission_receipts d) \<and>
     ordinalsOK (turns d)"

lemma wfD:
  assumes "wfDb d"
  shows "sessionsWf (sessions d)" "runsWf d (runs d)" "messagesWf d (messages d)" "partsWf d (parts d)"
    "toolsWf d (tool_calls d)" "epochsWf d (context_epochs d)" "requestsWf d (model_requests d)" "turnsWf d (turns d)"
    "inboxWf d (inbox d)" "checkpointsWf d (checkpoints d)" "eventsWf d (events d)" "admissionsWf d (admission_receipts d)"
    "ordinalsOK (turns d)"
  using assms unfolding wfDb_def by simp_all

definition quiet :: "int \<Rightarrow> db \<Rightarrow> bool" where
  "quiet k d \<longleftrightarrow> (\<forall>r \<in> set (runs d). rw_RowKey r = k \<longrightarrow> terminalRow r \<longrightarrow>
     (\<forall>t \<in> set (turns d). nw_RunKey t = k \<longrightarrow> finalTurn (nw_State t)) \<and>
     (\<forall>t \<in> set (tool_calls d). tw_RunKey t = k \<longrightarrow> \<not> unfinishedTool (tw_Status t)))"

definition inv :: "int set \<Rightarrow> db \<Rightarrow> bool" where
  "inv K d \<longleftrightarrow> wfDb d \<and> (\<forall>k. k \<notin> K \<longrightarrow> quiet k d)"

text \<open>What an operation started in \<open>d\<close> may have reached.\<close>

definition keeps :: "int set \<Rightarrow> db \<Rightarrow> db \<Rightarrow> bool" where
  "keeps K d t \<longleftrightarrow> inv K t \<and> evolves d t"

lemma keeps_refl: "inv K d \<Longrightarrow> keeps K d d"
  by (simp add: keeps_def)

lemma keeps_trans: "keeps K d t \<Longrightarrow> keeps K t u \<Longrightarrow> keeps K d u"
  by (auto simp: keeps_def intro: evolves_trans)

lemma keeps_inv: "keeps K d t \<Longrightarrow> inv K t"
  by (simp add: keeps_def)

lemma inv_wf: "inv K d \<Longrightarrow> wfDb d"
  by (simp add: inv_def)

text \<open>A step in the middle of an operation.\<close>

lemma wp_keeps:
  assumes "wpE m (\<lambda>x u. keeps K t u \<and> R x u) t" and "keeps K s t"
    and "\<And>x u. keeps K s u \<Longrightarrow> R x u \<Longrightarrow> wpE (f x) Q u"
  shows "wpE (bindE m f) Q t"
  unfolding wp_bind using assms(1) by (rule wpE_mono) (use assms(2,3) keeps_trans in blast)

lemma wp_keeps_then:
  assumes "wpE m (\<lambda>x u. keeps K t u \<and> R x u) t" and "keeps K s t"
    and "\<And>x u. keeps K s u \<Longrightarrow> R x u \<Longrightarrow> wpE n Q u"
  shows "wpE (thenE m n) Q t"
  unfolding thenE_def by (rule wp_keeps [OF assms(1,2)]) (use assms(3) in blast)

section \<open>Tables\<close>

lemma tableWf_append:
  assumes "tableWf key chk ok uniq rows" and "row = mk (freshKey (map key rows))"
    and "\<And>k. key (mk k) = k" and "chk row" and "ok row" and "uniq (rows @ [row])"
  shows "tableWf key chk ok uniq (rows @ [row])"
  using assms freshKey_notin [of "map key rows"] by (auto simp: tableWf_def)

lemma tableWf_mono:
  assumes "tableWf key chk ok uniq rows" and "\<And>r. r \<in> set rows \<Longrightarrow> ok r \<Longrightarrow> ok' r"
  shows "tableWf key chk ok' uniq rows"
  using assms by (auto simp: tableWf_def)

lemma tableWf_update:
  assumes "tableWf key chk ok uniq rows" and "\<And>r. P r \<Longrightarrow> key (f r) = key r"
    and "list_all chk (updateWhere P f rows)" and "uniq (updateWhere P f rows)"
    and "\<And>r. r \<in> set rows \<Longrightarrow> P r \<Longrightarrow> ok (f r)"
  shows "tableWf key chk ok uniq (updateWhere P f rows)"
  using assms by (auto simp: tableWf_def map_updateWhere set_updateWhere list_all_iff)

lemma tableWf_key:
  "tableWf key chk ok uniq rows \<Longrightarrow> r \<in> set rows \<Longrightarrow> s \<in> set rows \<Longrightarrow> key r = key s \<Longrightarrow> r = s"
  unfolding tableWf_def by (metis distinct_map inj_onD)

text \<open>When rows are only added to or changed in one table, the others stay well formed.\<close>

lemma wf_extend:
  assumes w: "wfDb d" and e: "evolves d t"
    and same: "sessions t = sessions d \<or> sessionsWf (sessions t)"
      "runs t = runs d \<or> runsWf t (runs t)"
      "messages t = messages d \<or> messagesWf t (messages t)"
      "parts t = parts d \<or> partsWf t (parts t)"
      "tool_calls t = tool_calls d \<or> toolsWf t (tool_calls t)"
      "context_epochs t = context_epochs d \<or> epochsWf t (context_epochs t)"
      "model_requests t = model_requests d \<or> requestsWf t (model_requests t)"
      "turns t = turns d \<or> turnsWf t (turns t) \<and> ordinalsOK (turns t)"
      "inbox t = inbox d \<or> inboxWf t (inbox t)"
      "checkpoints t = checkpoints d \<or> checkpointsWf t (checkpoints t)"
      "events t = events d \<or> eventsWf t (events t)"
      "admission_receipts t = admission_receipts d \<or> admissionsWf t (admission_receipts t)"
  shows "wfDb t"
proof -
  note ok = evolves_rowOK [OF e]
  have old: "runsWf t (runs d)"
    "messagesWf t (messages d)"
    "partsWf t (parts d)"
    "toolsWf t (tool_calls d)"
    "epochsWf t (context_epochs d)"
    "requestsWf t (model_requests d)"
    "turnsWf t (turns d)"
    "inboxWf t (inbox d)"
    "checkpointsWf t (checkpoints d)"
    "eventsWf t (events d)"
    "admissionsWf t (admission_receipts d)"
    by (rule tableWf_mono, rule wfD [OF w], erule ok)+
  have "sessionsWf (sessions t)" using same(1) wfD(1) [OF w] by (elim disjE) simp_all
  moreover have "runsWf t (runs t)" using same(2) old(1) by (elim disjE) simp_all
  moreover have "messagesWf t (messages t)" using same(3) old(2) by (elim disjE) simp_all
  moreover have "partsWf t (parts t)" using same(4) old(3) by (elim disjE) simp_all
  moreover have "toolsWf t (tool_calls t)" using same(5) old(4) by (elim disjE) simp_all
  moreover have "epochsWf t (context_epochs t)" using same(6) old(5) by (elim disjE) simp_all
  moreover have "requestsWf t (model_requests t)" using same(7) old(6) by (elim disjE) simp_all
  moreover have "turnsWf t (turns t)" "ordinalsOK (turns t)" using same(8) old(7) wfD(13) [OF w] by auto
  moreover have "inboxWf t (inbox t)" using same(9) old(8) by (elim disjE) simp_all
  moreover have "checkpointsWf t (checkpoints t)" using same(10) old(9) by (elim disjE) simp_all
  moreover have "eventsWf t (events t)" using same(11) old(10) by (elim disjE) simp_all
  moreover have "admissionsWf t (admission_receipts t)" using same(12) old(11) by (elim disjE) simp_all
  ultimately show ?thesis unfolding wfDb_def by simp
qed

section \<open>The contract of a table\<close>

text \<open>
  \<open>get\<close> and \<open>upd\<close> access one table of the database. A statement on it keeps the whole
  database well formed when the rows it writes are in order and follow the table's row
  relation, and \<open>ext\<close>, what \<open>wfDb\<close> asks beyond the schema, holds afterwards.
\<close>

locale storeTable = rowOrder rowStep for rowStep :: "'r \<Rightarrow> 'r \<Rightarrow> bool" +
  fixes get :: "db \<Rightarrow> 'r list" and upd :: "('r list \<Rightarrow> 'r list) \<Rightarrow> db \<Rightarrow> db" and key :: "'r \<Rightarrow> int"
    and chk :: "'r \<Rightarrow> bool" and ok :: "db \<Rightarrow> 'r \<Rightarrow> bool" and uniq :: "'r list \<Rightarrow> bool" and ext :: "'r list \<Rightarrow> bool"
  assumes upd_evolves: "grows rowStep (get d) (f (get d)) \<Longrightarrow> evolves d (upd f d)"
    and upd_wf: "wfDb d \<Longrightarrow> evolves d (upd f d) \<Longrightarrow> tableWf key chk (ok (upd f d)) uniq (f (get d)) \<Longrightarrow> ext (f (get d)) \<Longrightarrow>
      wfDb (upd f d)"
    and ok_mono: "evolves d t \<Longrightarrow> ok d r \<Longrightarrow> ok t r"
    and table_wf: "wfDb d \<Longrightarrow> tableWf key chk (ok d) uniq (get d)"
begin

lemma insert_wf:
  assumes w: "wfDb d" and k: "\<And>k. key (mk k) = k" and ok: "\<And>k. ok d (mk k)"
    and ext: "\<And>k. ext (get d @ [mk k])"
  shows "wpE (insertT get upd key chk uniq mk) (\<lambda>b t. wfDb t \<and> evolves d t \<and>
    (if b then t = upd (\<lambda>rs. rs @ [mk (freshKey (map key (get d)))]) d else t = d)) d"
proof -
  let ?row = "mk (freshKey (map key (get d)))" and ?f = "\<lambda>rs. rs @ [mk (freshKey (map key (get d)))]"
  have e: "evolves d (upd ?f d)" by (rule upd_evolves) (rule grows_append)
  have "wfDb (upd ?f d)" if c: "chk ?row" "uniq (get d @ [?row])"
  proof (rule upd_wf [OF w e])
    have "tableWf key chk (ok (upd ?f d)) uniq (get d)"
      by (rule tableWf_mono [OF table_wf [OF w]]) (erule ok_mono [OF e])
    then show "tableWf key chk (ok (upd ?f d)) uniq (get d @ [?row])"
      by (rule tableWf_append [where mk = mk]) (simp_all add: k c ok_mono [OF e ok])
  qed (rule ext)
  with w e show ?thesis by (simp add: wp_insertT Let_def)
qed

lemma update_wf:
  assumes w: "wfDb d" and k: "\<And>r. P r \<Longrightarrow> key (f r) = key r" and ok: "\<And>r. r \<in> set (get d) \<Longrightarrow> P r \<Longrightarrow> ok d (f r)"
    and R: "\<And>r. r \<in> set (get d) \<Longrightarrow> P r \<Longrightarrow> rowStep r (f r)" and ext: "ext (updateWhere P f (get d))"
  shows "wpE (updateT get upd chk uniq P f) (\<lambda>n t. wfDb t \<and> evolves d t \<and> n = countWhere P (get d) \<and>
    t = upd (updateWhere P f) d) d"
proof -
  have e: "evolves d (upd (updateWhere P f) d)" by (rule upd_evolves, rule grows_update) (rule R)
  have "wfDb (upd (updateWhere P f) d)" if c: "list_all chk (updateWhere P f (get d))" "uniq (updateWhere P f (get d))"
  proof (rule upd_wf [OF w e])
    have "tableWf key chk (ok (upd (updateWhere P f) d)) uniq (get d)"
      by (rule tableWf_mono [OF table_wf [OF w]]) (erule ok_mono [OF e])
    then show "tableWf key chk (ok (upd (updateWhere P f) d)) uniq (updateWhere P f (get d))"
      by (rule tableWf_update) (use c k ok_mono [OF e ok] in auto)
  qed (rule ext)
  with w e show ?thesis by (simp add: wp_updateT)
qed

end

interpretation sessionT: storeTable sessionStep sessions sessions_update sw_RowKey "\<lambda>_. True" "\<lambda>_. sessionOK"
  "\<lambda>rs. distinct (map sw_ID rs)" "\<lambda>_. True"
  by unfold_locales (simp add: evolves_def, erule (1) wf_extend, simp_all add: wfD evolves_rowOK)

interpretation runT: storeTable runStep runs runs_update rw_RowKey runCheck runOK runsUnique "\<lambda>_. True"
  by unfold_locales (simp add: evolves_def, erule (1) wf_extend, simp_all add: wfD evolves_rowOK)

interpretation messageT: storeTable messageStep messages messages_update mw_RowKey messageCheck messageOK
  "\<lambda>rs. distinct (map mw_ID rs)" "\<lambda>_. True"
  by unfold_locales (simp add: evolves_def, erule (1) wf_extend, simp_all add: wfD evolves_rowOK)

interpretation partT: storeTable partStep parts parts_update pw_RowKey partCheck partOK "\<lambda>rs. distinct (map pw_ID rs)" "\<lambda>_. True"
  by unfold_locales (simp add: evolves_def, erule (1) wf_extend, simp_all add: wfD evolves_rowOK)

interpretation toolT: storeTable toolStep tool_calls tool_calls_update tw_RowKey toolCheck toolOK
  "\<lambda>rs. distinct (map tw_ID rs)" "\<lambda>_. True"
  by unfold_locales (simp add: evolves_def, erule (1) wf_extend, simp_all add: wfD evolves_rowOK)

interpretation epochT: storeTable epochStep context_epochs context_epochs_update ew_RowKey "\<lambda>_. True" epochOK
  "\<lambda>rs. distinct (map ew_ID rs)" "\<lambda>_. True"
  by unfold_locales (simp add: evolves_def, erule (1) wf_extend, simp_all add: wfD evolves_rowOK)

interpretation requestT: storeTable requestStep model_requests model_requests_update qw_RowKey modelRequestCheck requestOK
  modelRequestsUnique "\<lambda>_. True"
  by unfold_locales (simp add: evolves_def, erule (1) wf_extend, simp_all add: wfD evolves_rowOK)

interpretation turnT: storeTable turnStep turns turns_update nw_RowKey turnCheck turnOK turnsUnique ordinalsOK
  by unfold_locales (simp add: evolves_def, erule (1) wf_extend, simp_all add: wfD evolves_rowOK)

interpretation inboxT: storeTable inboxStep inbox inbox_update iw_RowKey inboxCheck inboxOK inboxUnique "\<lambda>_. True"
  by unfold_locales (simp add: evolves_def, erule (1) wf_extend, simp_all add: wfD evolves_rowOK)

interpretation eventT: storeTable "(=)" events events_update vw_RowKey eventCheck eventOK eventsUnique "\<lambda>_. True"
  by unfold_locales (simp add: evolves_def, erule (1) wf_extend, simp_all add: wfD evolves_rowOK)

interpretation admissionT: storeTable "(=)" admission_receipts admission_receipts_update aw_RowKey admissionCheck admissionOK
  admissionsUnique "\<lambda>_. True"
  by unfold_locales (simp add: evolves_def, erule (1) wf_extend, simp_all add: wfD evolves_rowOK)

text \<open>Checkpoints are promoted and retired: any change of the table is an evolution.\<close>

interpretation checkpointT: storeTable "\<lambda>_ _. True" checkpoints checkpoints_update kw_RowKey checkpointCheck checkpointOK
  checkpointsUnique "\<lambda>_. True"
  by unfold_locales (simp, simp, simp add: evolves_def, erule (1) wf_extend, simp_all add: wfD evolves_rowOK)

end
