(* ===== verification/StoreSteps.thy ===== *)
theory StoreSteps
  imports StoreWf
begin

text \<open>
  What each statement of the store keeps, in the form the operations use: started in a database
  that satisfies \<open>inv K\<close>, the statement leads to one that does (\<open>keeps\<close>), and says which rows
  it wrote. Only statements on runs, turns and tool calls can disturb a quiet run.
\<close>

section \<open>Tables that leave runs quiet\<close>

locale quietTable = storeTable +
  assumes upd_quiet: "quiet k (upd f d) = quiet k d"
begin

lemma insert_keeps:
  assumes "inv K d" and "\<And>k. key (mk k) = k" and "\<And>k. ok d (mk k)" and "\<And>k. ext (get d @ [mk k])"
  shows "wpE (insertT get upd key chk uniq mk) (\<lambda>b t. keeps K d t \<and>
    (if b then t = upd (\<lambda>rs. rs @ [mk (freshKey (map key (get d)))]) d else t = d)) d"
  using insert_wf [of d mk] assms
  by (auto simp: keeps_def inv_def upd_quiet elim!: wpE_mono split: if_split_asm)

lemma update_keeps:
  assumes "inv K d" and "\<And>r. P r \<Longrightarrow> key (f r) = key r" and "\<And>r. r \<in> set (get d) \<Longrightarrow> P r \<Longrightarrow> ok d (f r)"
    and "\<And>r. r \<in> set (get d) \<Longrightarrow> P r \<Longrightarrow> rowStep r (f r)" and "ext (updateWhere P f (get d))"
  shows "wpE (updateT get upd chk uniq P f) (\<lambda>n t. keeps K d t \<and> n = countWhere P (get d) \<and>
    t = upd (updateWhere P f) d) d"
  using update_wf [of d P f] assms by (auto simp: keeps_def inv_def upd_quiet elim!: wpE_mono)

end

interpretation sessionQ: quietTable sessionStep sessions sessions_update sw_RowKey "\<lambda>_. True" "\<lambda>_. sessionOK"
  "\<lambda>rs. distinct (map sw_ID rs)" "\<lambda>_. True"
  by unfold_locales (simp add: quiet_def)

interpretation messageQ: quietTable messageStep messages messages_update mw_RowKey messageCheck messageOK
  "\<lambda>rs. distinct (map mw_ID rs)" "\<lambda>_. True"
  by unfold_locales (simp add: quiet_def)

interpretation partQ: quietTable partStep parts parts_update pw_RowKey partCheck partOK
  "\<lambda>rs. distinct (map pw_ID rs)" "\<lambda>_. True"
  by unfold_locales (simp add: quiet_def)

interpretation epochQ: quietTable epochStep context_epochs context_epochs_update ew_RowKey "\<lambda>_. True" epochOK
  "\<lambda>rs. distinct (map ew_ID rs)" "\<lambda>_. True"
  by unfold_locales (simp add: quiet_def)

interpretation requestQ: quietTable requestStep model_requests model_requests_update qw_RowKey modelRequestCheck
  requestOK modelRequestsUnique "\<lambda>_. True"
  by unfold_locales (simp add: quiet_def)

interpretation inboxQ: quietTable inboxStep inbox inbox_update iw_RowKey inboxCheck inboxOK inboxUnique "\<lambda>_. True"
  by unfold_locales (simp add: quiet_def)

interpretation eventQ: quietTable "(=)" events events_update vw_RowKey eventCheck eventOK eventsUnique "\<lambda>_. True"
  by unfold_locales (simp add: quiet_def)

interpretation admissionQ: quietTable "(=)" admission_receipts admission_receipts_update aw_RowKey admissionCheck
  admissionOK admissionsUnique "\<lambda>_. True"
  by unfold_locales (simp add: quiet_def)

interpretation checkpointQ: quietTable "\<lambda>_ _. True" checkpoints checkpoints_update kw_RowKey checkpointCheck
  checkpointOK checkpointsUnique "\<lambda>_. True"
  by unfold_locales (simp add: quiet_def)

lemmas keeps_insertSession = sessionQ.insert_keeps [folded insertSession_def, simplified]
lemmas keeps_updateSessions = sessionQ.update_keeps [folded updateSessions_def, simplified]
lemmas keeps_insertMessage = messageQ.insert_keeps [folded insertMessage_def, simplified]
lemmas keeps_updateMessages = messageQ.update_keeps [folded updateMessages_def, simplified]
lemmas keeps_insertPart = partQ.insert_keeps [folded insertPart_def, simplified]
lemmas keeps_updateParts = partQ.update_keeps [folded updateParts_def, simplified]
lemmas keeps_insertEpoch = epochQ.insert_keeps [folded insertEpoch_def, simplified]
lemmas keeps_updateEpochs = epochQ.update_keeps [folded updateEpochs_def, simplified]
lemmas keeps_insertModelRequest = requestQ.insert_keeps [folded insertModelRequest_def, simplified]
lemmas keeps_updateModelRequests = requestQ.update_keeps [folded updateModelRequests_def, simplified]
lemmas keeps_insertInbox = inboxQ.insert_keeps [folded insertInbox_def, simplified]
lemmas keeps_updateInbox = inboxQ.update_keeps [folded updateInbox_def, simplified]
lemmas keeps_insertCheckpoint = checkpointQ.insert_keeps [folded insertCheckpoint_def, simplified]
lemmas keeps_updateCheckpoints = checkpointQ.update_keeps [folded updateCheckpoints_def, simplified]
lemmas keeps_insertEventRow = eventQ.insert_keeps [folded insertEventRow_def, simplified]
lemmas keeps_insertAdmission = admissionQ.insert_keeps [folded insertAdmission_def, simplified]

section \<open>Runs\<close>

text \<open>A turn or a tool call always belongs to a run of the table, so a new run starts quiet.\<close>

lemma wf_turn_run:
  assumes "wfDb d" and "t \<in> set (turns d)"
  shows "\<exists>r \<in> set (runs d). rw_RowKey r = nw_RunKey t \<and> rw_ID r = t_RunID (nw_Record t) \<and> rw_SessionKey r = nw_SessionKey t"
  using wfD(8) [OF assms(1)] assms(2) by (auto simp: tableWf_def turnOK_def hasRun_def Let_def)

lemma wf_tool_run:
  assumes "wfDb d" and "t \<in> set (tool_calls d)"
  shows "\<exists>r \<in> set (runs d). rw_RowKey r = tw_RunKey t \<and> rw_ID r = tc_RunID (tw_Record t) \<and> rw_SessionKey r = tw_SessionKey t"
  using wfD(5) [OF assms(1)] assms(2) by (auto simp: tableWf_def toolOK_def hasRun_def Let_def)

lemma quiet_insert_run:
  assumes w: "wfDb d" and q: "quiet k d" and r: "rw_RowKey row = freshKey (map rw_RowKey (runs d))"
  shows "quiet k (runs_update (\<lambda>rs. rs @ [row]) d)"
proof (cases "k = rw_RowKey row")
  case True
  have "nw_RunKey t \<noteq> k" if "t \<in> set (turns d)" for t
    using wf_turn_run [OF w that] freshKey_notin [of "map rw_RowKey (runs d)"] True r by force
  moreover have "tw_RunKey t \<noteq> k" if "t \<in> set (tool_calls d)" for t
    using wf_tool_run [OF w that] freshKey_notin [of "map rw_RowKey (runs d)"] True r by force
  ultimately show ?thesis by (simp add: quiet_def)
next
  case False
  with q show ?thesis by (simp add: quiet_def)
qed

lemma keeps_insertRun:
  assumes i: "inv K d" and k: "\<And>k. rw_RowKey (mk k) = k" and ok: "\<And>k. runOK d (mk k)"
  shows "wpE (insertRun mk) (\<lambda>b t. keeps K d t \<and>
    (if b then t = runs_update (\<lambda>rs. rs @ [mk (freshKey (map rw_RowKey (runs d)))]) d else t = d)) d"
proof -
  have w: "wfDb d" using i by (rule inv_wf)
  show ?thesis
    unfolding insertRun_def
    by (rule wpE_mono, rule runT.insert_wf [OF w k ok])
      (use i k quiet_insert_run [OF w] in \<open>auto simp: keeps_def inv_def split: if_split_asm\<close>)
qed

lemma keeps_updateRuns:
  assumes i: "inv K d" and k: "\<And>r. P r \<Longrightarrow> rw_RowKey (f r) = rw_RowKey r"
    and ok: "\<And>r. r \<in> set (runs d) \<Longrightarrow> P r \<Longrightarrow> runOK d (f r)"
    and st: "\<And>r. r \<in> set (runs d) \<Longrightarrow> P r \<Longrightarrow> runStep r (f r)"
    and trm: "\<And>r. r \<in> set (runs d) \<Longrightarrow> P r \<Longrightarrow> terminalRow (f r) \<Longrightarrow> terminalRow r \<or> rw_RowKey r \<in> K"
  shows "wpE (updateRuns P f) (\<lambda>n t. keeps K d t \<and> n = countWhere P (runs d) \<and>
    t = runs_update (updateWhere P f) d) d"
proof -
  have q: "quiet k (runs_update (updateWhere P f) d)" if "k \<notin> K" for k
  proof -
    have "terminalRow r" if "r \<in> set (runs d)" "rw_RowKey r = k" "P r" "terminalRow (f r)" for r
      using trm [OF that(1,3,4)] that(2) \<open>k \<notin> K\<close> by auto
    moreover have "quiet k d" using i \<open>k \<notin> K\<close> by (simp add: inv_def)
    ultimately show ?thesis
      using k by (auto simp: quiet_def set_updateWhere split: if_split_asm)
  qed
  show ?thesis
    unfolding updateRuns_def
    by (rule wpE_mono, rule runT.update_wf [OF inv_wf [OF i] k ok st])
      (use q in \<open>auto simp: keeps_def inv_def\<close>)
qed

section \<open>Turns and tool calls\<close>

text \<open>A run that can still get turns and tool calls.\<close>

definition liveKey :: "int \<Rightarrow> db \<Rightarrow> bool" where
  "liveKey k d \<longleftrightarrow> (\<forall>r \<in> set (runs d). rw_RowKey r = k \<longrightarrow> \<not> terminalRow r)"

lemma keeps_insertTurn:
  assumes i: "inv K d" and k: "\<And>k. nw_RowKey (mk k) = k" and ok: "\<And>k. turnOK d (mk k)"
    and o: "\<And>k. ordinalsOK (turns d @ [mk k])" and live: "\<And>k. liveKey (nw_RunKey (mk k)) d"
  shows "wpE (insertTurn mk) (\<lambda>b t. keeps K d t \<and>
    (if b then t = turns_update (\<lambda>rs. rs @ [mk (freshKey (map nw_RowKey (turns d)))]) d else t = d)) d"
proof -
  have q: "quiet k (turns_update (\<lambda>rs. rs @ [mk j]) d)" if "quiet k d" for k j
    using that live [of j] by (auto simp: quiet_def liveKey_def)
  show ?thesis
    unfolding insertTurn_def
    by (rule wpE_mono, rule turnT.insert_wf [OF inv_wf [OF i] k ok o])
      (use i q in \<open>auto simp: keeps_def inv_def split: if_split_asm\<close>)
qed

lemma keeps_updateTurns:
  assumes i: "inv K d" and k: "\<And>r. P r \<Longrightarrow> nw_RowKey (f r) = nw_RowKey r"
    and ok: "\<And>r. r \<in> set (turns d) \<Longrightarrow> P r \<Longrightarrow> turnOK d (f r)"
    and st: "\<And>r. r \<in> set (turns d) \<Longrightarrow> P r \<Longrightarrow> turnStep r (f r)"
    and ids: "\<And>r. P r \<Longrightarrow> nw_RunKey (f r) = nw_RunKey r \<and> nw_Ordinal (f r) = nw_Ordinal r"
  shows "wpE (updateTurns P f) (\<lambda>n t. keeps K d t \<and> n = countWhere P (turns d) \<and>
    t = turns_update (updateWhere P f) d) d"
proof -
  have "map nw_Ordinal (filter (\<lambda>t. nw_RunKey t = k) (updateWhere P f ts)) = map nw_Ordinal (filter (\<lambda>t. nw_RunKey t = k) ts)" for k ts
    using ids by (induction ts) (auto simp: updateWhere_def)
  moreover have "length (filter (\<lambda>t. nw_RunKey t = k) (updateWhere P f ts)) = length (filter (\<lambda>t. nw_RunKey t = k) ts)" for k ts
    using ids by (induction ts) (auto simp: updateWhere_def)
  ultimately have o: "ordinalsOK (updateWhere P f (turns d))"
    using wfD(13) [OF inv_wf [OF i]] by (simp add: ordinalsOK_def)
  have q: "quiet k (turns_update (updateWhere P f) d)" if "quiet k d" for k
    unfolding quiet_def
  proof (intro ballI impI conjI)
    fix r t assume r: "r \<in> set (runs (turns_update (updateWhere P f) d))" "rw_RowKey r = k" "terminalRow r"
    {
      assume t: "t \<in> set (turns (turns_update (updateWhere P f) d))" "nw_RunKey t = k"
      then obtain s where s: "s \<in> set (turns d)" "t = (if P s then f s else s)" by (auto simp: set_updateWhere)
      then have "nw_RunKey s = k" using t ids by (auto split: if_split_asm)
      with s r that have "finalTurn (nw_State s)" by (auto simp: quiet_def)
      with s st [OF s(1)] show "finalTurn (nw_State t)" by (auto simp: turnStep_def)
    }
  qed (use that in \<open>auto simp: quiet_def\<close>)
  show ?thesis
    unfolding updateTurns_def
    by (rule wpE_mono, rule turnT.update_wf [OF inv_wf [OF i] k ok st o])
      (use i q in \<open>auto simp: keeps_def inv_def\<close>)
qed

lemma keeps_insertTool:
  assumes i: "inv K d" and k: "\<And>k. tw_RowKey (mk k) = k" and ok: "\<And>k. toolOK d (mk k)"
    and live: "\<And>k. liveKey (tw_RunKey (mk k)) d"
  shows "wpE (insertTool mk) (\<lambda>b t. keeps K d t \<and>
    (if b then t = tool_calls_update (\<lambda>rs. rs @ [mk (freshKey (map tw_RowKey (tool_calls d)))]) d else t = d)) d"
proof -
  have q: "quiet k (tool_calls_update (\<lambda>rs. rs @ [mk j]) d)" if "quiet k d" for k j
    using that live [of j] by (auto simp: quiet_def liveKey_def)
  show ?thesis
    unfolding insertTool_def
    by (rule wpE_mono, rule toolT.insert_wf [OF inv_wf [OF i] k ok])
      (use i q in \<open>auto simp: keeps_def inv_def split: if_split_asm\<close>)
qed

lemma keeps_updateTools:
  assumes i: "inv K d" and k: "\<And>r. P r \<Longrightarrow> tw_RowKey (f r) = tw_RowKey r"
    and ok: "\<And>r. r \<in> set (tool_calls d) \<Longrightarrow> P r \<Longrightarrow> toolOK d (f r)"
    and st: "\<And>r. r \<in> set (tool_calls d) \<Longrightarrow> P r \<Longrightarrow> toolStep r (f r)"
  shows "wpE (updateTools P f) (\<lambda>n t. keeps K d t \<and> n = countWhere P (tool_calls d) \<and>
    t = tool_calls_update (updateWhere P f) d) d"
proof -
  have q: "quiet k (tool_calls_update (updateWhere P f) d)" if "quiet k d" for k
    unfolding quiet_def
  proof (intro ballI impI conjI)
    fix r t assume r: "r \<in> set (runs (tool_calls_update (updateWhere P f) d))" "rw_RowKey r = k" "terminalRow r"
    {
      assume t: "t \<in> set (tool_calls (tool_calls_update (updateWhere P f) d))" "tw_RunKey t = k"
      then obtain s where s: "s \<in> set (tool_calls d)" "t = (if P s then f s else s)" by (auto simp: set_updateWhere)
      then have "tw_RunKey s = k" using t st [OF s(1)] by (auto simp: toolStep_def split: if_split_asm)
      with s r that have "\<not> unfinishedTool (tw_Status s)" by (auto simp: quiet_def)
      with s st [OF s(1)] show "\<not> unfinishedTool (tw_Status t)" by (auto simp: toolStep_def)
    }
  qed (use that in \<open>auto simp: quiet_def\<close>)
  show ?thesis
    unfolding updateTools_def
    by (rule wpE_mono, rule toolT.update_wf [OF inv_wf [OF i] k ok st])
      (use i q in \<open>auto simp: keeps_def inv_def\<close>)
qed

end
