(* ===== verification/StoreReads.thy ===== *)
theory StoreReads
  imports StoreSteps
begin

text \<open>
  What a read tells about a well-formed database: which row it found, that the rows a record
  names exist, and that the row's columns are the record's.
\<close>

section \<open>Keys and references\<close>

lemma sessionKeyOf_has: "sessionKeyOf i d = Inr k \<Longrightarrow> hasSession d k i"
  by (auto simp: sessionKeyOf_def hasSession_def dest!: keyIn_Inr)

lemma runKeyOf_has: "runKeyOf i d = Inr k \<Longrightarrow> \<exists>sk. hasRun d k i sk"
  by (auto simp: runKeyOf_def hasRun_def dest!: keyIn_Inr)

lemma messageKeyOf_has: "messageKeyOf i d = Inr k \<Longrightarrow> \<exists>sk rk role. hasMessage d k i sk rk role"
  by (auto simp: messageKeyOf_def hasMessage_def dest!: keyIn_Inr)

lemma partKeyOf_has: "partKeyOf i d = Inr k \<Longrightarrow> \<exists>mk sk rk. hasPart d k i mk sk rk"
  by (auto simp: partKeyOf_def hasPart_def dest!: keyIn_Inr)

lemma toolKeyOf_has: "toolKeyOf i d = Inr k \<Longrightarrow> hasTool d k i"
  by (auto simp: toolKeyOf_def hasTool_def dest!: keyIn_Inr)

lemma turnKeyOf_has: "turnKeyOf i d = Inr k \<Longrightarrow> hasTurn d k i"
  by (auto simp: turnKeyOf_def hasTurn_def dest!: keyIn_Inr)

lemma distinct_map_eq: "distinct (map k xs) \<Longrightarrow> x \<in> set xs \<Longrightarrow> y \<in> set xs \<Longrightarrow> k x = k y \<Longrightarrow> x = y"
  by (metis distinct_map inj_onD)

text \<open>Rows are the same when their keys or their ids are.\<close>

lemma wf_distinct:
  assumes "wfDb d"
  shows "distinct (map sw_RowKey (sessions d))" "distinct (map sw_ID (sessions d))"
    "distinct (map rw_RowKey (runs d))" "distinct (map rw_ID (runs d))"
    "distinct (map mw_RowKey (messages d))" "distinct (map mw_ID (messages d))"
    "distinct (map pw_RowKey (parts d))" "distinct (map pw_ID (parts d))"
    "distinct (map tw_RowKey (tool_calls d))" "distinct (map tw_ID (tool_calls d))"
    "distinct (map nw_RowKey (turns d))" "distinct (map nw_ID (turns d))"
    "distinct (map iw_RowKey (inbox d))" "distinct (map iw_ID (inbox d))"
    "distinct (map qw_RowKey (model_requests d))" "distinct (map qw_ID (model_requests d))"
    "distinct (map vw_RowKey (events d))" "distinct (map vw_ID (events d))"
    "distinct (map kw_RowKey (checkpoints d))" "distinct (map ew_ID (context_epochs d))"
  using wfD [OF assms]
  by (simp_all add: tableWf_def runsUnique_def turnsUnique_def inboxUnique_def modelRequestsUnique_def eventsUnique_def)

lemma wf_rows:
  assumes "wfDb d"
  shows "\<And>r. r \<in> set (sessions d) \<Longrightarrow> sessionOK r" "\<And>r. r \<in> set (runs d) \<Longrightarrow> runOK d r"
    "\<And>r. r \<in> set (messages d) \<Longrightarrow> messageOK d r" "\<And>r. r \<in> set (parts d) \<Longrightarrow> partOK d r"
    "\<And>r. r \<in> set (tool_calls d) \<Longrightarrow> toolOK d r" "\<And>r. r \<in> set (context_epochs d) \<Longrightarrow> epochOK d r"
    "\<And>r. r \<in> set (model_requests d) \<Longrightarrow> requestOK d r" "\<And>r. r \<in> set (turns d) \<Longrightarrow> turnOK d r"
    "\<And>r. r \<in> set (inbox d) \<Longrightarrow> inboxOK d r" "\<And>r. r \<in> set (checkpoints d) \<Longrightarrow> checkpointOK d r"
    "\<And>r. r \<in> set (events d) \<Longrightarrow> eventOK d r" "\<And>r. r \<in> set (admission_receipts d) \<Longrightarrow> admissionOK d r"
  using wfD [OF assms] by (simp_all add: tableWf_def)

lemma hasSession_unique:
  "wfDb d \<Longrightarrow> hasSession d k i \<Longrightarrow> hasSession d k j \<Longrightarrow> i = j"
  "wfDb d \<Longrightarrow> hasSession d k i \<Longrightarrow> hasSession d l i \<Longrightarrow> k = l"
  unfolding hasSession_def by (metis distinct_map_eq wf_distinct(1), metis distinct_map_eq wf_distinct(2))

lemma hasRun_unique:
  "wfDb d \<Longrightarrow> hasRun d k i sk \<Longrightarrow> hasRun d k j sl \<Longrightarrow> i = j \<and> sk = sl"
  "wfDb d \<Longrightarrow> hasRun d k i sk \<Longrightarrow> hasRun d l i sl \<Longrightarrow> k = l \<and> sk = sl"
  unfolding hasRun_def by (metis distinct_map_eq wf_distinct(3), metis distinct_map_eq wf_distinct(4))

lemma hasMessage_unique:
  "wfDb d \<Longrightarrow> hasMessage d k i sk rk ro \<Longrightarrow> hasMessage d k j sl rl rp \<Longrightarrow> i = j \<and> sk = sl \<and> rk = rl \<and> ro = rp"
  unfolding hasMessage_def by (metis distinct_map_eq wf_distinct(5))

lemma hasPart_unique:
  "wfDb d \<Longrightarrow> hasPart d k i mk sk rk \<Longrightarrow> hasPart d k j ml sl rl \<Longrightarrow> i = j \<and> mk = ml \<and> sk = sl \<and> rk = rl"
  unfolding hasPart_def by (metis distinct_map_eq wf_distinct(7))

lemma hasTool_unique: "wfDb d \<Longrightarrow> hasTool d k i \<Longrightarrow> hasTool d l i \<Longrightarrow> k = l"
  unfolding hasTool_def by (metis distinct_map_eq wf_distinct(10))

lemma hasTurn_unique:
  "wfDb d \<Longrightarrow> hasTurn d k i \<Longrightarrow> hasTurn d k j \<Longrightarrow> i = j"
  "wfDb d \<Longrightarrow> hasTurn d k i \<Longrightarrow> hasTurn d l i \<Longrightarrow> k = l"
  unfolding hasTurn_def by (metis distinct_map_eq wf_distinct(11), metis distinct_map_eq wf_distinct(12))

lemma ownerCount_has: "ownerCount rk sk d = 1 \<Longrightarrow> \<exists>i. hasRun d rk i sk"
proof -
  assume "ownerCount rk sk d = 1"
  then have "ownerCount rk sk d \<noteq> 0" by simp
  then show ?thesis by (auto simp: ownerCount_def hasRun_def)
qed

text \<open>The run a record names belongs to the session it names.\<close>

lemma owned_run:
  assumes "wfDb d" and "runKeyOf i d = Inr rk" and "ownerCount rk sk d = 1"
  shows "hasRun d rk i sk"
proof -
  obtain sl where "hasRun d rk i sl" using runKeyOf_has [OF assms(2)] by blast
  with ownerCount_has [OF assms(3)] hasRun_unique(1) [OF assms(1)] show ?thesis by metis
qed

section \<open>Joins\<close>

lemma sessionByKey_iff: "wfDb d \<Longrightarrow> sessionByKey d k = Some s \<longleftrightarrow> s \<in> set (sessions d) \<and> sw_RowKey s = k"
  unfolding sessionByKey_def by (rule find_key_iff) (rule wf_distinct)

lemma runByKey_iff: "wfDb d \<Longrightarrow> runByKey d k = Some r \<longleftrightarrow> r \<in> set (runs d) \<and> rw_RowKey r = k"
  unfolding runByKey_def by (rule find_key_iff) (rule wf_distinct)

lemma messageByKey_iff: "wfDb d \<Longrightarrow> messageByKey d k = Some r \<longleftrightarrow> r \<in> set (messages d) \<and> mw_RowKey r = k"
  unfolding messageByKey_def by (rule find_key_iff) (rule wf_distinct)

lemma partByKey_iff: "wfDb d \<Longrightarrow> partByKey d k = Some r \<longleftrightarrow> r \<in> set (parts d) \<and> pw_RowKey r = k"
  unfolding partByKey_def by (rule find_key_iff) (rule wf_distinct)

lemma toolByKey_iff: "wfDb d \<Longrightarrow> toolByKey d k = Some r \<longleftrightarrow> r \<in> set (tool_calls d) \<and> tw_RowKey r = k"
  unfolding toolByKey_def by (rule find_key_iff) (rule wf_distinct)

lemma sessionByKey_has: "wfDb d \<Longrightarrow> hasSession d k i \<Longrightarrow> \<exists>s. sessionByKey d k = Some s \<and> sw_ID s = i"
  by (auto simp: sessionByKey_iff hasSession_def)

lemma runByKey_has: "wfDb d \<Longrightarrow> hasRun d k i sk \<Longrightarrow> \<exists>r. runByKey d k = Some r \<and> rw_ID r = i \<and> rw_SessionKey r = sk"
  by (auto simp: runByKey_iff hasRun_def)

lemma set_map_filter: "set (List.map_filter f xs) = {y. \<exists>x \<in> set xs. f x = Some y}"
  by (auto simp: List.map_filter_def) force+

lemma set_runQuery: "(r, i) \<in> set (runQuery d) \<longleftrightarrow> r \<in> set (runs d) \<and> (\<exists>s. sessionByKey d (rw_SessionKey r) = Some s \<and> i = sw_ID s)"
  by (auto simp: runQuery_def set_map_filter)

lemma decodeRunRow_Inr:
  "decodeRunRow (r, i) = Inr v \<longleftrightarrow>
     v = (rw_Record r)\<lparr>r_LeaseUntil := unixMicro (rw_LeaseUntil r)\<rparr> \<and> rw_ID r = r_ID v \<and> i = r_SessionID v \<and>
     rw_Status r = r_Status v \<and> rw_ProviderID r = r_ProviderID v \<and> rw_ModelID r = r_ModelID v \<and>
     rw_OwnerID r = r_OwnerID v \<and> rw_ClaimToken r = r_ClaimToken v \<and> TimeText (r_CreatedAt v) = rw_CreatedAt r"
  by (auto simp: decodeRunRow_def Let_def)

text \<open>In a well-formed database every run decodes.\<close>

lemma decodeRunRow_ok:
  assumes "wfDb d" and "(r, i) \<in> set (runQuery d)"
  shows "decodeRunRow (r, i) = Inr ((rw_Record r)\<lparr>r_LeaseUntil := unixMicro (rw_LeaseUntil r)\<rparr>)"
proof -
  have "runOK d r" using assms wf_rows(2) by (auto simp: set_runQuery)
  moreover obtain s where "s \<in> set (sessions d)" "sw_RowKey s = rw_SessionKey r" "i = sw_ID s"
    using assms by (auto simp: set_runQuery sessionByKey_iff)
  ultimately show ?thesis
    using hasSession_unique(1) [OF assms(1)]
    by (auto simp: decodeRunRow_Inr runOK_def Let_def hasSession_def)
qed

text \<open>What a successful read of a run found.\<close>

definition runOf :: "runRow \<Rightarrow> Run" where
  "runOf r = (rw_Record r)\<lparr>r_LeaseUntil := unixMicro (rw_LeaseUntil r)\<rparr>"

lemma runOf_sel [simp]:
  assumes "runOK d r"
  shows "r_ID (runOf r) = rw_ID r" "r_Status (runOf r) = rw_Status r" "r_ClaimToken (runOf r) = rw_ClaimToken r"
    "r_OwnerID (runOf r) = rw_OwnerID r" "r_ProviderID (runOf r) = rw_ProviderID r" "r_ModelID (runOf r) = rw_ModelID r"
  using assms by (simp_all add: runOf_def runOK_def Let_def)

lemma lockRun_Inr:
  assumes "wfDb d" and "lockRun i d = Inr q"
  shows "fst q \<in> set (runs d)" "rw_ID (fst q) = i" "decodeRunRow q = Inr (runOf (fst q))"
proof -
  have q: "q \<in> set (runQuery d)" "rw_ID (fst q) = i"
    using assms(2) by (auto simp: lockRun_def dest!: take1_Inr split: option.splits if_splits)
  then show "fst q \<in> set (runs d)" "rw_ID (fst q) = i" "decodeRunRow q = Inr (runOf (fst q))"
    using decodeRunRow_ok [OF assms(1), of "fst q" "snd q"] set_runQuery [of "fst q" "snd q" d]
    by (simp_all add: runOf_def)
qed

lemma loadRunFence_Inr:
  assumes "wfDb d" and "loadRunFence f b d = Inr run"
  obtains r where "r \<in> set (runs d)" "rw_ID r = f_RunID f" "rw_ClaimToken r = f_ClaimToken f" "run = runOf r"
    "runOK d r" "hasRun d (rw_RowKey r) (f_RunID f) (rw_SessionKey r)" "hasSession d (rw_SessionKey r) (r_SessionID run)"
    "r_ID run = f_RunID f" "r_Status run = rw_Status r" "\<not> b \<Longrightarrow> liveStatus (rw_Status r)"
proof -
  obtain q where q: "lockRun (f_RunID f) d = Inr q" "decodeRunRow q = Inr run"
    "r_ClaimToken run = f_ClaimToken f" "\<not> b \<Longrightarrow> liveStatus (r_Status run)"
    using assms(2) by (auto simp: loadRunFence_def liveStatus_def split: if_splits)
  note l = lockRun_Inr [OF assms(1) q(1)]
  have ok: "runOK d (fst q)" using wf_rows(2) [OF assms(1)] l by blast
  have run: "run = runOf (fst q)" using q(2) l(3) by simp
  show ?thesis
    by (rule that [of "fst q"])
      (use l q ok run in \<open>auto simp: hasRun_def runOK_def runOf_def Let_def\<close>)
qed

section \<open>The other tables\<close>

lemma set_turnQuery:
  "(t, i, j) \<in> set (turnQuery d) \<longleftrightarrow> t \<in> set (turns d) \<and> (\<exists>r s. runByKey d (nw_RunKey t) = Some r \<and>
     sessionByKey d (nw_SessionKey t) = Some s \<and> i = rw_ID r \<and> j = sw_ID s)"
  by (auto simp: turnQuery_def set_map_filter split: option.split_asm intro!: bexI [of _ t])

lemma decodeTurnRow_ok:
  assumes "wfDb d" and "(t, i, j) \<in> set (turnQuery d)"
  shows "decodeTurnRow (t, i, j) = Inr (nw_Record t)" "i = t_RunID (nw_Record t)" "j = t_SessionID (nw_Record t)"
proof -
  obtain r s where rs: "t \<in> set (turns d)" "r \<in> set (runs d)" "rw_RowKey r = nw_RunKey t" "i = rw_ID r"
    "s \<in> set (sessions d)" "sw_RowKey s = nw_SessionKey t" "j = sw_ID s"
    using assms by (auto simp: set_turnQuery sessionByKey_iff runByKey_iff)
  have ok: "turnOK d t" using wf_rows(8) [OF assms(1)] rs by blast
  show i: "i = t_RunID (nw_Record t)"
    using ok rs hasRun_unique(1) [OF assms(1), of "nw_RunKey t" i "rw_SessionKey r"]
    by (auto simp: turnOK_def Let_def hasRun_def)
  show j: "j = t_SessionID (nw_Record t)"
    using ok rs hasSession_unique(1) [OF assms(1), of "nw_SessionKey t" j] by (auto simp: turnOK_def Let_def hasSession_def)
  show "decodeTurnRow (t, i, j) = Inr (nw_Record t)"
    using ok i j by (simp add: decodeTurnRow_def turnOK_def Let_def)
qed

lemma decodeTurnRow_Inr: "decodeTurnRow q = Inr v \<Longrightarrow> v = nw_Record (fst q)"
  by (auto simp: decodeTurnRow_def Let_def split: if_splits)

lemma turnRowByID_Inr: "turnRowByID i d = Inr q \<Longrightarrow> q \<in> set (turnQuery d) \<and> fst q \<in> set (turns d) \<and> nw_ID (fst q) = i"
  by (cases q) (auto simp: turnRowByID_def set_turnQuery dest!: take1_Inr)

lemma set_inboxQuery:
  "(r, i) \<in> set (inboxQuery d) \<longleftrightarrow> r \<in> set (inbox d) \<and> (\<exists>s. sessionByKey d (iw_SessionKey r) = Some s \<and> i = sw_ID s)"
  by (auto simp: inboxQuery_def set_map_filter)

lemma decodeInboxRow_ok:
  assumes "wfDb d" and "(r, i) \<in> set (inboxQuery d)"
  shows "decodeInboxRow (r, i) = Inr (iw_Record r)"
proof -
  obtain s where s: "r \<in> set (inbox d)" "s \<in> set (sessions d)" "sw_RowKey s = iw_SessionKey r" "i = sw_ID s"
    using assms by (auto simp: set_inboxQuery sessionByKey_iff)
  have ok: "inboxOK d r" using wf_rows(9) [OF assms(1)] s by blast
  with s have "i = ib_SessionID (iw_Record r)"
    using hasSession_unique(1) [OF assms(1), of "iw_SessionKey r" i] by (auto simp: inboxOK_def Let_def hasSession_def)
  with ok show ?thesis by (auto simp: decodeInboxRow_def inboxOK_def Let_def split: option.splits)
qed

lemma decodeInboxRow_Inr: "decodeInboxRow q = Inr v \<Longrightarrow> v = iw_Record (fst q)"
  by (auto simp: decodeInboxRow_def Let_def split: if_splits)

lemma inboxRowByID_Inr: "inboxRowByID i d = Inr q \<Longrightarrow> q \<in> set (inboxQuery d) \<and> fst q \<in> set (inbox d) \<and> iw_ID (fst q) = i"
  by (cases q) (auto simp: inboxRowByID_def set_inboxQuery dest!: take1_Inr)

lemma set_toolCallQuery:
  "(t, j) \<in> set (toolCallQuery d) \<longleftrightarrow> t \<in> set (tool_calls d) \<and>
     (\<exists>s r m p. sessionByKey d (tw_SessionKey t) = Some s \<and> runByKey d (tw_RunKey t) = Some r \<and>
       messageByKey d (tw_RequestMessageKey t) = Some m \<and> partByKey d (tw_RequestPartKey t) = Some p \<and>
       j = \<lparr>tj_SessionID = sw_ID s, tj_RunID = rw_ID r, tj_Message = m, tj_Part = p\<rparr>)"
  by (auto simp: toolCallQuery_def set_map_filter split: option.split_asm intro!: bexI [of _ t])

lemma decodeToolCallRow_Inr: "decodeToolCallRow q = Inr v \<Longrightarrow> v = tw_Record (fst q)"
  by (auto simp: decodeToolCallRow_def Let_def split: if_splits)

lemma GetToolCall_Inr:
  assumes "GetToolCall i d = Inr c"
  shows "\<exists>t \<in> set (tool_calls d). tw_ID t = i \<and> c = tw_Record t"
proof -
  obtain q where q: "q \<in> set (toolCallQuery d)" "tw_ID (fst q) = i" "decodeToolCallRow q = Inr c"
    using assms by (auto simp: GetToolCall_def dest!: take1_Inr split: if_splits)
  then have "fst q \<in> set (tool_calls d)" using set_toolCallQuery [of "fst q" "snd q" d] by simp
  with q decodeToolCallRow_Inr show ?thesis by blast
qed

text \<open>In a well-formed database a stored tool call reads back.\<close>

lemma GetToolCall_ok:
  assumes w: "wfDb d" and t: "t \<in> set (tool_calls d)"
  shows "GetToolCall (tw_ID t) d = Inr (tw_Record t)"
proof -
  have ok: "toolOK d t" using wf_rows(5) [OF w t] .
  obtain s r m p where j: "s \<in> set (sessions d)" "sw_RowKey s = tw_SessionKey t" "sw_ID s = tc_SessionID (tw_Record t)"
    "r \<in> set (runs d)" "rw_RowKey r = tw_RunKey t" "rw_ID r = tc_RunID (tw_Record t)"
    "m \<in> set (messages d)" "mw_RowKey m = tw_RequestMessageKey t" "mw_ID m = tc_MessageID (tw_Record t)"
    "mw_SessionKey m = tw_SessionKey t" "mw_RunKey m = tw_RunKey t"
    "p \<in> set (parts d)" "pw_RowKey p = tw_RequestPartKey t" "pw_ID p = tc_RequestPartID (tw_Record t)"
    "pw_MessageKey p = tw_RequestMessageKey t" "pw_SessionKey p = tw_SessionKey t" "pw_RunKey p = tw_RunKey t"
    using ok by (auto simp: toolOK_def Let_def hasSession_def hasRun_def hasMessage_def hasPart_def)
  let ?j = "\<lparr>tj_SessionID = sw_ID s, tj_RunID = rw_ID r, tj_Message = m, tj_Part = p\<rparr>"
  have mem: "(t, ?j) \<in> set (toolCallQuery d)"
    unfolding set_toolCallQuery
    by (intro conjI exI [of _ s] exI [of _ r] exI [of _ m] exI [of _ p])
      (simp_all add: t j sessionByKey_iff [OF w] runByKey_iff [OF w] messageByKey_iff [OF w] partByKey_iff [OF w])
  have uniq: "q = (t, ?j)" if "q \<in> set (toolCallQuery d)" "tw_ID (fst q) = tw_ID t" for q
  proof -
    have "fst q = t" using that t distinct_map_eq [OF wf_distinct(10) [OF w]] set_toolCallQuery [of "fst q" "snd q" d] by auto
    with that(1) mem have "(t, snd q) \<in> set (toolCallQuery d)" "(t, ?j) \<in> set (toolCallQuery d)"
      by (metis prod.collapse, simp)
    then have "snd q = ?j" unfolding set_toolCallQuery by auto
    with \<open>fst q = t\<close> show ?thesis by (metis prod.collapse)
  qed
  have "take1 (filter (\<lambda>q. tw_ID (fst q) = tw_ID t) (toolCallQuery d)) = Inr (t, ?j)"
  proof (cases "filter (\<lambda>q. tw_ID (fst q) = tw_ID t) (toolCallQuery d)")
    case Nil
    with mem show ?thesis by (auto simp: filter_empty_conv)
  next
    case (Cons q qs)
    then have "q \<in> set (filter (\<lambda>q. tw_ID (fst q) = tw_ID t) (toolCallQuery d))" by simp
    then have "q \<in> set (toolCallQuery d) \<and> tw_ID (fst q) = tw_ID t" by simp
    with uniq Cons show ?thesis by (simp add: take1_def)
  qed
  then show ?thesis
    using ok j by (simp add: GetToolCall_def decodeToolCallRow_def toolOK_def Let_def)
qed

end
