(* ===== verification/Samples.thy ===== *)
theory Samples
  imports Execution
begin

text \<open>
  Concrete inputs the witnesses share: a session, a run and its fence. \<open>demoLibs\<close> instantiates the
  third-party functions; a number is written as the integer that stands for it.
\<close>

definition demoLibs :: libs where
  "demoLibs = \<lparr>lib_toolInfo = (\<lambda>_. None), lib_openAIAnnotations = [], lib_claudeAnnotations = [],
     lib_floatText = intText, lib_floatParse = int64Text, lib_float32Text = intText, lib_float32Parse = int64Text\<rparr>"

definition demoTime :: "int \<Rightarrow> gotime" where
  "demoTime n = \<lparr>instant = n, zone = 0\<rparr>"

definition demoSession :: Session where
  "demoSession = \<lparr>s_ID = ''s'', s_ParentID = [], s_WorkspaceID = ''w'', s_Directory = [], s_Title = [], s_Metadata = None,
     s_CreatedAt = zeroTime, s_UpdatedAt = zeroTime\<rparr>"

definition demoRun :: Run where
  "demoRun = \<lparr>r_ID = ''r'', r_SessionID = ''s'', r_ParentRunID = [], r_ParentMsgID = [], r_OwnerID = ''o'', r_ClaimToken = ''k'',
     r_LeaseUntil = zeroTime, r_Agent = [], r_ProviderID = [], r_ModelID = [], r_ContextEpoch = [], r_Status = RunPending,
     r_Config = None, r_ExtensionPlan = \<lparr>ep_Fingerprint = [], ep_ToolSearch = [], ep_Components = None\<rparr>,
     r_CreatedAt = zeroTime, r_StartedAt = zeroTime, r_FinishedAt = zeroTime, r_Error = []\<rparr>"

definition noMessage :: Message where
  "noMessage = \<lparr>m_ID = [], m_SessionID = [], m_RunID = [], m_ParentID = [], m_Role = RoleAssistant, m_Agent = [], m_ModelID = [],
     m_TurnID = [], m_AgentPath = [], m_CreatedAt = zeroTime, m_UpdatedAt = zeroTime\<rparr>"

definition demoFence :: RunFence where
  "demoFence = \<lparr>f_RunID = ''r'', f_ClaimToken = ''k''\<rparr>"

text \<open>The outcome of each call of a sequence and the database it leaves.\<close>

fun trace :: "libs \<Rightarrow> db \<Rightarrow> call list \<Rightarrow> ((err + unit) \<times> db) list" where
  "trace L d [] = []"
| "trace L d (c # cs) = (case callOp L c d of (r, t) \<Rightarrow> (r, t) # trace L t cs)"

lemma trace_nth:
  "n < length cs \<Longrightarrow> trace L d cs ! n = callOp L (cs ! n) (fold (exec L) (take n cs) d)"
proof (induction cs arbitrary: d n)
  case (Cons c cs)
  then show ?case by (cases n) (auto simp: exec_def split: prod.split)
qed simp

lemma trace_length: "length (trace L d cs) = length cs"
  by (induction cs arbitrary: d) (auto split: prod.split)

end
