(* ===== verification/HistoryProps.thy ===== *)
theory HistoryProps
  imports History JsonStrings StoreReads Samples
begin

text \<open>
  Properties of the history projection that need no database: what an epoch keeps, that private parts
  never reach a provider message, and that a compaction summary reads back as the text it was written with.
\<close>

section \<open>Epochs\<close>

text \<open>
  What an epoch means: the leading system messages, the summary, and everything from the anchor on,
  each message once and in the stored order.
\<close>

definition isSummary :: "ContextEpoch \<Rightarrow> Message \<Rightarrow> bool" where
  "isSummary e m \<longleftrightarrow> ce_SummaryMessageID e \<noteq> [] \<and> m_ID m = ce_SummaryMessageID e"

definition tailAnchor :: "ContextEpoch \<Rightarrow> MessageID" where
  "tailAnchor e = (if ce_TailStartID e = [] then ce_SummaryMessageID e else ce_TailStartID e)"

definition instructions :: "Message list \<Rightarrow> Message list" where
  "instructions ms = takeWhile (\<lambda>m. m_Role m = RoleSystem) ms"

definition epochMessages :: "ContextEpoch \<Rightarrow> Message list \<Rightarrow> Message list" where
  "epochMessages e ms = instructions ms @ filter (\<lambda>m. isSummary e m \<and> m \<notin> set (instructions ms)) ms @
     filter (\<lambda>m. \<not> isSummary e m \<and> m \<notin> set (instructions ms)) (dropWhile (\<lambda>m. m_ID m \<noteq> tailAnchor e) ms)"

lemma systemPrefix_eq:
  assumes "distinct (map m_ID ms)" "m_ID ` set ms \<inter> inc = {}"
  shows "systemPrefix (acc, inc) ms = (acc @ instructions ms, inc \<union> m_ID ` set (instructions ms))"
  using assms
proof (induction ms arbitrary: acc inc)
  case (Cons m ms)
  then have "systemPrefix (acc @ [m], insert (m_ID m) inc) ms = (acc @ [m] @ instructions ms, insert (m_ID m) inc \<union> m_ID ` set (instructions ms))"
    by (subst Cons.IH) auto
  then show ?case using Cons.prems by (auto simp: includeMessage_def instructions_def)
qed (simp add: instructions_def)

lemma tailLoop_started:
  assumes "distinct (map m_ID ms)"
  shows "tailLoop a s True (acc, inc) ms = (let kept = filter (\<lambda>m. m_ID m \<notin> inc \<and> \<not> (m_ID m = a \<and> a = s)) ms in (acc @ kept, inc \<union> m_ID ` set kept))"
proof -
  define skip where "skip m \<longleftrightarrow> m_ID m = a \<and> a = s" for m :: Message
  have step: "tailLoop a s True st (m # ms) = tailLoop a s True (if skip m then st else includeMessage st m) ms" for st m ms
    by (simp add: skip_def Let_def)
  have "tailLoop a s True (acc, inc) ms = (acc @ filter (\<lambda>m. m_ID m \<notin> inc \<and> \<not> skip m) ms, inc \<union> m_ID ` set (filter (\<lambda>m. m_ID m \<notin> inc \<and> \<not> skip m) ms))"
    using assms
  proof (induction ms arbitrary: acc inc)
    case (Cons m ms)
    then have d: "distinct (map m_ID ms)" "m_ID m \<notin> m_ID ` set ms" by auto
    have f: "filter (\<lambda>x. m_ID x \<notin> insert (m_ID m) inc \<and> \<not> skip x) ms = filter (\<lambda>x. m_ID x \<notin> inc \<and> \<not> skip x) ms"
      by (rule filter_cong [OF refl]) (use d(2) in \<open>metis imageI insert_iff\<close>)
    show ?case unfolding step by (auto simp only: Cons.IH [OF d(1)] includeMessage_def f filter.simps append_assoc append_Cons append_Nil
        prod.case image_insert list.set Un_insert_left Un_insert_right split: if_split)
  qed simp
  then show ?thesis by (simp add: Let_def skip_def)
qed

lemma tailLoop_waits: "tailLoop a s False st ms = tailLoop a s True st (dropWhile (\<lambda>m. m_ID m \<noteq> a) ms)"
  by (induction ms) (simp_all add: Let_def)

lemma messageByIDIn_eq:
  assumes "distinct (map m_ID ms)"
  shows "(case messageByIDIn ms i of None \<Rightarrow> [] | Some m \<Rightarrow> [m]) = filter (\<lambda>m. m_ID m = i) ms"
proof (cases "filter (\<lambda>m. m_ID m = i) ms")
  case Nil
  then show ?thesis by (auto simp: messageByIDIn_def filter_empty_conv find_None_iff split: option.split dest!: find_SomeD)
next
  case (Cons x xs)
  then have "x \<in> set (filter (\<lambda>m. m_ID m = i) ms)" by simp
  then have x: "x \<in> set ms" "m_ID x = i" by simp_all
  have "m = x" if "m \<in> set ms" "m_ID m = i" for m using that x assms by (metis distinct_map inj_onD)
  then have u: "set (filter (\<lambda>m. m_ID m = i) ms) \<subseteq> {x}" by auto
  have "distinct (filter (\<lambda>m. m_ID m = i) ms)" using assms distinct_filter distinct_map by blast
  then have "xs = []" using Cons u by (cases xs) auto
  moreover have "messageByIDIn ms i = Some x"
  proof (cases "messageByIDIn ms i")
    case None
    then show ?thesis using x by (auto simp: messageByIDIn_def find_None_iff)
  next
    case (Some y)
    then have "y \<in> set ms" "m_ID y = i" by (auto simp: messageByIDIn_def dest!: find_SomeD)
    then show ?thesis using Some u by auto
  qed
  ultimately show ?thesis using Cons by simp
qed

lemma includeMessage_filter:
  assumes "distinct (map m_ID ms)"
  shows "(case messageByIDIn ms i of None \<Rightarrow> (acc, inc) | Some m \<Rightarrow> includeMessage (acc, inc) m) =
    (acc @ filter (\<lambda>m. m_ID m = i \<and> m_ID m \<notin> inc) ms, inc \<union> m_ID ` set (filter (\<lambda>m. m_ID m = i) ms))"
proof -
  have f: "filter (\<lambda>m. m_ID m = i \<and> m_ID m \<notin> inc) ms = filter (\<lambda>m. m_ID m \<notin> inc) (filter (\<lambda>m. m_ID m = i) ms)" by (simp add: conj_commute)
  show ?thesis unfolding f messageByIDIn_eq [OF assms, of i, symmetric] by (auto simp: includeMessage_def split: option.split)
qed

lemma applyEpoch_eq:
  assumes d: "distinct (map m_ID (rb_Messages batch))" and e: "ce_SummaryMessageID e \<noteq> [] \<or> ce_TailStartID e \<noteq> []"
    and o: "ResolveReplayPartOwners (rb_Parts batch) (rb_PartOwnerMessageIDs batch) = Inr owners"
  shows "applyEpoch batch (Some e) = (let ms = epochMessages e (rb_Messages batch);
      kept = filter (\<lambda>q. snd q \<in> m_ID ` set ms) (zip (rb_Parts batch) owners)
    in Inr (batch\<lparr>rb_Messages := ms, rb_Parts := map fst kept, rb_PartOwnerMessageIDs := map snd kept\<rparr>))"
proof -
  let ?ms = "rb_Messages batch" let ?pre = "instructions ?ms"
  let ?s1 = "systemPrefix ([], {}) ?ms"
  let ?s2 = "if ce_SummaryMessageID e \<noteq> [] then (case messageByIDIn ?ms (ce_SummaryMessageID e) of None \<Rightarrow> ?s1 | Some s \<Rightarrow> includeMessage ?s1 s) else ?s1"
  let ?s3 = "tailLoop (tailAnchor e) (ce_SummaryMessageID e) False ?s2 ?ms"
  have pre: "set ?pre \<subseteq> set ?ms" by (auto simp: instructions_def dest: set_takeWhileD)
  have inp: "m_ID m \<in> m_ID ` set ?pre \<longleftrightarrow> m \<in> set ?pre" if "m \<in> set ?ms" for m
    using that pre distinct_map_eq [OF d] by blast
  have s1: "?s1 = (?pre, m_ID ` set ?pre)" using systemPrefix_eq [OF d, of "{}" "[]"] by simp
  let ?sum = "filter (isSummary e) ?ms"
  have s2: "?s2 = (?pre @ filter (\<lambda>m. isSummary e m \<and> m \<notin> set ?pre) ?ms, m_ID ` set ?pre \<union> m_ID ` set ?sum)"
  proof (cases "ce_SummaryMessageID e = []")
    case False
    have "filter (\<lambda>m. m_ID m = ce_SummaryMessageID e \<and> m_ID m \<notin> m_ID ` set ?pre) ?ms = filter (\<lambda>m. isSummary e m \<and> m \<notin> set ?pre) ?ms"
      using False inp by (intro filter_cong) (auto simp: isSummary_def)
    then show ?thesis unfolding s1 using False includeMessage_filter [OF d] by (simp add: isSummary_def)
  qed (simp add: s1 isSummary_def)
  let ?tail = "dropWhile (\<lambda>m. m_ID m \<noteq> tailAnchor e) ?ms"
  have tail: "set ?tail \<subseteq> set ?ms" by (auto dest: set_dropWhileD)
  have "distinct (map m_ID ?tail)" using d by (simp add: dropWhile_eq_drop drop_map [symmetric])
  then have "?s3 = (let kept = filter (\<lambda>m. m_ID m \<notin> m_ID ` set ?pre \<union> m_ID ` set ?sum \<and> \<not> (m_ID m = tailAnchor e \<and> tailAnchor e = ce_SummaryMessageID e)) ?tail
      in (?pre @ filter (\<lambda>m. isSummary e m \<and> m \<notin> set ?pre) ?ms @ kept, m_ID ` set ?pre \<union> m_ID ` set ?sum \<union> m_ID ` set kept))"
    unfolding s2 tailLoop_waits by (simp add: tailLoop_started Let_def)
  moreover have "filter (\<lambda>m. m_ID m \<notin> m_ID ` set ?pre \<union> m_ID ` set ?sum \<and> \<not> (m_ID m = tailAnchor e \<and> tailAnchor e = ce_SummaryMessageID e)) ?tail =
      filter (\<lambda>m. \<not> isSummary e m \<and> m \<notin> set ?pre) ?tail"
  proof (rule filter_cong [OF refl])
    fix m assume "m \<in> set ?tail"
    then have m: "m \<in> set ?ms" using tail by blast
    have "m_ID m \<in> m_ID ` set ?sum \<longleftrightarrow> isSummary e m" using m by (auto simp: isSummary_def)
    moreover have "m_ID m = tailAnchor e \<and> tailAnchor e = ce_SummaryMessageID e \<Longrightarrow> isSummary e m" using e by (auto simp: isSummary_def tailAnchor_def split: if_splits)
    ultimately show "(m_ID m \<notin> m_ID ` set ?pre \<union> m_ID ` set ?sum \<and> \<not> (m_ID m = tailAnchor e \<and> tailAnchor e = ce_SummaryMessageID e)) =
        (\<not> isSummary e m \<and> m \<notin> set ?pre)" using inp [OF m] by auto
  qed
  moreover have "m_ID ` set ?pre \<union> m_ID ` set ?sum = m_ID ` (set ?pre \<union> set (filter (\<lambda>m. isSummary e m \<and> m \<notin> set ?pre) ?ms))" by auto
  ultimately have s3: "?s3 = (epochMessages e ?ms, m_ID ` set (epochMessages e ?ms))"
    by (simp only: Let_def epochMessages_def set_append image_Un Un_assoc)
  have n: "\<not> (ce_SummaryMessageID e = [] \<and> ce_TailStartID e = [])" using e by blast
  show ?thesis unfolding applyEpoch_def o tailAnchor_def [symmetric] option.case if_not_P [OF n] bindP_simps Let_def s3 by simp
qed

text \<open>
  C24. An active epoch narrows the conversation and nothing else: what it leaves is the leading system messages,
  the summary and everything from the anchor on, each message once; no leading system message and no message
  from the anchor on is ever dropped; and a part stays exactly when the message that owns it does.
\<close>

theorem epoch_keeps_instructions_and_tail:
  assumes "applyEpoch batch (Some e) = Inr b" and "ce_SummaryMessageID e \<noteq> [] \<or> ce_TailStartID e \<noteq> []"
    and "distinct (map m_ID (rb_Messages batch))"
    and "ResolveReplayPartOwners (rb_Parts batch) (rb_PartOwnerMessageIDs batch) = Inr owners"
  shows "rb_Messages b = epochMessages e (rb_Messages batch) \<and> distinct (map m_ID (rb_Messages b)) \<and>
    set (instructions (rb_Messages batch)) \<subseteq> set (rb_Messages b) \<and>
    set (dropWhile (\<lambda>m. m_ID m \<noteq> tailAnchor e) (rb_Messages batch)) \<subseteq> set (rb_Messages b) \<and>
    set (rb_Messages b) \<subseteq> set (rb_Messages batch) \<and>
    zip (rb_Parts b) (rb_PartOwnerMessageIDs b) = filter (\<lambda>q. snd q \<in> m_ID ` set (rb_Messages b)) (zip (rb_Parts batch) owners)"
proof -
  let ?ms = "rb_Messages batch" let ?pre = "instructions ?ms" let ?tail = "dropWhile (\<lambda>m. m_ID m \<noteq> tailAnchor e) ?ms"
  let ?s = "filter (\<lambda>m. isSummary e m \<and> m \<notin> set ?pre) ?ms" let ?t = "filter (\<lambda>m. \<not> isSummary e m \<and> m \<notin> set ?pre) ?tail"
  have b: "rb_Messages b = ?pre @ ?s @ ?t" "zip (rb_Parts b) (rb_PartOwnerMessageIDs b) = filter (\<lambda>q. snd q \<in> m_ID ` set (rb_Messages b)) (zip (rb_Parts batch) owners)"
    using applyEpoch_eq [OF assms(3,2,4)] assms(1) by (auto simp: Let_def epochMessages_def zip_map_fst_snd)
  have sub: "set ?pre \<subseteq> set ?ms" "set ?tail \<subseteq> set ?ms" by (auto simp: instructions_def dest: set_takeWhileD set_dropWhileD)
  have "distinct ?ms" using assms(3) by (simp add: distinct_map)
  then have "distinct (?pre @ ?s @ ?t)" by (auto simp: instructions_def distinct_takeWhile distinct_dropWhile)
  moreover have all: "set (?pre @ ?s @ ?t) \<subseteq> set ?ms" using sub by auto
  moreover have "inj_on m_ID (set ?ms)" using assms(3) by (simp add: distinct_map)
  ultimately have "distinct (map m_ID (?pre @ ?s @ ?t))" unfolding distinct_map by (blast intro: inj_on_subset)
  moreover have "set ?tail \<subseteq> set (?pre @ ?s @ ?t)" using sub(2) by auto
  ultimately show ?thesis using b all by (auto simp: epochMessages_def)
qed

text \<open>A session compacted after two messages.\<close>

definition demoEpoch :: ContextEpoch where
  "demoEpoch = \<lparr>ce_ID = ''ep'', ce_SessionID = ''s'', ce_ParentEpochID = [], ce_SummaryMessageID = ''sum'', ce_SummarizedFromID = ''u1'',
     ce_SummarizedToID = ''a1'', ce_TailStartID = ''u2'', ce_ModelID = [], ce_ProviderID = [], ce_Trigger = [], ce_Reason = [],
     ce_NextAction = EpochNextStop, ce_CreatedAt = zeroTime, ce_ClosedAt = zeroTime\<rparr>"

definition demoBatch :: ReplayBatch where
  "demoBatch = \<lparr>rb_Messages = map (\<lambda>(i, r). noMessage\<lparr>m_ID := i, m_Role := r\<rparr>) [(''sys'', RoleSystem), (''u1'', RoleUser), (''a1'', RoleAssistant),
       (''u2'', RoleUser), (''sum'', RoleSystem), (''a2'', RoleAssistant)],
     rb_Parts = [], rb_PartOwnerMessageIDs = [], rb_Next = zeroReplayCursor\<rparr>"

lemma demoBatch_applies: "\<exists>b. applyEpoch demoBatch (Some demoEpoch) = Inr b \<and> map m_ID (rb_Messages b) = [''sys'', ''sum'', ''u2'', ''a2'']"
proof -
  have "(case applyEpoch demoBatch (Some demoEpoch) of Inl e \<Rightarrow> None | Inr b \<Rightarrow> Some (map m_ID (rb_Messages b))) = Some [''sys'', ''sum'', ''u2'', ''a2'']"
    by code_simp
  then show ?thesis by (auto split: sum.split_asm)
qed

theorem epoch_keeps_instructions_and_tail_witness:
  "\<exists>b. applyEpoch demoBatch (Some demoEpoch) = Inr b \<and> rb_Messages b = epochMessages demoEpoch (rb_Messages demoBatch) \<and>
     map m_ID (rb_Messages b) = [''sys'', ''sum'', ''u2'', ''a2'']"
proof -
  obtain b where b: "applyEpoch demoBatch (Some demoEpoch) = Inr b" "map m_ID (rb_Messages b) = [''sys'', ''sum'', ''u2'', ''a2'']"
    using demoBatch_applies by (elim exE conjE)
  have "ce_SummaryMessageID demoEpoch \<noteq> [] \<or> ce_TailStartID demoEpoch \<noteq> []" "distinct (map m_ID (rb_Messages demoBatch))"
    "ResolveReplayPartOwners (rb_Parts demoBatch) (rb_PartOwnerMessageIDs demoBatch) = Inr []"
    by (simp_all add: demoEpoch_def demoBatch_def ResolveReplayPartOwners_def)
  from epoch_keeps_instructions_and_tail [OF b(1) this] have "rb_Messages b = epochMessages demoEpoch (rb_Messages demoBatch)" by (elim conjE)
  with b show ?thesis by (intro exI [of _ b] conjI)
qed

section \<open>Private parts\<close>

text \<open>The payloads of private parts removed: provider state, approval records, response metadata and, unless the options ask for it, reasoning.\<close>

definition privateKind :: "Options \<Rightarrow> PartKind \<Rightarrow> bool" where
  "privateKind o1 k \<longleftrightarrow> k = PartProviderState \<or> k = PartApprovalDecision \<or> k = PartResponseMeta \<or> k = PartReasoning \<and> \<not> op_IncludeReasoning o1"

definition scrub :: "Options \<Rightarrow> Part \<Rightarrow> Part" where
  "scrub o1 p = (if privateKind o1 (p_Kind p) then p\<lparr>p_Payload := []\<rparr> else p)"

lemma scrub_sel [simp]: "p_Kind (scrub o1 p) = p_Kind p" "p_MessageID (scrub o1 p) = p_MessageID p" "p_Ordinal (scrub o1 p) = p_Ordinal p"
  by (simp_all add: scrub_def)

lemma projectPart_scrub: "projectPart L o1 role multi s (scrub o1 p) = projectPart L o1 role multi s p"
  by (cases s) (auto simp: projectPart_def scrub_def privateKind_def Let_def)

lemma projectToolResults_scrub: "projectToolResults L (map (scrub o1) ps) limits = projectToolResults L ps limits"
proof -
  have "projectToolResult L limits r (scrub o1 p) = projectToolResult L limits r p" for r p by (auto simp: projectToolResult_def scrub_def privateKind_def)
  then show ?thesis by (simp add: projectToolResults_def foldP_map)
qed

lemma projectMessage_scrub: "projectMessage L m (map (scrub o1) ps) o1 = projectMessage L m ps o1"
  by (simp add: projectMessage_def foldP_map projectPart_scrub projectToolResults_scrub hasUserMediaPart_def list_ex_iff split: Role.split)

lemma applyEpoch_scrub:
  "applyEpoch (batch\<lparr>rb_Parts := map (scrub o1) (rb_Parts batch)\<rparr>) e = bindP (applyEpoch batch e) (\<lambda>b. Inr (b\<lparr>rb_Parts := map (scrub o1) (rb_Parts b)\<rparr>))"
proof -
  have r: "ResolveReplayPartOwners (map (scrub o1) ps) os = ResolveReplayPartOwners ps os" for ps os by (simp add: ResolveReplayPartOwners_def o_def)
  have z: "filter (\<lambda>q. snd q \<in> S) (zip (map (scrub o1) ps) os) = map (\<lambda>q. (scrub o1 (fst q), snd q)) (filter (\<lambda>q. snd q \<in> S) (zip ps os))" for S ps os
    by (simp add: zip_map1 filter_map o_def case_prod_unfold)
  show ?thesis
    by (cases batch; cases e; cases "ResolveReplayPartOwners (rb_Parts batch) (rb_PartOwnerMessageIDs batch)") (simp_all add: applyEpoch_def r Let_def o_def z)
qed

text \<open>
  C25. What private parts say never reaches a provider message: removing the payloads of provider state, approval records and response
  metadata, and of reasoning unless the options include it, changes nothing in the projection of a batch, errors included. (That such a part is
  there can matter: a user message of nothing else is still emitted, empty.)
\<close>

theorem private_parts_never_projected:
  "ProjectWithSources L (batch\<lparr>rb_Parts := map (scrub o1) (rb_Parts batch)\<rparr>) o1 = ProjectWithSources L batch o1"
proof -
  have "partsOfMessage (b\<lparr>rb_Parts := map (scrub o1) (rb_Parts b)\<rparr>) i = map (scrub o1) (partsOfMessage b i)" for b i
    using map_sort_key [of "scrub o1" p_Ordinal] by (simp add: partsOfMessage_def filter_map o_def)
  then show ?thesis
    by (cases "applyEpoch batch (op_Epoch o1)") (simp_all add: ProjectWithSources_def applyEpoch_scrub projectMessage_scrub)
qed

section \<open>Compaction summaries\<close>

lemma compactionKeys:
  "selectField compactionPartFields (unquote ''text'') = Some (snd (field ''text'' (decPtr [] decString) cpp_Text cpp_Text_update))"
  "selectField compactionPartFields (unquote ''epoch_id'') = Some (snd (field ''epoch_id'' decString cpp_EpochID cpp_EpochID_update))"
  "selectField compactionPartFields (unquote ''summarized_from_id'') =
     Some (snd (field ''summarized_from_id'' decString cpp_SummarizedFromID cpp_SummarizedFromID_update))"
  "selectField compactionPartFields (unquote ''summarized_to_id'') =
     Some (snd (field ''summarized_to_id'' decString cpp_SummarizedToID cpp_SummarizedToID_update))"
  "selectField compactionPartFields (unquote ''tail_start_id'') = Some (snd (field ''tail_start_id'' decString cpp_TailStartID cpp_TailStartID_update))"
  "selectField compactionPartFields (unquote ''redacted'') = Some (snd (field ''redacted'' (decPtr False decBool) cpp_Redacted cpp_Redacted_update))"
  by (simp_all add: selectField_def compactionPartFields_def field_def byteOf_def)

lemma decodeKnown_append: "decodeKnown fs (xs @ ys) r = Option.bind (decodeKnown fs xs r) (decodeKnown fs ys)"
  by (induction fs xs r rule: decodeKnown.induct) (simp_all split: option.split)

lemma decodeKnown_strO:
  assumes "selectField fs (unquote k) = Some (snd (field k decString get put))" "ValidString v"
  shows "decodeKnown fs (strO k v) r = Some (if v = [] then r else put (\<lambda>_. v) r)"
  using assms by (simp add: strO_def field_def decString_def jstr_def unquote_quote)

lemma summaryPayload_parses: "jsonParse (emit (summaryPayloadJ e summary)) = Some (summaryPayloadJ e summary)"
proof (rule jsonParse_emit)
  have k: "body ''text''" "body ''epoch_id''" "body ''summarized_from_id''" "body ''summarized_to_id''" "body ''tail_start_id''" "body ''redacted''"
    by (auto simp: byteOf_def intro!: body_plain body_Nil)
  then show "wfJson (summaryPayloadJ e summary)" by (simp add: summaryPayloadJ_def lexStr_iff_body strO_def)
  show "depth (summaryPayloadJ e summary) \<le> maxNestingDepth" by (simp add: summaryPayloadJ_def strO_def maxNestingDepth_def)
qed

lemma boundary_text:
  assumes "NewBoundary e ids run now summary = Inr b"
    and v: "ValidString summary" "ValidString (ce_ID e)" "ValidString (ce_SummarizedFromID e)" "ValidString (ce_SummarizedToID e)" "ValidString (ce_TailStartID e)"
  shows "partText (bd_Part b) = Inr summary"
proof -
  let ?j = "summaryPayloadJ e summary"
  have b: "p_Kind (bd_Part b) = PartCompaction" "p_Payload (bd_Part b) = emit ?j" "ce_ID e \<noteq> []"
    using assms(1) by (auto simp: NewBoundary_def split: if_split_asm)
  obtain kvs where kvs: "?j = JObj kvs" by (simp add: summaryPayloadJ_def)
  have t: "TrimSpace (emit ?j) = emit ?j" "emit ?j \<noteq> []" "emit ?j \<noteq> ''null''" unfolding kvs TrimSpace_object by simp_all
  have "\<exists>r. decodeKnown compactionPartFields kvs zeroCompaction = Some r \<and> cpp_Text r = Some summary \<and> cpp_EpochID r = ce_ID e \<and> cpp_Redacted r = Some True"
    using kvs v by (auto simp: summaryPayloadJ_def decodeKnown_append decodeKnown_strO [OF compactionKeys(3)] decodeKnown_strO [OF compactionKeys(4)]
        decodeKnown_strO [OF compactionKeys(5)] compactionKeys(1,2,6) field_def decPtr_def decString_def decBool_def jstr_def unquote_quote zeroCompaction_def
        simp del: unquote.simps)
  then obtain r where r: "decodeKnown compactionPartFields kvs zeroCompaction = Some r" "cpp_Text r = Some summary" "cpp_EpochID r = ce_ID e" "cpp_Redacted r = Some True"
    by blast
  have "decodeCanonical compactionPartFields zeroCompaction (emit ?j) = Inr r"
    using t summaryPayload_parses [of e summary] r(1) by (simp add: decodeCanonical_def Let_def) (simp add: kvs)
  then show ?thesis using b r by (simp add: partText_def)
qed

text \<open>
  C26. A compaction summary reads back as it was written: the boundary built for an epoch projects to one system
  message whose content is exactly the summary (for text and ids of well-formed UTF-8).
\<close>

theorem summary_reads_back:
  assumes "NewBoundary e ids run now summary = Inr b"
    and "ValidString summary" and "ValidString (ce_ID e)" and "ValidString (ce_SummarizedFromID e)" and "ValidString (ce_SummarizedToID e)"
    and "ValidString (ce_TailStartID e)"
  shows "projectMessage L (bd_Message b) [bd_Part b] o1 =
    Inr [Plain \<lparr>cm_Role = EinoSystem, cm_Name = [], cm_Content = summary, cm_ReasoningContent = [], cm_UserInputMultiContent = [], cm_ToolCalls = []\<rparr>]"
proof -
  have "m_Role (bd_Message b) = RoleSystem" "m_Agent (bd_Message b) = []" "p_Kind (bd_Part b) = PartCompaction"
    using assms(1) by (auto simp: NewBoundary_def split: if_split_asm)
  with boundary_text [OF assms] show ?thesis
    by (simp add: projectMessage_def projectPart_def Let_def addText_def projectToolResults_def einoRoleOf_def hasUserMediaPart_def)
qed

theorem summary_reads_back_witness:
  "\<exists>b. NewBoundary demoEpoch \<lparr>bi_MessageID = ''sum'', bi_PartID = ''p'', bi_TurnID = [], bi_AgentPath = []\<rparr> ''r'' (demoTime 1) ''so far'' = Inr b \<and>
     projectMessage demoLibs (bd_Message b) [bd_Part b] \<lparr>op_IncludeReasoning = False, op_Epoch = None, op_ContentLimits = DefaultContentLimits\<rparr> =
       Inr [Plain \<lparr>cm_Role = EinoSystem, cm_Name = [], cm_Content = ''so far'', cm_ReasoningContent = [], cm_UserInputMultiContent = [], cm_ToolCalls = []\<rparr>]"
proof -
  have v: "ValidString ''so far''" "ValidString (ce_ID demoEpoch)" "ValidString (ce_SummarizedFromID demoEpoch)" "ValidString (ce_SummarizedToID demoEpoch)"
    "ValidString (ce_TailStartID demoEpoch)" by code_simp+
  obtain b where b: "NewBoundary demoEpoch \<lparr>bi_MessageID = ''sum'', bi_PartID = ''p'', bi_TurnID = [], bi_AgentPath = []\<rparr> ''r'' (demoTime 1) ''so far'' = Inr b"
    by (simp add: NewBoundary_def demoEpoch_def)
  show ?thesis using b summary_reads_back [OF b v] by blast
qed

end
