(* ===== verification/StoreKeeps.thy ===== *)
theory StoreKeeps
  imports StoreReads
begin

text \<open>
  Every private operation of the store that leaves runs, turns and tool calls alone keeps the
  invariant: a \<open>calm\<close> step. The operations on runs, turns and tool calls, and the
  public operations put together from all of them, follow in the next theory.
\<close>

section \<open>Calm steps\<close>

definition coreSame :: "db \<Rightarrow> db \<Rightarrow> bool" where
  "coreSame d t \<longleftrightarrow> runs t = runs d \<and> turns t = turns d \<and> tool_calls t = tool_calls d"

definition calm :: "int set \<Rightarrow> db \<Rightarrow> db \<Rightarrow> bool" where
  "calm K d t \<longleftrightarrow> keeps K d t \<and> coreSame d t"

lemma calm_refl: "inv K d \<Longrightarrow> calm K d d"
  by (simp add: calm_def coreSame_def keeps_refl)

lemma calm_trans: "calm K d t \<Longrightarrow> calm K t u \<Longrightarrow> calm K d u"
  by (auto simp: calm_def coreSame_def intro: keeps_trans)

lemma calm_inv: "calm K d t \<Longrightarrow> inv K t"
  by (simp add: calm_def keeps_def)

lemma calm_keeps: "calm K d t \<Longrightarrow> keeps K d t"
  by (simp add: calm_def)

lemma calm_evolves: "calm K d t \<Longrightarrow> evolves d t"
  by (simp add: calm_def keeps_def)

lemma keeps_evolves: "keeps K d t \<Longrightarrow> evolves d t"
  by (simp add: keeps_def)

lemma calm_core:
  assumes "calm K d t"
  shows "runs t = runs d" "turns t = turns d" "tool_calls t = tool_calls d"
  using assms by (simp_all add: calm_def coreSame_def)

text \<open>A calm step in the middle of an operation, and at its end.\<close>

lemma calm_then:
  assumes "\<And>t. inv K t \<Longrightarrow> wpE m (\<lambda>_. calm K t) t" and "calm K s t" and "\<And>x u. calm K s u \<Longrightarrow> Q x u"
  shows "wpE m Q t"
  using assms(1) [OF calm_inv [OF assms(2)]] by (rule wpE_mono) (use assms(2,3) calm_trans in blast)

lemma keeps_calm_then:
  assumes "\<And>t. inv K t \<Longrightarrow> wpE m (\<lambda>_. calm K t) t" and "keeps K s t" and "\<And>x u. keeps K s u \<Longrightarrow> coreSame t u \<Longrightarrow> Q x u"
  shows "wpE m Q t"
  using assms(1) [OF keeps_inv [OF assms(2)]]
  by (rule wpE_mono) (use assms(2,3) keeps_trans calm_def in blast)

lemma calm_for:
  assumes "\<And>x t. x \<in> set xs \<Longrightarrow> inv K t \<Longrightarrow> evolves d t \<Longrightarrow> wpE (f x) (\<lambda>_. calm K t) t" and "inv K d"
  shows "wpE (forE xs f) (\<lambda>_. calm K d) d"
proof (rule wp_for [where I = "calm K d"])
  fix x t assume x: "x \<in> set xs" "calm K d t"
  have "wpE (f x) (\<lambda>_. calm K t) t" using assms(1) [OF x(1) calm_inv [OF x(2)] calm_evolves [OF x(2)]] .
  then show "wpE (f x) (\<lambda>_. calm K d) t" by (rule wpE_mono) (rule calm_trans [OF x(2)])
qed (use assms(2) calm_refl in blast)+

text \<open>A statement on one of the other tables is calm.\<close>

lemma calm_insert:
  assumes "wpE m (\<lambda>b t. keeps K d t \<and> (if b then t = u else t = d)) d" and "coreSame d u"
  shows "wpE m (\<lambda>_. calm K d) d"
  using assms(1) by (rule wpE_mono) (use assms(2) in \<open>auto simp: calm_def coreSame_def split: if_split_asm\<close>)

lemma calm_update:
  assumes "wpE m (\<lambda>n t. keeps K d t \<and> n = c \<and> t = u) d" and "coreSame d u"
  shows "wpE m (\<lambda>_. calm K d) d"
  using assms(1) by (rule wpE_mono) (use assms(2) in \<open>auto simp: calm_def coreSame_def\<close>)

section \<open>Messages and parts\<close>

lemma appendMessage_calm:
  assumes i: "inv K d"
  shows "wpE (appendMessage m) (\<lambda>_. calm K d) d"
proof -
  have w: "wfDb d" using i by (rule inv_wf)
  have ins: "wpE (insertMessage (messageRowOf m sk rk)) (\<lambda>_. calm K d) d"
    if k: "sessionKeyOf (m_SessionID m) d = Inr sk" "runKeyOf (m_RunID m) d = Inr rk" "ownerCount rk sk d = Suc 0" for sk rk
    by (rule calm_insert, rule keeps_insertMessage [OF i])
      (use sessionKeyOf_has [OF k(1)] owned_run [OF w k(2)] k(3) in
        \<open>auto simp: messageRowOf_def messageOK_def Let_def messageRowMatches_def coreSame_def\<close>)
  show ?thesis
    unfolding appendMessage_def
    by (simp add: wp calm_refl [OF i] split: option.split, intro allI impI, rule wpE_mono, rule ins)
      (auto simp: wp)
qed

lemma validatedPartOwnerKeys_Inr:
  assumes w: "wfDb d" and v: "validatedPartOwnerKeys p d = Inr (mk, sk, rk)"
  shows "hasSession d sk (p_SessionID p)" "hasRun d rk (p_RunID p) sk"
    "\<exists>role. hasMessage d mk (p_MessageID p) sk rk role"
proof -
  obtain m where k: "sessionKeyOf (p_SessionID p) d = Inr sk" "runKeyOf (p_RunID p) d = Inr rk"
    "messageKeyOf (p_MessageID p) d = Inr mk" "messageByKey d mk = Some m" "mw_SessionKey m = sk" "mw_RunKey m = rk"
    using v by (auto simp: validatedPartOwnerKeys_def partOwnerKeys_def split: option.split_asm if_split_asm)
  show "hasSession d sk (p_SessionID p)" using k(1) by (rule sessionKeyOf_has)
  have m: "m \<in> set (messages d)" "mw_RowKey m = mk" using k(4) by (simp_all add: messageByKey_iff [OF w])
  then have "hasMessage d mk (mw_ID m) sk rk (mw_Role m)" using k by (auto simp: hasMessage_def)
  moreover obtain sl rl ro where "hasMessage d mk (p_MessageID p) sl rl ro" using messageKeyOf_has [OF k(3)] by blast
  ultimately show "\<exists>role. hasMessage d mk (p_MessageID p) sk rk role" using hasMessage_unique [OF w] by blast
  have "messageOK d m" using wf_rows(3) [OF w m(1)] .
  then have "\<exists>i. hasRun d rk i sk" using k by (auto simp: messageOK_def Let_def)
  with runKeyOf_has [OF k(2)] hasRun_unique(1) [OF w] show "hasRun d rk (p_RunID p) sk" by blast
qed

lemma marshalPart_ids:
  "marshalPart p = Inr q \<Longrightarrow> p_ID q = p_ID p \<and> p_SessionID q = p_SessionID p \<and> p_RunID q = p_RunID p \<and>
     p_MessageID q = p_MessageID p \<and> p_Ordinal q = p_Ordinal p \<and> p_Kind q = p_Kind p"
  by (auto simp: marshalPart_def split: option.splits)

lemma appendPart_calm:
  assumes i: "inv K d"
  shows "wpE (appendPart p) (\<lambda>_. calm K d) d"
proof -
  have w: "wfDb d" using i by (rule inv_wf)
  have ins: "wpE (insertPart (partRowOf p q (mk, sk, rk))) (\<lambda>_. calm K d) d"
    if k: "validatedPartOwnerKeys p d = Inr (mk, sk, rk)" "marshalPart p = Inr q" for mk sk rk q
    by (rule calm_insert, rule keeps_insertPart [OF i])
      (use validatedPartOwnerKeys_Inr [OF w k(1)] marshalPart_ids [OF k(2)] marshalPart_idem [OF k(2)] in
        \<open>auto simp: partRowOf_def partOK_def Let_def coreSame_def\<close>)
  show ?thesis
    unfolding appendPart_def
    by (simp add: wp calm_refl [OF i] split: option.split, intro allI impI, rule wpE_mono, rule ins)
      (auto simp: wp)
qed

lemma updatePart_calm:
  assumes i: "inv K d"
  shows "wpE (updatePart p) (\<lambda>_. calm K d) d"
proof -
  have w: "wfDb d" using i by (rule inv_wf)
  let ?P = "\<lambda>mk sk rk r. pw_ID r = p_ID p \<and> pw_SessionKey r = sk \<and> pw_RunKey r = rk \<and> pw_MessageKey r = mk"
  let ?f = "\<lambda>q r. r\<lparr>pw_Ordinal := p_Ordinal p, pw_Kind := p_Kind p, pw_DisplayText := fst (ObservationText p),
    pw_TextValid := snd (ObservationText p), pw_Record := q, pw_CreatedAt := TimeText (p_CreatedAt p)\<rparr>"
  have upd: "wpE (updateParts (?P mk sk rk) (?f q)) (\<lambda>_. calm K d) d"
    if k: "validatedPartOwnerKeys p d = Inr (mk, sk, rk)" "marshalPart p = Inr q" for mk sk rk q
    by (rule calm_update, rule keeps_updateParts [OF i])
      (use validatedPartOwnerKeys_Inr [OF w k(1)] marshalPart_ids [OF k(2)] marshalPart_idem [OF k(2)] in
        \<open>auto simp: partStep_def partOK_def Let_def coreSame_def\<close>)
  show ?thesis
    unfolding updatePart_def
    by (simp add: wp split: prod.split, intro allI impI, rule wpE_mono, rule upd) (auto simp: wp)
qed

section \<open>Events\<close>

lemma marshalEvent_ids:
  "marshalEvent e = Inr f \<Longrightarrow> ev_ID f = ev_ID e \<and> ev_SessionID f = ev_SessionID e \<and> ev_RunID f = ev_RunID e \<and>
     ev_Kind f = ev_Kind e \<and> ev_CreatedAt f = ev_CreatedAt e \<and> ev_ToolTransition f = ev_ToolTransition e \<and>
     ev_ToolCallID f = ev_ToolCallID e"
  by (auto simp: marshalEvent_def split: option.splits)

lemma insertEventRow_calm:
  assumes i: "inv K d" and m: "marshalEvent e = Inr f"
    and k: "sessionKeyOf (ev_SessionID e) d = Inr sk" "runKeyOf (ev_RunID e) d = Inr rk"
    and t: "tk = None \<or> (\<exists>j. tk = Some j \<and> toolKeyOf (ev_ToolCallID e) d = Inr j)"
  shows "wpE (insertEventRow (eventRowOf e f sk rk tk)) (\<lambda>_. calm K d) d"
proof (rule calm_insert, rule keeps_insertEventRow [OF i])
  show "eventOK d (eventRowOf e f sk rk tk k)" for k
    using sessionKeyOf_has [OF k(1)] runKeyOf_has [OF k(2)] t toolKeyOf_has marshalEvent_ids [OF m] marshalEvent_idem [OF m]
    by (auto simp: eventRowOf_def eventOK_def Let_def split: option.split)
qed (simp_all add: eventRowOf_def coreSame_def)

lemma insertEvent_calm:
  assumes i: "inv K d"
  shows "wpE (insertEvent e b) (\<lambda>_. calm K d) d"
  unfolding insertEvent_def
  by (simp add: wp, intro conjI impI allI; rule wpE_mono, rule insertEventRow_calm [OF i]; (assumption | auto simp: wp)?)

lemma appendEvent_calm: "inv K d \<Longrightarrow> wpE (appendEvent e) (\<lambda>_. calm K d) d"
  by (simp add: appendEvent_def wp insertEvent_calm)

lemma appendCanonicalEvent_calm: "inv K d \<Longrightarrow> wpE (appendCanonicalEvent e) (\<lambda>_. calm K d) d"
  by (simp add: appendCanonicalEvent_def wp insertEvent_calm)

section \<open>The inbox\<close>

lemma marshalInbox_ids:
  "marshalInbox i = Inr j \<Longrightarrow> ib_ID j = ib_ID i \<and> ib_SessionID j = ib_SessionID i \<and>
     ib_IdempotencyKey j = ib_IdempotencyKey i \<and> ib_State j = ib_State i \<and> ib_TurnID j = ib_TurnID i"
  by (auto simp: marshalInbox_def split: option.splits)

lemma enqueueInboxLocked_calm:
  assumes i: "inv K d" and s: "hasSession d sk (ib_SessionID item)" and t: "ib_TurnID item = []"
  shows "wpE (enqueueInboxLocked sk item) (\<lambda>_. calm K d) d"
proof -
  have ins: "wpE (insertInbox (inboxRowOf item st sk)) (\<lambda>_. calm K d) d" if m: "marshalInbox item = Inr st" for st
    by (rule calm_insert, rule keeps_insertInbox [OF i])
      (use s t marshalInbox_ids [OF m] marshalInbox_idem [OF m] in \<open>auto simp: inboxRowOf_def inboxOK_def Let_def coreSame_def\<close>)
  show ?thesis
    unfolding enqueueInboxLocked_def
    by (simp add: wp calm_refl [OF i] split: option.split, intro allI impI, rule wpE_mono, erule ins) (auto simp: wp)
qed

text \<open>
  A transition of an item that follows the row relation and names an existing turn. The row
  may have been read earlier, in \<open>e\<close>: the update only applies while its state is the same.
\<close>

lemma evolves_inbox_row:
  assumes "wfDb d" and "evolves e d" and "row \<in> set (inbox e)" and "j \<in> set (inbox d)" and "iw_RowKey j = iw_RowKey row"
  shows "inboxStep row j"
proof -
  have "grows inboxStep (inbox e) (inbox d)" using assms(2) by (simp add: evolves_def)
  from inboxOrder.grows_mem [OF this assms(3)] obtain l where l: "l \<in> set (inbox d)" "inboxStep row l" ..
  then have "l = j" using assms(4,5) distinct_map_eq [OF wf_distinct(13) [OF assms(1)]] by (auto simp: inboxStep_def)
  with l show ?thesis by simp
qed

lemma moveInbox_calm:
  assumes i: "inv K d" and e: "wfDb e" "evolves e d" "e = d \<or> iw_TurnKey row \<noteq> None" and r: "row \<in> set (inbox e)"
    and item: "item = (iw_Record row)\<lparr>ib_State := st, ib_TurnID := tid, ib_UpdatedAt := u\<rparr>"
    and st: "iw_State row \<noteq> InboxCompleted" "st \<noteq> InboxQueued"
    and tk: "iw_TurnKey row = None \<or> tf (iw_TurnKey row) = iw_TurnKey row"
    and ok: "case tf (iw_TurnKey row) of None \<Rightarrow> tid = [] | Some k \<Rightarrow> hasTurn d k tid"
  shows "wpE (moveInbox row item (iw_State row) tf) (\<lambda>_. calm K d) d"
proof -
  have w: "wfDb d" using i by (rule inv_wf)
  have rok: "inboxOK e row" using wf_rows(9) [OF e(1) r] .
  then have rok': "inboxOK d row" by (rule evolves_rowOK(8) [OF e(2)])
  have m: "marshalInbox item = Inr item" using rok unfolding item by (intro marshalInbox_update) (simp add: inboxOK_def Let_def)
  let ?P = "\<lambda>j. iw_RowKey j = iw_RowKey row \<and> iw_State j = iw_State row"
  let ?f = "\<lambda>j. j\<lparr>iw_State := ib_State item, iw_TurnKey := tf (iw_TurnKey j), iw_Record := item,
    iw_UpdatedAt := TimeText (ib_UpdatedAt item)\<rparr>"
  have "wpE (updateInbox ?P ?f) (\<lambda>_. calm K d) d"
  proof (rule calm_update, rule keeps_updateInbox [OF i])
    fix j assume j: "j \<in> set (inbox d)" "?P j"
    have s: "inboxStep row j" using evolves_inbox_row [OF w e(2) r j(1)] j(2) by simp
    have t: "iw_TurnKey j = iw_TurnKey row"
    proof (cases "e = d")
      case True
      with r j have "j = row" using distinct_map_eq [OF wf_distinct(13) [OF w]] by blast
      then show ?thesis by simp
    next
      case False
      with e(3) s show ?thesis by (auto simp: inboxStep_def)
    qed
    show "inboxOK d (?f j)" using rok' ok m s t by (auto simp: inboxOK_def inboxStep_def Let_def item split: option.splits)
    show "inboxStep j (?f j)" using st tk s t j(2) by (auto simp: inboxStep_def item)
  qed (simp_all add: coreSame_def)
  then show ?thesis
    unfolding moveInbox_def by (simp add: wp m) (erule wpE_mono, simp add: wp)
qed

lemma inboxRowByID_ok:
  assumes "wfDb d" and "inboxRowByID i d = Inr q"
  shows "fst q \<in> set (inbox d)" "decodeInboxRow q = Inr (iw_Record (fst q))" "inboxOK d (fst q)"
  using inboxRowByID_Inr [OF assms(2)] decodeInboxRow_ok [OF assms(1), of "fst q" "snd q"] wf_rows(9) [OF assms(1)]
  by auto

lemma inboxOK_sel:
  "inboxOK d r \<Longrightarrow> ib_State (iw_Record r) = iw_State r"
  "inboxOK d r \<Longrightarrow> case iw_TurnKey r of None \<Rightarrow> ib_TurnID (iw_Record r) = [] | Some k \<Rightarrow> hasTurn d k (ib_TurnID (iw_Record r))"
  by (simp_all add: inboxOK_def Let_def)

lemma wf_inboxCheck: "wfDb d \<Longrightarrow> r \<in> set (inbox d) \<Longrightarrow> iw_State r = InboxQueued \<Longrightarrow> iw_TurnKey r = None"
  using wfD(9) [of d] by (auto simp: tableWf_def inboxCheck_def)

lemma record_item: "(v :: InboxItem)\<lparr>ib_State := s, ib_UpdatedAt := u\<rparr> = v\<lparr>ib_State := s, ib_TurnID := ib_TurnID v, ib_UpdatedAt := u\<rparr>"
  by simp

lemma consumeOne_calm:
  assumes i: "inv K d" and t: "hasTurn d tk tid"
  shows "wpE (consumeOne sk tk tid u j) (\<lambda>_. calm K d) d"
proof -
  have w: "wfDb d" using i by (rule inv_wf)
  have mv: "wpE (moveInbox a ((iw_Record a)\<lparr>ib_State := InboxConsumed, ib_TurnID := tid, ib_UpdatedAt := UTC u\<rparr>)
      InboxQueued (\<lambda>_. Some tk)) (\<lambda>_. calm K d) d"
    if q: "inboxRowByID j d = Inr (a, b)" "ib_State (iw_Record a) = InboxQueued" for a b
  proof -
    have r: "a \<in> set (inbox d)" "inboxOK d a" using inboxRowByID_ok [OF w q(1)] by simp_all
    have s: "InboxQueued = iw_State a" using r(2) q(2) inboxOK_sel by metis
    show ?thesis
      unfolding s by (rule moveInbox_calm [OF i w _ _ r(1) refl]) (use wf_inboxCheck [OF w r(1)] s t in auto)
  qed
  show ?thesis
    unfolding consumeOne_def
    by (auto simp: wp calm_refl [OF i] intro: mv dest!: decodeInboxRow_Inr)
qed

lemma interruptOne_calm:
  assumes i: "inv K d"
  shows "wpE (interruptOne sk u j) (\<lambda>_. calm K d) d"
proof -
  have w: "wfDb d" using i by (rule inv_wf)
  have mv: "wpE (moveInbox a ((iw_Record a)\<lparr>ib_State := InboxInterrupted, ib_UpdatedAt := UTC u\<rparr>) s id) (\<lambda>_. calm K d) d"
    if q: "inboxRowByID j d = Inr (a, b)" "ib_State (iw_Record a) = s" "s = InboxQueued \<or> s = InboxConsumed" for a b s
  proof -
    have r: "a \<in> set (inbox d)" "inboxOK d a" using inboxRowByID_ok [OF w q(1)] by simp_all
    have s: "s = iw_State a" using r(2) q(2) inboxOK_sel(1) by metis
    show ?thesis
      unfolding s by (rule moveInbox_calm [OF i w _ _ r(1) record_item]) (use inboxOK_sel [OF r(2)] q(3) s in auto)
  qed
  show ?thesis
    unfolding interruptOne_def
    by (auto simp: wp calm_refl [OF i] intro: mv dest!: decodeInboxRow_Inr)
qed

lemma settleOne_calm:
  assumes i: "inv K d" and e: "wfDb e" "evolves e d" and q: "q \<in> set (inboxQuery e)"
    and tk: "iw_TurnKey (fst q) = Some tk" and cur: "iw_State (fst q) \<noteq> InboxCompleted" and st: "st \<noteq> InboxQueued"
  shows "wpE (settleOne st u q) (\<lambda>_. calm K d) d"
proof -
  have r: "fst q \<in> set (inbox e)" using q set_inboxQuery [of "fst q" "snd q" e] by simp
  have ok: "inboxOK e (fst q)" using wf_rows(9) [OF e(1) r] .
  have "decodeInboxRow q = Inr (iw_Record (fst q))" using decodeInboxRow_ok [OF e(1)] q by (metis prod.collapse)
  moreover have "wpE (moveInbox (fst q) ((iw_Record (fst q))\<lparr>ib_State := st, ib_UpdatedAt := UTC u\<rparr>) (iw_State (fst q)) id)
      (\<lambda>_. calm K d) d"
    by (rule moveInbox_calm [OF i e _ r record_item cur st]) (use inboxOK_sel(2) [OF evolves_rowOK(8) [OF e(2) ok]] tk in auto)
  ultimately show ?thesis
    by (simp add: settleOne_def wp inboxOK_sel(1) [OF ok])
qed

lemma settleInboxForTurn_calm:
  assumes i: "inv K d" and "InboxCompleted \<notin> set froms" and "st \<noteq> InboxQueued"
  shows "wpE (settleInboxForTurn tk froms st u) (\<lambda>_. calm K d) d"
  unfolding settleInboxForTurn_def
  by (simp add: wp, rule calm_for [OF _ i], rule settleOne_calm [OF _ inv_wf [OF i]]) (use assms in auto)

lemma interruptInboxItems_calm: "inv K d \<Longrightarrow> wpE (interruptInboxItems sk ids u) (\<lambda>_. calm K d) d"
  unfolding interruptInboxItems_def by (rule calm_for) (rule interruptOne_calm)

lemma consumeInboxForTurn_calm:
  "inv K d \<Longrightarrow> hasTurn d tk tid \<Longrightarrow> wpE (consumeInboxForTurn sk tk tid ids u) (\<lambda>_. calm K d) d"
  unfolding consumeInboxForTurn_def by (rule calm_for) (auto intro: consumeOne_calm evolves_has)

section \<open>Checkpoints\<close>

lemma createCheckpoint_calm:
  assumes i: "inv K d"
  shows "wpE (createCheckpoint c) (\<lambda>_. calm K d) d"
proof -
  have ins: "wpE (insertCheckpoint (checkpointRowOf c rk)) (\<lambda>_. calm K d) d" if k: "runKeyOf (cp_RunID c) d = Inr rk" for rk
    by (rule calm_insert, rule keeps_insertCheckpoint [OF i])
      (use runKeyOf_has [OF k] in \<open>auto simp: checkpointRowOf_def checkpointOK_def Let_def coreSame_def\<close>)
  show ?thesis
    unfolding createCheckpoint_def
    by (simp add: wp calm_refl [OF i] split: option.split, intro allI impI, rule wpE_mono, rule ins) (auto simp: wp)
qed

lemma checkpointRowByRevision_Inr:
  assumes "checkpointRowByRevision rk n d = Inr q"
  shows "fst q \<in> set (checkpoints d)" "kw_RunKey (fst q) = rk" "kw_Revision (fst q) = n"
  using assms by (auto simp: checkpointRowByRevision_def checkpointQuery_def set_map_filter dest!: take1_Inr)

lemma promoteRevision_calm:
  assumes i: "inv K d"
  shows "wpE (promoteRevision rk n) (\<lambda>_. calm K d) d"
proof -
  have w: "wfDb d" using i by (rule inv_wf)
  have upd: "wpE (updateCheckpoints (\<lambda>r. kw_RowKey r = kw_RowKey a \<and> \<not> kw_Promoted r)
      (\<lambda>r. r\<lparr>kw_Promoted := True, kw_Record := c\<lparr>cp_Promoted := True\<rparr>\<rparr>)) (\<lambda>_. calm K d) d"
    if q: "checkpointRowByRevision rk n d = Inr (a, b)" "decodeCheckpointRow (a, b) = Inr c" for a b c
  proof (rule calm_update, rule keeps_updateCheckpoints [OF i])
    fix r assume r: "r \<in> set (checkpoints d)" "kw_RowKey r = kw_RowKey a \<and> \<not> kw_Promoted r"
    have "r = a"
      using distinct_map_eq [OF wf_distinct(19) [OF w] r(1) checkpointRowByRevision_Inr(1) [OF q(1)]] r(2) by simp
    moreover have "c = kw_Record a" using q(2) by (auto simp: decodeCheckpointRow_def Let_def split: if_split_asm)
    ultimately show "checkpointOK d (r\<lparr>kw_Promoted := True, kw_Record := c\<lparr>cp_Promoted := True\<rparr>\<rparr>)"
      using wf_rows(10) [OF w r(1)] by (auto simp: checkpointOK_def Let_def)
  qed (simp_all add: coreSame_def)
  show ?thesis
    unfolding promoteRevision_def
    by (simp add: wp calm_refl [OF i], intro allI impI, rule wpE_mono, erule (1) upd) (auto simp: wp)
qed

lemma deleteCheckpointsUpTo_calm:
  assumes i: "inv K d"
  shows "wpE (deleteCheckpointsUpTo rk n) (\<lambda>_. calm K d) d"
proof -
  let ?f = "filter (\<lambda>c. \<not> (kw_RunKey c = rk \<and> kw_Revision c \<le> n))" and ?t = "checkpoints_update (filter (\<lambda>c. \<not> (kw_RunKey c = rk \<and> kw_Revision c \<le> n))) d"
  have w: "wfDb d" using i by (rule inv_wf)
  have e: "evolves d ?t" by (simp add: evolves_def)
  have d': "distinct (map f xs) \<Longrightarrow> distinct (map f (filter P xs))" for f :: "checkpointRow \<Rightarrow> 'b" and P xs
    by (rule distinct_map_filter)
  have "checkpointsWf ?t (checkpoints ?t)"
    using wfD(10) [OF w] evolves_rowOK(9) [OF e] by (auto simp: tableWf_def checkpointsUnique_def intro!: d')
  then have "wfDb ?t" by (intro wf_extend [OF w e]) simp_all
  with i e show ?thesis
    unfolding deleteCheckpointsUpTo_def by (simp add: wp calm_def keeps_def inv_def coreSame_def quiet_def)
qed

section \<open>Context epochs\<close>

lemma startContextEpoch_calm:
  assumes i: "inv K d"
  shows "wpE (startContextEpoch c) (\<lambda>_. calm K d) d"
proof -
  have ins: "wpE (insertEpoch (epochRowOf c sk)) (\<lambda>_. calm K d) d" if k: "sessionKeyOf (ce_SessionID c) d = Inr sk" for sk
    by (rule calm_insert, rule keeps_insertEpoch [OF i])
      (use sessionKeyOf_has [OF k] in \<open>auto simp: epochRowOf_def epochOK_def Let_def coreSame_def\<close>)
  show ?thesis
    unfolding startContextEpoch_def
    by (simp add: wp calm_refl [OF i] split: option.split, intro allI impI, rule wpE_mono, rule ins) (auto simp: wp)
qed

lemma finishContextEpoch_calm:
  assumes i: "inv K d"
  shows "wpE (finishContextEpoch c) (\<lambda>_. calm K d) d"
proof -
  have upd: "wpE (updateEpochs (\<lambda>e. ew_ID e = ce_ID c \<and> ew_SessionKey e = sk)
      (\<lambda>e. e\<lparr>ew_Record := c, ew_ClosedAt := TimeText (ce_ClosedAt c), ew_CreatedAt := TimeText (ce_CreatedAt c)\<rparr>)) (\<lambda>_. calm K d) d"
    if k: "sessionKeyOf (ce_SessionID c) d = Inr sk" for sk
    by (rule calm_update, rule keeps_updateEpochs [OF i])
      (use sessionKeyOf_has [OF k] in \<open>auto simp: epochStep_def epochOK_def Let_def coreSame_def\<close>)
  show ?thesis
    unfolding finishContextEpoch_def by (simp add: wp, intro allI impI, rule wpE_mono, rule upd) (auto simp: wp)
qed

section \<open>Model requests\<close>

definition requestIdent :: "ModelRequestRecord \<Rightarrow> ModelRequestID \<times> ID \<times> RunID \<times> MessageID \<times> string \<times> int \<times> int \<times> gotime" where
  "requestIdent q = (mr_ID q, mr_SessionID q, mr_RunID q, mr_AssistantMessageID q, mr_InvocationID q, mr_Attempt q,
     mr_Step q, mr_CreatedAt q)"

lemma marshalModelRequest_ids: "marshalModelRequest q = Inr r \<Longrightarrow> requestIdent r = requestIdent q \<and> mr_State r = mr_State q"
  by (auto simp: marshalModelRequest_def requestIdent_def split: option.splits)

lemma SameModelRequestIdentity_ident: "SameModelRequestIdentity l r \<Longrightarrow> requestIdent r = requestIdent l"
proof -
  let ?c = "\<lambda>q. q\<lparr>mr_State := ModelRequestStateOther [], mr_ErrorCode := [], mr_UpdatedAt := zeroTime\<rparr>"
  assume "SameModelRequestIdentity l r"
  then obtain a where "marshalModelRequest (?c l) = Inr a" "marshalModelRequest (?c r) = Inr a"
    by (auto simp: SameModelRequestIdentity_def SameRecord_def split: sum.splits)
  then have "requestIdent (?c l) = requestIdent (?c r)" by (metis marshalModelRequest_ids)
  then show ?thesis by (simp add: requestIdent_def)
qed

lemma SameModelRequestIdentity_core:
  assumes "SameModelRequestIdentity v q" and "marshalModelRequest v = Inr v" and "marshalModelRequest q = Inr st"
  shows "requestCore st = requestCore v"
proof -
  have m: "marshalModelRequest (requestCore x) = Inr (requestCore y)" if "marshalModelRequest x = Inr y" for x y
    using that by (auto simp: marshalModelRequest_def requestCore_def split: option.splits)
  show ?thesis
    using assms(1) m [OF assms(2)] m [OF assms(3)] by (simp add: SameModelRequestIdentity_def SameRecord_def requestCore_def)
qed

lemma modelRequestOwnerKeys_Inr:
  assumes w: "wfDb d" and "modelRequestOwnerKeys i j d = Inr (sk, rk)"
  shows "hasSession d sk i" "hasRun d rk j sk"
proof -
  obtain r where k: "sessionKeyOf i d = Inr sk" "runKeyOf j d = Inr rk" "runByKey d rk = Some r" "rw_SessionKey r = sk"
    using assms(2) by (auto simp: modelRequestOwnerKeys_def split: option.split_asm if_split_asm)
  have r: "r \<in> set (runs d)" "rw_RowKey r = rk" using k(3) by (simp_all add: runByKey_iff [OF w])
  show "hasSession d sk i" using k(1) by (rule sessionKeyOf_has)
  have "hasRun d rk (rw_ID r) sk" using k(4) r by (auto simp: hasRun_def)
  with runKeyOf_has [OF k(2)] hasRun_unique(1) [OF w] show "hasRun d rk j sk" by blast
qed

lemma createModelRequest_calm:
  assumes i: "inv K d"
  shows "wpE (createModelRequest q) (\<lambda>_. calm K d) d"
proof -
  have w: "wfDb d" using i by (rule inv_wf)
  have ins: "wpE (insertModelRequest (modelRequestRowOf q r (sk, rk))) (\<lambda>_. calm K d) d"
    if k: "modelRequestOwnerKeys (mr_SessionID q) (mr_RunID q) d = Inr (sk, rk)" "marshalModelRequest q = Inr r"
      "modelRequestBytes r \<le> maxModelRequestRecordBytes" for sk rk r
    by (rule calm_insert, rule keeps_insertModelRequest [OF i])
      (use modelRequestOwnerKeys_Inr [OF w k(1)] marshalModelRequest_ids [OF k(2)] marshalModelRequest_idem [OF k(2)] k(3) in
        \<open>auto simp: modelRequestRowOf_def requestOK_def Let_def coreSame_def modelRequestRowMatches_def requestIdent_def\<close>)
  show ?thesis
    unfolding createModelRequest_def
    by (simp add: wp calm_refl [OF i] split: option.split, intro allI impI, rule wpE_mono, rule ins) (auto simp: wp)
qed

lemma set_modelRequestQuery:
  "(q, i, j) \<in> set (modelRequestQuery d) \<Longrightarrow> q \<in> set (model_requests d)"
  by (auto simp: modelRequestQuery_def set_map_filter split: option.split_asm if_split_asm)

lemma modelRequestRowByID_Inr:
  "modelRequestRowByID k d = Inr (q, i, j) \<Longrightarrow> q \<in> set (model_requests d) \<and> qw_ID q = k"
  by (auto simp: modelRequestRowByID_def dest!: take1_Inr dest: set_modelRequestQuery)

lemma ValidModelRequestTransition_rank:
  "ValidModelRequestTransition a b \<Longrightarrow> requestRank a < requestRank b"
  by (cases a; cases b) (simp_all add: ValidModelRequestTransition_def requestRank_def)

lemma updateModelRequest_calm:
  assumes i: "inv K d"
  shows "wpE (updateModelRequest q) (\<lambda>_. calm K d) d"
proof -
  have w: "wfDb d" using i by (rule inv_wf)
  have upd: "wpE (updateModelRequests (\<lambda>r. qw_ID r = mr_ID q \<and> qw_State r = mr_State v) (\<lambda>r. r\<lparr>qw_State := mr_State q, qw_Record := st\<rparr>))
      (\<lambda>_. calm K d) d"
    if k: "modelRequestRowByID (mr_ID q) d = Inr (a, x, y)" "modelRequestOwnerKeys (mr_SessionID q) (mr_RunID q) d = Inr (qw_SessionKey a, qw_RunKey a)"
      "modelRequestRecordFromRow (a, x, y) (mr_ID q) = Inr v" "SameModelRequestIdentity v q"
      "ValidModelRequestTransition (mr_State v) (mr_State q)" "marshalModelRequest q = Inr st"
      "modelRequestBytes st \<le> maxModelRequestRecordBytes" for a x y v st
  proof (rule calm_update, rule keeps_updateModelRequests [OF i])
    fix r assume r: "r \<in> set (model_requests d)" "qw_ID r = mr_ID q \<and> qw_State r = mr_State v"
    have a: "a \<in> set (model_requests d)" "qw_ID a = mr_ID q" using modelRequestRowByID_Inr [OF k(1)] by simp_all
    have ra: "r = a" using distinct_map_eq [OF wf_distinct(16) [OF w] r(1) a(1)] r(2) a(2) by simp
    have v: "v = qw_Record r" using k(3) ra
      by (auto simp: modelRequestRecordFromRow_def decodeModelRequest_def split: if_split_asm)
    have id: "requestIdent st = requestIdent (qw_Record r)" "mr_State st = mr_State q"
      using marshalModelRequest_ids [OF k(6)] SameModelRequestIdentity_ident [OF k(4)] v by auto
    have "requestOK d r" using wf_rows(7) [OF w r(1)] .
    then show "requestOK d (r\<lparr>qw_State := mr_State q, qw_Record := st\<rparr>)"
      using id k(7) marshalModelRequest_idem [OF k(6)]
      by (auto simp: requestOK_def Let_def modelRequestRowMatches_def requestIdent_def)
    have rk: "requestRank (qw_State r) < requestRank (mr_State q)"
      using ValidModelRequestTransition_rank [OF k(5)] r(2) by simp
    moreover have "requestCore st = requestCore (qw_Record r)"
      using SameModelRequestIdentity_core [OF k(4) _ k(6)] \<open>requestOK d r\<close> v by (simp add: requestOK_def Let_def)
    ultimately show "requestStep r (r\<lparr>qw_State := mr_State q, qw_Record := st\<rparr>)"
      by (auto simp: requestStep_def)
  qed (simp_all add: coreSame_def)
  show ?thesis
    unfolding updateModelRequest_def
    by (simp add: wp calm_refl [OF i], intro allI impI, rule wpE_mono, rule upd) (auto simp: wp)
qed

section \<open>Sessions and titles\<close>

lemma insertSession_calm:
  assumes i: "inv K d"
  shows "wpE (insertSession (sessionRowOf s)) (\<lambda>_. calm K d) d"
  by (rule calm_insert, rule keeps_insertSession [OF i])
    (simp_all add: sessionRowOf_def sessionOK_def sessionRowMatches_def coreSame_def)

lemma sessionRowByID_Inr: "sessionRowByID i d = Inr r \<Longrightarrow> r \<in> set (sessions d) \<and> sw_ID r = i"
  by (auto simp: sessionRowByID_def dest!: take1_Inr)

lemma CreateSession_calm: "inv K d \<Longrightarrow> wpE (CreateSession s) (\<lambda>_. calm K d) d"
  by (auto simp: CreateSession_def wp calm_refl split: option.split intro!: wpE_mono [OF insertSession_calm])

lemma UpdateSession_calm:
  assumes i: "inv K d"
  shows "wpE (UpdateSession s) (\<lambda>_. calm K d) d"
proof -
  have same: "sw_ID r = s_ID s" if "sessionKeyOf (s_ID s) d = Inr k" "r \<in> set (sessions d)" "sw_RowKey r = k" for r k
  proof -
    have "hasSession d k (sw_ID r)" using that(2,3) by (auto simp: hasSession_def)
    then show ?thesis by (rule hasSession_unique(1) [OF inv_wf [OF i] _ sessionKeyOf_has [OF that(1)]])
  qed
  have upd: "wpE (updateSessions (\<lambda>r. sw_RowKey r = k) (\<lambda>r. r\<lparr>sw_Record := s, sw_Workspace := s_WorkspaceID s, sw_Title := s_Title s,
      sw_CreatedAt := TimeText (s_CreatedAt s), sw_UpdatedAt := TimeText (s_UpdatedAt s)\<rparr>)) (\<lambda>_. calm K d) d"
    if k: "sessionKeyOf (s_ID s) d = Inr k" for k
    by (rule calm_update, rule keeps_updateSessions [OF i])
      (use same [OF k] in \<open>auto simp: sessionStep_def sessionOK_def sessionRowMatches_def coreSame_def\<close>)
  show ?thesis
    unfolding UpdateSession_def by (simp add: wp, intro allI impI, rule wpE_mono, rule upd) (auto simp: wp)
qed

lemma LockAdmissionSession_calm: "inv K d \<Longrightarrow> wpE (LockAdmissionSession b s) (\<lambda>_. calm K d) d"
  by (auto simp: LockAdmissionSession_def wp calm_refl split: option.split intro!: wpE_mono [OF insertSession_calm])

lemma setSessionTitleLocked_calm:
  assumes i: "inv K d"
  shows "wpE (setSessionTitleLocked now q) (\<lambda>_. calm K d) d"
proof -
  let ?c = "\<lambda>v u. v\<lparr>s_Title := st_Title q, s_UpdatedAt := u\<rparr>"
  have upd: "wpE (updateSessions (\<lambda>r. sw_RowKey r = sw_RowKey row)
      (\<lambda>r. r\<lparr>sw_Record := ?c (sw_Record row) u, sw_Title := st_Title q, sw_UpdatedAt := tx\<rparr>)) (\<lambda>_. calm K d) d"
    if k: "sessionRowByID (st_SessionID q) d = Inr row" "sessionRowMatches row (sw_Record row)" "tx = TimeText u" for row u tx
  proof (rule calm_update, rule keeps_updateSessions [OF i])
    fix r assume r: "r \<in> set (sessions d)" "sw_RowKey r = sw_RowKey row"
    have "r = row" using distinct_map_eq [OF wf_distinct(1) [OF inv_wf [OF i]]] r sessionRowByID_Inr [OF k(1)] by blast
    with k(2,3) show "sessionOK (r\<lparr>sw_Record := ?c (sw_Record row) u, sw_Title := st_Title q, sw_UpdatedAt := tx\<rparr>)"
      by (simp add: sessionOK_def sessionRowMatches_def)
  qed (simp_all add: sessionStep_def coreSame_def)
  show ?thesis
    unfolding setSessionTitleLocked_def
    by (auto simp: wp calm_refl [OF i] Let_def intro!: wpE_mono [OF upd])
qed

section \<open>Messages and admissions\<close>

lemma finalize_calm:
  assumes i: "inv K d"
  shows "wpE (updateMessages (\<lambda>m. P m \<and> mw_Role m = RoleAssistant) (\<lambda>m. m\<lparr>mw_Finalized := True\<rparr>)) (\<lambda>_. calm K d) d"
proof (rule calm_update, rule keeps_updateMessages [OF i])
  fix r assume r: "r \<in> set (messages d)" "P r \<and> mw_Role r = RoleAssistant"
  show "messageOK d (r\<lparr>mw_Finalized := True\<rparr>)"
    using wf_rows(3) [OF inv_wf [OF i] r(1)] by (auto simp: messageOK_def Let_def messageRowMatches_def)
qed (simp_all add: messageStep_def coreSame_def)

lemma messageRowByID_Inr: "messageRowByID i d = Inr r \<Longrightarrow> r \<in> set (messages d) \<and> mw_ID r = i"
  by (auto simp: messageRowByID_def dest!: take1_Inr)

lemma insertAdmission_calm:
  assumes i: "inv K d" and u: "user \<in> set (messages d)" "mw_Role user = RoleUser"
    and a: "asst \<in> set (messages d)" "mw_Role asst = RoleAssistant"
    and k: "mw_SessionKey user = sk" "mw_RunKey user = rk" "mw_SessionKey asst = sk" "mw_RunKey asst = rk"
    and mk: "\<And>k. aw_RowKey (mk k) = k" "\<And>k. aw_SessionKey (mk k) = sk" "\<And>k. aw_RunKey (mk k) = rk"
      "\<And>k. aw_UserMessageKey (mk k) = mw_RowKey user" "\<And>k. aw_AssistantMessageKey (mk k) = mw_RowKey asst"
  shows "wpE (insertAdmission mk) (\<lambda>_. calm K d) d"
proof (rule calm_insert, rule keeps_insertAdmission [OF i])
  have ok: "messageOK d user" using wf_rows(3) [OF inv_wf [OF i] u(1)] .
  show "admissionOK d (mk k)" for k
    using ok u a k mk unfolding admissionOK_def messageOK_def Let_def hasMessage_def by metis
qed (simp_all add: mk coreSame_def)

end
