(* ===== verification/StoreCore.thy ===== *)
theory StoreCore
  imports StoreKeeps
begin

text \<open>
  The private operations on runs, turns and tool calls: what they need to keep the invariant,
  which is what the fence and the reads of the public operations establish. A run may only
  become terminal when it is in the set \<open>K\<close> of runs that are being settled; afterwards
  \<open>terminalizeResidualTurns\<close> makes it quiet again.
\<close>

section \<open>Runs\<close>

text \<open>Only runs changed.\<close>

definition runFrame :: "db \<Rightarrow> db \<Rightarrow> bool" where
  "runFrame d t \<longleftrightarrow> turns t = turns d \<and> tool_calls t = tool_calls d"

text \<open>A run record that may replace the one of row \<open>r\<close>.\<close>

definition sameRun :: "runRow \<Rightarrow> Run \<Rightarrow> bool" where
  "sameRun r v \<longleftrightarrow> r_ID v = rw_ID r \<and> r_SessionID v = r_SessionID (rw_Record r) \<and> r_CreatedAt v = r_CreatedAt (rw_Record r)"

lemma sameRun_runOf: "runOK d r \<Longrightarrow> sameRun r (runOf r)"
  by (simp add: sameRun_def runOf_def runOK_def Let_def)

lemma sameRun_updates [simp]:
  "sameRun r (v\<lparr>r_Status := a\<rparr>) = sameRun r v" "sameRun r (v\<lparr>r_StartedAt := b\<rparr>) = sameRun r v"
  "sameRun r (v\<lparr>r_FinishedAt := b\<rparr>) = sameRun r v" "sameRun r (v\<lparr>r_Error := c\<rparr>) = sameRun r v"
  "sameRun r (v\<lparr>r_OwnerID := c\<rparr>) = sameRun r v" "sameRun r (v\<lparr>r_ClaimToken := c\<rparr>) = sameRun r v"
  by (simp_all add: sameRun_def)

lemma runs_eq: "wfDb d \<Longrightarrow> r \<in> set (runs d) \<Longrightarrow> s \<in> set (runs d) \<Longrightarrow> rw_RowKey r = rw_RowKey s \<or> rw_ID r = rw_ID s \<Longrightarrow> r = s"
  using distinct_map_eq [OF wf_distinct(3)] distinct_map_eq [OF wf_distinct(4)] by metis

text \<open>Every update of a run writes one row that is not terminal.\<close>

lemma updateRun_keeps:
  assumes i: "inv K d" and r: "r \<in> set (runs d)"
    and P: "\<And>s. P s \<Longrightarrow> (rw_RowKey s = rw_RowKey r \<or> rw_ID s = rw_ID r) \<and> activeStatus (rw_Status s)"
    and f: "rw_RowKey (f r) = rw_RowKey r" "rw_ID (f r) = rw_ID r" "rw_SessionKey (f r) = rw_SessionKey r" "rw_CreatedAt (f r) = rw_CreatedAt r"
    and k: "\<And>s. rw_RowKey (f s) = rw_RowKey s"
    and ok: "runOK d r \<Longrightarrow> P r \<Longrightarrow> runOK d (f r)"
    and st: "P r \<Longrightarrow> rw_Status (f r) = rw_Status r \<or> rw_Status (f r) \<noteq> RunPending"
    and trm: "P r \<Longrightarrow> activeStatus (rw_Status (f r)) \<or> rw_RowKey r \<in> K"
  shows "wpE (updateRuns P f) (\<lambda>n t. keeps K d t \<and> n = countWhere P (runs d) \<and> t = runs_update (updateWhere P f) d) d"
proof -
  have w: "wfDb d" using i by (rule inv_wf)
  have eq: "s = r" if "s \<in> set (runs d)" "P s" for s
    using that P runs_eq [OF w that(1) r] by blast
  show ?thesis
  proof (rule keeps_updateRuns [OF i])
    fix s assume s: "s \<in> set (runs d)" "P s"
    show "runOK d (f s)" using eq [OF s] ok s wf_rows(2) [OF w] by auto
    show "runStep s (f s)" using eq [OF s] f st s P [of r] by (auto simp: runStep_def terminalRow_def)
    show "terminalRow (f s) \<Longrightarrow> terminalRow s \<or> rw_RowKey s \<in> K" using eq [OF s] trm s by (auto simp: terminalRow_def)
  qed (simp add: k)
qed

lemma live_active: "liveStatus s \<Longrightarrow> activeStatus s"
  by (auto simp: liveStatus_def activeStatus_def)

lemma writeRun_keeps:
  assumes i: "inv K d" and r: "r \<in> set (runs d)" and v: "sameRun r v"
    and st: "r_Status v = rw_Status r \<or> r_Status v \<noteq> RunPending" and trm: "activeStatus (r_Status v) \<or> rw_RowKey r \<in> K"
  shows "wpE (writeRun v) (\<lambda>_ t. keeps K d t \<and> runFrame d t) d"
proof -
  have "wpE (updateRuns (\<lambda>r. rw_ID r = r_ID v \<and> rw_ClaimToken r = r_ClaimToken v \<and> liveStatus (rw_Status r))
       (\<lambda>r. r\<lparr>rw_Status := r_Status v, rw_OwnerID := r_OwnerID v, rw_ClaimToken := r_ClaimToken v,
          rw_ProviderID := r_ProviderID v, rw_ModelID := r_ModelID v, rw_Record := v\<rparr>)) (\<lambda>_ t. keeps K d t \<and> runFrame d t) d"
    by (rule wpE_mono, rule updateRun_keeps [OF i r])
      (use v st trm in \<open>auto simp: sameRun_def runOK_def Let_def runFrame_def live_active\<close>)
  then show ?thesis
    unfolding writeRun_def by (simp add: wp) (erule wpE_mono, auto simp: wp)
qed

lemma renewRunLease_keeps:
  assumes i: "inv K d" and r: "r \<in> set (runs d)" "rw_ID r = f_RunID f"
  shows "wpE (renewRunLease now f n) (\<lambda>_ t. keeps K d t \<and> runFrame d t) d"
proof -
  have "wpE (updateRuns (\<lambda>r. rw_ID r = f_RunID f \<and> rw_ClaimToken r = f_ClaimToken f \<and> liveStatus (rw_Status r))
       (\<lambda>r. r\<lparr>rw_LeaseUntil := now + durationMicros n\<rparr>)) (\<lambda>_ t. keeps K d t \<and> runFrame d t) d"
    by (rule wpE_mono, rule updateRun_keeps [OF i r(1)])
      (use r(2) in \<open>auto simp: runOK_def Let_def runFrame_def live_active\<close>)
  then show ?thesis
    unfolding renewRunLease_def by (simp add: wp) (erule wpE_mono, auto simp: wp)
qed

lemma pauseRunRow_keeps:
  assumes i: "inv K d" and r: "r \<in> set (runs d)" "rw_RowKey r = k" "runOf r = v"
  shows "wpE (pauseRunRow k v) (\<lambda>_ t. keeps K d t \<and> runFrame d t) d"
proof -
  have "wpE (updateRuns (\<lambda>r. rw_RowKey r = k \<and> rw_ClaimToken r = r_ClaimToken v \<and> liveStatus (rw_Status r))
       (\<lambda>r. r\<lparr>rw_Status := RunPaused, rw_LeaseUntil := 0, rw_Record := v\<lparr>r_Status := RunPaused\<rparr>\<rparr>)) (\<lambda>_ t. keeps K d t \<and> runFrame d t) d"
    by (rule wpE_mono, rule updateRun_keeps [OF i r(1)])
      (use r(2,3) in \<open>auto simp: runOf_def runOK_def Let_def runFrame_def liveStatus_def activeStatus_def\<close>)
  then show ?thesis
    unfolding pauseRunRow_def by (simp add: wp) (erule wpE_mono, auto simp: wp)
qed

section \<open>Turns\<close>

lemma foldr_max_Max: "foldr max xs a = Max (insert (a :: int) (set xs))"
proof (induction xs)
  case (Cons x xs)
  have "Max (insert a (set (x # xs))) = max x (Max (insert a (set xs)))" 
    using Max_insert [of "insert a (set xs)" x] by (simp add: insert_commute)
  with Cons show ?case by simp
qed simp

lemma nextOrdinal_length:
  assumes "ordinalsOK (turns d)"
  shows "nextOrdinal k d = int (length (filter (\<lambda>t. nw_RunKey t = k) (turns d))) + 1"
proof (cases "filter (\<lambda>t. nw_RunKey t = k) (turns d)")
  case Nil
  then show ?thesis by (simp add: nextOrdinal_def)
next
  case (Cons t ts)
  have "map nw_Ordinal (t # ts) = map int [1..<Suc (length (t # ts))]" using assms Cons by (metis ordinalsOK_def)
  then have "set (map nw_Ordinal (t # ts)) = int ` {1..<Suc (length (t # ts))}" by (simp only: set_map set_upt)
  then have "insert (nw_Ordinal t) (set (map nw_Ordinal ts)) = int ` {1..<Suc (length (t # ts))}" by simp
  moreover have "Max (int ` {1..<Suc (length (t # ts))}) = int (length (t # ts))"
    by (rule Max_eqI, simp, force, rule image_eqI [of _ _ "length (t # ts)"]) auto
  ultimately show ?thesis using Cons by (simp add: nextOrdinal_def foldr_max_Max)
qed

lemma ordinalsOK_append:
  assumes "ordinalsOK (turns d)" and "nw_Ordinal t = nextOrdinal (nw_RunKey t) d"
  shows "ordinalsOK (turns d @ [t])"
  using assms nextOrdinal_length [OF assms(1)] by (auto simp: ordinalsOK_def)

lemma createTurn_keeps:
  assumes i: "inv K d" and live: "\<And>k sk. hasRun d k (t_RunID v) sk \<Longrightarrow> liveKey k d"
  shows "wpE (createTurn v) (\<lambda>_ t. keeps K d t \<and> runs t = runs d \<and> tool_calls t = tool_calls d) d"
proof -
  have w: "wfDb d" using i by (rule inv_wf)
  have ins: "wpE (insertTurn (turnRowOf v rk sk)) (\<lambda>_ t. keeps K d t \<and> runs t = runs d \<and> tool_calls t = tool_calls d) d"
    if k: "sessionKeyOf (t_SessionID v) d = Inr sk" "runKeyOf (t_RunID v) d = Inr rk" "ownerCount rk sk d = Suc 0"
      "t_Ordinal v = nextOrdinal rk d" for sk rk
  proof -
    have own: "hasRun d rk (t_RunID v) sk" using owned_run [OF w k(2)] k(3) by simp
    show ?thesis
      by (rule wpE_mono, rule keeps_insertTurn [OF i])
        (use sessionKeyOf_has [OF k(1)] own live [OF own] ordinalsOK_append [OF wfD(13) [OF w]] k(4) in
          \<open>auto simp: turnRowOf_def turnOK_def Let_def split: if_split_asm\<close>)
  qed
  show ?thesis
    unfolding createTurn_def
    by (simp add: wp keeps_refl [OF i] split: option.split, intro impI allI, rule wpE_mono, rule ins) (auto simp: wp)
qed

text \<open>A turn that a transition may put in place of the one stored.\<close>

definition turnMove :: "turnRow \<Rightarrow> Turn \<Rightarrow> bool" where
  "turnMove r v \<longleftrightarrow> turnIdent v = turnIdent (nw_Record r) \<and> (finalTurn (nw_State r) \<longrightarrow> v = nw_Record r) \<and> t_State v \<noteq> TurnAdmitted"

lemma turnMove_apply:
  assumes "turnOK d r"
  shows "ApplyCompleteTurn (nw_Record r) q1 = Inr v \<Longrightarrow> turnMove r v"
    "ApplyInterruptTurn (nw_Record r) q2 = Inr v \<Longrightarrow> turnMove r v"
    "ApplyFailTurn (nw_Record r) u = Inr v \<Longrightarrow> turnMove r v"
    "ApplyResumeInterruptedTurn (nw_Record r) q3 = Inr v \<Longrightarrow> turnMove r v"
proof -
  have f: "finalTurn (nw_State r) = turnFinal (nw_Record r)" using assms by (simp add: turnOK_def Let_def turnFinal_def finalTurn_def)
  show "ApplyCompleteTurn (nw_Record r) q1 = Inr v \<Longrightarrow> turnMove r v"
    unfolding turnMove_def f by (auto dest: complete.apply_ident complete.apply_final complete.apply_target)
  show "ApplyInterruptTurn (nw_Record r) q2 = Inr v \<Longrightarrow> turnMove r v"
    unfolding turnMove_def f by (auto dest: interrupt.apply_ident interrupt.apply_final interrupt.apply_target)
  show "ApplyFailTurn (nw_Record r) u = Inr v \<Longrightarrow> turnMove r v"
    unfolding turnMove_def f by (auto dest: fail.apply_ident fail.apply_final fail.apply_target)
  show "ApplyResumeInterruptedTurn (nw_Record r) q3 = Inr v \<Longrightarrow> turnMove r v"
    unfolding turnMove_def f by (auto dest: resume.apply_ident resume.apply_final resume.apply_target)
qed

lemma writeTurn_keeps:
  assumes i: "inv K d" and r: "r \<in> set (turns d)" and v: "turnMove r v"
  shows "wpE (writeTurn r v) (\<lambda>_ t. keeps K d t \<and>
    t = turns_update (updateWhere (\<lambda>s. nw_RowKey s = nw_RowKey r) (\<lambda>s. s\<lparr>nw_State := t_State v, nw_Record := v\<rparr>)) d) d"
proof -
  have w: "wfDb d" using i by (rule inv_wf)
  have ok: "turnOK d r" using wf_rows(8) [OF w r] .
  have eq: "s = r" if "s \<in> set (turns d)" "nw_RowKey s = nw_RowKey r" for s
    using that r distinct_map_eq [OF wf_distinct(11) [OF w]] by blast
  let ?f = "\<lambda>s. s\<lparr>nw_State := t_State v, nw_Record := v\<rparr>"
  have upd: "wpE (updateTurns (\<lambda>s. nw_RowKey s = nw_RowKey r) ?f)
    (\<lambda>n t. keeps K d t \<and> n = countWhere (\<lambda>s. nw_RowKey s = nw_RowKey r) (turns d) \<and>
       t = turns_update (updateWhere (\<lambda>s. nw_RowKey s = nw_RowKey r) ?f) d) d"
  proof (rule keeps_updateTurns [OF i])
    fix s assume s: "s \<in> set (turns d)" "nw_RowKey s = nw_RowKey r"
    show "turnOK d (?f s)" unfolding eq [OF s] using ok v by (auto simp: turnOK_def Let_def turnMove_def turnIdent_def)
    show "turnStep s (?f s)" unfolding eq [OF s] using ok v by (auto simp: turnStep_def turnOK_def Let_def turnMove_def)
  qed simp_all
  show ?thesis
    unfolding writeTurn_def by (simp add: wp) (rule wpE_mono, rule upd, auto simp: wp)
qed

text \<open>A loop whose invariant speaks of the elements still to come.\<close>

lemma wp_for_rest:
  assumes "\<And>x ys t. I (x # ys) t \<Longrightarrow> wpE (f x) (\<lambda>_. I ys) t" and "I xs s"
  shows "wpE (forE xs f) (\<lambda>_. I []) s"
  using assms(2)
proof (induction xs arbitrary: s)
  case (Cons x xs)
  show ?case by (simp add: wp) (rule wpE_mono [OF assms(1) [OF Cons.prems]], rule Cons.IH)
qed (simp add: wp)

text \<open>Failing one turn: its row becomes \<open>TurnFailed\<close>, the other turns stay.\<close>

lemma failOne_keeps:
  assumes i: "inv K t" and w: "wfDb e" and q: "q \<in> set (turnQuery e)" and r: "fst q \<in> set (turns t)"
  shows "wpE (failOne u q) (\<lambda>_ x. keeps K t x \<and> runs x = runs t \<and> tool_calls x = tool_calls t \<and>
    (\<exists>v. t_State v = TurnFailed \<and>
      turns x = updateWhere (\<lambda>s. nw_RowKey s = nw_RowKey (fst q)) (\<lambda>s. s\<lparr>nw_State := t_State v, nw_Record := v\<rparr>) (turns t))) t"
proof -
  have dec: "decodeTurnRow q = Inr (nw_Record (fst q))" using decodeTurnRow_ok(1) [OF w] q by (metis prod.collapse)
  have ok: "turnOK t (fst q)" using wf_rows(8) [OF inv_wf [OF i] r] .
  let ?t = "\<lambda>v. turns_update (updateWhere (\<lambda>s. nw_RowKey s = nw_RowKey (fst q)) (\<lambda>s. s\<lparr>nw_State := t_State v, nw_Record := v\<rparr>)) t"
  have step: "wpE (thenE (writeTurn (fst q) v) (settleInboxForTurn (nw_RowKey (fst q)) [InboxConsumed, InboxInterrupted] InboxInterrupted u))
      (\<lambda>_ x. keeps K t x \<and> coreSame (?t v) x) t" if v: "ApplyFailTurn (nw_Record (fst q)) u = Inr v" for v
  proof -
    note wt = writeTurn_keeps [OF i r turnMove_apply(3) [OF ok v]]
    show ?thesis
      unfolding wp_then
    proof (rule wpE_mono [OF wt], elim conjE)
      fix y x assume k: "keeps K t x" and x: "x = ?t v"
      show "wpE (settleInboxForTurn (nw_RowKey (fst q)) [InboxConsumed, InboxInterrupted] InboxInterrupted u)
          (\<lambda>_ x. keeps K t x \<and> coreSame (?t v) x) x"
        by (rule keeps_calm_then [OF settleInboxForTurn_calm k]) (simp_all add: x)
    qed
  qed
  show ?thesis
    unfolding failOne_def
    by (simp add: wp_bind wp_lift dec, intro allI impI, rule wpE_mono, rule step, assumption)
      (auto simp: coreSame_def dest: fail.apply_target)
qed

definition residual :: "int \<Rightarrow> db \<Rightarrow> (turnRow \<times> RunID \<times> ID) list \<Rightarrow> db \<Rightarrow> bool" where
  "residual k d qs t \<longleftrightarrow> keeps {k} d t \<and> runs t = runs d \<and> tool_calls t = tool_calls d \<and>
     set qs \<subseteq> set (turnQuery d) \<and> distinct (map (\<lambda>q. nw_RowKey (fst q)) qs) \<and> (\<forall>q \<in> set qs. fst q \<in> set (turns t)) \<and>
     (\<forall>s \<in> set (turns t). nw_RunKey s = k \<longrightarrow> finalTurn (nw_State s) \<or> s \<in> fst ` set qs)"

lemma residual_step:
  assumes d: "inv {k} d" and r: "residual k d (q # qs) t"
  shows "wpE (failOne u q) (\<lambda>_. residual k d qs) t"
proof -
  have h: "keeps {k} d t" "q \<in> set (turnQuery d)" "fst q \<in> set (turns t)" using r by (auto simp: residual_def)
  have w: "wfDb t" using h(1) keeps_inv inv_wf by blast
  show ?thesis
  proof (rule wpE_mono [OF failOne_keeps [OF keeps_inv [OF h(1)] inv_wf [OF d] h(2,3)]], elim conjE exE)
    fix y x v assume k: "keeps {k} t x" and same: "runs x = runs t" "tool_calls x = tool_calls t" and v: "t_State v = TurnFailed"
      and x: "turns x = updateWhere (\<lambda>s. nw_RowKey s = nw_RowKey (fst q)) (\<lambda>s. s\<lparr>nw_State := t_State v, nw_Record := v\<rparr>) (turns t)"
    have "\<forall>p \<in> set qs. fst p \<in> set (turns x)"
      using r by (force simp: residual_def x set_updateWhere image_iff)
    moreover have "finalTurn (nw_State s) \<or> s \<in> fst ` set qs" if s: "s \<in> set (turns x)" "nw_RunKey s = k" for s
    proof (cases "nw_RowKey s = nw_RowKey (fst q)")
      case True
      with s x v show ?thesis by (auto simp: set_updateWhere finalTurn_def split: if_split_asm)
    next
      case False
      with s x have "s \<in> set (turns t)" by (auto simp: set_updateWhere split: if_split_asm)
      with r s False show ?thesis by (auto simp: residual_def)
    qed
    ultimately show "residual k d qs x"
      using r same keeps_trans [OF h(1) k] by (auto simp: residual_def)
  qed
qed

lemma map_filter_fst:
  assumes "\<And>x y. f x = Some y \<Longrightarrow> fst y = x"
  shows "map fst (List.map_filter f xs) = filter (\<lambda>x. f x \<noteq> None) xs"
  using assms by (induction xs) (auto simp: List.map_filter_simps split: option.split)

lemma turnQuery_keys: "wfDb d \<Longrightarrow> distinct (map (\<lambda>q. nw_RowKey (fst q)) (turnQuery d))"
proof -
  assume w: "wfDb d"
  have "map (\<lambda>q. nw_RowKey (fst q)) (turnQuery d) = map nw_RowKey (map fst (turnQuery d))" by simp
  also have "map fst (turnQuery d) = filter (\<lambda>t. (case (runByKey d (nw_RunKey t), sessionByKey d (nw_SessionKey t)) of
      (Some r, Some s) \<Rightarrow> Some (t, rw_ID r, sw_ID s) | _ \<Rightarrow> None) \<noteq> None) (turns d)"
    unfolding turnQuery_def by (rule map_filter_fst) (auto split: option.split_asm)
  finally show ?thesis using distinct_map_filter [OF wf_distinct(11) [OF w]] by simp
qed

text \<open>In a well-formed database the query finds every turn.\<close>

lemma turnQuery_total:
  assumes "wfDb d" and "t \<in> set (turns d)"
  shows "\<exists>i j. (t, i, j) \<in> set (turnQuery d)"
proof -
  have "turnOK d t" using wf_rows(8) [OF assms] .
  then have h: "hasRun d (nw_RunKey t) (t_RunID (nw_Record t)) (nw_SessionKey t)" "hasSession d (nw_SessionKey t) (t_SessionID (nw_Record t))"
    by (simp_all add: turnOK_def Let_def)
  obtain r s where "runByKey d (nw_RunKey t) = Some r" "sessionByKey d (nw_SessionKey t) = Some s"
    using runByKey_has [OF assms(1) h(1)] sessionByKey_has [OF assms(1) h(2)] by blast
  with assms(2) show ?thesis by (simp add: set_turnQuery)
qed

lemma turn_state_cases:
  assumes "wfDb d" and "t \<in> set (turns d)" and "nw_State t \<notin> {TurnAdmitted, TurnRunning, TurnInterrupted}"
  shows "finalTurn (nw_State t)"
proof -
  have "turnCheck t" using wfD(8) [OF assms(1)] assms(2) by (simp add: tableWf_def)
  with assms(3) show ?thesis by (cases "nw_State t") (auto simp: turnCheck_def finalTurn_def)
qed

text \<open>Settling a run leaves none of its turns alive.\<close>

lemma terminalizeResidualTurns_keeps:
  assumes i: "inv {k} d"
  shows "wpE (terminalizeResidualTurns k u) (\<lambda>_ t. keeps {k} d t \<and> runs t = runs d \<and> tool_calls t = tool_calls d \<and>
    (\<forall>s \<in> set (turns t). nw_RunKey s = k \<longrightarrow> finalTurn (nw_State s))) d"
proof -
  let ?rows = "filter (\<lambda>q. nw_RunKey (fst q) = k \<and> nw_State (fst q) \<in> {TurnAdmitted, TurnRunning, TurnInterrupted}) (turnQuery d)"
  have w: "wfDb d" using i by (rule inv_wf)
  have "finalTurn (nw_State s) \<or> s \<in> fst ` set ?rows" if s: "s \<in> set (turns d)" "nw_RunKey s = k" for s
  proof (cases "nw_State s \<in> {TurnAdmitted, TurnRunning, TurnInterrupted}")
    case True
    obtain a b where "(s, a, b) \<in> set (turnQuery d)" using turnQuery_total [OF w s(1)] by blast
    with s(2) True have "(s, a, b) \<in> set ?rows" by simp
    then have "fst (s, a, b) \<in> fst ` set ?rows" by (rule imageI)
    then show ?thesis unfolding fst_conv by (rule disjI2)
  qed (use turn_state_cases [OF w s(1)] in simp)
  moreover have "fst q \<in> set (turns d)" if "q \<in> set (turnQuery d)" for q
    using that set_turnQuery [of "fst q" "fst (snd q)" "snd (snd q)" d] by simp
  ultimately have "residual k d ?rows d"
    using keeps_refl [OF i] distinct_map_filter [OF turnQuery_keys [OF w]] by (auto simp: residual_def)
  then have "wpE (forE ?rows (failOne u)) (\<lambda>_. residual k d []) d"
    by (rule wp_for_rest [rotated]) (rule residual_step [OF i])
  then show ?thesis
    unfolding terminalizeResidualTurns_def by (simp add: wp) (erule wpE_mono, simp add: residual_def)
qed

section \<open>Tool calls\<close>

definition toolIdent :: "ToolCall \<Rightarrow> ToolCallID \<times> ID \<times> RunID \<times> MessageID \<times> PartID \<times> MessageID \<times> PartID \<times> string" where
  "toolIdent c = (tc_ID c, tc_SessionID c, tc_RunID c, tc_MessageID c, tc_RequestPartID c, tc_ResultMessageID c,
     tc_ResultPartID c, tc_Name c)"

lemma marshalToolCall_ids:
  "marshalToolCall c = Inr e \<Longrightarrow> toolIdent e = toolIdent c \<and> tc_Status e = tc_Status c \<and> tc_ClaimedBy e = tc_ClaimedBy c \<and>
     tc_ClaimToken e = tc_ClaimToken c"
  by (auto simp: marshalToolCall_def toolIdent_def split: option.splits)

lemma countWhere_1: "countWhere P xs = Suc 0 \<Longrightarrow> \<exists>x \<in> set xs. P x"
proof -
  assume "countWhere P xs = Suc 0"
  then have "countWhere P xs \<noteq> 0" by simp
  then show ?thesis by simp
qed

lemma createToolCall_keeps:
  assumes i: "inv K d" and live: "\<And>k sk. hasRun d k (tc_RunID c) sk \<Longrightarrow> liveKey k d"
  shows "wpE (createToolCall c) (\<lambda>_ t. keeps K d t) d"
proof -
  have w: "wfDb d" using i by (rule inv_wf)
  have ins: "wpE (insertTool (toolRowOf c st sk rk mk pk)) (\<lambda>_ t. keeps K d t) d"
    if k: "marshalToolCall c = Inr st" "sessionKeyOf (tc_SessionID c) d = Inr sk" "runKeyOf (tc_RunID c) d = Inr rk"
      "messageKeyOf (tc_MessageID c) d = Inr mk" "partKeyOf (tc_RequestPartID c) d = Inr pk" "ownerCount rk sk d = Suc 0"
      "countWhere (\<lambda>m. mw_RowKey m = mk \<and> mw_SessionKey m = sk \<and> mw_RunKey m = rk) (messages d) = Suc 0"
      "countWhere (\<lambda>p. pw_RowKey p = pk \<and> pw_MessageKey p = mk \<and> pw_SessionKey p = sk \<and> pw_RunKey p = rk \<and>
         pw_Kind p = PartFunctionToolCall) (parts d) = Suc 0" "tc_MessageID c \<noteq> []" for st sk rk mk pk
  proof -
    have own: "hasRun d rk (tc_RunID c) sk" using owned_run [OF w k(3)] k(6) by simp
    obtain m where m: "m \<in> set (messages d)" "mw_RowKey m = mk" "mw_SessionKey m = sk" "mw_RunKey m = rk"
      using countWhere_1 [OF k(7)] by blast
    obtain p where p: "p \<in> set (parts d)" "pw_RowKey p = pk" "pw_MessageKey p = mk" "pw_SessionKey p = sk" "pw_RunKey p = rk"
      using countWhere_1 [OF k(8)] by blast
    have hm: "hasMessage d mk (tc_MessageID c) sk rk (mw_Role m)"
      using messageKeyOf_has [OF k(4)] hasMessage_unique [OF w, of mk] m unfolding hasMessage_def by metis
    have hp: "hasPart d pk (tc_RequestPartID c) mk sk rk"
      using partKeyOf_has [OF k(5)] hasPart_unique [OF w, of pk] p unfolding hasPart_def by metis
    show ?thesis
    proof (rule wpE_mono, rule keeps_insertTool [OF i])
      show "toolOK d (toolRowOf c st sk rk mk pk n)" for n
        using sessionKeyOf_has [OF k(2)] own hm hp marshalToolCall_ids [OF k(1)] marshalToolCall_idem [OF k(1)] k(9)
        by (auto simp: toolRowOf_def toolOK_def Let_def toolIdent_def)
    qed (use live [OF own] in \<open>simp_all add: toolRowOf_def\<close>)
  qed
  show ?thesis
    unfolding createToolCall_def
    by (simp add: wp keeps_refl [OF i] split: option.split, intro impI allI, rule wpE_mono, rule ins)
      (auto simp: wp split: option.split)
qed

text \<open>Claiming and finishing write one unfinished call and keep its identity.\<close>

lemma updateTool_keeps:
  assumes i: "inv K d" and c: "c \<in> set (tool_calls d)" "toolIdent v = toolIdent (tw_Record c)" and m: "marshalToolCall v = Inr st"
    and k: "toolKeyOf (tc_ID v) d = Inr tk" and P: "\<And>s. P s \<Longrightarrow> tw_RowKey s = tk \<and> unfinishedTool (tw_Status s)"
    and st: "tc_Status v \<noteq> ToolCallPending"
  shows "wpE (updateTools P (\<lambda>t. t\<lparr>tw_Status := tc_Status v, tw_ClaimedBy := tc_ClaimedBy v, tw_ClaimToken := tc_ClaimToken v, tw_Record := st\<rparr>))
    (\<lambda>_ t. keeps K d t) d"
proof -
  have w: "wfDb d" using i by (rule inv_wf)
  have ok: "toolOK d c" using wf_rows(5) [OF w c(1)] .
  have "hasTool d (tw_RowKey c) (tc_ID v)" using ok c by (auto simp: hasTool_def toolOK_def Let_def toolIdent_def)
  then have tk: "tk = tw_RowKey c" using toolKeyOf_has [OF k] hasTool_unique [OF w] by blast
  have eq: "s = c" if "s \<in> set (tool_calls d)" "P s" for s
    using P [OF that(2)] tk distinct_map_eq [OF wf_distinct(9) [OF w] that(1) c(1)] by simp
  show ?thesis
  proof (rule wpE_mono, rule keeps_updateTools [OF i])
    fix s assume s: "s \<in> set (tool_calls d)" "P s"
    show "toolOK d (s\<lparr>tw_Status := tc_Status v, tw_ClaimedBy := tc_ClaimedBy v, tw_ClaimToken := tc_ClaimToken v, tw_Record := st\<rparr>)"
      unfolding eq [OF s] using ok c(2) marshalToolCall_ids [OF m] marshalToolCall_idem [OF m] by (auto simp: toolOK_def Let_def toolIdent_def)
    show "toolStep s (s\<lparr>tw_Status := tc_Status v, tw_ClaimedBy := tc_ClaimedBy v, tw_ClaimToken := tc_ClaimToken v, tw_Record := st\<rparr>)"
      using P [OF s(2)] st by (simp add: toolStep_def)
  qed simp_all
qed

lemma claimToolCall_keeps:
  assumes i: "inv K d" and c: "c \<in> set (tool_calls d)" "toolIdent v = toolIdent (tw_Record c)"
  shows "wpE (claimToolCall v) (\<lambda>_ t. keeps K d t) d"
proof -
  have upd: "wpE (updateTools (\<lambda>t. tw_RowKey t = tk \<and> tw_Status t = ToolCallPending \<and> tw_ClaimedBy t = [] \<and> tw_ClaimToken t = [])
      (\<lambda>t. t\<lparr>tw_Status := ToolCallRunning, tw_ClaimedBy := tc_ClaimedBy v, tw_ClaimToken := tc_ClaimToken v, tw_Record := st\<rparr>))
      (\<lambda>_ t. keeps K d t) d"
    if "marshalToolCall v = Inr st" "toolKeyOf (tc_ID v) d = Inr tk" "tc_Status v = ToolCallRunning" for st tk
    using updateTool_keeps [OF i c that(1,2), of "\<lambda>t. tw_RowKey t = tk \<and> tw_Status t = ToolCallPending \<and> tw_ClaimedBy t = [] \<and> tw_ClaimToken t = []"]
    by (simp add: that(3) unfinishedTool_def)
  show ?thesis
    unfolding claimToolCall_def
    by (auto simp: wp keeps_refl [OF i] intro!: wpE_mono [OF upd])
qed

lemma finishToolCall_keeps:
  assumes i: "inv K d" and c: "c \<in> set (tool_calls d)" "toolIdent v = toolIdent (tw_Record c)"
  shows "wpE (finishToolCall v) (\<lambda>_ t. keeps K d t) d"
  unfolding finishToolCall_def
  by (simp add: wp keeps_refl [OF i], intro allI impI conjI, rule wpE_mono, rule updateTool_keeps [OF i c])
    (auto simp: wp TerminalToolCall_def callTerminal_def settlementTerminal_def)

lemma ApplySettlement_ident: "ApplySettlement c s = Inr c' \<Longrightarrow> toolIdent c' = toolIdent c"
  by (erule ApplySettlement_elim) (simp_all add: toolIdent_def)

lemma settleToolCall_keeps:
  assumes i: "inv K d"
  shows "wpE (settleToolCall L s) (\<lambda>_ t. keeps K d t) d"
proof -
  have fin: "wpE (appendMessage m) (\<lambda>_. wpE (thenE (appendPart p) (finishToolCall v)) (\<lambda>_. keeps K d)) d"
    if c: "GetToolCall j d = Inr c" "ApplySettlement c s = Inr v" for j c v m p
  proof -
    obtain r where r: "r \<in> set (tool_calls d)" "c = tw_Record r" using GetToolCall_Inr [OF c(1)] by blast
    have id: "toolIdent v = toolIdent (tw_Record r)" using ApplySettlement_ident [OF c(2)] r(2) by simp
    have last: "wpE (finishToolCall v) (\<lambda>_. keeps K d) u" if u: "calm K d u" for u
      by (rule wpE_mono, rule finishToolCall_keeps [OF calm_inv [OF u] _ id])
        (use r(1) calm_core [OF u] keeps_trans [OF calm_keeps [OF u]] in auto)
    show ?thesis
      by (rule calm_then [OF appendMessage_calm calm_refl [OF i]], assumption, unfold wp_then,
          rule calm_then [OF appendPart_calm], assumption+, rule last)
  qed
  show ?thesis
    unfolding settleToolCall_def 
    by (auto simp: wp_bind wp_then wp_read wp_guard wp_lift intro: fin)
qed

end
