(* ===== verification/StoreReach.thy ===== *)
theory StoreReach
  imports StoreCore
begin

text \<open>
  Every public operation of the store keeps the invariant, and so do transactions; hence it
  holds in every reachable database. A call that fails changes nothing.
\<close>

section \<open>Under the fence\<close>

definition fenced :: "RunFence \<Rightarrow> db \<Rightarrow> runRow \<Rightarrow> bool" where
  "fenced f d r \<longleftrightarrow> r \<in> set (runs d) \<and> rw_ID r = f_RunID f \<and> rw_ClaimToken r = f_ClaimToken f \<and> liveStatus (rw_Status r)"

lemma withFence_keeps:
  assumes i: "inv K d" and "\<And>r. fenced f d r \<Longrightarrow> wpE (fn (runOf r)) Q d"
  shows "wpE (withFence f fn) Q d"
proof -
  have "wpE (fn run) Q d" if l: "loadRunFence f False d = Inr run" for run
  proof -
    obtain r where "fenced f d r" "run = runOf r"
      using loadRunFence_Inr [OF inv_wf [OF i] l] by (metis fenced_def)
    with assms(2) show ?thesis by blast
  qed
  then show ?thesis by (simp add: withFence_def withFenceState_def wp)
qed

lemma fenced_ids:
  assumes "inv K d" and "fenced f d r"
  shows "r_ID (runOf r) = f_RunID f" "runOK d r" "hasRun d (rw_RowKey r) (f_RunID f) (rw_SessionKey r)"
    "hasSession d (rw_SessionKey r) (r_SessionID (runOf r))" "r_Status (runOf r) = rw_Status r"
proof -
  have "runOK d r" using assms wf_rows(2) [OF inv_wf [OF assms(1)]] by (simp add: fenced_def)
  then show "runOK d r" "r_ID (runOf r) = f_RunID f" "hasRun d (rw_RowKey r) (f_RunID f) (rw_SessionKey r)"
    "hasSession d (rw_SessionKey r) (r_SessionID (runOf r))" "r_Status (runOf r) = rw_Status r"
    using assms(2) by (auto simp: fenced_def hasRun_def runOf_def runOK_def Let_def)
qed

text \<open>The fence's run is alive, whatever calm steps came before.\<close>

lemma fenced_live:
  assumes i: "inv K d" and f: "fenced f d r" and c: "calm K d t" and h: "hasRun t k (f_RunID f) sk"
  shows "liveKey k t"
proof -
  have "k = rw_RowKey r"
    using h calm_core(1) [OF c] hasRun_unique(2) [OF inv_wf [OF i] _ fenced_ids(3) [OF i f], of k sk] by (auto simp: hasRun_def)
  moreover have "s = r" if "s \<in> set (runs d)" "rw_RowKey s = rw_RowKey r" for s
    using runs_eq [OF inv_wf [OF i] that(1)] f that(2) by (auto simp: fenced_def)
  ultimately show ?thesis
    using f calm_core(1) [OF c] live_active by (auto simp: liveKey_def terminalRow_def fenced_def)
qed

text \<open>Ending with a calm operation.\<close>

lemma calm_end:
  assumes "\<And>t. inv K t \<Longrightarrow> wpE m (\<lambda>_. calm K t) t" and "keeps K s t"
  shows "wpE m (\<lambda>_. keeps K s) t"
  by (rule keeps_calm_then [OF assms])

lemma calm_all: "inv K d \<Longrightarrow> wpE m (\<lambda>_. calm K d) d \<Longrightarrow> wpE m (\<lambda>_. keeps K d) d"
  by (erule wpE_mono) (rule calm_keeps)

text \<open>Sequencing.\<close>

lemma calm_seq:
  assumes "\<And>t. inv K t \<Longrightarrow> wpE m (\<lambda>_. calm K t) t" and "calm K s t" and "\<And>u. calm K s u \<Longrightarrow> wpE n Q u"
  shows "wpE (thenE m n) Q t"
  unfolding wp_then by (rule calm_then [OF assms])

lemma keeps_seq:
  assumes "wpE m (\<lambda>_. keeps K s) t" and "\<And>u. keeps K s u \<Longrightarrow> wpE n Q u"
  shows "wpE (thenE m n) Q t"
  unfolding wp_then using assms by (rule wpE_mono)

lemma keeps_bind:
  assumes "wpE m (\<lambda>_. keeps K s) t" and "\<And>x u. keeps K s u \<Longrightarrow> wpE (f x) Q u"
  shows "wpE (bindE m f) Q t"
  unfolding wp_bind using assms by (rule wpE_mono)

lemma event_end:
  assumes "keeps K d t"
  shows "wpE (appendCanonicalEvent e) (\<lambda>x. wpE (returnE (g x)) (\<lambda>_. keeps K d)) t"
    "wpE (bindE (appendCanonicalEvent e) (\<lambda>x. returnE (g x))) (\<lambda>_. keeps K d) t"
    "wpE (insertEvent e b) (\<lambda>x. wpE (returnE (g x)) (\<lambda>_. keeps K d)) t"
  by (auto simp: wp intro: wpE_mono [OF calm_end [OF appendCanonicalEvent_calm assms]] wpE_mono [OF calm_end [OF insertEvent_calm assms]])

lemma wp_unitE [wp]: "wpE (unitE m) Q s \<longleftrightarrow> wpE m (\<lambda>_. Q ()) s"
  by (simp add: unitE_def wpE_def bindE_def split: prod.split sum.split)

section \<open>Calm calls\<close>

lemma calm_calls:
  assumes i: "inv K d"
  shows "wpE (AppendMessage f m) (\<lambda>_. calm K d) d"
    "wpE (AppendPart f p) (\<lambda>_. calm K d) d"
    "wpE (UpdatePart f p) (\<lambda>_. calm K d) d"
    "wpE (AppendEvent f e) (\<lambda>_. calm K d) d"
    "wpE (StartContextEpoch f c) (\<lambda>_. calm K d) d"
    "wpE (FinishContextEpoch f c) (\<lambda>_. calm K d) d"
    "wpE (CreateModelRequest f q) (\<lambda>_. calm K d) d"
    "wpE (UpdateModelRequest f q) (\<lambda>_. calm K d) d"
    "wpE (StageCheckpoint f s) (\<lambda>_. calm K d) d"
    "wpE (RetireCheckpoints f n) (\<lambda>_. calm K d) d"
    "wpE (RetireRunCheckpoints ri n) (\<lambda>_. calm K d) d"
    "wpE (SetSessionTitleFenced now f t) (\<lambda>_. calm K d) d"
    "wpE (SetSessionTitle now t) (\<lambda>_. calm K d) d"
  unfolding AppendMessage_def AppendPart_def UpdatePart_def AppendEvent_def StartContextEpoch_def FinishContextEpoch_def
    CreateModelRequest_def UpdateModelRequest_def StageCheckpoint_def RetireCheckpoints_def RetireRunCheckpoints_def
    SetSessionTitleFenced_def SetSessionTitle_def
  by (auto simp: wp intro!: withFence_keeps [OF i] appendMessage_calm [OF i] appendPart_calm [OF i] updatePart_calm [OF i]
      appendEvent_calm [OF i] startContextEpoch_calm [OF i] finishContextEpoch_calm [OF i] createModelRequest_calm [OF i]
      updateModelRequest_calm [OF i] createCheckpoint_calm [OF i] deleteCheckpointsUpTo_calm [OF i] setSessionTitleLocked_calm [OF i])

lemma FinalizeAssistantMessage_calm:
  assumes i: "inv K d"
  shows "wpE (FinalizeAssistantMessage f j) (\<lambda>_. calm K d) d"
proof -
  have upd: "wpE (updateMessages (\<lambda>m. mw_ID m = j \<and> mw_SessionKey m = sk \<and> mw_RunKey m = rk \<and> mw_Role m = RoleAssistant)
      (\<lambda>m. m\<lparr>mw_Finalized := True\<rparr>)) (\<lambda>_. calm K d) d" for sk rk
    using finalize_calm [OF i, of "\<lambda>m. mw_ID m = j \<and> mw_SessionKey m = sk \<and> mw_RunKey m = rk"] by simp
  show ?thesis
    unfolding FinalizeAssistantMessage_def
    by (auto simp: wp intro!: withFence_keeps [OF i] wpE_mono [OF upd])
qed

lemma RecordAdmission_calm:
  assumes i: "inv K d"
  shows "wpE (RecordAdmission f a) (\<lambda>_. calm K d) d"
  unfolding RecordAdmission_def Let_def
  by (auto simp: wp dest!: messageRowByID_Inr intro!: withFence_keeps [OF i] wpE_mono [OF insertAdmission_calm [OF i]])

lemma EnqueueInbox_calm:
  assumes i: "inv K d"
  shows "wpE (EnqueueInbox L item lm) (\<lambda>_. calm K d) d" "wpE (EnqueueInboxForRun L j item lm) (\<lambda>_. calm K d) d"
proof -
  have t: "ib_TurnID item = []" if "ValidateEnqueueInbox L item lm = Inr u" for u
    using that by (simp add: ValidateEnqueueInbox_def split: if_split_asm)
  show "wpE (EnqueueInbox L item lm) (\<lambda>_. calm K d) d"
    unfolding EnqueueInbox_def by (auto simp: wp dest!: t sessionKeyOf_has intro!: wpE_mono [OF enqueueInboxLocked_calm [OF i]])
  have s: "hasSession d (rw_SessionKey a) (ib_SessionID item)"
    if q: "lockRun j d = Inr (a, b)" "decodeRunRow (a, b) = Inr run" "r_SessionID run = ib_SessionID item" for a b run
  proof -
    have a: "a \<in> set (runs d)" "run = runOf a" using lockRun_Inr [OF inv_wf [OF i] q(1)] q(2) by simp_all
    show ?thesis using wf_rows(2) [OF inv_wf [OF i] a(1)] a(2) q(3) by (simp add: runOK_def Let_def runOf_def)
  qed
  show "wpE (EnqueueInboxForRun L j item lm) (\<lambda>_. calm K d) d"
    unfolding EnqueueInboxForRun_def by (auto simp: wp dest!: t intro!: enqueueInboxLocked_calm [OF i] s)
qed

section \<open>Runs\<close>

lemma AdmitRun_keeps:
  assumes i: "inv K d"
  shows "wpE (AdmitRun now v n) (\<lambda>_. keeps K d) d"
proof -
  have ins: "wpE (insertRun (runRowOf sk v l)) (\<lambda>_. keeps K d) d" if k: "sessionKeyOf (r_SessionID v) d = Inr sk" for sk l
    by (rule wpE_mono, rule keeps_insertRun [OF i])
      (use sessionKeyOf_has [OF k] in \<open>auto simp: runRowOf_def runOK_def Let_def\<close>)
  show ?thesis
    unfolding AdmitRun_def by (auto simp: wp keeps_refl [OF i] split: option.split sum.split intro!: wpE_mono [OF ins])
qed

lemma ClaimRun_keeps:
  assumes i: "inv K d"
  shows "wpE (ClaimRun now c) (\<lambda>_. keeps K d) d"
proof -
  let ?f = "\<lambda>v r. r\<lparr>rw_Status := RunRunning, rw_OwnerID := c_OwnerID c, rw_ClaimToken := c_ClaimToken c,
    rw_Record := v\<lparr>r_Status := RunRunning, r_OwnerID := c_OwnerID c, r_ClaimToken := c_ClaimToken c\<rparr>,
    rw_LeaseUntil := now + durationMicros (c_LeaseDuration c)\<rparr>"
  have upd: "wpE (updateRuns P (?f v)) (\<lambda>_. keeps K d) d"
    if q: "lockRun (c_RunID c) d = Inr (a, b)" "decodeRunRow (a, b) = Inr v"
      and P: "\<And>s. P s \<Longrightarrow> rw_RowKey s = rw_RowKey a \<and> activeStatus (rw_Status s)" for a b v P
  proof -
    have a: "a \<in> set (runs d)" "v = runOf a" using lockRun_Inr [OF inv_wf [OF i] q(1)] q(2) by simp_all
    show ?thesis
      by (rule wpE_mono, rule updateRun_keeps [OF i a(1)], use P in blast)
        (auto simp: a(2) runOK_def Let_def runOf_def activeStatus_def)
  qed
  show ?thesis
    unfolding ClaimRun_def Let_def
    by (auto simp: wp activeStatus_def liveStatus_def intro!: wpE_mono [OF upd])
qed

lemma StartRun_keeps:
  assumes i: "inv K d"
  shows "wpE (StartRun f u) (\<lambda>_. keeps K d) d"
proof -
  have wr: "wpE (writeRun ((runOf r)\<lparr>r_Status := RunRunning, r_StartedAt := v\<rparr>)) (\<lambda>_ t. keeps K d t \<and> runFrame d t) d"
    if r: "fenced f d r" for r v
    by (rule writeRun_keeps [OF i, of r])
      (use r sameRun_runOf [OF fenced_ids(2) [OF i r]] in \<open>auto simp: fenced_def activeStatus_def\<close>)
  show ?thesis
    unfolding StartRun_def by (auto simp: wp intro!: withFence_keeps [OF i] wpE_mono [OF wr])
qed

lemma RenewRunLease_keeps:
  assumes i: "inv K d"
  shows "wpE (RenewRunLease now f n) (\<lambda>_. keeps K d) d"
proof -
  have rn: "wpE (renewRunLease now f n) (\<lambda>_ t. keeps K d t \<and> runFrame d t) d" if "fenced f d r" for r
    by (rule renewRunLease_keeps [OF i, of r]) (use that in \<open>simp_all add: fenced_def\<close>)
  show ?thesis
    unfolding RenewRunLease_def by (auto simp: wp intro!: withFence_keeps [OF i] wpE_mono [OF rn])
qed

section \<open>Turns\<close>

lemma appendAll_calm:
  assumes i: "inv K d"
  shows "wpE (forE ms (\<lambda>m. thenE (appendMessage m) (returnE ()))) (\<lambda>_. calm K d) d"
    "wpE (forE ps (\<lambda>p. thenE (appendPart p) (returnE ()))) (\<lambda>_. calm K d) d"
    "wpE (whenE b (thenE (appendMessage m) (returnE ()))) (\<lambda>_. calm K d) d"
  by (auto simp: wp calm_refl [OF i] intro!: calm_for [OF _ i] wpE_mono [OF appendMessage_calm] wpE_mono [OF appendPart_calm] i)

lemma AdmitTurn_keeps:
  assumes i: "inv K d"
  shows "wpE (AdmitTurn f q) (\<lambda>_. keeps K d) d"
proof -
  have con: "wpE (consumeInboxForTurn sk tk (t_ID v) ids u) (\<lambda>_. keeps K d) t"
    if "keeps K d t" "turnKeyOf (t_ID v) t = Inr tk" for sk tk v ids u t
    by (rule wpE_mono, rule consumeInboxForTurn_calm [OF keeps_inv [OF that(1)] turnKeyOf_has [OF that(2)]])
      (rule keeps_trans [OF that(1) calm_keeps])
  have last: "wpE (thenE (whenE b (bindE (readE (sessionKeyOf s)) (\<lambda>sk. bindE (readE (turnKeyOf (t_ID v))) (\<lambda>tk.
      consumeInboxForTurn sk tk (t_ID v) ids u)))) (bindE (appendCanonicalEvent e) (\<lambda>x. returnE (v, x)))) (\<lambda>_. keeps K d) t"
    if k: "keeps K d t" for b s v ids u e t
    using k by (simp add: wp_then wp_when wp_bind wp_read) (auto intro!: event_end wpE_mono [OF con])
  have turn: "wpE (createTurn (at_Turn q)) (\<lambda>_. keeps K d) t" if r: "fenced f d r" "t_RunID (at_Turn q) = f_RunID f" and c: "calm K d t" for r t
    by (rule wpE_mono, rule createTurn_keeps [OF calm_inv [OF c]])
      (use fenced_live [OF i r(1) c] r(2) keeps_trans [OF calm_keeps [OF c]] in auto)
  show ?thesis
    unfolding AdmitTurn_def wp_if
  proof (split if_split, intro conjI impI withFence_keeps [OF i])
    fix r assume id: "\<not> t_RunID (at_Turn q) \<noteq> f_RunID f" and r: "fenced f d r"
    show "wpE (thenE (liftE (ValidateAdmitTurn (runOf r) q))
        (thenE (forE (at_UserMessages q) (\<lambda>m. thenE (appendMessage m) (returnE ())))
        (thenE (forE (at_UserParts q) (\<lambda>p. thenE (appendPart p) (returnE ())))
        (thenE (whenE (m_ID (at_AssistantPlaceholder q) \<noteq> []) (thenE (appendMessage (at_AssistantPlaceholder q)) (returnE ())))
        (bindE (createTurn (at_Turn q)) (\<lambda>createdTurn.
         thenE (whenE (at_InboxIDs q \<noteq> [])
            (bindE (readE (sessionKeyOf (r_SessionID (runOf r)))) (\<lambda>sessionKey.
             bindE (readE (turnKeyOf (t_ID createdTurn))) (\<lambda>turnKey.
               consumeInboxForTurn sessionKey turnKey (t_ID createdTurn) (at_InboxIDs q) (t_CreatedAt (at_Turn q))))))
         (bindE (appendCanonicalEvent (at_Event q)) (\<lambda>event. returnE (createdTurn, event)))))))))
      (\<lambda>_. keeps K d) d"
      by (simp only: wp_then [of "liftE r" for r] wp_lift, intro allI impI)
        (rule calm_seq [OF appendAll_calm(1) calm_refl [OF i]] calm_seq [OF appendAll_calm(2)] calm_seq [OF appendAll_calm(3)]
          keeps_bind [OF turn [OF r]] last | use id in simp | assumption)+
  qed (simp add: wp)
qed

lemma ownedTurn_Inr:
  assumes "wfDb d" and "ownedTurn f run i d = Inr (row, v)"
  shows "row \<in> set (turns d) \<and> v = nw_Record row \<and> turnOK d row"
  using assms(2) wf_rows(8) [OF assms(1)]
  by (auto simp: ownedTurn_def dest!: turnRowByID_Inr decodeTurnRow_Inr split: if_split_asm)

text \<open>Writing a turn, settling its inbox items and going on.\<close>

lemma moveTurn_keeps:
  assumes i: "inv K d" and r: "row \<in> set (turns d)" and m: "turnMove row w"
    and f: "InboxCompleted \<notin> set froms" "st \<noteq> InboxQueued" and n: "\<And>u. keeps K d u \<Longrightarrow> wpE n Q u"
  shows "wpE (thenE (writeTurn row w) (thenE (settleInboxForTurn (nw_RowKey row) froms st u) n)) Q d"
proof (rule keeps_seq)
  show "wpE (writeTurn row w) (\<lambda>_. keeps K d) d"
    by (rule wpE_mono, rule writeTurn_keeps [OF i r m]) simp
  show "wpE (thenE (settleInboxForTurn (nw_RowKey row) froms st u) n) Q t" if "keeps K d t" for t
    by (rule keeps_seq [OF calm_end [OF settleInboxForTurn_calm that]]) (use f n in auto)
qed

lemma turnCalls_keeps:
  assumes i: "inv K d"
  shows "wpE (CompleteTurn f q1) (\<lambda>_. keeps K d) d"
    "wpE (InterruptTurn f q2) (\<lambda>_. keeps K d) d"
    "wpE (ReconcileInterruptedTurn f q2) (\<lambda>_. keeps K d) d"
    "wpE (ResumeInterruptedTurn f q3) (\<lambda>_. keeps K d) d"
  unfolding CompleteTurn_def InterruptTurn_def ReconcileInterruptedTurn_def ResumeInterruptedTurn_def
  by (auto simp: wp_bind wp_read wp_lift wp_if wp_return keeps_refl [OF i] dest!: ownedTurn_Inr [OF inv_wf [OF i]]
      intro!: withFence_keeps [OF i] moveTurn_keeps [OF i] event_end intro: turnMove_apply)

section \<open>Pausing\<close>

lemma pause_end:
  assumes i: "inv K d" and f: "fenced f d r" and k: "runKeyOf (r_ID (runOf r)) d = Inr k"
    and t: "keeps K d t" "runs t = runs d"
  shows "wpE (thenE (pauseRunRow k (runOf r)) (bindE (readE g) (\<lambda>x. bindE (appendCanonicalEvent e) (\<lambda>y. returnE (h x y))))) (\<lambda>_. keeps K d) t"
proof (rule keeps_seq)
  have "k = rw_RowKey r"
    using runKeyOf_has [OF k] fenced_ids(1,3) [OF i f] hasRun_unique(2) [OF inv_wf [OF i]] by metis
  then show "wpE (pauseRunRow k (runOf r)) (\<lambda>_. keeps K d) t"
    by (intro wpE_mono [OF pauseRunRow_keeps [OF keeps_inv [OF t(1)], of r]])
      (use f t(2) keeps_trans [OF t(1)] in \<open>auto simp: fenced_def\<close>)
qed (auto simp: wp_bind wp_read intro!: event_end)

lemma RepauseRun_keeps:
  assumes i: "inv K d"
  shows "wpE (RepauseRun f q) (\<lambda>_. keeps K d) d"
proof -
  have pr: "inv K t \<Longrightarrow> wpE (whenE b (thenE (promoteRevision k n) (returnE ()))) (\<lambda>_. calm K t) t" for b k n t
    by (auto simp: wp calm_refl intro: wpE_mono [OF promoteRevision_calm])
  show ?thesis
    unfolding RepauseRun_def
    by (intro withFence_keeps [OF i], simp only: wp_then [of "liftE r" for r] wp_lift wp_bind wp_read, intro allI impI)
      (rule calm_seq [OF pr calm_refl [OF i]], assumption, rule pause_end [OF i], auto simp: calm_core calm_keeps)
qed

lemma PromotePause_keeps:
  assumes i: "inv K d"
  shows "wpE (PromotePause f q) (\<lambda>_. keeps K d) d"
proof -
  have inb: "wpE (thenE (interruptInboxItems sk ids u) n) (\<lambda>_. keeps K d) t"
    if "keeps K d t" "runs t = runs d" "\<And>u. keeps K d u \<Longrightarrow> runs u = runs d \<Longrightarrow> wpE n (\<lambda>_. keeps K d) u" for sk ids u n t
    unfolding wp_then
    by (rule keeps_calm_then [OF interruptInboxItems_calm that(1)]) (use that in \<open>auto simp: coreSame_def\<close>)
  have wt: "wpE (thenE (writeTurn (fst p) w) n) (\<lambda>_. keeps K d) t"
    if p: "calm K d t" "turnRowByID j t = Inr p" "decodeTurnRow p = Inr v" "ApplyInterruptTurn v x = Inr w"
      and n: "\<And>u. keeps K d u \<Longrightarrow> runs u = runs d \<Longrightarrow> wpE n (\<lambda>_. keeps K d) u" for p w n t v x j
  proof -
    have r: "fst p \<in> set (turns t)" "v = nw_Record (fst p)" using turnRowByID_Inr [OF p(2)] decodeTurnRow_Inr [OF p(3)] by simp_all
    have m: "turnMove (fst p) w"
      using turnMove_apply(2) [OF wf_rows(8) [OF inv_wf [OF calm_inv [OF p(1)]] r(1)]] p(4) r(2) by simp
    show ?thesis
      unfolding wp_then
      by (rule wpE_mono [OF writeTurn_keeps [OF calm_inv [OF p(1)] r(1) m]])
        (use keeps_trans [OF calm_keeps [OF p(1)]] calm_core [OF p(1)] in \<open>auto intro!: n\<close>)
  qed
  show ?thesis
    unfolding PromotePause_def
    apply (intro withFence_keeps [OF i], simp only: wp_then [of "liftE r" for r] wp_lift wp_bind wp_read)
    apply (intro allI impI, rule calm_then [OF promoteRevision_calm calm_refl [OF i]], assumption)
    apply (simp only: wp_then [of "guardE b e" for b e] wp_bind wp_read wp_lift wp_guard asConflict_Inr, intro allI impI)
    apply (rule wt, assumption+)
    apply (simp only: wp_bind wp_read, intro allI impI, rule inb, assumption+)
    apply (rule pause_end [OF i], assumption+)
    done
qed

section \<open>Tool calls\<close>

lemma CreateToolCall_keeps:
  assumes i: "inv K d"
  shows "wpE (CreateToolCall L f q) (\<lambda>_. keeps K d) d"
proof -
  have cr: "wpE (createToolCall (cq_Call q)) (\<lambda>_. keeps K d) t"
    if r: "fenced f d r" "tc_RunID (cq_Call q) = f_RunID f" and c: "calm K d t" for r t
    by (rule wpE_mono, rule createToolCall_keeps [OF calm_inv [OF c]])
      (use fenced_live [OF i r(1) c] r(2) keeps_trans [OF calm_keeps [OF c]] in auto)
  have seq: "wpE (thenE (appendPart p) (thenE (createToolCall (cq_Call q)) (bindE (appendCanonicalEvent e) (\<lambda>x.
      bindE (readE g) (\<lambda>y. returnE (h x y)))))) (\<lambda>_. keeps K d) d"
    if r: "fenced f d r" "tc_RunID (cq_Call q) = f_RunID f" for p e g and h :: "EventRecord \<Rightarrow> ToolCall \<Rightarrow> ToolTransitionResult" and r
    by (rule calm_seq [OF appendPart_calm calm_refl [OF i]], assumption, rule keeps_seq [OF cr [OF r]], assumption,
        rule keeps_bind, rule calm_end [OF appendCanonicalEvent_calm], assumption+) (simp add: wp)
  show ?thesis
    unfolding CreateToolCall_def Let_def
    by (auto simp: wp_if wp_throw wp_then [of "guardE b e" for b e] wp_guard split: sum.split intro!: withFence_keeps [OF i] seq)
qed

lemma ClaimToolCall_keeps:
  assumes i: "inv K d"
  shows "wpE (ClaimToolCall now f q) (\<lambda>_. keeps K d) d"
proof -
  have ev: "wpE (bindE (appendCanonicalEvent e) (\<lambda>x. bindE (readE g) (\<lambda>y. returnE (h x y)))) (\<lambda>_. keeps K d) t"
    if "keeps K d t" for e t and g :: "db \<Rightarrow> err + ToolCall" and h :: "EventRecord \<Rightarrow> ToolCall \<Rightarrow> ToolTransitionResult"
    by (rule keeps_bind, rule calm_end [OF appendCanonicalEvent_calm that], assumption) (simp add: wp)
  have cl: "wpE (thenE (renewRunLease now f n) (bindE (readE (getRun j)) (\<lambda>run. thenE (claimToolCall (v\<lparr>tc_LeaseUntil := r_LeaseUntil run\<rparr>)) m)))
      (\<lambda>_. keeps K d) d"
    if r: "fenced f d r" and c: "GetToolCall x d = Inr c" "toolIdent v = toolIdent c"
      and m: "\<And>u. keeps K d u \<Longrightarrow> wpE m (\<lambda>_. keeps K d) u" for r x c v m n j
  proof -
    obtain s where s: "s \<in> set (tool_calls d)" "c = tw_Record s" using GetToolCall_Inr [OF c(1)] by blast
    have claim: "wpE (claimToolCall (v\<lparr>tc_LeaseUntil := l\<rparr>)) (\<lambda>_. keeps K d) t" if "keeps K d t" "runFrame d t" for t l
      by (rule wpE_mono, rule claimToolCall_keeps [OF keeps_inv [OF that(1)], of s])
        (use that s c(2) keeps_trans [OF that(1)] in \<open>auto simp: runFrame_def toolIdent_def\<close>)
    show ?thesis
      unfolding wp_then [of "renewRunLease now f n"] wp_bind wp_read
      by (rule wpE_mono, rule renewRunLease_keeps [OF i, of r])
        (use r in \<open>auto simp: fenced_def wp_bind wp_read intro!: keeps_seq [OF claim] m\<close>)
  qed
  show ?thesis
    unfolding ClaimToolCall_def Let_def
    by (auto simp: wp_if wp_throw wp_bind [of "readE g" for g] wp_read wp_then [of "guardE b e" for b e] wp_guard split: sum.split
        intro!: withFence_keeps [OF i] event_end keeps_refl [OF i] cl ev) (auto simp: toolIdent_def)
qed

lemma SettleToolCall_keeps:
  assumes i: "inv K d"
  shows "wpE (SettleToolCall L f q) (\<lambda>_. keeps K d) d"
proof -
  have seq: "wpE (thenE (settleToolCall L s) (bindE (appendCanonicalEvent e) (\<lambda>x. bindE (readE g) (\<lambda>y. returnE (h x y))))) (\<lambda>_. keeps K d) d"
    for s e g and h :: "EventRecord \<Rightarrow> ToolCall \<Rightarrow> ToolTransitionResult"
    by (rule keeps_seq [OF settleToolCall_keeps [OF i]], rule keeps_bind, rule calm_end [OF appendCanonicalEvent_calm], assumption+)
      (simp add: wp)
  show ?thesis
    unfolding SettleToolCall_def
    by (auto simp: wp_throw wp_bind [of "readE g" for g] wp_read wp_bind [of "liftE r" for r] wp_lift wp_then [of "guardE b e" for b e] wp_guard
        split: sum.split intro!: withFence_keeps [OF i] seq)
qed

section \<open>Settling a run\<close>

lemma settled_keeps:
  assumes "inv {} d" and "keeps {k} d t"
    and "\<forall>s \<in> set (turns t). nw_RunKey s = k \<longrightarrow> finalTurn (nw_State s)"
    and "\<forall>c \<in> set (tool_calls t). tw_RunKey c = k \<longrightarrow> \<not> unfinishedTool (tw_Status c)"
  shows "keeps {} d t"
proof -
  have "quiet k t" using assms(3,4) by (simp add: quiet_def)
  with assms(2) show ?thesis by (auto simp: keeps_def inv_def)
qed

text \<open>The writes of a settlement, once no tool call is unfinished.\<close>

lemma settle_writes:
  assumes i: "inv {} d" and r: "r \<in> set (runs d)" and k: "rw_RowKey r = k" and v: "sameRun r v" and st: "r_Status v \<noteq> RunPending"
    and un: "\<forall>c \<in> set (tool_calls d). tw_RunKey c = k \<longrightarrow> \<not> unfinishedTool (tw_Status c)"
  shows "wpE (thenE (writeRun v) (thenE (terminalizeResidualTurns k u) (bindE (appendCanonicalEvent e) (\<lambda>x. returnE (g x))))) (\<lambda>_. keeps {} d) d"
proof -
  have i': "inv {k} d" using i by (simp add: inv_def)
  have ev: "wpE (bindE (appendCanonicalEvent e) (\<lambda>x. returnE (g x))) (\<lambda>_. keeps {} d) t"
    if t: "keeps {k} d t" "tool_calls t = tool_calls d" "\<forall>s \<in> set (turns t). nw_RunKey s = k \<longrightarrow> finalTurn (nw_State s)" for t
    unfolding wp_bind
    by (rule keeps_calm_then [OF appendCanonicalEvent_calm t(1)])
      (use t un settled_keeps [OF i] in \<open>auto simp: wp coreSame_def\<close>)
  have trm: "wpE (thenE (terminalizeResidualTurns k u) (bindE (appendCanonicalEvent e) (\<lambda>x. returnE (g x)))) (\<lambda>_. keeps {} d) t"
    if t: "keeps {k} d t" "runFrame d t" for t
    unfolding wp_then
    by (rule wpE_mono [OF terminalizeResidualTurns_keeps [OF keeps_inv [OF t(1)]]])
      (use t keeps_trans [OF t(1)] in \<open>auto simp: runFrame_def intro!: ev\<close>)
  show ?thesis
    unfolding wp_then [of "writeRun v"]
    by (rule wpE_mono [OF writeRun_keeps [OF i' r v]]) (use st k trm in auto)
qed

lemma SettleRun_keeps:
  assumes i: "inv {} d"
  shows "wpE (SettleRun f q) (\<lambda>_. keeps {} d) d"
proof -
  have w: "wfDb d" using i by (rule inv_wf)
  have body: "wpE (thenE (writeRun v) (thenE (terminalizeResidualTurns k u) (bindE (appendCanonicalEvent e) (\<lambda>x. returnE (g x))))) (\<lambda>_. keeps {} d) d"
    if l: "loadRunFence f True d = Inr run" "runKeyOf (r_ID run) d = Inr k" "ApplyRunSettlement run s = Inr v"
      "\<forall>c \<in> set (tool_calls d). tw_RunKey c = k \<longrightarrow> \<not> unfinishedTool (tw_Status c)"
    for run k s v u e and g :: "EventRecord \<Rightarrow> RunSettlementResult"
  proof -
    obtain r where r: "r \<in> set (runs d)" "run = runOf r" "runOK d r" "hasRun d (rw_RowKey r) (f_RunID f) (rw_SessionKey r)" "r_ID run = f_RunID f"
      using loadRunFence_Inr [OF w l(1)] by metis
    have "rw_RowKey r = k" using runKeyOf_has [OF l(2)] r(4,5) hasRun_unique(2) [OF w] by metis
    with r sameRun_runOf [OF r(3)] l(3,4) show ?thesis
      by (intro settle_writes [OF i r(1)]) (auto simp: terminalRunStatus_def elim!: ApplyRunSettlement_elim)
  qed
  show ?thesis
    unfolding SettleRun_def withFenceState_def
    by (auto simp: wp_if wp_throw wp_atomic wp_bind [of "readE g" for g] wp_bind [of "askE g" for g] wp_bind [of "liftE g" for g]
        wp_read wp_ask wp_lift wp_then [of "guardE b e" for b e] wp_guard wp_then [of "whenE b m" for b m] wp_when keeps_refl [OF i] intro!: body)
qed

section \<open>Every call\<close>

lemma fencedOp_keeps:
  assumes i: "inv {} d"
  shows "wpE (fencedOp L f c) (\<lambda>_. keeps {} d) d"
  by (cases c)
    (simp_all add: wp_unitE calm_all [OF i] calm_calls [OF i] FinalizeAssistantMessage_calm [OF i] RecordAdmission_calm [OF i]
      StartRun_keeps [OF i] RepauseRun_keeps [OF i] RenewRunLease_keeps [OF i] SettleRun_keeps [OF i] CreateToolCall_keeps [OF i]
      ClaimToolCall_keeps [OF i] SettleToolCall_keeps [OF i] AdmitTurn_keeps [OF i] turnCalls_keeps [OF i] PromotePause_keeps [OF i])

lemma callOp_keeps:
  assumes i: "inv {} d"
  shows "wpE (callOp L c) (\<lambda>_. keeps {} d) d"
  by (cases c)
    (simp_all add: wp_unitE wp_atomic calm_all [OF i] calm_calls [OF i] CreateSession_calm [OF i] UpdateSession_calm [OF i]
      LockAdmissionSession_calm [OF i] EnqueueInbox_calm [OF i] AdmitRun_keeps [OF i] ClaimRun_keeps [OF i] fencedOp_keeps [OF i])

section \<open>Failing calls\<close>

definition failSafe :: "('s, 'a) op \<Rightarrow> bool" where
  "failSafe m \<longleftrightarrow> (\<forall>s e t. m s = (Inl e, t) \<longrightarrow> t = s)"

lemma failSafe_simps [simp]:
  "failSafe (throwE e)" "failSafe (liftE r)" "failSafe (atomicE m)" "failSafe (withFenceState f b fn)" "failSafe (withFence f fn)"
  by (auto simp: failSafe_def withFence_def withFenceState_def dest: atomicE_error)

lemma failSafe_if: "failSafe m \<Longrightarrow> failSafe n \<Longrightarrow> failSafe (if b then m else n)"
  by simp

lemma failSafe_lift_then: "failSafe m \<Longrightarrow> failSafe (thenE (liftE r) m)"
  by (auto simp: failSafe_def run split: sum.split_asm)

lemma failSafe_mapErr: "failSafe m \<Longrightarrow> failSafe (mapErrE g m)"
  by (auto simp: failSafe_def run split: sum.split_asm prod.split_asm)

lemma failSafe_unit: "failSafe m \<Longrightarrow> failSafe (unitE m)"
  by (auto simp: failSafe_def unitE_def run split: sum.split_asm prod.split_asm)

lemmas failSafe_intros = failSafe_if failSafe_lift_then failSafe_mapErr failSafe_unit

lemmas fencedCall_defs = StartRun_def RepauseRun_def RenewRunLease_def SettleRun_def AppendMessage_def RecordAdmission_def
  FinalizeAssistantMessage_def AppendPart_def UpdatePart_def AppendEvent_def CreateToolCall_def ClaimToolCall_def
  SettleToolCall_def StartContextEpoch_def FinishContextEpoch_def CreateModelRequest_def UpdateModelRequest_def AdmitTurn_def
  CompleteTurn_def InterruptTurn_def ReconcileInterruptedTurn_def ResumeInterruptedTurn_def StageCheckpoint_def PromotePause_def
  RetireCheckpoints_def SetSessionTitleFenced_def

lemmas call_defs = CreateSession_def UpdateSession_def AdmitRun_def ClaimRun_def EnqueueInbox_def EnqueueInboxForRun_def
  RetireRunCheckpoints_def SetSessionTitle_def

lemma fencedOp_failSafe: "failSafe (fencedOp L f c)"
  by (cases c) (auto simp: fencedCall_defs Let_def intro!: failSafe_intros)

lemma callOp_failSafe: "failSafe (callOp L c)"
  by (cases c) (auto simp: call_defs fencedOp_failSafe intro!: failSafe_intros)

section \<open>Reachable databases\<close>

lemma exec_keeps:
  assumes i: "inv {} d"
  shows "keeps {} d (exec L c d)"
proof (cases "callOp L c d")
  case (Pair r t)
  show ?thesis
  proof (cases r)
    case (Inl e)
    with Pair callOp_failSafe [of L c] have "t = d" by (auto simp: failSafe_def)
    with Pair show ?thesis by (simp add: exec_def keeps_refl [OF i])
  next
    case (Inr x)
    with Pair wpE_D [OF callOp_keeps [OF i]] show ?thesis by (simp add: exec_def)
  qed
qed

lemma withinTx_keeps:
  assumes i: "inv {} d"
  shows "keeps {} d (snd (withinTx L ending cs d))"
proof -
  have "wpE (txBody L cs) (\<lambda>_. keeps {} d) d"
    unfolding txBody_def
  proof (rule wp_for [where I = "keeps {} d"])
    fix q :: "call \<times> bool" and t assume t: "keeps {} d t"
    obtain c caught where q: "q = (c, caught)" by force
    have "keeps {} d (exec L c t)" by (rule keeps_trans [OF t exec_keeps [OF keeps_inv [OF t]]])
    moreover have "wpE (callOp L c) (\<lambda>_. keeps {} d) t"
      by (rule wpE_mono [OF callOp_keeps [OF keeps_inv [OF t]]]) (rule keeps_trans [OF t])
    ultimately show "wpE (case q of (c, caught) \<Rightarrow> if caught then caughtE (callOp L c) else callOp L c) (\<lambda>_. keeps {} d) t"
      by (simp add: q wpE_def caughtE_def exec_def)
  qed (use i keeps_refl in auto)
  then show ?thesis
    using keeps_refl [OF i] by (auto simp: withinTx_def commitE_def wpE_def split: prod.splits sum.splits txEnd.splits)
qed

text \<open>What an error of a transaction says about the database.\<close>

lemma withinTx_error:
  "withinTx L ending cs d = (Inl e, t) \<Longrightarrow> t = d \<or> e = ErrTransactionOutcomeUnknown \<and> withinTx L Acknowledged cs d = (Inr (), t)"
  by (auto simp: withinTx_def commitE_def split: prod.splits sum.splits txEnd.splits if_splits)

lemma inv_empty: "inv {} emptyDb"
  by (simp add: inv_def wfDb_def emptyDb_def tableWf_def quiet_def ordinalsOK_def runsUnique_def modelRequestsUnique_def
      turnsUnique_def inboxUnique_def checkpointsUnique_def eventsUnique_def admissionsUnique_def)

lemma reachable_inv: "reachable L d \<Longrightarrow> inv {} d"
  by (induction rule: reachable.induct) (auto intro: inv_empty keeps_inv exec_keeps withinTx_keeps)

text \<open>One database reached from another by calls and transactions.\<close>

inductive reaches :: "libs \<Rightarrow> db \<Rightarrow> db \<Rightarrow> bool" for L where
  here: "reaches L d d"
| call: "reaches L d t \<Longrightarrow> reaches L d (exec L c t)"
| tx: "reaches L d t \<Longrightarrow> reaches L d (snd (withinTx L ending cs t))"

lemma reaches_reachable: "reaches L d t \<Longrightarrow> reachable L d \<Longrightarrow> reachable L t"
  by (induction rule: reaches.induct) (auto intro: reachable.intros)

lemma reaches_evolves: "reaches L d t \<Longrightarrow> reachable L d \<Longrightarrow> evolves d t"
proof (induction rule: reaches.induct)
  case (call d t c)
  then show ?case
    using exec_keeps [OF reachable_inv [OF reaches_reachable]] keeps_evolves evolves_trans by blast
next
  case (tx d t ending cs)
  then show ?case
    using withinTx_keeps [OF reachable_inv [OF reaches_reachable]] keeps_evolves evolves_trans by blast
qed simp

end
