(* ===== verification/StoreEffects.thy ===== *)
theory StoreEffects
  imports StoreReach
begin

text \<open>
  What a call can do to the runs, read off its text. \<open>effectOf R m\<close> says that whatever
  \<open>m\<close> does when it succeeds is within the relation \<open>R\<close>; for a preorder this is
  preserved by every way the store composes operations (locale \<open>effect\<close>). With the
  relation \<open>moves C A B\<close> (every run is left as it is, or goes from a row satisfying \<open>A\<close>
  to a status satisfying \<open>B\<close>) this gives the lifecycle of a run as an abstract machine that
  the store refines.
\<close>

section \<open>Effects\<close>

definition effectOf :: "('s \<Rightarrow> 's \<Rightarrow> bool) \<Rightarrow> ('s, 'a) op \<Rightarrow> bool" where
  "effectOf R m \<longleftrightarrow> (\<forall>s. wpE m (\<lambda>_. R s) s)"

locale effect =
  fixes R :: "db \<Rightarrow> db \<Rightarrow> bool"
  assumes refl: "R s s" and trans: "R s t \<Longrightarrow> R t u \<Longrightarrow> R s u"
begin

lemma bind: "effectOf R m \<Longrightarrow> (\<And>x. effectOf R (f x)) \<Longrightarrow> effectOf R (bindE m f)"
  unfolding effectOf_def wp_bind
proof (intro allI)
  fix s assume m: "\<forall>s. wpE m (\<lambda>_. R s) s" and f: "\<And>x. \<forall>s. wpE (f x) (\<lambda>_. R s) s"
  show "wpE m (\<lambda>x. wpE (f x) (\<lambda>_. R s)) s"
    by (rule wpE_mono [OF spec [OF m]], rule wpE_mono [OF spec [OF f]]) (rule trans)
qed

lemma bind_lift: "(\<And>x. r = Inr x \<Longrightarrow> effectOf R (f x)) \<Longrightarrow> effectOf R (bindE (liftE r) f)"
  by (simp add: effectOf_def wp_bind wp_lift)

lemma then_: "effectOf R m \<Longrightarrow> effectOf R n \<Longrightarrow> effectOf R (thenE m n)"
  unfolding thenE_def by (rule bind)

lemma silent: "effectOf R (returnE x)" "effectOf R (throwE e)" "effectOf R (liftE r)" "effectOf R (readE g)" "effectOf R (askE h)"
  "effectOf R (guardE b e)" "effectOf R (rowsAffected n)"
  by (simp_all add: effectOf_def wp refl)

lemma if_: "effectOf R m \<Longrightarrow> effectOf R n \<Longrightarrow> effectOf R (if b then m else n)"
  by simp

lemma when_: "effectOf R m \<Longrightarrow> effectOf R (whenE b m)"
  by (simp add: effectOf_def wp refl)

lemma option_: "effectOf R m \<Longrightarrow> (\<And>x. effectOf R (f x)) \<Longrightarrow> effectOf R (case r of None \<Rightarrow> m | Some x \<Rightarrow> f x)"
  by (cases r) simp_all

lemma sum_: "(\<And>e. effectOf R (m e)) \<Longrightarrow> (\<And>x. effectOf R (f x)) \<Longrightarrow> effectOf R (case r of Inl e \<Rightarrow> m e | Inr x \<Rightarrow> f x)"
  by (cases r) simp_all

lemma prod_: "(\<And>a b. effectOf R (f a b)) \<Longrightarrow> effectOf R (case p of (a, b) \<Rightarrow> f a b)"
  by (cases p) simp

lemma atomic: "effectOf R m \<Longrightarrow> effectOf R (atomicE m)"
  by (simp add: effectOf_def wp)

lemma mapErr: "effectOf R m \<Longrightarrow> effectOf R (mapErrE g m)"
  by (simp add: effectOf_def wp)

lemma unit: "effectOf R m \<Longrightarrow> effectOf R (unitE m)"
  by (simp add: effectOf_def wp)

lemma for_: "(\<And>x. effectOf R (f x)) \<Longrightarrow> effectOf R (forE xs f)"
proof (induction xs)
  case (Cons x xs)
  then show ?case by (simp add: then_)
qed (simp add: silent)

lemmas intros = bind then_ silent if_ when_ option_ sum_ prod_ atomic mapErr unit for_

end

section \<open>Moves of runs\<close>

definition runKeys :: "db \<Rightarrow> (int \<times> RunID) list" where
  "runKeys d = map (\<lambda>r. (rw_RowKey r, rw_ID r)) (runs d)"

text \<open>
  Under a condition \<open>C\<close> on the keys and ids of the runs, which stay: every run is left as it is, or goes from a row
  satisfying \<open>A\<close> to a status satisfying \<open>B\<close>.
\<close>

definition moves :: "((int \<times> RunID) list \<Rightarrow> bool) \<Rightarrow> (runRow \<Rightarrow> bool) \<Rightarrow> (RunStatus \<Rightarrow> bool) \<Rightarrow> db \<Rightarrow> db \<Rightarrow> bool" where
  "moves C A B d t \<longleftrightarrow> (C (runKeys d) \<longrightarrow> runKeys t = runKeys d \<and>
     (\<forall>i < length (runs d). runs t ! i = runs d ! i \<or> A (runs d ! i) \<and> B (rw_Status (runs t ! i))))"

interpretation moves: effect "moves C A B"
proof
  fix s t u assume st: "moves C A B s t" and tu: "moves C A B t u"
  show "moves C A B s u"
    unfolding moves_def
  proof (intro conjI allI impI)
    assume c: "C (runKeys s)"
    have kt: "runKeys t = runKeys s" using st c by (simp add: moves_def)
    then show "runKeys u = runKeys s" using tu c by (simp add: moves_def)
    have n: "length (runs t) = length (runs s)" using kt by (metis length_map runKeys_def)
    fix i assume i: "i < length (runs s)"
    have "runs t ! i = runs s ! i \<or> A (runs s ! i) \<and> B (rw_Status (runs t ! i))"
      "runs u ! i = runs t ! i \<or> A (runs t ! i) \<and> B (rw_Status (runs u ! i))"
      using st tu i c kt n by (simp_all add: moves_def)
    then show "runs u ! i = runs s ! i \<or> A (runs s ! i) \<and> B (rw_Status (runs u ! i))" by auto
  qed
qed (simp add: moves_def)

text \<open>Statements on other tables do not move runs.\<close>

lemma moves_statements:
  "effectOf (moves C A B) (insertSession mk1)" "effectOf (moves C A B) (updateSessions P1 f1)"
  "effectOf (moves C A B) (insertMessage mk2)" "effectOf (moves C A B) (updateMessages P2 f2)"
  "effectOf (moves C A B) (insertPart mk3)" "effectOf (moves C A B) (updateParts P3 f3)"
  "effectOf (moves C A B) (insertTool mk4)" "effectOf (moves C A B) (updateTools P4 f4)"
  "effectOf (moves C A B) (insertEpoch mk5)" "effectOf (moves C A B) (updateEpochs P5 f5)"
  "effectOf (moves C A B) (insertModelRequest mk6)" "effectOf (moves C A B) (updateModelRequests P6 f6)"
  "effectOf (moves C A B) (insertTurn mk7)" "effectOf (moves C A B) (updateTurns P7 f7)"
  "effectOf (moves C A B) (insertInbox mk8)" "effectOf (moves C A B) (updateInbox P8 f8)"
  "effectOf (moves C A B) (insertCheckpoint mk9)" "effectOf (moves C A B) (updateCheckpoints P9 f9)"
  "effectOf (moves C A B) (insertEventRow mk10)" "effectOf (moves C A B) (insertAdmission mk11)"
  "effectOf (moves C A B) (deleteCheckpointsUpTo k n)"
  by (simp_all add: effectOf_def wp_statements wp deleteCheckpointsUpTo_def moves_def runKeys_def Let_def)

lemma moves_updateRuns:
  assumes "\<And>s r. C (runKeys s) \<Longrightarrow> r \<in> set (runs s) \<Longrightarrow> P r \<Longrightarrow> A r \<and> B (rw_Status (f r)) \<and> rw_RowKey (f r) = rw_RowKey r \<and> rw_ID (f r) = rw_ID r"
  shows "effectOf (moves C A B) (updateRuns P f)"
  unfolding effectOf_def wp_statements
proof (intro allI impI)
  fix s
  have *: "C (runKeys s) \<Longrightarrow> r \<in> set (runs s) \<Longrightarrow> P r \<Longrightarrow> A r \<and> B (rw_Status (f r)) \<and> rw_RowKey (f r) = rw_RowKey r \<and> rw_ID (f r) = rw_ID r" for r
    by (rule assms)
  show "moves C A B s (runs_update (updateWhere P f) s)"
    using * by (auto simp: moves_def runKeys_def updateWhere_def)
qed

text \<open>A value read from the database may make a condition on the keys hold.\<close>

definition distinctKeys :: "(int \<times> RunID) list \<Rightarrow> bool" where
  "distinctKeys ks = distinct (map fst ks)"

definition keyOf :: "RunID \<Rightarrow> int \<Rightarrow> (int \<times> RunID) list \<Rightarrow> bool" where
  "keyOf i k ks \<longleftrightarrow> (\<forall>(a, b) \<in> set ks. a = k \<longrightarrow> b = i)"

lemma moves_read:
  assumes "\<And>x s. g s = Inr x \<Longrightarrow> distinctKeys (runKeys s) \<Longrightarrow> C x (runKeys s)" and "\<And>x. effectOf (moves (C x) A B) (f x)"
  shows "effectOf (moves distinctKeys A B) (bindE (readE g) f)"
  unfolding effectOf_def
proof
  fix s
  show "wpE (bindE (readE g) f) (\<lambda>_. moves distinctKeys A B s) s"
  proof (cases "g s")
    case (Inr x)
    have "wpE (f x) (\<lambda>_. moves (C x) A B s) s" using assms(2) by (simp add: effectOf_def)
    then have "wpE (f x) (\<lambda>_. moves distinctKeys A B s) s"
      by (rule wpE_mono) (use assms(1) [OF Inr] in \<open>auto simp: moves_def\<close>)
    then show ?thesis using Inr by (simp add: wp)
  qed (simp add: wp)
qed

lemma keyOf_row: "distinctKeys (runKeys s) \<Longrightarrow> r \<in> set (runs s) \<Longrightarrow> keyOf (rw_ID r) (rw_RowKey r) (runKeys s)"
  by (force simp: distinctKeys_def keyOf_def runKeys_def distinct_map inj_on_def)

lemma keyOf_runKeyOf: "runKeyOf i s = Inr k \<Longrightarrow> distinctKeys (runKeys s) \<Longrightarrow> keyOf i k (runKeys s)"
  using keyOf_row by (fastforce simp: runKeyOf_def keyIn_def find_Some_iff split: option.splits)

lemma keyOf_lockRun:
  assumes "lockRun i s = Inr q" and "distinctKeys (runKeys s)"
  shows "keyOf i (rw_RowKey (fst q)) (runKeys s)"
proof -
  have "q \<in> set (runQuery s)" "rw_ID (fst q) = i"
    using assms(1) by (auto simp: lockRun_def dest!: take1_Inr split: option.splits if_splits)
  with keyOf_row [OF assms(2), of "fst q"] set_runQuery [of "fst q" "snd q" s] show ?thesis by simp
qed

lemmas moves_intros = moves.intros moves_statements

lemmas private_defs = appendMessage_def appendPart_def updatePart_def insertEvent_def appendEvent_def appendCanonicalEvent_def
  enqueueInboxLocked_def moveInbox_def consumeOne_def consumeInboxForTurn_def settleOne_def settleInboxForTurn_def
  interruptOne_def interruptInboxItems_def createTurn_def writeTurn_def failOne_def terminalizeResidualTurns_def
  createCheckpoint_def promoteRevision_def createToolCall_def claimToolCall_def finishToolCall_def settleToolCall_def
  startContextEpoch_def finishContextEpoch_def createModelRequest_def updateModelRequest_def setSessionTitleLocked_def
  LockAdmissionSession_def

lemma moves_private:
  "effectOf (moves C A B) (appendMessage m)" "effectOf (moves C A B) (appendPart p)" "effectOf (moves C A B) (updatePart p)"
  "effectOf (moves C A B) (appendEvent e)" "effectOf (moves C A B) (appendCanonicalEvent e)" "effectOf (moves C A B) (insertEvent e b)"
  "effectOf (moves C A B) (enqueueInboxLocked k item)" "effectOf (moves C A B) (consumeInboxForTurn k tk ti ids u)"
  "effectOf (moves C A B) (settleInboxForTurn tk fs st u)" "effectOf (moves C A B) (interruptInboxItems k ids u)"
  "effectOf (moves C A B) (createTurn v)" "effectOf (moves C A B) (writeTurn row v)" "effectOf (moves C A B) (terminalizeResidualTurns k u)"
  "effectOf (moves C A B) (createCheckpoint c)" "effectOf (moves C A B) (promoteRevision k n)"
  "effectOf (moves C A B) (createToolCall tc)" "effectOf (moves C A B) (claimToolCall tc)" "effectOf (moves C A B) (settleToolCall L ts)"
  "effectOf (moves C A B) (startContextEpoch ce)" "effectOf (moves C A B) (finishContextEpoch ce)"
  "effectOf (moves C A B) (createModelRequest mr)" "effectOf (moves C A B) (updateModelRequest mr)"
  "effectOf (moves C A B) (setSessionTitleLocked now t)" "effectOf (moves C A B) (LockAdmissionSession b' s)"
  unfolding private_defs Let_def by (intro moves_intros)+

section \<open>What each call does to runs\<close>

abbreviation never :: "'a \<Rightarrow> bool" where
  "never \<equiv> \<lambda>_. False"

definition liveRun :: "RunID \<Rightarrow> runRow \<Rightarrow> bool" where
  "liveRun i r \<longleftrightarrow> rw_ID r = i \<and> liveStatus (rw_Status r)"

definition activeRunRow :: "RunID \<Rightarrow> runRow \<Rightarrow> bool" where
  "activeRunRow i r \<longleftrightarrow> rw_ID r = i \<and> activeStatus (rw_Status r)"

text \<open>The calls that touch runs: starting and renewing keep the live run of the fence live, pausing takes it
  to paused, settling closes it, claiming takes the paused or live run it names to running.\<close>

definition runMove :: "call \<Rightarrow> (runRow \<Rightarrow> bool) \<times> (RunStatus \<Rightarrow> bool)" where
  "runMove c = (case c of
       CClaimRun now q \<Rightarrow> (activeRunRow (c_RunID q), \<lambda>s. s = RunRunning)
     | CFenced f k \<Rightarrow>
        (case k of CStartRun u \<Rightarrow> (liveRun (f_RunID f), \<lambda>s. s = RunRunning)
         | CRenewRunLease now n \<Rightarrow> (liveRun (f_RunID f), liveStatus)
         | CClaimToolCall now q \<Rightarrow> (liveRun (f_RunID f), liveStatus)
         | CPromotePause q \<Rightarrow> (liveRun (f_RunID f), \<lambda>s. s = RunPaused)
         | CRepauseRun q \<Rightarrow> (liveRun (f_RunID f), \<lambda>s. s = RunPaused)
         | CSettleRun q \<Rightarrow> (liveRun (f_RunID f), terminalRunStatus)
         | _ \<Rightarrow> (never, never))
     | _ \<Rightarrow> (never, never))"

lemma loadRunFence_ID: "loadRunFence f b d = Inr run \<Longrightarrow> r_ID run = f_RunID f"
  by (auto simp: loadRunFence_def lockRun_def decodeRunRow_def Let_def dest!: take1_Inr split: option.splits if_splits)

lemma moves_withFence:
  assumes "\<And>run. r_ID run = f_RunID f \<Longrightarrow> effectOf (moves C A B) (fn run)"
  shows "effectOf (moves C A B) (withFence f fn)" "effectOf (moves C A B) (withFenceState f b fn)"
proof -
  have "effectOf (moves C A B) (bindE (readE (loadRunFence f b)) fn)" for b
    using assms loadRunFence_ID by (fastforce simp: effectOf_def wp)
  then show "effectOf (moves C A B) (withFence f fn)" "effectOf (moves C A B) (withFenceState f b fn)"
    unfolding withFence_def withFenceState_def by (simp_all add: moves.intros)
qed

lemma moves_writeRun: "r_ID v = i \<Longrightarrow> B (r_Status v) \<Longrightarrow> effectOf (moves C (liveRun i) B) (writeRun v)"
  unfolding writeRun_def by (intro moves_intros moves_updateRuns) (auto simp: liveRun_def)

lemma moves_pauseRunRow: "effectOf (moves (keyOf i k) (liveRun i) (\<lambda>s. s = RunPaused)) (pauseRunRow k v)"
  unfolding pauseRunRow_def
  by (intro moves_intros moves_updateRuns) (auto simp: liveRun_def keyOf_def runKeys_def)

lemma moves_renewRunLease: "effectOf (moves C (liveRun (f_RunID f)) liveStatus) (renewRunLease now f n)"
  unfolding renewRunLease_def by (intro moves_intros moves_updateRuns) (auto simp: liveRun_def)

lemma moves_SettleRun: "effectOf (moves C (liveRun (f_RunID f)) terminalRunStatus) (SettleRun f q)"
  unfolding SettleRun_def
  by (intro moves_withFence moves.bind_lift moves_intros moves_private moves_writeRun)
    (auto elim!: ApplyRunSettlement_elim)

lemma moves_ClaimRun: "effectOf (moves distinctKeys (activeRunRow (c_RunID q)) (\<lambda>s. s = RunRunning)) (ClaimRun now q)"
proof -
  have w: "effectOf (moves (keyOf i k) (activeRunRow i) (\<lambda>s. s = RunRunning)) (updateRuns P f)"
    if "\<And>r. P r \<Longrightarrow> rw_RowKey r = k \<and> activeStatus (rw_Status r)"
      "\<And>r. rw_Status (f r) = RunRunning \<and> rw_RowKey (f r) = rw_RowKey r \<and> rw_ID (f r) = rw_ID r" for i k P f
    by (rule moves_updateRuns) (use that in \<open>auto simp: activeRunRow_def keyOf_def runKeys_def\<close>)
  show ?thesis
    unfolding ClaimRun_def Let_def
    by (intro moves.if_ moves.atomic moves.silent moves_read [where C = "\<lambda>x. keyOf (c_RunID q) (rw_RowKey (fst x))"])
      (auto simp: asConflict_def keyOf_lockRun activeStatus_def liveStatus_def intro!: moves_intros w split: sum.splits if_splits)
qed

lemma moves_StartRun: "effectOf (moves C (liveRun (f_RunID f)) (\<lambda>s. s = RunRunning)) (StartRun f u)"
  unfolding StartRun_def by (intro moves_withFence moves_intros moves_writeRun) simp_all

lemma moves_pausing:
  "effectOf (moves distinctKeys (liveRun (f_RunID f)) (\<lambda>s. s = RunPaused)) (PromotePause f q)"
  "effectOf (moves distinctKeys (liveRun (f_RunID f)) (\<lambda>s. s = RunPaused)) (RepauseRun f p)"
proof -
  have k: "effectOf (moves distinctKeys (liveRun i) (\<lambda>s. s = RunPaused)) (thenE (liftE r) (bindE (readE (runKeyOf i)) m))"
    if "\<And>k. effectOf (moves (keyOf i k) (liveRun i) (\<lambda>s. s = RunPaused)) (m k)" for i m and r :: "err + unit"
    by (intro moves.then_ moves.silent moves_read [where C = "keyOf i"] that) (rule keyOf_runKeyOf)
  show "effectOf (moves distinctKeys (liveRun (f_RunID f)) (\<lambda>s. s = RunPaused)) (PromotePause f q)"
    unfolding PromotePause_def
    by (intro moves_withFence, erule ssubst) (intro k moves_intros moves_private moves_pauseRunRow)
  show "effectOf (moves distinctKeys (liveRun (f_RunID f)) (\<lambda>s. s = RunPaused)) (RepauseRun f p)"
    unfolding RepauseRun_def
    by (intro moves_withFence, erule ssubst) (intro k moves_intros moves_private moves_pauseRunRow)
qed

lemma moves_leasing:
  "effectOf (moves C (liveRun (f_RunID f)) liveStatus) (RenewRunLease now f n)"
  "effectOf (moves C (liveRun (f_RunID f)) liveStatus) (ClaimToolCall now f q)"
  unfolding RenewRunLease_def ClaimToolCall_def Let_def
  by (intro moves_withFence moves_intros moves_private moves_renewRunLease)+

lemmas quietCall_defs = AppendMessage_def RecordAdmission_def FinalizeAssistantMessage_def AppendPart_def UpdatePart_def
  AppendEvent_def CreateToolCall_def SettleToolCall_def StartContextEpoch_def FinishContextEpoch_def CreateModelRequest_def
  UpdateModelRequest_def AdmitTurn_def CompleteTurn_def InterruptTurn_def ReconcileInterruptedTurn_def ResumeInterruptedTurn_def
  StageCheckpoint_def RetireCheckpoints_def SetSessionTitleFenced_def CreateSession_def UpdateSession_def EnqueueInbox_def
  EnqueueInboxForRun_def RetireRunCheckpoints_def SetSessionTitle_def

lemma moves_quiet:
  "effectOf (moves C A B) (AppendMessage f m)" "effectOf (moves C A B) (RecordAdmission f ad)"
  "effectOf (moves C A B) (FinalizeAssistantMessage f mi)" "effectOf (moves C A B) (AppendPart f p)" "effectOf (moves C A B) (UpdatePart f p)"
  "effectOf (moves C A B) (AppendEvent f e)" "effectOf (moves C A B) (CreateToolCall L f cq)" "effectOf (moves C A B) (SettleToolCall L f sq)"
  "effectOf (moves C A B) (StartContextEpoch f ce)" "effectOf (moves C A B) (FinishContextEpoch f ce)"
  "effectOf (moves C A B) (CreateModelRequest f mr)" "effectOf (moves C A B) (UpdateModelRequest f mr)"
  "effectOf (moves C A B) (AdmitTurn f aq)" "effectOf (moves C A B) (CompleteTurn f tq)" "effectOf (moves C A B) (InterruptTurn f iq)"
  "effectOf (moves C A B) (ReconcileInterruptedTurn f iq)" "effectOf (moves C A B) (ResumeInterruptedTurn f rq)"
  "effectOf (moves C A B) (StageCheckpoint f sc)" "effectOf (moves C A B) (RetireCheckpoints f n)"
  "effectOf (moves C A B) (SetSessionTitleFenced now f t)"
  "effectOf (moves C A B) (CreateSession s)" "effectOf (moves C A B) (UpdateSession s)"
  "effectOf (moves C A B) (EnqueueInbox L item cl)" "effectOf (moves C A B) (EnqueueInboxForRun L i item cl)"
  "effectOf (moves C A B) (RetireRunCheckpoints i n)" "effectOf (moves C A B) (SetSessionTitle now t)"
  unfolding quietCall_defs Let_def by (intro moves_withFence moves_intros moves_private)+

lemma moves_fencedOp:
  "effectOf (moves distinctKeys (fst (runMove (CFenced f c))) (snd (runMove (CFenced f c)))) (fencedOp L f c)"
  by (cases c)
    (simp_all add: runMove_def moves.unit moves_StartRun moves_pausing moves_leasing moves_SettleRun moves_quiet)

text \<open>\<open>AdmitRun\<close> adds a run, with the id and the status it is given; every other call moves runs as \<open>runMove\<close> says.\<close>

lemma runMove_simps [simp]:
  "runMove (CCreateSession s) = (never, never)" "runMove (CUpdateSession s) = (never, never)"
  "runMove (CClaimRun now q) = (activeRunRow (c_RunID q), \<lambda>s. s = RunRunning)" "runMove (CEnqueueInbox item l) = (never, never)"
  "runMove (CEnqueueInboxForRun r item l) = (never, never)" "runMove (CRetireRunCheckpoints r n) = (never, never)"
  "runMove (CLockAdmissionSession s) = (never, never)" "runMove (CSetSessionTitle now t) = (never, never)"
  by (simp_all add: runMove_def)

lemma moves_callOp:
  assumes "\<And>now v n. c \<noteq> CAdmitRun now v n"
  shows "effectOf (moves distinctKeys (fst (runMove c)) (snd (runMove c))) (callOp L c)"
proof (cases c)
  case (CAdmitRun now v n)
  with assms show ?thesis by blast
qed (simp_all add: moves.unit moves.atomic moves_ClaimRun moves_fencedOp moves_quiet moves_private)

lemma AdmitRun_runs:
  "wpE (AdmitRun now v n) (\<lambda>_ t. \<exists>r. runs t = runs d @ [r] \<and> rw_ID r = r_ID v \<and> rw_Status r = r_Status v) d"
  by (auto simp: AdmitRun_def runRowOf_def wp wp_statements Let_def split: option.split sum.split)

section \<open>The lifecycle of a run\<close>

datatype phase = Absent | Live | Paused | Closed

definition statusPhase :: "RunStatus \<Rightarrow> phase" where
  "statusPhase s = (if liveStatus s then Live else if s = RunPaused then Paused else Closed)"

definition phaseOf :: "RunID \<Rightarrow> db \<Rightarrow> phase" where
  "phaseOf i d = (case List.find (\<lambda>r. rw_ID r = i) (runs d) of None \<Rightarrow> Absent | Some r \<Rightarrow> statusPhase (rw_Status r))"

text \<open>
  The abstract machine: what may become of the run \<open>i\<close>, and by which call. \<open>AdmitRun\<close> takes whatever status its caller
  gives the new run, so admission alone decides where a run starts; from there on it is paused, repaused and settled only under
  a fence that names it, and leaves a pause only when it is claimed by its id.
\<close>

inductive lifeStep :: "call \<Rightarrow> RunID \<Rightarrow> phase \<Rightarrow> phase \<Rightarrow> bool" where
  stay: "lifeStep c i p p"
| admit: "lifeStep (CAdmitRun now v n) (r_ID v) Absent (statusPhase (r_Status v))"
| claim: "lifeStep (CClaimRun now q) (c_RunID q) Paused Live"
| pause: "lifeStep (CFenced f (CPromotePause q)) (f_RunID f) Live Paused"
| repause: "lifeStep (CFenced f (CRepauseRun q')) (f_RunID f) Live Paused"
| settle: "lifeStep (CFenced f (CSettleRun q'')) (f_RunID f) Live Closed"

inductive_cases lifeStep_pausedE: "lifeStep c i Paused q"

lemma find_rel:
  assumes "list_all2 (\<lambda>r s. rw_ID s = rw_ID r \<and> Q r s) xs ys"
  shows "rel_option (\<lambda>r s. rw_ID r = i \<and> Q r s) (List.find (\<lambda>r. rw_ID r = i) xs) (List.find (\<lambda>r. rw_ID r = i) ys)"
  using assms by (induction rule: list_all2_induct) auto

lemma moves_phase:
  assumes "moves distinctKeys A B d t" and "distinctKeys (runKeys d)"
  shows "phaseOf i t = phaseOf i d \<or> (\<exists>r b. rw_ID r = i \<and> A r \<and> B b \<and> phaseOf i d = statusPhase (rw_Status r) \<and> phaseOf i t = statusPhase b)"
proof -
  have k: "runKeys t = runKeys d" using assms by (simp add: moves_def)
  then have n: "length (runs t) = length (runs d)" by (metis length_map runKeys_def)
  have "rw_ID (runs t ! j) = rw_ID (runs d ! j)" if "j < length (runs d)" for j
    using arg_cong [OF k, of "\<lambda>ks. snd (ks ! j)"] that n by (simp add: runKeys_def)
  with n have "list_all2 (\<lambda>r s. rw_ID s = rw_ID r \<and> (s = r \<or> A r \<and> B (rw_Status s))) (runs d) (runs t)"
    using assms by (simp add: list_all2_conv_all_nth moves_def)
  from find_rel [OF this, of i] show ?thesis
    unfolding phaseOf_def by (cases rule: option.rel_cases) auto
qed

lemma exec_cases:
  obtains "exec L c d = d" | x where "callOp L c d = (Inr x, exec L c d)"
proof (cases "callOp L c d")
  case (Pair r t)
  show ?thesis
  proof (cases r)
    case (Inl e)
    with Pair callOp_failSafe [of L c] have "t = d" by (auto simp: failSafe_def)
    with Pair that(1) show ?thesis by (simp add: exec_def)
  next
    case (Inr x)
    with Pair that(2) show ?thesis by (simp add: exec_def)
  qed
qed

lemma runMove_lifeStep:
  assumes "\<And>now v n. c \<noteq> CAdmitRun now v n" and "fst (runMove c) r" and "snd (runMove c) b"
  shows "lifeStep c (rw_ID r) (statusPhase (rw_Status r)) (statusPhase b)"
  using assms
  by (cases c; cases "rw_Status r"; cases b)
    (auto simp: runMove_def liveRun_def activeRunRow_def statusPhase_def liveStatus_def activeStatus_def terminalRunStatus_def
      intro: lifeStep.intros split: fencedCall.splits)

end
