(* ===== verification/PlainCalls.thy ===== *)
theory PlainCalls
  imports Execution
begin

text \<open>
  The values JSON carries unchanged. The store keeps a record as the JSON of the struct; the model keeps the struct. The two agree
  when \<open>encoding/json\<close> reads back what it wrote: every string is valid UTF-8 (\<open>json.Marshal\<close> writes another byte as
  U+FFFD), every time lies in the years 0 to 9999 and has a zone of whole minutes under a day (others are refused or cut), and a
  \<open>json.RawMessage\<close> is not nested so deep that the record around it exceeds the decoder's limit of 10000 levels (its compaction is part
  of the model already). A \<open>float64\<close> of the model is finite. A value with
  these properties is called plain; so is a call whose arguments are, and \<open>plainReachable\<close> are the databases plain calls produce. The
  properties that say that a stored record can be read again are stated for them: a message whose id is not valid UTF-8, for instance,
  is stored, and every later read of it fails, because the id column and the id in the record differ.
\<close>

section \<open>Values\<close>

definition plainTime :: "gotime \<Rightarrow> bool" where
  "plainTime t \<longleftrightarrow> yearInRange t \<and> yearInRange (t\<lparr>instant := instant t + zone t * 1000000000\<rparr>) \<and> zone t mod 60 = 0 \<and> \<bar>zone t\<bar> < 86400"

text \<open>A raw message is at most five levels below the root of a record (an argument of a block of an inbox item).\<close>

definition plainRaw :: "RawMessage \<Rightarrow> bool" where
  "plainRaw r \<longleftrightarrow> (case jsonParse r of None \<Rightarrow> True | Some j \<Rightarrow> depth j + 8 \<le> maxNestingDepth)"

definition plainOption :: "('a \<Rightarrow> bool) \<Rightarrow> 'a option \<Rightarrow> bool" where
  "plainOption p x \<longleftrightarrow> (case x of None \<Rightarrow> True | Some y \<Rightarrow> p y)"

definition plainMap :: "smap \<Rightarrow> bool" where
  "plainMap m \<longleftrightarrow> list_all (\<lambda>(k, v). ValidString k \<and> ValidString v) (elems m)"

definition plainRunStatus :: "RunStatus \<Rightarrow> bool" where
  "plainRunStatus x \<longleftrightarrow> (case x of RunStatusOther s \<Rightarrow> ValidString s | _ \<Rightarrow> True)"

definition plainRole :: "Role \<Rightarrow> bool" where
  "plainRole x \<longleftrightarrow> (case x of RoleOther s \<Rightarrow> ValidString s | _ \<Rightarrow> True)"

definition plainPartKind :: "PartKind \<Rightarrow> bool" where
  "plainPartKind x \<longleftrightarrow> (case x of PartKindOther s \<Rightarrow> ValidString s | _ \<Rightarrow> True)"

definition plainToolCallStatus :: "ToolCallStatus \<Rightarrow> bool" where
  "plainToolCallStatus x \<longleftrightarrow> (case x of ToolCallStatusOther s \<Rightarrow> ValidString s | _ \<Rightarrow> True)"

definition plainToolTransitionPhase :: "ToolTransitionPhase \<Rightarrow> bool" where
  "plainToolTransitionPhase x \<longleftrightarrow> (case x of ToolTransitionOther s \<Rightarrow> ValidString s | _ \<Rightarrow> True)"

definition plainEpochNextAction :: "EpochNextAction \<Rightarrow> bool" where
  "plainEpochNextAction x \<longleftrightarrow> (case x of EpochNextOther s \<Rightarrow> ValidString s | _ \<Rightarrow> True)"

definition plainRedactionClass :: "RedactionClass \<Rightarrow> bool" where
  "plainRedactionClass x \<longleftrightarrow> (case x of RedactionOther s \<Rightarrow> ValidString s | _ \<Rightarrow> True)"

definition plainTurnState :: "TurnState \<Rightarrow> bool" where
  "plainTurnState x \<longleftrightarrow> (case x of TurnStateOther s \<Rightarrow> ValidString s | _ \<Rightarrow> True)"

definition plainInboxState :: "InboxState \<Rightarrow> bool" where
  "plainInboxState x \<longleftrightarrow> (case x of InboxStateOther s \<Rightarrow> ValidString s | _ \<Rightarrow> True)"

definition plainCheckpointKind :: "CheckpointKind \<Rightarrow> bool" where
  "plainCheckpointKind x \<longleftrightarrow> (case x of CheckpointKindOther s \<Rightarrow> ValidString s | _ \<Rightarrow> True)"

definition plainModelRequestState :: "ModelRequestState \<Rightarrow> bool" where
  "plainModelRequestState x \<longleftrightarrow> (case x of ModelRequestStateOther s \<Rightarrow> ValidString s | _ \<Rightarrow> True)"

definition plainBlockKind :: "BlockKind \<Rightarrow> bool" where
  "plainBlockKind x \<longleftrightarrow> (case x of BlockKindOther s \<Rightarrow> ValidString s | _ \<Rightarrow> True)"

definition plainResultContentType :: "ResultContentType \<Rightarrow> bool" where
  "plainResultContentType x \<longleftrightarrow> (case x of ResultContentOther s \<Rightarrow> ValidString s | _ \<Rightarrow> True)"

definition plainScope :: "Scope \<Rightarrow> bool" where
  "plainScope x \<longleftrightarrow>
     list_all ValidString [sc_Kind x, sc_Key x]"

definition plainArtifact :: "Artifact \<Rightarrow> bool" where
  "plainArtifact x \<longleftrightarrow>
     list_all ValidString [ar_Name x, ar_Version x, ar_Hash x, ar_ConfigHash x, ar_SourceKind x]"

definition plainRegistrationIdentity :: "RegistrationIdentity \<Rightarrow> bool" where
  "plainRegistrationIdentity x \<longleftrightarrow>
     list_all ValidString [ri_ID x, ri_Contract x, ri_Version x, ri_Kind x] \<and> plainScope (ri_Scope x)"

definition plainToolPlanIdentity :: "ToolPlanIdentity \<Rightarrow> bool" where
  "plainToolPlanIdentity x \<longleftrightarrow>
     list_all ValidString [tp_Name x, tp_RegistrationID x, tp_SchemaHash x, tp_ExecutorHash x] \<and> plainScope (tp_Scope x) \<and>
     list_all ValidString (elems (tp_Aliases x))"

definition plainPromptPlanIdentity :: "PromptPlanIdentity \<Rightarrow> bool" where
  "plainPromptPlanIdentity x \<longleftrightarrow>
     list_all ValidString [pp_Name x, pp_RegistrationID x] \<and> plainScope (pp_Scope x)"

definition plainGuardPlanIdentity :: "GuardPlanIdentity \<Rightarrow> bool" where
  "plainGuardPlanIdentity x \<longleftrightarrow>
     ValidString (gp_RegistrationID x) \<and> plainScope (gp_Scope x)"

definition plainRestrictionPlanIdentity :: "RestrictionPlanIdentity \<Rightarrow> bool" where
  "plainRestrictionPlanIdentity x \<longleftrightarrow>
     list_all ValidString [rp_RegistrationID x, rp_RulesHash x] \<and> plainScope (rp_Scope x)"

definition plainHandlerToolIdentity :: "HandlerToolIdentity \<Rightarrow> bool" where
  "plainHandlerToolIdentity x \<longleftrightarrow>
     list_all ValidString [ht_Name x, ht_SchemaHash x]"

definition plainAgentHandlerPlanIdentity :: "AgentHandlerPlanIdentity \<Rightarrow> bool" where
  "plainAgentHandlerPlanIdentity x \<longleftrightarrow>
     list_all ValidString [ah_ID x, ah_Kind x, ah_Version x, ah_ConfigHash x] \<and> plainScope (ah_Scope x) \<and>
     list_all plainHandlerToolIdentity (elems (ah_Tools x))"

definition plainComponentPlan :: "ComponentPlan \<Rightarrow> bool" where
  "plainComponentPlan x \<longleftrightarrow>
     ValidString (cpl_InstanceID x) \<and> plainArtifact (cpl_Artifact x) \<and>
     list_all plainRegistrationIdentity (elems (cpl_Handlers x)) \<and> list_all plainToolPlanIdentity (elems (cpl_Tools x)) \<and>
     list_all plainPromptPlanIdentity (elems (cpl_Prompts x)) \<and> list_all plainGuardPlanIdentity (elems (cpl_Guards x)) \<and>
     list_all plainRestrictionPlanIdentity (elems (cpl_Restrictions x)) \<and>
     list_all plainAgentHandlerPlanIdentity (elems (cpl_AgentHandlers x))"

definition plainExtensionPlanDescriptor :: "ExtensionPlanDescriptor \<Rightarrow> bool" where
  "plainExtensionPlanDescriptor x \<longleftrightarrow>
     list_all ValidString [ep_Fingerprint x, ep_ToolSearch x] \<and> list_all plainComponentPlan (elems (ep_Components x))"

definition plainSession :: "Session \<Rightarrow> bool" where
  "plainSession x \<longleftrightarrow>
     list_all ValidString [s_ID x, s_ParentID x, s_WorkspaceID x, s_Directory x, s_Title x] \<and>
     list_all plainTime [s_CreatedAt x, s_UpdatedAt x] \<and> plainMap (s_Metadata x)"

definition plainRun :: "Run \<Rightarrow> bool" where
  "plainRun x \<longleftrightarrow>
     list_all ValidString [r_ID x, r_SessionID x, r_ParentRunID x, r_ParentMsgID x, r_OwnerID x, r_ClaimToken x, r_Agent x, r_ProviderID x, r_ModelID x, r_ContextEpoch x, r_Error x] \<and>
     list_all plainTime [r_LeaseUntil x, r_CreatedAt x, r_StartedAt x, r_FinishedAt x] \<and> plainRunStatus (r_Status x) \<and>
     plainMap (r_Config x) \<and> plainExtensionPlanDescriptor (r_ExtensionPlan x)"

definition plainMessage :: "Message \<Rightarrow> bool" where
  "plainMessage x \<longleftrightarrow>
     list_all ValidString [m_ID x, m_SessionID x, m_RunID x, m_ParentID x, m_Agent x, m_ModelID x, m_TurnID x, m_AgentPath x] \<and>
     list_all plainTime [m_CreatedAt x, m_UpdatedAt x] \<and> plainRole (m_Role x)"

definition plainPart :: "Part \<Rightarrow> bool" where
  "plainPart x \<longleftrightarrow>
     list_all ValidString [p_ID x, p_MessageID x, p_SessionID x, p_RunID x] \<and> list_all plainTime [p_CreatedAt x, p_UpdatedAt x] \<and>
     plainPartKind (p_Kind x) \<and> plainRaw (p_Payload x)"

definition plainToolCall :: "ToolCall \<Rightarrow> bool" where
  "plainToolCall x \<longleftrightarrow>
     list_all ValidString [tc_ID x, tc_SessionID x, tc_RunID x, tc_MessageID x, tc_RequestPartID x, tc_ResultMessageID x, tc_ResultPartID x, tc_Name x, tc_RequestedName x, tc_ProviderCallID x, tc_Pattern x, tc_ClaimedBy x, tc_ClaimToken x, tc_Error x] \<and>
     list_all plainTime [tc_LeaseUntil x, tc_StartedAt x, tc_CompletedAt x] \<and> plainRaw (tc_Input x) \<and>
     plainRaw (tc_Output x) \<and> plainToolCallStatus (tc_Status x) \<and> plainMap (tc_Metadata x)"

definition plainContextEpoch :: "ContextEpoch \<Rightarrow> bool" where
  "plainContextEpoch x \<longleftrightarrow>
     list_all ValidString [ce_ID x, ce_SessionID x, ce_ParentEpochID x, ce_SummaryMessageID x, ce_SummarizedFromID x, ce_SummarizedToID x, ce_TailStartID x, ce_ModelID x, ce_ProviderID x, ce_Trigger x, ce_Reason x] \<and>
     list_all plainTime [ce_CreatedAt x, ce_ClosedAt x] \<and> plainEpochNextAction (ce_NextAction x)"

definition plainEventError :: "EventError \<Rightarrow> bool" where
  "plainEventError x \<longleftrightarrow>
     list_all ValidString [ee_Code x, ee_Message x]"

definition plainEventRecord :: "EventRecord \<Rightarrow> bool" where
  "plainEventRecord x \<longleftrightarrow>
     list_all ValidString [ev_ID x, ev_SessionID x, ev_RunID x, ev_MessageID x, ev_PartID x, ev_ToolCallID x, ev_EpochID x, ev_TurnID x, ev_AgentPath x, ev_ProviderID x, ev_ModelID x, ev_ParentID x, ev_Kind x, ev_Correlation x] \<and>
     plainTime (ev_CreatedAt x) \<and> plainToolTransitionPhase (ev_ToolTransition x) \<and> plainEventError (ev_Error x) \<and>
     plainRedactionClass (ev_Redaction x) \<and> plainRaw (ev_Payload x)"

definition plainTurn :: "Turn \<Rightarrow> bool" where
  "plainTurn x \<longleftrightarrow>
     list_all ValidString [t_ID x, t_RunID x, t_SessionID x, t_AssistantMessageID x, t_EpochID x] \<and>
     list_all plainTime [t_CreatedAt x, t_StartedAt x, t_FinishedAt x] \<and> plainTurnState (t_State x) \<and>
     list_all ValidString (elems (t_InboxIDs x)) \<and> list_all ValidString (elems (t_UserMessageIDs x)) \<and>
     list_all ValidString (elems (t_ResponseMessageIDs x))"

definition plainCheckpoint :: "Checkpoint \<Rightarrow> bool" where
  "plainCheckpoint x \<longleftrightarrow>
     list_all ValidString [cp_RunID x, cp_AgentFingerprint x, cp_EinoVersion x, cp_CheckpointID x] \<and> plainTime (cp_CreatedAt x) \<and>
     plainCheckpointKind (cp_Kind x)"

definition plainModelRequestRecord :: "ModelRequestRecord \<Rightarrow> bool" where
  "plainModelRequestRecord x \<longleftrightarrow>
     list_all ValidString [mr_ID x, mr_SessionID x, mr_RunID x, mr_AssistantMessageID x, mr_InvocationID x, mr_TurnID x, mr_AgentPath x, mr_ProviderID x, mr_ModelID x, mr_System x, mr_ContentSHA256 x, mr_ExtensionPlanHash x, mr_ErrorCode x] \<and>
     list_all plainTime [mr_CreatedAt x, mr_UpdatedAt x] \<and> plainModelRequestState (mr_State x) \<and> plainRaw (mr_Messages x) \<and>
     plainRaw (mr_Tools x) \<and> plainRaw (mr_Controls x) \<and> plainRaw (mr_SafeCallConfig x)"

definition plainAdmissionReceipt :: "AdmissionReceipt \<Rightarrow> bool" where
  "plainAdmissionReceipt x \<longleftrightarrow>
     list_all ValidString [a_SessionID x, a_Key x, a_RunID x, a_UserMessageID x, a_AssistantMessageID x] \<and>
     plainTime (a_CreatedAt x)"

definition plainAdmissionRecord :: "AdmissionRecord \<Rightarrow> bool" where
  "plainAdmissionRecord x \<longleftrightarrow>
     plainAdmissionReceipt (ad_Receipt x) \<and> plainRunStatus (ad_RunStatus x)"

definition plainReasoningBlock :: "ReasoningBlock \<Rightarrow> bool" where
  "plainReasoningBlock x \<longleftrightarrow>
     ValidString (rb_Text x) \<and> list_all ValidString (elems (rb_Summary x))"

definition plainTextAnnotation :: "TextAnnotation \<Rightarrow> bool" where
  "plainTextAnnotation x \<longleftrightarrow>
     list_all ValidString [ta_Type x, ta_Title x, ta_URL x, ta_FileID x, ta_Filename x, ta_ContainerID x, ta_CitedText x, ta_DocumentTitle x]"

definition plainTextBlock :: "TextBlock \<Rightarrow> bool" where
  "plainTextBlock x \<longleftrightarrow>
     list_all ValidString [tb_Text x, tb_Refusal x] \<and> list_all plainTextAnnotation (elems (tb_Annotations x))"

definition plainMediaBlock :: "MediaBlock \<Rightarrow> bool" where
  "plainMediaBlock x \<longleftrightarrow>
     list_all ValidString [mb_URL x, mb_Base64Data x, mb_MIMEType x, mb_Name x, mb_Detail x]"

definition plainFunctionCallBlock :: "FunctionCallBlock \<Rightarrow> bool" where
  "plainFunctionCallBlock x \<longleftrightarrow>
     list_all ValidString [fc_CallID x, fc_Name x, fc_Arguments x]"

definition plainResultContent :: "ResultContent \<Rightarrow> bool" where
  "plainResultContent x \<longleftrightarrow>
     ValidString (rc_Text x) \<and> plainResultContentType (rc_Type x) \<and> plainOption plainMediaBlock (rc_Media x)"

definition plainFunctionResultBlock :: "FunctionResultBlock \<Rightarrow> bool" where
  "plainFunctionResultBlock x \<longleftrightarrow>
     list_all ValidString [fr_CallID x, fr_Name x] \<and> list_all plainResultContent (elems (fr_Content x))"

definition plainToolSearchBlock :: "ToolSearchBlock \<Rightarrow> bool" where
  "plainToolSearchBlock x \<longleftrightarrow>
     list_all ValidString [tq_CallID x, tq_Name x] \<and> list_all plainRaw (elems (tq_Tools x))"

definition plainServerCallBlock :: "ServerCallBlock \<Rightarrow> bool" where
  "plainServerCallBlock x \<longleftrightarrow>
     list_all ValidString [sb_Name x, sb_CallID x] \<and> plainRaw (sb_Arguments x)"

definition plainServerResultBlock :: "ServerResultBlock \<Rightarrow> bool" where
  "plainServerResultBlock x \<longleftrightarrow>
     list_all ValidString [sv_Name x, sv_CallID x] \<and> plainRaw (sv_Content x)"

definition plainMCPCallBlock :: "MCPCallBlock \<Rightarrow> bool" where
  "plainMCPCallBlock x \<longleftrightarrow>
     list_all ValidString [mc_ServerLabel x, mc_ApprovalRequestID x, mc_CallID x, mc_Name x, mc_Arguments x]"

definition plainMCPResultBlock :: "MCPResultBlock \<Rightarrow> bool" where
  "plainMCPResultBlock x \<longleftrightarrow>
     list_all ValidString [mx_ServerLabel x, mx_CallID x, mx_Name x, mx_Content x, mx_ErrorMessage x]"

definition plainMCPToolDefinition :: "MCPToolDefinition \<Rightarrow> bool" where
  "plainMCPToolDefinition x \<longleftrightarrow>
     list_all ValidString [md_Name x, md_Description x] \<and> plainRaw (md_InputSchema x)"

definition plainMCPListToolsBlock :: "MCPListToolsBlock \<Rightarrow> bool" where
  "plainMCPListToolsBlock x \<longleftrightarrow>
     list_all ValidString [ml_ServerLabel x, ml_Error x] \<and> list_all plainMCPToolDefinition (elems (ml_Tools x))"

definition plainMCPApprovalRequestBlock :: "MCPApprovalRequestBlock \<Rightarrow> bool" where
  "plainMCPApprovalRequestBlock x \<longleftrightarrow>
     list_all ValidString [mq_ID x, mq_Name x, mq_Arguments x, mq_ServerLabel x]"

definition plainMCPApprovalResponseBlock :: "MCPApprovalResponseBlock \<Rightarrow> bool" where
  "plainMCPApprovalResponseBlock x \<longleftrightarrow>
     list_all ValidString [mp_ApprovalRequestID x, mp_Reason x]"

definition plainContentBlock :: "ContentBlock \<Rightarrow> bool" where
  "plainContentBlock x \<longleftrightarrow>
     ValidString (cb_ID x) \<and> plainBlockKind (cb_Kind x) \<and> plainOption plainReasoningBlock (cb_Reasoning x) \<and>
     plainOption plainTextBlock (cb_Text x) \<and> plainOption plainMediaBlock (cb_Media x) \<and>
     plainOption plainFunctionCallBlock (cb_FunctionCall x) \<and> plainOption plainFunctionResultBlock (cb_FunctionResult x) \<and>
     plainOption plainToolSearchBlock (cb_ToolSearch x) \<and> plainOption plainServerCallBlock (cb_ServerCall x) \<and>
     plainOption plainServerResultBlock (cb_ServerResult x) \<and> plainOption plainMCPCallBlock (cb_MCPCall x) \<and>
     plainOption plainMCPResultBlock (cb_MCPResult x) \<and> plainOption plainMCPListToolsBlock (cb_MCPListTools x) \<and>
     plainOption plainMCPApprovalRequestBlock (cb_MCPApprovalRequest x) \<and>
     plainOption plainMCPApprovalResponseBlock (cb_MCPApprovalResponse x)"

definition plainInboxItem :: "InboxItem \<Rightarrow> bool" where
  "plainInboxItem x \<longleftrightarrow>
     list_all ValidString [ib_ID x, ib_SessionID x, ib_IdempotencyKey x, ib_TurnID x] \<and>
     list_all plainTime [ib_CreatedAt x, ib_UpdatedAt x] \<and> list_all plainContentBlock (elems (ib_Blocks x)) \<and>
     plainInboxState (ib_State x)"

definition plainRunSettlement :: "RunSettlement \<Rightarrow> bool" where
  "plainRunSettlement x \<longleftrightarrow>
     ValidString (rs_Error x) \<and> plainTime (rs_FinishedAt x) \<and> plainRunStatus (rs_Status x)"

definition plainRunSettlementEvent :: "RunSettlementEvent \<Rightarrow> bool" where
  "plainRunSettlementEvent x \<longleftrightarrow>
     list_all ValidString [re_ID x, re_MessageID x, re_ErrorCode x]"

definition plainSettleRunRequest :: "SettleRunRequest \<Rightarrow> bool" where
  "plainSettleRunRequest x \<longleftrightarrow>
     plainRunSettlement (sr_Settlement x) \<and> plainRunSettlementEvent (sr_Event x)"

definition plainToolSettlement :: "ToolSettlement \<Rightarrow> bool" where
  "plainToolSettlement x \<longleftrightarrow>
     list_all ValidString [ts_ID x, ts_ClaimedBy x, ts_ClaimToken x, ts_Error x] \<and> plainTime (ts_CompletedAt x) \<and>
     plainToolCallStatus (ts_Status x) \<and> plainRaw (ts_Output x) \<and> plainMap (ts_Metadata x) \<and>
     plainMessage (ts_ResultMessage x) \<and> plainPart (ts_ResultPart x)"

definition plainToolTransitionEvent :: "ToolTransitionEvent \<Rightarrow> bool" where
  "plainToolTransitionEvent x \<longleftrightarrow>
     list_all ValidString [te_ID x, te_EpochID x, te_ProviderID x, te_ModelID x] \<and> plainTime (te_CreatedAt x)"

definition plainCreateToolCallRequest :: "CreateToolCallRequest \<Rightarrow> bool" where
  "plainCreateToolCallRequest x \<longleftrightarrow>
     plainToolCall (cq_Call x) \<and> plainPart (cq_RequestPart x) \<and> plainToolTransitionEvent (cq_Event x)"

definition plainClaimToolCallRequest :: "ClaimToolCallRequest \<Rightarrow> bool" where
  "plainClaimToolCallRequest x \<longleftrightarrow>
     list_all ValidString [kq_ID x, kq_ClaimedBy x, kq_ClaimToken x] \<and> plainTime (kq_StartedAt x) \<and>
     plainToolTransitionEvent (kq_Event x)"

definition plainSettleToolCallRequest :: "SettleToolCallRequest \<Rightarrow> bool" where
  "plainSettleToolCallRequest x \<longleftrightarrow>
     plainToolSettlement (sq_Settlement x) \<and> plainToolTransitionEvent (sq_Event x)"

definition plainAdmitTurnRequest :: "AdmitTurnRequest \<Rightarrow> bool" where
  "plainAdmitTurnRequest x \<longleftrightarrow>
     plainTurn (at_Turn x) \<and> list_all plainMessage (at_UserMessages x) \<and> list_all plainPart (at_UserParts x) \<and>
     plainMessage (at_AssistantPlaceholder x) \<and> plainEventRecord (at_Event x) \<and> list_all ValidString (at_InboxIDs x)"

definition plainCompleteTurnRequest :: "CompleteTurnRequest \<Rightarrow> bool" where
  "plainCompleteTurnRequest x \<longleftrightarrow>
     ValidString (ct_TurnID x) \<and> list_all ValidString (elems (ct_ResponseMessageIDs x)) \<and> plainEventRecord (ct_Event x)"

definition plainInterruptTurnRequest :: "InterruptTurnRequest \<Rightarrow> bool" where
  "plainInterruptTurnRequest x \<longleftrightarrow>
     ValidString (it_TurnID x) \<and> plainEventRecord (it_Event x)"

definition plainResumeInterruptedTurnRequest :: "ResumeInterruptedTurnRequest \<Rightarrow> bool" where
  "plainResumeInterruptedTurnRequest x \<longleftrightarrow>
     ValidString (rt_TurnID x) \<and> plainTime (rt_ResumedAt x)"

definition plainPromotePauseRequest :: "PromotePauseRequest \<Rightarrow> bool" where
  "plainPromotePauseRequest x \<longleftrightarrow>
     ValidString (pq_TurnID x) \<and> list_all ValidString (pq_InboxIDs x) \<and> plainEventRecord (pq_Event x)"

definition plainRepauseRunRequest :: "RepauseRunRequest \<Rightarrow> bool" where
  "plainRepauseRunRequest x \<longleftrightarrow>
     plainEventRecord (rq_Event x)"

definition plainStageCheckpointRequest :: "StageCheckpointRequest \<Rightarrow> bool" where
  "plainStageCheckpointRequest x \<longleftrightarrow>
     plainCheckpoint (sc_Checkpoint x)"

definition plainSessionTitleRequest :: "SessionTitleRequest \<Rightarrow> bool" where
  "plainSessionTitleRequest x \<longleftrightarrow>
     list_all ValidString [st_SessionID x, st_WorkspaceID x, st_Title x]"

section \<open>Calls\<close>

text \<open>A fence and the ids of a lookup are only compared; the store's clock writes times too.\<close>

fun plainFenced :: "fencedCall \<Rightarrow> bool" where
  "plainFenced (CStartRun t) = plainTime t"
| "plainFenced (CRepauseRun q) = plainRepauseRunRequest q"
| "plainFenced (CRenewRunLease now n) = plainTime (unixMicro (now + durationMicros n))"
| "plainFenced (CSettleRun q) = plainSettleRunRequest q"
| "plainFenced (CAppendMessage m) = plainMessage m"
| "plainFenced (CRecordAdmission a) = plainAdmissionRecord a"
| "plainFenced (CFinalizeAssistantMessage i) = True"
| "plainFenced (CAppendPart p) = plainPart p"
| "plainFenced (CUpdatePart p) = plainPart p"
| "plainFenced (CAppendEvent e) = plainEventRecord e"
| "plainFenced (CCreateToolCall q) = plainCreateToolCallRequest q"
| "plainFenced (CClaimToolCall now q) = (plainClaimToolCallRequest q \<and> plainTime (unixMicro (now + durationMicros (kq_LeaseDuration q))))"
| "plainFenced (CSettleToolCall q) = plainSettleToolCallRequest q"
| "plainFenced (CStartContextEpoch e) = plainContextEpoch e"
| "plainFenced (CFinishContextEpoch e) = plainContextEpoch e"
| "plainFenced (CCreateModelRequest q) = plainModelRequestRecord q"
| "plainFenced (CUpdateModelRequest q) = plainModelRequestRecord q"
| "plainFenced (CAdmitTurn q) = plainAdmitTurnRequest q"
| "plainFenced (CCompleteTurn q) = plainCompleteTurnRequest q"
| "plainFenced (CInterruptTurn q) = plainInterruptTurnRequest q"
| "plainFenced (CReconcileInterruptedTurn q) = plainInterruptTurnRequest q"
| "plainFenced (CResumeInterruptedTurn q) = plainResumeInterruptedTurnRequest q"
| "plainFenced (CStageCheckpoint q) = plainStageCheckpointRequest q"
| "plainFenced (CPromotePause q) = plainPromotePauseRequest q"
| "plainFenced (CRetireCheckpoints n) = True"
| "plainFenced (CSetSessionTitleFenced now q) = (plainSessionTitleRequest q \<and> plainTime (unixMicro now))"

fun plainCall :: "call \<Rightarrow> bool" where
  "plainCall (CCreateSession s) = plainSession s"
| "plainCall (CUpdateSession s) = plainSession s"
| "plainCall (CAdmitRun now r n) = (plainRun r \<and> plainTime (unixMicro (now + durationMicros n)))"
| "plainCall (CClaimRun now c) =
     (list_all ValidString [c_OwnerID c, c_ClaimToken c] \<and> plainTime (unixMicro (now + durationMicros (c_LeaseDuration c))))"
| "plainCall (CEnqueueInbox i l) = plainInboxItem i"
| "plainCall (CEnqueueInboxForRun r i l) = plainInboxItem i"
| "plainCall (CRetireRunCheckpoints r n) = True"
| "plainCall (CLockAdmissionSession s) = plainSession s"
| "plainCall (CSetSessionTitle now q) = (plainSessionTitleRequest q \<and> plainTime (unixMicro now))"
| "plainCall (CFenced f c) = plainFenced c"

text \<open>One database reached from another by plain calls and transactions of them.\<close>

inductive plainReaches :: "libs \<Rightarrow> db \<Rightarrow> db \<Rightarrow> bool" for L where
  here: "plainReaches L d d"
| step: "plainReaches L d t \<Longrightarrow> plainCall c \<Longrightarrow> plainReaches L d (exec L c t)"
| tx: "plainReaches L d t \<Longrightarrow> list_all (plainCall \<circ> fst) cs \<Longrightarrow> plainReaches L d (snd (withinTx L ending cs t))"

definition plainReachable :: "libs \<Rightarrow> db \<Rightarrow> bool" where
  "plainReachable L = plainReaches L emptyDb"

lemma plainReaches_reachable: "plainReaches L d t \<Longrightarrow> reachable L d \<Longrightarrow> reachable L t"
  by (induction rule: plainReaches.induct) (auto intro: reachable.intros)

lemma plainReachable_reachable: "plainReachable L d \<Longrightarrow> reachable L d"
  unfolding plainReachable_def by (erule plainReaches_reachable) (rule reachable.start)

lemma plainReaches_fold: "plainReaches L d t \<Longrightarrow> list_all plainCall cs \<Longrightarrow> plainReaches L d (fold (exec L) cs t)"
  by (induction cs arbitrary: t) (auto intro: plainReaches.step)

lemma plainReachable_fold: "list_all plainCall cs \<Longrightarrow> plainReachable L (fold (exec L) cs emptyDb)"
  unfolding plainReachable_def by (rule plainReaches_fold) (rule plainReaches.here)

end
