(* ===== verification/Scenario.thy ===== *)
theory Scenario
  imports StoreEffects Samples PlainCalls
begin

text \<open>
  One run of the store from start to end, used as the concrete input of the witnesses: a
  session and a run are created, input is queued, a turn admits it, the turn is paused at a
  checkpoint, another worker claims the run, resumes and completes the turn, and the run is settled.
\<close>

definition demoItem :: InboxItem where
  "demoItem = \<lparr>ib_ID = ''i'', ib_SessionID = ''s'', ib_IdempotencyKey = ''once'',
     ib_Blocks = Some [zeroBlock\<lparr>cb_ID := ''b'', cb_Kind := BlockKindUserInputText, cb_Text := Some \<lparr>tb_Text = ''hi'', tb_Refusal = [], tb_Annotations = None\<rparr>\<rparr>],
     ib_State = InboxQueued, ib_TurnID = [], ib_CreatedAt = demoTime 1, ib_UpdatedAt = zeroTime\<rparr>"

definition demoTurn :: Turn where
  "demoTurn = \<lparr>t_ID = ''t'', t_RunID = ''r'', t_SessionID = ''s'', t_Ordinal = 1, t_State = TurnAdmitted, t_InboxIDs = Some [''i''],
     t_UserMessageIDs = None, t_AssistantMessageID = [], t_ResponseMessageIDs = None, t_Usage = zeroUsage, t_EpochID = [],
     t_CreatedAt = zeroTime, t_StartedAt = zeroTime, t_FinishedAt = zeroTime\<rparr>"

definition demoEvent :: "EventID \<Rightarrow> string \<Rightarrow> int \<Rightarrow> EventRecord" where
  "demoEvent i kind n = \<lparr>ev_ID = i, ev_SessionID = ''s'', ev_RunID = ''r'', ev_MessageID = [], ev_PartID = [], ev_ToolCallID = [],
     ev_ToolTransition = ToolTransitionNone, ev_EpochID = [], ev_TurnID = ''t'', ev_AgentPath = [], ev_ProviderID = [],
     ev_ModelID = [], ev_ParentID = [], ev_Kind = kind, ev_Correlation = [], ev_Usage = zeroUsage, ev_Error = zeroEventError,
     ev_Redaction = RedactionMetadata, ev_Payload = [], ev_LiveOnly = False, ev_CreatedAt = demoTime n\<rparr>"

definition demoFence2 :: RunFence where
  "demoFence2 = \<lparr>f_RunID = ''r'', f_ClaimToken = ''k2''\<rparr>"

definition demoAdmit :: AdmitTurnRequest where
  "demoAdmit = \<lparr>at_Turn = demoTurn, at_UserMessages = [], at_UserParts = [], at_AssistantPlaceholder = noMessage,
     at_Event = demoEvent ''e1'' TurnStartedEventKind 2, at_InboxIDs = [''i'']\<rparr>"

definition demoCheckpoint :: Checkpoint where
  "demoCheckpoint = \<lparr>cp_RunID = ''r'', cp_Revision = 1, cp_Kind = CheckpointKindLoop, cp_AgentFingerprint = ''a'', cp_EinoVersion = ''v'',
     cp_CodecVersion = 1, cp_CheckpointID = ''c'', cp_Bytes = [], cp_Promoted = False, cp_CreatedAt = demoTime 3\<rparr>"

definition demoPause :: PromotePauseRequest where
  "demoPause = \<lparr>pq_Revision = 1, pq_TurnID = ''t'', pq_InboxIDs = [''i''], pq_Event = demoEvent ''e2'' RunPausedEventKind 4\<rparr>"

definition demoClaim :: RunClaim where
  "demoClaim = \<lparr>c_RunID = ''r'', c_OwnerID = ''o2'', c_ClaimToken = ''k2'', c_LeaseDuration = 1000\<rparr>"

definition demoComplete :: CompleteTurnRequest where
  "demoComplete = \<lparr>ct_TurnID = ''t'', ct_ResponseMessageIDs = None, ct_Usage = zeroUsage, ct_Event = demoEvent ''e3'' TurnCompletedEventKind 6\<rparr>"

definition demoSettle :: SettleRunRequest where
  "demoSettle = \<lparr>sr_Settlement = \<lparr>rs_Status = RunCompleted, rs_FinishedAt = demoTime 7, rs_Error = []\<rparr>,
     sr_Event = \<lparr>re_ID = ''e4'', re_MessageID = [], re_Usage = zeroUsage, re_ErrorCode = [], re_Retryable = False\<rparr>\<rparr>"

definition demoCalls :: "call list" where
  "demoCalls = [CCreateSession demoSession, CAdmitRun 0 demoRun 1000, CEnqueueInbox demoItem DefaultContentLimits,
     CFenced demoFence (CAdmitTurn demoAdmit), CFenced demoFence (CStageCheckpoint \<lparr>sc_Checkpoint = demoCheckpoint, sc_MaxBytes = 0\<rparr>),
     CFenced demoFence (CPromotePause demoPause), CClaimRun 5 demoClaim,
     CFenced demoFence2 (CResumeInterruptedTurn \<lparr>rt_TurnID = ''t'', rt_ResumedAt = demoTime 5\<rparr>),
     CFenced demoFence2 (CCompleteTurn demoComplete), CFenced demoFence2 (CSettleRun demoSettle)]"

text \<open>The database after the first \<open>n\<close> calls.\<close>

definition demoDb :: "nat \<Rightarrow> db" where
  "demoDb n = fold (exec demoLibs) (take n demoCalls) emptyDb"

lemma reachable_fold: "reachable L d \<Longrightarrow> reachable L (fold (exec L) cs d)"
  by (induction cs arbitrary: d) (auto intro: reachable.step)

lemma demo_reachable: "reachable demoLibs (demoDb n)"
  unfolding demoDb_def by (rule reachable_fold) (rule reachable.start)

lemma demo_calls_plain: "list_all plainCall demoCalls"
  by code_simp

lemma demo_plain: "plainReachable demoLibs (demoDb n)"
  unfolding demoDb_def by (rule plainReachable_fold) (use demo_calls_plain in \<open>auto simp: list_all_iff dest: in_set_takeD\<close>)

text \<open>All of it evaluated once: the outcome of each call and what the database holds afterwards.\<close>

definition summary :: "db \<Rightarrow> (RunID \<times> RunStatus \<times> string \<times> int \<times> int \<times> ID) list \<times> (TurnID \<times> TurnState \<times> int) list \<times>
    (InboxID \<times> InboxState \<times> int) list \<times> (EventID \<times> string) list \<times> (int \<times> bool) list \<times> ToolCallID list" where
  "summary d = (map (\<lambda>r. (rw_ID r, rw_Status r, rw_ClaimToken r, rw_RowKey r, rw_SessionKey r, r_SessionID (rw_Record r))) (runs d),
     map (\<lambda>t. (nw_ID t, nw_State t, nw_RunKey t)) (turns d), map (\<lambda>i. (iw_ID i, iw_State i, iw_SessionKey i)) (inbox d),
     map (\<lambda>e. (vw_ID e, vw_Kind e)) (events d), map (\<lambda>c. (kw_Revision c, kw_Promoted c)) (checkpoints d), map tw_ID (tool_calls d))"

definition demoOutcome :: "((err + unit) \<times> (RunID \<times> RunStatus \<times> string \<times> int \<times> int \<times> ID) list \<times> (TurnID \<times> TurnState \<times> int) list \<times>
    (InboxID \<times> InboxState \<times> int) list \<times> (EventID \<times> string) list \<times> (int \<times> bool) list \<times> ToolCallID list) list" where
  "demoOutcome =
    [(Inr (), [], [], [], [], [], []),
     (Inr (), [(''r'', RunPending, ''k'', 1, 1, ''s'')], [], [], [], [], []),
     (Inr (), [(''r'', RunPending, ''k'', 1, 1, ''s'')], [], [(''i'', InboxQueued, 1)], [], [], []),
     (Inr (), [(''r'', RunPending, ''k'', 1, 1, ''s'')], [(''t'', TurnAdmitted, 1)], [(''i'', InboxConsumed, 1)], [(''e1'', ''turn_started'')], [], []),
     (Inr (), [(''r'', RunPending, ''k'', 1, 1, ''s'')], [(''t'', TurnAdmitted, 1)], [(''i'', InboxConsumed, 1)], [(''e1'', ''turn_started'')],
        [(1, False)], []),
     (Inr (), [(''r'', RunPaused, ''k'', 1, 1, ''s'')], [(''t'', TurnInterrupted, 1)], [(''i'', InboxInterrupted, 1)],
        [(''e1'', ''turn_started''), (''e2'', ''run_paused'')], [(1, True)], []),
     (Inr (), [(''r'', RunRunning, ''k2'', 1, 1, ''s'')], [(''t'', TurnInterrupted, 1)], [(''i'', InboxInterrupted, 1)],
        [(''e1'', ''turn_started''), (''e2'', ''run_paused'')], [(1, True)], []),
     (Inr (), [(''r'', RunRunning, ''k2'', 1, 1, ''s'')], [(''t'', TurnRunning, 1)], [(''i'', InboxConsumed, 1)],
        [(''e1'', ''turn_started''), (''e2'', ''run_paused'')], [(1, True)], []),
     (Inr (), [(''r'', RunRunning, ''k2'', 1, 1, ''s'')], [(''t'', TurnCompleted, 1)], [(''i'', InboxCompleted, 1)],
        [(''e1'', ''turn_started''), (''e2'', ''run_paused''), (''e3'', ''turn_completed'')], [(1, True)], []),
     (Inr (), [(''r'', RunCompleted, ''k2'', 1, 1, ''s'')], [(''t'', TurnCompleted, 1)], [(''i'', InboxCompleted, 1)],
        [(''e1'', ''turn_started''), (''e2'', ''run_paused''), (''e3'', ''turn_completed''), (''e4'', ''run_finished'')], [(1, True)], [])]"

lemma demo_trace: "map (\<lambda>(r, t). (r, summary t)) (trace demoLibs emptyDb demoCalls) = demoOutcome"
  by code_simp

lemma demo_Suc:
  assumes "n < 10"
  shows "demoDb (Suc n) = exec demoLibs (demoCalls ! n) (demoDb n)"
proof -
  have "n < length demoCalls" using assms by (simp add: demoCalls_def)
  then show ?thesis by (simp add: demoDb_def take_Suc_conv_app_nth)
qed

lemma demo_outcome:
  assumes "n < 10"
  shows "fst (callOp demoLibs (demoCalls ! n) (demoDb n)) = fst (demoOutcome ! n)" "summary (demoDb (Suc n)) = snd (demoOutcome ! n)"
proof -
  have l: "n < length demoCalls" using assms by (simp add: demoCalls_def)
  have t: "trace demoLibs emptyDb demoCalls ! n = callOp demoLibs (demoCalls ! n) (demoDb n)"
    unfolding demoDb_def by (rule trace_nth [OF l])
  have o: "demoOutcome ! n = (\<lambda>(r, t). (r, summary t)) (trace demoLibs emptyDb demoCalls ! n)"
    using l by (simp only: demo_trace [symmetric] nth_map trace_length)
  show "fst (callOp demoLibs (demoCalls ! n) (demoDb n)) = fst (demoOutcome ! n)"
    unfolding o t by (simp split: prod.split)
  show "summary (demoDb (Suc n)) = snd (demoOutcome ! n)"
    unfolding o t demo_Suc [OF assms] by (simp add: exec_def split: prod.split)
qed

lemma demo_ok:
  assumes "n < 10"
  shows "callOp demoLibs (demoCalls ! n) (demoDb n) = (Inr (), demoDb (Suc n))"
proof -
  have "length demoOutcome = 10" "map fst demoOutcome = replicate 10 (Inr ())"
    by (simp_all add: demoOutcome_def numeral_eq_Suc)
  then have "fst (demoOutcome ! n) = Inr ()" using assms by (metis nth_map nth_replicate)
  then show ?thesis using demo_outcome(1) [OF assms] demo_Suc [OF assms] by (simp add: exec_def prod_eq_iff)
qed

lemma plainReaches_reaches: "plainReaches L d t \<Longrightarrow> reaches L d t"
  by (induction rule: plainReaches.induct) (auto intro: reaches.intros)

lemma demo_plainReaches: "m \<le> n \<Longrightarrow> plainReaches demoLibs (demoDb m) (demoDb n)"
proof (induction rule: dec_induct)
  case (step n)
  show ?case
  proof (cases "n < 10")
    case True
    then have "plainCall (demoCalls ! n)" using demo_calls_plain by (simp add: list_all_length demoCalls_def)
    then show ?thesis using step True by (simp add: demo_Suc plainReaches.step)
  next
    case False
    then have "demoDb (Suc n) = demoDb n" by (simp add: demoDb_def demoCalls_def)
    then show ?thesis using step by simp
  qed
qed (rule plainReaches.here)

lemma demo_reaches: "m \<le> n \<Longrightarrow> reaches demoLibs (demoDb m) (demoDb n)"
  by (rule plainReaches_reaches) (rule demo_plainReaches)

text \<open>The rows of the databases after the pause, after the claim and at the end.\<close>

lemma demo_rows:
  "map rw_Status (runs (demoDb 2)) = [RunPending]" "map rw_ClaimToken (runs (demoDb 2)) = [''k'']" "map rw_ID (runs (demoDb 2)) = [''r'']"
  "map iw_State (inbox (demoDb 3)) = [InboxQueued]"
  "map rw_Status (runs (demoDb 6)) = [RunPaused]" "map rw_ID (runs (demoDb 6)) = [''r'']" "map rw_ClaimToken (runs (demoDb 6)) = [''k'']"
  "map rw_ID (runs (demoDb 7)) = [''r'']" "map rw_ClaimToken (runs (demoDb 7)) = [''k2'']"
  "map rw_Status (runs (demoDb 10)) = [RunCompleted]" "map rw_ID (runs (demoDb 10)) = [''r'']"
  "map rw_RowKey (runs (demoDb 10)) = [1]" "map nw_RunKey (turns (demoDb 10)) = [1]"
  "map nw_State (turns (demoDb 10)) = [TurnCompleted]" "map nw_ID (turns (demoDb 10)) = [''t'']"
  "map iw_State (inbox (demoDb 10)) = [InboxCompleted]" "map vw_ID (events (demoDb 10)) = [''e1'', ''e2'', ''e3'', ''e4'']"
  using demo_outcome(2) [of 1] demo_outcome(2) [of 2] demo_outcome(2) [of 5] demo_outcome(2) [of 6] demo_outcome(2) [of 9]
  by (auto simp: summary_def demoOutcome_def numeral_eq_Suc)

lemma demo_sessions:
  "map (\<lambda>r. r_SessionID (rw_Record r)) (runs (demoDb 2)) = [''s'']" "map (\<lambda>r. r_SessionID (rw_Record r)) (runs (demoDb 10)) = [''s'']"
  using demo_outcome(2) [of 1] demo_outcome(2) [of 9] by (auto simp: summary_def demoOutcome_def numeral_eq_Suc)

lemma demo_rows3:
  "map rw_SessionKey (runs (demoDb 3)) = [1]" "tool_calls (demoDb 3) = []" "map iw_SessionKey (inbox (demoDb 3)) = [1]"
  "map rw_ID (runs (demoDb 3)) = [''r'']" "map rw_ClaimToken (runs (demoDb 3)) = [''k'']" "map rw_Status (runs (demoDb 3)) = [RunPending]"
  using demo_outcome(2) [of 2] by (auto simp: summary_def demoOutcome_def numeral_eq_Suc)

lemma demo_rows9:
  "map nw_State (turns (demoDb 9)) = [TurnCompleted]" "map iw_State (inbox (demoDb 9)) = [InboxCompleted]"
  "map rw_ID (runs (demoDb 9)) = [''r'']" "map rw_ClaimToken (runs (demoDb 9)) = [''k2'']" "map rw_Status (runs (demoDb 9)) = [RunRunning]"
  using demo_outcome(2) [of 8] by (auto simp: summary_def demoOutcome_def numeral_eq_Suc)

end
