(* ===== verification/StoreProps.thy ===== *)
theory StoreProps
  imports Scenario
begin

text \<open>
  What the store promises, over every database that calls and transactions can produce: what
  is stored can be read back, sessions run one run at a time, settled records never change
  and a fence that is no longer the run's can do nothing.
\<close>

section \<open>Reading back\<close>

lemma take1_query:
  assumes "distinct (map ident rows)" and "r \<in> set rows" and "f r = Some (r, j)" and "\<And>x y. f x = Some y \<Longrightarrow> fst y = x"
  shows "take1 (filter (\<lambda>q. ident (fst q) = ident r) (List.map_filter f rows)) = Inr (r, j)"
  using assms(1-3)
proof (induction rows)
  case (Cons x xs)
  show ?case
  proof (cases "x = r")
    case True
    with Cons.prems show ?thesis by (simp add: List.map_filter_simps take1_def)
  next
    case False
    with Cons.prems have "ident x \<noteq> ident r" by auto
    with Cons False assms(4) show ?thesis
      by (cases "f x") (auto simp: List.map_filter_simps)
  qed
qed simp

lemma getRun_stored:
  assumes w: "wfDb d" and r: "r \<in> set (runs d)"
  shows "getRun (rw_ID r) d = Inr (runOf r)"
proof -
  have "runOK d r" using wf_rows(2) [OF w r] .
  then have "hasSession d (rw_SessionKey r) (r_SessionID (rw_Record r))" by (simp add: runOK_def Let_def)
  then obtain s where s: "sessionByKey d (rw_SessionKey r) = Some s" using sessionByKey_has [OF w] by blast
  have "take1 (filter (\<lambda>q. rw_ID (fst q) = rw_ID r) (runQuery d)) = Inr (r, sw_ID s)"
    unfolding runQuery_def by (rule take1_query [OF wf_distinct(4) [OF w] r]) (auto simp: s)
  moreover have "(r, sw_ID s) \<in> set (runQuery d)" using r s by (simp add: set_runQuery)
  ultimately show ?thesis using decodeRunRow_ok [OF w] by (simp add: getRun_def runOf_def)
qed

lemma GetTurn_stored:
  assumes w: "wfDb d" and t: "t \<in> set (turns d)"
  shows "GetTurn (nw_ID t) d = Inr (nw_Record t)"
proof -
  obtain i j where q: "(t, i, j) \<in> set (turnQuery d)" using turnQuery_total [OF w t] by blast
  then obtain r s where rs: "runByKey d (nw_RunKey t) = Some r" "sessionByKey d (nw_SessionKey t) = Some s" "i = rw_ID r" "j = sw_ID s"
    by (auto simp: set_turnQuery)
  have "take1 (filter (\<lambda>q. nw_ID (fst q) = nw_ID t) (turnQuery d)) = Inr (t, i, j)"
    unfolding turnQuery_def
    by (rule take1_query [OF wf_distinct(12) [OF w] t]) (auto simp: rs split: option.split_asm)
  then show ?thesis using decodeTurnRow_ok(1) [OF w q] by (simp add: GetTurn_def turnRowByID_def)
qed

lemma GetMessage_stored:
  assumes w: "wfDb d" and m: "m \<in> set (messages d)"
  shows "GetMessage (mw_ID m) d = Inr (mw_Record m)"
proof -
  have ok: "messageOK d m" using wf_rows(3) [OF w m] .
  then have h: "hasSession d (mw_SessionKey m) (m_SessionID (mw_Record m))" "hasRun d (mw_RunKey m) (m_RunID (mw_Record m)) (mw_SessionKey m)"
    by (simp_all add: messageOK_def Let_def)
  obtain r s where rs: "sessionByKey d (mw_SessionKey m) = Some s" "sw_ID s = m_SessionID (mw_Record m)"
    "runByKey d (mw_RunKey m) = Some r" "rw_ID r = m_RunID (mw_Record m)"
    using sessionByKey_has [OF w h(1)] runByKey_has [OF w h(2)] by blast
  have "take1 (filter (\<lambda>q. mw_ID (fst q) = mw_ID m) (replayMessageQuery d)) = Inr (m, sw_ID s, rw_ID r)"
    unfolding replayMessageQuery_def
    by (rule take1_query [OF wf_distinct(6) [OF w] m]) (auto simp: rs split: option.split_asm)
  with ok rs show ?thesis
    by (simp add: GetMessage_def DecodeAuthoritativeMessage_def messageOK_def messageRowMatches_def Let_def)
qed

text \<open>
  C8. Whatever plain calls and transactions (those whose texts are valid UTF-8 and whose times JSON can write) produced the
  database, every stored run, turn, message and tool call is found by its id and decodes to its stored record: the integrity checks of
  the read paths (columns against the record, joins against the ids) never refuse a stored row.
\<close>

theorem stored_rows_read_back:
  assumes "plainReachable L d"
  shows "(\<forall>r \<in> set (runs d). getRun (rw_ID r) d = Inr (runOf r)) \<and>
    (\<forall>t \<in> set (turns d). GetTurn (nw_ID t) d = Inr (nw_Record t)) \<and>
    (\<forall>m \<in> set (messages d). GetMessage (mw_ID m) d = Inr (mw_Record m)) \<and>
    (\<forall>c \<in> set (tool_calls d). GetToolCall (tw_ID c) d = Inr (tw_Record c))"
  using inv_wf [OF reachable_inv [OF plainReachable_reachable [OF assms]]] getRun_stored GetTurn_stored GetMessage_stored GetToolCall_ok by blast

theorem stored_rows_read_back_witness:
  "GetTurn (nw_ID (hd (turns (demoDb 10)))) (demoDb 10) = Inr (nw_Record (hd (turns (demoDb 10))))"
  using stored_rows_read_back [OF demo_plain, of 10] demo_rows(14) by (cases "turns (demoDb 10)") auto

text \<open>
  C36. What belongs together stays in one session and run, whatever calls and transactions produced the database: a message, a turn and a
  model request belong to a run of their session; a part to a message of its session and run; a tool call to a part of its request message, in the
  same session and run; an admission receipt to a run of its session, to a user message and to an assistant message of that run.
\<close>

theorem owners_agree:
  assumes "reachable L d"
  shows "(\<forall>m \<in> set (messages d). \<exists>r \<in> set (runs d). rw_RowKey r = mw_RunKey m \<and> rw_SessionKey r = mw_SessionKey m) \<and>
    (\<forall>t \<in> set (turns d). \<exists>r \<in> set (runs d). rw_RowKey r = nw_RunKey t \<and> rw_SessionKey r = nw_SessionKey t) \<and>
    (\<forall>q \<in> set (model_requests d). \<exists>r \<in> set (runs d). rw_RowKey r = qw_RunKey q \<and> rw_SessionKey r = qw_SessionKey q) \<and>
    (\<forall>p \<in> set (parts d). \<exists>m \<in> set (messages d). mw_RowKey m = pw_MessageKey p \<and> mw_SessionKey m = pw_SessionKey p \<and> mw_RunKey m = pw_RunKey p) \<and>
    (\<forall>c \<in> set (tool_calls d). \<exists>p \<in> set (parts d). pw_RowKey p = tw_RequestPartKey c \<and> pw_MessageKey p = tw_RequestMessageKey c \<and>
       pw_SessionKey p = tw_SessionKey c \<and> pw_RunKey p = tw_RunKey c) \<and>
    (\<forall>a \<in> set (admission_receipts d). (\<exists>r \<in> set (runs d). rw_RowKey r = aw_RunKey a \<and> rw_SessionKey r = aw_SessionKey a) \<and>
       (\<exists>m \<in> set (messages d). mw_RowKey m = aw_UserMessageKey a \<and> mw_RunKey m = aw_RunKey a \<and> mw_Role m = RoleUser) \<and>
       (\<exists>m \<in> set (messages d). mw_RowKey m = aw_AssistantMessageKey a \<and> mw_RunKey m = aw_RunKey a \<and> mw_Role m = RoleAssistant))"
proof -
  have w: "wfDb d" using reachable_inv [OF assms] by (rule inv_wf)
  show ?thesis
  proof (intro conjI)
    show "\<forall>m \<in> set (messages d). \<exists>r \<in> set (runs d). rw_RowKey r = mw_RunKey m \<and> rw_SessionKey r = mw_SessionKey m"
      using wfD(3) [OF w] by (fastforce simp: tableWf_def messageOK_def hasRun_def Let_def)
    show "\<forall>t \<in> set (turns d). \<exists>r \<in> set (runs d). rw_RowKey r = nw_RunKey t \<and> rw_SessionKey r = nw_SessionKey t"
      using wfD(8) [OF w] by (fastforce simp: tableWf_def turnOK_def hasRun_def Let_def)
    show "\<forall>q \<in> set (model_requests d). \<exists>r \<in> set (runs d). rw_RowKey r = qw_RunKey q \<and> rw_SessionKey r = qw_SessionKey q"
      using wfD(7) [OF w] by (fastforce simp: tableWf_def requestOK_def hasRun_def Let_def)
    show "\<forall>p \<in> set (parts d). \<exists>m \<in> set (messages d). mw_RowKey m = pw_MessageKey p \<and> mw_SessionKey m = pw_SessionKey p \<and> mw_RunKey m = pw_RunKey p"
      using wfD(4) [OF w] by (fastforce simp: tableWf_def partOK_def hasMessage_def Let_def)
    show "\<forall>c \<in> set (tool_calls d). \<exists>p \<in> set (parts d). pw_RowKey p = tw_RequestPartKey c \<and> pw_MessageKey p = tw_RequestMessageKey c \<and>
       pw_SessionKey p = tw_SessionKey c \<and> pw_RunKey p = tw_RunKey c"
      using wfD(5) [OF w] by (fastforce simp: tableWf_def toolOK_def hasPart_def Let_def)
    show "\<forall>a \<in> set (admission_receipts d). (\<exists>r \<in> set (runs d). rw_RowKey r = aw_RunKey a \<and> rw_SessionKey r = aw_SessionKey a) \<and>
       (\<exists>m \<in> set (messages d). mw_RowKey m = aw_UserMessageKey a \<and> mw_RunKey m = aw_RunKey a \<and> mw_Role m = RoleUser) \<and>
       (\<exists>m \<in> set (messages d). mw_RowKey m = aw_AssistantMessageKey a \<and> mw_RunKey m = aw_RunKey a \<and> mw_Role m = RoleAssistant)"
      using wfD(12) [OF w] unfolding tableWf_def admissionOK_def hasRun_def hasMessage_def by blast
  qed
qed

theorem owners_agree_witness:
  "\<exists>r \<in> set (runs (demoDb 10)). rw_RowKey r = nw_RunKey (hd (turns (demoDb 10))) \<and> rw_SessionKey r = nw_SessionKey (hd (turns (demoDb 10)))"
  using owners_agree [OF demo_reachable, of 10] demo_rows(14) by (cases "turns (demoDb 10)") auto

section \<open>One run at a time\<close>

lemma sessionKeyOf_iff: "wfDb d \<Longrightarrow> sessionKeyOf i d = Inr k \<longleftrightarrow> hasSession d k i"
proof
  assume w: "wfDb d" and "hasSession d k i"
  then obtain s where s: "s \<in> set (sessions d)" "sw_RowKey s = k" "sw_ID s = i" by (auto simp: hasSession_def)
  then show "sessionKeyOf i d = Inr k"
    using find_unique [OF wf_distinct(2) [OF w] s(1)] by (simp add: sessionKeyOf_def keyIn_def)
qed (rule sessionKeyOf_has)

lemma runKeyOf_stored: "wfDb d \<Longrightarrow> r \<in> set (runs d) \<Longrightarrow> runKeyOf (rw_ID r) d = Inr (rw_RowKey r)"
  using find_unique [OF wf_distinct(4), of d r] by (simp add: runKeyOf_def keyIn_def)

lemma active_unique:
  assumes "wfDb d" and "r \<in> set (runs d)" "s \<in> set (runs d)" and "activeStatus (rw_Status r)" "activeStatus (rw_Status s)"
    and "rw_SessionKey r = rw_SessionKey s"
  shows "r = s"
proof -
  have "distinct (map rw_SessionKey (filter (\<lambda>r. activeStatus (rw_Status r)) (runs d)))"
    using wfD(2) [OF assms(1)] by (simp add: tableWf_def runsUnique_def)
  then show ?thesis by (rule distinct_map_eq) (use assms in auto)
qed

lemma activeRun_stored:
  assumes w: "wfDb d"
  shows "activeRun i d = Inr v \<longleftrightarrow>
    (\<exists>r \<in> set (runs d). activeStatus (rw_Status r) \<and> r_SessionID (rw_Record r) = i \<and> v = runOf r)"
proof -
  let ?q = "\<lambda>k. sort_key (\<lambda>q. (rw_CreatedAt (fst q), rw_ID (fst q)))
    (filter (\<lambda>q. rw_SessionKey (fst q) = k \<and> activeStatus (rw_Status (fst q))) (runQuery d))"
  have mem: "q \<in> set (?q k) \<longleftrightarrow> q \<in> set (runQuery d) \<and> rw_SessionKey (fst q) = k \<and> activeStatus (rw_Status (fst q))" for q k by simp
  have dec: "decodeRunRow q = Inr (runOf (fst q))" "fst q \<in> set (runs d)" "hasSession d (rw_SessionKey (fst q)) (r_SessionID (rw_Record (fst q)))"
    if "q \<in> set (runQuery d)" for q
  proof -
    show "fst q \<in> set (runs d)" using that set_runQuery [of "fst q" "snd q" d] by simp
    then show "hasSession d (rw_SessionKey (fst q)) (r_SessionID (rw_Record (fst q)))"
      using wf_rows(2) [OF w] by (auto simp: runOK_def Let_def)
    show "decodeRunRow q = Inr (runOf (fst q))" using decodeRunRow_ok [OF w, of "fst q" "snd q"] that by (simp add: runOf_def)
  qed
  show ?thesis
  proof
    assume "activeRun i d = Inr v"
    then obtain k q where k: "sessionKeyOf i d = Inr k" "take1 (?q k) = Inr q" "decodeRunRow q = Inr v"
      by (auto simp: activeRun_def)
    then have q: "q \<in> set (runQuery d)" "rw_SessionKey (fst q) = k" "activeStatus (rw_Status (fst q))"
      using take1_Inr [OF k(2)] by simp_all
    have "r_SessionID (rw_Record (fst q)) = i"
      using hasSession_unique(1) [OF w] dec(3) [OF q(1)] sessionKeyOf_has [OF k(1)] q(2) by blast
    with q k(3) dec [OF q(1)] show "\<exists>r \<in> set (runs d). activeStatus (rw_Status r) \<and> r_SessionID (rw_Record r) = i \<and> v = runOf r"
      by (auto intro: bexI [of _ "fst q"])
  next
    assume "\<exists>r \<in> set (runs d). activeStatus (rw_Status r) \<and> r_SessionID (rw_Record r) = i \<and> v = runOf r"
    then obtain r where r: "r \<in> set (runs d)" "activeStatus (rw_Status r)" "r_SessionID (rw_Record r) = i" "v = runOf r" by blast
    have h: "hasSession d (rw_SessionKey r) i" using wf_rows(2) [OF w r(1)] r(3) by (simp add: runOK_def Let_def)
    obtain s where "sessionByKey d (rw_SessionKey r) = Some s" using sessionByKey_has [OF w h] by blast
    with r have "(r, sw_ID s) \<in> set (?q (rw_SessionKey r))" by (simp add: set_runQuery)
    moreover have "fst q = r" if "q \<in> set (?q (rw_SessionKey r))" for q
      using that active_unique [OF w _ r(1) _ r(2)] dec(2) by auto
    ultimately have ne: "?q (rw_SessionKey r) \<noteq> []" and eq: "\<And>q. q \<in> set (?q (rw_SessionKey r)) \<Longrightarrow> fst q = r" by (metis empty_iff empty_set, blast)
    obtain q qs where c: "?q (rw_SessionKey r) = q # qs" using ne by (meson neq_Nil_conv)
    then have "q \<in> set (?q (rw_SessionKey r))" by (simp only: list.set_intros)
    then have q: "?q (rw_SessionKey r) = q # qs" "fst q = r" "q \<in> set (runQuery d)" using c eq mem by blast+
    have "take1 (?q (rw_SessionKey r)) = Inr q" by (simp only: q(1) take1_def list.case)
    moreover have "sessionKeyOf i d = Inr (rw_SessionKey r)" using h sessionKeyOf_iff [OF w] by blast
    ultimately show "activeRun i d = Inr v" using dec(1) [OF q(3)] r(4) q(2) by (simp add: activeRun_def del: bindS_Inr)
  qed
qed

text \<open>
  C6. \<open>ActiveRun\<close> finds exactly the run of the session that is pending, running or paused:
  it returns a run if and only if the session has one, and since the result is a function of the
  session there is never more than one.
\<close>

theorem activeRun_iff:
  assumes "reachable L d"
  shows "activeRun i d = Inr v \<longleftrightarrow>
    (\<exists>r \<in> set (runs d). activeStatus (rw_Status r) \<and> r_SessionID (rw_Record r) = i \<and> v = runOf r)"
  by (rule activeRun_stored [OF inv_wf [OF reachable_inv [OF assms]]])

theorem activeRun_iff_witness:
  "activeRun (r_SessionID (rw_Record (hd (runs (demoDb 6))))) (demoDb 6) = Inr (runOf (hd (runs (demoDb 6))))"
  using activeRun_iff [OF demo_reachable, of "r_SessionID (rw_Record (hd (runs (demoDb 6))))" 6 "runOf (hd (runs (demoDb 6)))"] demo_rows(5)
  by (cases "runs (demoDb 6)") (auto simp: activeStatus_def)

section \<open>Turns\<close>

lemma turnQuery_fst: "wfDb d \<Longrightarrow> map fst (turnQuery d) = turns d"
proof -
  assume w: "wfDb d"
  let ?f = "\<lambda>t. case (runByKey d (nw_RunKey t), sessionByKey d (nw_SessionKey t)) of
    (Some r, Some s) \<Rightarrow> Some (t, rw_ID r, sw_ID s) | _ \<Rightarrow> None"
  have "map fst (turnQuery d) = filter (\<lambda>t. ?f t \<noteq> None) (turns d)"
    unfolding turnQuery_def by (rule map_filter_fst) (auto split: option.split_asm)
  also have "\<dots> = turns d"
  proof (rule filter_True, rule ballI)
    fix t assume "t \<in> set (turns d)"
    then obtain i j where "(t, i, j) \<in> set (turnQuery d)" using turnQuery_total [OF w] by blast
    then show "?f t \<noteq> None" by (auto simp: set_turnQuery)
  qed
  finally show ?thesis .
qed

lemma mapS_Inr: "(\<And>x. x \<in> set xs \<Longrightarrow> f x = Inr (g x)) \<Longrightarrow> mapS f xs = Inr (map g xs)"
  by (induction xs) auto

lemma filter_map_fst: "map fst (filter (\<lambda>q. P (fst q)) xs) = filter P (map fst xs)"
  by (induction xs) auto

text \<open>
  C7. The turns of a run are numbered without gaps: listing them returns every turn of the run
  in the order of admission, with ordinals 1, 2, 3, and so on, in every database that plain calls and transactions produce.
\<close>

theorem ListTurns_numbered:
  assumes "plainReachable L d" and "r \<in> set (runs d)"
  shows "\<exists>ts. ListTurns (rw_ID r) d = Inr ts \<and> map t_Ordinal ts = map int [1..<Suc (length ts)] \<and>
    ts = map nw_Record (filter (\<lambda>t. nw_RunKey t = rw_RowKey r) (turns d))"
proof -
  have w: "wfDb d" using reachable_inv [OF plainReachable_reachable [OF assms(1)]] by (rule inv_wf)
  let ?q = "filter (\<lambda>q. nw_RunKey (fst q) = rw_RowKey r) (turnQuery d)"
  let ?t = "filter (\<lambda>t. nw_RunKey t = rw_RowKey r) (turns d)"
  have ft: "map fst ?q = ?t" 
    using filter_map_fst [of "\<lambda>t. nw_RunKey t = rw_RowKey r" "turnQuery d"] by (simp add: turnQuery_fst [OF w])
  have o: "map nw_Ordinal ?t = map int [1..<Suc (length ?t)]" using wfD(13) [OF w] by (simp add: ordinalsOK_def)
  have "map (\<lambda>q. nw_Ordinal (fst q)) ?q = map nw_Ordinal (map fst ?q)" by simp
  also have "\<dots> = map int [1..<Suc (length ?t)]" by (simp only: ft o)
  finally have "sorted (map (\<lambda>q. nw_Ordinal (fst q)) ?q)" by (simp add: sorted_map sorted_wrt_upt del: upt_Suc)
  then have s: "sort_key (\<lambda>q. nw_Ordinal (fst q)) ?q = ?q" by (rule sort_key_id_if_sorted)
  have "mapS decodeTurnRow ?q = Inr (map (\<lambda>q. nw_Record (fst q)) ?q)"
    by (rule mapS_Inr) (use decodeTurnRow_ok(1) [OF w] in auto)
  also have "map (\<lambda>q. nw_Record (fst q)) ?q = map nw_Record (map fst ?q)" by simp
  finally have "ListTurns (rw_ID r) d = Inr (map nw_Record ?t)"
    by (simp only: ListTurns_def runKeyOf_stored [OF w assms(2)] bindS_simps s ft)
  moreover have "map t_Ordinal (map nw_Record ?t) = map nw_Ordinal ?t"
    using wf_rows(8) [OF w] by (auto simp: turnOK_def Let_def)
  ultimately show ?thesis using o by (metis length_map)
qed

theorem ListTurns_numbered_witness:
  "\<exists>ts. ListTurns (rw_ID (hd (runs (demoDb 10)))) (demoDb 10) = Inr ts \<and> map t_Ordinal ts = [1]"
proof -
  have "hd (runs (demoDb 10)) \<in> set (runs (demoDb 10))" using demo_rows(10) by (cases "runs (demoDb 10)") auto
  moreover have "rw_RowKey (hd (runs (demoDb 10))) = 1" using demo_rows(12) by (cases "runs (demoDb 10)") auto
  moreover have "filter (\<lambda>t. nw_RunKey t = 1) (turns (demoDb 10)) = turns (demoDb 10)" "length (turns (demoDb 10)) = 1"
    using demo_rows(13) by (cases "turns (demoDb 10)"; auto)+
  ultimately show ?thesis using ListTurns_numbered [OF demo_plain, of "hd (runs (demoDb 10))" 10] by auto
qed

text \<open>
  C5. A run that has finished has nothing left to do: none of its turns is admitted, running or
  interrupted, and none of its tool calls is pending or running.
\<close>

theorem finished_run_is_quiet:
  assumes "reachable L d" and "r \<in> set (runs d)" and "\<not> activeStatus (rw_Status r)"
  shows "(\<forall>t \<in> set (turns d). nw_RunKey t = rw_RowKey r \<longrightarrow> nw_State t = TurnCompleted \<or> nw_State t = TurnFailed) \<and>
    (\<forall>c \<in> set (tool_calls d). tw_RunKey c = rw_RowKey r \<longrightarrow> \<not> unfinishedTool (tw_Status c))"
  using reachable_inv [OF assms(1)] assms(2,3) by (auto simp: inv_def quiet_def terminalRow_def finalTurn_def)

theorem finished_run_is_quiet_witness:
  "nw_State (hd (turns (demoDb 10))) = TurnCompleted \<or> nw_State (hd (turns (demoDb 10))) = TurnFailed"
  using finished_run_is_quiet [OF demo_reachable, of "hd (runs (demoDb 10))" 10] demo_rows(10,12,13)
  by (cases "runs (demoDb 10)"; cases "turns (demoDb 10)") (auto simp: activeStatus_def)

section \<open>History\<close>

lemma grows_settled:
  assumes "grows R xs ys" and "r \<in> set xs" and "\<And>s. R r s \<Longrightarrow> s = r"
  shows "r \<in> set ys"
proof -
  obtain i where "i < length xs" "xs ! i = r" using assms(2) by (auto simp: in_set_conv_nth)
  with assms show ?thesis by (metis grows_def less_le_trans nth_mem)
qed

text \<open>
  C9. Settled records never change: whatever calls and transactions follow, a finished run,
  a completed or failed turn, a settled tool call and a completed inbox item stay in the database
  exactly as they are.
\<close>

theorem settled_records_stay:
  assumes "reachable L d" and "reaches L d t"
  shows "(\<forall>r \<in> set (runs d). \<not> activeStatus (rw_Status r) \<longrightarrow> r \<in> set (runs t)) \<and>
    (\<forall>n \<in> set (turns d). nw_State n = TurnCompleted \<or> nw_State n = TurnFailed \<longrightarrow> n \<in> set (turns t)) \<and>
    (\<forall>c \<in> set (tool_calls d). \<not> unfinishedTool (tw_Status c) \<longrightarrow> c \<in> set (tool_calls t)) \<and>
    (\<forall>i \<in> set (inbox d). iw_State i = InboxCompleted \<longrightarrow> i \<in> set (inbox t))"
proof -
  have g: "grows runStep (runs d) (runs t)" "grows turnStep (turns d) (turns t)" "grows toolStep (tool_calls d) (tool_calls t)"
    "grows inboxStep (inbox d) (inbox t)"
    using reaches_evolves [OF assms(2,1)] by (simp_all add: evolves_def)
  show ?thesis
  proof (intro conjI ballI impI)
    show "r \<in> set (runs t)" if "r \<in> set (runs d)" "\<not> activeStatus (rw_Status r)" for r
      by (rule grows_settled [OF g(1) that(1)]) (use that(2) in \<open>simp add: runStep_def terminalRow_def\<close>)
    show "n \<in> set (turns t)" if "n \<in> set (turns d)" "nw_State n = TurnCompleted \<or> nw_State n = TurnFailed" for n
      by (rule grows_settled [OF g(2) that(1)]) (use that(2) in \<open>simp add: turnStep_def finalTurn_def\<close>)
    show "c \<in> set (tool_calls t)" if "c \<in> set (tool_calls d)" "\<not> unfinishedTool (tw_Status c)" for c
      by (rule grows_settled [OF g(3) that(1)]) (use that(2) in \<open>simp add: toolStep_def\<close>)
    show "i \<in> set (inbox t)" if "i \<in> set (inbox d)" "iw_State i = InboxCompleted" for i
      by (rule grows_settled [OF g(4) that(1)]) (use that(2) in \<open>simp add: inboxStep_def\<close>)
  qed
qed

theorem settled_records_stay_witness:
  "hd (turns (demoDb 9)) \<in> set (turns (demoDb 10)) \<and> hd (inbox (demoDb 9)) \<in> set (inbox (demoDb 10))"
proof -
  have "hd (turns (demoDb 9)) \<in> set (turns (demoDb 9))" "nw_State (hd (turns (demoDb 9))) = TurnCompleted"
    using demo_rows9(1) by (cases "turns (demoDb 9)"; simp)+
  moreover have "hd (inbox (demoDb 9)) \<in> set (inbox (demoDb 9))" "iw_State (hd (inbox (demoDb 9))) = InboxCompleted"
    using demo_rows9(2) by (cases "inbox (demoDb 9)"; simp)+
  ultimately show ?thesis using settled_records_stay [OF demo_reachable demo_reaches, of 9 10] by simp
qed

lemma grows_eq: "grows (=) xs ys \<longleftrightarrow> (\<exists>zs. ys = xs @ zs)"
proof
  assume g: "grows (=) xs ys"
  then have "take (length xs) ys = xs" by (intro nth_equalityI) (auto simp: grows_def)
  then show "\<exists>zs. ys = xs @ zs" by (metis append_take_drop_id)
qed (auto simp: grows_def nth_append)

text \<open>
  C10. The event log and the admission receipts are append-only: everything written stays,
  in its place, and new entries only come after.
\<close>

theorem logs_append_only:
  assumes "reachable L d" and "reaches L d t"
  shows "\<exists>es as. events t = events d @ es \<and> admission_receipts t = admission_receipts d @ as"
  using reaches_evolves [OF assms(2,1)] by (simp add: evolves_def grows_eq)

theorem logs_append_only_witness: "\<exists>es. events (demoDb 10) = events (demoDb 6) @ es"
  using logs_append_only [OF demo_reachable demo_reaches, of 6 10] by auto

text \<open>
  C11. Queued input is delivered at most once: an inbox item keeps its id, its key and its
  content forever, is never queued again once it was taken, and is never handed to a second turn.
\<close>

theorem input_never_requeued:
  assumes "reachable L d" and "reaches L d t" and "i \<in> set (inbox d)"
  shows "\<exists>j \<in> set (inbox t). iw_ID j = iw_ID i \<and> iw_IdempotencyKey j = iw_IdempotencyKey i \<and>
    ib_Blocks (iw_Record j) = ib_Blocks (iw_Record i) \<and> (iw_State i \<noteq> InboxQueued \<longrightarrow> iw_State j \<noteq> InboxQueued) \<and>
    (iw_TurnKey i \<noteq> None \<longrightarrow> iw_TurnKey j = iw_TurnKey i)"
proof -
  have "grows inboxStep (inbox d) (inbox t)" using reaches_evolves [OF assms(2,1)] by (simp add: evolves_def)
  from inboxOrder.grows_mem [OF this assms(3)] obtain j where "j \<in> set (inbox t)" "inboxStep i j" ..
  then show ?thesis by (intro bexI [of _ j]) (auto simp: inboxStep_def)
qed

theorem input_never_requeued_witness:
  "\<exists>j \<in> set (inbox (demoDb 10)). iw_ID j = iw_ID (hd (inbox (demoDb 3)))"
proof -
  have "hd (inbox (demoDb 3)) \<in> set (inbox (demoDb 3))" using demo_rows(4) by (cases "inbox (demoDb 3)") auto
  from input_never_requeued [OF demo_reachable demo_reaches this, of 10] show ?thesis by auto
qed

text \<open>
  C12. A model request only moves forward: prepared, dispatched, then completed or failed. Everything but its state, its error code and the
  time of its update stays what it was, the messages, tools and controls sent to the provider included, and a request whose state does not
  change does not change at all; in particular one that was completed or failed keeps its record.
\<close>

theorem model_requests_move_forward:
  assumes "reachable L d" and "reaches L d t" and "q \<in> set (model_requests d)"
  shows "\<exists>p \<in> set (model_requests t). qw_ID p = qw_ID q \<and> qw_RunKey p = qw_RunKey q \<and>
    requestCore (qw_Record p) = requestCore (qw_Record q) \<and>
    requestRank (qw_State q) \<le> requestRank (qw_State p) \<and> (requestRank (qw_State q) = requestRank (qw_State p) \<longrightarrow> p = q)"
proof -
  have "grows requestStep (model_requests d) (model_requests t)" using reaches_evolves [OF assms(2,1)] by (simp add: evolves_def)
  from requestRowOrder.grows_mem [OF this assms(3)] obtain p where p: "p \<in> set (model_requests t)" "requestStep q p" ..
  have "p\<lparr>qw_State := qw_State q, qw_Record := qw_Record q\<rparr> = q" using p(2) by (simp add: requestStep_def)
  then have "qw_ID p = qw_ID q" "qw_RunKey p = qw_RunKey q" by (cases p; cases q; simp)+
  with p show ?thesis by (intro bexI [of _ p]) (auto simp: requestStep_def)
qed

definition demoRequest :: ModelRequestRecord where
  "demoRequest = \<lparr>mr_ID = ''q'', mr_SessionID = ''s'', mr_RunID = ''r'', mr_AssistantMessageID = [], mr_InvocationID = ''n'',
     mr_TurnID = [], mr_AgentPath = [], mr_Attempt = 1, mr_Step = 1, mr_ProviderID = [], mr_ModelID = [], mr_State = ModelRequestPrepared,
     mr_Messages = [], mr_System = [], mr_Tools = [], mr_Controls = [], mr_SafeCallConfig = [], mr_ContentSHA256 = [],
     mr_ExtensionPlanHash = [], mr_ErrorCode = [], mr_CreatedAt = zeroTime, mr_UpdatedAt = zeroTime\<rparr>"

abbreviation demoRequested :: db where
  "demoRequested \<equiv> exec demoLibs (CFenced demoFence (CCreateModelRequest demoRequest)) (demoDb 2)"

abbreviation demoDispatched :: db where
  "demoDispatched \<equiv> exec demoLibs (CFenced demoFence (CUpdateModelRequest (demoRequest\<lparr>mr_State := ModelRequestDispatchStarted\<rparr>))) demoRequested"


text \<open>What these calls do, evaluated.\<close>

lemma snd_unitE: "snd (unitE m d) = snd (m d)"
  by (simp add: unitE_def run split: prod.split sum.split)

lemma demo_requested: "map qw_State (model_requests demoRequested) = [ModelRequestPrepared]"
proof -
  have "demoDb 2 = snd (AdmitRun 0 demoRun 1000 (snd (CreateSession demoSession emptyDb)))"
    by (simp add: demoDb_def demoCalls_def numeral_2_eq_2 exec_def snd_unitE)
  moreover have "map qw_State (model_requests (snd (CreateModelRequest demoFence demoRequest (snd (AdmitRun 0 demoRun 1000 (snd (CreateSession demoSession emptyDb))))))) =
    [ModelRequestPrepared]" by code_simp
  ultimately show ?thesis by (simp add: exec_def snd_unitE)
qed


theorem model_requests_move_forward_witness:
  "\<exists>p \<in> set (model_requests demoDispatched). qw_ID p = qw_ID (hd (model_requests demoRequested)) \<and>
     requestCore (qw_Record p) = requestCore (qw_Record (hd (model_requests demoRequested)))"
proof -
  have r: "reachable demoLibs demoRequested" by (intro reachable.step demo_reachable)
  have q: "hd (model_requests demoRequested) \<in> set (model_requests demoRequested)"
    using demo_requested by (cases "model_requests demoRequested") auto
  show ?thesis using model_requests_move_forward [OF r reaches.call [OF reaches.here] q] by blast
qed



section \<open>The lifecycle of a run\<close>

text \<open>
  C1. The store refines the abstract lifecycle of a run. Whatever call is made, run \<open>i\<close> either keeps its phase or makes the one step that call
  allows: an absent run appears only by its own admission, in the phase of the status it is admitted with; from then on a live run is paused only by
  a pause or repause and closed only by a settlement, under a fence that names this very run, and a paused run goes on only when it is
  claimed by its id. So no call on another run moves it, a closed run stays closed and a paused run cannot be settled.
\<close>

theorem exec_refines_lifecycle:
  assumes "reachable L d"
  shows "lifeStep c i (phaseOf i d) (phaseOf i (exec L c d))"
proof (rule exec_cases [of L c d])
  assume "exec L c d = d"
  then show ?thesis by (simp add: lifeStep.stay)
next
  fix x assume x: "callOp L c d = (Inr x, exec L c d)"
  show ?thesis
  proof (cases "\<exists>now v n. c = CAdmitRun now v n")
    case True
    then obtain now v n where c: "c = CAdmitRun now v n" by blast
    have "wpE (callOp L c) (\<lambda>_ t. \<exists>r. runs t = runs d @ [r] \<and> rw_ID r = r_ID v \<and> rw_Status r = r_Status v) d"
      using AdmitRun_runs by (simp add: c wp_unitE)
    from wpE_D [OF this x] obtain r where "runs (exec L c d) = runs d @ [r]" "rw_ID r = r_ID v" "rw_Status r = r_Status v" by blast
    then have "phaseOf i (exec L c d) = phaseOf i d \<or> i = r_ID v \<and> phaseOf i d = Absent \<and> phaseOf i (exec L c d) = statusPhase (r_Status v)"
      by (auto simp: phaseOf_def find_append split: option.split)
    then show ?thesis using lifeStep.admit [of now v n] lifeStep.stay by (metis c)
  next
    case False
    have k: "distinctKeys (runKeys d)"
      using wfD(2) [OF inv_wf [OF reachable_inv [OF assms]]] by (simp add: distinctKeys_def runKeys_def tableWf_def comp_def)
    have "wpE (callOp L c) (\<lambda>_. moves distinctKeys (fst (runMove c)) (snd (runMove c)) d) d"
      using False moves_callOp [of c L] by (simp add: effectOf_def)
    from moves_phase [OF wpE_D [OF this x] k, of i] runMove_lifeStep [of c] False show ?thesis by (metis lifeStep.stay)
  qed
qed

theorem exec_refines_lifecycle_witness:
  "lifeStep (CFenced demoFence (CPromotePause demoPause)) ''r'' (phaseOf ''r'' (demoDb 5))
     (phaseOf ''r'' (exec demoLibs (CFenced demoFence (CPromotePause demoPause)) (demoDb 5)))"
  by (rule exec_refines_lifecycle [OF demo_reachable])

end
