(* ===== verification/FenceProps.thy ===== *)
theory FenceProps
  imports StoreProps
begin

text \<open>
  What the run fence and the run lifecycle promise: a token that is not the run's can write
  nothing, a paused or finished run accepts no write, a claim takes over only a paused or expired
  run and shuts out every earlier holder, and how a run is settled.
\<close>

section \<open>Refusals\<close>

lemma refused:
  assumes "wpE (fencedOp L f c) (\<lambda>_ _. False) d"
  shows "\<exists>e. fencedOp L f c d = (Inl e, d)"
proof (cases "fencedOp L f c d")
  case (Pair r t)
  then obtain e where "r = Inl e" using assms by (auto simp: wpE_def split: sum.split_asm)
  with Pair fencedOp_failSafe [of L f c] show ?thesis by (auto simp: failSafe_def)
qed

lemma refused_withFence: "inv K d \<Longrightarrow> \<not> (\<exists>r. fenced f d r) \<Longrightarrow> wpE (withFence f fn) Q d"
  by (rule withFence_keeps) auto

lemma refused_unless_settle:
  assumes "inv K d" and "\<not> (\<exists>r. fenced f d r)" and "\<And>q. c \<noteq> CSettleRun q"
  shows "wpE (fencedOp L f c) Q d"
  using assms(3)
  by (cases c) (auto simp: wp fencedCall_defs Let_def intro!: refused_withFence [OF assms(1,2)])

lemma refused_settle:
  assumes "inv K d" and "\<And>r. r \<in> set (runs d) \<Longrightarrow> rw_ID r = f_RunID f \<Longrightarrow> rw_ClaimToken r = f_ClaimToken f \<Longrightarrow> False"
  shows "wpE (SettleRun f q) Q d"
proof -
  have "False" if "loadRunFence f True d = Inr run" for run
    using loadRunFence_Inr [OF inv_wf [OF assms(1)] that] assms(2) by metis
  then show ?thesis by (auto simp: SettleRun_def withFenceState_def wp)
qed

lemma refused_stale:
  assumes i: "inv K d" and no: "\<And>r. r \<in> set (runs d) \<Longrightarrow> rw_ID r = f_RunID f \<Longrightarrow> rw_ClaimToken r = f_ClaimToken f \<Longrightarrow> False"
  shows "\<exists>e. fencedOp L f c d = (Inl e, d)"
proof (rule refused, cases "\<exists>q. c = CSettleRun q")
  case True
  have "wpE (SettleRun f q) (\<lambda>_ _. False) d" for q by (rule refused_settle [OF i]) (use no in blast)
  with True show "wpE (fencedOp L f c) (\<lambda>_ _. False) d" by (auto simp: wp)
next
  case False
  show "wpE (fencedOp L f c) (\<lambda>_ _. False) d"
    by (rule refused_unless_settle [OF i]) (use False no in \<open>auto simp: fenced_def\<close>)
qed

text \<open>
  C2. A stale fence can do nothing: when no run carries the fence's id and token, every fenced
  operation, settlement included, is refused and the database stays as it was.
\<close>

theorem stale_fence_refused:
  assumes "reachable L d" and "\<forall>r \<in> set (runs d). \<not> (rw_ID r = f_RunID f \<and> rw_ClaimToken r = f_ClaimToken f)"
  shows "\<exists>e. fencedOp L f c d = (Inl e, d)"
  by (rule refused_stale [OF reachable_inv [OF assms(1)]]) (use assms(2) in blast)

theorem stale_fence_refused_witness: "\<exists>e. fencedOp demoLibs demoFence (CSettleRun demoSettle) (demoDb 7) = (Inl e, demoDb 7)"
  by (rule stale_fence_refused [OF demo_reachable]) (use demo_rows(8,9) in \<open>cases "runs (demoDb 7)"; auto simp: demoFence_def\<close>)

lemma updateRuns_none:
  assumes "\<And>r. r \<in> set (runs d) \<Longrightarrow> \<not> P r" and "Q 0 d"
  shows "wpE (updateRuns P f) Q d"
proof -
  have u: "updateWhere P f (runs d) = runs d" by (rule updateWhere_none) (rule assms(1))
  then have e: "runs_update (updateWhere P f) d = d" by (cases d) simp
  have c: "countWhere P (runs d) = 0" using assms(1) by simp
  show ?thesis by (simp only: updateRuns_def updateT_def wp u e c assms(2) simp_thms)
qed

lemma writeRun_refused:
  assumes i: "inv K d" and r: "r \<in> set (runs d)" "rw_ID r = r_ID v" "rw_Status r = RunPaused"
  shows "wpE (writeRun v) Q d"
proof -
  have w: "wfDb d" using i by (rule inv_wf)
  have n: "\<not> liveStatus (rw_Status s)" if "s \<in> set (runs d)" "rw_ID s = r_ID v" for s
    using runs_eq [OF w that(1) r(1)] that(2) r by (simp add: liveStatus_def)
  have g: "getRun (r_ID v) d = Inr (runOf r)" using getRun_stored [OF w r(1)] r(2) by simp
  have t: "\<not> Terminal (runOf r)" using runOf_sel(2) [OF wf_rows(2) [OF w r(1)]] r(3) by (simp add: Terminal_def)
  show ?thesis unfolding writeRun_def wp_bind by (rule updateRuns_none) (use n g t in \<open>auto simp: wp\<close>)
qed

lemma loadRunFence_row:
  assumes "inv K d" and "r \<in> set (runs d)" "rw_ID r = f_RunID f" and "loadRunFence f b d = Inr run"
  shows "run = runOf r" "r_Status run = rw_Status r" "r_ID run = rw_ID r" "r_ClaimToken run = rw_ClaimToken r"
proof -
  have w: "wfDb d" using assms(1) by (rule inv_wf)
  obtain s where s: "s \<in> set (runs d)" "rw_ID s = f_RunID f" "run = runOf s" "runOK d s" using loadRunFence_Inr [OF w assms(4)] by metis
  have "s = r" using runs_eq [OF w s(1) assms(2)] s(2) assms(3) by simp
  with s show "run = runOf r" "r_Status run = rw_Status r" "r_ID run = rw_ID r" "r_ClaimToken run = rw_ClaimToken r" by simp_all
qed

lemma ApplyRunSettlement_ids: "ApplyRunSettlement v s = Inr u \<Longrightarrow> r_ID u = r_ID v \<and> r_ClaimToken u = r_ClaimToken v \<and> r_Status u = rs_Status s"
  by (auto simp: ApplyRunSettlement_def split: if_split_asm)

text \<open>
  C14. A paused run accepts no write at all under any fence, its last holder's included: every
  fenced operation is refused, settlement too, so the run has to be claimed first.
\<close>

theorem paused_run_refuses:
  assumes "reachable L d" and "r \<in> set (runs d)" and "rw_ID r = f_RunID f" and "rw_Status r = RunPaused"
  shows "\<exists>e. fencedOp L f c d = (Inl e, d)"
proof (rule refused)
  have i: "inv {} d" by (rule reachable_inv [OF assms(1)])
  have no: "\<not> (\<exists>s. fenced f d s)"
  proof
    assume "\<exists>s. fenced f d s"
    then obtain s where s: "s \<in> set (runs d)" "rw_ID s = f_RunID f" "liveStatus (rw_Status s)" by (auto simp: fenced_def)
    then have "s = r" using runs_eq [OF inv_wf [OF i] s(1) assms(2)] assms(3) by simp
    with s assms(4) show False by (simp add: liveStatus_def)
  qed
  show "wpE (fencedOp L f c) (\<lambda>_ _. False) d"
  proof (cases "\<exists>q. c = CSettleRun q")
    case False
    then show ?thesis using refused_unless_settle [OF i no] by blast
  next
    case True
    have "\<not> Terminal run" "r_ID run = rw_ID r" if "loadRunFence f True d = Inr run" for run
      using loadRunFence_row [OF i assms(2,3) that] assms(4) by (auto simp: Terminal_def)
    then have "wpE (SettleRun f q) (\<lambda>_ _. False) d" for q
      by (auto simp: SettleRun_def withFenceState_def wp dest!: ApplyRunSettlement_ids
        intro!: writeRun_refused [OF i assms(2) _ assms(4)])
    with True show ?thesis by (auto simp: wp)
  qed
qed

theorem paused_run_refuses_witness: "\<exists>e. fencedOp demoLibs demoFence (CSettleRun demoSettle) (demoDb 6) = (Inl e, demoDb 6)"
  by (rule paused_run_refuses [OF demo_reachable, of "hd (runs (demoDb 6))"])
    (use demo_rows(5,6) in \<open>cases "runs (demoDb 6)"; auto simp: demoFence_def\<close>)+

text \<open>
  C15. A finished run is frozen: no fenced operation changes the database, and only a settlement
  can still be answered.
\<close>

theorem closed_run_frozen:
  assumes "reachable L d" and "r \<in> set (runs d)" and "rw_ID r = f_RunID f" and "\<not> activeStatus (rw_Status r)"
    and "fencedOp L f c d = (x, t)"
  shows "t = d \<and> (x = Inr () \<longrightarrow> (\<exists>q. c = CSettleRun q))"
proof -
  have i: "inv {} d" by (rule reachable_inv [OF assms(1)])
  have no: "\<not> (\<exists>s. fenced f d s)"
  proof
    assume "\<exists>s. fenced f d s"
    then obtain s where s: "s \<in> set (runs d)" "rw_ID s = f_RunID f" "liveStatus (rw_Status s)" by (auto simp: fenced_def)
    then have "s = r" using runs_eq [OF inv_wf [OF i] s(1) assms(2)] assms(3) by simp
    with s(3) assms(4) show False using live_active by blast
  qed
  have "runCheck r" using wfD(2) [OF inv_wf [OF i]] assms(2) by (simp add: tableWf_def)
  then have "Terminal run" if "loadRunFence f True d = Inr run" for run
    using loadRunFence_row(2) [OF i assms(2,3) that] assms(4)
    by (auto simp: Terminal_def activeStatus_def runCheck_def split: RunStatus.split_asm)
  then have s: "wpE (SettleRun f q) (\<lambda>_ u. u = d) d" for q
    by (auto simp: SettleRun_def withFenceState_def wp)
  have "wpE (fencedOp L f c) (\<lambda>_ u. u = d \<and> (\<exists>q. c = CSettleRun q)) d"
  proof (cases "\<exists>q. c = CSettleRun q")
    case False
    then show ?thesis using refused_unless_settle [OF i no] by blast
  next
    case True
    then show ?thesis by (auto simp: wp s)
  qed
  from wpE_D [OF this] assms(5) fencedOp_failSafe [of L f c] show ?thesis by (cases x) (auto simp: failSafe_def)
qed

theorem closed_run_frozen_witness:
  "snd (fencedOp demoLibs demoFence2 (CStartRun (demoTime 9)) (demoDb 10)) = demoDb 10 \<and>
   fst (fencedOp demoLibs demoFence2 (CStartRun (demoTime 9)) (demoDb 10)) \<noteq> Inr ()"
proof -
  obtain r where r: "runs (demoDb 10) = [r]" "rw_ID r = f_RunID demoFence2" "\<not> activeStatus (rw_Status r)"
    using demo_rows(10,11) by (auto simp: map_eq_Cons_conv demoFence2_def activeStatus_def)
  then have "r \<in> set (runs (demoDb 10))" by simp
  from closed_run_frozen [OF demo_reachable this r(2,3) prod.collapse [symmetric], of "CStartRun (demoTime 9)"] show ?thesis by blast
qed

section \<open>Claiming\<close>

lemma wp_updateRuns: "Q (countWhere P (runs d)) (runs_update (updateWhere P f) d) \<Longrightarrow> wpE (updateRuns P f) Q d"
  by (simp add: updateRuns_def updateT_def wp)

lemma updateWhere_mem: "x \<in> set xs \<Longrightarrow> P x \<Longrightarrow> f x \<in> set (updateWhere P f xs)"
  by (force simp: set_updateWhere)

lemma countWhere_pos: "countWhere P xs \<noteq> 0 \<Longrightarrow> \<exists>x \<in> set xs. P x"
  by simp

text \<open>A claim writes one row: a paused run, or a live one whose lease expired.\<close>

lemma ClaimRun_effect:
  assumes i: "inv K d"
  shows "wpE (ClaimRun now c) (\<lambda>v t. getRun (c_RunID c) t = Inr v \<and>
    (\<exists>r \<in> set (runs d). rw_ID r = c_RunID c \<and> (rw_Status r = RunPaused \<or> liveStatus (rw_Status r) \<and> rw_LeaseUntil r \<le> now)) \<and>
    (\<exists>s \<in> set (runs t). rw_ID s = c_RunID c \<and> rw_ClaimToken s = c_ClaimToken c \<and> rw_Status s = RunRunning \<and>
       rw_LeaseUntil s = now + durationMicros (c_LeaseDuration c))) d"
proof -
  let ?w = "\<lambda>v r. r\<lparr>rw_Status := RunRunning, rw_OwnerID := c_OwnerID c, rw_ClaimToken := c_ClaimToken c, rw_Record := v,
    rw_LeaseUntil := now + durationMicros (c_LeaseDuration c)\<rparr>"
  let ?new = "\<lambda>t. \<exists>s \<in> set (runs t). rw_ID s = c_RunID c \<and> rw_ClaimToken s = c_ClaimToken c \<and> rw_Status s = RunRunning \<and>
       rw_LeaseUntil s = now + durationMicros (c_LeaseDuration c)"
  have upd: "wpE (updateRuns (\<lambda>s. rw_RowKey s = rw_RowKey r \<and> P s) (?w v)) (\<lambda>n t. n = 0 \<or> P r \<and> ?new t) d"
    if r: "r \<in> set (runs d)" "rw_ID r = c_RunID c" for r P v
  proof (rule wp_updateRuns)
    have "P r \<and> ?new (runs_update (updateWhere (\<lambda>s. rw_RowKey s = rw_RowKey r \<and> P s) (?w v)) d)"
      if n: "countWhere (\<lambda>s. rw_RowKey s = rw_RowKey r \<and> P s) (runs d) \<noteq> 0"
    proof -
      obtain s where s: "s \<in> set (runs d)" "rw_RowKey s = rw_RowKey r \<and> P s" using countWhere_pos [OF n] by blast
      then have "s = r" using runs_eq [OF inv_wf [OF i] s(1) r(1)] by simp
      then show ?thesis using updateWhere_mem [OF s(1), of "\<lambda>s. rw_RowKey s = rw_RowKey r \<and> P s" "?w v"] r s(2) by (force intro: bexI [of _ "?w v r"])
    qed
    then show "countWhere (\<lambda>s. rw_RowKey s = rw_RowKey r \<and> P s) (runs d) = 0 \<or>
      P r \<and> ?new (runs_update (updateWhere (\<lambda>s. rw_RowKey s = rw_RowKey r \<and> P s) (?w v)) d)" by blast
  qed
  have "wpE (ClaimRun now c) (\<lambda>v t. getRun (c_RunID c) t = Inr v \<and> (\<exists>r \<in> set (runs d). rw_ID r = c_RunID c \<and>
      (rw_Status r = RunPaused \<or> liveStatus (rw_Status r) \<and> rw_LeaseUntil r \<le> now)) \<and> ?new t) d"
    unfolding ClaimRun_def Let_def
    apply (auto simp: wp)
    subgoal for a b v
      using lockRun_Inr [OF inv_wf [OF i], of "c_RunID c" "(a, b)"]
      by (intro wpE_mono [OF upd [of a]]) (auto simp: wp)
    subgoal for a b v
      using lockRun_Inr [OF inv_wf [OF i], of "c_RunID c" "(a, b)"]
      by (intro wpE_mono [OF upd [of a]]) (auto simp: wp)
    done
  then show ?thesis .
qed

text \<open>
  C3. A claim takes a run over: it succeeds only on a paused run or on a live one whose lease
  has expired, gives the claimed run its new token and lease, and from then on every fenced operation
  under any other token is refused.
\<close>

theorem claim_takes_over:
  assumes "reachable L d" and "ClaimRun now c d = (Inr v, t)"
  shows "(\<exists>r \<in> set (runs d). rw_ID r = c_RunID c \<and>
      (rw_Status r = RunPaused \<or> liveStatus (rw_Status r) \<and> rw_LeaseUntil r \<le> now)) \<and>
    getRun (c_RunID c) t = Inr v \<and> r_Status v = RunRunning \<and> r_ClaimToken v = c_ClaimToken c \<and>
    r_LeaseUntil v = unixMicro (now + durationMicros (c_LeaseDuration c)) \<and>
    (f_RunID f = c_RunID c \<and> f_ClaimToken f \<noteq> c_ClaimToken c \<longrightarrow> (\<exists>e. fencedOp L f fc t = (Inl e, t)))"
proof -
  have i: "inv {} d" by (rule reachable_inv [OF assms(1)])
  have it: "inv {} t" using wpE_D [OF ClaimRun_keeps [OF i] assms(2)] by (rule keeps_inv)
  from wpE_D [OF ClaimRun_effect [OF i] assms(2)] obtain s
    where g: "getRun (c_RunID c) t = Inr v" and r: "\<exists>r \<in> set (runs d). rw_ID r = c_RunID c \<and>
      (rw_Status r = RunPaused \<or> liveStatus (rw_Status r) \<and> rw_LeaseUntil r \<le> now)"
      and s: "s \<in> set (runs t)" "rw_ID s = c_RunID c" "rw_ClaimToken s = c_ClaimToken c" "rw_Status s = RunRunning"
        "rw_LeaseUntil s = now + durationMicros (c_LeaseDuration c)" by blast
  have v: "v = runOf s" using getRun_stored [OF inv_wf [OF it] s(1)] g s(2) by simp
  have "\<exists>e. fencedOp L f fc t = (Inl e, t)" if f: "f_RunID f = c_RunID c" "f_ClaimToken f \<noteq> c_ClaimToken c"
  proof (rule refused_stale [OF it])
    show "False" if "u \<in> set (runs t)" "rw_ID u = f_RunID f" "rw_ClaimToken u = f_ClaimToken f" for u
      using runs_eq [OF inv_wf [OF it] that(1) s(1)] that f s by auto
  qed
  with r g v runOf_sel [OF wf_rows(2) [OF inv_wf [OF it] s(1)]] s show ?thesis by (auto simp: runOf_def)
qed

lemma unitE_Inr: "unitE m s = (Inr u, t) \<longleftrightarrow> (\<exists>x. m s = (Inr x, t))"
  by (auto simp: unitE_def bindE_def split: prod.split_asm sum.split_asm)

lemma demo_claim: "\<exists>v. ClaimRun 5 demoClaim (demoDb 6) = (Inr v, demoDb 7)"
  using demo_ok [of 6] by (simp add: demoCalls_def unitE_Inr)

theorem claim_takes_over_witness: "\<exists>e. fencedOp demoLibs demoFence (CAppendEvent (demoEvent ''e9'' [] 9)) (demoDb 7) = (Inl e, demoDb 7)"
proof -
  obtain v where "ClaimRun 5 demoClaim (demoDb 6) = (Inr v, demoDb 7)" using demo_claim by blast
  from claim_takes_over [OF demo_reachable this, of demoFence] show ?thesis by (simp add: demoClaim_def demoFence_def del: fencedOp.simps)
qed

section \<open>Settling\<close>

lemma take1_key: "distinct (map k xs) \<Longrightarrow> x \<in> set xs \<Longrightarrow> take1 (filter (\<lambda>q. k q = k x) xs) = Inr x"
  by (induction xs) (auto simp: take1_def)

lemma lockRun_stored:
  assumes w: "wfDb d" and r: "r \<in> set (runs d)"
  shows "\<exists>j. lockRun (rw_ID r) d = Inr (r, j) \<and> decodeRunRow (r, j) = Inr (runOf r)"
proof -
  have "hasSession d (rw_SessionKey r) (r_SessionID (rw_Record r))" using wf_rows(2) [OF w r] by (simp add: runOK_def Let_def)
  then obtain s where s: "sessionByKey d (rw_SessionKey r) = Some s" using sessionByKey_has [OF w] by blast
  have "take1 (filter (\<lambda>q. rw_ID (fst q) = rw_ID r) (runQuery d)) = Inr (r, sw_ID s)"
    unfolding runQuery_def by (rule take1_query [OF wf_distinct(4) [OF w] r]) (auto simp: s)
  moreover have "take1 (filter (\<lambda>q. rw_ID q = rw_ID r) (runs d)) = Inr r"
    by (rule take1_key [OF wf_distinct(4) [OF w] r])
  moreover have "(r, sw_ID s) \<in> set (runQuery d)" using r s by (simp add: set_runQuery)
  ultimately show ?thesis using decodeRunRow_ok [OF w] s by (auto simp: lockRun_def runOf_def)
qed

lemma loadRunFence_stored:
  assumes w: "wfDb d" and r: "r \<in> set (runs d)" "rw_ID r = f_RunID f" "rw_ClaimToken r = f_ClaimToken f" "b \<or> liveStatus (rw_Status r)"
  shows "loadRunFence f b d = Inr (runOf r)"
  using lockRun_stored [OF w r(1)] runOf_sel(2,3) [OF wf_rows(2) [OF w r(1)]] r(2-4)
  by (auto simp: loadRunFence_def asConflict_def relationError_def liveStatus_def)

text \<open>
  C16. A run cannot be completed while its session has queued input: with every tool call
  settled, completing it under its own fence fails with \<open>ErrRunHasQueuedInput\<close> and changes nothing.
\<close>

theorem complete_needs_empty_inbox:
  assumes "reachable L d" and "r \<in> set (runs d)" and "rw_ID r = f_RunID f" and "rw_ClaimToken r = f_ClaimToken f"
    and "liveStatus (rw_Status r)" and "f_RunID f \<noteq> []" and "f_ClaimToken f \<noteq> []"
    and "\<forall>c \<in> set (tool_calls d). tw_RunKey c = rw_RowKey r \<longrightarrow> \<not> unfinishedTool (tw_Status c)"
    and "i \<in> set (inbox d)" and "iw_SessionKey i = rw_SessionKey r" and "iw_State i = InboxQueued"
    and "re_ID (sr_Event q) \<noteq> []" and "\<not> IsZero (rs_FinishedAt (sr_Settlement q))" and "rs_Status (sr_Settlement q) = RunCompleted"
  shows "SettleRun f q d = (Inl ErrRunHasQueuedInput, d)"
proof -
  have w: "wfDb d" using reachable_inv [OF assms(1)] by (rule inv_wf)
  have ok: "runOK d r" using wf_rows(2) [OF w assms(2)] .
  have l: "loadRunFence f True d = Inr (runOf r)" using loadRunFence_stored [OF w assms(2-4)] by simp
  have k: "runKeyOf (r_ID (runOf r)) d = Inr (rw_RowKey r)" using runKeyOf_stored [OF w assms(2)] runOf_sel(1) [OF ok] by simp
  have s: "sessionKeyOf (r_SessionID (runOf r)) d = Inr (rw_SessionKey r)"
    using ok sessionKeyOf_iff [OF w] by (simp add: runOK_def Let_def runOf_def)
  have t: "\<not> Terminal (runOf r)" using assms(5) runOf_sel(2) [OF ok] by (auto simp: Terminal_def liveStatus_def)
  have n: "countWhere (\<lambda>t. tw_RunKey t = rw_RowKey r \<and> unfinishedTool (tw_Status t)) (tool_calls d) = 0" using assms(8) by auto
  have m: "countWhere (\<lambda>i. iw_SessionKey i = rw_SessionKey r \<and> iw_State i = InboxQueued) (inbox d) \<noteq> 0" using assms(9-11) by auto
  show ?thesis
    using assms(6,7,12-14) l k s t n m
    by (simp add: SettleRun_def withFenceState_def run del: countWhere_0)
qed

theorem complete_needs_empty_inbox_witness: "SettleRun demoFence demoSettle (demoDb 3) = (Inl ErrRunHasQueuedInput, demoDb 3)"
proof (rule complete_needs_empty_inbox [OF demo_reachable, of "hd (runs (demoDb 3))" _ _ "hd (inbox (demoDb 3))"])
  obtain r i where "runs (demoDb 3) = [r]" "inbox (demoDb 3) = [i]" using demo_rows3(3,4) by (auto simp: map_eq_Cons_conv)
  with demo_rows3 demo_rows(4)
  show "hd (runs (demoDb 3)) \<in> set (runs (demoDb 3))" "hd (inbox (demoDb 3)) \<in> set (inbox (demoDb 3))"
    "rw_ID (hd (runs (demoDb 3))) = f_RunID demoFence" "rw_ClaimToken (hd (runs (demoDb 3))) = f_ClaimToken demoFence"
    "liveStatus (rw_Status (hd (runs (demoDb 3))))" "iw_SessionKey (hd (inbox (demoDb 3))) = rw_SessionKey (hd (runs (demoDb 3)))"
    "iw_State (hd (inbox (demoDb 3))) = InboxQueued"
    "\<forall>c \<in> set (tool_calls (demoDb 3)). tw_RunKey c = rw_RowKey (hd (runs (demoDb 3))) \<longrightarrow> \<not> unfinishedTool (tw_Status c)"
    by (simp_all add: demoFence_def liveStatus_def)
qed (simp_all add: demoFence_def demoSettle_def demoTime_def IsZero_def zeroTime_def)

text \<open>The event of a settlement is stored as it is.\<close>

lemma settlement_payload: "terminalRunStatus (r_Status v) \<Longrightarrow> marshalRaw (runSettlementPayload v) = Some (runSettlementPayload v)"
  by (auto simp: terminalRunStatus_def runSettlementPayload_def runStatusText_def) (code_simp+)

lemma RunSettlementRecord_shape:
  assumes "RunSettlementRecord v e = Inr c"
  shows "ev_Kind c = RunSettlementEventKind" "ev_ToolTransition c = ToolTransitionNone" "ev_RunID c = r_ID v" "marshalEvent c = Inr c"
proof -
  have "terminalRunStatus (r_Status v)" using assms by (auto simp: RunSettlementRecord_def Terminal_def terminalRunStatus_def split: if_split_asm)
  with assms settlement_payload show "ev_Kind c = RunSettlementEventKind" "ev_ToolTransition c = ToolTransitionNone" "ev_RunID c = r_ID v" "marshalEvent c = Inr c"
    by (auto simp: RunSettlementRecord_def marshalEvent_def split: if_split_asm)
qed

lemma decodeEventRow_Inr: "decodeEventRow q = Inr v \<Longrightarrow> v = vw_Record (fst q)"
  by (auto simp: decodeEventRow_def Let_def split: if_split_asm option.split_asm)

lemma set_eventQuery:
  "(e, j) \<in> set (eventQuery d) \<longleftrightarrow> e \<in> set (events d) \<and> (\<exists>s r. sessionByKey d (vw_SessionKey e) = Some s \<and>
     runByKey d (vw_RunKey e) = Some r \<and>
     j = \<lparr>vj_SessionID = sw_ID s, vj_RunID = rw_ID r, vj_Tool = Option.bind (vw_ToolKey e) (toolByKey d)\<rparr>)"
  by (auto simp: eventQuery_def set_map_filter split: option.split_asm intro!: bexI [of _ e])

lemma eventQuery_mem: "q \<in> set (eventQuery d) \<Longrightarrow> fst q \<in> set (events d)"
  using set_eventQuery [of "fst q" "snd q" d] by simp

lemma eventBy_Inr:
  "eventByID i d = Inr x \<Longrightarrow> x \<in> vw_Record ` set (events d)"
  "eventByRunFinished k kind d = Inr x \<Longrightarrow> x \<in> vw_Record ` set (events d)"
  by (auto simp: eventByID_def eventByRunFinished_def dest!: take1_Inr eventQuery_mem decodeEventRow_Inr)

lemma sameEvent_stored:
  assumes "sameEvent e x = Inr y" and "marshalEvent e = Inr e" and "wfDb d" and "x \<in> vw_Record ` set (events d)"
  shows "y = e \<and> e \<in> vw_Record ` set (events d)"
proof -
  obtain row where row: "row \<in> set (events d)" "x = vw_Record row" using assms(4) by blast
  then have "marshalEvent x = Inr x" using wf_rows(11) [OF assms(3) row(1)] by (simp add: eventOK_def Let_def)
  with assms show ?thesis by (auto simp: sameEvent_def SameRecord_def split: if_split_asm)
qed

lemma existingEvent_Inr:
  assumes "existingEvent e k None d = Inr x" and "marshalEvent e = Inr e" and "wfDb d"
  shows "x = e \<and> e \<in> vw_Record ` set (events d)"
proof -
  have "\<exists>y. sameEvent e y = Inr x \<and> (eventByID (ev_ID e) d = Inr y \<or> eventByRunFinished k (ev_Kind e) d = Inr y)"
    using assms(1) unfolding existingEvent_def
    by (auto split: option.split_asm if_split_asm sum.split_asm simp: foundS_def bindS_def)
  then obtain y where y: "y \<in> vw_Record ` set (events d)" "sameEvent e y = Inr x" using eventBy_Inr by metis
  from sameEvent_stored [OF y(2) assms(2,3) y(1)] show ?thesis .
qed

text \<open>After a settlement event was appended the log holds it.\<close>

lemma appendSettlement:
  assumes i: "inv K d" and e: "RunSettlementRecord v s = Inr e"
  shows "wpE (appendCanonicalEvent e) (\<lambda>x t. x = e \<and> runs t = runs d \<and> e \<in> vw_Record ` set (events t)) d"
  using RunSettlementRecord_shape [OF e] existingEvent_Inr [OF _ _ inv_wf [OF i], of e]
  by (auto simp: appendCanonicalEvent_def insertEvent_def wp wp_statements Let_def eventRowOf_def canonicalOnlyEventKinds_def)

lemma eventByRunFinished_stored:
  assumes w: "wfDb d" and r: "row \<in> set (events d)" "vw_Record row = e" "ev_Kind e = RunSettlementEventKind" "ev_ToolTransition e = ToolTransitionNone"
  shows "eventByRunFinished (vw_RunKey row) RunSettlementEventKind d = Inr e"
proof -
  have ok: "eventOK d row" "eventCheck row" using wf_rows(11) [OF w r(1)] wfD(11) [OF w] r(1) by (simp_all add: tableWf_def)
  then have row: "vw_Kind row = RunSettlementEventKind" "vw_ToolTransition row = None" "vw_ToolKey row = None"
    using r by (auto simp: eventOK_def eventCheck_def Let_def)
  obtain a b where ab: "sessionByKey d (vw_SessionKey row) = Some a" "sw_ID a = ev_SessionID e" "runByKey d (vw_RunKey row) = Some b" "rw_ID b = ev_RunID e"
    using ok(1) r(2) sessionByKey_has [OF w] runByKey_has [OF w] unfolding eventOK_def Let_def by metis
  let ?xs = "filter (\<lambda>q. vw_RunKey (fst q) = vw_RunKey row \<and> vw_Kind (fst q) = RunSettlementEventKind) (eventQuery d)"
  have u: "fst q = row" if "q \<in> set ?xs" for q
  proof (rule distinct_map_eq)
    show "distinct (map vw_RunKey (filter (\<lambda>e. vw_Kind e = RunSettlementEventKind) (events d)))"
      using wfD(11) [OF w] by (simp add: tableWf_def eventsUnique_def)
  qed (use that eventQuery_mem r(1) row in auto)
  let ?q = "(row, \<lparr>vj_SessionID = sw_ID a, vj_RunID = rw_ID b, vj_Tool = None\<rparr>)"
  have q: "?q \<in> set ?xs" using ab row r(1) by (simp add: set_eventQuery)
  then obtain p ps where p: "?xs = p # ps" by (cases ?xs) auto
  then have pm: "p \<in> set ?xs" by simp
  with u [of p] have "fst p = row" "p \<in> set (eventQuery d)" by simp_all
  then have "snd p = snd ?q" using ab row by (cases p) (simp add: set_eventQuery)
  then have "p = ?q" using u [OF pm] by (simp add: prod_eq_iff)
  moreover have "decodeEventRow ?q = Inr e"
    using ok(1) row r ab by (auto simp: decodeEventRow_def Let_def eventOK_def joinedToolID_def)
  ultimately show ?thesis using p by (simp add: eventByRunFinished_def take1_def)
qed

lemma ApplyRunSettlement_shape:
  "ApplyRunSettlement v s = Inr u \<Longrightarrow> r_Status u = rs_Status s \<and> Terminal u \<and> r_Error u = rs_Error s \<and>
     r_FinishedAt u = UTC (rs_FinishedAt s) \<and> \<not> activeStatus (r_Status u)"
  by (auto simp: ApplyRunSettlement_def Terminal_def terminalRunStatus_def activeStatus_def split: if_split_asm)

text \<open>What a successful settlement of a live run leaves behind.\<close>

lemma writeSettled:
  assumes i: "inv K d" and r: "r \<in> set (runs d)" "liveStatus (rw_Status r)" and v: "ApplyRunSettlement (runOf r) s = Inr v"
  shows "wpE (writeRun v) (\<lambda>_ t. \<exists>u \<in> set (runs t). runOf u = v \<and> rw_ID u = rw_ID r \<and> rw_ClaimToken u = rw_ClaimToken r) d"
proof -
  have ok: "runOK d r" using wf_rows(2) [OF inv_wf [OF i] r(1)] .
  let ?P = "\<lambda>r. rw_ID r = r_ID v \<and> rw_ClaimToken r = r_ClaimToken v \<and> liveStatus (rw_Status r)"
  let ?f = "\<lambda>r. r\<lparr>rw_Status := r_Status v, rw_OwnerID := r_OwnerID v, rw_ClaimToken := r_ClaimToken v,
          rw_ProviderID := r_ProviderID v, rw_ModelID := r_ModelID v, rw_Record := v\<rparr>"
  have ids: "r_ID v = rw_ID r" "r_ClaimToken v = rw_ClaimToken r" using ApplyRunSettlement_ids [OF v] runOf_sel [OF ok] by simp_all
  have "v\<lparr>r_LeaseUntil := unixMicro (rw_LeaseUntil r)\<rparr> = v" using v by (auto simp: ApplyRunSettlement_def runOf_def split: if_split_asm)
  then have f: "runOf (?f r) = v" "rw_ID (?f r) = rw_ID r" "rw_ClaimToken (?f r) = rw_ClaimToken r" by (simp_all add: runOf_def ids)
  have P: "?P r" using ids r(2) by simp
  have m: "?f r \<in> set (updateWhere ?P ?f (runs d))" using updateWhere_mem [OF r(1), of ?P ?f] P by simp
  have c: "countWhere ?P (runs d) \<noteq> 0" using r(1) P by auto
  have "\<exists>u \<in> set (runs (runs_update (updateWhere ?P ?f) d)). runOf u = v \<and> rw_ID u = rw_ID r \<and> rw_ClaimToken u = rw_ClaimToken r"
    by (rule bexI [of _ "?f r"]) (use f m in simp_all)
  then show ?thesis unfolding writeRun_def wp_bind by (intro wp_updateRuns) (simp only: c if_False wp_return)
qed

lemma SettleRun_effect:
  assumes i: "inv {} d" and r: "r \<in> set (runs d)" "rw_ID r = f_RunID f" "liveStatus (rw_Status r)"
  shows "wpE (SettleRun f q) (\<lambda>x t. ApplyRunSettlement (runOf r) (sr_Settlement q) = Inr (rr_Run x) \<and>
    RunSettlementRecord (rr_Run x) (sr_Event q) = Inr (rr_Event x) \<and> rr_Event x \<in> vw_Record ` set (events t) \<and>
    (\<exists>u \<in> set (runs t). runOf u = rr_Run x \<and> rw_ID u = rw_ID r \<and> rw_ClaimToken u = rw_ClaimToken r) \<and>
    f_RunID f \<noteq> [] \<and> f_ClaimToken f = rw_ClaimToken r \<and> f_ClaimToken f \<noteq> [] \<and> re_ID (sr_Event q) \<noteq> [] \<and>
    \<not> IsZero (rs_FinishedAt (sr_Settlement q))) d"
proof -
  let ?row = "\<lambda>v t. \<exists>u \<in> set (runs t). runOf u = v \<and> rw_ID u = rw_ID r \<and> rw_ClaimToken u = rw_ClaimToken r"
  have w: "wfDb d" using i by (rule inv_wf)
  have ok: "runOK d r" using wf_rows(2) [OF w r(1)] .
  have ev: "wpE (appendCanonicalEvent e) (\<lambda>x t. x = e \<and> e \<in> vw_Record ` set (events t) \<and> ?row v t) t"
    if "inv {rw_RowKey r} t" "?row v t" "RunSettlementRecord v s = Inr e" for t v s e
    by (rule wpE_mono [OF appendSettlement [OF that(1,3)]]) (use that(2) in auto)
  have trm: "wpE (terminalizeResidualTurns (rw_RowKey r) z) (\<lambda>_. wpE (appendCanonicalEvent e) (\<lambda>x t. x = e \<and> e \<in> vw_Record ` set (events t) \<and> ?row v t)) t"
    if "inv {rw_RowKey r} t" "?row v t" "RunSettlementRecord v s = Inr e" for t v s e z
  proof (rule wpE_mono [OF terminalizeResidualTurns_keeps [OF that(1)]], elim conjE)
    fix y :: unit and u assume k: "keeps {rw_RowKey r} t u" and "runs u = runs t"
    with that(2) have "?row v u" by simp
    then show "wpE (appendCanonicalEvent e) (\<lambda>x t. x = e \<and> e \<in> vw_Record ` set (events t) \<and> ?row v t) u"
      by (rule ev [OF keeps_inv [OF k] _ that(3)])
  qed
  have body: "wpE (writeRun v) (\<lambda>_. wpE (terminalizeResidualTurns (rw_RowKey r) z)
      (\<lambda>_. wpE (appendCanonicalEvent e) (\<lambda>x t. x = e \<and> e \<in> vw_Record ` set (events t) \<and> ?row v t))) d"
    if v: "ApplyRunSettlement (runOf r) z' = Inr v" "RunSettlementRecord v s = Inr e" for v z z' s e
  proof -
    have "inv {rw_RowKey r} d" using i by (simp add: inv_def)
    then have "wpE (writeRun v) (\<lambda>_ t. keeps {rw_RowKey r} d t \<and> runFrame d t) d"
      by (rule writeRun_keeps [OF _ r(1)])
        (use v(1) sameRun_runOf [OF ok] in \<open>auto simp: ApplyRunSettlement_def terminalRunStatus_def split: if_split_asm\<close>)
    from wpE_conj [OF this writeSettled [OF i r(1,3) v(1)]] show ?thesis
      by (rule wpE_mono) (use trm [OF _ _ v(2)] keeps_inv in blast)
  qed
  have whole: "wpE (thenE (writeRun v) (thenE (terminalizeResidualTurns (rw_RowKey r) z) (bindE (appendCanonicalEvent e) (\<lambda>x. returnE (g x)))))
      (\<lambda>y t. y = g e \<and> e \<in> vw_Record ` set (events t) \<and> ?row v t) d"
    if v: "ApplyRunSettlement (runOf r) z' = Inr v" "RunSettlementRecord v s = Inr e"
    for v z z' s e and g :: "EventRecord \<Rightarrow> RunSettlementResult"
    unfolding wp_then wp_bind wp_return
    by (rule wpE_mono [OF body [OF v]], erule wpE_mono, erule wpE_mono) blast
  show ?thesis
  proof (cases "loadRunFence f True d")
    case (Inl e)
    then show ?thesis by (simp add: SettleRun_def withFenceState_def wp)
  next
    case (Inr run)
    note l = loadRunFence_row [OF i r(1,2) Inr]
    have "\<not> Terminal run" "runKeyOf (r_ID run) d = Inr (rw_RowKey r)" "r_ClaimToken run = f_ClaimToken f"
      using l r runKeyOf_stored [OF w r(1)] Inr by (auto simp: Terminal_def liveStatus_def loadRunFence_def split: if_split_asm)
    with Inr l show ?thesis
      unfolding SettleRun_def withFenceState_def
      by (auto simp: wp_if wp_throw wp_atomic wp_bind [of "readE g" for g] wp_bind [of "askE g" for g] wp_bind [of "liftE g" for g]
        wp_read wp_ask wp_lift wp_then [of "guardE b e" for b e] wp_guard wp_then [of "whenE b m" for b m] wp_when intro!: wpE_mono [OF whole])
  qed
qed

text \<open>
  C4. A settlement can be repeated: once a live run was settled, with a plain settlement (texts of valid UTF-8, a time JSON can write) in a
  database that plain calls produced, the run that was stored is the settled one and is finished with the requested status, the log holds the one settlement event, and sending
  the same settlement again returns the same run and event without changing anything.
\<close>

theorem settlement_repeats:
  assumes "plainReachable L d" and "plainCall (CFenced f (CSettleRun q))" and "r \<in> set (runs d)" and "rw_ID r = f_RunID f" and "liveStatus (rw_Status r)"
    and "SettleRun f q d = (Inr x, t)"
  shows "getRun (rw_ID r) t = Inr (rr_Run x) \<and> r_Status (rr_Run x) = rs_Status (sr_Settlement q) \<and> Terminal (rr_Run x) \<and>
    rr_Event x \<in> vw_Record ` set (events t) \<and> ev_Kind (rr_Event x) = RunSettlementEventKind \<and>
    SettleRun f q t = (Inr x, t)"
proof -
  have i: "inv {} d" by (rule reachable_inv [OF plainReachable_reachable [OF assms(1)]])
  have it: "inv {} t" using wpE_D [OF SettleRun_keeps [OF i] assms(6)] by (rule keeps_inv)
  have w: "wfDb t" using it by (rule inv_wf)
  from wpE_D [OF SettleRun_effect [OF i assms(3-5)] assms(6)] obtain u where
    a: "ApplyRunSettlement (runOf r) (sr_Settlement q) = Inr (rr_Run x)" "RunSettlementRecord (rr_Run x) (sr_Event q) = Inr (rr_Event x)"
    "rr_Event x \<in> vw_Record ` set (events t)"
    and u: "u \<in> set (runs t)" "runOf u = rr_Run x" "rw_ID u = rw_ID r" "rw_ClaimToken u = rw_ClaimToken r"
    and g: "f_RunID f \<noteq> []" "f_ClaimToken f \<noteq> []" "re_ID (sr_Event q) \<noteq> []" "\<not> IsZero (rs_FinishedAt (sr_Settlement q))"
    "f_ClaimToken f = rw_ClaimToken r" by blast
  have sel: "r_ID (rr_Run x) = rw_ID u" "r_Status (rr_Run x) = rw_Status u" using runOf_sel [OF wf_rows(2) [OF w u(1)]] u(2) by simp_all
  have st: "r_Status (rr_Run x) = rs_Status (sr_Settlement q)" "Terminal (rr_Run x)" "r_Error (rr_Run x) = rs_Error (sr_Settlement q)"
    "r_FinishedAt (rr_Run x) = UTC (rs_FinishedAt (sr_Settlement q))" "\<not> activeStatus (r_Status (rr_Run x))"
    using ApplyRunSettlement_shape [OF a(1)] by blast+
  obtain row where row: "row \<in> set (events t)" "vw_Record row = rr_Event x" using a(3) by force
  note sh = RunSettlementRecord_shape [OF a(2)]
  have "vw_RunKey row = rw_RowKey u"
  proof -
    obtain sk where "hasRun t (vw_RunKey row) (r_ID (rr_Run x)) sk" using wf_rows(11) [OF w row(1)] row(2) sh(3) by (auto simp: eventOK_def Let_def)
    moreover have "hasRun t (rw_RowKey u) (r_ID (rr_Run x)) (rw_SessionKey u)" using u(1) sel(1) by (auto simp: hasRun_def)
    ultimately show ?thesis using hasRun_unique(2) [OF w] by blast
  qed
  then have e: "eventByRunFinished (rw_RowKey u) RunSettlementEventKind t = Inr (rr_Event x)"
    using eventByRunFinished_stored [OF w row sh(1,2)] by simp
  have n: "countWhere (\<lambda>c. tw_RunKey c = rw_RowKey u \<and> unfinishedTool (tw_Status c)) (tool_calls t) = 0"
    using it u(1) st(5) sel(2) by (auto simp: inv_def quiet_def terminalRow_def)
  have l: "loadRunFence f True t = Inr (rr_Run x)" using loadRunFence_stored [OF w u(1)] u(2-4) assms(4) g(5) by simp
  have k: "runKeyOf (r_ID (rr_Run x)) t = Inr (rw_RowKey u)" using runKeyOf_stored [OF w u(1)] sel(1) by simp
  have "SettleRun f q t = (Inr x, t)"
    using g l k n st e a(2) sh by (simp add: SettleRun_def withFenceState_def run replaySettlement_def SameRecord_def EqualTime_def del: countWhere_0)
  moreover have "getRun (rw_ID r) t = Inr (rr_Run x)" using getRun_stored [OF w u(1)] u(2,3) by simp
  ultimately show ?thesis using st a(3) sh(1) by simp
qed

theorem settlement_repeats_witness: "\<exists>x. SettleRun demoFence2 demoSettle (demoDb 10) = (Inr x, demoDb 10)"
proof -
  obtain r where r: "runs (demoDb 9) = [r]" "rw_ID r = f_RunID demoFence2" "liveStatus (rw_Status r)"
    using demo_rows9(3,5) by (auto simp: map_eq_Cons_conv demoFence2_def liveStatus_def)
  obtain x where x: "SettleRun demoFence2 demoSettle (demoDb 9) = (Inr x, demoDb 10)"
    using demo_ok [of 9] by (auto simp: demoCalls_def unitE_Inr numeral_eq_Suc)
  have "plainCall (CFenced demoFence2 (CSettleRun demoSettle))"
    using demo_calls_plain by (simp add: demoCalls_def)
  then show ?thesis using settlement_repeats [OF demo_plain _ _ r(2,3) x] r(1) by auto
qed

end
