(* ===== verification/ToolScenario.thy ===== *)
theory ToolScenario
  imports Samples
begin

text \<open>
  A tool call as the witnesses use it: a run's assistant message calls the tool \<open>ls\<close> and one worker
  claims the call.
\<close>

definition toolBlock :: ContentBlock where
  "toolBlock = zeroBlock\<lparr>cb_ID := ''p'', cb_Kind := BlockKindFunctionToolCall, cb_FunctionCall := Some \<lparr>fc_CallID = ''c'', fc_Name = ''ls'', fc_Arguments = ''{}''\<rparr>\<rparr>"

definition toolPart :: Part where
  "toolPart = \<lparr>p_ID = ''p'', p_MessageID = ''m'', p_SessionID = ''s'', p_RunID = ''r'', p_Kind = PartFunctionToolCall, p_Ordinal = 0,
     p_Payload = (case encodeBlockEnvelope toolBlock of Inr p \<Rightarrow> p | Inl e \<Rightarrow> []), p_CreatedAt = demoTime 2, p_UpdatedAt = demoTime 2\<rparr>"

definition demoToolCall :: ToolCall where
  "demoToolCall = \<lparr>tc_ID = ''c'', tc_SessionID = ''s'', tc_RunID = ''r'', tc_MessageID = ''m'', tc_RequestPartID = ''p'', tc_ResultMessageID = [], tc_ResultPartID = [],
     tc_Name = ''ls'', tc_RequestedName = [], tc_ProviderCallID = [], tc_Pattern = [], tc_Input = ''{}'', tc_Output = [], tc_Status = ToolCallPending,
     tc_RetrySafe = False, tc_Metadata = None, tc_ClaimedBy = [], tc_ClaimToken = [], tc_LeaseUntil = zeroTime, tc_StartedAt = zeroTime, tc_CompletedAt = zeroTime, tc_Error = []\<rparr>"

definition toolEvent :: "EventID \<Rightarrow> int \<Rightarrow> ToolTransitionEvent" where
  "toolEvent i n = \<lparr>te_ID = i, te_EpochID = [], te_ProviderID = [], te_ModelID = [], te_CreatedAt = demoTime n\<rparr>"

definition toolClaim :: "string \<Rightarrow> ClaimToolCallRequest" where
  "toolClaim k = \<lparr>kq_ID = ''c'', kq_ClaimedBy = k, kq_ClaimToken = ''x'', kq_StartedAt = demoTime 4, kq_LeaseDuration = 1000, kq_Event = toolEvent ''e2'' 4\<rparr>"

definition toolScript :: "call list" where
  "toolScript = [CCreateSession demoSession, CAdmitRun 0 demoRun 1000, CFenced demoFence (CAppendMessage
       (noMessage\<lparr>m_ID := ''m'', m_SessionID := ''s'', m_RunID := ''r'', m_CreatedAt := demoTime 1, m_UpdatedAt := demoTime 1\<rparr>)),
     CFenced demoFence (CCreateToolCall \<lparr>cq_Call = demoToolCall, cq_RequestPart = toolPart, cq_Event = toolEvent ''e1'' 3\<rparr>),
     CFenced demoFence (CClaimToolCall 4 (toolClaim ''w''))]"

definition toolDb :: db where
  "toolDb = fold (exec demoLibs) toolScript emptyDb"

text \<open>After the script the call is running, claimed by \<open>w\<close>.\<close>

lemma toolDb_call:
  "map (\<lambda>c. (tw_ID c, tw_Status c, tw_ClaimedBy c, tw_ClaimToken c)) (tool_calls toolDb) = [(''c'', ToolCallRunning, ''w'', ''x'')]"
  by code_simp

end
