(* ===== verification/InboxProps.thy ===== *)
theory InboxProps
  imports FenceProps ToolScenario
begin

text \<open>
  Admission: input is enqueued once per idempotency key, a finished run takes no input, a
  session runs one run at a time, a tool call has one claimant, and a paused or expired run can
  always be claimed.
\<close>

section \<open>Enqueueing\<close>

lemma inboxByKey_stored:
  assumes w: "wfDb d" and i: "i \<in> set (inbox d)" "iw_SessionKey i = sk" "iw_IdempotencyKey i = key"
  shows "\<exists>j. inboxRowByIdempotencyKey sk key d = Inr (i, j) \<and> decodeInboxRow (i, j) = Inr (iw_Record i)"
proof -
  have "hasSession d (iw_SessionKey i) (ib_SessionID (iw_Record i))" using wf_rows(9) [OF w i(1)] by (simp add: inboxOK_def Let_def)
  then obtain s where s: "sessionByKey d (iw_SessionKey i) = Some s" using sessionByKey_has [OF w] by blast
  have u: "distinct (map (\<lambda>i. (iw_SessionKey i, iw_IdempotencyKey i)) (inbox d))" using wfD(9) [OF w] by (simp add: tableWf_def inboxUnique_def)
  have "take1 (filter (\<lambda>q. (iw_SessionKey (fst q), iw_IdempotencyKey (fst q)) = (iw_SessionKey i, iw_IdempotencyKey i)) (inboxQuery d)) = Inr (i, sw_ID s)"
    unfolding inboxQuery_def by (rule take1_query [OF u i(1)]) (auto simp: s)
  moreover have "(i, sw_ID s) \<in> set (inboxQuery d)" using i(1) s by (simp add: set_inboxQuery)
  ultimately show ?thesis using decodeInboxRow_ok [OF w] i(2,3) by (auto simp: inboxRowByIdempotencyKey_def)
qed

lemma inboxByKey_Inr:
  assumes "inboxRowByIdempotencyKey sk key d = Inr (i, j)"
  shows "i \<in> set (inbox d)" "iw_SessionKey i = sk" "iw_IdempotencyKey i = key"
  using assms take1_Inr set_inboxQuery [of i j d] by (fastforce simp: inboxRowByIdempotencyKey_def)+

lemma ContentBlocksEqualIgnoringID_iff:
  "ContentBlocksEqualIgnoringID as bs \<longleftrightarrow> map (\<lambda>b. b\<lparr>cb_ID := []\<rparr>) as = map (\<lambda>b. b\<lparr>cb_ID := []\<rparr>) bs"
  by (induction as bs rule: ContentBlocksEqualIgnoringID.induct) auto

text \<open>What an enqueue leaves: the row of the session and key, whose record is the result.\<close>

lemma enqueueInboxLocked_effect:
  assumes w: "wfDb d" and m: "marshalInbox item = Inr item"
  shows "wpE (enqueueInboxLocked sk item) (\<lambda>x t. \<exists>i \<in> set (inbox t). iw_SessionKey i = sk \<and>
    iw_IdempotencyKey i = ib_IdempotencyKey item \<and> iw_Record i = fst x \<and>
    ContentBlocksEqualIgnoringID (elems (ib_Blocks (fst x))) (elems (ib_Blocks item))) d"
proof -
  have old: "\<exists>i \<in> set (inbox d). iw_SessionKey i = sk \<and> iw_IdempotencyKey i = ib_IdempotencyKey item \<and> iw_Record i = y \<and>
      ContentBlocksEqualIgnoringID (elems (ib_Blocks y)) (elems (ib_Blocks item))"
    if "inboxRowByIdempotencyKey sk (ib_IdempotencyKey item) d = Inr (i, j)" "matchExistingInbox item (i, j) = Inr (y, n)" for i j y n
    using inboxByKey_Inr [OF that(1)] that(2) decodeInboxRow_Inr
    by (intro bexI [of _ i]) (auto simp: matchExistingInbox_def split: if_split_asm)
  have refl: "ContentBlocksEqualIgnoringID bs bs" for bs by (simp add: ContentBlocksEqualIgnoringID_iff)
  show ?thesis
    unfolding enqueueInboxLocked_def
    by (auto simp: wp wp_statements Let_def inboxRowOf_def m refl split: option.split dest: old)
qed

text \<open>What a retry of an accepted item finds in a later database.\<close>

lemma enqueue_again:
  assumes w: "wfDb t" and j: "j \<in> set (inbox t)" "iw_IdempotencyKey j = ib_IdempotencyKey retry"
    and s: "sessionKeyOf (ib_SessionID retry) t = Inr (iw_SessionKey j)"
    and "ValidateEnqueueInbox L retry limits = Inr ()"
    and "ContentBlocksEqualIgnoringID (elems (ib_Blocks (iw_Record j))) (elems (ib_Blocks retry))"
  shows "EnqueueInbox L retry limits t = (Inr (iw_Record j), t)"
proof -
  obtain n where "inboxRowByIdempotencyKey (iw_SessionKey j) (ib_IdempotencyKey retry) t = Inr (j, n)" "decodeInboxRow (j, n) = Inr (iw_Record j)"
    using inboxByKey_stored [OF w j(1) refl j(2)] by blast
  with s assms(5,6) show ?thesis
    by (simp add: EnqueueInbox_def enqueueInboxLocked_def run asConflict_def foundS_def matchExistingInbox_def)
qed

text \<open>
  C18. Enqueueing is idempotent, forever: once an item was accepted (its raw JSON written compactly, so that it is stored as it was
  given), a retry in the same session with the same idempotency key and the same content, whatever ids it gave its blocks, changes nothing in
  any later database, and returns the item accepted first, with its id and its content and the state it has reached; right after the acceptance it returns
  exactly what the first call returned. The calls are plain: their texts are valid UTF-8.
\<close>

theorem enqueue_repeats:
  assumes "plainReachable L d" and "plainCall (CEnqueueInbox item limits)"
    and "EnqueueInbox L item limits d = (Inr v, t)" and "marshalInbox item = Inr item" and "plainReaches L t t'"
    and "plainCall (CEnqueueInbox retry limits')" and "ValidateEnqueueInbox L retry limits' = Inr ()" and "ib_SessionID retry = ib_SessionID item"
    and "ib_IdempotencyKey retry = ib_IdempotencyKey item"
    and "ContentBlocksEqualIgnoringID (elems (ib_Blocks item)) (elems (ib_Blocks retry))"
  shows "\<exists>v'. EnqueueInbox L retry limits' t' = (Inr v', t') \<and> ib_ID v' = ib_ID v \<and> ib_Blocks v' = ib_Blocks v \<and> (t' = t \<longrightarrow> v' = v)"
proof -
  have r: "reachable L d" by (rule plainReachable_reachable [OF assms(1)])
  have i: "inv {} d" by (rule reachable_inv [OF r])
  have "exec L (CEnqueueInbox item limits) d = t" using assms(3) by (simp add: exec_def unitE_def run)
  then have rt: "reachable L t" using reachable.step [OF r] by metis
  have w: "wfDb t" "wfDb t'" using rt plainReaches_reachable [OF assms(5) rt] reachable_inv inv_wf by blast+
  have e: "evolves d t" "evolves t t'"
    using wpE_D [OF EnqueueInbox_calm(1) [OF i] assms(3)] reaches_evolves [OF plainReaches_reaches [OF assms(5)] rt] by (auto dest: calm_evolves)
  have "wpE (EnqueueInbox L item limits) (\<lambda>v t. \<exists>sk. sessionKeyOf (ib_SessionID item) d = Inr sk \<and> (\<exists>i \<in> set (inbox t). iw_SessionKey i = sk \<and>
      iw_IdempotencyKey i = ib_IdempotencyKey item \<and> iw_Record i = v \<and>
      ContentBlocksEqualIgnoringID (elems (ib_Blocks v)) (elems (ib_Blocks item)))) d"
    unfolding EnqueueInbox_def
    by (auto simp: wp intro!: wpE_mono [OF enqueueInboxLocked_effect [OF inv_wf [OF i] assms(4)]])
  from wpE_D [OF this assms(3)] obtain j where sk: "sessionKeyOf (ib_SessionID item) d = Inr (iw_SessionKey j)"
    and j: "j \<in> set (inbox t)" "iw_IdempotencyKey j = ib_IdempotencyKey item" "iw_Record j = v"
      "ContentBlocksEqualIgnoringID (elems (ib_Blocks v)) (elems (ib_Blocks item))" by blast
  have same: "ContentBlocksEqualIgnoringID (elems (ib_Blocks v)) (elems (ib_Blocks retry))"
    using j(4) assms(10) by (simp add: ContentBlocksEqualIgnoringID_iff)
  have key: "sessionKeyOf (ib_SessionID retry) u = Inr (iw_SessionKey j)" if "wfDb u" "evolves d u" for u
    using sessionKeyOf_iff [OF that(1)] sessionKeyOf_has [OF sk] evolves_has(1) [OF that(2)] assms(8) by simp
  have "grows inboxStep (inbox t) (inbox t')" using e(2) by (simp add: evolves_def)
  from inboxOrder.grows_mem [OF this j(1)] obtain j' where j': "j' \<in> set (inbox t')" "inboxStep j j'" ..
  then have k: "iw_ID j' = iw_ID j" "iw_SessionKey j' = iw_SessionKey j" "iw_IdempotencyKey j' = iw_IdempotencyKey j"
    "ib_Blocks (iw_Record j') = ib_Blocks v" using j(3) by (auto simp: inboxStep_def)
  have "ib_ID (iw_Record j') = ib_ID v"
    using wf_rows(9) [OF w(1) j(1)] wf_rows(9) [OF w(2) j'(1)] k(1) j(3) by (simp add: inboxOK_def Let_def)
  moreover have "EnqueueInbox L retry limits' t' = (Inr (iw_Record j'), t')"
    by (rule enqueue_again [OF w(2) j'(1)]) (use k j key [OF w(2) evolves_trans [OF e]] assms(7,9) same in simp_all)
  moreover have "EnqueueInbox L retry limits' t = (Inr v, t)"
    using enqueue_again [OF w(1) j(1), of retry L limits'] j(2,3) key [OF w(1) e(1)] assms(7,9) same by simp
  ultimately show ?thesis using k(4) by auto
qed

lemma demo_enqueue: "\<exists>v. EnqueueInbox demoLibs demoItem DefaultContentLimits (demoDb 2) = (Inr v, demoDb 3)"
  using demo_ok [of 2] by (simp add: demoCalls_def unitE_Inr)

theorem enqueue_repeats_witness: "\<exists>v. EnqueueInbox demoLibs demoItem DefaultContentLimits (demoDb 10) = (Inr v, demoDb 10)"
proof -
  obtain v where v: "EnqueueInbox demoLibs demoItem DefaultContentLimits (demoDb 2) = (Inr v, demoDb 3)" using demo_enqueue by blast
  have "ValidateEnqueueInbox demoLibs demoItem DefaultContentLimits = Inr ()"
    using v by (auto simp: EnqueueInbox_def run split: sum.split_asm)
  moreover have "marshalInbox demoItem = Inr demoItem"
    by (simp add: marshalInbox_def demoItem_def marshalBlock_def optMap_def zeroBlock_def)
  moreover have "plainCall (CEnqueueInbox demoItem DefaultContentLimits)" using demo_calls_plain by (simp add: demoCalls_def)
  moreover have "plainReaches demoLibs (demoDb 3) (demoDb 10)" by (rule demo_plainReaches) simp
  ultimately show ?thesis
    using enqueue_repeats [OF demo_plain _ v, of "demoDb 10" demoItem DefaultContentLimits] by (auto simp: ContentBlocksEqualIgnoringID_iff)
qed

text \<open>
  A run that has finished takes no more input: enqueueing a valid item for it fails with
  \<open>ErrRunClosed\<close> and changes nothing, so the caller knows to start a new run.
\<close>

theorem closed_run_takes_no_input:
  assumes "reachable L d" and "r \<in> set (runs d)" and "\<not> activeStatus (rw_Status r)" and "rw_ID r \<noteq> []"
    and "ValidateEnqueueInbox L item limits = Inr ()" and "ib_SessionID item = r_SessionID (rw_Record r)"
  shows "EnqueueInboxForRun L (rw_ID r) item limits d = (Inl ErrRunClosed, d)"
proof -
  have w: "wfDb d" using reachable_inv [OF assms(1)] by (rule inv_wf)
  obtain j where j: "lockRun (rw_ID r) d = Inr (r, j)" "decodeRunRow (r, j) = Inr (runOf r)" using lockRun_stored [OF w assms(2)] by blast
  have "runCheck r" using wfD(2) [OF w] assms(2) by (simp add: tableWf_def)
  then have "Terminal (runOf r)"
    using assms(3) runOf_sel(2) [OF wf_rows(2) [OF w assms(2)]] by (auto simp: Terminal_def activeStatus_def runCheck_def split: RunStatus.split_asm)
  with j assms(4-6) show ?thesis by (simp add: EnqueueInboxForRun_def run runOf_def)
qed

theorem closed_run_takes_no_input_witness:
  "EnqueueInboxForRun demoLibs ''r'' demoItem DefaultContentLimits (demoDb 10) = (Inl ErrRunClosed, demoDb 10)"
proof -
  obtain r where r: "runs (demoDb 10) = [r]" "rw_ID r = ''r''" "\<not> activeStatus (rw_Status r)"
    using demo_rows(10,11) by (auto simp: map_eq_Cons_conv activeStatus_def)
  have "ib_SessionID demoItem = r_SessionID (rw_Record r)" using r(1) demo_sessions(2) by (simp add: demoItem_def)
  moreover have "ValidateEnqueueInbox demoLibs demoItem DefaultContentLimits = Inr ()"
    using demo_enqueue by (auto simp: EnqueueInbox_def run split: sum.split_asm)
  ultimately show ?thesis using closed_run_takes_no_input [OF demo_reachable _ r(3)] r by simp
qed

section \<open>One run per session\<close>

text \<open>
  A session that has a pending, running or paused run is busy: admitting another run
  fails with \<open>ErrSessionBusy\<close> and changes nothing.
\<close>

theorem busy_session_refuses_run:
  assumes "reachable L d" and "r \<in> set (runs d)" and "activeStatus (rw_Status r)"
    and "r_SessionID v = r_SessionID (rw_Record r)" and "r_ID v \<notin> rw_ID ` set (runs d)"
    and "r_ID v \<noteq> []" and "r_SessionID v \<noteq> []" and "r_ClaimToken v \<noteq> []" and "0 < lease"
  shows "AdmitRun now v lease d = (Inl ErrSessionBusy, d)"
proof -
  have w: "wfDb d" using reachable_inv [OF assms(1)] by (rule inv_wf)
  have ok: "runOK d r" using wf_rows(2) [OF w assms(2)] .
  have "rw_ID (fst q) \<noteq> r_ID v" if "q \<in> set (runQuery d)" for q
    using that assms(5) set_runQuery [of "fst q" "snd q" d] by (metis imageI prod.collapse)
  then have g: "getRun (r_ID v) d = Inl ErrNotFound" by (simp add: getRun_def take1_def filter_empty_conv)
  have s: "sessionKeyOf (r_SessionID v) d = Inr (rw_SessionKey r)"
    using ok assms(4) sessionKeyOf_iff [OF w] by (simp add: runOK_def Let_def)
  have a: "activeRun (r_SessionID v) d = Inr (runOf r)" using activeRun_stored [OF w] assms(2-4) by auto
  have n: "r_ID (runOf r) \<noteq> r_ID v" using runOf_sel(1) [OF ok] assms(2,5) by (metis imageI)
  show ?thesis using assms(6-9) g s a n by (simp add: AdmitRun_def run foundS_def asConflict_def)
qed

theorem busy_session_refuses_run_witness:
  "AdmitRun 0 (demoRun\<lparr>r_ID := ''r2''\<rparr>) 1000 (demoDb 2) = (Inl ErrSessionBusy, demoDb 2)"
proof -
  obtain r where r: "runs (demoDb 2) = [r]" "rw_ID r = ''r''" "activeStatus (rw_Status r)"
    using demo_rows(1,3) by (auto simp: map_eq_Cons_conv activeStatus_def)
  then have "r_SessionID (rw_Record r) = ''s''" using demo_sessions(1) by simp
  then show ?thesis by (intro busy_session_refuses_run [OF demo_reachable, of r]) (use r in \<open>simp_all add: demoRun_def\<close>)
qed

section \<open>One claimant per tool call\<close>

text \<open>
  C19. A running tool call belongs to whoever claimed it: a claim under another name or another
  token is refused and changes nothing, so two workers never execute the same call.
\<close>

theorem running_tool_has_one_claimant:
  assumes "reachable L d" and "c \<in> set (tool_calls d)" and "tw_ID c = kq_ID q" and "tw_Status c = ToolCallRunning"
    and "tw_ClaimedBy c \<noteq> kq_ClaimedBy q \<or> tw_ClaimToken c \<noteq> kq_ClaimToken q"
  shows "\<exists>e. ClaimToolCall now f q d = (Inl e, d)"
proof -
  have i: "inv {} d" by (rule reachable_inv [OF assms(1)])
  have ok: "toolOK d c" using wf_rows(5) [OF inv_wf [OF i] assms(2)] .
  have g: "GetToolCall (kq_ID q) d = Inr (tw_Record c)" using GetToolCall_ok [OF inv_wf [OF i] assms(2)] assms(3) by simp
  have t: "tc_Status (tw_Record c) = ToolCallRunning" "tc_ClaimedBy (tw_Record c) = tw_ClaimedBy c" "tc_ClaimToken (tw_Record c) = tw_ClaimToken c"
    using ok assms(4) by (simp_all add: toolOK_def Let_def)
  have "wpE (ClaimToolCall now f q) (\<lambda>_ _. False) d"
    unfolding ClaimToolCall_def Let_def
    using assms(5) t
    by (auto simp: wp g SameToolTransitionState_def asConflict_def split: sum.split intro!: withFence_keeps [OF i])
  moreover have "failSafe (ClaimToolCall now f q)" unfolding ClaimToolCall_def by (intro failSafe_intros) simp_all
  ultimately show ?thesis
    by (cases "ClaimToolCall now f q d") (auto simp: wpE_def failSafe_def split: sum.split_asm)
qed

theorem running_tool_has_one_claimant_witness: "\<exists>e. ClaimToolCall 4 demoFence (toolClaim ''w2'') toolDb = (Inl e, toolDb)"
proof -
  obtain c where "tool_calls toolDb = [c]" "tw_ID c = ''c''" "tw_Status c = ToolCallRunning" "tw_ClaimedBy c = ''w''"
    using toolDb_call by (auto simp: map_eq_Cons_conv)
  moreover have "reachable demoLibs toolDb" unfolding toolDb_def by (intro reachable_fold reachable.start)
  ultimately show ?thesis by (intro running_tool_has_one_claimant [of demoLibs toolDb c]) (simp_all add: toolClaim_def)
qed

section \<open>Taking over\<close>

lemma filter_updateWhere:
  assumes "\<And>r. P r \<Longrightarrow> A r \<and> A (f r)"
  shows "filter A (updateWhere P f rs) = updateWhere P f (filter A rs)"
  using assms by (induction rs) (auto simp: updateWhere_def)

lemma updateRuns_ok:
  assumes w: "wfDb d"
    and f: "\<And>r. rw_ID (f r) = rw_ID r" "\<And>r. rw_SessionKey (f r) = rw_SessionKey r"
    and st: "\<And>r. P r \<Longrightarrow> activeStatus (rw_Status r)" "\<And>r. activeStatus (rw_Status (f r))"
  shows "updateRuns P f d = (Inr (countWhere P (runs d)), runs_update (updateWhere P f) d)"
proof -
  have c: "list_all runCheck (runs d)" "runsUnique (runs d)" using wfD(2) [OF w] by (simp_all add: tableWf_def list_all_iff)
  have "runCheck (f r)" for r using st(2) [of r] by (auto simp: activeStatus_def runCheck_def)
  then have "list_all runCheck (updateWhere P f (runs d))" using c(1) by (auto simp: list_all_iff set_updateWhere)
  moreover have "filter (\<lambda>r. activeStatus (rw_Status r)) (updateWhere P f (runs d)) = updateWhere P f (filter (\<lambda>r. activeStatus (rw_Status r)) (runs d))"
    by (rule filter_updateWhere) (use st in blast)
  then have "runsUnique (updateWhere P f (runs d))" using c(2) f by (simp add: runsUnique_def map_updateWhere)
  ultimately show ?thesis by (simp add: updateRuns_def updateT_def run)
qed

text \<open>The write of a claim on a stored run, and that it takes effect on every run its condition selects.\<close>

abbreviation claimWrite :: "RunClaim \<Rightarrow> int \<Rightarrow> runRow \<Rightarrow> runRow \<Rightarrow> runRow" where
  "claimWrite c now r \<equiv> \<lambda>s. s\<lparr>rw_Status := RunRunning, rw_OwnerID := c_OwnerID c, rw_ClaimToken := c_ClaimToken c,
    rw_Record := (runOf r)\<lparr>r_Status := RunRunning, r_OwnerID := c_OwnerID c, r_ClaimToken := c_ClaimToken c\<rparr>,
    rw_LeaseUntil := now + durationMicros (c_LeaseDuration c)\<rparr>"

lemma claimWrite_takes_effect:
  assumes i: "inv {} d" and r: "r \<in> set (runs d)" and id: "rw_ID r = c_RunID c"
    and P: "\<And>s. P s \<Longrightarrow> rw_RowKey s = rw_RowKey r \<and> activeStatus (rw_Status s)" "P r"
  shows "\<exists>v. getRun (c_RunID c) (runs_update (updateWhere P (claimWrite c now r)) d) = Inr v" and "countWhere P (runs d) \<noteq> 0"
    and "updateRuns P (claimWrite c now r) d = (Inr (countWhere P (runs d)), runs_update (updateWhere P (claimWrite c now r)) d)"
proof -
  let ?w = "claimWrite c now r"
  show u: "updateRuns P ?w d = (Inr (countWhere P (runs d)), runs_update (updateWhere P ?w) d)"
    by (rule updateRuns_ok [OF inv_wf [OF i]]) (use P in \<open>simp_all add: activeStatus_def\<close>)
  have "wpE (updateRuns P ?w) (\<lambda>_. keeps {} d) d"
    by (rule wpE_mono, rule updateRun_keeps [OF i r], use P in blast) (auto simp: runOK_def Let_def runOf_def activeStatus_def)
  from wpE_D [OF this u] have wt: "wfDb (runs_update (updateWhere P ?w) d)" using keeps_inv inv_wf by blast
  have "?w r \<in> set (runs (runs_update (updateWhere P ?w) d))" using updateWhere_mem [OF r, of P ?w] P(2) by simp
  from getRun_stored [OF wt this] show "\<exists>v. getRun (c_RunID c) (runs_update (updateWhere P ?w) d) = Inr v" using id by auto
  show "countWhere P (runs d) \<noteq> 0" using r P(2) by auto
qed

text \<open>
  C20. Work is never stuck with a lost worker: a run that is paused, or whose lease has expired,
  can be claimed, whatever plain calls and transactions led to the database, by a worker whose name and token are not empty and valid UTF-8.
\<close>

theorem abandoned_run_can_be_claimed:
  assumes "plainReachable L d" and "plainCall (CClaimRun now c)" and "r \<in> set (runs d)" and "rw_ID r = c_RunID c"
    and "rw_Status r = RunPaused \<or> liveStatus (rw_Status r) \<and> rw_LeaseUntil r \<le> now"
    and "c_RunID c \<noteq> []" and "c_OwnerID c \<noteq> []" and "c_ClaimToken c \<noteq> []" and "0 < c_LeaseDuration c"
  shows "\<exists>v t. ClaimRun now c d = (Inr v, t)"
proof -
  have i: "inv {} d" by (rule reachable_inv [OF plainReachable_reachable [OF assms(1)]])
  have w: "wfDb d" using i by (rule inv_wf)
  obtain j where j: "lockRun (c_RunID c) d = Inr (r, j)" "decodeRunRow (r, j) = Inr (runOf r)" using lockRun_stored [OF w assms(3)] assms(4) by auto
  note upd = claimWrite_takes_effect [OF i assms(3,4)]
  have s: "r_Status (runOf r) = rw_Status r" using runOf_sel(2) [OF wf_rows(2) [OF w assms(3)]] .
  show ?thesis
  proof (cases "rw_Status r = RunPaused")
    case True
    let ?P = "\<lambda>s. rw_RowKey s = rw_RowKey r \<and> rw_Status s = RunPaused"
    from upd(1,3) [where P = ?P and now = now] upd(2) [of ?P] True obtain v where
      "getRun (c_RunID c) (runs_update (updateWhere ?P (claimWrite c now r)) d) = Inr v"
      "updateRuns ?P (claimWrite c now r) d = (Inr (countWhere ?P (runs d)), runs_update (updateWhere ?P (claimWrite c now r)) d)"
      "countWhere ?P (runs d) \<noteq> 0" by (auto simp: activeStatus_def)
    then show ?thesis using j s True assms(6-9) by (simp add: ClaimRun_def run asConflict_def Let_def del: countWhere_0)
  next
    case False
    let ?P = "\<lambda>s. rw_RowKey s = rw_RowKey r \<and> liveStatus (rw_Status s) \<and> rw_LeaseUntil s \<le> now"
    from upd(1,3) [where P = ?P and now = now] upd(2) [of ?P] False assms(5) obtain v where
      "getRun (c_RunID c) (runs_update (updateWhere ?P (claimWrite c now r)) d) = Inr v"
      "updateRuns ?P (claimWrite c now r) d = (Inr (countWhere ?P (runs d)), runs_update (updateWhere ?P (claimWrite c now r)) d)"
      "countWhere ?P (runs d) \<noteq> 0" by (auto simp: live_active)
    then show ?thesis using j s False assms(6-9) by (simp add: ClaimRun_def run asConflict_def Let_def del: countWhere_0)
  qed
qed

theorem abandoned_run_can_be_claimed_witness: "\<exists>v t. ClaimRun 5 demoClaim (demoDb 6) = (Inr v, t)"
proof -
  obtain r where "runs (demoDb 6) = [r]" "rw_ID r = ''r''" "rw_Status r = RunPaused"
    using demo_rows(5,6) by (auto simp: map_eq_Cons_conv)
  moreover have "plainCall (CClaimRun 5 demoClaim)" using demo_calls_plain by (simp add: demoCalls_def)
  ultimately show ?thesis
    by (intro abandoned_run_can_be_claimed [OF demo_plain, of _ _ r]) (simp_all add: demoClaim_def)
qed

end
