(* ===== verification/ReplayProps.thy ===== *)
theory ReplayProps
  imports HistoryProps InboxProps
begin

text \<open>
  Loading a session's history from the store page by page: the loop ends, and it has read every message of the
  session once, in the stored order, with all their parts.
\<close>

section \<open>Listing messages\<close>

lemma pair_less: "(a, b) < (c, d) \<longleftrightarrow> a < c \<or> a = c \<and> b < d" for a c :: "'a::order" and b d :: "'b::order"
  by (auto simp: less_prod_def less_le)

lemma take1_unique:
  assumes "x \<in> set xs" "P x" "\<And>y. y \<in> set xs \<Longrightarrow> P y \<Longrightarrow> y = x"
  shows "take1 (filter P xs) = Inr x"
proof (cases "filter P xs")
  case Nil
  then show ?thesis using assms(1,2) by (auto simp: filter_empty_conv)
next
  case (Cons y ys)
  then have "y \<in> set (filter P xs)" by simp
  then have "y = x" using assms(3) by simp
  then show ?thesis using Cons by (simp add: take1_def)
qed

lemma replayMessageQuery_total:
  assumes "wfDb d"
  shows "map fst (replayMessageQuery d) = messages d"
    and "q \<in> set (replayMessageQuery d) \<Longrightarrow> fst q \<in> set (messages d) \<and> DecodeAuthoritativeMessage q = Inr (mw_Record (fst q))"
proof -
  let ?f = "\<lambda>m. case (sessionByKey d (mw_SessionKey m), runByKey d (mw_RunKey m)) of (Some s, Some r) \<Rightarrow> Some (m, sw_ID s, rw_ID r) | _ \<Rightarrow> None"
  have f: "?f m = Some (m, m_SessionID (mw_Record m), m_RunID (mw_Record m))" if "m \<in> set (messages d)" for m
  proof -
    have "messageOK d m" using wf_rows(3) [OF assms that] .
    then have h: "hasSession d (mw_SessionKey m) (m_SessionID (mw_Record m))" "hasRun d (mw_RunKey m) (m_RunID (mw_Record m)) (mw_SessionKey m)"
      by (simp_all add: messageOK_def Let_def)
    show ?thesis using sessionByKey_has [OF assms h(1)] runByKey_has [OF assms h(2)] by auto
  qed
  have "map fst (List.map_filter ?f ms) = ms" if "set ms \<subseteq> set (messages d)" for ms
    using that by (induction ms) (use f in \<open>force simp: List.map_filter_simps\<close>)+
  then show "map fst (replayMessageQuery d) = messages d" by (simp add: replayMessageQuery_def)
  assume "q \<in> set (replayMessageQuery d)"
  then obtain m where m: "m \<in> set (messages d)" "?f m = Some q" by (auto simp: replayMessageQuery_def set_map_filter)
  with f [OF m(1)] have q: "q = (m, m_SessionID (mw_Record m), m_RunID (mw_Record m))" by auto
  have "messageRowMatches m (mw_Record m)" using wf_rows(3) [OF assms m(1)] by (simp add: messageOK_def Let_def)
  then show "fst q \<in> set (messages d) \<and> DecodeAuthoritativeMessage q = Inr (mw_Record (fst q))"
    using q m(1) by (auto simp: DecodeAuthoritativeMessage_def messageRowMatches_def Let_def)
qed

text \<open>A session's messages in replay order.\<close>

definition sessionMessages :: "db \<Rightarrow> int \<Rightarrow> messageRow list" where
  "sessionMessages d k = sort_key (\<lambda>m. (mw_CreatedAt m, mw_ID m)) (filter (\<lambda>m. mw_SessionKey m = k) (messages d))"

definition replayRows :: "db \<Rightarrow> int \<Rightarrow> (messageRow \<times> ID \<times> RunID) list" where
  "replayRows d k = sort_key messageOrder (filter (\<lambda>q. mw_SessionKey (fst q) = k) (replayMessageQuery d))"

lemma replayRows_fst:
  assumes "wfDb d"
  shows "map fst (replayRows d k) = sessionMessages d k"
proof -
  have "map fst (replayRows d k) = sort_key (\<lambda>m. (mw_CreatedAt m, mw_ID m)) (map fst (filter (\<lambda>q. mw_SessionKey (fst q) = k) (replayMessageQuery d)))"
    unfolding replayRows_def messageOrder_def by (rule map_sort_key)
  then show ?thesis
    unfolding sessionMessages_def replayMessageQuery_total(1) [OF assms, symmetric] by (simp add: filter_map o_def)
qed

lemma set_replayRows: "q \<in> set (replayRows d k) \<Longrightarrow> q \<in> set (replayMessageQuery d)"
  by (simp add: replayRows_def)

lemma replayRows_sorted:
  assumes "wfDb d"
  shows "sorted_wrt (\<lambda>x y. messageOrder x < messageOrder y) (replayRows d k)"
  unfolding replayRows_def
proof (rule strictly_sorted)
  have "distinct (map mw_ID (filter (\<lambda>m. mw_SessionKey m = k) (messages d)))"
    using wf_distinct(6) [OF assms] by (simp add: distinct_map_filter)
  also have "map mw_ID (filter (\<lambda>m. mw_SessionKey m = k) (messages d)) =
      map (\<lambda>q. mw_ID (fst q)) (filter (\<lambda>q. mw_SessionKey (fst q) = k) (replayMessageQuery d))"
    unfolding replayMessageQuery_total(1) [OF assms, symmetric] by (simp add: filter_map o_def)
  finally show "distinct (map messageOrder (filter (\<lambda>q. mw_SessionKey (fst q) = k) (replayMessageQuery d)))"
    by (auto simp: messageOrder_def distinct_map inj_on_def)
qed

lemma sessionMessages_set: "m \<in> set (sessionMessages d k) \<longleftrightarrow> m \<in> set (messages d) \<and> mw_SessionKey m = k"
  by (auto simp: sessionMessages_def)

text \<open>The cursor of a position: the id of the message before it.\<close>

definition replayCursorAt :: "db \<Rightarrow> int \<Rightarrow> nat \<Rightarrow> ReplayCursor" where
  "replayCursorAt d k i = \<lparr>rcu_AfterMessageID = (if i = 0 then [] else mw_ID (sessionMessages d k ! (i - 1))), rcu_Limit = 100\<rparr>"

text \<open>What \<open>loadReplayMessages\<close> finds behind a cursor.\<close>

lemma replay_beyond:
  assumes w: "wfDb d" and k: "sessionKeyOf sid d = Inr k" and i: "i \<le> length (sessionMessages d k)"
    and ne: "\<forall>m \<in> set (sessionMessages d k). mw_ID m \<noteq> []"
  obtains P where
    "(if rcu_AfterMessageID (replayCursorAt d k i) = [] then Inr (\<lambda>m. True)
      else bindS (take1 (filter (\<lambda>m. mw_ID m = rcu_AfterMessageID (replayCursorAt d k i) \<and> mw_SessionKey m = k) (messages d))) (\<lambda>after.
        Inr (\<lambda>m. mw_CreatedAt after < mw_CreatedAt m \<or>
           mw_CreatedAt after = mw_CreatedAt m \<and> rcu_AfterMessageID (replayCursorAt d k i) < mw_ID m))) = Inr P"
    "loadReplayMessages n (\<lambda>m. mw_SessionKey m = k \<and> P m) d = Inr (map mw_Record (take n (drop i (sessionMessages d k))))"
proof -
  let ?R = "replayRows d k" let ?S = "sessionMessages d k"
  have dec: "mapS DecodeAuthoritativeMessage qs = Inr (map (\<lambda>q. mw_Record (fst q)) qs)" if "set qs \<subseteq> set ?R" for qs
    by (rule mapS_Inr) (use that replayMessageQuery_total(2) [OF w] set_replayRows in blast)
  have found: "loadReplayMessages n (\<lambda>m. mw_SessionKey m = k \<and> P m) d = Inr (map mw_Record (take n (drop i ?S)))"
    if "filter (\<lambda>q. P (fst q)) ?R = drop i ?R" for P
  proof -
    have "sort_key messageOrder (filter (\<lambda>q. mw_SessionKey (fst q) = k \<and> P (fst q)) (replayMessageQuery d)) = filter (\<lambda>q. P (fst q)) ?R"
      unfolding replayRows_def filter_sort by (simp add: conj_commute)
    then have "loadReplayMessages n (\<lambda>m. mw_SessionKey m = k \<and> P m) d = mapS DecodeAuthoritativeMessage (take n (drop i ?R))"
      by (simp add: loadReplayMessages_def that)
    also have "\<dots> = Inr (map (\<lambda>q. mw_Record (fst q)) (take n (drop i ?R)))" by (rule dec) (meson set_drop_subset set_take_subset subset_trans)
    finally show ?thesis unfolding replayRows_fst [OF w, symmetric] by (simp add: take_map drop_map o_def)
  qed
  show ?thesis
  proof (cases "i = 0")
    case True
    then show ?thesis using that [of "\<lambda>m. True"] found [of "\<lambda>m. True"] by (simp add: replayCursorAt_def)
  next
    case False
    then obtain j where j: "i = Suc j" "j < length ?S" using i by (cases i) auto
    let ?a = "?S ! j"
    have a: "?a \<in> set (messages d)" "mw_SessionKey ?a = k" "mw_ID ?a \<noteq> []" using j(2) ne sessionMessages_set nth_mem by blast+
    have "take1 (filter (\<lambda>m. mw_ID m = mw_ID ?a \<and> mw_SessionKey m = k) (messages d)) = Inr ?a"
    proof -
      have "m = ?a" if "m \<in> set (messages d)" "mw_ID m = mw_ID ?a" for m using that a(1) distinct_map_eq [OF wf_distinct(6) [OF w]] by blast
      then show ?thesis using a by (intro take1_unique) auto
    qed
    moreover have R: "?R ! j \<in> set ?R" "fst (?R ! j) = ?a" "j < length ?R"
      using j(2) unfolding replayRows_fst [OF w, symmetric] by auto
    have "filter (\<lambda>q. messageOrder (?R ! j) < messageOrder q) ?R = drop i ?R"
      unfolding j(1) by (rule filter_beyond [OF replayRows_sorted [OF w] R(3)])
    then have "filter (\<lambda>q. mw_CreatedAt ?a < mw_CreatedAt (fst q) \<or> mw_CreatedAt ?a = mw_CreatedAt (fst q) \<and> mw_ID ?a < mw_ID (fst q)) ?R = drop i ?R"
      by (simp only: messageOrder_def R(2) pair_less)
    ultimately show ?thesis
      using a(3) j by (intro that [OF _ found]) (simp_all add: replayCursorAt_def)
  qed
qed

section \<open>Parts\<close>

lemma replayPartQuery_total:
  assumes "wfDb d"
  shows "map fst (replayPartQuery d) = parts d"
    and "q \<in> set (replayPartQuery d) \<Longrightarrow> fst q \<in> set (parts d) \<and> messageByKey d (pw_MessageKey (fst q)) = Some (fst (snd q)) \<and>
      DecodeAuthoritativePart (fst q, mw_ID (fst (snd q)), snd (snd q)) = Inr (pw_Record (fst q))"
proof -
  let ?f = "\<lambda>p. case (messageByKey d (pw_MessageKey p), sessionByKey d (pw_SessionKey p), runByKey d (pw_RunKey p)) of
       (Some m, Some s, Some r) \<Rightarrow> Some (p, m, sw_ID s, rw_ID r) | _ \<Rightarrow> None"
  have f: "\<exists>m. ?f p = Some (p, m, p_SessionID (pw_Record p), p_RunID (pw_Record p)) \<and> messageByKey d (pw_MessageKey p) = Some m \<and> mw_ID m = p_MessageID (pw_Record p)"
    if "p \<in> set (parts d)" for p
  proof -
    have "partOK d p" using wf_rows(4) [OF assms that] .
    then obtain role where h: "hasSession d (pw_SessionKey p) (p_SessionID (pw_Record p))" "hasRun d (pw_RunKey p) (p_RunID (pw_Record p)) (pw_SessionKey p)"
      "hasMessage d (pw_MessageKey p) (p_MessageID (pw_Record p)) (pw_SessionKey p) (pw_RunKey p) role"
      by (auto simp: partOK_def Let_def)
    from h(3) obtain m where m: "messageByKey d (pw_MessageKey p) = Some m" "mw_ID m = p_MessageID (pw_Record p)"
      unfolding messageByKey_iff [OF assms] by (auto simp: hasMessage_def)
    show ?thesis using m sessionByKey_has [OF assms h(1)] runByKey_has [OF assms h(2)] by auto
  qed
  have "map fst (List.map_filter ?f ps) = ps" if "set ps \<subseteq> set (parts d)" for ps
    using that by (induction ps) (use f in \<open>force simp: List.map_filter_simps\<close>)+
  then show "map fst (replayPartQuery d) = parts d" by (simp add: replayPartQuery_def)
  assume "q \<in> set (replayPartQuery d)"
  then obtain p where p: "p \<in> set (parts d)" "?f p = Some q" by (auto simp: replayPartQuery_def set_map_filter)
  with f [OF p(1)] obtain m where q: "q = (p, m, p_SessionID (pw_Record p), p_RunID (pw_Record p))" "messageByKey d (pw_MessageKey p) = Some m" "mw_ID m = p_MessageID (pw_Record p)"
    by auto
  have "partOK d p" using wf_rows(4) [OF assms p(1)] .
  then show "fst q \<in> set (parts d) \<and> messageByKey d (pw_MessageKey (fst q)) = Some (fst (snd q)) \<and>
      DecodeAuthoritativePart (fst q, mw_ID (fst (snd q)), snd (snd q)) = Inr (pw_Record (fst q))"
    using q p(1) by (auto simp: DecodeAuthoritativePart_def partOK_def Let_def)
qed

text \<open>The provider state of a message stays within the limits that reading enforces.\<close>

definition isStateOf :: "MessageID \<Rightarrow> Part \<Rightarrow> bool" where
  "isStateOf i p \<longleftrightarrow> p_Kind p = PartProviderState \<and> p_MessageID p = i"

definition stateBytes :: "Part list \<Rightarrow> int" where
  "stateBytes ps = sum_list (map (\<lambda>p. int (length (p_Payload p))) ps)"

definition stateFits :: "Part list \<Rightarrow> MessageID \<Rightarrow> bool" where
  "stateFits ps i \<longleftrightarrow> length (filter (isStateOf i) ps) \<le> ProviderStateHardMaxItems \<and>
     stateBytes (filter (isStateOf i) ps) \<le> ProviderStateHardMaxStoredMessageBytes"

abbreviation partOfRow :: "partRow \<times> messageRow \<times> ID \<times> RunID \<Rightarrow> Part" where
  "partOfRow q \<equiv> pw_Record (fst q)"

lemma stateBytes_nonneg: "0 \<le> stateBytes ps"
  by (induction ps) (simp_all add: stateBytes_def)

lemma collectParts_Inr:
  assumes "\<And>q. q \<in> set qs \<Longrightarrow> DecodeAuthoritativePart (fst q, mw_ID (fst (snd q)), snd (snd q)) = Inr (partOfRow q)"
  shows "collectParts qs counts sizes = Inr ps \<Longrightarrow> ps = map partOfRow qs"
  using assms
proof (induction qs arbitrary: counts sizes ps)
  case (Cons q qs)
  then have "DecodeAuthoritativePart (fst q, mw_ID (fst (snd q)), snd (snd q)) = Inr (partOfRow q)" by simp
  with Cons show ?case by (auto simp: bindS_def Let_def split: if_split_asm sum.split_asm)
qed simp

lemma collectParts_fits:
  assumes "\<And>q. q \<in> set qs \<Longrightarrow> DecodeAuthoritativePart (fst q, mw_ID (fst (snd q)), snd (snd q)) = Inr (partOfRow q)"
    and "\<And>i. counts i + length (filter (isStateOf i) (map partOfRow qs)) \<le> ProviderStateHardMaxItems"
    and "\<And>i. int (sizes i) + stateBytes (filter (isStateOf i) (map partOfRow qs)) \<le> ProviderStateHardMaxStoredMessageBytes"
  shows "collectParts qs counts sizes = Inr (map partOfRow qs)"
  using assms
proof (induction qs arbitrary: counts sizes)
  case (Cons q qs)
  let ?p = "partOfRow q" let ?o = "p_MessageID ?p"
  have dec: "DecodeAuthoritativePart (fst q, mw_ID (fst (snd q)), snd (snd q)) = Inr ?p" using Cons.prems(1) by simp
  show ?case
  proof (cases "p_Kind ?p = PartProviderState")
    case True
    then have o: "isStateOf ?o ?p" "\<And>i. isStateOf i ?p \<longleftrightarrow> i = ?o" by (auto simp: isStateOf_def)
    have c: "counts ?o < ProviderStateHardMaxItems" using Cons.prems(2) [of ?o] o(1) by simp
    have z: "int (length (p_Payload ?p)) \<le> ProviderStateHardMaxStoredMessageBytes - int (sizes ?o)"
      using Cons.prems(3) [of ?o] o(1) stateBytes_nonneg [of "filter (isStateOf ?o) (map partOfRow qs)"] by (simp add: stateBytes_def)
    have "collectParts qs (counts(?o := counts ?o + 1)) (sizes(?o := sizes ?o + length (p_Payload ?p))) = Inr (map partOfRow qs)"
    proof (rule Cons.IH)
      show "\<And>q. q \<in> set qs \<Longrightarrow> DecodeAuthoritativePart (fst q, mw_ID (fst (snd q)), snd (snd q)) = Inr (partOfRow q)" using Cons.prems(1) by simp
      show "(counts(?o := counts ?o + 1)) i + length (filter (isStateOf i) (map partOfRow qs)) \<le> ProviderStateHardMaxItems" for i
        using Cons.prems(2) [of i] o by (auto split: if_split_asm)
      show "int ((sizes(?o := sizes ?o + length (p_Payload ?p))) i) + stateBytes (filter (isStateOf i) (map partOfRow qs)) \<le> ProviderStateHardMaxStoredMessageBytes" for i
        using Cons.prems(3) [of i] o by (auto simp: stateBytes_def split: if_split_asm)
    qed
    then show ?thesis using True dec c z by (simp add: Let_def)
  next
    case False
    then have o: "\<not> isStateOf i ?p" for i by (simp add: isStateOf_def)
    have "collectParts qs counts sizes = Inr (map partOfRow qs)"
      by (rule Cons.IH) (use Cons.prems o in \<open>simp_all\<close>)
    then show ?thesis using False dec by simp
  qed
qed simp

text \<open>The parts of some messages.\<close>

definition partsOfRows :: "db \<Rightarrow> messageRow list \<Rightarrow> partRow list" where
  "partsOfRows d rows = filter (\<lambda>p. pw_MessageKey p \<in> mw_RowKey ` set rows) (parts d)"

lemma messageKeyOf_stored: "wfDb d \<Longrightarrow> m \<in> set (messages d) \<Longrightarrow> messageKeyOf (mw_ID m) d = Inr (mw_RowKey m)"
  unfolding messageKeyOf_def keyIn_def
  using distinct_map_eq [OF wf_distinct(6)] by (auto simp: find_None_iff split: option.split dest!: find_SomeD)

lemma stateFits_mono: "length (filter P (map f (filter Q xs))) \<le> length (filter P (map f xs))" "stateBytes (filter P (map f (filter Q xs))) \<le> stateBytes (filter P (map f xs))"
  by (induction xs) (auto simp: stateBytes_def)

lemma stateBytes_sum_mset: "stateBytes (filter P xs) = (\<Sum>p \<in># filter_mset P (mset xs). int (length (p_Payload p)))"
  by (simp add: stateBytes_def sum_mset_sum_list [symmetric])

lemma state_mset:
  assumes "mset xs = mset ys"
  shows "length (filter P xs) = length (filter P ys)" "stateBytes (filter P xs) = stateBytes (filter P ys)"
proof -
  have "mset (filter P xs) = mset (filter P ys)" by (simp add: assms)
  then show "length (filter P xs) = length (filter P ys)" by (rule mset_eq_length)
  show "stateBytes (filter P xs) = stateBytes (filter P ys)" by (simp only: stateBytes_sum_mset assms)
qed

lemma loadReplayParts_rows:
  assumes w: "wfDb d" and r: "set rows \<subseteq> set (messages d)" "rows \<noteq> []"
  shows "loadReplayParts (map mw_ID rows) d = Inr ps \<Longrightarrow> mset ps = mset (map pw_Record (partsOfRows d rows))"
    and "(\<And>i. stateFits (map pw_Record (parts d)) i) \<Longrightarrow> \<exists>ps. loadReplayParts (map mw_ID rows) d = Inr ps"
proof -
  let ?Q = "sort_key partOrder (filter (\<lambda>q. pw_MessageKey (fst q) \<in> mw_RowKey ` set rows) (replayPartQuery d))"
  have keys: "mapS (\<lambda>i. messageKeyOf i d) (map mw_ID rows) = Inr (map mw_RowKey rows)"
    using r(1) by (induction rows) (auto simp: messageKeyOf_stored [OF w])
  have load: "loadReplayParts (map mw_ID rows) d = collectParts ?Q (\<lambda>_. 0) (\<lambda>_. 0)" using r(2) keys by (simp add: loadReplayParts_def)
  have dec: "\<And>q. q \<in> set ?Q \<Longrightarrow> DecodeAuthoritativePart (fst q, mw_ID (fst (snd q)), snd (snd q)) = Inr (partOfRow q)"
    using replayPartQuery_total(2) [OF w] by auto
  have "mset (map fst ?Q) = mset (map fst (filter (\<lambda>q. pw_MessageKey (fst q) \<in> mw_RowKey ` set rows) (replayPartQuery d)))" by simp
  also have "map fst (filter (\<lambda>q. pw_MessageKey (fst q) \<in> mw_RowKey ` set rows) (replayPartQuery d)) = partsOfRows d rows"
    unfolding partsOfRows_def replayPartQuery_total(1) [OF w, symmetric] by (simp add: filter_map o_def)
  finally have "mset (map pw_Record (map fst ?Q)) = mset (map pw_Record (partsOfRows d rows))" by (simp only: mset_map)
  then have m: "mset (map partOfRow ?Q) = mset (map pw_Record (partsOfRows d rows))" by (simp add: o_def)
  show "loadReplayParts (map mw_ID rows) d = Inr ps \<Longrightarrow> mset ps = mset (map pw_Record (partsOfRows d rows))"
    using collectParts_Inr [OF dec] m unfolding load by blast
  assume f: "\<And>i. stateFits (map pw_Record (parts d)) i"
  have "collectParts ?Q (\<lambda>_. 0) (\<lambda>_. 0) = Inr (map partOfRow ?Q)"
  proof (rule collectParts_fits [OF dec])
    fix i
    have "length (filter (isStateOf i) (map partOfRow ?Q)) = length (filter (isStateOf i) (map pw_Record (partsOfRows d rows)))"
      by (rule state_mset(1) [OF m])
    also have "\<dots> \<le> ProviderStateHardMaxItems"
      unfolding partsOfRows_def by (rule order_trans [OF stateFits_mono(1)]) (use f [of i] in \<open>simp add: stateFits_def\<close>)
    finally show "0 + length (filter (isStateOf i) (map partOfRow ?Q)) \<le> ProviderStateHardMaxItems" by simp
    have "stateBytes (filter (isStateOf i) (map partOfRow ?Q)) \<le> ProviderStateHardMaxStoredMessageBytes"
      unfolding state_mset(2) [OF m] partsOfRows_def by (rule order_trans [OF stateFits_mono(2)]) (use f [of i] in \<open>simp add: stateFits_def\<close>)
    then show "int 0 + stateBytes (filter (isStateOf i) (map partOfRow ?Q)) \<le> ProviderStateHardMaxStoredMessageBytes" by simp
  qed
  then show "\<exists>ps. loadReplayParts (map mw_ID rows) d = Inr ps" unfolding load by blast
qed

lemma partsOfRows_append:
  assumes "distinct (map mw_RowKey (xs @ ys))"
  shows "mset (partsOfRows d (xs @ ys)) = mset (partsOfRows d xs) + mset (partsOfRows d ys)"
proof -
  have "mw_RowKey ` set xs \<inter> mw_RowKey ` set ys = {}" using assms by auto
  then have "mset (filter (\<lambda>p. pw_MessageKey p \<in> mw_RowKey ` set xs \<union> mw_RowKey ` set ys) ps) =
      mset (filter (\<lambda>p. pw_MessageKey p \<in> mw_RowKey ` set xs) ps) + mset (filter (\<lambda>p. pw_MessageKey p \<in> mw_RowKey ` set ys) ps)" for ps
    by (induction ps) auto
  then show ?thesis by (simp add: partsOfRows_def image_Un)
qed

section \<open>One page\<close>

lemma ListMessages_at:
  assumes w: "wfDb d" and k: "sessionKeyOf sid d = Inr k" and i: "i \<le> length (sessionMessages d k)"
    and ne: "\<forall>m \<in> set (sessionMessages d k). mw_ID m \<noteq> []"
  defines "rows \<equiv> take 100 (drop i (sessionMessages d k))"
  shows "ListMessages sid (replayCursorAt d k i) d = Inr p \<Longrightarrow> rb_Messages p = map mw_Record rows \<and>
      nextReplay p = (if i + 100 < length (sessionMessages d k) then Some (replayCursorAt d k (i + 100)) else None) \<and>
      mset (rb_Parts p) = mset (map pw_Record (partsOfRows d rows)) \<and> rb_PartOwnerMessageIDs p = map p_MessageID (rb_Parts p)"
    and "(\<And>i. stateFits (map pw_Record (parts d)) i) \<Longrightarrow> \<exists>p. ListMessages sid (replayCursorAt d k i) d = Inr p"
proof -
  let ?S = "sessionMessages d k" let ?c = "replayCursorAt d k i"
  obtain P where P: "(if rcu_AfterMessageID ?c = [] then Inr (\<lambda>m. True)
      else bindS (take1 (filter (\<lambda>m. mw_ID m = rcu_AfterMessageID ?c \<and> mw_SessionKey m = k) (messages d))) (\<lambda>after.
        Inr (\<lambda>m. mw_CreatedAt after < mw_CreatedAt m \<or> mw_CreatedAt after = mw_CreatedAt m \<and> rcu_AfterMessageID ?c < mw_ID m))) = Inr P"
    "loadReplayMessages (100 + 1) (\<lambda>m. mw_SessionKey m = k \<and> P m) d = Inr (map mw_Record (take (100 + 1) (drop i ?S)))"
    by (rule replay_beyond [OF w k i ne])
  have lim: "replayLimit (rcu_Limit ?c) = 100" by (simp add: replayCursorAt_def replayLimit_def)
  have S: "set ?S \<subseteq> set (messages d)" using sessionMessages_set by blast
  have ids: "m_ID (mw_Record m) = mw_ID m" if "m \<in> set ?S" for m
    using wf_rows(3) [OF w] that S by (auto simp: messageOK_def messageRowMatches_def Let_def)
  have rows: "set rows \<subseteq> set ?S" unfolding rows_def by (meson set_drop_subset set_take_subset subset_trans)
  let ?more = "i + 100 < length ?S"
  let ?next = "if ?more then replayCursorAt d k (i + 100) else zeroReplayCursor"
  have more: "100 < length (take (100 + 1) (drop i ?S)) \<longleftrightarrow> ?more" by auto
  have t: "(if ?more then take 100 (map mw_Record (take (100 + 1) (drop i ?S))) else map mw_Record (take (100 + 1) (drop i ?S))) = map mw_Record rows"
    by (auto simp: rows_def take_map)
  have n: "(if ?more then \<lparr>rcu_AfterMessageID = m_ID (map mw_Record (take (100 + 1) (drop i ?S)) ! (100 - 1)), rcu_Limit = int 100\<rparr> else zeroReplayCursor) = ?next"
    using ids [of "?S ! (i + 99)"] by (simp add: replayCursorAt_def add.commute)
  have list: "ListMessages sid ?c d = (if rows = [] then Inr \<lparr>rb_Messages = [], rb_Parts = [], rb_PartOwnerMessageIDs = [], rb_Next = ?next\<rparr>
      else bindS (loadReplayParts (map mw_ID rows) d) (\<lambda>ps. Inr \<lparr>rb_Messages = map mw_Record rows, rb_Parts = ps, rb_PartOwnerMessageIDs = map p_MessageID ps, rb_Next = ?next\<rparr>))"
  proof -
    have "map m_ID (map mw_Record rows) = map mw_ID rows" using ids rows by auto
    then show ?thesis
      unfolding ListMessages_def lim Let_def k bindS_simps P length_map more t n by (cases "rows = []") (simp_all del: map_map)
  qed
  have nz: "nextReplay p = (if ?more then Some (replayCursorAt d k (i + 100)) else None)" if "rb_Next p = ?next" for p
    using that by (simp add: nextReplay_def replayCursorAt_def zeroReplayCursor_def)
  show "rb_Messages p = map mw_Record rows \<and> nextReplay p = (if ?more then Some (replayCursorAt d k (i + 100)) else None) \<and>
      mset (rb_Parts p) = mset (map pw_Record (partsOfRows d rows)) \<and> rb_PartOwnerMessageIDs p = map p_MessageID (rb_Parts p)"
    if page: "ListMessages sid ?c d = Inr p"
  proof (cases "rows = []")
    case True
    then show ?thesis using page nz unfolding list by (auto simp: partsOfRows_def)
  next
    case False
    then obtain ps where "loadReplayParts (map mw_ID rows) d = Inr ps" "p = \<lparr>rb_Messages = map mw_Record rows, rb_Parts = ps, rb_PartOwnerMessageIDs = map p_MessageID ps, rb_Next = ?next\<rparr>"
      using page unfolding list by auto
    then show ?thesis using loadReplayParts_rows(1) [OF w _ False] rows S nz by auto
  qed
  show "\<exists>p. ListMessages sid ?c d = Inr p" if fits: "\<And>i. stateFits (map pw_Record (parts d)) i"
  proof (cases "rows = []")
    case False
    then obtain ps where "loadReplayParts (map mw_ID rows) d = Inr ps"
      using loadReplayParts_rows(2) [OF w subset_trans [OF rows S] False fits] by blast
    then show ?thesis using False unfolding list by simp
  qed (simp add: list)
qed

section \<open>The whole history\<close>

lemma sessionParts:
  assumes "wfDb d"
  shows "mset (partsOfRows d (sessionMessages d k)) = mset (filter (\<lambda>p. pw_SessionKey p = k) (parts d))"
proof -
  have "pw_MessageKey p \<in> mw_RowKey ` set (sessionMessages d k) \<longleftrightarrow> pw_SessionKey p = k" if "p \<in> set (parts d)" for p
  proof -
    have "partOK d p" using wf_rows(4) [OF assms that] .
    then obtain m where m: "m \<in> set (messages d)" "mw_RowKey m = pw_MessageKey p" "mw_SessionKey m = pw_SessionKey p"
      by (auto simp: partOK_def Let_def hasMessage_def)
    have u: "m' = m" if "m' \<in> set (messages d)" "mw_RowKey m' = pw_MessageKey p" for m'
      by (rule distinct_map_eq [OF wf_distinct(5) [OF assms] that(1) m(1)]) (simp add: that(2) m(2))
    show ?thesis
    proof
      assume "pw_MessageKey p \<in> mw_RowKey ` set (sessionMessages d k)"
      then obtain m' where "pw_MessageKey p = mw_RowKey m'" "m' \<in> set (messages d)" "mw_SessionKey m' = k"
        unfolding image_iff sessionMessages_set Bex_def by (elim exE conjE)
      with u [of m'] m(3) show "pw_SessionKey p = k" by simp
    next
      assume "pw_SessionKey p = k"
      then have "m \<in> set (sessionMessages d k)" using m by (simp add: sessionMessages_set)
      then show "pw_MessageKey p \<in> mw_RowKey ` set (sessionMessages d k)" unfolding m(2) [symmetric] by (rule imageI)
    qed
  qed
  then show ?thesis unfolding partsOfRows_def by (intro arg_cong [where f = mset] filter_cong) simp_all
qed

text \<open>The body of the loading loop, and what it has collected after \<open>i\<close> messages.\<close>

abbreviation gatherBatch :: "Message list \<times> Part list \<times> MessageID list \<Rightarrow> ReplayBatch \<Rightarrow> err + Message list \<times> Part list \<times> MessageID list" where
  "gatherBatch \<equiv> \<lambda>(ms, ps, os) batch. bindP (ResolveReplayPartOwners (rb_Parts batch) (rb_PartOwnerMessageIDs batch)) (\<lambda>owners.
            Inr (ms @ rb_Messages batch, ps @ rb_Parts batch, os @ owners))"

abbreviation loadedTo :: "db \<Rightarrow> int \<Rightarrow> nat \<Rightarrow> Message list \<times> Part list \<times> MessageID list \<Rightarrow> bool" where
  "loadedTo d k i \<equiv> \<lambda>(ms, ps, os). ms = take i (map mw_Record (sessionMessages d k)) \<and>
     mset ps = mset (map pw_Record (partsOfRows d (take i (sessionMessages d k)))) \<and> os = map p_MessageID ps"

lemma own_owners: "ResolveReplayPartOwners (rb_Parts p) (map p_MessageID (rb_Parts p)) = Inr (map p_MessageID (rb_Parts p))"
  by (simp add: ResolveReplayPartOwners_def)

lemma gather_step:
  assumes w: "wfDb d" and k: "sessionKeyOf sid d = Inr k" and ne: "\<forall>m \<in> set (sessionMessages d k). mw_ID m \<noteq> []"
    and i: "i \<le> length (map mw_Record (sessionMessages d k))" and s: "loadedTo d k i s" and f: "ListMessages sid (replayCursorAt d k i) d = Inr p"
    and m: "rb_Messages p = take 100 (drop i (map mw_Record (sessionMessages d k)))" and t: "gatherBatch s p = Inr t"
  shows "loadedTo d k (min (i + 100) (length (map mw_Record (sessionMessages d k)))) t"
proof -
  let ?S = "sessionMessages d k" let ?all = "map mw_Record ?S"
  have p: "mset (rb_Parts p) = mset (map pw_Record (partsOfRows d (take 100 (drop i ?S))))" "rb_PartOwnerMessageIDs p = map p_MessageID (rb_Parts p)"
    using ListMessages_at(1) [OF w k _ ne f] i by simp_all
  have "distinct (map mw_RowKey ?S)"
    using wf_distinct(5) [OF w] by (simp add: sessionMessages_def distinct_map distinct_map_filter inj_on_def)
  then have "distinct (map mw_RowKey (take (i + 100) ?S))" by (simp add: distinct_take take_map [symmetric])
  then have "mset (partsOfRows d (take (i + 100) ?S)) = mset (partsOfRows d (take i ?S)) + mset (partsOfRows d (take 100 (drop i ?S)))"
    unfolding take_add by (rule partsOfRows_append)
  moreover have "take (min (i + 100) (length ?all)) ?all = take i ?all @ take 100 (drop i ?all)" "take (min (i + 100) (length ?all)) ?S = take (i + 100) ?S"
    by (simp_all add: take_add min_def)
  ultimately show ?thesis using s m t p own_owners [of p] by (cases s; cases t) (auto simp: image_mset_union)
qed

lemma history_drains:
  assumes w: "wfDb d" and k: "sessionKeyOf sid d = Inr k" and ne: "\<forall>m \<in> set (sessionMessages d k). mw_ID m \<noteq> []"
  shows "\<exists>r. drain (\<lambda>c. ListMessages sid c d) nextReplay gatherBatch ([], [], []) (replayCursorAt d k 0) = Some r \<and>
    (\<forall>t. r = Inr t \<longrightarrow> loadedTo d k (length (sessionMessages d k)) t) \<and>
    ((\<forall>i. stateFits (map pw_Record (parts d)) i) \<longrightarrow> (\<exists>t. r = Inr t))"
proof -
  let ?S = "sessionMessages d k" let ?fetch = "\<lambda>c. ListMessages sid c d"
  note page = ListMessages_at [OF w k _ ne]
  have pages: "pagesOf ?fetch nextReplay rb_Messages (replayCursorAt d k) 100 (map mw_Record ?S)"
    using page(1) by (auto simp: pagesOf_def take_map drop_map)
  have ok: "\<exists>p t. ?fetch (replayCursorAt d k i) = Inr p \<and> gatherBatch s p = Inr t"
    if fits: "\<forall>i. stateFits (map pw_Record (parts d)) i" and i: "i \<le> length ?S" for i s
  proof -
    obtain p where p: "?fetch (replayCursorAt d k i) = Inr p" using page(2) [OF i spec [OF fits]] by blast
    then have "rb_PartOwnerMessageIDs p = map p_MessageID (rb_Parts p)" using page(1) [OF i] by simp
    then show ?thesis using p own_owners [of p] by (cases s) auto
  qed
  have "\<exists>r. drain ?fetch nextReplay gatherBatch ([], [], []) (replayCursorAt d k 0) = Some r \<and>
      (\<forall>t. r = Inr t \<longrightarrow> loadedTo d k (length (map mw_Record ?S)) t) \<and>
      ((\<forall>i \<le> length (map mw_Record ?S). \<forall>s. loadedTo d k i s \<longrightarrow> (\<exists>p t. ?fetch (replayCursorAt d k i) = Inr p \<and> gatherBatch s p = Inr t)) \<longrightarrow>
        (\<exists>t. r = Inr t))"
    by (rule drain_rule [where I = "loadedTo d k" and consume = gatherBatch, OF pages gather_step [OF w k ne]]) (simp_all add: partsOfRows_def)
  then show ?thesis using ok by (auto simp del: split_paired_Ex split_paired_All)
qed

text \<open>
  C27. Loading a session's history ends, however many messages the session has, provided that none has an empty id and that the
  database was produced by plain calls (whose texts are valid UTF-8), and what it returns is the whole history: every message of the session exactly once, in the order of creation time and id,
  and every stored part of the session exactly once. It fails only when a message holds more provider state
  than the store reads back.
\<close>

theorem history_loads_completely:
  assumes "plainReachable L d" and k: "sessionKeyOf sid d = Inr k" and ne: "\<forall>m \<in> set (messages d). mw_ID m \<noteq> []"
  shows "\<exists>r. LoadBatch d sid = Some r \<and> ((\<forall>i. stateFits (map pw_Record (parts d)) i) \<longrightarrow> (\<exists>b. r = Inr b)) \<and>
    (\<forall>b. r = Inr b \<longrightarrow> rb_Messages b = map mw_Record (sessionMessages d k) \<and>
       mset (rb_Parts b) = mset (map pw_Record (filter (\<lambda>p. pw_SessionKey p = k) (parts d))) \<and>
       rb_PartOwnerMessageIDs b = map p_MessageID (rb_Parts b))"
proof -
  let ?S = "sessionMessages d k"
  let ?out = "\<lambda>(ms, ps, os). Inr \<lparr>rb_Messages = ms, rb_Parts = ps, rb_PartOwnerMessageIDs = os, rb_Next = zeroReplayCursor\<rparr>"
  have w: "wfDb d" using reachable_inv [OF plainReachable_reachable [OF assms(1)]] by (rule inv_wf)
  have ne': "\<forall>m \<in> set ?S. mw_ID m \<noteq> []" using ne sessionMessages_set by blast
  obtain r where r: "drain (\<lambda>c. ListMessages sid c d) nextReplay gatherBatch ([], [], []) (replayCursorAt d k 0) = Some r"
    "\<And>t. r = Inr t \<Longrightarrow> loadedTo d k (length ?S) t" "\<forall>i. stateFits (map pw_Record (parts d)) i \<Longrightarrow> \<exists>t. r = Inr t"
    using history_drains [OF w k ne'] by blast
  have c0: "replayCursorAt d k 0 = \<lparr>rcu_AfterMessageID = [], rcu_Limit = 100\<rparr>" by (simp add: replayCursorAt_def)
  show ?thesis
  proof (rule exI, intro conjI impI allI)
    show "LoadBatch d sid = Some (bindP r ?out)" using r(1) unfolding LoadBatch_def c0 by simp
    show "\<exists>b. bindP r ?out = Inr b" if "\<forall>i. stateFits (map pw_Record (parts d)) i" using r(3) [OF that] by (auto split: prod.split)
    fix b assume "bindP r ?out = Inr b"
    then obtain ms ps os where t: "r = Inr (ms, ps, os)" "b = \<lparr>rb_Messages = ms, rb_Parts = ps, rb_PartOwnerMessageIDs = os, rb_Next = zeroReplayCursor\<rparr>"
      by (auto simp: bindP_Inr)
    with r(2) [OF t(1)] sessionParts [OF w, of k] show "rb_Messages b = map mw_Record ?S"
      "mset (rb_Parts b) = mset (map pw_Record (filter (\<lambda>p. pw_SessionKey p = k) (parts d)))" "rb_PartOwnerMessageIDs b = map p_MessageID (rb_Parts b)"
      by simp_all
  qed
qed

text \<open>A session with two messages of the same time, stored against the order of their ids.\<close>

definition replayMessage :: "MessageID \<Rightarrow> Message" where
  "replayMessage i = noMessage\<lparr>m_ID := i, m_SessionID := ''s'', m_RunID := ''r'', m_CreatedAt := demoTime 1, m_UpdatedAt := demoTime 1\<rparr>"

definition replayCalls :: "call list" where
  "replayCalls = [CCreateSession demoSession, CAdmitRun 0 demoRun 1000,
     CFenced demoFence (CAppendMessage (replayMessage ''b'')), CFenced demoFence (CAppendMessage (replayMessage ''a''))]"

lemma replayCalls_plain: "list_all plainCall replayCalls"
  by code_simp

definition replayDb :: db where
  "replayDb = fold (exec demoLibs) replayCalls emptyDb"

lemma replayDb_rows:
  "(sessionKeyOf ''s'' replayDb, map mw_SessionKey (messages replayDb), map mw_ID (messages replayDb), map m_ID (map mw_Record (sessionMessages replayDb 1)), parts replayDb) =
   (Inr 1, [1, 1], [''b'', ''a''], [''a'', ''b''], [])"
  by code_simp

theorem history_loads_completely_witness:
  "\<exists>b. LoadBatch replayDb ''s'' = Some (Inr b) \<and> map m_ID (rb_Messages b) = [''a'', ''b''] \<and> rb_Parts b = []"
proof -
  have r: "plainReachable demoLibs replayDb" unfolding replayDb_def by (rule plainReachable_fold [OF replayCalls_plain])
  have rows: "sessionKeyOf ''s'' replayDb = Inr 1" "map mw_ID (messages replayDb) = [''b'', ''a'']"
    "map m_ID (map mw_Record (sessionMessages replayDb 1)) = [''a'', ''b'']" "parts replayDb = []"
    using replayDb_rows by (simp_all only: prod.inject)
  have "mw_ID ` set (messages replayDb) = {''b'', ''a''}" unfolding set_map [symmetric] rows(2) by simp
  then have ids: "\<forall>m \<in> set (messages replayDb). mw_ID m \<noteq> []" by (metis imageI insertE list.distinct(1) singletonD)
  show ?thesis
    using history_loads_completely [OF r rows(1) ids] rows(3,4)
    by (auto simp: stateFits_def stateBytes_def ProviderStateHardMaxStoredMessageBytes_def)
qed

end
