(* ===== verification/Stream.thy ===== *)
theory Stream
  imports SessionTypes
begin

text \<open>
  The live tail of a session's events: \<open>stream/tail.go\<close>. Every operation holds the tail's mutex, but
  subscribers receive from their channels without it, so a receive may fall between any two channel operations
  of \<open>Emit\<close>. The model is a state machine with one action per channel operation: \<open>tl_pc\<close> says where an
  \<open>Emit\<close> that holds the mutex stands. Each channel also records what it was offered and what was received
  from it, which the code does not keep and the properties speak about.

  Subscription ids are \<open>uint64\<close> counted up from 1; the model takes them as natural numbers, that is, it covers
  fewer than 2\<open>^\<close>64 subscriptions.
\<close>

section \<open>State\<close>

record channel =
  ch_session :: ID
  ch_buf :: "EventRecord list"
  ch_closed :: bool
  ch_offered :: "EventRecord list"
  ch_received :: "EventRecord list"

text \<open>
  Where \<open>Emit\<close> stands: not running; visiting the remaining subscribers, having collected those to drop; at a
  subscriber whose channel was full; about to send the overflow marker to it.
\<close>

datatype emitting = Idle | Visit EventRecord "nat list" "nat list" | Full EventRecord nat "nat list" "nat list"
  | Mark EventRecord nat "nat list" "nat list"

record Tail =
  tl_size :: nat
  tl_next :: nat
  tl_subs :: "nat list"
  tl_closed :: bool
  tl_chan :: "nat \<Rightarrow> channel"
  tl_pc :: emitting

definition newChannel :: "ID \<Rightarrow> channel" where
  "newChannel sessionID = \<lparr>ch_session = sessionID, ch_buf = [], ch_closed = False, ch_offered = [], ch_received = []\<rparr>"

definition NewTail :: "int \<Rightarrow> Tail" where
  "NewTail n = \<lparr>tl_size = (if n \<le> 0 then 64 else nat n), tl_next = 0, tl_subs = [], tl_closed = False,
     tl_chan = (\<lambda>_. newChannel []), tl_pc = Idle\<rparr>"

definition overflowMarker :: "ID \<Rightarrow> EventRecord" where
  "overflowMarker sessionID = \<lparr>ev_ID = [], ev_SessionID = sessionID, ev_RunID = [], ev_MessageID = [], ev_PartID = [], ev_ToolCallID = [],
     ev_ToolTransition = ToolTransitionNone, ev_EpochID = [], ev_TurnID = [], ev_AgentPath = [], ev_ProviderID = [],
     ev_ModelID = [], ev_ParentID = [], ev_Kind = ''tail_overflow'', ev_Correlation = [], ev_Usage = zeroUsage, ev_Error = zeroEventError,
     ev_Redaction = RedactionOther [], ev_Payload = [], ev_LiveOnly = True, ev_CreatedAt = zeroTime\<rparr>"

section \<open>Actions\<close>

text \<open>
  \<open>AEmit\<close> names the order in which the range over the map of subscribers visits them; \<open>ARun\<close> is the
  next operation of the running \<open>Emit\<close>; \<open>ACancel\<close> is the goroutine that waits for the subscription's context.
\<close>

datatype action = ASubscribe ID | AEmit EventRecord "nat list" | ARun | ACancel nat | AClose | AReceive nat

definition updChan :: "nat \<Rightarrow> (channel \<Rightarrow> channel) \<Rightarrow> Tail \<Rightarrow> Tail" where
  "updChan i f t = t\<lparr>tl_chan := (tl_chan t)(i := f (tl_chan t i))\<rparr>"

definition wants :: "channel \<Rightarrow> EventRecord \<Rightarrow> bool" where
  "wants c e \<longleftrightarrow> ch_session c = [] \<or> ev_SessionID e = ch_session c"

text \<open>A closed tail answers a subscription with a closed channel and keeps no record of it.\<close>

definition Subscribe :: "ID \<Rightarrow> Tail \<Rightarrow> Tail" where
  "Subscribe sessionID t =
     (if tl_closed t then t
      else t\<lparr>tl_next := Suc (tl_next t), tl_subs := tl_subs t @ [Suc (tl_next t)],
        tl_chan := (tl_chan t)(Suc (tl_next t) := newChannel sessionID)\<rparr>)"

definition removeSub :: "nat \<Rightarrow> Tail \<Rightarrow> Tail" where
  "removeSub i t =
     (if i \<in> set (tl_subs t) then updChan i (\<lambda>c. c\<lparr>ch_closed := True\<rparr>) (t\<lparr>tl_subs := filter (\<lambda>j. j \<noteq> i) (tl_subs t)\<rparr>) else t)"

definition CloseTail :: "Tail \<Rightarrow> Tail" where
  "CloseTail t = (if tl_closed t then t else (fold removeSub (tl_subs t) t)\<lparr>tl_closed := True\<rparr>)"

definition startEmit :: "EventRecord \<Rightarrow> nat list \<Rightarrow> Tail \<Rightarrow> Tail" where
  "startEmit e ids t = (if tl_closed t then t else t\<lparr>tl_pc := Visit e ids []\<rparr>)"

text \<open>The next operation of \<open>Emit\<close>; \<open>None\<close> when it would block.\<close>

definition runEmit :: "Tail \<Rightarrow> Tail option" where
  "runEmit t =
     (case tl_pc t of
        Idle \<Rightarrow> None
      | Visit e (i # is) drops \<Rightarrow>
          (let c = tl_chan t i in
           if \<not> wants c e then Some (t\<lparr>tl_pc := Visit e is drops\<rparr>)
           else if length (ch_buf c) < tl_size t
             then Some (updChan i (\<lambda>c. c\<lparr>ch_buf := ch_buf c @ [e], ch_offered := ch_offered c @ [e]\<rparr>) (t\<lparr>tl_pc := Visit e is drops\<rparr>))
           else Some (updChan i (\<lambda>c. c\<lparr>ch_offered := ch_offered c @ [e]\<rparr>) (t\<lparr>tl_pc := Full e i is drops\<rparr>)))
      | Full e i is drops \<Rightarrow> Some (updChan i (\<lambda>c. c\<lparr>ch_buf := tl (ch_buf c)\<rparr>) (t\<lparr>tl_pc := Mark e i is drops\<rparr>))
      | Mark e i is drops \<Rightarrow>
          (if length (ch_buf (tl_chan t i)) < tl_size t
           then Some (updChan i (\<lambda>c. c\<lparr>ch_buf := ch_buf c @ [overflowMarker (ch_session c)]\<rparr>) (t\<lparr>tl_pc := Visit e is (drops @ [i])\<rparr>))
           else None)
      | Visit e [] (i # drops) \<Rightarrow> Some ((removeSub i t)\<lparr>tl_pc := Visit e [] drops\<rparr>)
      | Visit e [] [] \<Rightarrow> Some (t\<lparr>tl_pc := Idle\<rparr>))"

definition receive :: "nat \<Rightarrow> Tail \<Rightarrow> Tail option" where
  "receive i t =
     (case ch_buf (tl_chan t i) of [] \<Rightarrow> None
      | x # xs \<Rightarrow> Some (updChan i (\<lambda>c. c\<lparr>ch_buf := xs, ch_received := ch_received c @ [x]\<rparr>) t))"

text \<open>What an action does; \<open>None\<close> when it has to wait (for the mutex, or for a channel).\<close>

definition perform :: "action \<Rightarrow> Tail \<Rightarrow> Tail option" where
  "perform a t =
     (case a of
        ARun \<Rightarrow> runEmit t
      | AReceive i \<Rightarrow> receive i t
      | ASubscribe s \<Rightarrow> if tl_pc t = Idle then Some (Subscribe s t) else None
      | ACancel i \<Rightarrow> if tl_pc t = Idle then Some (removeSub i t) else None
      | AClose \<Rightarrow> if tl_pc t = Idle then Some (CloseTail t) else None
      | AEmit e ids \<Rightarrow> if tl_pc t = Idle \<and> distinct ids \<and> set ids = set (tl_subs t) then Some (startEmit e ids t) else None)"

inductive tailReachable :: "int \<Rightarrow> Tail \<Rightarrow> bool" where
  new: "tailReachable n (NewTail n)"
| act: "tailReachable n t \<Longrightarrow> perform a t = Some u \<Longrightarrow> tailReachable n u"

fun performAll :: "action list \<Rightarrow> Tail \<Rightarrow> Tail option" where
  "performAll [] t = Some t"
| "performAll (a # as) t = Option.bind (perform a t) (performAll as)"

lemma performAll_reachable: "tailReachable n t \<Longrightarrow> performAll as t = Some u \<Longrightarrow> tailReachable n u"
  by (induction as arbitrary: t) (auto simp: Option.bind_eq_Some_conv intro: tailReachable.act)

end
