(* ===== verification/StreamProps.thy ===== *)
theory StreamProps
  imports Stream "HOL-Library.Sublist"
begin

text \<open>
  The guarantees of the live tail, by induction over the reachable states: bounded memory, a producer that
  never waits, and no silent loss.
\<close>

section \<open>The invariant\<close>

text \<open>Everything offered was delivered, in order; or something was lost and the marker is the last thing delivered.\<close>

definition complete :: "channel \<Rightarrow> bool" where
  "complete c \<longleftrightarrow> ch_received c @ ch_buf c = ch_offered c"

definition cut :: "channel \<Rightarrow> bool" where
  "cut c \<longleftrightarrow> (\<exists>xs. ch_received c @ ch_buf c = xs @ [overflowMarker (ch_session c)] \<and> subseq xs (ch_offered c))"

text \<open>The state of a channel, given the subscribers to be dropped.\<close>

definition rested :: "nat list \<Rightarrow> nat list \<Rightarrow> nat \<Rightarrow> channel \<Rightarrow> bool" where
  "rested subs drops i c = (if i \<in> set drops then cut c else if i \<in> set subs then complete c else complete c \<or> (ch_closed c \<and> cut c))"

definition history :: "nat list \<Rightarrow> emitting \<Rightarrow> nat \<Rightarrow> channel \<Rightarrow> bool" where
  "history subs pc i c =
     (case pc of Idle \<Rightarrow> rested subs [] i c
      | Visit e is drops \<Rightarrow> rested subs drops i c
      | Full e j is drops \<Rightarrow> if i = j then ch_received c @ ch_buf c @ [e] = ch_offered c else rested subs drops i c
      | Mark e j is drops \<Rightarrow> if i = j then subseq (ch_received c @ ch_buf c) (ch_offered c) else rested subs drops i c)"

definition visiting :: "emitting \<Rightarrow> nat list" where
  "visiting pc = (case pc of Idle \<Rightarrow> [] | Visit e is drops \<Rightarrow> is @ drops | Full e i is drops \<Rightarrow> i # is @ drops | Mark e i is drops \<Rightarrow> i # is @ drops)"

definition tailInv :: "Tail \<Rightarrow> bool" where
  "tailInv t \<longleftrightarrow> 0 < tl_size t \<and> distinct (tl_subs t) \<and> (\<forall>i \<in> set (tl_subs t). i \<le> tl_next t) \<and>
     distinct (visiting (tl_pc t)) \<and> set (visiting (tl_pc t)) \<subseteq> set (tl_subs t) \<and>
     (\<forall>i. length (ch_buf (tl_chan t i)) \<le> tl_size t) \<and> (\<forall>i \<in> set (tl_subs t). \<not> ch_closed (tl_chan t i)) \<and>
     (case tl_pc t of Mark e i is drops \<Rightarrow> length (ch_buf (tl_chan t i)) < tl_size t | _ \<Rightarrow> True) \<and>
     (\<forall>i. history (tl_subs t) (tl_pc t) i (tl_chan t i)) \<and>
     (\<forall>i. \<forall>x \<in> set (ch_offered (tl_chan t i)). wants (tl_chan t i) x)"

lemmas channel_defs = history_def rested_def

lemma complete_new [simp]: "complete (newChannel s)" "ch_closed (newChannel s) = False" "ch_buf (newChannel s) = []" "ch_offered (newChannel s) = []"
  by (simp_all add: complete_def newChannel_def)

lemma complete_send [simp]: "complete (c\<lparr>ch_buf := ch_buf c @ [e], ch_offered := ch_offered c @ [e]\<rparr>) = complete c"
  by (simp add: complete_def)

lemma updChan_sel [simp]:
  "tl_size (updChan i f t) = tl_size t" "tl_next (updChan i f t) = tl_next t" "tl_subs (updChan i f t) = tl_subs t"
  "tl_closed (updChan i f t) = tl_closed t" "tl_pc (updChan i f t) = tl_pc t" "tl_chan (updChan i f t) j = (if j = i then f (tl_chan t i) else tl_chan t j)"
  by (simp_all add: updChan_def)

lemma wants_upd [simp]:
  "wants (c\<lparr>ch_buf := b\<rparr>) e = wants c e" "wants (c\<lparr>ch_offered := b\<rparr>) e = wants c e" "wants (c\<lparr>ch_received := b\<rparr>) e = wants c e" "wants (c\<lparr>ch_closed := x\<rparr>) e = wants c e"
  by (simp_all add: wants_def)

lemma cut_upd [simp]: "cut (c\<lparr>ch_closed := x\<rparr>) = cut c" "complete (c\<lparr>ch_closed := x\<rparr>) = complete c"
  by (simp_all add: cut_def complete_def)

text \<open>Receiving moves the head of the buffer over, which no part of the invariant notices.\<close>

lemma receive_history:
  assumes "ch_buf c = x # xs"
  shows "history subs pc i (c\<lparr>ch_buf := xs, ch_received := ch_received c @ [x]\<rparr>) = history subs pc i c"
  using assms by (simp add: history_def rested_def complete_def cut_def split: emitting.split)

lemma receive_inv:
  assumes "tailInv t" "receive i t = Some u"
  shows "tailInv u"
proof -
  obtain x xs where b: "ch_buf (tl_chan t i) = x # xs" and u: "u = updChan i (\<lambda>c. c\<lparr>ch_buf := xs, ch_received := ch_received c @ [x]\<rparr>) t"
    using assms(2) by (auto simp: receive_def split: list.split_asm)
  have "length xs < tl_size t" using assms(1) b unfolding tailInv_def by (metis Suc_le_lessD length_Cons)
  then show ?thesis using assms(1) unfolding tailInv_def u by (auto simp: receive_history [OF b] split: emitting.split)
qed

lemma removeSub_inv:
  assumes "tailInv t" "tl_pc t = Idle \<or> (\<exists>e drops. tl_pc t = Visit e [] (i # drops))"
    and u: "u = (removeSub i t)\<lparr>tl_pc := (case tl_pc t of Visit e [] (i # drops) \<Rightarrow> Visit e [] drops | _ \<Rightarrow> Idle)\<rparr>"
  shows "tailInv u"
proof (cases "i \<in> set (tl_subs t)")
  case True
  have "history (filter (\<lambda>j. j \<noteq> i) (tl_subs t)) (tl_pc u) j (tl_chan u j)" for j
    using assms True unfolding tailInv_def
    by (auto simp: history_def rested_def removeSub_def visiting_def split: if_split_asm)
  then show ?thesis using assms True by (auto simp: tailInv_def removeSub_def visiting_def)
next
  case False
  then show ?thesis using assms by (auto simp: tailInv_def removeSub_def visiting_def)
qed

lemma removeIdle_inv: "tailInv t \<Longrightarrow> tl_pc t = Idle \<Longrightarrow> tailInv (removeSub i t) \<and> tl_pc (removeSub i t) = Idle"
  using removeSub_inv [of t i "removeSub i t"] by (auto simp: removeSub_def)

lemma CloseTail_inv: "tailInv t \<Longrightarrow> tl_pc t = Idle \<Longrightarrow> tailInv (CloseTail t)"
proof -
  have "tailInv t \<Longrightarrow> tl_pc t = Idle \<Longrightarrow> tailInv (fold removeSub is t)" for "is" t
    by (induction "is" arbitrary: t) (simp_all add: removeIdle_inv)
  moreover have "tailInv (t\<lparr>tl_closed := True\<rparr>) = tailInv t" for t by (simp add: tailInv_def split: emitting.split)
  ultimately show "tailInv t \<Longrightarrow> tl_pc t = Idle \<Longrightarrow> tailInv (CloseTail t)" by (simp add: CloseTail_def)
qed

lemma Subscribe_inv: "tailInv t \<Longrightarrow> tl_pc t = Idle \<Longrightarrow> tailInv (Subscribe s t)"
  unfolding tailInv_def by (cases "tl_closed t") (auto simp: Subscribe_def channel_defs visiting_def le_SucI)

lemma startEmit_inv: "tailInv t \<Longrightarrow> tl_pc t = Idle \<Longrightarrow> distinct ids \<Longrightarrow> set ids = set (tl_subs t) \<Longrightarrow> tailInv (startEmit e ids t)"
  unfolding tailInv_def by (auto simp: startEmit_def history_def visiting_def)

text \<open>The operations of \<open>Emit\<close>, one by one.\<close>

lemma skip_inv:
  assumes "tailInv t" "tl_pc t = Visit e (i # is) drops"
  shows "tailInv (t\<lparr>tl_pc := Visit e is drops\<rparr>)"
  using assms unfolding tailInv_def by (auto simp: history_def visiting_def)

lemma send_inv:
  assumes "tailInv t" "tl_pc t = Visit e (i # is) drops" "wants (tl_chan t i) e" "length (ch_buf (tl_chan t i)) < tl_size t"
  shows "tailInv (updChan i (\<lambda>c. c\<lparr>ch_buf := ch_buf c @ [e], ch_offered := ch_offered c @ [e]\<rparr>) (t\<lparr>tl_pc := Visit e is drops\<rparr>))"
  using assms unfolding tailInv_def by (auto simp: channel_defs visiting_def)

lemma full_inv:
  assumes "tailInv t" "tl_pc t = Visit e (i # is) drops" "wants (tl_chan t i) e"
  shows "tailInv (updChan i (\<lambda>c. c\<lparr>ch_offered := ch_offered c @ [e]\<rparr>) (t\<lparr>tl_pc := Full e i is drops\<rparr>))"
proof -
  have "history (tl_subs t) (tl_pc t) i (tl_chan t i)" "i \<in> set (tl_subs t)" "i \<notin> set drops" using assms unfolding tailInv_def by (auto simp: visiting_def)
  then have "ch_received (tl_chan t i) @ ch_buf (tl_chan t i) = ch_offered (tl_chan t i)" using assms(2) by (simp add: channel_defs complete_def)
  then show ?thesis using assms unfolding tailInv_def by (auto simp: history_def visiting_def)
qed

lemma discard_inv:
  assumes "tailInv t" "tl_pc t = Full e i is drops"
  shows "tailInv (updChan i (\<lambda>c. c\<lparr>ch_buf := tl (ch_buf c)\<rparr>) (t\<lparr>tl_pc := Mark e i is drops\<rparr>))"
proof -
  let ?c = "tl_chan t i"
  have o: "ch_received ?c @ ch_buf ?c @ [e] = ch_offered ?c" and l: "length (ch_buf ?c) \<le> tl_size t" "0 < tl_size t"
    using assms unfolding tailInv_def by (auto simp: history_def dest: spec [of _ i])
  have "subseq (ch_received ?c @ tl (ch_buf ?c)) (ch_received ?c @ ch_buf ?c @ [e])"
    by (cases "ch_buf ?c") (auto intro!: list_emb_append_mono subseq_order.refl list_emb_Cons)
  then have "subseq (ch_received ?c @ tl (ch_buf ?c)) (ch_offered ?c)" using o by simp
  moreover have "length (tl (ch_buf ?c)) < tl_size t" using l by (cases "ch_buf ?c") auto
  ultimately show ?thesis using assms unfolding tailInv_def by (auto simp: history_def visiting_def)
qed

lemma mark_inv:
  assumes "tailInv t" "tl_pc t = Mark e i is drops"
  shows "tailInv (updChan i (\<lambda>c. c\<lparr>ch_buf := ch_buf c @ [overflowMarker (ch_session c)]\<rparr>) (t\<lparr>tl_pc := Visit e is (drops @ [i])\<rparr>))"
proof -
  let ?c = "tl_chan t i"
  have o: "subseq (ch_received ?c @ ch_buf ?c) (ch_offered ?c)" and l: "length (ch_buf ?c) < tl_size t"
    using assms unfolding tailInv_def by (auto simp: history_def dest: spec [of _ i])
  then have "cut (?c\<lparr>ch_buf := ch_buf ?c @ [overflowMarker (ch_session ?c)]\<rparr>)" by (auto simp: cut_def)
  moreover have "rested (tl_subs t) (drops @ [i]) j c = rested (tl_subs t) drops j c" if "j \<noteq> i" for j c using that by (simp add: rested_def)
  ultimately have h: "history (tl_subs t) (Visit e is (drops @ [i])) i (?c\<lparr>ch_buf := ch_buf ?c @ [overflowMarker (ch_session ?c)]\<rparr>)"
      "j \<noteq> i \<Longrightarrow> history (tl_subs t) (Visit e is (drops @ [i])) j (tl_chan t j)" for j
    using assms unfolding tailInv_def by (auto simp: history_def rested_def dest!: spec [of _ j])
  show ?thesis using assms l unfolding tailInv_def by (auto simp: visiting_def h)
qed

lemma runEmit_inv: "tailInv t \<Longrightarrow> runEmit t = Some u \<Longrightarrow> tailInv u"
proof -
  assume t: "tailInv t" and u: "runEmit t = Some u"
  consider e i "is" drops where "tl_pc t = Visit e (i # is) drops" | e i drops where "tl_pc t = Visit e [] (i # drops)" | e where "tl_pc t = Visit e [] []"
    | e i "is" drops where "tl_pc t = Full e i is drops" | e i "is" drops where "tl_pc t = Mark e i is drops"
  proof (cases "tl_pc t")
    case Idle then show ?thesis using u by (simp add: runEmit_def)
  next
    case (Visit e "is" drops) then show ?thesis using that by (cases "is"; cases drops) auto
  qed (use that in auto)
  then show ?thesis
  proof cases
    case 1 then show ?thesis using u skip_inv [OF t] send_inv [OF t] full_inv [OF t] by (auto simp: runEmit_def Let_def split: if_split_asm)
  next
    case 2 then show ?thesis using u removeSub_inv [OF t, of i] by (auto simp: runEmit_def)
  next
    case 3 then have "u = t\<lparr>tl_pc := Idle\<rparr>" using u by (simp add: runEmit_def)
    then show ?thesis using t 3 unfolding tailInv_def by (auto simp: history_def visiting_def)
  next
    case 4 then show ?thesis using u discard_inv [OF t] by (auto simp: runEmit_def)
  next
    case 5 then show ?thesis using u mark_inv [OF t] by (auto simp: runEmit_def split: if_split_asm)
  qed
qed

lemma tailReachable_inv: "tailReachable n t \<Longrightarrow> tailInv t"
proof (induction rule: tailReachable.induct)
  case new
  show ?case by (simp add: tailInv_def NewTail_def channel_defs visiting_def)
next
  case (act n t a u)
  have i: "tailInv t" and u: "perform a t = Some u" using act by simp_all
  show ?case
  proof (cases a)
    case ARun then show ?thesis using u runEmit_inv [OF i] by (simp add: perform_def)
  next
    case (AReceive j) then show ?thesis using u receive_inv [OF i] by (simp add: perform_def)
  next
    case (ASubscribe s) then show ?thesis using u Subscribe_inv [OF i] by (auto simp: perform_def split: if_split_asm)
  next
    case (ACancel j) then show ?thesis using u removeIdle_inv [OF i] by (auto simp: perform_def split: if_split_asm)
  next
    case AClose then show ?thesis using u CloseTail_inv [OF i] by (auto simp: perform_def split: if_split_asm)
  next
    case (AEmit e ids) then show ?thesis using u startEmit_inv [OF i, of ids e] by (auto simp: perform_def split: if_split_asm)
  qed
qed

section \<open>Properties\<close>

text \<open>
  C28. Memory is bounded and the producer never waits: in every reachable state no channel holds more events than the
  tail's size, and whenever an \<open>Emit\<close> is under way its next operation can be performed at once, whatever the
  subscribers do or fail to do.
\<close>

theorem tail_bounded_and_never_blocks:
  assumes "tailReachable n t"
  shows "length (ch_buf (tl_chan t i)) \<le> tl_size t \<and> (tl_pc t = Idle \<or> (\<exists>u. perform ARun t = Some u))"
proof -
  have i: "tailInv t" by (rule tailReachable_inv [OF assms])
  have "\<exists>u. runEmit t = Some u" if "tl_pc t \<noteq> Idle"
    using i that unfolding tailInv_def by (cases "tl_pc t") (auto simp: runEmit_def Let_def split: list.split)
  then show ?thesis using i by (auto simp: tailInv_def perform_def)
qed

text \<open>A tail of size 1 whose subscriber does not keep up: the second event overflows.\<close>

definition liveEvent :: "EventID \<Rightarrow> EventRecord" where
  "liveEvent i = (overflowMarker ''s'')\<lparr>ev_ID := i, ev_Kind := ''delta''\<rparr>"

definition slowScript :: "action list" where
  "slowScript = [ASubscribe ''s'', AEmit (liveEvent ''e1'') [1], ARun, ARun, AEmit (liveEvent ''e2'') [1], ARun, ARun, ARun]"

definition slowSummary :: "Tail \<Rightarrow> EventID list \<times> string list \<times> nat list \<times> bool \<times> bool" where
  "slowSummary t = (map ev_ID (ch_offered (tl_chan t 1)), map ev_Kind (ch_buf (tl_chan t 1)), tl_subs t, ch_closed (tl_chan t 1), tl_pc t = Idle)"

lemma slow_runs: "map_option slowSummary (performAll slowScript (NewTail 1)) = Some ([''e1'', ''e2''], [''tail_overflow''], [1], False, False)"
  by code_simp

theorem tail_bounded_and_never_blocks_witness:
  "\<exists>t. performAll slowScript (NewTail 1) = Some t \<and> length (ch_buf (tl_chan t 1)) \<le> tl_size t \<and> (tl_pc t = Idle \<or> (\<exists>u. perform ARun t = Some u))"
proof -
  obtain t where t: "performAll slowScript (NewTail 1) = Some t" using slow_runs by (cases "performAll slowScript (NewTail 1)") auto
  then have "tailReachable 1 t" by (intro performAll_reachable [OF tailReachable.new])
  from tail_bounded_and_never_blocks [OF this, of 1] t show ?thesis by blast
qed

text \<open>
  C29. No silent loss: between two emits, what a subscriber was given (received or still waiting) is everything offered to it since
  it subscribed, in order; or events were lost, and then what it was given ends with the overflow marker, is
  otherwise in order, and its channel is closed. Nothing it was given belongs to another session.
\<close>

theorem tail_loses_nothing_silently:
  assumes "tailReachable n t" and "tl_pc t = Idle"
  shows "let c = tl_chan t i in (ch_received c @ ch_buf c = ch_offered c \<or>
      (ch_closed c \<and> i \<notin> set (tl_subs t) \<and>
       (\<exists>xs. ch_received c @ ch_buf c = xs @ [overflowMarker (ch_session c)] \<and> subseq xs (ch_offered c)))) \<and>
    list_all (wants c) (ch_received c @ ch_buf c)"
proof -
  define c where "c = tl_chan t i"
  have i: "tailInv t" by (rule tailReachable_inv [OF assms(1)])
  then have h: "complete c \<or> (ch_closed c \<and> i \<notin> set (tl_subs t) \<and> cut c)"
    using assms(2) unfolding tailInv_def c_def by (auto simp: history_def rested_def dest!: spec [of _ i] split: if_split_asm)
  have w: "\<forall>x \<in> set (ch_offered c). wants c x" using i unfolding tailInv_def c_def by blast
  have sub: "set xs \<subseteq> set ys" if "subseq xs ys" for xs ys :: "EventRecord list" using that by (auto elim: list_emb_set)
  have "set (ch_received c @ ch_buf c) \<subseteq> insert (overflowMarker (ch_session c)) (set (ch_offered c))"
    using h sub unfolding complete_def cut_def by (metis Un_insert_right empty_set insert_subset list.simps(15) set_append subset_insertI2 sup_bot.right_neutral subset_insertI order_refl insertI1)
  moreover have "wants c (overflowMarker (ch_session c))" by (simp add: wants_def overflowMarker_def)
  ultimately have "list_all (wants c) (ch_received c @ ch_buf c)" using w unfolding list_all_iff by blast
  then show ?thesis using h unfolding Let_def c_def [symmetric] by (auto simp: complete_def cut_def list_all_iff)
qed

definition slowEnd :: "action list" where
  "slowEnd = slowScript @ [ARun, ARun, AReceive 1]"

lemma slow_ends: "map_option slowSummary (performAll slowEnd (NewTail 1)) = Some ([''e1'', ''e2''], [], [], True, True)"
  by code_simp

theorem tail_loses_nothing_silently_witness:
  "\<exists>t. performAll slowEnd (NewTail 1) = Some t \<and> ch_closed (tl_chan t 1) \<and> list_all (wants (tl_chan t 1)) (ch_received (tl_chan t 1) @ ch_buf (tl_chan t 1))"
proof -
  obtain t where t: "performAll slowEnd (NewTail 1) = Some t" "tl_pc t = Idle" "ch_closed (tl_chan t 1)"
    using slow_ends by (cases "performAll slowEnd (NewTail 1)") (auto simp: slowSummary_def)
  then have "tailReachable 1 t" by (intro performAll_reachable [OF tailReachable.new])
  from tail_loses_nothing_silently [OF this t(2), of 1] t show ?thesis unfolding Let_def by blast
qed

end
