(* ===== verification/Sha256.thy ===== *)
theory Sha256
  imports "HOL-Library.Word" GoBase
begin

text \<open>
  \<open>hex.EncodeToString(sha256.Sum256(raw))\<close> as the extension plan's fingerprint uses it: SHA-256 on
  32-bit words that wrap around, over a byte string, and the lower-case hexadecimal digits of the digest.
\<close>

unbundle bit_operations_syntax

section \<open>Blocks\<close>

type_synonym w32 = "32 word"

definition byteWord :: "char \<Rightarrow> w32" where
  "byteWord c = of_nat (byteOf c)"

text \<open>Four bytes, the first one the most significant.\<close>

fun bigEndian :: "w32 list \<Rightarrow> w32 list" where
  "bigEndian (a # b # c # d # bs) = (push_bit 24 a OR push_bit 16 b OR push_bit 8 c OR d) # bigEndian bs"
| "bigEndian _ = []"

text \<open>The message, a one bit, zeros up to 56 bytes modulo 64, and the bit length in eight bytes.\<close>

definition padding :: "nat \<Rightarrow> w32 list" where
  "padding n = 0x80 # replicate ((119 - n mod 64) mod 64) 0 @ map (\<lambda>i. of_nat (n * 8 div 256 ^ i mod 256)) [7, 6, 5, 4, 3, 2, 1, 0]"

definition message :: "string \<Rightarrow> w32 list" where
  "message s = bigEndian (map byteWord s @ padding (length s))"

section \<open>The compression function\<close>

definition roundConstants :: "w32 list" where
  "roundConstants = [
     1116352408, 1899447441, 3049323471, 3921009573, 961987163, 1508970993, 2453635748, 2870763221,
     3624381080, 310598401, 607225278, 1426881987, 1925078388, 2162078206, 2614888103, 3248222580,
     3835390401, 4022224774, 264347078, 604807628, 770255983, 1249150122, 1555081692, 1996064986,
     2554220882, 2821834349, 2952996808, 3210313671, 3336571891, 3584528711, 113926993, 338241895,
     666307205, 773529912, 1294757372, 1396182291, 1695183700, 1986661051, 2177026350, 2456956037,
     2730485921, 2820302411, 3259730800, 3345764771, 3516065817, 3600352804, 4094571909, 275423344,
     430227734, 506948616, 659060556, 883997877, 958139571, 1322822218, 1537002063, 1747873779,
     1955562222, 2024104815, 2227730452, 2361852424, 2428436474, 2756734187, 3204031479, 3329325298]"

definition initialHash :: "w32 list" where
  "initialHash = [1779033703, 3144134277, 1013904242, 2773480762, 1359893119, 2600822924, 528734635, 1541459225]"

definition sigma :: "nat \<Rightarrow> nat \<Rightarrow> nat \<Rightarrow> w32 \<Rightarrow> w32" where
  "sigma a b c x = word_rotr a x XOR word_rotr b x XOR drop_bit c x"

definition Sigma :: "nat \<Rightarrow> nat \<Rightarrow> nat \<Rightarrow> w32 \<Rightarrow> w32" where
  "Sigma a b c x = word_rotr a x XOR word_rotr b x XOR word_rotr c x"

text \<open>The message schedule: the last sixteen words, the newest first, give the next one.\<close>

fun schedule :: "nat \<Rightarrow> w32 list \<Rightarrow> w32 list" where
  "schedule 0 ws = rev ws"
| "schedule (Suc n) ws = schedule n ((sigma 17 19 10 (ws ! 1) + ws ! 6 + sigma 7 18 3 (ws ! 14) + ws ! 15) # ws)"

fun compressRound :: "w32 list \<Rightarrow> w32 \<times> w32 \<Rightarrow> w32 list" where
  "compressRound [a, b, c, d, e, f, g, h] (k, w) =
     (let t1 = h + Sigma 6 11 25 e + ((e AND f) XOR (NOT e AND g)) + k + w;
          t2 = Sigma 2 13 22 a + ((a AND b) XOR (a AND c) XOR (b AND c))
      in [t1 + t2, a, b, c, d + t1, e, f, g])"
| "compressRound s _ = s"

definition compressBlock :: "w32 list \<Rightarrow> w32 list \<Rightarrow> w32 list" where
  "compressBlock hs block = map2 (+) hs (foldl compressRound hs (zip roundConstants (schedule 48 (rev block))))"

fun blocks :: "w32 list \<Rightarrow> w32 list list" where
  "blocks [] = []"
| "blocks ws = take 16 ws # blocks (drop 16 ws)"

definition sha256 :: "string \<Rightarrow> w32 list" where
  "sha256 s = foldl compressBlock initialHash (blocks (message s))"

section \<open>Hexadecimal digits\<close>

definition hexChar :: "w32 \<Rightarrow> char" where
  "hexChar x = ''0123456789abcdef'' ! unat x"

definition hexWord :: "w32 \<Rightarrow> string" where
  "hexWord x = map (\<lambda>i. hexChar (drop_bit i x AND 0xf)) [28, 24, 20, 16, 12, 8, 4, 0]"

definition hexDigest :: "string \<Rightarrow> string" where
  "hexDigest s = concat (map hexWord (sha256 s))"

section \<open>Every digest has 64 digits\<close>

lemma length_compressRound [simp]: "length (compressRound s kw) = length s"
  by (induction s kw rule: compressRound.induct) (simp_all add: Let_def)

lemma length_rounds [simp]: "length (foldl compressRound s kws) = length s"
  by (induction kws arbitrary: s) simp_all

lemma length_compressBlock [simp]: "length (compressBlock hs block) = length hs"
  by (simp add: compressBlock_def)

lemma length_blocks [simp]: "length (foldl compressBlock hs bs) = length hs"
  by (induction bs arbitrary: hs) simp_all

lemma length_sha256: "length (sha256 s) = 8"
  by (simp add: sha256_def initialHash_def)

lemma hexChar_set: "hexChar (x AND 0xf) \<in> set ''0123456789abcdef''"
proof -
  have "x AND 0xf = take_bit 4 x" by (simp add: take_bit_eq_mask mask_eq_exp_minus_1)
  then have "unat (x AND 0xf) = take_bit 4 (unat x)" by (simp only: unsigned_take_bit_eq)
  also have "\<dots> < length ''0123456789abcdef''" by (simp add: take_bit_eq_mod)
  finally show ?thesis unfolding hexChar_def by (rule nth_mem)
qed

lemma length_hexDigest: "length (hexDigest s) = 64"
proof -
  have "length (concat (map hexWord ws)) = 8 * length ws" for ws by (induction ws) (simp_all add: hexWord_def)
  then show ?thesis by (simp add: hexDigest_def length_sha256)
qed

lemma set_hexDigest: "set (hexDigest s) \<subseteq> set ''0123456789abcdef''"
  unfolding hexDigest_def hexWord_def using hexChar_set by auto

end
