(* ===== verification/ExtensionPlans.thy ===== *)
theory ExtensionPlans
  imports ContentCodec Sha256 Results "HOL-Library.Char_ord" "HOL-Library.List_Lexorder" "HOL-Library.Product_Lexorder" "HOL-Library.Multiset"
begin

text \<open>
  Extension plans: \<open>session/extensions.go\<close> and the identity checks of \<open>extension/types.go\<close>. A plan
  lists, per component, the registrations a run executes. Sealing validates it for a session, brings it
  into canonical order and fingerprints it; verifying does the same to a stored plan and compares the
  fingerprint. Go strings compare byte by byte, as \<open>List_Lexorder\<close> over \<open>Char_ord\<close> does.
\<close>

section \<open>Errors\<close>

text \<open>The errors of the validation, one constructor per message.\<close>

datatype planError =
    InvalidIdentifier | InvalidContract | GlobalScopeKey | SessionKeyRequired | UnsupportedScope
  | InvalidComponent | UnsupportedSourceKind | DuplicateComponent | NoBehavior
  | SessionScopeMismatch | DuplicateIdentity
  | InvalidHandler | InvalidTool | InvalidPrompt | InvalidGuard | InvalidRestriction | InvalidAgentHandler
  | InvalidAgentHandlerTool | DuplicateAgentHandlerTool
  | AlreadyFingerprinted | SessionAndFingerprintRequired | FingerprintMismatch

section \<open>Identity checks\<close>

definition alphaNum :: "char \<Rightarrow> bool" where
  "alphaNum c \<longleftrightarrow> (CHR ''A'' \<le> c \<and> c \<le> CHR ''Z'') \<or> (CHR ''a'' \<le> c \<and> c \<le> CHR ''z'') \<or> (CHR ''0'' \<le> c \<and> c \<le> CHR ''9'')"

text \<open>The pattern \<^verbatim>\<open>^[A-Za-z0-9][A-Za-z0-9._:/-]{0,255}$\<close>.\<close>

definition identifierPattern :: "string \<Rightarrow> bool" where
  "identifierPattern s =
     (case s of [] \<Rightarrow> False
      | c # cs \<Rightarrow> alphaNum c \<and> length cs \<le> 255 \<and> list_all (\<lambda>x. alphaNum x \<or> x \<in> set ''._:/-'') cs)"

definition ValidateIdentifier :: "string \<Rightarrow> planError + unit" where
  "ValidateIdentifier i = (if identifierPattern i then Inr () else Inl InvalidIdentifier)"

definition ValidateContract :: "string \<Rightarrow> string \<Rightarrow> planError + unit" where
  "ValidateContract i version =
     (if ValidateIdentifier i \<noteq> Inr () \<or> TrimSpace version = [] \<or> length version > 64 then Inl InvalidContract else Inr ())"

definition ValidateScope :: "Scope \<Rightarrow> planError + unit" where
  "ValidateScope scope =
     (if sc_Kind scope = ''global'' then (if sc_Key scope \<noteq> [] then Inl GlobalScopeKey else Inr ())
      else if sc_Kind scope = ''session'' then (if sc_Key scope = [] then Inl SessionKeyRequired else Inr ())
      else Inl UnsupportedScope)"

definition ValidateComponent :: "string \<Rightarrow> Artifact \<Rightarrow> planError + unit" where
  "ValidateComponent instanceID artifact =
     (if ValidateIdentifier instanceID \<noteq> Inr () \<or> ValidateIdentifier (ar_Name artifact) \<noteq> Inr () \<or>
         TrimSpace (ar_Version artifact) = [] \<or> ar_Hash artifact = [] \<or> ar_ConfigHash artifact = []
      then Inl InvalidComponent
      else if ar_SourceKind artifact \<noteq> ''native'' \<and> ar_SourceKind artifact \<noteq> ''wasm'' then Inl UnsupportedSourceKind
      else Inr ())"

definition validHandlerKind :: "string \<Rightarrow> bool" where
  "validHandlerKind kind \<longleftrightarrow> kind \<in> {''notification'', ''hook'', ''transform'', ''gate'', ''around''}"

section \<open>Validation\<close>

text \<open>A loop over the values of a collection that stops at the first error; \<open>seen\<close> is the map of keys seen so far.\<close>

fun eachValue :: "('a \<Rightarrow> 'k set \<Rightarrow> 'e + 'k set) \<Rightarrow> 'k set \<Rightarrow> 'a list \<Rightarrow> 'e + unit" where
  "eachValue f seen [] = Inr ()"
| "eachValue f seen (x # xs) = bindP (f x seen) (\<lambda>s. eachValue f s xs)"

definition validatePlanScope :: "ID \<Rightarrow> Scope \<Rightarrow> planError + unit" where
  "validatePlanScope sessionID scope =
     bindP (ValidateScope scope) (\<lambda>_.
       if sc_Kind scope = ''session'' \<and> (sessionID = [] \<or> sc_Key scope \<noteq> sessionID) then Inl SessionScopeMismatch else Inr ())"

definition validateUniqueScope :: "ID \<Rightarrow> Scope \<Rightarrow> 'k set \<Rightarrow> 'k \<Rightarrow> planError + 'k set" where
  "validateUniqueScope sessionID scope seen key =
     bindP (validatePlanScope sessionID scope) (\<lambda>_. if key \<in> seen then Inl DuplicateIdentity else Inr (insert key seen))"

definition handlerIdentityKey :: "RegistrationIdentity \<Rightarrow> string \<times> string \<times> string \<times> string \<times> Scope" where
  "handlerIdentityKey v = (ri_ID v, ri_Contract v, ri_Version v, ri_Kind v, ri_Scope v)"

definition validateHandlerIdentity :: "ID \<Rightarrow> RegistrationIdentity \<Rightarrow> (string \<times> string \<times> string \<times> string \<times> Scope) set \<Rightarrow>
    planError + (string \<times> string \<times> string \<times> string \<times> Scope) set" where
  "validateHandlerIdentity sessionID v seen =
     (if ValidateIdentifier (ri_ID v) \<noteq> Inr () \<or> ValidateContract (ri_Contract v) (ri_Version v) \<noteq> Inr () \<or> \<not> validHandlerKind (ri_Kind v)
      then Inl InvalidHandler else validateUniqueScope sessionID (ri_Scope v) seen (handlerIdentityKey v))"

definition validateHandlerIdentities :: "ID \<Rightarrow> RegistrationIdentity list \<Rightarrow> planError + unit" where
  "validateHandlerIdentities sessionID = eachValue (validateHandlerIdentity sessionID) {}"

definition toolIdentityKey :: "ToolPlanIdentity \<Rightarrow> string \<times> string \<times> Scope" where
  "toolIdentityKey v = (tp_RegistrationID v, tp_Name v, tp_Scope v)"

definition validateToolIdentity :: "ID \<Rightarrow> ToolPlanIdentity \<Rightarrow> (string \<times> string \<times> Scope) set \<Rightarrow> planError + (string \<times> string \<times> Scope) set" where
  "validateToolIdentity sessionID v seen =
     (if ValidateIdentifier (tp_Name v) \<noteq> Inr () \<or> ValidateIdentifier (tp_RegistrationID v) \<noteq> Inr () \<or> tp_SchemaHash v = [] \<or> tp_ExecutorHash v = []
      then Inl InvalidTool else validateUniqueScope sessionID (tp_Scope v) seen (toolIdentityKey v))"

definition validateToolIdentities :: "ID \<Rightarrow> ToolPlanIdentity list \<Rightarrow> planError + unit" where
  "validateToolIdentities sessionID = eachValue (validateToolIdentity sessionID) {}"

definition promptIdentityKey :: "PromptPlanIdentity \<Rightarrow> string \<times> string \<times> Scope" where
  "promptIdentityKey v = (pp_RegistrationID v, pp_Name v, pp_Scope v)"

definition validatePromptIdentity :: "ID \<Rightarrow> PromptPlanIdentity \<Rightarrow> (string \<times> string \<times> Scope) set \<Rightarrow> planError + (string \<times> string \<times> Scope) set" where
  "validatePromptIdentity sessionID v seen =
     (if ValidateIdentifier (pp_Name v) \<noteq> Inr () \<or> ValidateIdentifier (pp_RegistrationID v) \<noteq> Inr ()
      then Inl InvalidPrompt else validateUniqueScope sessionID (pp_Scope v) seen (promptIdentityKey v))"

definition validatePromptIdentities :: "ID \<Rightarrow> PromptPlanIdentity list \<Rightarrow> planError + unit" where
  "validatePromptIdentities sessionID = eachValue (validatePromptIdentity sessionID) {}"

definition guardIdentityKey :: "GuardPlanIdentity \<Rightarrow> string \<times> Scope" where
  "guardIdentityKey v = (gp_RegistrationID v, gp_Scope v)"

definition validateGuardIdentity :: "ID \<Rightarrow> GuardPlanIdentity \<Rightarrow> (string \<times> Scope) set \<Rightarrow> planError + (string \<times> Scope) set" where
  "validateGuardIdentity sessionID v seen =
     (if ValidateIdentifier (gp_RegistrationID v) \<noteq> Inr () then Inl InvalidGuard
      else validateUniqueScope sessionID (gp_Scope v) seen (guardIdentityKey v))"

definition validateGuardIdentities :: "ID \<Rightarrow> GuardPlanIdentity list \<Rightarrow> planError + unit" where
  "validateGuardIdentities sessionID = eachValue (validateGuardIdentity sessionID) {}"

definition restrictionIdentityKey :: "RestrictionPlanIdentity \<Rightarrow> string \<times> Scope" where
  "restrictionIdentityKey v = (rp_RegistrationID v, rp_Scope v)"

definition validateRestrictionIdentity :: "ID \<Rightarrow> RestrictionPlanIdentity \<Rightarrow> (string \<times> Scope) set \<Rightarrow> planError + (string \<times> Scope) set" where
  "validateRestrictionIdentity sessionID v seen =
     (if ValidateIdentifier (rp_RegistrationID v) \<noteq> Inr () \<or> TrimSpace (rp_RulesHash v) = [] then Inl InvalidRestriction
      else validateUniqueScope sessionID (rp_Scope v) seen (restrictionIdentityKey v))"

definition validateRestrictionIdentities :: "ID \<Rightarrow> RestrictionPlanIdentity list \<Rightarrow> planError + unit" where
  "validateRestrictionIdentities sessionID = eachValue (validateRestrictionIdentity sessionID) {}"

definition agentHandlerIdentityKey :: "AgentHandlerPlanIdentity \<Rightarrow> string \<times> Scope" where
  "agentHandlerIdentityKey v = (ah_ID v, ah_Scope v)"

text \<open>The inner loop over the tools of an agent handler.\<close>

definition validateHandlerTool :: "HandlerToolIdentity \<Rightarrow> string set \<Rightarrow> planError + string set" where
  "validateHandlerTool v seen =
     (if ValidateIdentifier (ht_Name v) \<noteq> Inr () \<or> TrimSpace (ht_SchemaHash v) = [] then Inl InvalidAgentHandlerTool
      else if ht_Name v \<in> seen then Inl DuplicateAgentHandlerTool else Inr (insert (ht_Name v) seen))"

definition validateAgentHandlerIdentity :: "ID \<Rightarrow> AgentHandlerPlanIdentity \<Rightarrow> (string \<times> Scope) set \<Rightarrow> planError + (string \<times> Scope) set" where
  "validateAgentHandlerIdentity sessionID v seen =
     (if ValidateIdentifier (ah_ID v) \<noteq> Inr () \<or> TrimSpace (ah_Kind v) = [] \<or> TrimSpace (ah_Version v) = [] \<or> TrimSpace (ah_ConfigHash v) = []
      then Inl InvalidAgentHandler
      else bindP (validateUniqueScope sessionID (ah_Scope v) seen (agentHandlerIdentityKey v)) (\<lambda>seen'.
        bindP (eachValue validateHandlerTool {} (elems (ah_Tools v))) (\<lambda>_. Inr seen')))"

definition validateAgentHandlerIdentities :: "ID \<Rightarrow> AgentHandlerPlanIdentity list \<Rightarrow> planError + unit" where
  "validateAgentHandlerIdentities sessionID = eachValue (validateAgentHandlerIdentity sessionID) {}"

definition validateComponentPlan :: "ID \<Rightarrow> ComponentPlan \<Rightarrow> string set \<Rightarrow> planError + string set" where
  "validateComponentPlan sessionID c seen =
     bindP (ValidateComponent (cpl_InstanceID c) (cpl_Artifact c)) (\<lambda>_.
       if cpl_InstanceID c \<in> seen then Inl DuplicateComponent
       else if length (elems (cpl_Handlers c)) + length (elems (cpl_Tools c)) + length (elems (cpl_Prompts c)) + length (elems (cpl_Guards c)) +
         length (elems (cpl_Restrictions c)) + length (elems (cpl_AgentHandlers c)) = 0 then Inl NoBehavior
       else
         bindP (validateHandlerIdentities sessionID (elems (cpl_Handlers c))) (\<lambda>_.
         bindP (validateToolIdentities sessionID (elems (cpl_Tools c))) (\<lambda>_.
         bindP (validatePromptIdentities sessionID (elems (cpl_Prompts c))) (\<lambda>_.
         bindP (validateGuardIdentities sessionID (elems (cpl_Guards c))) (\<lambda>_.
         bindP (validateRestrictionIdentities sessionID (elems (cpl_Restrictions c))) (\<lambda>_.
         bindP (validateAgentHandlerIdentities sessionID (elems (cpl_AgentHandlers c))) (\<lambda>_.
           Inr (insert (cpl_InstanceID c) seen))))))))"

definition validateExtensionPlan :: "ID \<Rightarrow> ExtensionPlanDescriptor \<Rightarrow> planError + unit" where
  "validateExtensionPlan sessionID d = eachValue (validateComponentPlan sessionID) {} (elems (ep_Components d))"

section \<open>Canonical order\<close>

definition cmpCompare :: "'a::linorder \<Rightarrow> 'a \<Rightarrow> int" where
  "cmpCompare x y = (if x < y then - 1 else if y < x then 1 else 0)"

text \<open>\<open>if result := \<dots>; result != 0 { return result }\<close>\<close>

definition orElse :: "int \<Rightarrow> int \<Rightarrow> int" where
  "orElse result rest = (if result \<noteq> 0 then result else rest)"

definition compareScope :: "Scope \<Rightarrow> Scope \<Rightarrow> int" where
  "compareScope l r = orElse (cmpCompare (sc_Kind l) (sc_Kind r)) (cmpCompare (sc_Key l) (sc_Key r))"

definition compareRegistrationIdentity :: "RegistrationIdentity \<Rightarrow> RegistrationIdentity \<Rightarrow> int" where
  "compareRegistrationIdentity l r =
     orElse (cmpCompare (ri_Order l) (ri_Order r)) (orElse (cmpCompare (ri_Contract l) (ri_Contract r))
     (orElse (cmpCompare (ri_ID l) (ri_ID r)) (orElse (cmpCompare (ri_Version l) (ri_Version r))
     (orElse (cmpCompare (ri_Kind l) (ri_Kind r)) (compareScope (ri_Scope l) (ri_Scope r))))))"

definition compareToolPlanIdentity :: "ToolPlanIdentity \<Rightarrow> ToolPlanIdentity \<Rightarrow> int" where
  "compareToolPlanIdentity l r =
     orElse (cmpCompare (tp_RegistrationID l) (tp_RegistrationID r)) (orElse (cmpCompare (tp_Name l) (tp_Name r))
     (orElse (compareScope (tp_Scope l) (tp_Scope r)) (orElse (cmpCompare (tp_SchemaHash l) (tp_SchemaHash r))
     (orElse (cmpCompare (tp_ExecutorHash l) (tp_ExecutorHash r)) (cmpCompare (tp_Order l) (tp_Order r))))))"

definition comparePromptPlanIdentity :: "PromptPlanIdentity \<Rightarrow> PromptPlanIdentity \<Rightarrow> int" where
  "comparePromptPlanIdentity l r =
     orElse (cmpCompare (pp_RegistrationID l) (pp_RegistrationID r)) (orElse (cmpCompare (pp_Name l) (pp_Name r))
     (orElse (compareScope (pp_Scope l) (pp_Scope r)) (cmpCompare (pp_Order l) (pp_Order r))))"

definition compareGuardPlanIdentity :: "GuardPlanIdentity \<Rightarrow> GuardPlanIdentity \<Rightarrow> int" where
  "compareGuardPlanIdentity l r =
     orElse (cmpCompare (gp_RegistrationID l) (gp_RegistrationID r))
     (orElse (compareScope (gp_Scope l) (gp_Scope r)) (cmpCompare (gp_Order l) (gp_Order r)))"

definition compareRestrictionPlanIdentity :: "RestrictionPlanIdentity \<Rightarrow> RestrictionPlanIdentity \<Rightarrow> int" where
  "compareRestrictionPlanIdentity l r =
     orElse (cmpCompare (rp_RegistrationID l) (rp_RegistrationID r))
     (orElse (compareScope (rp_Scope l) (rp_Scope r)) (cmpCompare (rp_RulesHash l) (rp_RulesHash r)))"

definition compareAgentHandlerPlanIdentity :: "AgentHandlerPlanIdentity \<Rightarrow> AgentHandlerPlanIdentity \<Rightarrow> int" where
  "compareAgentHandlerPlanIdentity l r =
     orElse (cmpCompare (ah_Order l) (ah_Order r)) (orElse (cmpCompare (ah_ID l) (ah_ID r))
     (orElse (compareScope (ah_Scope l) (ah_Scope r)) (orElse (cmpCompare (ah_Kind l) (ah_Kind r))
     (orElse (cmpCompare (ah_Version l) (ah_Version r)) (cmpCompare (ah_ConfigHash l) (ah_ConfigHash r))))))"

definition compareComponentIdentity :: "string \<Rightarrow> Artifact \<Rightarrow> string \<Rightarrow> Artifact \<Rightarrow> int" where
  "compareComponentIdentity leftID l rightID r =
     orElse (cmpCompare leftID rightID) (orElse (cmpCompare (ar_Name l) (ar_Name r))
     (orElse (cmpCompare (ar_Version l) (ar_Version r)) (orElse (cmpCompare (ar_Hash l) (ar_Hash r))
     (orElse (cmpCompare (ar_ConfigHash l) (ar_ConfigHash r)) (cmpCompare (ar_SourceKind l) (ar_SourceKind r))))))"

definition compareComponentPlan :: "ComponentPlan \<Rightarrow> ComponentPlan \<Rightarrow> int" where
  "compareComponentPlan l r = compareComponentIdentity (cpl_InstanceID l) (cpl_Artifact l) (cpl_InstanceID r) (cpl_Artifact r)"

text \<open>
  \<open>sort.Slice(s, less)\<close>, as an insertion sort. \<open>sort.Slice\<close> leaves the order of elements that are
  neither less nor greater open; \<open>sortSlice_unique\<close> below shows that validated collections have no such elements.
\<close>

fun insertBy :: "('a \<Rightarrow> 'a \<Rightarrow> bool) \<Rightarrow> 'a \<Rightarrow> 'a list \<Rightarrow> 'a list" where
  "insertBy lt x [] = [x]"
| "insertBy lt x (y # ys) = (if lt y x then y # insertBy lt x ys else x # y # ys)"

definition sortSlice :: "('a \<Rightarrow> 'a \<Rightarrow> bool) \<Rightarrow> 'a slice \<Rightarrow> 'a slice" where
  "sortSlice lt s = map_option (\<lambda>xs. foldr (insertBy lt) xs []) s"

definition nilIfEmpty :: "'a slice \<Rightarrow> 'a slice" where
  "nilIfEmpty s = (if elems s = [] then None else s)"

definition mapSlice :: "('a \<Rightarrow> 'b) \<Rightarrow> 'a slice \<Rightarrow> 'b slice" where
  "mapSlice f s = map_option (map f) s"

definition cloneComponent :: "ComponentPlan \<Rightarrow> ComponentPlan" where
  "cloneComponent c = c\<lparr>cpl_Handlers := copySlice (cpl_Handlers c),
     cpl_Tools := mapSlice (\<lambda>t. t\<lparr>tp_Aliases := copySlice (tp_Aliases t)\<rparr>) (copySlice (cpl_Tools c)),
     cpl_Prompts := copySlice (cpl_Prompts c), cpl_Guards := copySlice (cpl_Guards c),
     cpl_Restrictions := copySlice (cpl_Restrictions c),
     cpl_AgentHandlers := mapSlice (\<lambda>a. a\<lparr>ah_Tools := copySlice (ah_Tools a)\<rparr>) (copySlice (cpl_AgentHandlers c))\<rparr>"

definition ClonePlan :: "ExtensionPlanDescriptor \<Rightarrow> ExtensionPlanDescriptor" where
  "ClonePlan d = d\<lparr>ep_Components := Some (map cloneComponent (elems (ep_Components d)))\<rparr>"

definition normalizeEmptyComponentSlices :: "ComponentPlan \<Rightarrow> ComponentPlan" where
  "normalizeEmptyComponentSlices c = c\<lparr>cpl_Handlers := nilIfEmpty (cpl_Handlers c), cpl_Tools := nilIfEmpty (cpl_Tools c),
     cpl_Prompts := nilIfEmpty (cpl_Prompts c), cpl_Guards := nilIfEmpty (cpl_Guards c),
     cpl_Restrictions := nilIfEmpty (cpl_Restrictions c), cpl_AgentHandlers := nilIfEmpty (cpl_AgentHandlers c)\<rparr>"

definition normalizeEmptyPlanSlices :: "ExtensionPlanDescriptor \<Rightarrow> ExtensionPlanDescriptor" where
  "normalizeEmptyPlanSlices d = d\<lparr>ep_Components := nilIfEmpty (ep_Components d)\<rparr>"

definition canonicalTool :: "ToolPlanIdentity \<Rightarrow> ToolPlanIdentity" where
  "canonicalTool t = t\<lparr>tp_Aliases := nilIfEmpty (sortSlice (<) (tp_Aliases t))\<rparr>"

definition canonicalAgentHandler :: "AgentHandlerPlanIdentity \<Rightarrow> AgentHandlerPlanIdentity" where
  "canonicalAgentHandler a = a\<lparr>ah_Tools := nilIfEmpty (sortSlice (\<lambda>x y. ht_Name x < ht_Name y) (ah_Tools a))\<rparr>"

text \<open>The body of the loop over the components.\<close>

definition canonicalComponent :: "ComponentPlan \<Rightarrow> ComponentPlan" where
  "canonicalComponent c = normalizeEmptyComponentSlices (c\<lparr>
     cpl_Handlers := sortSlice (\<lambda>x y. compareRegistrationIdentity x y < 0) (cpl_Handlers c),
     cpl_Tools := sortSlice (\<lambda>x y. compareToolPlanIdentity x y < 0) (mapSlice canonicalTool (cpl_Tools c)),
     cpl_Prompts := sortSlice (\<lambda>x y. comparePromptPlanIdentity x y < 0) (cpl_Prompts c),
     cpl_Guards := sortSlice (\<lambda>x y. compareGuardPlanIdentity x y < 0) (cpl_Guards c),
     cpl_Restrictions := sortSlice (\<lambda>x y. compareRestrictionPlanIdentity x y < 0) (cpl_Restrictions c),
     cpl_AgentHandlers := sortSlice (\<lambda>x y. compareAgentHandlerPlanIdentity x y < 0) (mapSlice canonicalAgentHandler (cpl_AgentHandlers c))\<rparr>)"

definition canonicalExtensionPlan :: "ID \<Rightarrow> ExtensionPlanDescriptor \<Rightarrow> planError + ExtensionPlanDescriptor" where
  "canonicalExtensionPlan sessionID descriptor0 =
     (let descriptor = descriptor0\<lparr>ep_Fingerprint := []\<rparr> in
      bindP (validateExtensionPlan sessionID descriptor) (\<lambda>_.
        let next0 = ClonePlan descriptor;
            next1 = next0\<lparr>ep_Components := mapSlice canonicalComponent (ep_Components next0)\<rparr>
        in Inr (normalizeEmptyPlanSlices (next1\<lparr>ep_Components := sortSlice (\<lambda>x y. compareComponentPlan x y < 0) (ep_Components next1)\<rparr>))))"

section \<open>Sealing\<close>

definition scopeJ :: "Scope \<Rightarrow> json" where
  "scopeJ s = JObj [(''Kind'', jstr (sc_Kind s)), (''Key'', jstr (sc_Key s))]"

definition artifactJ :: "Artifact \<Rightarrow> json" where
  "artifactJ a = JObj [(''Name'', jstr (ar_Name a)), (''Version'', jstr (ar_Version a)), (''Hash'', jstr (ar_Hash a)),
     (''ConfigHash'', jstr (ar_ConfigHash a)), (''SourceKind'', jstr (ar_SourceKind a))]"

definition registrationJ :: "RegistrationIdentity \<Rightarrow> json" where
  "registrationJ v = JObj [(''ID'', jstr (ri_ID v)), (''Contract'', jstr (ri_Contract v)), (''Version'', jstr (ri_Version v)),
     (''Order'', jint (ri_Order v)), (''Scope'', scopeJ (ri_Scope v)), (''Kind'', jstr (ri_Kind v))]"

definition toolPlanJ :: "ToolPlanIdentity \<Rightarrow> json" where
  "toolPlanJ v = JObj [(''Name'', jstr (tp_Name v)), (''RegistrationID'', jstr (tp_RegistrationID v)), (''Scope'', scopeJ (tp_Scope v)),
     (''SchemaHash'', jstr (tp_SchemaHash v)), (''ExecutorHash'', jstr (tp_ExecutorHash v)), (''Order'', jint (tp_Order v)),
     (''Aliases'', arrJ jstr (tp_Aliases v)), (''Deferred'', JBool (tp_Deferred v))]"

definition promptJ :: "PromptPlanIdentity \<Rightarrow> json" where
  "promptJ v = JObj [(''Name'', jstr (pp_Name v)), (''RegistrationID'', jstr (pp_RegistrationID v)), (''Scope'', scopeJ (pp_Scope v)),
     (''Order'', jint (pp_Order v))]"

definition guardJ :: "GuardPlanIdentity \<Rightarrow> json" where
  "guardJ v = JObj [(''RegistrationID'', jstr (gp_RegistrationID v)), (''Scope'', scopeJ (gp_Scope v)), (''Order'', jint (gp_Order v))]"

definition restrictionJ :: "RestrictionPlanIdentity \<Rightarrow> json" where
  "restrictionJ v = JObj [(''RegistrationID'', jstr (rp_RegistrationID v)), (''RulesHash'', jstr (rp_RulesHash v)), (''Scope'', scopeJ (rp_Scope v))]"

definition handlerToolJ :: "HandlerToolIdentity \<Rightarrow> json" where
  "handlerToolJ v = JObj [(''Name'', jstr (ht_Name v)), (''SchemaHash'', jstr (ht_SchemaHash v))]"

definition agentHandlerJ :: "AgentHandlerPlanIdentity \<Rightarrow> json" where
  "agentHandlerJ v = JObj [(''ID'', jstr (ah_ID v)), (''Kind'', jstr (ah_Kind v)), (''Version'', jstr (ah_Version v)),
     (''ConfigHash'', jstr (ah_ConfigHash v)), (''Order'', jint (ah_Order v)), (''Scope'', scopeJ (ah_Scope v)),
     (''Tools'', arrJ handlerToolJ (ah_Tools v))]"

definition componentJ :: "ComponentPlan \<Rightarrow> json" where
  "componentJ c = JObj [(''InstanceID'', jstr (cpl_InstanceID c)), (''Artifact'', artifactJ (cpl_Artifact c)),
     (''Handlers'', arrJ registrationJ (cpl_Handlers c)), (''Tools'', arrJ toolPlanJ (cpl_Tools c)),
     (''Prompts'', arrJ promptJ (cpl_Prompts c)), (''Guards'', arrJ guardJ (cpl_Guards c)),
     (''Restrictions'', arrJ restrictionJ (cpl_Restrictions c)), (''AgentHandlers'', arrJ agentHandlerJ (cpl_AgentHandlers c))]"

definition planJ :: "ExtensionPlanDescriptor \<Rightarrow> json" where
  "planJ d = JObj [(''Fingerprint'', jstr (ep_Fingerprint d)), (''ToolSearch'', jstr (ep_ToolSearch d)),
     (''Components'', arrJ componentJ (ep_Components d))]"

record SealedExtensionPlan =
  sp_descriptor :: ExtensionPlanDescriptor

definition Descriptor :: "SealedExtensionPlan \<Rightarrow> ExtensionPlanDescriptor" where
  "Descriptor p = ClonePlan (sp_descriptor p)"

definition Fingerprint :: "SealedExtensionPlan \<Rightarrow> string" where
  "Fingerprint p = ep_Fingerprint (sp_descriptor p)"

definition Matches :: "SealedExtensionPlan \<Rightarrow> SealedExtensionPlan \<Rightarrow> bool" where
  "Matches p other \<longleftrightarrow> Fingerprint p \<noteq> [] \<and> Fingerprint p = Fingerprint other"

definition sealExtensionPlan :: "ID \<Rightarrow> ExtensionPlanDescriptor \<Rightarrow> planError + SealedExtensionPlan" where
  "sealExtensionPlan sessionID descriptor =
     bindP (canonicalExtensionPlan sessionID descriptor) (\<lambda>next.
       Inr \<lparr>sp_descriptor = next\<lparr>ep_Fingerprint := hexDigest (emit (planJ next))\<rparr>\<rparr>)"

definition SealExtensionPlanForSession :: "ID \<Rightarrow> ExtensionPlanDescriptor \<Rightarrow> planError + SealedExtensionPlan" where
  "SealExtensionPlanForSession sessionID descriptor =
     (if ep_Fingerprint descriptor \<noteq> [] then Inl AlreadyFingerprinted else sealExtensionPlan sessionID descriptor)"

definition VerifyExtensionPlanForSession :: "ID \<Rightarrow> ExtensionPlanDescriptor \<Rightarrow> planError + SealedExtensionPlan" where
  "VerifyExtensionPlanForSession sessionID descriptor =
     (if sessionID = [] \<or> ep_Fingerprint descriptor = [] then Inl SessionAndFingerprintRequired
      else bindP (sealExtensionPlan sessionID (descriptor\<lparr>ep_Fingerprint := []\<rparr>)) (\<lambda>sealed.
        if Fingerprint sealed \<noteq> ep_Fingerprint descriptor then Inl FingerprintMismatch else Inr sealed))"

end
