(* ===== verification/ExtensionRegistry.thy ===== *)
theory ExtensionRegistry
  imports ExtensionPlans
begin

text \<open>
  The extension registry: \<open>extension/registry.go\<close>, the registration functions of \<open>extension/types.go\<close> and the
  notification queue of \<open>extension/notification_dispatcher.go\<close>. A component is prepared, committed, selected into
  plans, deactivated and cleaned up. Each critical section of the registry's mutex is one operation on the
  state. Pointers are addresses: a mount state is an index into \<open>rs_heap\<close>, a plan an index into \<open>rs_plans\<close>, and
  a point definition carries its address, so that two of them are the same pointer exactly when the records
  are equal. A cleanup function is named by a number and what a call of it returns is an input of the step
  that calls it.
\<close>

section \<open>Registrations\<close>

datatype extErr = ErrInvalidContract | ErrInvalidComponent | ErrInvalidRegistration | ErrDuplicateRegistration | ErrDuplicateInstance
  | ErrMountClosed | ErrSelfClose | HostErr string | Panicked string | Joined "extErr list"

record Contract =
  cn_ID :: string
  cn_Version :: string

record durablePointKey =
  pk_contract :: Contract
  pk_kind :: string

record pointDefinition =
  pd_addr :: nat
  pd_key :: durablePointKey

record Registration =
  rg_ID :: string
  rg_Order :: int
  rg_Scope :: Scope

record Component =
  cmp_InstanceID :: string
  cmp_Artifact :: Artifact

record 'c registrationEntry =
  rn_point :: pointDefinition
  rn_spec :: Registration
  rn_callback :: 'c

definition validatePoint :: "pointDefinition option \<Rightarrow> extErr + unit" where
  "validatePoint point =
     (case point of None \<Rightarrow> Inl ErrInvalidContract
      | Some d \<Rightarrow> if pk_kind (pd_key d) = [] then Inl ErrInvalidContract
          else wrapP (\<lambda>_. ErrInvalidContract) (ValidateContract (cn_ID (pk_contract (pd_key d))) (cn_Version (pk_contract (pd_key d)))))"

text \<open>One point of the catalogue: \<open>None\<close> is a nil point.\<close>

definition catalogPoint :: "(durablePointKey \<rightharpoonup> pointDefinition) \<Rightarrow> pointDefinition option \<Rightarrow> extErr + (durablePointKey \<rightharpoonup> pointDefinition)" where
  "catalogPoint definitions point =
     bindP (validatePoint point) (\<lambda>_.
       case point of None \<Rightarrow> Inl ErrInvalidContract
       | Some d \<Rightarrow> (case definitions (pd_key d) of
           Some existing \<Rightarrow> if existing \<noteq> d then Inl ErrInvalidContract else Inr definitions
         | None \<Rightarrow> Inr (definitions(pd_key d \<mapsto> d))))"

record 'c stagingRegistrar =
  sg_component :: Component
  sg_entries :: "'c registrationEntry list"
  sg_effects :: "nat list"
  sg_closed :: bool

definition sameRegistration :: "'c registrationEntry \<Rightarrow> 'c registrationEntry \<Rightarrow> bool" where
  "sameRegistration x y \<longleftrightarrow> pd_key (rn_point x) = pd_key (rn_point y) \<and> rg_Scope (rn_spec x) = rg_Scope (rn_spec y) \<and>
     rg_ID (rn_spec x) = rg_ID (rn_spec y)"

definition register :: "'c registrationEntry \<Rightarrow> 'c stagingRegistrar \<Rightarrow> extErr + 'c stagingRegistrar" where
  "register entry s =
     (if sg_closed s then Inl ErrMountClosed
      else if \<not> identifierPattern (rg_ID (rn_spec entry)) then Inl ErrInvalidRegistration
      else bindP (wrapP (\<lambda>_. ErrInvalidRegistration) (ValidateScope (rg_Scope (rn_spec entry)))) (\<lambda>_.
        if list_ex (\<lambda>existing. sameRegistration existing entry) (sg_entries s) then Inl ErrDuplicateRegistration
        else Inr (s\<lparr>sg_entries := sg_entries s @ [entry]\<rparr>)))"

definition Defer :: "nat option \<Rightarrow> 'c stagingRegistrar \<Rightarrow> extErr + 'c stagingRegistrar" where
  "Defer cleanup s =
     (if sg_closed s then Inl ErrMountClosed
      else case cleanup of None \<Rightarrow> Inl ErrInvalidRegistration
      | Some f \<Rightarrow> Inr (s\<lparr>sg_effects := sg_effects s @ [f]\<rparr>))"

text \<open>\<open>On\<close>, \<open>OnHook\<close>, \<open>OnTransform\<close>, \<open>OnGate\<close> and \<open>OnAround\<close>, which differ in the type of the callback only.\<close>

definition registerCallback :: "pointDefinition option \<Rightarrow> Registration \<Rightarrow> 'c option \<Rightarrow> 'c stagingRegistrar \<Rightarrow> extErr + 'c stagingRegistrar" where
  "registerCallback point spec callback s =
     (case callback of None \<Rightarrow> Inl ErrInvalidRegistration
      | Some f \<Rightarrow> bindP (validatePoint point) (\<lambda>_.
          case point of None \<Rightarrow> Inl ErrInvalidContract
          | Some d \<Rightarrow> register \<lparr>rn_point = d, rn_spec = spec, rn_callback = f\<rparr> s))"

text \<open>
  An installer is code that calls the registrar and sees its answers; it returns, with or without an error,
  or panics.
\<close>

datatype 'c installer =
    IReturn "extErr option"
  | IPanic string
  | IRegister "pointDefinition option" Registration "'c option" "extErr option \<Rightarrow> 'c installer"
  | IDefer "nat option" "extErr option \<Rightarrow> 'c installer"

definition answer :: "extErr + 's \<Rightarrow> extErr option" where
  "answer r = (case r of Inl e \<Rightarrow> Some e | Inr _ \<Rightarrow> None)"

definition stateAfter :: "'s \<Rightarrow> extErr + 's \<Rightarrow> 's" where
  "stateAfter s r = (case r of Inl e \<Rightarrow> s | Inr t \<Rightarrow> t)"

primrec runInstaller :: "'c installer \<Rightarrow> 'c stagingRegistrar \<Rightarrow> extErr option \<times> 'c stagingRegistrar" where
  "runInstaller (IReturn e) s = (e, s)"
| "runInstaller (IPanic m) s = (Some (Panicked m), s)"
| "runInstaller (IRegister point spec callback k) s =
     runInstaller (k (answer (registerCallback point spec callback s))) (stateAfter s (registerCallback point spec callback s))"
| "runInstaller (IDefer cleanup k) s = runInstaller (k (answer (Defer cleanup s))) (stateAfter s (Defer cleanup s))"

section \<open>State\<close>

record cleanupState =
  cs_fn :: nat
  cs_done :: bool

record ('c, 'v) mountState =
  ms_component :: Component
  ms_entries :: "'c registrationEntry list"
  ms_selectionScopes :: "Scope list"
  ms_value :: "'v option"
  ms_effects :: "cleanupState list"
  ms_active :: bool
  ms_refs :: int
  ms_drained :: bool

record PreparedMount =
  pm_state :: nat
  pm_committed :: bool
  pm_rolledBack :: bool

text \<open>A planned entry: the registration, its component and its mount, which is also the callback token.\<close>

record 'c plannedEntry =
  pe_entry :: "'c registrationEntry"
  pe_component :: Component
  pe_mount :: nat

record HandlerIdentity =
  hi_ID :: string
  hi_Contract :: Contract
  hi_Order :: int
  hi_Scope :: Scope
  hi_Kind :: string

record 'v MountedValue =
  mv_component :: Component
  mv_value :: "'v option"
  mv_mount :: nat

text \<open>
  A notification task: an observer's callback, which retains its mount, or the marker of a \<open>Flush\<close>.
\<close>

datatype notificationTask = Callback nat | FlushMark

text \<open>
  A plan with the values of its snapshot. \<open>pl_releases\<close> are the mounts it still holds; \<open>pl_queue\<close> and
  \<open>pl_running\<close> are the tasks that wait and the one the worker runs.
\<close>

record ('c, 'v) Plan =
  pl_entries :: "'c plannedEntry list"
  pl_handlerComponents :: "(Component \<times> HandlerIdentity list) list"
  pl_values :: "'v MountedValue list"
  pl_released :: bool
  pl_releases :: "nat list"
  pl_queue :: "notificationTask list"
  pl_running :: "notificationTask option"

text \<open>
  The registry with everything that was created from it. \<open>rs_mounts\<close> is the map of mounts by instance id;
  \<open>rs_log\<close> records the cleanup calls (mount, index of the effect, whether it succeeded), which the code does not keep.
\<close>

record ('c, 'v) Registry =
  rs_points :: "durablePointKey \<rightharpoonup> pointDefinition"
  rs_mounts :: "(string \<times> nat) list"
  rs_heap :: "('c, 'v) mountState list"
  rs_prepared :: "PreparedMount list"
  rs_plans :: "('c, 'v) Plan list"
  rs_log :: "(nat \<times> nat \<times> bool) list"

definition NewRegistry :: "pointDefinition option list \<Rightarrow> extErr + ('c, 'v) Registry" where
  "NewRegistry catalog =
     bindP (foldP catalogPoint Map.empty catalog) (\<lambda>definitions.
       Inr \<lparr>rs_points = definitions, rs_mounts = [], rs_heap = [], rs_prepared = [], rs_plans = [], rs_log = []\<rparr>)"

definition updMount :: "nat \<Rightarrow> (('c, 'v) mountState \<Rightarrow> ('c, 'v) mountState) \<Rightarrow> ('c, 'v) Registry \<Rightarrow> ('c, 'v) Registry" where
  "updMount a f s = s\<lparr>rs_heap := (rs_heap s)[a := f (rs_heap s ! a)]\<rparr>"

definition updPlan :: "nat \<Rightarrow> (('c, 'v) Plan \<Rightarrow> ('c, 'v) Plan) \<Rightarrow> ('c, 'v) Registry \<Rightarrow> ('c, 'v) Registry" where
  "updPlan i f s = s\<lparr>rs_plans := (rs_plans s)[i := f (rs_plans s ! i)]\<rparr>"

section \<open>Cleanup\<close>

definition maxReportedFailures :: nat where "maxReportedFailures = 64"

text \<open>\<open>errors.Join\<close> of the failures, the first \<open>maxReportedFailures\<close> of them.\<close>

definition joinErrs :: "extErr list \<Rightarrow> extErr + unit" where
  "joinErrs es = (if es = [] then Inr () else Inl (Joined (take maxReportedFailures es)))"

text \<open>Calls in the order of decreasing index; \<open>outs i\<close> is what the call of effect \<open>i\<close> returns.\<close>

definition cleanupReverse :: "(nat \<Rightarrow> extErr option) \<Rightarrow> nat \<Rightarrow> extErr list" where
  "cleanupReverse outs n = List.map_filter outs (rev [0..<n])"

text \<open>The cleanup loop of \<open>Close\<close>: the pending effects, in the order in which they are called.\<close>

definition pendingEffects :: "cleanupState list \<Rightarrow> nat list" where
  "pendingEffects effects = filter (\<lambda>i. \<not> cs_done (effects ! i)) (rev [0..<length effects])"

definition markDone :: "(nat \<Rightarrow> extErr option) \<Rightarrow> cleanupState list \<Rightarrow> cleanupState list" where
  "markDone outs effects =
     map (\<lambda>i. if \<not> cs_done (effects ! i) \<and> outs i = None then (effects ! i)\<lparr>cs_done := True\<rparr> else effects ! i) [0..<length effects]"

section \<open>Mounting\<close>

definition PrepareMount :: "Component \<Rightarrow> 'c installer option \<Rightarrow> (nat \<Rightarrow> extErr option) \<Rightarrow> ('c, 'v) Registry \<Rightarrow> (extErr + nat) \<times> ('c, 'v) Registry" where
  "PrepareMount component installer outs s =
     (case installer of None \<Rightarrow> (Inl ErrInvalidComponent, s)
      | Some code \<Rightarrow>
        if ValidateComponent (cmp_InstanceID component) (cmp_Artifact component) \<noteq> Inr () then (Inl ErrInvalidComponent, s)
        else case runInstaller code \<lparr>sg_component = component, sg_entries = [], sg_effects = [], sg_closed = False\<rparr> of
          (Some e, stage) \<Rightarrow> (Inl (Joined (e # take maxReportedFailures (cleanupReverse outs (length (sg_effects stage))))), s)
        | (None, stage) \<Rightarrow>
            (Inr (length (rs_prepared s)),
             s\<lparr>rs_heap := rs_heap s @ [\<lparr>ms_component = component, ms_entries = sg_entries stage, ms_selectionScopes = [], ms_value = None,
                 ms_effects = map (\<lambda>f. \<lparr>cs_fn = f, cs_done = False\<rparr>) (sg_effects stage), ms_active = False, ms_refs = 0, ms_drained = False\<rparr>],
               rs_prepared := rs_prepared s @ [\<lparr>pm_state = length (rs_heap s), pm_committed = False, pm_rolledBack = False\<rparr>]\<rparr>))"

definition freezeScope :: "Scope list \<Rightarrow> Scope \<Rightarrow> extErr + Scope list" where
  "freezeScope result scope =
     bindP (wrapP (\<lambda>_. ErrInvalidRegistration) (ValidateScope scope)) (\<lambda>_.
       Inr (if scope \<in> set result then result else result @ [scope]))"

definition freezeScopes :: "Scope list \<Rightarrow> extErr + Scope list" where
  "freezeScopes scopes = foldP freezeScope [] scopes"

text \<open>The check that an entry's point is the one of the catalogue.\<close>

definition knownPoint :: "(durablePointKey \<rightharpoonup> pointDefinition) \<Rightarrow> 'c registrationEntry \<Rightarrow> bool" where
  "knownPoint definitions entry \<longleftrightarrow> definitions (pd_key (rn_point entry)) = Some (rn_point entry)"

text \<open>
  \<open>CommitMount\<close>: a panic of the validator is an error it returns. The model has one registry, so the test that
  the preparation belongs to it is not needed.
\<close>

definition CommitMount :: "nat \<Rightarrow> 'v \<Rightarrow> Scope list \<Rightarrow> ((Component \<times> 'v option) list \<Rightarrow> Component \<times> 'v \<Rightarrow> extErr option) option \<Rightarrow>
    ('c, 'v) Registry \<Rightarrow> (extErr + nat) \<times> ('c, 'v) Registry" where
  "CommitMount p v selectionScopes validate s =
     (case freezeScopes selectionScopes of Inl e \<Rightarrow> (Inl e, s)
      | Inr scopes \<Rightarrow>
        let prepared = rs_prepared s ! p; a = pm_state prepared; state = rs_heap s ! a; iid = cmp_InstanceID (ms_component state) in
        if pm_committed prepared \<or> pm_rolledBack prepared then (Inl ErrMountClosed, s)
        else if iid \<in> fst ` set (rs_mounts s) then (Inl ErrDuplicateInstance, s)
        else if \<not> list_all (knownPoint (rs_points s)) (ms_entries state) then (Inl ErrInvalidContract, s)
        else let active = map (\<lambda>(i, b). (ms_component (rs_heap s ! b), ms_value (rs_heap s ! b)))
               (filter (\<lambda>(i, b). ms_active (rs_heap s ! b)) (rs_mounts s)) in
          case (case validate of None \<Rightarrow> None | Some f \<Rightarrow> f active (ms_component state, v)) of
            Some e \<Rightarrow> (Inl e, s)
          | None \<Rightarrow> (Inr a, (updMount a (\<lambda>m. m\<lparr>ms_value := Some v, ms_selectionScopes := scopes, ms_active := True\<rparr>) s)
              \<lparr>rs_mounts := rs_mounts s @ [(iid, a)], rs_prepared := (rs_prepared s)[p := prepared\<lparr>pm_committed := True\<rparr>]\<rparr>))"

text \<open>\<open>Rollback\<close> runs the cleanups of an uncommitted preparation once.\<close>

definition Rollback :: "nat \<Rightarrow> (nat \<Rightarrow> extErr option) \<Rightarrow> ('c, 'v) Registry \<Rightarrow> (extErr + unit) \<times> ('c, 'v) Registry" where
  "Rollback p outs s =
     (let prepared = rs_prepared s ! p; a = pm_state prepared; n = length (ms_effects (rs_heap s ! a)) in
      if pm_committed prepared \<or> pm_rolledBack prepared then (Inr (), s)
      else (joinErrs (cleanupReverse outs n),
        s\<lparr>rs_prepared := (rs_prepared s)[p := prepared\<lparr>pm_rolledBack := True\<rparr>],
          rs_log := rs_log s @ map (\<lambda>i. (a, i, outs i = None)) (rev [0..<n])\<rparr>))"

section \<open>Unmounting\<close>

definition deactivateLocked :: "nat \<Rightarrow> ('c, 'v) Registry \<Rightarrow> ('c, 'v) Registry" where
  "deactivateLocked a s =
     (let state = rs_heap s ! a in
      if \<not> ms_active state then s
      else (updMount a (\<lambda>m. m\<lparr>ms_active := False, ms_drained := ms_drained m \<or> ms_refs m = 0\<rparr>) s)
        \<lparr>rs_mounts := filter (\<lambda>(i, b). i \<noteq> cmp_InstanceID (ms_component state)) (rs_mounts s)\<rparr>)"

text \<open>\<open>CheckClose\<close>: \<open>token\<close> is the mount whose callback the context belongs to.\<close>

definition CheckClose :: "nat option \<Rightarrow> nat \<Rightarrow> extErr + unit" where
  "CheckClose token a = (if token = Some a then Inl ErrSelfClose else Inr ())"

text \<open>The first half of \<open>Close\<close>, before it waits for \<open>drained\<close>.\<close>

definition beginClose :: "nat option \<Rightarrow> nat \<Rightarrow> ('c, 'v) Registry \<Rightarrow> (extErr + unit) \<times> ('c, 'v) Registry" where
  "beginClose token a s = (case CheckClose token a of Inl e \<Rightarrow> (Inl e, s) | Inr _ \<Rightarrow> (Inr (), deactivateLocked a s))"

text \<open>The second half, which runs once \<open>drained\<close> is closed.\<close>

definition finishClose :: "nat \<Rightarrow> (nat \<Rightarrow> extErr option) \<Rightarrow> ('c, 'v) Registry \<Rightarrow> (extErr + unit) \<times> ('c, 'v) Registry" where
  "finishClose a outs s =
     (let pending = pendingEffects (ms_effects (rs_heap s ! a)) in
      (joinErrs (List.map_filter outs pending),
       (updMount a (\<lambda>m. m\<lparr>ms_effects := markDone outs (ms_effects m)\<rparr>) s)
         \<lparr>rs_log := rs_log s @ map (\<lambda>i. (a, i, outs i = None)) pending\<rparr>))"

definition retainMount :: "nat \<Rightarrow> ('c, 'v) Registry \<Rightarrow> ('c, 'v) Registry" where
  "retainMount a s = updMount a (\<lambda>m. m\<lparr>ms_refs := ms_refs m + 1\<rparr>) s"

definition releaseMount :: "nat \<Rightarrow> ('c, 'v) Registry \<Rightarrow> ('c, 'v) Registry" where
  "releaseMount a s =
     updMount a (\<lambda>m. let refs = (if ms_refs m > 0 then ms_refs m - 1 else ms_refs m) in
       m\<lparr>ms_refs := refs, ms_drained := ms_drained m \<or> (refs = 0 \<and> \<not> ms_active m)\<rparr>) s"

section \<open>Plans\<close>

definition ScopeApplies :: "Scope \<Rightarrow> Scope \<Rightarrow> bool" where
  "ScopeApplies registration target \<longleftrightarrow> sc_Kind registration = ''global'' \<or>
     sc_Kind registration = ''session'' \<and> sc_Kind target = ''session'' \<and> sc_Key registration = sc_Key target"

definition scopeRank :: "Scope \<Rightarrow> int" where
  "scopeRank scope = (if sc_Kind scope = ''session'' then 1 else 0)"

definition entryLess :: "'c plannedEntry \<Rightarrow> 'c plannedEntry \<Rightarrow> bool" where
  "entryLess l r =
     (let ls = rn_spec (pe_entry l); rs = rn_spec (pe_entry r) in
      if rg_Order ls \<noteq> rg_Order rs then rg_Order ls < rg_Order rs
      else if scopeRank (rg_Scope ls) \<noteq> scopeRank (rg_Scope rs) then scopeRank (rg_Scope ls) < scopeRank (rg_Scope rs)
      else if cmp_InstanceID (pe_component l) \<noteq> cmp_InstanceID (pe_component r)
        then cmp_InstanceID (pe_component l) < cmp_InstanceID (pe_component r)
      else rg_ID ls < rg_ID rs)"

definition handlerIdentity :: "'c registrationEntry \<Rightarrow> HandlerIdentity" where
  "handlerIdentity entry = \<lparr>hi_ID = rg_ID (rn_spec entry), hi_Contract = pk_contract (pd_key (rn_point entry)),
     hi_Order = rg_Order (rn_spec entry), hi_Scope = rg_Scope (rn_spec entry), hi_Kind = pk_kind (pd_key (rn_point entry))\<rparr>"

text \<open>The mounts a snapshot looks at, in the order \<open>order\<close> of the range over the map.\<close>

definition selected :: "string set option \<Rightarrow> (string \<times> nat) list \<Rightarrow> ('c, 'v) Registry \<Rightarrow> nat list" where
  "selected allowed order s =
     filter (\<lambda>a. ms_active (rs_heap s ! a) \<and> (case allowed of None \<Rightarrow> True | Some ids \<Rightarrow> cmp_InstanceID (ms_component (rs_heap s ! a)) \<in> ids)) (map snd order)"

definition applicable :: "Scope \<Rightarrow> ('c, 'v) mountState \<Rightarrow> 'c registrationEntry list" where
  "applicable target m = filter (\<lambda>e. ScopeApplies (rg_Scope (rn_spec e)) target) (ms_entries m)"

definition applies :: "Scope \<Rightarrow> ('c, 'v) mountState \<Rightarrow> bool" where
  "applies target m \<longleftrightarrow> applicable target m \<noteq> [] \<or> list_ex (\<lambda>scope. ScopeApplies scope target) (ms_selectionScopes m)"

definition plannedEntries :: "Scope \<Rightarrow> nat list \<Rightarrow> ('c, 'v) Registry \<Rightarrow> 'c plannedEntry list" where
  "plannedEntries target addrs s =
     concat (map (\<lambda>a. map (\<lambda>e. \<lparr>pe_entry = e, pe_component = ms_component (rs_heap s ! a), pe_mount = a\<rparr>) (applicable target (rs_heap s ! a))) addrs)"

definition insertionSort :: "('a \<Rightarrow> 'a \<Rightarrow> bool) \<Rightarrow> 'a list \<Rightarrow> 'a list" where
  "insertionSort lt xs = foldr (insertBy lt) xs []"

definition makePlan :: "Scope \<Rightarrow> nat list \<Rightarrow> ('c, 'v) Registry \<Rightarrow> ('c, 'v) Plan" where
  "makePlan target addrs s =
     (let leased = filter (\<lambda>a. applies target (rs_heap s ! a)) addrs in
      \<lparr>pl_entries = insertionSort entryLess (plannedEntries target addrs s),
       pl_handlerComponents = insertionSort (\<lambda>l r. cmp_InstanceID (fst l) < cmp_InstanceID (fst r))
         (map (\<lambda>a. (ms_component (rs_heap s ! a), map handlerIdentity (applicable target (rs_heap s ! a))))
           (filter (\<lambda>a. applicable target (rs_heap s ! a) \<noteq> []) addrs)),
       pl_values = insertionSort (\<lambda>l r. cmp_InstanceID (mv_component l) < cmp_InstanceID (mv_component r))
         (map (\<lambda>a. \<lparr>mv_component = ms_component (rs_heap s ! a), mv_value = ms_value (rs_heap s ! a), mv_mount = a\<rparr>) leased),
       pl_released = False, pl_releases = leased, pl_queue = [], pl_running = None\<rparr>)"

definition snapshot :: "Scope \<Rightarrow> string set option \<Rightarrow> (string \<times> nat) list \<Rightarrow> ('c, 'v) Registry \<Rightarrow> (extErr + nat) \<times> ('c, 'v) Registry" where
  "snapshot target allowed order s =
     (if ValidateScope target \<noteq> Inr () then (Inl ErrInvalidRegistration, s)
      else let plan = makePlan target (selected allowed order s) s in
        (Inr (length (rs_plans s)), (fold retainMount (pl_releases plan) s)\<lparr>rs_plans := rs_plans s @ [plan]\<rparr>))"

section \<open>Notifications\<close>

definition notificationQueueSize :: nat where "notificationQueueSize = 128"

text \<open>\<open>enqueueNotification\<close> for the entry \<open>k\<close> of a plan: the mount is retained, and released again when the queue is full.\<close>

definition enqueueNotification :: "nat \<Rightarrow> nat \<Rightarrow> ('c, 'v) Registry \<Rightarrow> bool \<times> ('c, 'v) Registry" where
  "enqueueNotification i k s =
     (let plan = rs_plans s ! i; a = pe_mount (pl_entries plan ! k) in
      if pl_released plan then (False, s)
      else let s1 = retainMount a s in
        if length (pl_queue plan) < notificationQueueSize then (True, updPlan i (\<lambda>p. p\<lparr>pl_queue := pl_queue p @ [Callback a]\<rparr>) s1)
        else (False, releaseMount a s1))"

text \<open>
  \<open>Flush\<close> puts a marker into the queue and waits until the worker has reached it; \<open>None\<close> while the queue is full.
  On a closed queue it puts nothing.
\<close>

definition flushMark :: "nat \<Rightarrow> ('c, 'v) Registry \<Rightarrow> ('c, 'v) Registry option" where
  "flushMark i s =
     (let plan = rs_plans s ! i in
      if pl_released plan then Some s
      else if length (pl_queue plan) < notificationQueueSize then Some (updPlan i (\<lambda>p. p\<lparr>pl_queue := pl_queue p @ [FlushMark]\<rparr>) s)
      else None)"

text \<open>The worker of a plan takes a task, and releases its mount when the task has run.\<close>

definition startTask :: "nat \<Rightarrow> ('c, 'v) Registry \<Rightarrow> ('c, 'v) Registry option" where
  "startTask i s =
     (case (pl_running (rs_plans s ! i), pl_queue (rs_plans s ! i)) of
        (None, task # queue) \<Rightarrow> Some (updPlan i (\<lambda>p. p\<lparr>pl_queue := queue, pl_running := Some task\<rparr>) s)
      | _ \<Rightarrow> None)"

definition releaseTask :: "notificationTask \<Rightarrow> ('c, 'v) Registry \<Rightarrow> ('c, 'v) Registry" where
  "releaseTask task s = (case task of Callback a \<Rightarrow> releaseMount a s | FlushMark \<Rightarrow> s)"

definition finishTask :: "nat \<Rightarrow> ('c, 'v) Registry \<Rightarrow> ('c, 'v) Registry option" where
  "finishTask i s =
     (case pl_running (rs_plans s ! i) of None \<Rightarrow> None
      | Some task \<Rightarrow> Some (releaseTask task (updPlan i (\<lambda>p. p\<lparr>pl_running := None\<rparr>) s)))"

text \<open>
  \<open>Release\<close>: the queue is closed once, and then the mounts are released one by one, each under the
  registry's mutex.
\<close>

definition releasePlan :: "nat \<Rightarrow> ('c, 'v) Registry \<Rightarrow> ('c, 'v) Registry" where
  "releasePlan i s = updPlan i (\<lambda>p. p\<lparr>pl_released := True\<rparr>) s"

definition releaseNext :: "nat \<Rightarrow> ('c, 'v) Registry \<Rightarrow> ('c, 'v) Registry option" where
  "releaseNext i s =
     (case pl_releases (rs_plans s ! i) of [] \<Rightarrow> None
      | a # rest \<Rightarrow> if pl_released (rs_plans s ! i)
          then Some (releaseMount a (updPlan i (\<lambda>p. p\<lparr>pl_releases := rest\<rparr>) s)) else None)"

section \<open>Steps\<close>

datatype ('c, 'v) regAction =
    RPrepare Component "'c installer option" "nat \<Rightarrow> extErr option"
  | RCommit nat 'v "Scope list" "((Component \<times> 'v option) list \<Rightarrow> Component \<times> 'v \<Rightarrow> extErr option) option"
  | RRollback nat "nat \<Rightarrow> extErr option"
  | RDeactivate nat
  | RBeginClose "nat option" nat
  | RFinishClose nat "nat \<Rightarrow> extErr option"
  | RSnapshot Scope "string set option" "(string \<times> nat) list"
  | RNotify nat nat
  | RFlush nat
  | RStartTask nat
  | RFinishTask nat
  | RRelease nat
  | RReleaseNext nat

text \<open>What a step does; \<open>None\<close> when it has to wait, or names something that does not exist.\<close>

fun regStep :: "('c, 'v) regAction \<Rightarrow> ('c, 'v) Registry \<Rightarrow> ('c, 'v) Registry option" where
  "regStep (RPrepare c i outs) s = Some (snd (PrepareMount c i outs s))"
| "regStep (RCommit p v scopes validate) s = (if p < length (rs_prepared s) then Some (snd (CommitMount p v scopes validate s)) else None)"
| "regStep (RRollback p outs) s = (if p < length (rs_prepared s) then Some (snd (Rollback p outs s)) else None)"
| "regStep (RDeactivate a) s = (if a < length (rs_heap s) then Some (deactivateLocked a s) else None)"
| "regStep (RBeginClose token a) s = (if a < length (rs_heap s) then Some (snd (beginClose token a s)) else None)"
| "regStep (RFinishClose a outs) s =
     (if a < length (rs_heap s) \<and> ms_drained (rs_heap s ! a) then Some (snd (finishClose a outs s)) else None)"
| "regStep (RSnapshot target allowed order) s =
     (if mset order = mset (rs_mounts s) then Some (snd (snapshot target allowed order s)) else None)"
| "regStep (RNotify i k) s =
     (if i < length (rs_plans s) \<and> k < length (pl_entries (rs_plans s ! i)) then Some (snd (enqueueNotification i k s)) else None)"
| "regStep (RFlush i) s = (if i < length (rs_plans s) then flushMark i s else None)"
| "regStep (RStartTask i) s = (if i < length (rs_plans s) then startTask i s else None)"
| "regStep (RFinishTask i) s = (if i < length (rs_plans s) then finishTask i s else None)"
| "regStep (RRelease i) s = (if i < length (rs_plans s) then Some (releasePlan i s) else None)"
| "regStep (RReleaseNext i) s = (if i < length (rs_plans s) then releaseNext i s else None)"

inductive regReachable :: "('c, 'v) Registry \<Rightarrow> bool" where
  new: "NewRegistry catalog = Inr s \<Longrightarrow> regReachable s"
| step: "regReachable s \<Longrightarrow> regStep a s = Some t \<Longrightarrow> regReachable t"

end
