(* ===== verification/GoErrors.thy ===== *)
theory GoErrors
  imports GoBase
begin

text \<open>
  Errors of host and extension code, which the program tells apart by \<open>errors.Is\<close>, and what a callback can do.
\<close>

text \<open>
  A Go error: its text, and the sentinels of \<open>context\<close> and \<open>permissions/policy.go\<close> that \<open>errors.Is\<close> finds in it.
\<close>

datatype sentinel = Canceled | DeadlineExceeded | ErrDenied | ErrApprovalRequired | ErrInterrupted | ErrOperational

datatype goErr = GoErr (errText: string) (errIs: "sentinel list")

definition newErr :: "string \<Rightarrow> goErr" where
  "newErr t = GoErr t []"

datatype 'a outcome = Returns 'a | Fails goErr | Panics string

definition isErr :: "sentinel \<Rightarrow> goErr \<Rightarrow> bool" where
  "isErr x e = List.member (errIs e) x"

end
