(* ===== verification/ExtensionDispatch.thy ===== *)
theory ExtensionDispatch
  imports ExtensionRegistry GoErrors
begin

text \<open>
  Running the handlers of a point: \<open>extension/dispatch.go\<close>. Callbacks, clone functions and validators are host or extension
  code and enter as arguments. Go's type assertion on the stored callback is the function \<open>asFn\<close>. What a
  callback did to the input it was given is part of its result, because protected input is compared afterwards.
  Every dispatch also returns its trace: which callbacks were called and whether the terminal ran.
\<close>

section \<open>Callbacks\<close>

text \<open>
  The errors of a dispatch. \<open>ProceedOutlived\<close> carries the error of the terminal; \<open>CallbackError\<close> names the point, the
  component and the handler, and wraps the cause; \<open>JoinErr\<close> is \<open>errors.Join\<close>.
\<close>

datatype dispErr = DInvalidContract | DNilTerminal | DHost goErr | DProtectedMutation | ProceedCalledTwice | ProceedNotCalled
  | ProceedOutlived "dispErr option" | CallbackError Contract string string goErr | JoinErr dispErr dispErr

datatype event = Called string string | TerminalRan

definition matchingEntries :: "('c, 'v) Plan option \<Rightarrow> pointDefinition option \<Rightarrow> 'c plannedEntry list" where
  "matchingEntries plan point =
     (case (plan, point) of (Some p, Some d) \<Rightarrow> filter (\<lambda>e. rn_point (pe_entry e) = d) (pl_entries p) | _ \<Rightarrow> [])"

definition calledOf :: "'c plannedEntry \<Rightarrow> event" where
  "calledOf e = Called (cmp_InstanceID (pe_component e)) (rg_ID (rn_spec (pe_entry e)))"

text \<open>\<open>propagateCallbackFailure\<close>, without the report it sends.\<close>

definition callbackError :: "'c plannedEntry \<Rightarrow> goErr \<Rightarrow> dispErr" where
  "callbackError e cause = CallbackError (pk_contract (pd_key (rn_point (pe_entry e)))) (cmp_InstanceID (pe_component e)) (rg_ID (rn_spec (pe_entry e))) cause"

text \<open>The \<open>call\<close> functions turn a panic into an error.\<close>

definition recovered :: "string \<Rightarrow> 'a outcome \<Rightarrow> goErr + 'a" where
  "recovered what r = (case r of Returns x \<Rightarrow> Inr x | Fails e \<Rightarrow> Inl e | Panics m \<Rightarrow> Inl (newErr (''extension '' @ what @ '' panic: '' @ m)))"

definition cloneInput :: "('v \<Rightarrow> goErr + 'v) option \<Rightarrow> 'v \<Rightarrow> dispErr + 'v" where
  "cloneInput clone x = (case clone of None \<Rightarrow> Inr x | Some f \<Rightarrow> wrapP DHost (f x))"

definition checkNext :: "('v \<Rightarrow> 'v \<Rightarrow> goErr option) option \<Rightarrow> 'v \<Rightarrow> 'v \<Rightarrow> goErr option" where
  "checkNext validate original candidate = (case validate of None \<Rightarrow> None | Some f \<Rightarrow> f original candidate)"

section \<open>Notifications\<close>

text \<open>
  \<open>Notify\<close> on the plan \<open>i\<close> of the registry: one task per matching entry, also when the value cannot be cloned
  (the task then reports the failure).
\<close>

definition Notify :: "nat \<Rightarrow> pointDefinition option \<Rightarrow> ('c, 'v) Registry \<Rightarrow> ('c, 'v) Registry" where
  "Notify i point s =
     fold (\<lambda>k t. snd (enqueueNotification i k t))
       (filter (\<lambda>k. Some (rn_point (pe_entry (pl_entries (rs_plans s ! i) ! k))) = point) [0..<length (pl_entries (rs_plans s ! i))]) s"

section \<open>Hooks\<close>

record 'v Hook =
  hk_point :: "pointDefinition option"
  hk_clone :: "('v \<Rightarrow> goErr + 'v) option"
  hk_validate :: "('v \<Rightarrow> 'v \<Rightarrow> goErr option) option"

fun hookLoop :: "('c \<Rightarrow> 'v \<Rightarrow> 'v \<times> unit outcome) \<Rightarrow> 'v Hook \<Rightarrow> 'v \<Rightarrow> 'c plannedEntry list \<Rightarrow> (dispErr + unit) \<times> event list" where
  "hookLoop asFn point x [] = (Inr (), [])"
| "hookLoop asFn point x (e # es) =
     (case cloneInput (hk_clone point) x of Inl err \<Rightarrow> (Inl err, [])
      | Inr input \<Rightarrow>
         (case asFn (rn_callback (pe_entry e)) input of (after, r) \<Rightarrow>
            (case recovered ''hook'' r of Inl err \<Rightarrow> (Inl (callbackError e err), [calledOf e])
             | Inr _ \<Rightarrow> if checkNext (hk_validate point) x after \<noteq> None then (Inl DProtectedMutation, [calledOf e])
                 else (case hookLoop asFn point x es of (res, tr) \<Rightarrow> (res, calledOf e # tr)))))"

definition RunHooks :: "('c \<Rightarrow> 'v \<Rightarrow> 'v \<times> unit outcome) \<Rightarrow> ('c, 'p) Plan option \<Rightarrow> 'v Hook \<Rightarrow> 'v \<Rightarrow> (dispErr + unit) \<times> event list" where
  "RunHooks asFn plan point x =
     (if validatePoint (hk_point point) \<noteq> Inr () then (Inl DInvalidContract, [])
      else hookLoop asFn point x (matchingEntries plan (hk_point point)))"

section \<open>Transforms\<close>

record 'v Transform =
  tr_point :: "pointDefinition option"
  tr_clone :: "('v \<Rightarrow> goErr + 'v) option"
  tr_validate :: "('v \<Rightarrow> 'v \<Rightarrow> goErr option) option"

fun transformLoop :: "('c \<Rightarrow> 'v \<Rightarrow> 'v outcome) \<Rightarrow> 'v Transform \<Rightarrow> 'v \<Rightarrow> 'v \<Rightarrow> 'c plannedEntry list \<Rightarrow> (dispErr + 'v) \<times> event list" where
  "transformLoop asFn point original current [] = (Inr current, [])"
| "transformLoop asFn point original current (e # es) =
     (case cloneInput (tr_clone point) current of Inl err \<Rightarrow> (Inl err, [])
      | Inr input \<Rightarrow>
         (case recovered ''transform'' (asFn (rn_callback (pe_entry e)) input) of Inl err \<Rightarrow> (Inl (callbackError e err), [calledOf e])
          | Inr candidate \<Rightarrow>
             (case checkNext (tr_validate point) original candidate of Some err \<Rightarrow> (Inl (DHost err), [calledOf e])
              | None \<Rightarrow>
                 (case cloneInput (tr_clone point) candidate of Inl err \<Rightarrow> (Inl err, [calledOf e])
                  | Inr next \<Rightarrow> (case transformLoop asFn point original next es of (res, tr) \<Rightarrow> (res, calledOf e # tr))))))"

text \<open>The value comes back unchanged together with any error.\<close>

definition ApplyTransforms :: "('c \<Rightarrow> 'v \<Rightarrow> 'v outcome) \<Rightarrow> ('c, 'p) Plan option \<Rightarrow> 'v Transform \<Rightarrow> 'v \<Rightarrow> ('v \<times> dispErr option) \<times> event list" where
  "ApplyTransforms asFn plan point x =
     (let start = (if validatePoint (tr_point point) \<noteq> Inr () then Inl DInvalidContract
         else bindP (cloneInput (tr_clone point) x) (\<lambda>original.
           bindP (cloneInput (tr_clone point) x) (\<lambda>current.
             case checkNext (tr_validate point) original current of Some err \<Rightarrow> Inl (DHost err) | None \<Rightarrow> Inr (original, current))))
      in case start of Inl err \<Rightarrow> ((x, Some err), [])
         | Inr (original, current) \<Rightarrow>
            (case transformLoop asFn point original current (matchingEntries plan (tr_point point)) of
               (Inl err, tr) \<Rightarrow> ((x, Some err), tr)
             | (Inr y, tr) \<Rightarrow> ((y, None), tr)))"

section \<open>Gates\<close>

record ('i, 'd) Gate =
  gt_point :: "pointDefinition option"
  gt_clone :: "('i \<Rightarrow> goErr + 'i) option"
  gt_validateInput :: "('i \<Rightarrow> 'i \<Rightarrow> goErr option) option"
  gt_validateDecision :: "('d \<Rightarrow> goErr option) option"
  gt_continueDecision :: 'd
  gt_shouldContinue :: "('d \<Rightarrow> bool) option"

definition checkValue :: "('d \<Rightarrow> goErr option) option \<Rightarrow> 'd \<Rightarrow> goErr option" where
  "checkValue validate d = (case validate of None \<Rightarrow> None | Some f \<Rightarrow> f d)"

text \<open>
  The decision is returned beside an error too; when a gate fails it is what the failing gate returned, the
  zero value \<open>zero\<close> of the decision type after a panic.
\<close>

fun gateLoop :: "('c \<Rightarrow> 'i \<Rightarrow> 'i \<times> 'd \<times> unit outcome) \<Rightarrow> 'd \<Rightarrow> ('i, 'd) Gate \<Rightarrow> ('d \<Rightarrow> bool) \<Rightarrow> 'i \<Rightarrow> 'd \<Rightarrow> 'c plannedEntry list \<Rightarrow> ('d \<times> dispErr option) \<times> event list" where
  "gateLoop asFn zero point continues x decision [] = ((decision, None), [])"
| "gateLoop asFn zero point continues x decision (e # es) =
     (case cloneInput (gt_clone point) x of Inl err \<Rightarrow> ((decision, Some err), [])
      | Inr candidate \<Rightarrow>
         (case asFn (rn_callback (pe_entry e)) candidate of (after, out, r) \<Rightarrow>
            (let d = (case r of Panics m \<Rightarrow> zero | _ \<Rightarrow> out) in
             case recovered ''gate'' r of Inl err \<Rightarrow> ((d, Some (callbackError e err)), [calledOf e])
             | Inr _ \<Rightarrow>
                if checkNext (gt_validateInput point) x after \<noteq> None then ((d, Some DProtectedMutation), [calledOf e])
                else (case checkValue (gt_validateDecision point) d of Some err \<Rightarrow> ((d, Some (DHost err)), [calledOf e])
                  | None \<Rightarrow> if \<not> continues d then ((d, None), [calledOf e])
                      else (case gateLoop asFn zero point continues x d es of (res, tr) \<Rightarrow> (res, calledOf e # tr))))))"

definition EvaluateGate :: "('c \<Rightarrow> 'i \<Rightarrow> 'i \<times> 'd \<times> unit outcome) \<Rightarrow> 'd \<Rightarrow> ('c, 'p) Plan option \<Rightarrow> ('i, 'd) Gate \<Rightarrow> 'i \<Rightarrow> ('d \<times> dispErr option) \<times> event list" where
  "EvaluateGate asFn zero plan point x =
     (if validatePoint (gt_point point) \<noteq> Inr () then ((zero, Some DInvalidContract), [])
      else let decision = gt_continueDecision point in
        case checkValue (gt_validateDecision point) decision of Some err \<Rightarrow> ((decision, Some (DHost err)), [])
        | None \<Rightarrow> (case gt_shouldContinue point of None \<Rightarrow> ((decision, Some DInvalidContract), [])
            | Some continues \<Rightarrow> gateLoop asFn zero point continues x decision (matchingEntries plan (gt_point point))))"

section \<open>Around\<close>

record ('i, 'o) RequiredAround =
  ar_point :: "pointDefinition option"
  ar_clone :: "('i \<Rightarrow> goErr + 'i) option"
  ar_validateOutput :: "('o \<Rightarrow> goErr option) option"

text \<open>
  An around callback is code that may call \<open>proceed\<close>, any number of times, and sees what it reports or that it panicked; it may also call it from
  a goroutine (\<open>ASpawn\<close>), which is still running when the callback returns (\<open>True\<close>) or not, and recovers a panic itself, since one that it
  does not recover ends the process. A call that only starts after the callback has returned is refused and does nothing, so it does not appear.
\<close>

datatype proceedOut = PNil | PErr dispErr | PPanics string

datatype acode = AReturn "goErr option" | APanic string | AProceed "proceedOut \<Rightarrow> acode" | ASpawn bool acode

text \<open>
  The end of a chain: a result with an error, or the panic of the terminal, which only a chain without callbacks lets through.
\<close>

datatype 'o chainEnd = Ends 'o "dispErr option" | ChainPanics string

definition proceedReport :: "'o chainEnd \<Rightarrow> proceedOut" where
  "proceedReport rest = (case rest of Ends r e \<Rightarrow> PNil | ChainPanics m \<Rightarrow> PPanics m)"

text \<open>
  Running a callback: \<open>report\<close> is what the first \<open>proceed\<close> does and \<open>nextTrace\<close> the trace of the rest of the chain. The state is the number
  of calls of \<open>proceed\<close>, whether the first one is still active, and the trace.
\<close>

primrec runAround :: "acode \<Rightarrow> proceedOut \<Rightarrow> event list \<Rightarrow> nat \<times> bool \<times> event list \<Rightarrow> goErr option \<times> nat \<times> bool \<times> event list" where
  "runAround (AReturn e) report nextTrace s = (e, s)"
| "runAround (APanic m) report nextTrace s = (Some (newErr (''extension around callback panic: '' @ m)), s)"
| "runAround (AProceed k) report nextTrace s =
     (case s of (calls, active, tr) \<Rightarrow>
        if calls = 0 then runAround (k report) report nextTrace (1, active, tr @ nextTrace)
        else runAround (k (PErr ProceedCalledTwice)) report nextTrace (calls + 1, active, tr))"
| "runAround (ASpawn late k) report nextTrace s =
     (case s of (calls, active, tr) \<Rightarrow>
        if calls = 0 then runAround k report nextTrace (1, late, tr @ nextTrace) else runAround k report nextTrace (calls + 1, active, tr))"

text \<open>
  What \<open>InvokeAround\<close> makes of a callback's end: \<open>rest\<close> is the end of the rest of the chain, which counts if \<open>proceed\<close> was called. After a
  panic \<open>proceed\<close> has recorded neither an output nor an error.
\<close>

definition aroundResult :: "'o \<Rightarrow> 'c plannedEntry \<Rightarrow> 'o chainEnd \<Rightarrow> goErr option \<Rightarrow> nat \<Rightarrow> bool \<Rightarrow> 'o chainEnd" where
  "aroundResult zero e rest callbackErr calls outlived =
     (let (output, terminal) = (if calls = 0 then (zero, None) else case rest of Ends r err \<Rightarrow> (r, err) | ChainPanics m \<Rightarrow> (zero, None)) in
      if calls > 1 then Ends zero (Some ProceedCalledTwice)
      else if outlived then
        Ends zero (Some (case callbackErr of None \<Rightarrow> ProceedOutlived terminal | Some err \<Rightarrow> JoinErr (ProceedOutlived terminal) (callbackError e err)))
      else case callbackErr of
        None \<Rightarrow> if calls \<noteq> 1 then Ends zero (Some ProceedNotCalled) else Ends output terminal
      | Some err \<Rightarrow> Ends output (Some (case terminal of None \<Rightarrow> callbackError e err | Some t \<Rightarrow> JoinErr t (callbackError e err))))"

text \<open>\<open>terminal\<close> is what the terminal function does when it is run: an output with an error, or a panic.\<close>

datatype 'o terminal = Gives 'o "goErr option" | TPanics string

fun invokeChain :: "('c \<Rightarrow> 'i \<Rightarrow> acode) \<Rightarrow> 'o \<Rightarrow> ('i, 'o) RequiredAround \<Rightarrow> 'i \<Rightarrow> 'o terminal \<Rightarrow> 'c plannedEntry list \<Rightarrow> 'o chainEnd \<times> event list" where
  "invokeChain asFn zero point x terminal [] =
     (case terminal of
        Gives r (Some e) \<Rightarrow> (Ends r (Some (DHost e)), [TerminalRan])
      | Gives r None \<Rightarrow> (Ends r (map_option DHost (checkValue (ar_validateOutput point) r)), [TerminalRan])
      | TPanics m \<Rightarrow> (ChainPanics m, [TerminalRan]))"
| "invokeChain asFn zero point x terminal (e # es) =
     (case cloneInput (ar_clone point) x of Inl err \<Rightarrow> (Ends zero (Some err), [])
      | Inr input \<Rightarrow>
         (case invokeChain asFn zero point x terminal es of (rest, nextTrace) \<Rightarrow>
           (case runAround (asFn (rn_callback (pe_entry e)) input) (proceedReport rest) nextTrace (0, False, [calledOf e]) of (callbackErr, calls, outlived, tr) \<Rightarrow>
              (aroundResult zero e rest callbackErr calls outlived, tr))))"

definition InvokeAround :: "('c \<Rightarrow> 'i \<Rightarrow> acode) \<Rightarrow> 'o \<Rightarrow> ('c, 'p) Plan option \<Rightarrow> ('i, 'o) RequiredAround \<Rightarrow> 'i \<Rightarrow> 'o terminal option \<Rightarrow> 'o chainEnd \<times> event list" where
  "InvokeAround asFn zero plan point x terminal =
     (case terminal of None \<Rightarrow> (Ends zero (Some DNilTerminal), [])
      | Some t \<Rightarrow> if validatePoint (ar_point point) \<noteq> Inr () then (Ends zero (Some DInvalidContract), [])
          else invokeChain asFn zero point x t (matchingEntries plan (ar_point point)))"

end
