(* ===== verification/Permissions.thy ===== *)
theory Permissions
  imports GoErrors "HOL-Library.Monad_Syntax"
begin

text \<open>
  The static permission policy (\<open>permissions/policy.go\<close>) and the pattern matching of Go's \<open>path.Match\<close> that it uses.
\<close>

section \<open>Runes\<close>

text \<open>\<open>utf8.DecodeRuneInString\<close>: the rune at the head of the string and its width.\<close>

definition runeError :: nat where "runeError = 65533"

definition DecodeRune :: "string \<Rightarrow> nat \<times> nat" where
  "DecodeRune s =
     (let bs = map byteOf s; n = runeLen bs in
      if s = [] then (runeError, 0)
      else if n = 0 then (runeError, 1)
      else if n = 1 then (bs ! 0, 1)
      else if n = 2 then ((bs ! 0 mod 32) * 64 + bs ! 1 mod 64, 2)
      else if n = 3 then (((bs ! 0 mod 16) * 64 + bs ! 1 mod 64) * 64 + bs ! 2 mod 64, 3)
      else ((((bs ! 0 mod 8) * 64 + bs ! 1 mod 64) * 64 + bs ! 2 mod 64) * 64 + bs ! 3 mod 64, 4))"

section \<open>Path patterns\<close>

text \<open>\<open>scanChunk\<close>: whether stars precede the chunk, the chunk up to the next star outside a class, and the rest.\<close>

fun scanLoop :: "bool \<Rightarrow> string \<Rightarrow> string \<times> string" where
  "scanLoop inrange [] = ([], [])"
| "scanLoop inrange (c # cs) =
     (if c = CHR 0x5C then
        (case cs of [] \<Rightarrow> ([c], [])
         | d # ds \<Rightarrow> (case scanLoop inrange ds of (chunk, rest) \<Rightarrow> (c # d # chunk, rest)))
      else if c = CHR ''*'' \<and> \<not> inrange then ([], c # cs)
      else (case scanLoop (if c = CHR ''['' then True else if c = CHR '']'' then False else inrange) cs of
              (chunk, rest) \<Rightarrow> (c # chunk, rest)))"

definition scanChunk :: "string \<Rightarrow> bool \<times> string \<times> string" where
  "scanChunk pattern =
     (let p = dropWhile (\<lambda>c. c = CHR ''*'') pattern; (chunk, rest) = scanLoop False p in
      (p \<noteq> pattern, chunk, rest))"

text \<open>A character of a class, possibly escaped. \<open>None\<close> is \<open>ErrBadPattern\<close>, which a class that ends here is too.\<close>

definition getEsc :: "string \<Rightarrow> (nat \<times> string) option" where
  "getEsc chunk =
     (if chunk = [] \<or> hd chunk = CHR ''-'' \<or> hd chunk = CHR '']'' then None
      else (let c = (if hd chunk = CHR 0x5C then tl chunk else chunk) in
        if c = [] then None
        else (case DecodeRune c of (r, n) \<Rightarrow>
          if r = runeError \<and> n = 1 \<or> drop n c = [] then None else Some (r, drop n c))))"

lemma DecodeRune_width: "s \<noteq> [] \<Longrightarrow> 0 < snd (DecodeRune s)"
  by (simp add: DecodeRune_def Let_def)

lemma getEsc_shorter: "getEsc chunk = Some (r, c) \<Longrightarrow> c \<noteq> [] \<and> length c < length chunk"
proof -
  assume g: "getEsc chunk = Some (r, c)"
  define b where "b = (if hd chunk = CHR 0x5C then tl chunk else chunk)"
  have b: "b \<noteq> []" "chunk \<noteq> []" "c = drop (snd (DecodeRune b)) b" "c \<noteq> []"
    using g by (auto simp: getEsc_def b_def Let_def split: if_splits prod.splits)
  have "length b \<le> length chunk" by (simp add: b_def)
  then show ?thesis using b DecodeRune_width [OF b(1)] by (cases b) auto
qed

text \<open>The ranges of a class: whether one of them holds \<open>r\<close>, and the chunk after the class.\<close>

function classLoop :: "nat \<Rightarrow> bool \<Rightarrow> bool \<Rightarrow> string \<Rightarrow> (bool \<times> string) option" where
  "classLoop r found some chunk =
     (if chunk \<noteq> [] \<and> hd chunk = CHR '']'' \<and> some then Some (found, tl chunk)
      else (case getEsc chunk of None \<Rightarrow> None
        | Some (lo, c) \<Rightarrow>
           if hd c = CHR ''-'' then
             (case getEsc (tl c) of None \<Rightarrow> None
              | Some (hi, c2) \<Rightarrow> classLoop r (found \<or> lo \<le> r \<and> r \<le> hi) True c2)
           else classLoop r (found \<or> r = lo) True c))"
  by pat_completeness auto
termination
  by (relation "measure (\<lambda>(r, f, s, chunk). length chunk)") (auto dest!: getEsc_shorter)

declare classLoop.simps [simp del]

lemma classLoop_shorter: "classLoop r found some chunk = Some (m, c) \<Longrightarrow> length c < length chunk"
proof (induction r found some chunk rule: classLoop.induct)
  case (1 r found some chunk)
  show ?case
  proof (cases "chunk \<noteq> [] \<and> hd chunk = CHR '']'' \<and> some")
    case True
    then have "classLoop r found some chunk = Some (found, tl chunk)" by (simp add: classLoop.simps)
    then show ?thesis using 1(3) True by (cases chunk) auto
  next
    case False
    then obtain lo c1 where g: "getEsc chunk = Some (lo, c1)" using 1(3) by (auto simp: classLoop.simps [of r found some chunk] simp del: not_None_eq split: option.splits)
    show ?thesis
    proof (cases "hd c1 = CHR ''-''")
      case True
      then obtain hi c2 where g2: "getEsc (tl c1) = Some (hi, c2)" and "classLoop r (found \<or> lo \<le> r \<and> r \<le> hi) True c2 = Some (m, c)"
        using 1(3) False g by (auto simp: classLoop.simps [of r found some chunk] split: option.splits)
      then have "length c < length c2" by (intro 1(1) [OF False g refl True g2 refl])
      then show ?thesis using getEsc_shorter [OF g] getEsc_shorter [OF g2] by auto
    next
      case no: False
      then have "classLoop r (found \<or> r = lo) True c1 = Some (m, c)" using 1(3) False g by (simp add: classLoop.simps [of r found some chunk])
      then have "length c < length c1" by (intro 1(2) [OF False g refl no])
      then show ?thesis using getEsc_shorter [OF g] by simp
    qed
  qed
qed

text \<open>
  \<open>matchChunk\<close>: \<open>None\<close> is a malformed pattern, \<open>Some None\<close> no match, \<open>Some (Some t)\<close> a match that leaves \<open>t\<close>. After a failure the rest of
  the chunk is only checked.
\<close>

function matchChunk :: "string \<Rightarrow> string \<Rightarrow> bool \<Rightarrow> string option option" where
  "matchChunk [] s failed = Some (if failed then None else Some s)"
| "matchChunk (c # cs) s failed0 =
     (let failed = (failed0 \<or> s = []) in
      if c = CHR ''['' then
        (let (r, n) = (if failed then (0, 0) else DecodeRune s);
             negated = (cs \<noteq> [] \<and> hd cs = CHR ''^'') in
         case classLoop r False False (if negated then tl cs else cs) of None \<Rightarrow> None
         | Some (found, rest) \<Rightarrow> matchChunk rest (drop n s) (failed \<or> found = negated))
      else if c = CHR ''?'' then matchChunk cs (if failed then s else drop (snd (DecodeRune s)) s) (failed \<or> hd s = CHR ''/'')
      else if c = CHR 0x5C then
        (case cs of [] \<Rightarrow> None
         | d # ds \<Rightarrow> matchChunk ds (if failed then s else tl s) (failed \<or> d \<noteq> hd s))
      else matchChunk cs (if failed then s else tl s) (failed \<or> c \<noteq> hd s))"
  by pat_completeness auto
termination
  by (relation "measure (\<lambda>(chunk, s, f). length chunk)") (auto dest!: classLoop_shorter split: if_splits)

text \<open>The loop of \<open>Match\<close> that lets a star skip bytes, none of them a slash.\<close>

fun starLoop :: "string \<Rightarrow> bool \<Rightarrow> string \<Rightarrow> string option option" where
  "starLoop chunk final [] = Some None"
| "starLoop chunk final (c # cs) =
     (if c = CHR ''/'' then Some None
      else case matchChunk chunk cs False of None \<Rightarrow> None
      | Some None \<Rightarrow> starLoop chunk final cs
      | Some (Some t) \<Rightarrow> if final \<and> t \<noteq> [] then starLoop chunk final cs else Some (Some t))"

lemma scanLoop_parts: "scanLoop b p = (chunk, rest) \<Longrightarrow> p = chunk @ rest \<and> (rest = [] \<or> hd rest = CHR ''*'')"
proof (induction b p arbitrary: chunk rest rule: scanLoop.induct)
  case (2 inrange c cs)
  show ?case
  proof (cases "c = CHR 0x5C")
    case True
    then show ?thesis using 2 by (cases cs) (auto split: prod.splits)
  next
    case False
    then show ?thesis using 2 by (auto split: if_splits prod.splits)
  qed
qed simp

lemma scanChunk_shorter: "p \<noteq> [] \<Longrightarrow> length (snd (snd (scanChunk p))) < length p"
proof (cases "dropWhile (\<lambda>c. c = CHR ''*'') p = p")
  case True
  moreover assume "p \<noteq> []"
  ultimately have "hd p \<noteq> CHR ''*''" using hd_dropWhile [of "\<lambda>c. c = CHR ''*''" p] by simp
  moreover obtain chunk rest where "scanLoop False p = (chunk, rest)" by (cases "scanLoop False p")
  ultimately show ?thesis using True \<open>p \<noteq> []\<close> scanLoop_parts [of False p] by (cases chunk) (auto simp: scanChunk_def)
next
  case False
  let ?q = "dropWhile (\<lambda>c. c = CHR ''*'') p"
  have "length ?q \<noteq> length p" using False takeWhile_dropWhile_id [of "\<lambda>c. c = CHR ''*''" p] by (metis append_self_conv2 length_append add_cancel_left_left length_0_conv)
  then have "length ?q < length p" using length_dropWhile_le [of "\<lambda>c. c = CHR ''*''" p] by simp
  moreover obtain chunk rest where "scanLoop False ?q = (chunk, rest)" by (cases "scanLoop False ?q")
  ultimately show ?thesis using scanLoop_parts [of False ?q chunk rest] by (auto simp: scanChunk_def dest: arg_cong [where f = length])
qed

text \<open>Once a match has failed, the rest of the pattern is only checked.\<close>

function restOK :: "string \<Rightarrow> bool" where
  "restOK pattern =
     (if pattern = [] then True
      else (case scanChunk pattern of (star, chunk, rest) \<Rightarrow> matchChunk chunk [] False \<noteq> None \<and> restOK rest))"
  by pat_completeness auto
termination
proof (relation "measure length")
  fix pattern star y chunk rest
  assume "pattern \<noteq> ([] :: string)" "(star, y) = scanChunk pattern" "(chunk, rest) = y"
  then show "(rest, pattern) \<in> measure length" using scanChunk_shorter [of pattern] by (metis in_measure snd_conv)
qed simp

declare restOK.simps [simp del]

text \<open>\<open>path.Match\<close>: \<open>None\<close> is \<open>ErrBadPattern\<close>.\<close>

function Match :: "string \<Rightarrow> string \<Rightarrow> bool option" where
  "Match pattern name =
     (if pattern = [] then Some (name = [])
      else (case scanChunk pattern of (star, chunk, rest) \<Rightarrow>
        if star \<and> chunk = [] then Some (\<not> List.member name (CHR ''/''))
        else
          (let here = matchChunk chunk name False;
               found = (case here of None \<Rightarrow> None
                 | Some t \<Rightarrow>
                    if t \<noteq> None \<and> (t = Some [] \<or> rest \<noteq> []) then Some t
                    else if star then starLoop chunk (rest = []) name else Some None) in
           case found of None \<Rightarrow> None
           | Some (Some t) \<Rightarrow> Match rest t
           | Some None \<Rightarrow> if restOK rest then Some False else None)))"
  by pat_completeness auto
termination
proof (relation "measure (\<lambda>(p, n). length p)")
  fix pattern name star y chunk rest here found t u
  assume "pattern \<noteq> ([] :: string)" "(star, y) = scanChunk pattern" "(chunk, rest) = y"
  then show "((rest, u), pattern, name) \<in> measure (\<lambda>(p, n). length p)" using scanChunk_shorter [of pattern] by (metis in_measure snd_conv case_prod_conv)
qed simp

declare Match.simps [simp del]

section \<open>Rules\<close>

datatype Action = ActionAllow | ActionDeny | ActionAsk | ActionOther string

record PermissionRule =
  pr_Permission :: string
  pr_Pattern :: string
  pr_Action :: string

record Request =
  rq_SessionID :: string
  rq_RunID :: string
  rq_ToolCallID :: string
  rq_ToolName :: string
  rq_Permission :: string
  rq_Pattern :: string
  rq_Metadata :: smap

record Decision =
  de_Action :: Action
  de_Reason :: string
  de_Message :: string

text \<open>Go's \<open>%q\<close> on the pattern and the action is the parameter \<open>quoted\<close>: it only enters the text of an error.\<close>

definition matches :: "(string \<Rightarrow> string) \<Rightarrow> PermissionRule \<Rightarrow> Request \<Rightarrow> goErr + bool" where
  "matches quoted rule request =
     (if pr_Permission rule \<noteq> [] \<and> pr_Permission rule \<noteq> rq_Permission request then Inr False
      else if pr_Pattern rule = [] \<or> pr_Pattern rule = ''*'' then Inr True
      else if pr_Pattern rule = rq_Pattern request then Inr True
      else case Match (pr_Pattern rule) (rq_Pattern request) of
        None \<Rightarrow> Inl (GoErr (''permission policy operational failure: invalid pattern '' @ quoted (pr_Pattern rule) @ '': syntax error in pattern'') [ErrOperational])
      | Some ok \<Rightarrow> Inr ok)"

definition ruleDecision :: "(string \<Rightarrow> string) \<Rightarrow> PermissionRule \<Rightarrow> goErr + Decision" where
  "ruleDecision quoted rule =
     (if pr_Action rule = ''allow'' then Inr \<lparr>de_Action = ActionAllow, de_Reason = [], de_Message = []\<rparr>
      else if pr_Action rule = ''deny'' then Inr \<lparr>de_Action = ActionDeny, de_Reason = ''rule_denied'', de_Message = ''tool call denied by policy''\<rparr>
      else if pr_Action rule = ''ask'' \<or> pr_Action rule = [] then
        Inr \<lparr>de_Action = ActionAsk, de_Reason = ''approval_required'', de_Message = ''tool call requires approval''\<rparr>
      else Inl (GoErr (''permission policy operational failure: unknown action '' @ quoted (pr_Action rule)) [ErrOperational]))"

fun decideLoop :: "(string \<Rightarrow> string) \<Rightarrow> PermissionRule list \<Rightarrow> Request \<Rightarrow> goErr + Decision" where
  "decideLoop quoted [] request = Inr \<lparr>de_Action = ActionAllow, de_Reason = [], de_Message = []\<rparr>"
| "decideLoop quoted (rule # rules) request =
     (case matches quoted rule request of Inl e \<Rightarrow> Inl e
      | Inr False \<Rightarrow> decideLoop quoted rules request
      | Inr True \<Rightarrow> ruleDecision quoted rule)"

text \<open>\<open>StaticPolicy.Decide\<close>; \<open>ctxErr\<close> is the error of a context that is done.\<close>

definition StaticPolicyDecide :: "(string \<Rightarrow> string) \<Rightarrow> PermissionRule list \<Rightarrow> goErr option \<Rightarrow> Request \<Rightarrow> Decision outcome" where
  "StaticPolicyDecide quoted rules ctxErr request =
     (case ctxErr of Some e \<Rightarrow> Fails e
      | None \<Rightarrow> (case decideLoop quoted rules request of Inl e \<Rightarrow> Fails e | Inr d \<Rightarrow> Returns d))"

end
