(* ===== verification/ToolPipeline.thy ===== *)
theory ToolPipeline
  imports ExtensionDispatch Permissions ContentLogic
begin

text \<open>
  How the runtime executes one tool call: guards, permissions and approvals (\<open>runtime/tool_permissions.go\<close>,
  \<open>runtime/extension_tool.go\<close>), the around chain of \<open>tool-execute\<close>, and what becomes of the result
  (\<open>runtime/orchestrator.go\<close>, \<open>runtime/tool_execution.go\<close>). Guards, policy, approvals, the tool itself and result wrappers are host
  code: functions of what happened before and of their argument. The interface values a tool and a call carry (executor, decoder,
  approval and so on) are modelled by whether they are set. Copying a value is the identity here.
\<close>

section \<open>Types\<close>

record ToolScope =
  tp_WorkspaceID :: string
  tp_Root :: string
  tp_Permissions :: "string slice"

record RetentionPolicy =
  rp_MaxInlineBytes :: int
  rp_StoreExternal :: bool
  rp_Redact :: bool

text \<open>A runtime tool. \<open>'i\<close> is Eino's \<open>schema.ToolInfo\<close>.\<close>

record 'i Tool =
  xt_Name :: string
  xt_Info :: "'i option"
  xt_Executor :: bool
  xt_RetrySafe :: bool
  xt_AllowSessionTitle :: bool
  xt_Scope :: ToolScope
  xt_InputDecoder :: bool
  xt_Pattern :: bool
  xt_Retention :: RetentionPolicy
  xt_Metadata :: smap
  xt_Aliases :: "string slice"
  xt_ArgumentAliases :: "(string \<times> string slice) list option"
  xt_Deferred :: bool
  xt_InterruptPolicy :: bool

text \<open>A runtime tool call. \<open>'x\<close> is \<open>ToolContext\<close>, which nothing here looks into.\<close>

record 'x RToolCall =
  xc_ID :: ToolCallID
  xc_SessionID :: ID
  xc_RunID :: RunID
  xc_MessageID :: MessageID
  xc_ResultMessageID :: MessageID
  xc_ResultPartID :: PartID
  xc_Name :: string
  xc_RequestedName :: string
  xc_ProviderCallID :: string
  xc_Scope :: ToolScope
  xc_Pattern :: string
  xc_Input :: RawMessage
  xc_Approval :: bool
  xc_SessionTitle :: bool
  xc_Context :: 'x
  xc_ResumeDecision :: string

record Attachment =
  at_ID :: string
  at_MIMEType :: string
  at_Name :: string
  at_URL :: string
  at_Metadata :: smap

datatype ToolResultPartType = ToolResultPartText | ToolResultPartImage | ToolResultPartAudio | ToolResultPartVideo | ToolResultPartFile
  | ToolResultPartToolSearch | ToolResultPartOther string

record ToolResultMedia =
  xm_URL :: string
  xm_Base64Data :: string
  xm_MIMEType :: string
  xm_Name :: string

record ToolResultPart =
  xp_Type :: ToolResultPartType
  xp_Text :: string
  xp_Media :: "ToolResultMedia option"
  xp_ToolSearch :: RawMessage

record ToolResult =
  xr_Output :: string
  xr_Structured :: RawMessage
  xr_Attachments :: "Attachment slice"
  xr_Metadata :: smap
  xr_Parts :: "ToolResultPart slice"

definition zeroResult :: ToolResult where
  "zeroResult = \<lparr>xr_Output = [], xr_Structured = [], xr_Attachments = None, xr_Metadata = None, xr_Parts = None\<rparr>"

record ApprovalRequest =
  aq_SessionID :: ID
  aq_RunID :: RunID
  aq_ToolCallID :: ToolCallID
  aq_Permission :: string
  aq_Patterns :: "string slice"
  aq_Metadata :: smap

datatype ToolGuardDecision = ToolGuardAbstain | ToolGuardDeny | ToolGuardOther string

record 'x ToolGuardRequest =
  gq_SessionID :: ID
  gq_RunID :: RunID
  gq_Call :: "'x RToolCall"
  gq_ToolName :: string

record ToolGuardResult =
  gr_Decision :: ToolGuardDecision
  gr_Code :: string
  gr_Message :: string

datatype ToolDisposition = ToolExecuted | ToolDenied | ToolApprovalRequired | ToolInterrupted | ToolFailed

datatype toolPermissionState = toolPermissionAllowed | toolPermissionDenied | toolPermissionApprovalRequired | toolPermissionInterrupted

section \<open>Errors\<close>

text \<open>The errors of the pipeline: host errors, errors of a dispatch, and \<open>errors.Join\<close> of two.\<close>

datatype toolErr = THost goErr | TDisp dispErr | TJoin toolErr toolErr

fun dispIs :: "sentinel \<Rightarrow> dispErr \<Rightarrow> bool" where
  "dispIs x (DHost e) = isErr x e"
| "dispIs x (CallbackError c i h e) = isErr x e"
| "dispIs x (ProceedOutlived e) = (case e of None \<Rightarrow> False | Some d \<Rightarrow> dispIs x d)"
| "dispIs x (JoinErr a b) = (dispIs x a \<or> dispIs x b)"
| "dispIs x _ = False"

fun errorsIs :: "sentinel \<Rightarrow> toolErr \<Rightarrow> bool" where
  "errorsIs x (THost e) = isErr x e"
| "errorsIs x (TDisp d) = dispIs x d"
| "errorsIs x (TJoin a b) = (errorsIs x a \<or> errorsIs x b)"

text \<open>Whether \<open>errors.As\<close> finds a \<open>CallbackError\<close>; its code is always \<open>callback_failed\<close>.\<close>

fun dispCallback :: "dispErr \<Rightarrow> bool" where
  "dispCallback (CallbackError c i h e) = True"
| "dispCallback (ProceedOutlived e) = (case e of None \<Rightarrow> False | Some d \<Rightarrow> dispCallback d)"
| "dispCallback (JoinErr a b) = (dispCallback a \<or> dispCallback b)"
| "dispCallback _ = False"

fun asCallback :: "toolErr \<Rightarrow> bool" where
  "asCallback (THost e) = False"
| "asCallback (TDisp d) = dispCallback d"
| "asCallback (TJoin a b) = (asCallback a \<or> asCallback b)"

text \<open>The text of an error.\<close>

fun dispText :: "dispErr \<Rightarrow> string" where
  "dispText DInvalidContract = ''invalid extension contract: stable id and version required''"
| "dispText DNilTerminal = ''invalid extension registration: nil terminal''"
| "dispText (DHost e) = errText e"
| "dispText DProtectedMutation = ''extension changed protected input''"
| "dispText ProceedCalledTwice = ''extension proceed called more than once''"
| "dispText ProceedNotCalled = ''extension proceed was not called''"
| "dispText (ProceedOutlived e) = ''extension proceed outlived its callback''"
| "dispText (CallbackError c i h e) = ''extension callback failed: point='' @ cn_ID c @ '' instance='' @ i @ '' handler='' @ h @ '' code=callback_failed''"
| "dispText (JoinErr a b) = dispText a @ [CHR 0x0A] @ dispText b"

fun toolErrText :: "toolErr \<Rightarrow> string" where
  "toolErrText (THost e) = errText e"
| "toolErrText (TDisp d) = dispText d"
| "toolErrText (TJoin a b) = toolErrText a @ [CHR 0x0A] @ toolErrText b"

definition joinErr :: "toolErr option \<Rightarrow> toolErr \<Rightarrow> toolErr" where
  "joinErr e f = (case e of None \<Rightarrow> f | Some d \<Rightarrow> TJoin d f)"

record ClassifiedError =
  cl_Code :: string
  cl_Message :: string
  cl_Retryable :: bool

definition classifyExtensionError :: "toolErr option \<Rightarrow> ClassifiedError" where
  "classifyExtensionError err =
     (case err of None \<Rightarrow> \<lparr>cl_Code = [], cl_Message = [], cl_Retryable = False\<rparr>
      | Some e \<Rightarrow>
         if errorsIs Canceled e \<or> errorsIs DeadlineExceeded e then \<lparr>cl_Code = ''interrupted'', cl_Message = ''operation interrupted'', cl_Retryable = True\<rparr>
         else if asCallback e then \<lparr>cl_Code = ''callback_failed'', cl_Message = ''extension callback failed'', cl_Retryable = False\<rparr>
         else \<lparr>cl_Code = ''operation_failed'', cl_Message = ''operation failed'', cl_Retryable = False\<rparr>)"

section \<open>Maps of strings\<close>

text \<open>A Go map is a list sorted by key, or nil.\<close>

definition mapPut :: "string \<Rightarrow> string \<Rightarrow> smap \<Rightarrow> smap" where
  "mapPut k v m = (let xs = elems m in Some (filter (\<lambda>(j, w). j < k) xs @ [(k, v)] @ filter (\<lambda>(j, w). k < j) xs))"

definition mapDrop :: "(string \<Rightarrow> bool) \<Rightarrow> smap \<Rightarrow> smap" where
  "mapDrop P m = map_option (filter (\<lambda>(j, w). \<not> P j)) m"

section \<open>Permissions\<close>

datatype 'x pipeEvent =
    EGuard "'x ToolGuardRequest" "ToolGuardResult outcome" | EPolicy Request "Decision outcome" | EAsk ApprovalRequest "unit outcome" | EExt event

text \<open>A step of the pipeline that may panic.\<close>

datatype 'a run = Ret 'a | Panic string

definition permissionStatus :: "toolPermissionState \<Rightarrow> string" where
  "permissionStatus state = (case state of toolPermissionDenied \<Rightarrow> ''denied'' | toolPermissionApprovalRequired \<Rightarrow> ''approval_required''
     | toolPermissionInterrupted \<Rightarrow> ''interrupted'' | toolPermissionAllowed \<Rightarrow> [])"

definition modelVisiblePermissionResult :: "string \<Rightarrow> string \<Rightarrow> ToolResult" where
  "modelVisiblePermissionResult code msg =
     zeroResult\<lparr>xr_Output := msg, xr_Structured := emit (JObj [(''message'', jstr msg), (''status'', jstr code)]),
       xr_Metadata := Some [(''permission_status'', code)]\<rparr>"

record toolPermissionExecution =
  pe_Result :: ToolResult
  pe_State :: toolPermissionState

definition permissionExecution :: "toolPermissionState \<Rightarrow> string \<Rightarrow> toolPermissionExecution" where
  "permissionExecution state msg = \<lparr>pe_Result = modelVisiblePermissionResult (permissionStatus state) msg, pe_State = state\<rparr>"

definition messageOrDefault :: "string \<Rightarrow> string \<Rightarrow> string" where
  "messageOrDefault msg fallback = (if msg \<noteq> [] then msg else fallback)"

definition toolPermissions :: "'i Tool \<Rightarrow> 'x RToolCall \<Rightarrow> string list" where
  "toolPermissions tool call =
     (if elems (tp_Permissions (xc_Scope call)) \<noteq> [] then elems (tp_Permissions (xc_Scope call))
      else if elems (tp_Permissions (xt_Scope tool)) \<noteq> [] then elems (tp_Permissions (xt_Scope tool))
      else [xt_Name tool])"

definition permissionRequest :: "'i Tool \<Rightarrow> 'x RToolCall \<Rightarrow> string \<Rightarrow> Request" where
  "permissionRequest tool call permission =
     (let p1 = xc_Pattern call; p2 = (if p1 = [] then xc_Name call else p1); p3 = (if p2 = [] then xt_Name tool else p2) in
      \<lparr>rq_SessionID = xc_SessionID call, rq_RunID = xc_RunID call, rq_ToolCallID = xc_ID call, rq_ToolName = xt_Name tool,
       rq_Permission = permission, rq_Pattern = p3, rq_Metadata = xt_Metadata tool\<rparr>)"

definition approvalRequest :: "'i Tool \<Rightarrow> 'x RToolCall \<Rightarrow> string \<Rightarrow> ApprovalRequest" where
  "approvalRequest tool call permission =
     \<lparr>aq_SessionID = xc_SessionID call, aq_RunID = xc_RunID call, aq_ToolCallID = xc_ID call, aq_Permission = permission,
      aq_Patterns = Some [rq_Pattern (permissionRequest tool call permission)], aq_Metadata = xt_Metadata tool\<rparr>"

type_synonym 'x policy = "'x pipeEvent list \<Rightarrow> Request \<Rightarrow> Decision outcome"
type_synonym 'x approver = "'x pipeEvent list \<Rightarrow> ApprovalRequest \<Rightarrow> unit outcome"
type_synonym permissionRun = "(toolPermissionExecution \<times> toolErr option) run"

text \<open>The loop over the permissions: \<open>None\<close> when all of them are granted.\<close>

fun permissionLoop :: "'x policy \<Rightarrow> 'x approver \<Rightarrow> 'i Tool \<Rightarrow> 'x RToolCall \<Rightarrow> 'x pipeEvent list \<Rightarrow> string list \<Rightarrow> permissionRun option \<times> 'x pipeEvent list" where
  "permissionLoop policy ask tool call tr [] = (None, tr)"
| "permissionLoop policy ask tool call tr (permission # rest) =
     (let request = permissionRequest tool call permission; answer = policy tr request; tr1 = tr @ [EPolicy request answer];
          stop = (\<lambda>state msg. Ret (permissionExecution state msg, None));
          fail = (\<lambda>e. Ret (\<lparr>pe_Result = zeroResult, pe_State = toolPermissionAllowed\<rparr>, Some (THost e))) in
      case answer of
        Panics m \<Rightarrow> (Some (Panic m), tr1)
      | Fails e \<Rightarrow> (Some (if isErr ErrInterrupted e then stop toolPermissionInterrupted ''tool call interrupted during permission check'' else fail e), tr1)
      | Returns d \<Rightarrow>
         (case de_Action d of
            ActionAllow \<Rightarrow> permissionLoop policy ask tool call tr1 rest
          | ActionDeny \<Rightarrow> (Some (stop toolPermissionDenied (messageOrDefault (de_Message d) ''tool call denied by policy'')), tr1)
          | ActionAsk \<Rightarrow>
             if \<not> xc_Approval call then (Some (stop toolPermissionApprovalRequired (messageOrDefault (de_Message d) ''tool call requires approval'')), tr1)
             else
               (let areq = approvalRequest tool call permission; reply = ask tr1 areq; tr2 = tr1 @ [EAsk areq reply] in
                case reply of
                  Returns _ \<Rightarrow> permissionLoop policy ask tool call tr2 rest
                | Panics m \<Rightarrow> (Some (Panic m), tr2)
                | Fails e \<Rightarrow>
                   (Some (if isErr ErrInterrupted e then stop toolPermissionInterrupted ''tool call interrupted while waiting for approval''
                      else if isErr ErrDenied e then stop toolPermissionDenied (errText e)
                      else if isErr ErrApprovalRequired e then stop toolPermissionApprovalRequired (errText e)
                      else fail e), tr2))
          | ActionOther s \<Rightarrow> (Some (fail (GoErr ''permission policy operational failure'' [ErrOperational])), tr1)))"

text \<open>\<open>execute\<close> is the executor of the tool, which also reports what it did.\<close>

definition executeToolWithPermissions :: "('x pipeEvent list \<Rightarrow> 'x RToolCall \<Rightarrow> (ToolResult \<times> toolErr option) run \<times> 'x pipeEvent list) \<Rightarrow> 'x policy option \<Rightarrow> 'x approver \<Rightarrow>
    'i Tool \<Rightarrow> 'x RToolCall \<Rightarrow> 'x pipeEvent list \<Rightarrow> permissionRun \<times> 'x pipeEvent list" where
  "executeToolWithPermissions execute policy ask tool call tr =
     (let run = (\<lambda>tr0. case execute tr0 call of (Panic m, tr1) \<Rightarrow> (Panic m, tr1)
            | (Ret (result, err), tr1) \<Rightarrow> (Ret (\<lparr>pe_Result = result, pe_State = toolPermissionAllowed\<rparr>, err), tr1)) in
      case policy of None \<Rightarrow> run tr
      | Some p \<Rightarrow> (case permissionLoop p ask tool call tr (toolPermissions tool call) of (Some r, tr1) \<Rightarrow> (r, tr1) | (None, tr1) \<Rightarrow> run tr1))"

definition protectPermissionResult :: "ToolResult \<Rightarrow> toolPermissionState \<Rightarrow> ToolResult" where
  "protectPermissionResult result state =
     (let kept = mapDrop (\<lambda>k. take 11 k = ''permission_'') (xr_Metadata result) in
      result\<lparr>xr_Metadata := (if permissionStatus state = [] then kept else mapPut ''permission_status'' (permissionStatus state) kept)\<rparr>)"

section \<open>Guards\<close>

text \<open>What extensions get to see of a tool and a call.\<close>

definition extensionTool :: "'i Tool \<Rightarrow> 'i Tool" where
  "extensionTool tool = tool\<lparr>xt_Executor := False, xt_InputDecoder := False, xt_Pattern := False\<rparr>"

definition extensionToolCall :: "'x RToolCall \<Rightarrow> 'x RToolCall" where
  "extensionToolCall call = call\<lparr>xc_Approval := False, xc_SessionTitle := False\<rparr>"

type_synonym 'x guard = "'x pipeEvent list \<Rightarrow> 'x ToolGuardRequest \<Rightarrow> ToolGuardResult outcome"

text \<open>Every guard is asked; the first denial stands.\<close>

fun guardLoop :: "'i Tool \<Rightarrow> 'x RToolCall \<Rightarrow> ToolGuardResult \<Rightarrow> 'x pipeEvent list \<Rightarrow> 'x guard option list \<Rightarrow> (toolErr + ToolGuardResult) run \<times> 'x pipeEvent list" where
  "guardLoop tool call denial tr [] = (Ret (Inr denial), tr)"
| "guardLoop tool call denial tr (g # gs) =
     (case g of None \<Rightarrow> (Ret (Inl (THost (newErr ''nil tool guard''))), tr)
      | Some guard \<Rightarrow>
         (let request = \<lparr>gq_SessionID = xc_SessionID call, gq_RunID = xc_RunID call, gq_Call = extensionToolCall call, gq_ToolName = xt_Name tool\<rparr>;
              answer = guard tr request; tr1 = tr @ [EGuard request answer] in
          case answer of
            Panics m \<Rightarrow> (Panic m, tr1)
          | Fails e \<Rightarrow> (Ret (Inl (THost e)), tr1)
          | Returns result \<Rightarrow>
             (case gr_Decision result of
                ToolGuardAbstain \<Rightarrow> guardLoop tool call denial tr1 gs
              | ToolGuardDeny \<Rightarrow>
                  guardLoop tool call
                    (if gr_Decision denial \<noteq> ToolGuardDeny
                     then result\<lparr>gr_Code := (if gr_Code result = [] then ''denied'' else gr_Code result),
                       gr_Message := (if gr_Message result = [] then ''tool call denied by mounted guard'' else gr_Message result)\<rparr>
                     else denial) tr1 gs
              | ToolGuardOther s \<Rightarrow> (Ret (Inl (THost (newErr ''invalid tool guard decision''))), tr1))))"

definition evaluateToolGuards :: "'x guard option list \<Rightarrow> 'i Tool \<Rightarrow> 'x RToolCall \<Rightarrow> 'x pipeEvent list \<Rightarrow> (toolErr + ToolGuardResult) run \<times> 'x pipeEvent list" where
  "evaluateToolGuards guards tool call tr = guardLoop tool call \<lparr>gr_Decision = ToolGuardAbstain, gr_Code = [], gr_Message = []\<rparr> tr guards"

section \<open>Results\<close>

definition validateToolResultPart :: "ToolResultPart \<Rightarrow> string option" where
  "validateToolResultPart part =
     (let media =
        (case xp_Media part of None \<Rightarrow> Some ''media part requires Media''
         | Some m \<Rightarrow>
            if (xm_URL m \<noteq> []) = (xm_Base64Data m \<noteq> []) then Some ''media part requires exactly one of URL or Base64Data''
            else if xm_Base64Data m \<noteq> [] \<and> \<not> validBase64 (xm_Base64Data m) then Some ''media part base64 payload is invalid''
            else if xm_Name m \<noteq> [] \<and> xp_Type part \<noteq> ToolResultPartFile then Some ''only a file part may carry a media Name''
            else if xm_MIMEType m \<noteq> [] \<and> \<not> validMIMEType (xm_MIMEType m) then Some ''media part MIME type is invalid''
            else if \<not> ValidString (xm_URL m) \<or> \<not> ValidString (xm_Name m) then Some ''media part URL and Name must be valid UTF-8''
            else None) in
      case xp_Type part of
        ToolResultPartText \<Rightarrow> if xp_Media part \<noteq> None \<or> xp_ToolSearch part \<noteq> [] then Some ''text part must carry only Text'' else None
      | ToolResultPartImage \<Rightarrow> media | ToolResultPartAudio \<Rightarrow> media | ToolResultPartVideo \<Rightarrow> media | ToolResultPartFile \<Rightarrow> media
      | ToolResultPartToolSearch \<Rightarrow>
          if xp_ToolSearch part \<noteq> [] \<and> \<not> jsonValid (xp_ToolSearch part) then Some ''tool_search part payload is not valid JSON'' else None
      | ToolResultPartOther s \<Rightarrow> Some ''unknown tool result part type'')"

fun validateParts :: "nat \<Rightarrow> ToolResultPart list \<Rightarrow> goErr option" where
  "validateParts i [] = None"
| "validateParts i (p # ps) = (case validateToolResultPart p of Some e \<Rightarrow> Some (newErr (''tool result part '' @ intText (int i) @ '': '' @ e)) | None \<Rightarrow> validateParts (i + 1) ps)"

definition validateToolResult :: "ToolResult \<Rightarrow> goErr option" where
  "validateToolResult result =
     (if xr_Structured result \<noteq> [] \<and> \<not> jsonValid (xr_Structured result) then Some (newErr ''invalid structured tool result'')
      else if elems (xr_Parts result) \<noteq> [] \<and> (xr_Output result \<noteq> [] \<or> xr_Structured result \<noteq> [])
      then Some (newErr ''enhanced tool result parts are authoritative and must not also carry Output/Structured'')
      else validateParts 0 (elems (xr_Parts result)))"

text \<open>The points of the pipeline. The address of a point is its place in \<open>ExtensionPoints\<close>.\<close>

record ('i, 'x) ToolExecution =
  ex_Tool :: "'i Tool"
  ex_Call :: "'x RToolCall"

record 'x ToolResultTransform =
  rx_ToolName :: string
  rx_Call :: "'x RToolCall"
  rx_Result :: ToolResult

text \<open>\<open>cloneInfo\<close> copies Eino's tool information through its JSON form, which may fail.\<close>

definition cloneToolChecked :: "('i \<Rightarrow> goErr + 'i) \<Rightarrow> 'i Tool \<Rightarrow> goErr + 'i Tool" where
  "cloneToolChecked cloneInfo tool =
     (case xt_Info tool of None \<Rightarrow> Inr tool
      | Some info \<Rightarrow> (case cloneInfo info of Inl e \<Rightarrow> Inl e | Inr copy \<Rightarrow> Inr (tool\<lparr>xt_Info := Some copy\<rparr>)))"

definition cloneToolExecutionChecked :: "('i \<Rightarrow> goErr + 'i) \<Rightarrow> ('i, 'x) ToolExecution \<Rightarrow> goErr + ('i, 'x) ToolExecution" where
  "cloneToolExecutionChecked cloneInfo v = (case cloneToolChecked cloneInfo (ex_Tool v) of Inl e \<Rightarrow> Inl e | Inr t \<Rightarrow> Inr (v\<lparr>ex_Tool := t\<rparr>))"

definition cloneToolResultTransformChecked :: "'x ToolResultTransform \<Rightarrow> goErr + 'x ToolResultTransform" where
  "cloneToolResultTransformChecked v = Inr (v\<lparr>rx_Call := extensionToolCall (rx_Call v)\<rparr>)"

definition sameProtectedToolCall :: "'x RToolCall \<Rightarrow> 'x RToolCall \<Rightarrow> bool" where
  "sameProtectedToolCall left right \<longleftrightarrow>
     \<not> xc_Approval left \<and> \<not> xc_Approval right \<and> \<not> xc_SessionTitle left \<and> \<not> xc_SessionTitle right \<and> left = right"

definition validateToolResultTransformInput :: "'x ToolResultTransform \<Rightarrow> 'x ToolResultTransform \<Rightarrow> goErr option" where
  "validateToolResultTransformInput original candidate =
     (if rx_ToolName original \<noteq> rx_ToolName candidate \<or> \<not> sameProtectedToolCall (rx_Call original) (rx_Call candidate)
      then Some (newErr ''extension changed protected input'')
      else validateToolResult (rx_Result candidate))"

definition ToolExecutePoint :: "('i \<Rightarrow> goErr + 'i) \<Rightarrow> (('i, 'x) ToolExecution, ToolResult) RequiredAround" where
  "ToolExecutePoint cloneInfo =
     \<lparr>ar_point = Some \<lparr>pd_addr = 5, pd_key = \<lparr>pk_contract = \<lparr>cn_ID = ''eino-agent/runtime/tool-execute'', cn_Version = ''1''\<rparr>, pk_kind = ''around''\<rparr>\<rparr>,
      ar_clone = Some (cloneToolExecutionChecked cloneInfo), ar_validateOutput = Some validateToolResult\<rparr>"

definition ToolResultTransformPoint :: "'x ToolResultTransform Transform" where
  "ToolResultTransformPoint =
     \<lparr>tr_point = Some \<lparr>pd_addr = 6, pd_key = \<lparr>pk_contract = \<lparr>cn_ID = ''eino-agent/runtime/tool-result-transform'', cn_Version = ''1''\<rparr>, pk_kind = ''transform''\<rparr>\<rparr>,
      tr_clone = Some cloneToolResultTransformChecked, tr_validate = Some validateToolResultTransformInput\<rparr>"

section \<open>Outcomes\<close>

record 'x toolOutcome =
  oc_Call :: "'x RToolCall"
  oc_Disposition :: ToolDisposition
  oc_Result :: ToolResult
  oc_RawError :: "toolErr option"
  oc_Error :: ClassifiedError
  oc_Permission :: toolPermissionState

definition dispositionForError :: "toolErr \<Rightarrow> ToolDisposition" where
  "dispositionForError err = (if errorsIs Canceled err \<or> errorsIs DeadlineExceeded err then ToolInterrupted else ToolFailed)"

definition dispositionForOutcome :: "toolPermissionState \<Rightarrow> toolErr option \<Rightarrow> ToolDisposition" where
  "dispositionForOutcome permission err =
     (case err of Some e \<Rightarrow> dispositionForError e
      | None \<Rightarrow> (case permission of toolPermissionDenied \<Rightarrow> ToolDenied | toolPermissionApprovalRequired \<Rightarrow> ToolApprovalRequired
          | toolPermissionInterrupted \<Rightarrow> ToolInterrupted | toolPermissionAllowed \<Rightarrow> ToolExecuted))"

definition finalizeToolOutcome :: "'x toolOutcome \<Rightarrow> 'x toolOutcome" where
  "finalizeToolOutcome o1 =
     o1\<lparr>oc_Call := extensionToolCall (oc_Call o1), oc_Result := protectPermissionResult (oc_Result o1) (oc_Permission o1),
       oc_Disposition := dispositionForOutcome (oc_Permission o1) (oc_RawError o1), oc_Error := classifyExtensionError (oc_RawError o1)\<rparr>"

definition newToolOutcome :: "'x RToolCall \<Rightarrow> ToolResult \<Rightarrow> toolPermissionState \<Rightarrow> toolErr option \<Rightarrow> 'x toolOutcome" where
  "newToolOutcome call result permission rawErr =
     finalizeToolOutcome \<lparr>oc_Call = extensionToolCall call, oc_Disposition = ToolExecuted, oc_Result = result, oc_RawError = rawErr,
       oc_Error = classifyExtensionError None, oc_Permission = permission\<rparr>"

section \<open>The pipeline\<close>

text \<open>
  What surrounds a tool call: the guards and the plan of the run, the policy of the host, the approver of the call, the tool, and the code of the
  extensions.
\<close>

record ('i, 'x, 'c, 'p) toolEnv =
  tv_guards :: "'x guard option list"
  tv_policy :: "'x policy option"
  tv_ask :: "'x approver"
  tv_execute :: "'x pipeEvent list \<Rightarrow> 'x RToolCall \<Rightarrow> ToolResult terminal"
  tv_cloneInfo :: "'i \<Rightarrow> goErr + 'i"
  tv_plan :: "('c, 'p) Plan option"
  tv_around :: "'c \<Rightarrow> ('i, 'x) ToolExecution \<Rightarrow> acode"
  tv_transform :: "'c \<Rightarrow> 'x ToolResultTransform \<Rightarrow> 'x ToolResultTransform outcome"

text \<open>The executor that \<open>executeToolOutcome\<close> puts around the tool's own.\<close>

definition wrappedExecutor :: "('i, 'x, 'c, 'p) toolEnv \<Rightarrow> 'i Tool \<Rightarrow> 'x pipeEvent list \<Rightarrow> 'x RToolCall \<Rightarrow> (ToolResult \<times> toolErr option) run \<times> 'x pipeEvent list" where
  "wrappedExecutor env tool tr call =
     (let concrete = (if xt_AllowSessionTitle tool then call\<lparr>xc_SessionTitle := True\<rparr> else call);
          terminal = (if xt_Executor tool then tv_execute env tr concrete else TPanics ''nil pointer dereference'') in
      case InvokeAround (tv_around env) zeroResult (tv_plan env) (ToolExecutePoint (tv_cloneInfo env)) \<lparr>ex_Tool = extensionTool tool, ex_Call = extensionToolCall call\<rparr> (Some terminal) of
        (Ends result err, events) \<Rightarrow> (Ret (result, map_option TDisp err), tr @ map EExt events)
      | (ChainPanics m, events) \<Rightarrow> (Panic m, tr @ map EExt events))"

definition executeToolOutcome :: "('i, 'x, 'c, 'p) toolEnv \<Rightarrow> 'i Tool \<Rightarrow> 'x RToolCall \<Rightarrow> 'x toolOutcome run \<times> 'x pipeEvent list" where
  "executeToolOutcome env tool call =
     (case evaluateToolGuards (tv_guards env) tool call [] of
        (Panic m, tr) \<Rightarrow> (Panic m, tr)
      | (Ret (Inl guardErr), tr) \<Rightarrow> (Ret (newToolOutcome call zeroResult toolPermissionAllowed (Some guardErr)), tr)
      | (Ret (Inr guard), tr) \<Rightarrow>
         if gr_Decision guard = ToolGuardDeny
         then (Ret (newToolOutcome call (modelVisiblePermissionResult ''denied'' (gr_Message guard)) toolPermissionDenied None), tr)
         else
           (case cloneToolChecked (tv_cloneInfo env) tool of
              Inl e \<Rightarrow> (Ret (newToolOutcome call zeroResult toolPermissionAllowed (Some (THost e))), tr)
            | Inr wrapped \<Rightarrow>
               (case executeToolWithPermissions (wrappedExecutor env tool) (tv_policy env) (tv_ask env) wrapped call tr of
                  (Panic m, tr1) \<Rightarrow> (Panic m, tr1)
                | (Ret (permission, err), tr1) \<Rightarrow> (Ret (newToolOutcome call (pe_Result permission) (pe_State permission) err), tr1))))"

definition transformToolOutcome :: "('i, 'x, 'c, 'p) toolEnv \<Rightarrow> 'x toolOutcome \<Rightarrow> 'x pipeEvent list \<Rightarrow> 'x toolOutcome \<times> 'x pipeEvent list" where
  "transformToolOutcome env o1 tr =
     (case ApplyTransforms (tv_transform env) (tv_plan env) ToolResultTransformPoint
         \<lparr>rx_ToolName = xc_Name (oc_Call o1), rx_Call = extensionToolCall (oc_Call o1), rx_Result = oc_Result o1\<rparr> of
        ((v, Some err), events) \<Rightarrow> (finalizeToolOutcome (o1\<lparr>oc_RawError := Some (joinErr (oc_RawError o1) (TDisp err))\<rparr>), tr @ map EExt events)
      | ((v, None), events) \<Rightarrow> (finalizeToolOutcome (o1\<lparr>oc_Result := rx_Result v\<rparr>), tr @ map EExt events))"

text \<open>Why a prepared call may not be executed: the model has not discovered the tool, or preparing it failed.\<close>

datatype prepareErr = UndiscoveredTool string | PrepareFailed toolErr

definition errToolExecutionPanic :: toolErr where
  "errToolExecutionPanic = THost (newErr ''tool execution panicked'')"

text \<open>A wrapper of the tool's result is applied to a result without an error only.\<close>

definition applyWrap :: "('x pipeEvent list \<Rightarrow> 'x RToolCall \<Rightarrow> ToolResult \<Rightarrow> ToolResult outcome) option \<Rightarrow> 'x RToolCall \<Rightarrow> 'x pipeEvent list \<Rightarrow> 'x toolOutcome \<Rightarrow> 'x toolOutcome run" where
  "applyWrap wrap call tr o1 =
     (case wrap of None \<Rightarrow> Ret o1
      | Some w \<Rightarrow>
         if oc_RawError o1 \<noteq> None then Ret o1
         else (case w tr call (oc_Result o1) of
             Panics m \<Rightarrow> Panic m
           | Fails e \<Rightarrow> Ret (newToolOutcome call (oc_Result o1) (oc_Permission o1) (Some (THost e)))
           | Returns r \<Rightarrow> Ret (newToolOutcome call r (oc_Permission o1) None)))"

definition executeClaimedToolPipeline :: "('i, 'x, 'c, 'p) toolEnv \<Rightarrow> 'i Tool \<Rightarrow> 'x RToolCall \<Rightarrow> prepareErr option \<Rightarrow>
    ('x pipeEvent list \<Rightarrow> 'x RToolCall \<Rightarrow> ToolResult \<Rightarrow> ToolResult outcome) option \<Rightarrow> 'x toolOutcome \<times> 'x pipeEvent list" where
  "executeClaimedToolPipeline env tool call prepareErr wrap =
     (case prepareErr of
        Some (UndiscoveredTool msg) \<Rightarrow> transformToolOutcome env (newToolOutcome call (modelVisiblePermissionResult ''undiscovered'' msg) toolPermissionDenied None) []
      | Some (PrepareFailed e) \<Rightarrow> transformToolOutcome env (newToolOutcome call zeroResult toolPermissionAllowed (Some e)) []
      | None \<Rightarrow>
         (let panicked = newToolOutcome call zeroResult toolPermissionAllowed (Some errToolExecutionPanic) in
          case executeToolOutcome env tool call of (Panic m, tr) \<Rightarrow> (panicked, tr)
          | (Ret o1, tr) \<Rightarrow>
             (case applyWrap wrap call tr o1 of Panic m \<Rightarrow> (panicked, tr)
              | Ret o2 \<Rightarrow> transformToolOutcome env o2 tr)))"

end
