(* ===== verification/PlanProps.thy ===== *)
theory PlanProps
  imports ExtensionPlans
begin

text \<open>
  What sealing an extension plan achieves. Every collection of a plan, and the list of components
  itself, follows one contract, the locale \<open>canonical_collection\<close>: validation accepts values with
  distinct identities, the comparison orders by a key that determines the identity, and the canonical form
  of a value depends only on its meaning, in which nested lists are multisets. The locale is interpreted for
  all eight collections, and its lemmas give that the canonical form of a plan decides its meaning.
\<close>

section \<open>Multisets and sorting\<close>

lemma image_mset_factor:
  assumes "image_mset f A = image_mset f B" and "\<And>x y. x \<in># A \<Longrightarrow> y \<in># B \<Longrightarrow> f x = f y \<Longrightarrow> g x = g y"
  shows "image_mset g A = image_mset g B"
  using assms
proof (induction A arbitrary: B)
  case (add a A)
  from add.prems(1) have "f a \<in># image_mset f B" by (metis image_mset_add_mset union_single_eq_member)
  then obtain b B' where b: "f b = f a" "B = add_mset b B'" by (metis image_iff mset_add set_image_mset)
  then have "image_mset f A = image_mset f B'" using add.prems(1) by simp
  then have "image_mset g A = image_mset g B'" by (rule add.IH) (use add.prems(2) b in auto)
  moreover have "g a = g b" using add.prems(2) b by auto
  ultimately show ?case using b by simp
qed simp

lemma sort_key_mset:
  assumes "mset xs = mset ys" "inj_on k (set xs)"
  shows "sort_key k xs = sort_key k ys"
  by (rule sort_key_inj_key_eq) (use assms in simp_all)

lemma orElse_cmp [simp]: "orElse (cmpCompare a b) (cmpCompare c d) = cmpCompare (a, c) (b, d)"
  by (auto simp: orElse_def cmpCompare_def less_prod_def less_eq_prod_def)

lemma cmpCompare_less [simp]: "cmpCompare a b < 0 \<longleftrightarrow> a < b"
  by (simp add: cmpCompare_def)

lemma insertBy_key: "insertBy (\<lambda>x y. k x < k y) x ys = insort_key k x ys"
  for k :: "'a \<Rightarrow> 'b::linorder"
  by (induction ys) (simp_all add: not_le [symmetric])

lemma sortSlice_key: "sortSlice (\<lambda>x y. k x < k y) s = map_option (sort_key k) s"
  for k :: "'a \<Rightarrow> 'b::linorder"
proof -
  have "insertBy (\<lambda>x y. k x < k y) = insort_key k" by (intro ext insertBy_key)
  then show ?thesis by (cases s) (simp_all add: sortSlice_def sort_key_def)
qed

text \<open>The slice that the canonicalisation leaves: nil when empty.\<close>

definition sliceOf :: "'a list \<Rightarrow> 'a slice" where
  "sliceOf xs = (if xs = [] then None else Some xs)"

lemma elems_sliceOf [simp]: "elems (sliceOf xs) = xs"
  by (simp add: sliceOf_def)

lemma sliceOf_inj [simp]: "sliceOf xs = sliceOf ys \<longleftrightarrow> xs = ys"
  by (auto simp: sliceOf_def)

lemma sort_key_Nil_iff [simp]: "sort_key k xs = [] \<longleftrightarrow> xs = []"
  by (metis length_0_conv length_sort)

lemma slices [simp]:
  "mapSlice f (copySlice s) = sliceOf (map f (elems s))" "mapSlice f (sliceOf xs) = sliceOf (map f xs)"
  "map_option (sort_key k) (copySlice s) = sliceOf (sort_key k (elems s))" "map_option (sort_key k) (sliceOf xs) = sliceOf (sort_key k xs)"
  "nilIfEmpty (sliceOf xs) = sliceOf xs" "nilIfEmpty (Some xs) = sliceOf xs"
  by (simp_all add: mapSlice_def copySlice_def sliceOf_def nilIfEmpty_def)

section \<open>The contract of a collection\<close>

locale canonical_collection =
  fixes check :: "'a \<Rightarrow> 'i set \<Rightarrow> planError + 'i set" and ok :: "'a \<Rightarrow> bool" and ident :: "'a \<Rightarrow> 'i"
    and compare :: "'a \<Rightarrow> 'a \<Rightarrow> int" and skey :: "'a \<Rightarrow> 'k::linorder"
    and canon :: "'a \<Rightarrow> 'a" and meaning :: "'a \<Rightarrow> 'm"
  assumes check_iff: "check x seen = Inr s \<longleftrightarrow> ok x \<and> ident x \<notin> seen \<and> s = insert (ident x) seen"
    and compare_key: "compare x y = cmpCompare (skey x) (skey y)"
    and skey_ident: "skey x = skey y \<Longrightarrow> ident x = ident y"
    and canon_skey: "skey (canon x) = skey x"
    and canon_meaning: "meaning (canon x) = meaning x"
    and meaning_ok: "meaning x = meaning y \<Longrightarrow> ok x \<Longrightarrow> ok y"
    and meaning_canon: "ok x \<Longrightarrow> meaning x = meaning y \<Longrightarrow> canon x = canon y"
begin

definition valid :: "'a list \<Rightarrow> bool" where
  "valid xs \<longleftrightarrow> (\<forall>x \<in> set xs. ok x) \<and> distinct (map ident xs)"

definition canonical :: "'a list \<Rightarrow> 'a list" where
  "canonical xs = sort_key skey (map canon xs)"

lemma each_iff: "eachValue check seen xs = Inr () \<longleftrightarrow> valid xs \<and> ident ` set xs \<inter> seen = {}"
  by (induction xs arbitrary: seen) (auto simp: bindP_Inr check_iff valid_def)

lemma each_valid: "eachValue check {} xs = Inr () \<longleftrightarrow> valid xs"
  by (simp add: each_iff)

lemma sorted_by: "sortSlice (\<lambda>x y. compare x y < 0) s = map_option (sort_key skey) s"
  unfolding compare_key cmpCompare_less by (rule sortSlice_key)

lemma canon_ident: "ident (canon x) = ident x"
  using skey_ident canon_skey by blast

lemma meaning_ident: "ok x \<Longrightarrow> meaning x = meaning y \<Longrightarrow> ident x = ident y"
  using meaning_canon canon_ident by metis

lemma valid_inj: "valid xs \<Longrightarrow> inj_on skey (set (map canon xs))"
proof (rule inj_onI)
  fix a b assume v: "valid xs" and ab: "a \<in> set (map canon xs)" "b \<in> set (map canon xs)" "skey a = skey b"
  then obtain x y where x: "x \<in> set xs" "a = canon x" and y: "y \<in> set xs" "b = canon y" by auto
  have "ident x = ident y" using skey_ident [OF ab(3)] x(2) y(2) by (simp add: canon_ident)
  then have "x = y" using v x(1) y(1) by (auto simp: valid_def distinct_map dest: inj_onD)
  then show "a = b" using x y by simp
qed

text \<open>Any sorting function gives the same result on valid values: there are no ties.\<close>

lemma sort_unique:
  assumes "valid xs" "mset ys = mset (map canon xs)" "sorted_wrt (\<lambda>x y. \<not> compare y x < 0) ys"
  shows "ys = canonical xs"
proof -
  have "sorted (map skey ys)" using assms(3) unfolding compare_key cmpCompare_less by (simp add: sorted_map not_less)
  then show ?thesis unfolding canonical_def by (intro sort_key_inj_key_eq [symmetric]) (use assms valid_inj in auto)
qed

lemma canonical_meaning: "image_mset meaning (mset (canonical xs)) = image_mset meaning (mset xs)"
  by (simp add: canonical_def canon_meaning multiset.map_comp o_def)

lemma same_canon:
  assumes "valid xs" "image_mset meaning (mset xs) = image_mset meaning (mset ys)"
  shows "image_mset canon (mset xs) = image_mset canon (mset ys)" "image_mset ident (mset xs) = image_mset ident (mset ys)"
  by (rule image_mset_factor [OF assms(2)]; use assms(1) meaning_canon meaning_ident in \<open>auto simp: valid_def\<close>)+

lemma valid_meaning:
  assumes "valid xs" "image_mset meaning (mset xs) = image_mset meaning (mset ys)"
  shows "valid ys"
proof -
  have "mset (map ident xs) = mset (map ident ys)" using same_canon(2) [OF assms] by simp
  then have "distinct (map ident ys)" using assms(1) mset_eq_imp_distinct_iff [of "map ident xs" "map ident ys"] by (simp add: valid_def)
  moreover have "meaning ` set xs = meaning ` set ys" using arg_cong [OF assms(2), of set_mset] by simp
  then have "\<exists>x \<in> set xs. meaning x = meaning y" if "y \<in> set ys" for y using that by (metis imageE imageI)
  then have "ok y" if "y \<in> set ys" for y using that assms(1) meaning_ok unfolding valid_def by blast
  ultimately show ?thesis by (simp add: valid_def)
qed

lemma valid_canonical: "valid xs \<Longrightarrow> valid (canonical xs)"
  using valid_meaning canonical_meaning by metis

lemma canonical_iff:
  assumes "valid xs"
  shows "canonical xs = canonical ys \<longleftrightarrow> image_mset meaning (mset xs) = image_mset meaning (mset ys)"
proof
  assume "canonical xs = canonical ys" then show "image_mset meaning (mset xs) = image_mset meaning (mset ys)" using canonical_meaning by metis
next
  assume "image_mset meaning (mset xs) = image_mset meaning (mset ys)"
  from same_canon(1) [OF assms this] show "canonical xs = canonical ys"
    unfolding canonical_def by (intro sort_key_mset) (use valid_inj [OF assms] in simp_all)
qed

lemma length_canonical: "length (canonical xs) = length xs"
  by (simp add: canonical_def)

end

section \<open>The collections\<close>

text \<open>What each check demands of one value, besides a fresh identity.\<close>

definition scopeOk :: "ID \<Rightarrow> Scope \<Rightarrow> bool" where
  "scopeOk sid s \<longleftrightarrow> validatePlanScope sid s = Inr ()"

lemma validateUniqueScope_iff:
  "validateUniqueScope sid scope seen key = Inr s \<longleftrightarrow> scopeOk sid scope \<and> key \<notin> seen \<and> s = insert key seen"
  by (auto simp: validateUniqueScope_def bindP_Inr scopeOk_def)

definition handlerOk :: "ID \<Rightarrow> RegistrationIdentity \<Rightarrow> bool" where
  "handlerOk sid v \<longleftrightarrow> identifierPattern (ri_ID v) \<and> ValidateContract (ri_Contract v) (ri_Version v) = Inr () \<and>
     validHandlerKind (ri_Kind v) \<and> scopeOk sid (ri_Scope v)"

definition toolOkay :: "ID \<Rightarrow> ToolPlanIdentity \<Rightarrow> bool" where
  "toolOkay sid v \<longleftrightarrow> identifierPattern (tp_Name v) \<and> identifierPattern (tp_RegistrationID v) \<and> tp_SchemaHash v \<noteq> [] \<and>
     tp_ExecutorHash v \<noteq> [] \<and> scopeOk sid (tp_Scope v)"

definition promptOk :: "ID \<Rightarrow> PromptPlanIdentity \<Rightarrow> bool" where
  "promptOk sid v \<longleftrightarrow> identifierPattern (pp_Name v) \<and> identifierPattern (pp_RegistrationID v) \<and> scopeOk sid (pp_Scope v)"

definition guardOk :: "ID \<Rightarrow> GuardPlanIdentity \<Rightarrow> bool" where
  "guardOk sid v \<longleftrightarrow> identifierPattern (gp_RegistrationID v) \<and> scopeOk sid (gp_Scope v)"

definition restrictionOk :: "ID \<Rightarrow> RestrictionPlanIdentity \<Rightarrow> bool" where
  "restrictionOk sid v \<longleftrightarrow> identifierPattern (rp_RegistrationID v) \<and> TrimSpace (rp_RulesHash v) \<noteq> [] \<and> scopeOk sid (rp_Scope v)"

definition handlerToolOk :: "HandlerToolIdentity \<Rightarrow> bool" where
  "handlerToolOk v \<longleftrightarrow> identifierPattern (ht_Name v) \<and> TrimSpace (ht_SchemaHash v) \<noteq> []"

definition agentHandlerOk :: "ID \<Rightarrow> AgentHandlerPlanIdentity \<Rightarrow> bool" where
  "agentHandlerOk sid v \<longleftrightarrow> identifierPattern (ah_ID v) \<and> TrimSpace (ah_Kind v) \<noteq> [] \<and> TrimSpace (ah_Version v) \<noteq> [] \<and>
     TrimSpace (ah_ConfigHash v) \<noteq> [] \<and> scopeOk sid (ah_Scope v) \<and> eachValue validateHandlerTool {} (elems (ah_Tools v)) = Inr ()"

lemmas identityChecks = ValidateIdentifier_def validateUniqueScope_iff bindP_Inr

text \<open>The meaning of a value: the lists inside it as multisets.\<close>

definition toolMeaning :: "ToolPlanIdentity \<Rightarrow> ToolPlanIdentity \<times> string multiset" where
  "toolMeaning t = (t\<lparr>tp_Aliases := None\<rparr>, mset (elems (tp_Aliases t)))"

definition agentHandlerMeaning :: "AgentHandlerPlanIdentity \<Rightarrow> AgentHandlerPlanIdentity \<times> HandlerToolIdentity multiset" where
  "agentHandlerMeaning a = (a\<lparr>ah_Tools := None\<rparr>, mset (elems (ah_Tools a)))"

abbreviation scopeKey :: "Scope \<Rightarrow> string \<times> string" where
  "scopeKey s \<equiv> (sc_Kind s, sc_Key s)"

lemma compareScope_key: "compareScope l r = cmpCompare (scopeKey l) (scopeKey r)"
  by (simp add: compareScope_def)

lemma scopeKey_eq: "scopeKey l = scopeKey r \<Longrightarrow> l = r"
  by simp

interpretation handlers: canonical_collection "validateHandlerIdentity sid" "handlerOk sid" handlerIdentityKey compareRegistrationIdentity
  "\<lambda>v. (ri_Order v, ri_Contract v, ri_ID v, ri_Version v, ri_Kind v, scopeKey (ri_Scope v))" "\<lambda>v. v" "\<lambda>v. v" for sid
  by unfold_locales
    (auto simp: validateHandlerIdentity_def handlerOk_def identityChecks compareRegistrationIdentity_def compareScope_key handlerIdentityKey_def)

interpretation prompts: canonical_collection "validatePromptIdentity sid" "promptOk sid" promptIdentityKey comparePromptPlanIdentity
  "\<lambda>v. (pp_RegistrationID v, pp_Name v, scopeKey (pp_Scope v), pp_Order v)" "\<lambda>v. v" "\<lambda>v. v" for sid
  by unfold_locales
    (auto simp: validatePromptIdentity_def promptOk_def identityChecks comparePromptPlanIdentity_def compareScope_key promptIdentityKey_def)

interpretation guards: canonical_collection "validateGuardIdentity sid" "guardOk sid" guardIdentityKey compareGuardPlanIdentity
  "\<lambda>v. (gp_RegistrationID v, scopeKey (gp_Scope v), gp_Order v)" "\<lambda>v. v" "\<lambda>v. v" for sid
  by unfold_locales
    (auto simp: validateGuardIdentity_def guardOk_def identityChecks compareGuardPlanIdentity_def compareScope_key guardIdentityKey_def)

interpretation restrictions: canonical_collection "validateRestrictionIdentity sid" "restrictionOk sid" restrictionIdentityKey
  compareRestrictionPlanIdentity "\<lambda>v. (rp_RegistrationID v, scopeKey (rp_Scope v), rp_RulesHash v)" "\<lambda>v. v" "\<lambda>v. v" for sid
  by unfold_locales
    (auto simp: validateRestrictionIdentity_def restrictionOk_def identityChecks compareRestrictionPlanIdentity_def compareScope_key restrictionIdentityKey_def)

interpretation handlerTools: canonical_collection validateHandlerTool handlerToolOk ht_Name "\<lambda>x y. cmpCompare (ht_Name x) (ht_Name y)"
  ht_Name "\<lambda>v. v" "\<lambda>v. v"
  by unfold_locales (auto simp: validateHandlerTool_def handlerToolOk_def identityChecks)

text \<open>Tools and agent handlers as the loop leaves them: cloned, then with their lists sorted.\<close>

definition canonTool :: "ToolPlanIdentity \<Rightarrow> ToolPlanIdentity" where
  "canonTool t = canonicalTool (t\<lparr>tp_Aliases := copySlice (tp_Aliases t)\<rparr>)"

lemma canonTool_eq: "canonTool t = t\<lparr>tp_Aliases := sliceOf (sort (elems (tp_Aliases t)))\<rparr>"
  using sortSlice_key [of "\<lambda>x. x" "copySlice (tp_Aliases t)"] by (simp add: canonTool_def canonicalTool_def)

interpretation tools: canonical_collection "validateToolIdentity sid" "toolOkay sid" toolIdentityKey compareToolPlanIdentity
  "\<lambda>v. (tp_RegistrationID v, tp_Name v, scopeKey (tp_Scope v), tp_SchemaHash v, tp_ExecutorHash v, tp_Order v)" canonTool toolMeaning for sid
proof
  fix x y assume *: "toolMeaning x = toolMeaning y"
  then show "toolOkay sid x \<Longrightarrow> toolOkay sid y" by (cases x, cases y) (auto simp: toolMeaning_def toolOkay_def)
  have "sort (elems (tp_Aliases x)) = sort (elems (tp_Aliases y))" using * by (intro sort_key_mset) (simp_all add: toolMeaning_def)
  then show "canonTool x = canonTool y" using * by (cases x, cases y) (auto simp: toolMeaning_def canonTool_eq)
qed (auto simp: validateToolIdentity_def toolOkay_def identityChecks compareToolPlanIdentity_def compareScope_key toolIdentityKey_def
    canonTool_eq toolMeaning_def)

definition canonAgentHandler :: "AgentHandlerPlanIdentity \<Rightarrow> AgentHandlerPlanIdentity" where
  "canonAgentHandler a = canonicalAgentHandler (a\<lparr>ah_Tools := copySlice (ah_Tools a)\<rparr>)"

lemma canonAgentHandler_eq: "canonAgentHandler a = a\<lparr>ah_Tools := sliceOf (handlerTools.canonical (elems (ah_Tools a)))\<rparr>"
  by (simp add: canonAgentHandler_def canonicalAgentHandler_def sortSlice_key handlerTools.canonical_def)

interpretation agentHandlers: canonical_collection "validateAgentHandlerIdentity sid" "agentHandlerOk sid" agentHandlerIdentityKey
  compareAgentHandlerPlanIdentity
  "\<lambda>v. (ah_Order v, ah_ID v, scopeKey (ah_Scope v), ah_Kind v, ah_Version v, ah_ConfigHash v)" canonAgentHandler agentHandlerMeaning for sid
proof
  fix x y assume *: "agentHandlerMeaning x = agentHandlerMeaning y"
  then have m: "image_mset (\<lambda>v. v) (mset (elems (ah_Tools x))) = image_mset (\<lambda>v. v) (mset (elems (ah_Tools y)))" by (simp add: agentHandlerMeaning_def)
  show "agentHandlerOk sid x \<Longrightarrow> agentHandlerOk sid y"
    using * handlerTools.valid_meaning [OF _ m]
    by (cases x, cases y) (auto simp: agentHandlerMeaning_def agentHandlerOk_def handlerTools.each_valid)
  show "agentHandlerOk sid x \<Longrightarrow> canonAgentHandler x = canonAgentHandler y"
    using * handlerTools.canonical_iff [of "elems (ah_Tools x)" "elems (ah_Tools y)"] m
    by (cases x, cases y) (auto simp: agentHandlerMeaning_def agentHandlerOk_def handlerTools.each_valid canonAgentHandler_eq)
qed (auto simp: validateAgentHandlerIdentity_def agentHandlerOk_def identityChecks compareAgentHandlerPlanIdentity_def compareScope_key
    agentHandlerIdentityKey_def canonAgentHandler_eq agentHandlerMeaning_def handlerTools.canonical_def)

section \<open>Components\<close>

definition componentOk :: "ID \<Rightarrow> ComponentPlan \<Rightarrow> bool" where
  "componentOk sid c \<longleftrightarrow> ValidateComponent (cpl_InstanceID c) (cpl_Artifact c) = Inr () \<and>
     \<not> (elems (cpl_Handlers c) = [] \<and> elems (cpl_Tools c) = [] \<and> elems (cpl_Prompts c) = [] \<and> elems (cpl_Guards c) = [] \<and>
        elems (cpl_Restrictions c) = [] \<and> elems (cpl_AgentHandlers c) = []) \<and>
     handlers.valid sid (elems (cpl_Handlers c)) \<and> tools.valid sid (elems (cpl_Tools c)) \<and> prompts.valid sid (elems (cpl_Prompts c)) \<and>
     guards.valid sid (elems (cpl_Guards c)) \<and> restrictions.valid sid (elems (cpl_Restrictions c)) \<and>
     agentHandlers.valid sid (elems (cpl_AgentHandlers c))"

lemmas collectionChecks = validateHandlerIdentities_def handlers.each_valid validateToolIdentities_def tools.each_valid
  validatePromptIdentities_def prompts.each_valid validateGuardIdentities_def guards.each_valid
  validateRestrictionIdentities_def restrictions.each_valid validateAgentHandlerIdentities_def agentHandlers.each_valid

lemma validateComponentPlan_iff:
  "validateComponentPlan sid c seen = Inr s \<longleftrightarrow> componentOk sid c \<and> cpl_InstanceID c \<notin> seen \<and> s = insert (cpl_InstanceID c) seen"
  by (auto simp: validateComponentPlan_def bindP_Inr componentOk_def collectionChecks)

type_synonym componentMeaning = "string \<times> Artifact \<times> RegistrationIdentity multiset \<times> (ToolPlanIdentity \<times> string multiset) multiset \<times>
  PromptPlanIdentity multiset \<times> GuardPlanIdentity multiset \<times> RestrictionPlanIdentity multiset \<times>
  (AgentHandlerPlanIdentity \<times> HandlerToolIdentity multiset) multiset"

definition componentMeaning :: "ComponentPlan \<Rightarrow> componentMeaning" where
  "componentMeaning c = (cpl_InstanceID c, cpl_Artifact c, mset (elems (cpl_Handlers c)), image_mset toolMeaning (mset (elems (cpl_Tools c))),
     mset (elems (cpl_Prompts c)), mset (elems (cpl_Guards c)), mset (elems (cpl_Restrictions c)),
     image_mset agentHandlerMeaning (mset (elems (cpl_AgentHandlers c))))"

definition canonComponent :: "ComponentPlan \<Rightarrow> ComponentPlan" where
  "canonComponent c = canonicalComponent (cloneComponent c)"

lemma canonComponent_eq: "canonComponent c = c\<lparr>cpl_Handlers := sliceOf (handlers.canonical (elems (cpl_Handlers c))),
    cpl_Tools := sliceOf (tools.canonical (elems (cpl_Tools c))), cpl_Prompts := sliceOf (prompts.canonical (elems (cpl_Prompts c))),
    cpl_Guards := sliceOf (guards.canonical (elems (cpl_Guards c))), cpl_Restrictions := sliceOf (restrictions.canonical (elems (cpl_Restrictions c))),
    cpl_AgentHandlers := sliceOf (agentHandlers.canonical (elems (cpl_AgentHandlers c)))\<rparr>"
  by (simp add: canonComponent_def canonicalComponent_def cloneComponent_def normalizeEmptyComponentSlices_def handlers.sorted_by tools.sorted_by
      prompts.sorted_by guards.sorted_by restrictions.sorted_by agentHandlers.sorted_by handlers.canonical_def tools.canonical_def
      prompts.canonical_def guards.canonical_def restrictions.canonical_def agentHandlers.canonical_def canonTool_def [symmetric] canonAgentHandler_def [symmetric] o_def)

lemma canonComponent_meaning: "componentMeaning (canonComponent c) = componentMeaning c"
  using handlers.canonical_meaning [of "elems (cpl_Handlers c)"] prompts.canonical_meaning [of "elems (cpl_Prompts c)"]
    guards.canonical_meaning [of "elems (cpl_Guards c)"] restrictions.canonical_meaning [of "elems (cpl_Restrictions c)"]
  by (simp add: canonComponent_eq componentMeaning_def tools.canonical_meaning agentHandlers.canonical_meaning)

lemma componentMeaning_ok:
  assumes "componentMeaning x = componentMeaning y" "componentOk sid x"
  shows "componentOk sid y"
proof -
  have n: "mset xs = mset ys \<Longrightarrow> xs = [] \<longleftrightarrow> ys = []" for xs ys :: "'z list" by (metis mset_zero_iff)
  have f: "image_mset f (mset xs) = image_mset f (mset ys) \<Longrightarrow> xs = [] \<longleftrightarrow> ys = []" for f :: "'z \<Rightarrow> 'w" and xs ys
    by (metis image_mset_is_empty_iff mset_zero_iff)
  show ?thesis
    using assms handlers.valid_meaning [of sid "elems (cpl_Handlers x)" "elems (cpl_Handlers y)"]
      tools.valid_meaning [of sid "elems (cpl_Tools x)" "elems (cpl_Tools y)"]
      prompts.valid_meaning [of sid "elems (cpl_Prompts x)" "elems (cpl_Prompts y)"]
      guards.valid_meaning [of sid "elems (cpl_Guards x)" "elems (cpl_Guards y)"]
      restrictions.valid_meaning [of sid "elems (cpl_Restrictions x)" "elems (cpl_Restrictions y)"]
      agentHandlers.valid_meaning [of sid "elems (cpl_AgentHandlers x)" "elems (cpl_AgentHandlers y)"]
    by (auto simp: componentMeaning_def componentOk_def dest: n f)
qed

lemma componentMeaning_canon:
  assumes "componentOk sid x" "componentMeaning x = componentMeaning y"
  shows "canonComponent x = canonComponent y"
  using assms handlers.canonical_iff [of sid "elems (cpl_Handlers x)" "elems (cpl_Handlers y)"]
    tools.canonical_iff [of sid "elems (cpl_Tools x)" "elems (cpl_Tools y)"]
    prompts.canonical_iff [of sid "elems (cpl_Prompts x)" "elems (cpl_Prompts y)"]
    guards.canonical_iff [of sid "elems (cpl_Guards x)" "elems (cpl_Guards y)"]
    restrictions.canonical_iff [of sid "elems (cpl_Restrictions x)" "elems (cpl_Restrictions y)"]
    agentHandlers.canonical_iff [of sid "elems (cpl_AgentHandlers x)" "elems (cpl_AgentHandlers y)"]
  by (cases x, cases y) (simp add: componentOk_def componentMeaning_def canonComponent_eq)

interpretation components: canonical_collection "validateComponentPlan sid" "componentOk sid" cpl_InstanceID compareComponentPlan
  "\<lambda>c. (cpl_InstanceID c, ar_Name (cpl_Artifact c), ar_Version (cpl_Artifact c), ar_Hash (cpl_Artifact c), ar_ConfigHash (cpl_Artifact c),
     ar_SourceKind (cpl_Artifact c))" canonComponent componentMeaning for sid
proof
  show "validateComponentPlan sid x seen = Inr s \<longleftrightarrow> componentOk sid x \<and> cpl_InstanceID x \<notin> seen \<and> s = insert (cpl_InstanceID x) seen"
    for x seen s by (rule validateComponentPlan_iff)
  show "componentMeaning (canonComponent x) = componentMeaning x" for x by (rule canonComponent_meaning)
  show "componentMeaning x = componentMeaning y \<Longrightarrow> componentOk sid x \<Longrightarrow> componentOk sid y" for x y by (rule componentMeaning_ok)
  show "componentOk sid x \<Longrightarrow> componentMeaning x = componentMeaning y \<Longrightarrow> canonComponent x = canonComponent y" for x y
    by (rule componentMeaning_canon)
qed (auto simp: compareComponentPlan_def compareComponentIdentity_def canonComponent_eq)

section \<open>Plans\<close>

definition planMeaning :: "ExtensionPlanDescriptor \<Rightarrow> string \<times> componentMeaning multiset" where
  "planMeaning d = (ep_ToolSearch d, image_mset componentMeaning (mset (elems (ep_Components d))))"

definition canonPlan :: "ExtensionPlanDescriptor \<Rightarrow> ExtensionPlanDescriptor" where
  "canonPlan d = d\<lparr>ep_Fingerprint := [], ep_Components := sliceOf (components.canonical (elems (ep_Components d)))\<rparr>"

lemma validateExtensionPlan_iff: "validateExtensionPlan sid d = Inr () \<longleftrightarrow> components.valid sid (elems (ep_Components d))"
  by (simp add: validateExtensionPlan_def components.each_valid)

lemma validateExtensionPlan_fingerprint [simp]: "validateExtensionPlan sid (d\<lparr>ep_Fingerprint := f\<rparr>) = validateExtensionPlan sid d"
  by (simp add: validateExtensionPlan_def)

lemma canonicalExtensionPlan_eq: "canonicalExtensionPlan sid d = bindP (validateExtensionPlan sid d) (\<lambda>_. Inr (canonPlan d))"
  by (simp add: canonicalExtensionPlan_def Let_def ClonePlan_def mapSlice_def components.sorted_by normalizeEmptyPlanSlices_def canonPlan_def
      components.canonical_def canonComponent_def [symmetric] o_def)

lemma canonPlan_meaning: "planMeaning (canonPlan d) = planMeaning d"
  by (simp add: canonPlan_def planMeaning_def components.canonical_meaning)

lemma canonPlan_valid: "validateExtensionPlan sid d = Inr () \<Longrightarrow> validateExtensionPlan sid (canonPlan d) = Inr ()"
  by (simp add: validateExtensionPlan_iff canonPlan_def components.valid_canonical)

lemma canonPlan_iff:
  assumes "validateExtensionPlan sid a = Inr ()"
  shows "canonPlan a = canonPlan b \<longleftrightarrow> planMeaning a = planMeaning b"
  using components.canonical_iff [OF assms [unfolded validateExtensionPlan_iff], of "elems (ep_Components b)"]
  by (cases a, cases b) (auto simp: canonPlan_def planMeaning_def)

lemma planMeaning_valid:
  assumes "validateExtensionPlan sid a = Inr ()" "planMeaning a = planMeaning b"
  shows "validateExtensionPlan sid b = Inr ()"
  using components.valid_meaning assms by (simp add: validateExtensionPlan_iff planMeaning_def)

lemma sealExtensionPlan_Inr:
  "sealExtensionPlan sid d = Inr s \<longleftrightarrow> validateExtensionPlan sid d = Inr () \<and>
     s = \<lparr>sp_descriptor = (canonPlan d)\<lparr>ep_Fingerprint := hexDigest (emit (planJ (canonPlan d)))\<rparr>\<rparr>"
  by (auto simp: sealExtensionPlan_def canonicalExtensionPlan_eq bindP_Inr)

lemma hexDigest_nonempty [simp]: "hexDigest s \<noteq> []"
  using length_hexDigest [of s] by auto

section \<open>Properties\<close>

text \<open>
  C22. The canonical form of a plan is its meaning: two plans have the same canonical form for a session exactly when
  the first is valid for it and both list the same components with the same registrations, whatever
  the order in which components, registrations, aliases and handler tools are listed and whether
  empty lists are nil.
\<close>

theorem canonical_form_is_meaning:
  "(\<exists>p. canonicalExtensionPlan sid a = Inr p \<and> canonicalExtensionPlan sid b = Inr p) \<longleftrightarrow>
     validateExtensionPlan sid a = Inr () \<and> planMeaning a = planMeaning b"
  using canonPlan_iff planMeaning_valid by (auto simp: canonicalExtensionPlan_eq bindP_Inr) metis+

text \<open>
  C21. What sealing produces verifies: storing the descriptor of a plan sealed for a session and verifying it for the
  same session gives back the sealed plan.
\<close>

theorem sealed_plan_verifies:
  assumes "SealExtensionPlanForSession sid d = Inr s" and "sid \<noteq> []"
  shows "VerifyExtensionPlanForSession sid (Descriptor s) = Inr s"
proof -
  let ?c = "canonPlan d"
  have v: "validateExtensionPlan sid d = Inr ()" and s: "s = \<lparr>sp_descriptor = ?c\<lparr>ep_Fingerprint := hexDigest (emit (planJ ?c))\<rparr>\<rparr>"
    using assms(1) by (auto simp: SealExtensionPlanForSession_def sealExtensionPlan_Inr split: if_split_asm)
  let ?d = "(Descriptor s)\<lparr>ep_Fingerprint := []\<rparr>"
  have "componentMeaning (cloneComponent c) = componentMeaning c" for c
    by (simp add: componentMeaning_def cloneComponent_def toolMeaning_def [abs_def] agentHandlerMeaning_def [abs_def] multiset.map_comp o_def)
  then have "planMeaning ?d = planMeaning ?c"
    by (simp add: planMeaning_def s Descriptor_def ClonePlan_def multiset.map_comp o_def)
  then have m: "planMeaning d = planMeaning ?d" by (simp add: canonPlan_meaning)
  have "validateExtensionPlan sid ?d = Inr ()" by (rule planMeaning_valid [OF v m])
  moreover have "canonPlan ?d = ?c" using canonPlan_iff [OF v] m by metis
  ultimately have "sealExtensionPlan sid ?d = Inr s" by (simp add: sealExtensionPlan_Inr s)
  then show ?thesis using assms(2) by (simp add: VerifyExtensionPlanForSession_def) (simp add: s Descriptor_def ClonePlan_def Fingerprint_def)
qed

text \<open>A plan with tools and aliases out of order.\<close>

definition demoTool :: "string \<Rightarrow> ToolPlanIdentity" where
  "demoTool n = \<lparr>tp_Name = n, tp_RegistrationID = ''reg'', tp_Scope = \<lparr>sc_Kind = ''session'', sc_Key = ''s''\<rparr>, tp_SchemaHash = ''h'',
     tp_ExecutorHash = ''x'', tp_Order = 0, tp_Aliases = Some [''b'', ''a''], tp_Deferred = False\<rparr>"

definition demoPlan :: "ToolPlanIdentity list \<Rightarrow> ExtensionPlanDescriptor" where
  "demoPlan ts = \<lparr>ep_Fingerprint = [], ep_ToolSearch = [], ep_Components = Some [\<lparr>cpl_InstanceID = ''core'',
     cpl_Artifact = \<lparr>ar_Name = ''core'', ar_Version = ''1'', ar_Hash = ''h'', ar_ConfigHash = ''c'', ar_SourceKind = ''native''\<rparr>,
     cpl_Handlers = None, cpl_Tools = Some ts, cpl_Prompts = Some [], cpl_Guards = None, cpl_Restrictions = None, cpl_AgentHandlers = None\<rparr>]\<rparr>"

lemma demoPlan_valid: "validateExtensionPlan ''s'' (demoPlan [demoTool ''write'', demoTool ''read'']) = Inr ()"
  by code_simp

lemma demoPlan_seals: "\<exists>s. SealExtensionPlanForSession ''s'' (demoPlan [demoTool ''write'', demoTool ''read'']) = Inr s"
  using demoPlan_valid by (simp add: SealExtensionPlanForSession_def sealExtensionPlan_Inr) (simp add: demoPlan_def)

theorem sealed_plan_verifies_witness:
  "\<exists>s. SealExtensionPlanForSession ''s'' (demoPlan [demoTool ''write'', demoTool ''read'']) = Inr s \<and>
     VerifyExtensionPlanForSession ''s'' (Descriptor s) = Inr s"
  using demoPlan_seals sealed_plan_verifies by blast

text \<open>The scopes a plan mentions.\<close>

definition componentScopes :: "ComponentPlan \<Rightarrow> Scope set" where
  "componentScopes c = ri_Scope ` set (elems (cpl_Handlers c)) \<union> tp_Scope ` set (elems (cpl_Tools c)) \<union> pp_Scope ` set (elems (cpl_Prompts c)) \<union>
     gp_Scope ` set (elems (cpl_Guards c)) \<union> rp_Scope ` set (elems (cpl_Restrictions c)) \<union> ah_Scope ` set (elems (cpl_AgentHandlers c))"

definition planScopes :: "ExtensionPlanDescriptor \<Rightarrow> Scope set" where
  "planScopes d = (\<Union>c \<in> set (elems (ep_Components d)). componentScopes c)"

lemma scopeOk_iff:
  "scopeOk sid s \<longleftrightarrow> s = \<lparr>sc_Kind = ''global'', sc_Key = []\<rparr> \<or> (sid \<noteq> [] \<and> s = \<lparr>sc_Kind = ''session'', sc_Key = sid\<rparr>)"
  by (cases s) (auto simp: scopeOk_def validatePlanScope_def ValidateScope_def)

lemmas valid_defs = handlers.valid_def tools.valid_def prompts.valid_def guards.valid_def restrictions.valid_def agentHandlers.valid_def
  handlerOk_def toolOkay_def promptOk_def guardOk_def restrictionOk_def agentHandlerOk_def

lemma componentOk_scopes: "componentOk sid c \<Longrightarrow> x \<in> componentScopes c \<Longrightarrow> scopeOk sid x"
  by (auto simp: componentOk_def componentScopes_def valid_defs)

text \<open>
  C23. A plan accepted for a session names no other session: every scope in a stored plan that verifies is
  global or the session's own, so the run of one session never executes another session's registrations.
\<close>

theorem verified_plan_scopes:
  assumes "VerifyExtensionPlanForSession sid d = Inr s" and "x \<in> planScopes d \<union> planScopes (Descriptor s)"
  shows "x = \<lparr>sc_Kind = ''global'', sc_Key = []\<rparr> \<or> x = \<lparr>sc_Kind = ''session'', sc_Key = sid\<rparr>"
proof -
  have v: "validateExtensionPlan sid d = Inr ()" and s: "ep_Components (sp_descriptor s) = ep_Components (canonPlan (d\<lparr>ep_Fingerprint := []\<rparr>))"
    using assms(1) by (auto simp: VerifyExtensionPlanForSession_def bindP_Inr sealExtensionPlan_Inr split: if_split_asm)
  have "componentScopes (cloneComponent c) = componentScopes c" for c
    by (simp add: componentScopes_def cloneComponent_def image_image)
  then have "planScopes (Descriptor s) = planScopes (sp_descriptor s)" by (simp add: planScopes_def Descriptor_def ClonePlan_def)
  moreover have "components.valid sid (elems (ep_Components (sp_descriptor s)))"
    unfolding s by (simp add: validateExtensionPlan_iff [symmetric] canonPlan_valid v)
  ultimately have "scopeOk sid x"
    using assms(2) v componentOk_scopes by (auto simp: planScopes_def validateExtensionPlan_iff components.valid_def)
  then show ?thesis by (auto simp: scopeOk_iff)
qed

definition demoStored :: ExtensionPlanDescriptor where
  "demoStored = (let d = demoPlan [demoTool ''write'', demoTool ''read''] in d\<lparr>ep_Fingerprint := hexDigest (emit (planJ (canonPlan d)))\<rparr>)"

lemma demoStored_verifies: "\<exists>s. VerifyExtensionPlanForSession ''s'' demoStored = Inr s"
proof -
  have "demoStored\<lparr>ep_Fingerprint := []\<rparr> = demoPlan [demoTool ''write'', demoTool ''read'']" by (simp add: demoStored_def Let_def demoPlan_def)
  then show ?thesis
    using demoPlan_valid by (simp add: VerifyExtensionPlanForSession_def bindP_def sealExtensionPlan_def canonicalExtensionPlan_eq Fingerprint_def)
      (simp add: demoStored_def Let_def)
qed

theorem verified_plan_scopes_witness:
  "\<exists>s. VerifyExtensionPlanForSession ''s'' demoStored = Inr s \<and> tp_Scope (demoTool ''read'') \<in> planScopes demoStored \<and>
     (tp_Scope (demoTool ''read'') = \<lparr>sc_Kind = ''global'', sc_Key = []\<rparr> \<or> tp_Scope (demoTool ''read'') = \<lparr>sc_Kind = ''session'', sc_Key = ''s''\<rparr>)"
proof -
  obtain s where "VerifyExtensionPlanForSession ''s'' demoStored = Inr s" using demoStored_verifies by blast
  moreover have "tp_Scope (demoTool ''read'') \<in> planScopes demoStored"
    by (simp add: demoStored_def Let_def demoPlan_def planScopes_def componentScopes_def)
  ultimately show ?thesis using verified_plan_scopes [of "''s''" demoStored s "tp_Scope (demoTool ''read'')"] by blast
qed

text \<open>
  A fingerprint is always 64 lower-case hexadecimal digits, so it is never empty and a sealed plan matches itself.
\<close>

theorem sealed_fingerprint:
  assumes "sealExtensionPlan sid d = Inr s"
  shows "length (Fingerprint s) = 64 \<and> set (Fingerprint s) \<subseteq> set ''0123456789abcdef'' \<and> Matches s s"
  using assms set_hexDigest by (simp add: sealExtensionPlan_Inr Fingerprint_def Matches_def length_hexDigest del: list.set)

theorem sealed_fingerprint_witness:
  "\<exists>s. sealExtensionPlan ''s'' (demoPlan [demoTool ''write'', demoTool ''read'']) = Inr s \<and> length (Fingerprint s) = 64 \<and> Matches s s"
proof -
  obtain s where "sealExtensionPlan ''s'' (demoPlan [demoTool ''write'', demoTool ''read'']) = Inr s"
    using demoPlan_valid by (simp add: sealExtensionPlan_Inr)
  then show ?thesis using sealed_fingerprint by blast
qed

end
