(* ===== verification/RegistryProps.thy ===== *)
theory RegistryProps
  imports ExtensionRegistry
begin

text \<open>
  Properties of the extension registry: reference counts are exact, a mount is cleaned up only when nothing
  uses it any more, no cleanup is repeated after it succeeded, and the order in which handlers run does not
  depend on the order of the map of mounts or on how the sort treats ties.
\<close>

section \<open>What the operations change\<close>

lemma updMount_simps [simp]:
  "rs_points (updMount a f s) = rs_points s" "rs_mounts (updMount a f s) = rs_mounts s" "rs_prepared (updMount a f s) = rs_prepared s"
  "rs_plans (updMount a f s) = rs_plans s" "rs_log (updMount a f s) = rs_log s" "length (rs_heap (updMount a f s)) = length (rs_heap s)"
  by (simp_all add: updMount_def)

lemma updMount_nth: "a < length (rs_heap s) \<Longrightarrow> rs_heap (updMount a f s) ! b = (if b = a then f (rs_heap s ! a) else rs_heap s ! b)"
  by (auto simp: updMount_def)

lemma updPlan_simps [simp]:
  "rs_points (updPlan i f s) = rs_points s" "rs_mounts (updPlan i f s) = rs_mounts s" "rs_prepared (updPlan i f s) = rs_prepared s"
  "rs_heap (updPlan i f s) = rs_heap s" "rs_log (updPlan i f s) = rs_log s"
  by (simp_all add: updPlan_def)

lemma updPlan_plans: "rs_plans (updPlan i f s) = (rs_plans s)[i := f (rs_plans s ! i)]"
  by (simp add: updPlan_def)

lemma retain_simps [simp]:
  "rs_points (retainMount a s) = rs_points s" "rs_mounts (retainMount a s) = rs_mounts s" "rs_prepared (retainMount a s) = rs_prepared s"
  "rs_plans (retainMount a s) = rs_plans s" "rs_log (retainMount a s) = rs_log s" "length (rs_heap (retainMount a s)) = length (rs_heap s)"
  by (simp_all add: retainMount_def)

lemma release_simps [simp]:
  "rs_points (releaseMount a s) = rs_points s" "rs_mounts (releaseMount a s) = rs_mounts s" "rs_prepared (releaseMount a s) = rs_prepared s"
  "rs_plans (releaseMount a s) = rs_plans s" "rs_log (releaseMount a s) = rs_log s" "length (rs_heap (releaseMount a s)) = length (rs_heap s)"
  by (simp_all add: releaseMount_def)

lemma fold_retain_simps [simp]:
  "rs_points (fold retainMount as s) = rs_points s" "rs_mounts (fold retainMount as s) = rs_mounts s" "rs_prepared (fold retainMount as s) = rs_prepared s"
  "rs_plans (fold retainMount as s) = rs_plans s" "rs_log (fold retainMount as s) = rs_log s" "length (rs_heap (fold retainMount as s)) = length (rs_heap s)"
  by (induction as arbitrary: s) simp_all

lemma fold_retain_nth:
  "\<forall>a \<in> set as. a < length (rs_heap s) \<Longrightarrow>
    rs_heap (fold retainMount as s) ! b = (if b < length (rs_heap s) then (rs_heap s ! b)\<lparr>ms_refs := ms_refs (rs_heap s ! b) + int (count_list as b)\<rparr> else rs_heap s ! b)"
proof (induction as arbitrary: s)
  case (Cons a as)
  then show ?case by (auto simp: retainMount_def updMount_nth)
qed simp

section \<open>Reference counts\<close>

text \<open>How often a plan holds a mount: for its callbacks, and once per task that waits or runs.\<close>

definition holds :: "('c, 'v) Plan \<Rightarrow> nat \<Rightarrow> nat" where
  "holds p a = count_list (pl_releases p) a + count_list (pl_queue p) (Callback a) + (if pl_running p = Some (Callback a) then 1 else 0)"

definition leases :: "('c, 'v) Registry \<Rightarrow> nat \<Rightarrow> nat" where
  "leases s a = sum_list (map (\<lambda>p. holds p a) (rs_plans s))"

definition committed :: "('c, 'v) Registry \<Rightarrow> nat \<Rightarrow> bool" where
  "committed s a \<longleftrightarrow> (\<exists>pm \<in> set (rs_prepared s). pm_state pm = a \<and> pm_committed pm)"

definition mountOK :: "('c, 'v) Registry \<Rightarrow> nat \<Rightarrow> ('c, 'v) mountState \<Rightarrow> bool" where
  "mountOK s a m \<longleftrightarrow> (ms_active m \<longrightarrow> (cmp_InstanceID (ms_component m), a) \<in> set (rs_mounts s) \<and> committed s a) \<and>
     ms_refs m = int (leases s a) \<and> (ms_drained m \<longleftrightarrow> committed s a \<and> \<not> ms_active m \<and> ms_refs m = 0)"

definition mapOK :: "('c, 'v) Registry \<Rightarrow> bool" where
  "mapOK s \<longleftrightarrow> distinct (map fst (rs_mounts s)) \<and>
     (\<forall>q \<in> set (rs_mounts s). snd q < length (rs_heap s) \<and> ms_active (rs_heap s ! snd q) \<and> cmp_InstanceID (ms_component (rs_heap s ! snd q)) = fst q)"

definition preparedOK :: "('c, 'v) Registry \<Rightarrow> bool" where
  "preparedOK s \<longleftrightarrow> distinct (map pm_state (rs_prepared s)) \<and>
     (\<forall>pm \<in> set (rs_prepared s). pm_state pm < length (rs_heap s) \<and> \<not> (pm_committed pm \<and> pm_rolledBack pm))"

definition plansOK :: "('c, 'v) Registry \<Rightarrow> bool" where
  "plansOK s \<longleftrightarrow> (\<forall>p \<in> set (rs_plans s). \<not> pl_released p \<longrightarrow> pe_mount ` set (pl_entries p) \<subseteq> set (pl_releases p)) \<and>
     (\<forall>a. leases s a > 0 \<longrightarrow> a < length (rs_heap s) \<and> committed s a)"

definition regInv :: "('c, 'v) Registry \<Rightarrow> bool" where
  "regInv s \<longleftrightarrow> mapOK s \<and> preparedOK s \<and> plansOK s \<and> (\<forall>a < length (rs_heap s). mountOK s a (rs_heap s ! a))"

lemma holds_le_leases: "i < length (rs_plans s) \<Longrightarrow> holds (rs_plans s ! i) a \<le> leases s a"
  unfolding leases_def by (rule member_le_sum_list) (auto intro!: imageI)

lemma leases_updPlan:
  "i < length (rs_plans s) \<Longrightarrow> leases (updPlan i f s) a + holds (rs_plans s ! i) a = leases s a + holds (f (rs_plans s ! i)) a"
  using holds_le_leases [of i s a] by (simp add: leases_def updPlan_plans map_update sum_list_update)

lemma leases_cong: "rs_plans s = rs_plans t \<Longrightarrow> leases s a = leases t a"
  by (simp add: leases_def)

lemma leases_simps [simp]:
  "leases (updMount b f s) a = leases s a" "leases (retainMount b s) a = leases s a" "leases (releaseMount b s) a = leases s a"
  by (simp_all add: leases_def)

lemma committed_cong: "rs_prepared s = rs_prepared t \<Longrightarrow> committed s a = committed t a"
  by (simp add: committed_def)

lemma committed_simps [simp]:
  "committed (updMount b f s) a = committed s a" "committed (retainMount b s) a = committed s a" "committed (releaseMount b s) a = committed s a"
  "committed (updPlan i g s) a = committed s a"
  by (simp_all add: committed_def)

text \<open>What a plan step has to show: the counts of all mounts are the new leases.\<close>

definition counted :: "('c, 'v) Registry \<Rightarrow> ('c, 'v) Registry \<Rightarrow> nat \<Rightarrow> bool" where
  "counted s t a \<longleftrightarrow> (\<exists>d. rs_heap t ! a = (rs_heap s ! a)\<lparr>ms_refs := int (leases t a), ms_drained := d\<rparr> \<and>
     (d \<longleftrightarrow> committed s a \<and> \<not> ms_active (rs_heap s ! a) \<and> leases t a = 0))"

definition planOK :: "('c, 'v) Plan \<Rightarrow> bool" where
  "planOK p \<longleftrightarrow> (\<not> pl_released p \<longrightarrow> pe_mount ` set (pl_entries p) \<subseteq> set (pl_releases p))"

lemma regInv_counted:
  assumes i: "regInv s" and same: "rs_mounts t = rs_mounts s" "rs_prepared t = rs_prepared s" "length (rs_heap t) = length (rs_heap s)"
    and p: "plansOK t" and c: "\<And>a. a < length (rs_heap s) \<Longrightarrow> counted s t a"
  shows "regInv t"
proof -
  have cell: "\<exists>d. rs_heap t ! a = (rs_heap s ! a)\<lparr>ms_refs := int (leases t a), ms_drained := d\<rparr> \<and>
     (d \<longleftrightarrow> committed s a \<and> \<not> ms_active (rs_heap s ! a) \<and> leases t a = 0)" if "a < length (rs_heap s)" for a
    using c [OF that] by (simp add: counted_def)
  have com: "committed t a = committed s a" for a by (rule committed_cong) (rule same)
  have "mapOK t" using i cell unfolding regInv_def mapOK_def same by (auto; metis (no_types, lifting) mountState.select_convs(1,6) mountState.surjective mountState.update_convs(7,8) snd_conv)
  moreover have "preparedOK t" using i by (simp add: regInv_def preparedOK_def same)
  moreover have "mountOK t a (rs_heap t ! a)" if "a < length (rs_heap t)" for a
    using i cell [of a] that by (auto simp: regInv_def mountOK_def same com)
  ultimately show ?thesis using p by (simp add: regInv_def)
qed

lemma regInv_cell:
  assumes "regInv s" "a < length (rs_heap s)"
  shows "ms_refs (rs_heap s ! a) = int (leases s a)" "ms_drained (rs_heap s ! a) \<longleftrightarrow> committed s a \<and> \<not> ms_active (rs_heap s ! a) \<and> leases s a = 0"
  using assms by (auto simp: regInv_def mountOK_def)

lemma counted_refl: "regInv s \<Longrightarrow> a < length (rs_heap s) \<Longrightarrow> rs_heap t ! a = rs_heap s ! a \<Longrightarrow> leases t a = leases s a \<Longrightarrow> counted s t a"
  using regInv_cell [of s a] by (auto simp: counted_def intro!: exI [of _ "ms_drained (rs_heap s ! a)"])

lemma plansOK_upd:
  assumes i: "regInv s" "i < length (rs_plans s)" and t: "rs_plans t = rs_plans (updPlan i f s)" "rs_prepared t = rs_prepared s" "length (rs_heap t) = length (rs_heap s)"
    and p: "planOK (f (rs_plans s ! i))" and l: "\<And>a. holds (f (rs_plans s ! i)) a > 0 \<Longrightarrow> leases s a > 0"
  shows "plansOK t"
proof -
  have "leases s a > 0" if "leases t a > 0" for a
  proof -
    have "leases t a + holds (rs_plans s ! i) a = leases s a + holds (f (rs_plans s ! i)) a"
      using leases_updPlan [OF i(2)] leases_cong [OF t(1)] by metis
    then show ?thesis using that l [of a] by (cases "leases s a = 0") auto
  qed
  moreover have "committed t = committed s" by (intro ext committed_cong) (rule t(2))
  moreover have "planOK q" if "q \<in> set (rs_plans t)" for q
  proof -
    have "q = f (rs_plans s ! i) \<or> q \<in> set (rs_plans s)"
      using that set_update_subset_insert [of "rs_plans s" i "f (rs_plans s ! i)"] unfolding t(1) updPlan_plans by blast
    then show ?thesis using p i(1) by (auto simp: regInv_def plansOK_def planOK_def)
  qed
  ultimately show ?thesis using i t(3) by (auto simp: regInv_def plansOK_def planOK_def)
qed

lemma plan_keeps:
  assumes i: "regInv s" "i < length (rs_plans s)" and p: "planOK (f (rs_plans s ! i))"
    and h: "\<And>a. holds (f (rs_plans s ! i)) a = holds (rs_plans s ! i) a"
  shows "regInv (updPlan i f s)"
proof (rule regInv_counted [OF i(1)])
  show "plansOK (updPlan i f s)"
    by (rule plansOK_upd [where f = f, OF i refl _ _ p]) (use h holds_le_leases [OF i(2)] in \<open>auto intro: less_le_trans\<close>)
  show "counted s (updPlan i f s) a" if "a < length (rs_heap s)" for a
    using leases_updPlan [OF i(2), of f a] h by (intro counted_refl [OF i(1) that]) simp_all
qed simp_all

lemma release_keeps:
  assumes i: "regInv s" "i < length (rs_plans s)" and p: "planOK (f (rs_plans s ! i))"
    and h: "\<And>b. holds (rs_plans s ! i) b = holds (f (rs_plans s ! i)) b + (if b = a then 1 else 0)"
  shows "regInv (releaseMount a (updPlan i f s))" (is "regInv ?t")
proof (rule regInv_counted [OF i(1)])
  have pos: "0 < leases s b" if "0 < holds (rs_plans s ! i) b" for b using that holds_le_leases [OF i(2), of b] by simp
  have a: "a < length (rs_heap s)" "committed s a" using i(1) pos [of a] h [of a] by (auto simp: regInv_def plansOK_def)
  show "plansOK ?t" by (rule plansOK_upd [where f = f, OF i _ _ _ p]) (use h pos in \<open>auto\<close>)
  have l: "leases s b = leases ?t b + (if b = a then 1 else 0)" for b using leases_updPlan [OF i(2), of f b] h [of b] by simp
  show "counted s ?t b" if "b < length (rs_heap s)" for b
  proof (cases "b = a")
    case True
    then show ?thesis using regInv_cell [OF i(1) a(1)] a l [of a]
      by (cases "rs_heap s ! a") (auto simp: counted_def releaseMount_def updMount_nth Let_def)
  next
    case False
    then show ?thesis using a l [of b] by (intro counted_refl [OF i(1) that]) (simp_all add: releaseMount_def updMount_nth)
  qed
qed simp_all

lemma retain_keeps:
  assumes i: "regInv s" "i < length (rs_plans s)" and p: "planOK (f (rs_plans s ! i))" and a: "0 < leases s a"
    and h: "\<And>b. holds (f (rs_plans s ! i)) b = holds (rs_plans s ! i) b + (if b = a then 1 else 0)"
  shows "regInv (updPlan i f (retainMount a s))" (is "regInv ?t")
proof (rule regInv_counted [OF i(1)])
  have pos: "0 < leases s b" if "0 < holds (rs_plans s ! i) b" for b using that holds_le_leases [OF i(2), of b] by simp
  have a': "a < length (rs_heap s)" using i(1) a by (auto simp: regInv_def plansOK_def)
  have pl: "rs_plans ?t = rs_plans (updPlan i f s)" by (simp add: updPlan_plans)
  show "plansOK ?t" by (rule plansOK_upd [where f = f, OF i pl _ _ p]) (use h pos a in \<open>auto split: if_splits\<close>)
  have l: "leases ?t b = leases s b + (if b = a then 1 else 0)" for b
    using leases_updPlan [OF i(2), of f b] h [of b] leases_cong [OF pl] by simp
  show "counted s ?t b" if "b < length (rs_heap s)" for b
  proof (cases "b = a")
    case True
    then show ?thesis using regInv_cell [OF i(1) a'] a a' l [of a]
      by (cases "rs_heap s ! a") (auto simp: counted_def retainMount_def updMount_nth)
  next
    case False
    then show ?thesis using a' l [of b] by (intro counted_refl [OF i(1) that]) (simp_all add: retainMount_def updMount_nth)
  qed
qed simp_all

section \<open>Every step keeps the counts\<close>

lemma regInvD:
  assumes "regInv s"
  shows "distinct (map fst (rs_mounts s))" "distinct (map pm_state (rs_prepared s))"
    "(i, a) \<in> set (rs_mounts s) \<Longrightarrow> a < length (rs_heap s) \<and> ms_active (rs_heap s ! a) \<and> cmp_InstanceID (ms_component (rs_heap s ! a)) = i"
    "pm \<in> set (rs_prepared s) \<Longrightarrow> pm_state pm < length (rs_heap s)"
    "a < length (rs_heap s) \<Longrightarrow> ms_active (rs_heap s ! a) \<Longrightarrow> (cmp_InstanceID (ms_component (rs_heap s ! a)), a) \<in> set (rs_mounts s) \<and> committed s a"
    "0 < leases s a \<Longrightarrow> a < length (rs_heap s) \<and> committed s a"
    "p \<in> set (rs_plans s) \<Longrightarrow> planOK p"
  using assms by (auto simp: regInv_def mapOK_def preparedOK_def mountOK_def plansOK_def planOK_def)

lemma committed_nth: "committed s a \<longleftrightarrow> (\<exists>j < length (rs_prepared s). pm_state (rs_prepared s ! j) = a \<and> pm_committed (rs_prepared s ! j))"
  unfolding committed_def by (metis in_set_conv_nth)

lemma committed_own:
  assumes "distinct (map pm_state (rs_prepared s))" "p < length (rs_prepared s)"
  shows "committed s (pm_state (rs_prepared s ! p)) \<longleftrightarrow> pm_committed (rs_prepared s ! p)"
proof -
  have "j = p" if "j < length (rs_prepared s)" "pm_state (rs_prepared s ! j) = pm_state (rs_prepared s ! p)" for j
    using assms that by (auto simp: distinct_conv_nth)
  then show ?thesis using assms(2) unfolding committed_nth by blast
qed

lemma committed_update:
  assumes d: "distinct (map pm_state (rs_prepared s))" and p: "p < length (rs_prepared s)" and q: "pm_state q = pm_state (rs_prepared s ! p)"
    and t: "rs_prepared t = (rs_prepared s)[p := q]"
  shows "committed t b \<longleftrightarrow> (if b = pm_state q then pm_committed q else committed s b)"
proof (cases "b = pm_state q")
  case True
  have "map pm_state (rs_prepared t) = map pm_state (rs_prepared s)" using p q by (simp add: t map_update list_update_same_conv)
  then have "committed t (pm_state (rs_prepared t ! p)) \<longleftrightarrow> pm_committed (rs_prepared t ! p)" using d p by (intro committed_own) (simp_all add: t)
  then show ?thesis using True p by (simp add: t)
next
  case False
  have "pm_state (rs_prepared t ! j) = b \<and> pm_committed (rs_prepared t ! j) \<longleftrightarrow> pm_state (rs_prepared s ! j) = b \<and> pm_committed (rs_prepared s ! j)"
    if "j < length (rs_prepared s)" for j using that False q p by (auto simp: t nth_list_update)
  then show ?thesis using False unfolding committed_nth t by auto
qed

lemma fresh_prepared: "regInv s \<Longrightarrow> pm \<in> set (rs_prepared s) \<Longrightarrow> pm_state pm \<noteq> length (rs_heap s)"
  by (drule (1) regInvD(4)) simp

lemma regInv_fresh:
  assumes i: "regInv s" and m: "\<not> ms_active m" "ms_refs m = 0" "\<not> ms_drained m"
    and q: "pm_state q = length (rs_heap s)" "\<not> pm_committed q"
  shows "regInv (s\<lparr>rs_heap := rs_heap s @ [m], rs_prepared := rs_prepared s @ [q]\<rparr>)" (is "regInv ?t")
proof -
  have com: "committed ?t a = committed s a" for a using q(2) by (auto simp: committed_def)
  have l: "leases ?t a = leases s a" for a by (simp add: leases_def)
  have "\<not> committed s (length (rs_heap s))" using fresh_prepared [OF i] by (auto simp: committed_def)
  moreover have "leases s (length (rs_heap s)) = 0" using regInvD(6) [OF i, of "length (rs_heap s)"] by auto
  ultimately have "mountOK ?t a (rs_heap ?t ! a)" if "a < length (rs_heap ?t)" for a
    using that i m by (cases "a < length (rs_heap s)") (auto simp: regInv_def mountOK_def com l nth_append less_Suc_eq)
  moreover have "mapOK ?t" using i by (auto simp: regInv_def mapOK_def nth_append)
  moreover have "preparedOK ?t" using i q fresh_prepared [OF i] by (auto simp: regInv_def preparedOK_def)
  moreover have "plansOK ?t" using i by (auto simp: regInv_def plansOK_def com l intro: less_SucI)
  ultimately show ?thesis by (simp add: regInv_def)
qed

lemma PrepareMount_keeps: "regInv s \<Longrightarrow> regInv (snd (PrepareMount c i outs s))"
  unfolding PrepareMount_def by (auto split: option.split prod.split intro!: regInv_fresh)

lemma deactivate_keeps:
  assumes i: "regInv s" and a: "a < length (rs_heap s)"
  shows "regInv (deactivateLocked a s)"
proof (cases "ms_active (rs_heap s ! a)")
  case True
  let ?iid = "cmp_InstanceID (ms_component (rs_heap s ! a))" let ?t = "deactivateLocked a s"
  have ms: "rs_mounts ?t = filter (\<lambda>(i, b). i \<noteq> ?iid) (rs_mounts s)" "rs_plans ?t = rs_plans s" "rs_prepared ?t = rs_prepared s" "length (rs_heap ?t) = length (rs_heap s)"
    and cell: "rs_heap ?t ! b = (if b = a then (rs_heap s ! a)\<lparr>ms_active := False, ms_drained := ms_drained (rs_heap s ! a) \<or> ms_refs (rs_heap s ! a) = 0\<rparr> else rs_heap s ! b)" for b
    using True a by (simp_all add: deactivateLocked_def updMount_nth)
  have com: "committed ?t b = committed s b" and l: "leases ?t b = leases s b" for b by (simp_all add: committed_def leases_def ms)
  have own: "b = a" if "(?iid, b) \<in> set (rs_mounts s)" for b
    by (rule eq_key_imp_eq_value [OF regInvD(1) [OF i] that]) (use regInvD(5) [OF i a True] in simp)
  have "mapOK ?t"
    unfolding mapOK_def
  proof (intro conjI ballI)
    show "distinct (map fst (rs_mounts ?t))" by (simp add: ms distinct_map_filter regInvD(1) [OF i])
    fix q assume "q \<in> set (rs_mounts ?t)"
    then have "q \<in> set (rs_mounts s)" "fst q \<noteq> ?iid" by (auto simp: ms)
    then obtain j b where q: "q = (j, b)" "(j, b) \<in> set (rs_mounts s)" "j \<noteq> ?iid" by (metis prod.collapse)
    with regInvD(3) [OF i q(2)] have b: "b < length (rs_heap s)" "ms_active (rs_heap s ! b)" "cmp_InstanceID (ms_component (rs_heap s ! b)) = j" "b \<noteq> a" by auto
    show "snd q < length (rs_heap ?t)" "ms_active (rs_heap ?t ! snd q)" "cmp_InstanceID (ms_component (rs_heap ?t ! snd q)) = fst q"
      using b by (simp_all add: q(1) ms cell)
  qed
  moreover have "preparedOK ?t" using i by (simp add: regInv_def preparedOK_def ms)
  moreover have "plansOK ?t" using i by (simp add: regInv_def plansOK_def ms com l)
  moreover have "mountOK ?t b (rs_heap ?t ! b)" if b: "b < length (rs_heap ?t)" for b
  proof (cases "b = a")
    case True
    then show ?thesis using regInv_cell [OF i a] regInvD(5) [OF i a \<open>ms_active (rs_heap s ! a)\<close>] by (auto simp: mountOK_def cell com l)
  next
    case False
    have m: "mountOK s b (rs_heap s ! b)" using i b by (simp add: regInv_def ms)
    moreover have "cmp_InstanceID (ms_component (rs_heap s ! b)) \<noteq> ?iid" if "ms_active (rs_heap s ! b)"
      using that m own [of b] False by (auto simp: mountOK_def)
    ultimately show ?thesis using False by (auto simp: mountOK_def cell com l ms)
  qed
  ultimately show ?thesis by (simp add: regInv_def)
qed (simp add: i deactivateLocked_def)

lemma Rollback_keeps:
  assumes i: "regInv s" and p: "p < length (rs_prepared s)"
  shows "regInv (snd (Rollback p outs s))"
proof (cases "pm_committed (rs_prepared s ! p) \<or> pm_rolledBack (rs_prepared s ! p)")
  case False
  let ?t = "snd (Rollback p outs s)" let ?q = "(rs_prepared s ! p)\<lparr>pm_rolledBack := True\<rparr>"
  have t: "rs_prepared ?t = (rs_prepared s)[p := ?q]" "rs_mounts ?t = rs_mounts s" "rs_heap ?t = rs_heap s" "rs_plans ?t = rs_plans s"
    using False by (simp_all add: Rollback_def Let_def)
  have com: "committed ?t b = committed s b" for b
    using committed_update [OF regInvD(2) [OF i] p _ t(1)] committed_own [OF regInvD(2) [OF i] p] by simp
  have l: "leases ?t b = leases s b" for b by (simp add: leases_def t)
  have "map pm_state (rs_prepared ?t) = map pm_state (rs_prepared s)" using p by (simp add: t map_update list_update_same_conv)
  then have "preparedOK ?t"
    using i p False set_update_subset_insert [of "rs_prepared s" p ?q] nth_mem [OF p] by (fastforce simp: regInv_def preparedOK_def t)
  then show ?thesis using i by (simp add: regInv_def mapOK_def plansOK_def mountOK_def t com l)
qed (simp add: i Rollback_def Let_def)

lemma commit_keeps:
  assumes i: "regInv s" and p: "p < length (rs_prepared s)" "\<not> pm_committed (rs_prepared s ! p)" "\<not> pm_rolledBack (rs_prepared s ! p)"
    and a: "a = pm_state (rs_prepared s ! p)" and iid: "cmp_InstanceID (ms_component (rs_heap s ! a)) \<notin> fst ` set (rs_mounts s)"
  shows "regInv ((updMount a (\<lambda>m. m\<lparr>ms_value := v, ms_selectionScopes := scopes, ms_active := True\<rparr>) s)
    \<lparr>rs_mounts := rs_mounts s @ [(cmp_InstanceID (ms_component (rs_heap s ! a)), a)],
     rs_prepared := (rs_prepared s)[p := (rs_prepared s ! p)\<lparr>pm_committed := True\<rparr>]\<rparr>)" (is "regInv ?t")
proof -
  let ?iid = "cmp_InstanceID (ms_component (rs_heap s ! a))" let ?q = "(rs_prepared s ! p)\<lparr>pm_committed := True\<rparr>"
  have ms: "rs_mounts ?t = rs_mounts s @ [(?iid, a)]" "rs_plans ?t = rs_plans s" "rs_prepared ?t = (rs_prepared s)[p := ?q]" "length (rs_heap ?t) = length (rs_heap s)" by simp_all
  have al: "a < length (rs_heap s)" using regInvD(4) [OF i nth_mem [OF p(1)]] a by simp
  note cell = updMount_nth [OF al]
  have com: "committed ?t b \<longleftrightarrow> b = a \<or> committed s b" for b
    using committed_update [OF regInvD(2) [OF i] p(1) _ ms(3)] a by simp
  have nc: "\<not> committed s a" using committed_own [OF regInvD(2) [OF i] p(1)] p(2) a by simp
  have l: "leases ?t b = leases s b" for b by (simp add: leases_def)
  have l0: "leases s a = 0" using regInvD(6) [OF i, of a] nc by auto
  have na: "\<not> ms_active (rs_heap s ! a)" "\<not> ms_drained (rs_heap s ! a)" using regInvD(5) [OF i al] regInv_cell [OF i al] nc by auto
  have "mapOK ?t"
    unfolding mapOK_def
  proof (intro conjI ballI)
    show "distinct (map fst (rs_mounts ?t))" using regInvD(1) [OF i] iid by (simp add: ms)
    fix q assume "q \<in> set (rs_mounts ?t)"
    then consider "q = (?iid, a)" | "q \<in> set (rs_mounts s)" by (auto simp: ms)
    then have "snd q < length (rs_heap s) \<and> ms_active (rs_heap ?t ! snd q) \<and> cmp_InstanceID (ms_component (rs_heap ?t ! snd q)) = fst q"
    proof cases
      case 2
      then show ?thesis using regInvD(3) [OF i, of "fst q" "snd q"] by (auto simp: cell)
    qed (simp add: cell al)
    then show "snd q < length (rs_heap ?t)" "ms_active (rs_heap ?t ! snd q)" "cmp_InstanceID (ms_component (rs_heap ?t ! snd q)) = fst q"
      by (simp_all add: ms)
  qed
  moreover have "preparedOK ?t"
  proof -
    have "map pm_state (rs_prepared ?t) = map pm_state (rs_prepared s)" using p by (simp add: map_update list_update_same_conv)
    then show ?thesis
      using i p set_update_subset_insert [of "rs_prepared s" p ?q] nth_mem [OF p(1)] by (fastforce simp: regInv_def preparedOK_def)
  qed
  moreover have "plansOK ?t" using i by (auto simp: regInv_def plansOK_def com l ms)
  moreover have "mountOK ?t b (rs_heap ?t ! b)" if b: "b < length (rs_heap ?t)" for b
  proof (cases "b = a")
    case True
    then show ?thesis using regInv_cell [OF i al] l0 na by (simp add: mountOK_def cell com l ms)
  next
    case False
    have "mountOK s b (rs_heap s ! b)" using i b by (simp add: regInv_def ms)
    then show ?thesis using False by (auto simp: mountOK_def cell com l ms)
  qed
  ultimately show ?thesis by (simp add: regInv_def)
qed

lemma CommitMount_keeps: "regInv s \<Longrightarrow> p < length (rs_prepared s) \<Longrightarrow> regInv (snd (CommitMount p v scopes validate s))"
  unfolding CommitMount_def Let_def by (auto split: sum.split option.split intro!: commit_keeps)

lemma finishClose_keeps: "regInv s \<Longrightarrow> a < length (rs_heap s) \<Longrightarrow> regInv (snd (finishClose a outs s))"
  by (auto simp: regInv_def mapOK_def preparedOK_def plansOK_def mountOK_def finishClose_def Let_def committed_def leases_def updMount_nth)

lemma count_list_insertionSort: "mset (insertionSort lt xs) = mset xs"
proof -
  have ins: "mset (insertBy lt x ys) = add_mset x (mset ys)" for x ys by (induction ys) auto
  show ?thesis unfolding insertionSort_def by (induction xs) (simp_all add: ins)
qed

lemma set_insertionSort: "set (insertionSort lt xs) = set xs"
  using count_list_insertionSort by (rule mset_eq_setD)

lemma snapshot_keeps:
  assumes i: "regInv s" and order: "mset order = mset (rs_mounts s)"
  shows "regInv (snd (snapshot target allowed order s))"
proof (cases "ValidateScope target = Inr ()")
  case True
  let ?t = "snd (snapshot target allowed order s)" let ?p = "makePlan target (selected allowed order s) s"
  have plan: "rs_plans ?t = rs_plans s @ [?p]" "rs_mounts ?t = rs_mounts s" "rs_prepared ?t = rs_prepared s" "length (rs_heap ?t) = length (rs_heap s)"
    and heap: "rs_heap ?t = rs_heap (fold retainMount (pl_releases ?p) s)"
    using True by (simp_all add: snapshot_def Let_def)
  have "set order = set (rs_mounts s)" using order by (rule mset_eq_setD)
  then have sel: "a < length (rs_heap s) \<and> ms_active (rs_heap s ! a) \<and> committed s a" if "a \<in> set (selected allowed order s)" for a
    using that regInvD(3,5) [OF i] by (auto simp: selected_def)
  then have lea: "a < length (rs_heap s) \<and> ms_active (rs_heap s ! a) \<and> committed s a" if "a \<in> set (pl_releases ?p)" for a
    using that by (simp add: makePlan_def Let_def)
  have h: "holds ?p a = count_list (pl_releases ?p) a" for a by (simp add: holds_def makePlan_def Let_def)
  have l: "leases ?t a = leases s a + count_list (pl_releases ?p) a" for a by (simp add: leases_def plan h)
  have new: "planOK ?p" by (auto simp: planOK_def makePlan_def Let_def set_insertionSort plannedEntries_def applies_def)
  show ?thesis
  proof (rule regInv_counted [OF i plan(2-4)])
    have "a < length (rs_heap s) \<and> committed s a" if "0 < leases ?t a" for a
    proof (cases "0 < leases s a")
      case False
      then have "count_list (pl_releases ?p) a \<noteq> 0" using that by (simp add: l)
      then show ?thesis using lea [of a] by (simp add: count_list_0_iff)
    qed (rule regInvD(6) [OF i])
    then show "plansOK ?t" using new regInvD(7) [OF i] by (auto simp: plansOK_def planOK_def plan committed_def)
    fix a assume a: "a < length (rs_heap s)"
    have "rs_heap ?t ! a = (rs_heap s ! a)\<lparr>ms_refs := ms_refs (rs_heap s ! a) + int (count_list (pl_releases ?p) a)\<rparr>"
      unfolding heap using a lea by (subst fold_retain_nth) auto
    moreover have "count_list (pl_releases ?p) a = 0" if "\<not> ms_active (rs_heap s ! a)" using that lea by (auto simp: count_list_0_iff)
    ultimately show "counted s ?t a"
      using regInv_cell [OF i a] by (cases "rs_heap s ! a") (auto simp: counted_def l)
  qed
qed (simp add: i snapshot_def)

lemma release_retain:
  assumes i: "regInv s" and a: "0 < leases s a"
  shows "releaseMount a (retainMount a s) = s"
proof -
  have al: "a < length (rs_heap s)" using regInvD(6) [OF i a] by simp
  have "ms_refs (rs_heap s ! a) = int (leases s a)" by (rule regInv_cell [OF i al])
  then have "(rs_heap s ! a)\<lparr>ms_refs := ms_refs (rs_heap s ! a), ms_drained := ms_drained (rs_heap s ! a) \<or> ms_refs (rs_heap s ! a) = 0 \<and> \<not> ms_active (rs_heap s ! a)\<rparr> = rs_heap s ! a"
    using a by (cases "rs_heap s ! a") auto
  then show ?thesis
    using al a \<open>ms_refs _ = _\<close> by (simp add: releaseMount_def retainMount_def updMount_def Let_def list_update_same_conv)
qed

lemma planOK_nth: "regInv s \<Longrightarrow> i < length (rs_plans s) \<Longrightarrow> planOK (rs_plans s ! i)"
  by (rule regInvD(7)) (auto intro: nth_mem)

lemma entry_leased:
  assumes "regInv s" "i < length (rs_plans s)" "\<not> pl_released (rs_plans s ! i)" "k < length (pl_entries (rs_plans s ! i))"
  shows "0 < leases s (pe_mount (pl_entries (rs_plans s ! i) ! k))"
proof -
  let ?a = "pe_mount (pl_entries (rs_plans s ! i) ! k)"
  have "?a \<in> set (pl_releases (rs_plans s ! i))" using planOK_nth [OF assms(1,2)] assms(3,4) by (auto simp: planOK_def)
  then have "count_list (pl_releases (rs_plans s ! i)) ?a \<noteq> 0" by (simp add: count_list_0_iff)
  then have "0 < holds (rs_plans s ! i) ?a" by (simp add: holds_def)
  then show ?thesis using holds_le_leases [OF assms(2), of ?a] by simp
qed

lemma notify_keeps:
  assumes i: "regInv s" "i < length (rs_plans s)" "k < length (pl_entries (rs_plans s ! i))"
  shows "regInv (snd (enqueueNotification i k s))"
proof (cases "pl_released (rs_plans s ! i)")
  case False
  have "0 < leases s (pe_mount (pl_entries (rs_plans s ! i) ! k))" by (rule entry_leased [OF i(1,2) False i(3)])
  then show ?thesis
    using i planOK_nth [OF i(1,2)] release_retain [OF i(1)]
    by (auto simp: enqueueNotification_def Let_def planOK_def holds_def intro!: retain_keeps)
qed (simp add: i enqueueNotification_def Let_def)

lemma step_keeps:
  assumes i: "regInv s" and st: "regStep a s = Some t"
  shows "regInv t"
proof -
  note ok = planOK_nth [OF i]
  show ?thesis
  proof (cases a)
    case (RNotify j k)
    then show ?thesis using st by (auto intro!: notify_keeps [OF i] split: if_splits)
  next
    case (RFlush j)
    then show ?thesis using st i ok [of j] by (auto simp: flushMark_def Let_def planOK_def holds_def split: if_splits intro!: plan_keeps [OF i])
  next
    case (RStartTask j)
    then show ?thesis using st ok [of j]
      by (auto simp: startTask_def planOK_def holds_def split: if_splits option.splits list.splits intro!: plan_keeps [OF i])
  next
    case (RFinishTask j)
    then show ?thesis using st ok [of j]
      by (auto simp: finishTask_def releaseTask_def planOK_def holds_def split: if_splits option.splits notificationTask.splits intro!: plan_keeps [OF i] release_keeps [OF i])
  next
    case (RRelease j)
    then show ?thesis using st by (auto simp: releasePlan_def planOK_def holds_def split: if_splits intro!: plan_keeps [OF i])
  next
    case (RReleaseNext j)
    then show ?thesis using st
      by (auto simp: releaseNext_def planOK_def holds_def split: if_splits list.splits intro!: release_keeps [OF i])
  qed (use st i in \<open>auto split: if_splits simp: beginClose_def CheckClose_def intro: PrepareMount_keeps CommitMount_keeps Rollback_keeps deactivate_keeps finishClose_keeps snapshot_keeps\<close>)
qed

lemma new_regInv: "NewRegistry catalog = Inr s \<Longrightarrow> regInv s"
  by (auto simp: NewRegistry_def bindP_Inr regInv_def mapOK_def preparedOK_def plansOK_def leases_def)

lemma reachable_regInv: "regReachable s \<Longrightarrow> regInv s"
  by (induction rule: regReachable.induct) (auto intro: new_regInv step_keeps)

section \<open>Nothing uses a mount that is being cleaned up\<close>

text \<open>A mount that has left the registry for good and that nothing holds.\<close>

definition retired :: "('c, 'v) Registry \<Rightarrow> nat \<Rightarrow> bool" where
  "retired s a \<longleftrightarrow> a < length (rs_heap s) \<and> leases s a = 0 \<and> \<not> ms_active (rs_heap s ! a) \<and>
     (\<forall>pm \<in> set (rs_prepared s). pm_state pm = a \<longrightarrow> pm_committed pm \<or> pm_rolledBack pm)"

definition unusedBy :: "('c, 'v) Registry \<Rightarrow> nat \<Rightarrow> bool" where
  "unusedBy s a \<longleftrightarrow> a \<notin> snd ` set (rs_mounts s) \<and>
     (\<forall>p \<in> set (rs_plans s). a \<notin> set (pl_releases p) \<and> Callback a \<notin> set (pl_queue p) \<and> pl_running p \<noteq> Some (Callback a) \<and>
        (\<not> pl_released p \<longrightarrow> a \<notin> pe_mount ` set (pl_entries p)))"

lemma idle_unused:
  assumes i: "regInv s" and r: "leases s a = 0" "a < length (rs_heap s)" "\<not> ms_active (rs_heap s ! a)"
  shows "unusedBy s a"
proof -
  have "a \<notin> snd ` set (rs_mounts s)" using regInvD(3) [OF i] r by auto
  moreover have "a \<notin> set (pl_releases p) \<and> Callback a \<notin> set (pl_queue p) \<and> pl_running p \<noteq> Some (Callback a) \<and>
     (\<not> pl_released p \<longrightarrow> a \<notin> pe_mount ` set (pl_entries p))" if "p \<in> set (rs_plans s)" for p
  proof -
    have "holds p a \<le> leases s a" unfolding leases_def by (rule member_le_sum_list) (use that in auto)
    then have "holds p a = 0" using r by simp
    then show ?thesis using regInvD(7) [OF i that] by (auto simp: holds_def planOK_def count_list_0_iff split: if_splits)
  qed
  ultimately show ?thesis by (simp add: unusedBy_def)
qed

text \<open>Only two steps call cleanups, and each does so on a retired mount.\<close>

lemma step_log:
  assumes i: "regInv s" and st: "regStep act s = Some t"
  obtains "rs_log t = rs_log s"
  | p outs where "act = RRollback p outs" "p < length (rs_prepared s)" "\<not> pm_committed (rs_prepared s ! p)" "\<not> pm_rolledBack (rs_prepared s ! p)"
      "rs_log t = rs_log s @ map (\<lambda>i. (pm_state (rs_prepared s ! p), i, outs i = None)) (rev [0..<length (ms_effects (rs_heap s ! pm_state (rs_prepared s ! p)))])"
  | a outs where "act = RFinishClose a outs" "a < length (rs_heap s)" "ms_drained (rs_heap s ! a)"
      "rs_log t = rs_log s @ map (\<lambda>i. (a, i, outs i = None)) (pendingEffects (ms_effects (rs_heap s ! a)))"
proof (cases act)
  case (RRollback p outs)
  then show ?thesis using st that(1,2) by (cases "pm_committed (rs_prepared s ! p) \<or> pm_rolledBack (rs_prepared s ! p)") (auto simp: Rollback_def Let_def split: if_splits)
next
  case (RFinishClose a outs)
  then show ?thesis using st that(3) by (auto simp: finishClose_def Let_def split: if_splits)
qed (use st that(1) in \<open>auto split: if_splits option.splits prod.splits sum.splits list.splits notificationTask.splits
     simp: PrepareMount_def CommitMount_def Let_def deactivateLocked_def beginClose_def CheckClose_def snapshot_def enqueueNotification_def
       flushMark_def startTask_def finishTask_def releaseTask_def releasePlan_def releaseNext_def\<close>)

lemma cleanup_retires:
  assumes i: "regInv s" and st: "regStep act s = Some t" and new: "(a, k, ok) \<in> set (drop (length (rs_log s)) (rs_log t))"
  shows "(a < length (rs_heap s) \<and> leases s a = 0 \<and> \<not> ms_active (rs_heap s ! a)) \<and> retired t a"
proof -
  from i st show ?thesis
  proof (cases rule: step_log [consumes 2])
    case 1
    then show ?thesis using new by simp
  next
    case (2 p outs)
    have a: "a = pm_state (rs_prepared s ! p)" using new by (auto simp: 2(5))
    have nc: "\<not> committed s a" using committed_own [OF regInvD(2) [OF i] 2(2)] 2(3) a by simp
    have fst: "a < length (rs_heap s) \<and> leases s a = 0 \<and> \<not> ms_active (rs_heap s ! a)"
      using regInvD(4) [OF i nth_mem [OF 2(2)]] regInvD(5) [OF i, of a] regInvD(6) [OF i, of a] nc a by auto
    have t: "t = snd (Rollback p outs s)" using st 2(1,2) by simp
    have "pm_state q \<noteq> a \<or> pm_rolledBack q" if q: "q \<in> set (rs_prepared t)" for q
    proof -
      have "rs_prepared t = (rs_prepared s)[p := (rs_prepared s ! p)\<lparr>pm_rolledBack := True\<rparr>]" using 2(3,4) by (simp add: t Rollback_def Let_def)
      then obtain j where j: "j < length (rs_prepared s)" "q = (if j = p then (rs_prepared s ! p)\<lparr>pm_rolledBack := True\<rparr> else rs_prepared s ! j)"
        using q 2(2) by (auto simp: in_set_conv_nth nth_list_update)
      then show ?thesis using regInvD(2) [OF i] 2(2) a by (auto simp: distinct_conv_nth split: if_splits)
    qed
    then have "retired t a" using fst 2(3,4) by (auto simp: retired_def t Rollback_def Let_def leases_def)
    with fst show ?thesis by blast
  next
    case (3 b outs)
    have a: "a = b" using new by (auto simp: 3(4))
    have fst: "a < length (rs_heap s) \<and> leases s a = 0 \<and> \<not> ms_active (rs_heap s ! a)" using regInv_cell [OF i 3(2)] 3(2,3) a by simp
    have "pm_committed q" if "q \<in> set (rs_prepared s)" "pm_state q = a" for q
    proof -
      obtain j where "j < length (rs_prepared s)" "q = rs_prepared s ! j" using \<open>q \<in> _\<close> by (auto simp: in_set_conv_nth)
      then show ?thesis using committed_own [OF regInvD(2) [OF i]] regInv_cell [OF i 3(2)] 3(3) that(2) a by auto
    qed
    then have "retired t a" using st 3(1-3) fst a by (auto simp: retired_def finishClose_def Let_def leases_def updMount_nth)
    with fst show ?thesis by blast
  qed
qed

lemma retired_same:
  "retired s a \<Longrightarrow> rs_prepared t = rs_prepared s \<Longrightarrow> length (rs_heap t) = length (rs_heap s) \<Longrightarrow> leases t a = 0 \<Longrightarrow>
   \<not> ms_active (rs_heap t ! a) \<Longrightarrow> retired t a"
  by (simp add: retired_def)

lemma leases_none:
  assumes "i < length (rs_plans s)" "leases s a = 0" "holds (rs_plans s ! i) a = 0 \<Longrightarrow> holds (f (rs_plans s ! i)) a = 0"
  shows "leases (updPlan i f s) a = 0"
  using leases_updPlan [OF assms(1), of f a] assms(2,3) holds_le_leases [OF assms(1), of a] by simp

lemma updMount_beyond: "\<not> a < length (rs_heap s) \<Longrightarrow> updMount a f s = s"
  by (simp add: updMount_def not_less list_update_beyond)

lemma release_active [simp]: "ms_active (rs_heap (releaseMount b s) ! a) = ms_active (rs_heap s ! a)"
  by (cases "b < length (rs_heap s)") (simp_all add: releaseMount_def updMount_nth updMount_beyond Let_def)

lemma retain_active [simp]: "ms_active (rs_heap (retainMount b s) ! a) = ms_active (rs_heap s ! a)"
  by (cases "b < length (rs_heap s)") (simp_all add: retainMount_def updMount_nth updMount_beyond)

lemma fold_retain_active [simp]: "ms_active (rs_heap (fold retainMount bs s) ! a) = ms_active (rs_heap s ! a)"
  by (induction bs arbitrary: s) simp_all

lemma retired_step:
  assumes i: "regInv s" and r: "retired s a" and st: "regStep act s = Some t"
  shows "retired t a"
proof -
  have l: "leases s a = 0" "a < length (rs_heap s)" "\<not> ms_active (rs_heap s ! a)" using r by (simp_all add: retired_def)
  note plan = retired_same [OF r]
  show ?thesis
  proof (cases act)
    case (RPrepare c j outs)
    then show ?thesis using st r regInvD(4) [OF i] by (auto simp: PrepareMount_def retired_def leases_def nth_append split: option.splits if_splits prod.splits)
  next
    case (RCommit p v scopes validate)
    have p: "p < length (rs_prepared s)" using st RCommit by (simp split: if_splits)
    have own: "pm_committed (rs_prepared s ! p) \<or> pm_rolledBack (rs_prepared s ! p)" if "pm_state (rs_prepared s ! p) = a"
      using r that nth_mem [OF p] by (auto simp: retired_def)
    have "\<forall>q \<in> set ((rs_prepared s)[p := (rs_prepared s ! p)\<lparr>pm_committed := True\<rparr>]). pm_state q = a \<longrightarrow> pm_committed q \<or> pm_rolledBack q"
      using r set_update_subset_insert [of "rs_prepared s" p "(rs_prepared s ! p)\<lparr>pm_committed := True\<rparr>"] by (fastforce simp: retired_def)
    then show ?thesis
      using st r RCommit own regInvD(4) [OF i nth_mem [OF p]] by (auto simp: CommitMount_def Let_def retired_def leases_def updMount_nth split: sum.splits if_splits option.splits)
  next
    case (RRollback p outs)
    have "\<forall>q \<in> set ((rs_prepared s)[p := (rs_prepared s ! p)\<lparr>pm_rolledBack := True\<rparr>]). pm_state q = a \<longrightarrow> pm_committed q \<or> pm_rolledBack q"
      using r set_update_subset_insert [of "rs_prepared s" p "(rs_prepared s ! p)\<lparr>pm_rolledBack := True\<rparr>"] by (fastforce simp: retired_def)
    then show ?thesis using st r RRollback by (auto simp: Rollback_def Let_def retired_def leases_def split: if_splits)
  next
    case (RDeactivate b)
    then show ?thesis using st l by (auto simp: deactivateLocked_def Let_def leases_def updMount_nth split: if_splits intro!: plan)
  next
    case (RBeginClose token b)
    then show ?thesis using st l
      by (auto simp: beginClose_def CheckClose_def deactivateLocked_def Let_def leases_def updMount_nth split: if_splits intro!: plan)
  next
    case (RFinishClose b outs)
    then show ?thesis using st l by (auto simp: finishClose_def Let_def leases_def updMount_nth split: if_splits intro!: plan)
  next
    case (RSnapshot target allowed order)
    have "a \<notin> set (selected allowed order s)" using l by (auto simp: selected_def)
    then show ?thesis using st l RSnapshot
      by (auto simp: snapshot_def Let_def leases_def holds_def makePlan_def count_list_0_iff split: if_splits intro!: plan)
  next
    case (RNotify j k)
    then have "pe_mount (pl_entries (rs_plans s ! j) ! k) \<noteq> a" if "\<not> pl_released (rs_plans s ! j)"
      using st entry_leased [OF i _ that, of k] l by (auto split: if_splits)
    then show ?thesis using st l r RNotify leases_none [of j "retainMount _ s" a]
      by (auto simp: enqueueNotification_def Let_def holds_def split: if_splits intro!: plan leases_none)
  next
    case (RFlush j)
    then show ?thesis using st l r by (auto simp: flushMark_def Let_def holds_def split: if_splits intro!: plan leases_none)
  next
    case (RStartTask j)
    then show ?thesis using st l by (auto simp: startTask_def holds_def split: if_splits option.splits list.splits intro!: plan leases_none)
  next
    case (RFinishTask j)
    then show ?thesis using st l
      by (auto simp: finishTask_def releaseTask_def holds_def split: if_splits option.splits notificationTask.splits intro!: plan leases_none)
  next
    case (RRelease j)
    then show ?thesis using st l by (auto simp: releasePlan_def holds_def split: if_splits intro!: plan leases_none)
  next
    case (RReleaseNext j)
    then show ?thesis using st l by (auto simp: releaseNext_def holds_def split: if_splits list.splits intro!: plan leases_none)
  qed
qed

inductive regLater :: "('c, 'v) Registry \<Rightarrow> ('c, 'v) Registry \<Rightarrow> bool" for s where
  now: "regLater s s"
| later: "regLater s t \<Longrightarrow> regStep a t = Some u \<Longrightarrow> regLater s u"

lemma regLater_keeps: "regLater s t \<Longrightarrow> regInv s \<Longrightarrow> retired s a \<Longrightarrow> regInv t \<and> retired t a"
  by (induction rule: regLater.induct) (blast intro: step_keeps retired_step)+

section \<open>Cleanups succeed once\<close>

abbreviation noRepeat :: "nat \<times> nat \<times> bool \<Rightarrow> nat \<times> nat \<times> bool \<Rightarrow> bool" where
  "noRepeat x y \<equiv> snd (snd x) \<longrightarrow> (fst x, fst (snd x)) \<noteq> (fst y, fst (snd y))"

definition logOK :: "('c, 'v) Registry \<Rightarrow> bool" where
  "logOK s \<longleftrightarrow> sorted_wrt noRepeat (rs_log s) \<and>
     (\<forall>(a, k, ok) \<in> set (rs_log s). retired s a \<and> (ok \<and> committed s a \<longrightarrow> k < length (ms_effects (rs_heap s ! a)) \<and> cs_done (ms_effects (rs_heap s ! a) ! k)))"

lemma pendingEffects_set: "k \<in> set (pendingEffects effects) \<longleftrightarrow> k < length effects \<and> \<not> cs_done (effects ! k)"
  by (auto simp: pendingEffects_def)

lemma pendingEffects_desc: "sorted_wrt (>) (pendingEffects effects)"
  unfolding pendingEffects_def by (rule sorted_wrt_filter) (simp add: sorted_wrt_rev)

lemma markDone_nth:
  "length (markDone outs effects) = length effects"
  "k < length effects \<Longrightarrow> cs_done (markDone outs effects ! k) \<longleftrightarrow> cs_done (effects ! k) \<or> outs k = None"
  by (auto simp: markDone_def)

lemma release_effects [simp]: "ms_effects (rs_heap (releaseMount b s) ! a) = ms_effects (rs_heap s ! a)"
  by (cases "b < length (rs_heap s)") (simp_all add: releaseMount_def updMount_nth updMount_beyond Let_def)

lemma retain_effects [simp]: "ms_effects (rs_heap (retainMount b s) ! a) = ms_effects (rs_heap s ! a)"
  by (cases "b < length (rs_heap s)") (simp_all add: retainMount_def updMount_nth updMount_beyond)

lemma fold_retain_effects [simp]: "ms_effects (rs_heap (fold retainMount bs s) ! a) = ms_effects (rs_heap s ! a)"
  by (induction bs arbitrary: s) simp_all

lemma effects_stay:
  assumes i: "regInv s" and st: "regStep act s = Some t" and a: "a < length (rs_heap s)"
  shows "(\<exists>outs. act = RFinishClose a outs \<and> ms_effects (rs_heap t ! a) = markDone outs (ms_effects (rs_heap s ! a))) \<or> ms_effects (rs_heap t ! a) = ms_effects (rs_heap s ! a)"
proof (cases act)
  case (RCommit p v scopes validate)
  then show ?thesis using st regInvD(4) [OF i nth_mem, of p]
    by (auto simp: CommitMount_def Let_def updMount_nth split: if_splits sum.splits option.splits)
qed (use st a in \<open>auto split: if_splits option.splits prod.splits sum.splits list.splits notificationTask.splits
     simp: PrepareMount_def nth_append Rollback_def Let_def deactivateLocked_def beginClose_def CheckClose_def finishClose_def updMount_nth snapshot_def enqueueNotification_def
       flushMark_def startTask_def finishTask_def releaseTask_def releasePlan_def releaseNext_def\<close>)

lemma done_stays:
  assumes "regInv s" "regStep act s = Some t" "a < length (rs_heap s)" "k < length (ms_effects (rs_heap s ! a))" "cs_done (ms_effects (rs_heap s ! a) ! k)"
  shows "k < length (ms_effects (rs_heap t ! a)) \<and> cs_done (ms_effects (rs_heap t ! a) ! k)"
  using effects_stay [OF assms(1-3)] assms(4,5) by (auto simp: markDone_nth)

lemma committed_back:
  assumes i: "regInv s" and r: "retired s a" and st: "regStep act s = Some t" and c: "committed t a"
  shows "committed s a"
proof (cases act)
  case (RPrepare co j outs)
  then show ?thesis using st c r by (auto simp: PrepareMount_def committed_def retired_def split: option.splits if_splits prod.splits)
next
  case (RCommit p v scopes validate)
  have p: "p < length (rs_prepared s)" using st RCommit by (simp split: if_splits)
  have own: "pm_state (rs_prepared s ! p) \<noteq> a \<or> pm_committed (rs_prepared s ! p) \<or> pm_rolledBack (rs_prepared s ! p)"
    using r nth_mem [OF p] by (auto simp: retired_def)
  consider "rs_prepared t = rs_prepared s" | "rs_prepared t = (rs_prepared s)[p := (rs_prepared s ! p)\<lparr>pm_committed := True\<rparr>]" "pm_state (rs_prepared s ! p) \<noteq> a"
    using st RCommit own by (auto simp: CommitMount_def Let_def split: if_splits sum.splits option.splits)
  then show ?thesis
  proof cases
    case 2
    then show ?thesis using c committed_update [OF regInvD(2) [OF i] p _ 2(1), of a] by simp
  qed (use c in \<open>simp add: committed_def\<close>)
next
  case (RRollback p outs)
  have p: "p < length (rs_prepared s)" using st RRollback by (simp split: if_splits)
  consider "rs_prepared t = rs_prepared s" | "rs_prepared t = (rs_prepared s)[p := (rs_prepared s ! p)\<lparr>pm_rolledBack := True\<rparr>]"
    using st RRollback by (auto simp: Rollback_def Let_def split: if_splits)
  then show ?thesis
  proof cases
    case 2
    then show ?thesis using c committed_update [OF regInvD(2) [OF i] p _ 2, of a] committed_own [OF regInvD(2) [OF i] p] by (simp split: if_splits)
  qed (use c in \<open>simp add: committed_def\<close>)
qed (use st c in \<open>auto split: if_splits option.splits prod.splits sum.splits list.splits notificationTask.splits
     simp: committed_def Let_def deactivateLocked_def beginClose_def CheckClose_def finishClose_def snapshot_def enqueueNotification_def
       flushMark_def startTask_def finishTask_def releaseTask_def releasePlan_def releaseNext_def\<close>)

lemma logOK_old:
  assumes i: "regInv s" and l: "logOK s" and st: "regStep act s = Some t" and e: "(a, k, ok) \<in> set (rs_log s)"
  shows "retired t a \<and> (ok \<and> committed t a \<longrightarrow> k < length (ms_effects (rs_heap t ! a)) \<and> cs_done (ms_effects (rs_heap t ! a) ! k))"
proof -
  have s: "retired s a" "ok \<and> committed s a \<longrightarrow> k < length (ms_effects (rs_heap s ! a)) \<and> cs_done (ms_effects (rs_heap s ! a) ! k)"
    using l e by (auto simp: logOK_def)
  have a: "a < length (rs_heap s)" using s(1) by (simp add: retired_def)
  show ?thesis
    using retired_step [OF i s(1) st] committed_back [OF i s(1) st] s(2) done_stays [OF i st a] by blast
qed

lemma logOK_new:
  assumes i: "regInv s" and l: "logOK s" and st: "regStep act s = Some t"
    and log: "rs_log t = rs_log s @ map (\<lambda>k. (a, k, outs k = None)) ks" and d: "distinct ks"
    and old: "\<And>k. (a, k, True) \<in> set (rs_log s) \<Longrightarrow> k \<notin> set ks"
    and new: "\<And>k. k \<in> set ks \<Longrightarrow> outs k = None \<Longrightarrow> committed t a \<Longrightarrow> k < length (ms_effects (rs_heap t ! a)) \<and> cs_done (ms_effects (rs_heap t ! a) ! k)"
  shows "logOK t"
proof -
  have "sorted_wrt noRepeat (map (\<lambda>k. (a, k, outs k = None)) ks)" using d by (induction ks) auto
  then have "sorted_wrt noRepeat (rs_log t)" using l old by (auto simp: log sorted_wrt_append logOK_def)
  moreover have "retired t a" if "k \<in> set ks" for k
    using cleanup_retires [OF i st, of a k "outs k = None"] that by (auto simp: log)
  ultimately show ?thesis using logOK_old [OF i l st] new unfolding logOK_def log by auto
qed

lemma logOK_step:
  assumes i: "regInv s" and l: "logOK s" and st: "regStep act s = Some t"
  shows "logOK t"
  using i st
proof (cases rule: step_log [consumes 2])
  case 1
  then show ?thesis using l logOK_old [OF i l st] unfolding logOK_def by auto
next
  case (2 p outs)
  let ?a = "pm_state (rs_prepared s ! p)"
  have "\<not> retired s ?a" using 2(2-4) nth_mem [OF 2(2)] by (auto simp: retired_def)
  then have none: "(?a, k, True) \<notin> set (rs_log s)" for k using l by (auto simp: logOK_def)
  have "\<not> committed t ?a"
  proof -
    have "rs_prepared t = (rs_prepared s)[p := (rs_prepared s ! p)\<lparr>pm_rolledBack := True\<rparr>]" using st 2(1-4) by (auto simp: Rollback_def Let_def)
    from committed_update [OF regInvD(2) [OF i] 2(2) _ this, of ?a] show ?thesis using 2(3) by simp
  qed
  then show ?thesis using none by (intro logOK_new [OF i l st 2(5)]) simp_all
next
  case (3 a outs)
  have c: "committed s a" using regInv_cell [OF i 3(2)] 3(3) by simp
  have t: "ms_effects (rs_heap t ! a) = markDone outs (ms_effects (rs_heap s ! a))" using st 3(1-3) by (auto simp: finishClose_def Let_def updMount_nth)
  have "k \<notin> set (pendingEffects (ms_effects (rs_heap s ! a)))" if "(a, k, True) \<in> set (rs_log s)" for k
    using l that c by (auto simp: logOK_def pendingEffects_set)
  then show ?thesis
    by (intro logOK_new [OF i l st 3(4)]) (auto simp: pendingEffects_set t markDone_nth pendingEffects_def)
qed

lemma reachable_logOK: "regReachable s \<Longrightarrow> regInv s \<and> logOK s"
proof (induction rule: regReachable.induct)
  case (new catalog s)
  then show ?case using new_regInv [OF new] by (auto simp: NewRegistry_def bindP_Inr logOK_def)
qed (blast intro: step_keeps logOK_step)

text \<open>A component that registers one handler and one cleanup, is selected into a plan, notified, closed and released.\<close>

definition demoPoint :: pointDefinition where
  "demoPoint = \<lparr>pd_addr = 0, pd_key = \<lparr>pk_contract = \<lparr>cn_ID = ''p'', cn_Version = ''1''\<rparr>, pk_kind = ''notification''\<rparr>\<rparr>"

definition demoComponent :: Component where
  "demoComponent = \<lparr>cmp_InstanceID = ''x'', cmp_Artifact = \<lparr>ar_Name = ''n'', ar_Version = ''1'', ar_Hash = ''h'', ar_ConfigHash = ''c'', ar_SourceKind = ''native''\<rparr>\<rparr>"

definition demoInstaller :: "unit installer" where
  "demoInstaller = IRegister (Some demoPoint) \<lparr>rg_ID = ''h'', rg_Order = 0, rg_Scope = \<lparr>sc_Kind = ''global'', sc_Key = []\<rparr>\<rparr> (Some ())
     (\<lambda>_. IDefer (Some 7) (\<lambda>_. IReturn None))"

definition demoActions :: "(unit, unit) regAction list" where
  "demoActions = [RPrepare demoComponent (Some demoInstaller) (\<lambda>_. None), RCommit 0 () [] None,
     RSnapshot \<lparr>sc_Kind = ''session'', sc_Key = ''s''\<rparr> None [(''x'', 0)], RNotify 0 0, RBeginClose None 0, RRelease 0, RReleaseNext 0, RStartTask 0, RFinishTask 0]"

fun regRun :: "('c, 'v) regAction list \<Rightarrow> ('c, 'v) Registry \<Rightarrow> ('c, 'v) Registry option" where
  "regRun [] s = Some s"
| "regRun (a # as) s = Option.bind (regStep a s) (regRun as)"

definition emptyRegistry :: "(unit, unit) Registry" where
  "emptyRegistry = \<lparr>rs_points = [pd_key demoPoint \<mapsto> demoPoint], rs_mounts = [], rs_heap = [], rs_prepared = [], rs_plans = [], rs_log = []\<rparr>"

lemma regRun_reachable: "regReachable s \<Longrightarrow> regRun as s = Some t \<Longrightarrow> regReachable t"
  by (induction as arbitrary: s) (auto simp: Option.bind_eq_Some_conv intro: regReachable.step)

lemma demo_new: "NewRegistry [Some demoPoint] = Inr emptyRegistry"
proof -
  have "validatePoint (Some demoPoint) = Inr ()" by code_simp
  then show ?thesis by (simp add: NewRegistry_def catalogPoint_def emptyRegistry_def)
qed

lemma demo_run:
  "map_option (\<lambda>s. (map (\<lambda>m. (ms_active m, ms_drained m, map cs_done (ms_effects m))) (rs_heap s), rs_log s, rs_prepared s, map (\<lambda>p. holds p 0) (rs_plans s)))
     (regRun demoActions emptyRegistry) =
   Some ([(False, True, [False])], [], [\<lparr>pm_state = 0, pm_committed = True, pm_rolledBack = False\<rparr>], [0])"
  by code_simp

lemma demo_state:
  obtains s :: "(unit, unit) Registry" and m where "regReachable s" "rs_heap s = [m]" "rs_log s = []" "\<not> ms_active m" "ms_drained m" "map cs_done (ms_effects m) = [False]"
    "committed s 0" "map (\<lambda>p. holds p 0) (rs_plans s) = [0]"
proof -
  obtain s where s: "regRun demoActions emptyRegistry = Some s" using demo_run by (cases "regRun demoActions emptyRegistry") simp_all
  have e: "map (\<lambda>m. (ms_active m, ms_drained m, map cs_done (ms_effects m))) (rs_heap s) = [(False, True, [False])]" "rs_log s = []"
    "rs_prepared s = [\<lparr>pm_state = 0, pm_committed = True, pm_rolledBack = False\<rparr>]" "map (\<lambda>p. holds p 0) (rs_plans s) = [0]"
    using demo_run unfolding s by simp_all
  obtain m where m: "rs_heap s = [m]" using e(1) by auto
  have "regReachable s" by (rule regRun_reachable [OF regReachable.new [OF demo_new] s])
  then show thesis using that [of s m] e m by (simp add: committed_def)
qed

lemma demo_close:
  obtains s t :: "(unit, unit) Registry" where "regReachable s" "regStep (RFinishClose 0 (\<lambda>_. None)) s = Some t" "rs_log s = []" "rs_log t = [(0, 0, True)]"
proof -
  obtain s :: "(unit, unit) Registry" and m where s: "regReachable s" "rs_heap s = [m]" "rs_log s = []" "ms_drained m" "map cs_done (ms_effects m) = [False]" by (rule demo_state)
  then have "pendingEffects (ms_effects m) = [0]" by (auto simp: pendingEffects_def map_eq_Cons_conv)
  then show thesis using that [OF s(1), of "snd (finishClose 0 (\<lambda>_. None) s)"] s by (simp add: finishClose_def Let_def)
qed

section \<open>Promises\<close>

text \<open>
  C30. Teardown is quiescent: when a cleanup of a component runs, on \<open>Close\<close> or on \<open>Rollback\<close>, the component has left the registry, no
  plan that is not released holds it or could call it, and none of its notifications is waiting or
  running; and none of this ever happens again.
\<close>

theorem cleanup_is_quiescent:
  assumes "regReachable s" "regStep act s = Some t" "(a, k, ok) \<in> set (drop (length (rs_log s)) (rs_log t))" "regLater t u"
  shows "unusedBy s a \<and> unusedBy u a"
proof -
  have i: "regInv s" "regInv t" using reachable_regInv [OF assms(1)] step_keeps assms(2) by blast+
  from cleanup_retires [OF i(1) assms(2,3)] have "unusedBy s a" "retired t a" by (simp_all add: idle_unused [OF i(1)])
  moreover from regLater_keeps [OF assms(4) i(2) this(2)] have "unusedBy u a" by (auto simp: retired_def intro: idle_unused)
  ultimately show ?thesis by blast
qed

theorem cleanup_is_quiescent_witness:
  "\<exists>(s :: (unit, unit) Registry) t. regReachable s \<and> regStep (RFinishClose 0 (\<lambda>_. None)) s = Some t \<and> rs_log t = [(0, 0, True)] \<and> unusedBy s 0 \<and> unusedBy t 0"
proof -
  obtain s t :: "(unit, unit) Registry" where d: "regReachable s" "regStep (RFinishClose 0 (\<lambda>_. None)) s = Some t" "rs_log s = []" "rs_log t = [(0, 0, True)]" by (rule demo_close)
  have "unusedBy s 0 \<and> unusedBy t 0" by (rule cleanup_is_quiescent [OF d(1,2) _ regLater.now]) (simp add: d(3,4))
  with d show ?thesis by blast
qed

text \<open>
  C31. A cleanup is never repeated after it succeeded, failed ones are retried by the next \<open>Close\<close>, and each \<open>Close\<close> calls exactly the
  pending ones, in the reverse order of their registration.
\<close>

theorem cleanups_succeed_once:
  assumes "regReachable s" "regStep (RFinishClose a outs) s = Some t"
  shows "sorted_wrt noRepeat (rs_log t) \<and>
    (\<exists>ks. rs_log t = rs_log s @ map (\<lambda>k. (a, k, outs k = None)) ks \<and> sorted_wrt (>) ks \<and>
       set ks = {k. k < length (ms_effects (rs_heap s ! a)) \<and> \<not> cs_done (ms_effects (rs_heap s ! a) ! k)})"
proof
  show "sorted_wrt noRepeat (rs_log t)" using reachable_logOK [OF regReachable.step [OF assms]] by (simp add: logOK_def)
  show "\<exists>ks. rs_log t = rs_log s @ map (\<lambda>k. (a, k, outs k = None)) ks \<and> sorted_wrt (>) ks \<and>
       set ks = {k. k < length (ms_effects (rs_heap s ! a)) \<and> \<not> cs_done (ms_effects (rs_heap s ! a) ! k)}"
    using assms(2) by (intro exI [of _ "pendingEffects (ms_effects (rs_heap s ! a))"])
      (auto simp: finishClose_def Let_def pendingEffects_set pendingEffects_desc split: if_splits)
qed

theorem cleanups_succeed_once_witness:
  "\<exists>s t :: (unit, unit) Registry. regStep (RFinishClose 0 (\<lambda>_. None)) s = Some t \<and> rs_log t = [(0, 0, True)] \<and> sorted_wrt noRepeat (rs_log t)"
proof -
  obtain s t :: "(unit, unit) Registry" where d: "regReachable s" "regStep (RFinishClose 0 (\<lambda>_. None)) s = Some t" "rs_log t = [(0, 0, True)]" by (rule demo_close)
  show ?thesis using d(2,3) cleanups_succeed_once [OF d(1,2)] by blast
qed

text \<open>
  C32. A close never waits for ever: once a committed component is deactivated and no plan holds it any more, its cleanup can run, and
  when its cleanups succeed all of them are done.
\<close>

theorem unused_component_closes:
  assumes "regReachable s" "committed s a" "\<not> ms_active (rs_heap s ! a)" "\<forall>p \<in> set (rs_plans s). holds p a = 0"
  shows "\<exists>t. regStep (RFinishClose a (\<lambda>_. None)) s = Some t \<and> (\<forall>e \<in> set (ms_effects (rs_heap t ! a)). cs_done e)"
proof -
  have i: "regInv s" by (rule reachable_regInv [OF assms(1)])
  have a: "a < length (rs_heap s)" using assms(2) regInvD(4) [OF i] by (auto simp: committed_def)
  have "leases s a = 0" using assms(4) by (simp add: leases_def)
  then have "ms_drained (rs_heap s ! a)" using regInv_cell [OF i a] assms(2,3) by simp
  then show ?thesis using a by (auto simp: finishClose_def Let_def updMount_nth in_set_conv_nth markDone_nth)
qed

theorem unused_component_closes_witness:
  "\<exists>s t :: (unit, unit) Registry. regReachable s \<and> committed s 0 \<and> regStep (RFinishClose 0 (\<lambda>_. None)) s = Some t"
proof -
  obtain s :: "(unit, unit) Registry" and m where s: "regReachable s" "rs_heap s = [m]" "\<not> ms_active m" "committed s 0" "map (\<lambda>p. holds p 0) (rs_plans s) = [0]" by (rule demo_state)
  have "\<forall>p \<in> set (rs_plans s). holds p 0 = 0" using s(5) by auto
  with unused_component_closes [OF s(1,4)] s(2,3) obtain t where "regStep (RFinishClose 0 (\<lambda>_. None)) s = Some t" by auto
  with s(1,4) show ?thesis by blast
qed

end
