(* ===== verification/DispatchProps.thy ===== *)
theory DispatchProps
  imports PlanProps RegistryProps ExtensionDispatch
begin

text \<open>
  What dispatching promises: handlers run in one fixed order, the first gate that refuses decides, a failed
  transform changes nothing, and an around chain runs its terminal at most once and reports success only when it ran.
\<close>

section \<open>The registrations of a mount\<close>

definition scopeOf :: "'c registrationEntry \<Rightarrow> Scope" where
  "scopeOf e = rg_Scope (rn_spec e)"

definition entriesOK :: "'c registrationEntry list \<Rightarrow> bool" where
  "entriesOK es \<longleftrightarrow> sorted_wrt (\<lambda>x y. \<not> sameRegistration x y) es \<and> (\<forall>e \<in> set es. ValidateScope (scopeOf e) = Inr ())"

lemma register_entriesOK: "registerCallback point spec callback s = Inr t \<Longrightarrow> entriesOK (sg_entries s) \<Longrightarrow> entriesOK (sg_entries t)"
  by (auto simp: registerCallback_def register_def bindP_Inr entriesOK_def scopeOf_def sorted_wrt_append list_ex_iff split: option.splits if_splits)

lemma runInstaller_entriesOK: "entriesOK (sg_entries s) \<Longrightarrow> entriesOK (sg_entries (snd (runInstaller code s)))"
proof (induction code arbitrary: s)
  case (IRegister point spec callback k)
  have "entriesOK (sg_entries (stateAfter s (registerCallback point spec callback s)))"
    using register_entriesOK IRegister.prems by (auto simp: stateAfter_def split: sum.split)
  then show ?case using IRegister.IH by simp
next
  case (IDefer cleanup k)
  have "entriesOK (sg_entries (stateAfter s (Defer cleanup s)))"
    using IDefer.prems by (auto simp: stateAfter_def Defer_def split: sum.split option.split)
  then show ?case using IDefer.IH by simp
qed simp_all

lemma release_entries [simp]: "ms_entries (rs_heap (releaseMount b s) ! a) = ms_entries (rs_heap s ! a)"
  by (cases "b < length (rs_heap s)") (simp_all add: releaseMount_def updMount_nth updMount_beyond Let_def)

lemma retain_entries [simp]: "ms_entries (rs_heap (retainMount b s) ! a) = ms_entries (rs_heap s ! a)"
  by (cases "b < length (rs_heap s)") (simp_all add: retainMount_def updMount_nth updMount_beyond)

lemma fold_retain_entries [simp]: "ms_entries (rs_heap (fold retainMount bs s) ! a) = ms_entries (rs_heap s ! a)"
  by (induction bs arbitrary: s) simp_all

lemma entries_step:
  assumes i: "regInv s" and e: "\<forall>a < length (rs_heap s). entriesOK (ms_entries (rs_heap s ! a))" and st: "regStep act s = Some t"
  shows "\<forall>a < length (rs_heap t). entriesOK (ms_entries (rs_heap t ! a))"
proof (cases act)
  case (RPrepare c code outs)
  define s0 :: "'a stagingRegistrar" where "s0 = \<lparr>sg_component = c, sg_entries = [], sg_effects = [], sg_closed = False\<rparr>"
  have "entriesOK (sg_entries s0)" by (simp add: s0_def entriesOK_def)
  then have "entriesOK (sg_entries stage)" if "runInstaller code' s0 = (r, stage)" for code' r stage
    using runInstaller_entriesOK [of s0 code'] that by simp
  then show ?thesis using st e RPrepare
    by (auto simp: PrepareMount_def s0_def [symmetric] nth_append less_Suc_eq split: option.splits if_splits prod.splits)
next
  case (RCommit p v scopes validate)
  then show ?thesis using st e regInvD(4) [OF i nth_mem, of p]
    by (auto simp: CommitMount_def Let_def updMount_nth split: if_splits sum.splits option.splits)
qed (use st e in \<open>auto split: if_splits option.splits prod.splits sum.splits list.splits notificationTask.splits
     simp: Rollback_def Let_def deactivateLocked_def beginClose_def CheckClose_def finishClose_def updMount_nth snapshot_def enqueueNotification_def
       flushMark_def startTask_def finishTask_def releaseTask_def releasePlan_def releaseNext_def\<close>)

lemma reachable_entries: "regReachable s \<Longrightarrow> regInv s \<and> (\<forall>a < length (rs_heap s). entriesOK (ms_entries (rs_heap s ! a)))"
proof (induction rule: regReachable.induct)
  case (new catalog s)
  then show ?case using new_regInv [OF new] by (auto simp: NewRegistry_def bindP_Inr)
next
  case (step s a t)
  then show ?case using step_keeps [OF _ step.hyps(2)] entries_step [OF _ _ step.hyps(2)] by simp
qed

section \<open>The order of handlers\<close>

definition entryKey :: "'c plannedEntry \<Rightarrow> int \<times> int \<times> string \<times> string" where
  "entryKey e = (rg_Order (rn_spec (pe_entry e)), scopeRank (scopeOf (pe_entry e)), cmp_InstanceID (pe_component e), rg_ID (rn_spec (pe_entry e)))"

lemma entryLess_key: "entryLess = (\<lambda>l r. entryKey l < entryKey r)"
  by (intro ext) (auto simp: entryLess_def entryKey_def scopeOf_def Let_def)

lemma insertionSort_sort_key: "insertionSort (\<lambda>l r. k l < k r) xs = sort_key k xs" for k :: "'a \<Rightarrow> 'b::linorder"
  by (induction xs) (simp_all add: insertionSort_def insertBy_key)

lemma insertionSort_key: "insertionSort entryLess xs = sort_key entryKey xs"
  unfolding entryLess_key by (rule insertionSort_sort_key)

lemma scope_from_rank:
  assumes "ValidateScope a = Inr ()" "ValidateScope b = Inr ()" "ScopeApplies a target" "ScopeApplies b target" "scopeRank a = scopeRank b"
  shows "a = b"
  using assms by (cases a; cases b) (auto simp: ValidateScope_def ScopeApplies_def scopeRank_def split: if_splits)

lemma sorted_wrt_same: "sorted_wrt (\<lambda>x y. \<not> R x y) xs \<Longrightarrow> x \<in> set xs \<Longrightarrow> y \<in> set xs \<Longrightarrow> R x y \<Longrightarrow> R y x \<Longrightarrow> x = y"
  by (induction xs) auto

lemma planned_set:
  "e \<in> set (plannedEntries target addrs s) \<longleftrightarrow> pe_mount e \<in> set addrs \<and> pe_component e = ms_component (rs_heap s ! pe_mount e) \<and>
     pe_entry e \<in> set (ms_entries (rs_heap s ! pe_mount e)) \<and> ScopeApplies (scopeOf (pe_entry e)) target"
  by (cases e) (auto simp: plannedEntries_def applicable_def scopeOf_def)

lemma selected_set:
  assumes i: "regInv s" and order: "mset order = mset (rs_mounts s)"
  shows "a \<in> set (selected allowed order s) \<longleftrightarrow> (\<exists>k. (k, a) \<in> set (rs_mounts s) \<and> (\<forall>ids. allowed = Some ids \<longrightarrow> k \<in> ids))"
proof -
  have o: "set order = set (rs_mounts s)" using order by (rule mset_eq_setD)
  have "a \<in> set (selected allowed order s) \<longleftrightarrow> (\<exists>k. (k, a) \<in> set (rs_mounts s) \<and> ms_active (rs_heap s ! a) \<and>
      (\<forall>ids. allowed = Some ids \<longrightarrow> cmp_InstanceID (ms_component (rs_heap s ! a)) \<in> ids))"
    by (cases allowed) (auto simp: selected_def o intro: rev_image_eqI)
  also have "\<dots> \<longleftrightarrow> (\<exists>k. (k, a) \<in> set (rs_mounts s) \<and> (\<forall>ids. allowed = Some ids \<longrightarrow> k \<in> ids))"
    by (rule arg_cong [where f = Ex]) (use regInvD(3) [OF i] in blast)
  finally show ?thesis .
qed

lemma planned_inj:
  assumes i: "regInv s" and en: "\<forall>a < length (rs_heap s). entriesOK (ms_entries (rs_heap s ! a))" and order: "mset order = mset (rs_mounts s)"
  shows "inj_on entryKey (set (filter (\<lambda>e. rn_point (pe_entry e) = p) (plannedEntries target (selected allowed order s) s)))"
proof (rule inj_onI)
  fix x y
  assume "x \<in> set (filter (\<lambda>e. rn_point (pe_entry e) = p) (plannedEntries target (selected allowed order s) s))"
    "y \<in> set (filter (\<lambda>e. rn_point (pe_entry e) = p) (plannedEntries target (selected allowed order s) s))" and k: "entryKey x = entryKey y"
  then have p: "rn_point (pe_entry x) = rn_point (pe_entry y)" and xy: "x \<in> set (plannedEntries target (selected allowed order s) s)" "y \<in> set (plannedEntries target (selected allowed order s) s)" by simp_all
  note pl = xy [unfolded planned_set selected_set [OF i order]]
  obtain kx ky where m: "(kx, pe_mount x) \<in> set (rs_mounts s)" "(ky, pe_mount y) \<in> set (rs_mounts s)" using pl by blast
  have "kx = ky" using regInvD(3) [OF i m(1)] regInvD(3) [OF i m(2)] pl k by (simp add: entryKey_def)
  then have mount: "pe_mount x = pe_mount y" using eq_key_imp_eq_value [OF regInvD(1) [OF i] m(1)] m(2) by simp
  have "entriesOK (ms_entries (rs_heap s ! pe_mount y))" using en regInvD(3) [OF i m(2)] by simp
  then have v: "sorted_wrt (\<lambda>x y. \<not> sameRegistration x y) (ms_entries (rs_heap s ! pe_mount y))"
    "ValidateScope (scopeOf (pe_entry x)) = Inr ()" "ValidateScope (scopeOf (pe_entry y)) = Inr ()" using pl mount by (auto simp: entriesOK_def)
  have "scopeOf (pe_entry x) = scopeOf (pe_entry y)" by (rule scope_from_rank [OF v(2,3)]) (use pl k in \<open>auto simp: entryKey_def\<close>)
  then have "sameRegistration (pe_entry x) (pe_entry y)" "sameRegistration (pe_entry y) (pe_entry x)" using p k by (simp_all add: sameRegistration_def scopeOf_def entryKey_def)
  then have "pe_entry x = pe_entry y" using sorted_wrt_same [OF v(1)] pl mount by auto
  then show "x = y" using pl mount by (cases x; cases y) simp
qed

lemma sum_list_mset: "mset xs = mset ys \<Longrightarrow> sum_list (map f xs) = sum_list (map f ys)" for f :: "'a \<Rightarrow> 'b::comm_monoid_add"
  by (metis mset_map sum_mset_sum_list)

text \<open>
  C33. The handlers of a point run in one fixed order. Whatever order the map of mounts was ranged over, and whatever
  the sort does with entries it cannot tell apart, the handlers dispatched for a point are the same list: the
  registrations of active, allowed components that apply to the target.
\<close>

theorem handlers_run_in_fixed_order:
  assumes "regReachable s" "mset order = mset (rs_mounts s)" "mset order' = mset (rs_mounts s)"
    and es: "mset es = mset (plannedEntries target (selected allowed order' s) s)" "sorted_wrt (\<lambda>l r. \<not> entryLess r l) es"
  shows "matchingEntries (Some ((makePlan target (selected allowed order' s) s)\<lparr>pl_entries := es\<rparr>)) (Some p) =
      matchingEntries (Some (makePlan target (selected allowed order s) s)) (Some p) \<and>
    set (matchingEntries (Some (makePlan target (selected allowed order s) s)) (Some p)) =
      {e. \<exists>k. (k, pe_mount e) \<in> set (rs_mounts s) \<and> (\<forall>ids. allowed = Some ids \<longrightarrow> k \<in> ids) \<and> pe_component e = ms_component (rs_heap s ! pe_mount e) \<and>
        pe_entry e \<in> set (ms_entries (rs_heap s ! pe_mount e)) \<and> ScopeApplies (rg_Scope (rn_spec (pe_entry e))) target \<and> rn_point (pe_entry e) = p}"
proof
  have i: "regInv s" and en: "\<forall>a < length (rs_heap s). entriesOK (ms_entries (rs_heap s ! a))" using reachable_entries [OF assms(1)] by simp_all
  let ?P = "\<lambda>e. rn_point (pe_entry e) = p" let ?xs = "plannedEntries target (selected allowed order s) s"
  have m: "matchingEntries (Some (makePlan target (selected allowed order s) s)) (Some p) = sort_key entryKey (filter ?P ?xs)"
    by (simp add: matchingEntries_def makePlan_def Let_def insertionSort_key filter_sort)
  have "mset (selected allowed order s) = mset (selected allowed order' s)"
    using assms(2,3) by (simp add: selected_def)
  then have "mset ?xs = mset (plannedEntries target (selected allowed order' s) s)"
    unfolding plannedEntries_def mset_concat map_map by (rule sum_list_mset)
  then have same: "mset (filter ?P es) = mset (filter ?P ?xs)" using es(1) by simp
  have "sorted_wrt (\<lambda>l r. entryKey l \<le> entryKey r) es" using es(2) by (simp add: entryLess_key not_less)
  then have "sorted (map entryKey (filter ?P es))" by (simp add: sorted_wrt_map sorted_wrt_filter)
  then have "filter ?P es = sort_key entryKey (filter ?P es)" by (simp add: sort_key_id_if_sorted)
  also have "\<dots> = sort_key entryKey (filter ?P ?xs)"
    using planned_inj [OF i en assms(2)] mset_eq_setD [OF same] by (intro sort_key_mset [OF same]) metis
  finally show "matchingEntries (Some ((makePlan target (selected allowed order' s) s)\<lparr>pl_entries := es\<rparr>)) (Some p) =
      matchingEntries (Some (makePlan target (selected allowed order s) s)) (Some p)"
    unfolding m by (simp add: matchingEntries_def)
  show "set (matchingEntries (Some (makePlan target (selected allowed order s) s)) (Some p)) =
      {e. \<exists>k. (k, pe_mount e) \<in> set (rs_mounts s) \<and> (\<forall>ids. allowed = Some ids \<longrightarrow> k \<in> ids) \<and> pe_component e = ms_component (rs_heap s ! pe_mount e) \<and>
        pe_entry e \<in> set (ms_entries (rs_heap s ! pe_mount e)) \<and> ScopeApplies (rg_Scope (rn_spec (pe_entry e))) target \<and> rn_point (pe_entry e) = p}"
    unfolding m by (auto simp: planned_set selected_set [OF i assms(2)] scopeOf_def)
qed

lemma demo_mounted:
  obtains s :: "(unit, unit) Registry" and e where "regReachable s" "rs_mounts s = [(''x'', 0)]"
    "plannedEntries \<lparr>sc_Kind = ''session'', sc_Key = ''s''\<rparr> (selected None [(''x'', 0)] s) s = [e]" "rn_point (pe_entry e) = demoPoint"
proof -
  have run: "map_option (\<lambda>s. (rs_mounts s, map (\<lambda>e. rn_point (pe_entry e)) (plannedEntries \<lparr>sc_Kind = ''session'', sc_Key = ''s''\<rparr> (selected None [(''x'', 0)] s) s)))
      (regRun (take 2 demoActions) emptyRegistry) = Some ([(''x'', 0)], [demoPoint])" by code_simp
  then obtain s where s: "regRun (take 2 demoActions) emptyRegistry = Some s" by (cases "regRun (take 2 demoActions) emptyRegistry") simp_all
  have "regReachable s" by (rule regRun_reachable [OF regReachable.new [OF demo_new] s])
  then show thesis using that [of s] run unfolding s by auto
qed

theorem handlers_run_in_fixed_order_witness:
  "\<exists>(s :: (unit, unit) Registry) e. rs_mounts s = [(''x'', 0)] \<and>
     matchingEntries (Some (makePlan \<lparr>sc_Kind = ''session'', sc_Key = ''s''\<rparr> (selected None [(''x'', 0)] s) s)) (Some demoPoint) = [e]"
proof -
  obtain s :: "(unit, unit) Registry" and e where s: "regReachable s" "rs_mounts s = [(''x'', 0)]"
    "plannedEntries \<lparr>sc_Kind = ''session'', sc_Key = ''s''\<rparr> (selected None [(''x'', 0)] s) s = [e]" "rn_point (pe_entry e) = demoPoint" by (rule demo_mounted)
  have same: "matchingEntries (Some ((makePlan \<lparr>sc_Kind = ''session'', sc_Key = ''s''\<rparr> (selected None [(''x'', 0)] s) s)\<lparr>pl_entries := [e]\<rparr>)) (Some demoPoint) =
      matchingEntries (Some (makePlan \<lparr>sc_Kind = ''session'', sc_Key = ''s''\<rparr> (selected None [(''x'', 0)] s) s)) (Some demoPoint)"
    by (rule conjunct1 [OF handlers_run_in_fixed_order [OF s(1)]]) (simp_all add: s(2,3))
  have one: "matchingEntries (Some ((makePlan \<lparr>sc_Kind = ''session'', sc_Key = ''s''\<rparr> (selected None [(''x'', 0)] s) s)\<lparr>pl_entries := [e]\<rparr>)) (Some demoPoint) = [e]"
    using s(4) by (simp add: matchingEntries_def)
  show ?thesis by (intro exI conjI, rule s(2)) (rule trans [OF same [symmetric] one])
qed

section \<open>Loops over handlers\<close>

text \<open>
  The contract of the loops over the handlers of a point: a step calls the next handler or stops. The state \<open>'s\<close> is what the loop carries.
\<close>

locale handler_loop =
  fixes loop :: "'s \<Rightarrow> 'c plannedEntry list \<Rightarrow> 'r \<times> event list"
  assumes none: "snd (loop s []) = []"
    and next_handler: "snd (loop s (e # es)) \<in> {[], [calledOf e]} \<or> (\<exists>t. snd (loop s (e # es)) = calledOf e # snd (loop t es))"
begin

text \<open>Handlers are called in the order of the entries, each at most once, and none after the one at which the loop stops.\<close>

lemma calls_prefix: "\<exists>n \<le> length es. snd (loop s es) = map calledOf (take n es)"
proof (induction es arbitrary: s)
  case (Cons e es)
  from next_handler [of s e es] consider "snd (loop s (e # es)) = []" | "snd (loop s (e # es)) = [calledOf e]" | t where "snd (loop s (e # es)) = calledOf e # snd (loop t es)"
    by blast
  then show ?case
  proof cases
    case 1
    then show ?thesis by (intro exI [of _ 0]) simp
  next
    case 2
    then show ?thesis by (intro exI [of _ 1]) simp
  next
    case (3 t)
    from Cons [of t] obtain n where "n \<le> length es" "snd (loop t es) = map calledOf (take n es)" by blast
    then show ?thesis using 3 by (intro exI [of _ "Suc n"]) simp
  qed
qed (simp add: none)

end

interpretation hooks: handler_loop "\<lambda>_ :: unit. hookLoop asFn point x" for asFn point x
  by unfold_locales (auto split: sum.split prod.split)

interpretation transforms: handler_loop "transformLoop asFn point original" for asFn point original
  by unfold_locales (auto split: sum.split prod.split option.split, metis snd_conv)

interpretation gates: handler_loop "gateLoop asFn zero point continues x" for asFn zero point continues x
  by unfold_locales (auto simp: Let_def split: sum.split prod.split option.split, metis snd_conv)

section \<open>Gates\<close>

text \<open>A gate that was asked and decided, and whose decision was accepted.\<close>

definition decides :: "('c \<Rightarrow> 'i \<Rightarrow> 'i \<times> 'd \<times> unit outcome) \<Rightarrow> ('i, 'd) Gate \<Rightarrow> 'i \<Rightarrow> 'c plannedEntry \<Rightarrow> 'd \<Rightarrow> bool" where
  "decides asFn point x e d \<longleftrightarrow> (\<exists>input after. cloneInput (gt_clone point) x = Inr input \<and> asFn (rn_callback (pe_entry e)) input = (after, d, Returns ()) \<and>
     checkNext (gt_validateInput point) x after = None \<and> checkValue (gt_validateDecision point) d = None)"

lemma recovered_Inr: "recovered what r = Inr x \<longleftrightarrow> r = Returns x"
  by (auto simp: recovered_def split: outcome.split)

lemma gateLoop_decision:
  "gateLoop asFn zero point continues x decision es = ((d, None), tr) \<Longrightarrow>
   \<exists>ds. length ds \<le> length es \<and> list_all2 (decides asFn point x) (take (length ds) es) ds \<and> (\<forall>c \<in> set (butlast ds). continues c) \<and>
     d = last (decision # ds) \<and> (length ds < length es \<longrightarrow> ds \<noteq> [] \<and> \<not> continues d)"
proof (induction es arbitrary: decision tr)
  case (Cons e es)
  obtain input where input: "cloneInput (gt_clone point) x = Inr input" using Cons.prems by (cases "cloneInput (gt_clone point) x") auto
  obtain after out r where call: "asFn (rn_callback (pe_entry e)) input = (after, out, r)" by (cases "asFn (rn_callback (pe_entry e)) input")
  have r: "r = Returns ()" using Cons.prems input call recovered_Inr [of "''gate''" r "()"] by (cases "recovered ''gate'' r") (auto simp: Let_def)
  have rec: "recovered ''gate'' r = Inr ()" using r by (simp add: recovered_Inr)
  have val: "checkNext (gt_validateInput point) x after = None" "checkValue (gt_validateDecision point) out = None"
    using Cons.prems input call r rec by (auto split: if_splits option.splits)
  have dec: "decides asFn point x e out" using input call r val by (auto simp: decides_def)
  show ?case
  proof (cases "continues out")
    case False
    then have "d = out" using Cons.prems input call r rec val by simp
    then show ?thesis using dec False by (intro exI [of _ "[out]"]) simp
  next
    case True
    obtain tr' where "gateLoop asFn zero point continues x out es = ((d, None), tr')"
      using Cons.prems input call r rec val True by (auto split: prod.splits)
    from Cons.IH [OF this] obtain ds where "length ds \<le> length es \<and> list_all2 (decides asFn point x) (take (length ds) es) ds \<and> (\<forall>c \<in> set (butlast ds). continues c) \<and>
     d = last (out # ds) \<and> (length ds < length es \<longrightarrow> ds \<noteq> [] \<and> \<not> continues d)" by blast
    then show ?thesis using dec True by (intro exI [of _ "out # ds"]) auto
  qed
qed simp

text \<open>
  The first gate that refuses decides. When a gate point is evaluated without an error, the gates were asked in order, every decision
  but the last lets the evaluation continue, the result is the last decision (the point's default when there is no
  gate), and a gate was left out only because that decision does not continue.
\<close>

theorem first_refusal_decides:
  assumes "EvaluateGate asFn zero plan point x = ((d, None), tr)" "gt_shouldContinue point = Some continues"
  shows "\<exists>ds. let es = matchingEntries plan (gt_point point) in
    length ds \<le> length es \<and> list_all2 (decides asFn point x) (take (length ds) es) ds \<and> (\<forall>c \<in> set (butlast ds). continues c) \<and>
     d = last (gt_continueDecision point # ds) \<and> (length ds < length es \<longrightarrow> ds \<noteq> [] \<and> \<not> continues d)"
proof -
  have "gateLoop asFn zero point continues x (gt_continueDecision point) (matchingEntries plan (gt_point point)) = ((d, None), tr)"
    using assms by (auto simp: EvaluateGate_def Let_def split: if_splits option.splits)
  from gateLoop_decision [OF this] show ?thesis unfolding Let_def .
qed

text \<open>Two gates of one point: the first lets the evaluation continue, the second refuses.\<close>

definition demoEntry :: "string \<Rightarrow> 'c \<Rightarrow> 'c plannedEntry" where
  "demoEntry i c = \<lparr>pe_entry = \<lparr>rn_point = demoPoint, rn_spec = \<lparr>rg_ID = i, rg_Order = 0, rg_Scope = \<lparr>sc_Kind = ''global'', sc_Key = []\<rparr>\<rparr>, rn_callback = c\<rparr>,
     pe_component = demoComponent, pe_mount = 0\<rparr>"

definition demoPlan :: "'c plannedEntry list \<Rightarrow> ('c, unit) Plan" where
  "demoPlan es = \<lparr>pl_entries = es, pl_handlerComponents = [], pl_values = [], pl_released = False, pl_releases = [0], pl_queue = [], pl_running = None\<rparr>"

definition demoGate :: "(nat, bool) Gate" where
  "demoGate = \<lparr>gt_point = Some demoPoint, gt_clone = None, gt_validateInput = None, gt_validateDecision = None, gt_continueDecision = True, gt_shouldContinue = Some (\<lambda>d. d)\<rparr>"

definition demoAsk :: "bool \<Rightarrow> nat \<Rightarrow> nat \<times> bool \<times> unit outcome" where
  "demoAsk c i = (i, c, Returns ())"

lemma demo_gate:
  "EvaluateGate demoAsk False (Some (demoPlan [demoEntry ''a'' True, demoEntry ''b'' False, demoEntry ''c'' True])) demoGate 5 = ((False, None), [Called ''x'' ''a'', Called ''x'' ''b''])"
  by code_simp

theorem first_refusal_decides_witness:
  "\<exists>ds. list_all2 (decides demoAsk demoGate 5) (take (length ds) [demoEntry ''a'' True, demoEntry ''b'' False, demoEntry ''c'' True]) ds \<and> \<not> last (True # ds)"
proof -
  have m: "matchingEntries (Some (demoPlan [demoEntry ''a'' True, demoEntry ''b'' False, demoEntry ''c'' True])) (gt_point demoGate) =
      [demoEntry ''a'' True, demoEntry ''b'' False, demoEntry ''c'' True]"
    by (simp add: matchingEntries_def demoPlan_def demoGate_def demoEntry_def)
  have g: "gt_shouldContinue demoGate = Some (\<lambda>d. d)" "gt_continueDecision demoGate = True" by (simp_all add: demoGate_def)
  from first_refusal_decides [OF demo_gate g(1), unfolded m Let_def g(2)] obtain ds where
    "list_all2 (decides demoAsk demoGate 5) (take (length ds) [demoEntry ''a'' True, demoEntry ''b'' False, demoEntry ''c'' True]) ds" "False = last (True # ds)"
    by (elim exE conjE)
  then show ?thesis by (intro exI conjI) (assumption, simp only: not_False_eq_True)
qed

section \<open>Transforms\<close>

text \<open>One step of a chain of transforms: the handler maps a copy of \<open>v\<close> to an accepted value, of which \<open>w\<close> is a copy.\<close>

definition transformStep :: "('c \<Rightarrow> 'v \<Rightarrow> 'v outcome) \<Rightarrow> 'v Transform \<Rightarrow> 'v \<Rightarrow> 'c plannedEntry \<Rightarrow> 'v \<Rightarrow> 'v \<Rightarrow> bool" where
  "transformStep asFn point original e v w \<longleftrightarrow> (\<exists>input out. cloneInput (tr_clone point) v = Inr input \<and> asFn (rn_callback (pe_entry e)) input = Returns out \<and>
     checkNext (tr_validate point) original out = None \<and> cloneInput (tr_clone point) out = Inr w)"

fun chain :: "('e \<Rightarrow> 'v \<Rightarrow> 'v \<Rightarrow> bool) \<Rightarrow> 'v \<Rightarrow> 'e list \<Rightarrow> 'v \<Rightarrow> bool" where
  "chain R v [] w \<longleftrightarrow> v = w"
| "chain R v (e # es) w \<longleftrightarrow> (\<exists>u. R e v u \<and> chain R u es w)"

lemma transformLoop_chain:
  "transformLoop asFn point original v es = (Inr w, tr) \<Longrightarrow> chain (transformStep asFn point original) v es w \<and> tr = map calledOf es"
proof (induction es arbitrary: v tr)
  case (Cons e es)
  from Cons.prems obtain input out u tr' where "cloneInput (tr_clone point) v = Inr input" "recovered ''transform'' (asFn (rn_callback (pe_entry e)) input) = Inr out"
    "checkNext (tr_validate point) original out = None" "cloneInput (tr_clone point) out = Inr u" "transformLoop asFn point original u es = (Inr w, tr')" "tr = calledOf e # tr'"
    by (auto split: sum.splits option.splits prod.splits)
  with Cons.IH [of u tr'] show ?case by (auto simp: recovered_Inr transformStep_def)
qed simp

text \<open>
  C34. Transforms are all or nothing: when every transform of a point succeeds the result is what they make of the value one after the
  other, each on a copy and each result checked against the original; otherwise the value comes back as it was, with an error.
\<close>

theorem transforms_all_or_nothing:
  assumes "ApplyTransforms asFn plan point x = ((y, err), tr)"
  shows "(err \<noteq> None \<longrightarrow> y = x) \<and>
    (err = None \<longrightarrow> (\<exists>original v. cloneInput (tr_clone point) x = Inr original \<and> cloneInput (tr_clone point) x = Inr v \<and>
       chain (transformStep asFn point original) v (matchingEntries plan (tr_point point)) y \<and> tr = map calledOf (matchingEntries plan (tr_point point))))"
  using assms transformLoop_chain [of asFn point _ _ "matchingEntries plan (tr_point point)"]
  unfolding ApplyTransforms_def Let_def by (fastforce simp: bindP_def split: if_splits sum.splits option.splits prod.splits)

definition demoTransform :: "nat Transform" where
  "demoTransform = \<lparr>tr_point = Some demoPoint, tr_clone = None, tr_validate = Some (\<lambda>x y. if y < 100 then None else Some (newErr ''too large''))\<rparr>"

lemma demo_transform:
  "ApplyTransforms (\<lambda>k x. Returns (x * k)) (Some (demoPlan [demoEntry ''a'' 10, demoEntry ''b'' (20 :: nat)])) demoTransform 5 = ((5, Some (DHost (newErr ''too large''))), [Called ''x'' ''a'', Called ''x'' ''b''])"
  by code_simp

theorem transforms_all_or_nothing_witness:
  "\<exists>y err tr. ApplyTransforms (\<lambda>k x. Returns (x * k)) (Some (demoPlan [demoEntry ''a'' 10, demoEntry ''b'' (20 :: nat)])) demoTransform 5 = ((y, err), tr) \<and> y = 5"
  using transforms_all_or_nothing [OF demo_transform] demo_transform by blast

section \<open>Around chains\<close>

lemma runAround_calls:
  "runAround code report nextTrace (calls, active, tr) = (e, calls', active', tr') \<Longrightarrow>
   calls \<le> calls' \<and> (calls > 0 \<longrightarrow> tr' = tr) \<and> (calls = 0 \<longrightarrow> tr' = tr @ (if calls' = 0 then [] else nextTrace))"
proof (induction code arbitrary: calls active tr)
  case (AProceed k)
  then show ?case by (fastforce split: if_splits)
next
  case (ASpawn late code)
  then show ?case by (fastforce split: if_splits)
qed auto

text \<open>The terminal gave this output, it was accepted, and nothing went wrong.\<close>

definition succeeded :: "('i, 'o) RequiredAround \<Rightarrow> 'o terminal \<Rightarrow> 'o \<Rightarrow> bool" where
  "succeeded point terminal r \<longleftrightarrow> terminal = Gives r None \<and> checkValue (ar_validateOutput point) r = None"

lemma invokeChain_trace:
  "invokeChain asFn zero point x terminal es = (res, tr) \<Longrightarrow>
   count_list tr TerminalRan \<le> 1 \<and> (\<forall>m. res = ChainPanics m \<longrightarrow> es = [] \<and> terminal = TPanics m \<and> tr = [TerminalRan]) \<and>
   (\<forall>r. res = Ends r None \<longrightarrow> tr = map calledOf es @ [TerminalRan] \<and> (succeeded point terminal r \<or> (\<exists>m. terminal = TPanics m) \<and> es \<noteq> [] \<and> r = zero))"
proof (induction es arbitrary: res tr)
  case Nil
  then show ?case by (auto simp: succeeded_def split: terminal.splits option.splits)
next
  case (Cons e es)
  show ?case
  proof (cases "cloneInput (ar_clone point) x")
    case (Inr input)
    obtain rest nextTrace where n: "invokeChain asFn zero point x terminal es = (rest, nextTrace)" by (metis prod.collapse)
    obtain cb calls outlived tr1 where
      c: "runAround (asFn (rn_callback (pe_entry e)) input) (proceedReport rest) nextTrace (0, False, [calledOf e]) = (cb, calls, outlived, tr1)" by (metis prod.collapse)
    have t: "tr = tr1" "res = aroundResult zero e rest cb calls outlived" using Cons.prems Inr n c by simp_all
    have tr: "tr1 = calledOf e # (if calls = 0 then [] else nextTrace)" using runAround_calls [OF c] by simp
    have "calls = 1 \<and> (rest = Ends r None \<or> (\<exists>m. rest = ChainPanics m) \<and> r = zero)" if "res = Ends r None" for r
      using t(2) that by (auto simp: aroundResult_def Let_def split: if_splits option.splits chainEnd.splits prod.splits)
    moreover have "res \<noteq> ChainPanics m" for m using t(2) by (auto simp: aroundResult_def Let_def split: if_splits option.splits chainEnd.splits prod.splits)
    ultimately show ?thesis using Cons.IH [OF n] t(1) tr by (auto simp: calledOf_def)
  qed (use Cons.prems in auto)
qed

text \<open>
  C35. An around chain runs its terminal at most once, whatever the callbacks do with \<open>proceed\<close>. It reports success only when every callback of the
  point was called, in order, and the terminal ran; then the output is the one the terminal returned without an error and the
  validation accepted. The one exception is a terminal that panics under a callback that recovers the panic: the output is then the zero value.
\<close>

theorem around_runs_terminal_once:
  assumes "InvokeAround asFn zero plan point x (Some terminal) = (res, tr)"
  shows "count_list tr TerminalRan \<le> 1 \<and>
    (\<forall>r. res = Ends r None \<longrightarrow> tr = map calledOf (matchingEntries plan (ar_point point)) @ [TerminalRan] \<and>
       (terminal = Gives r None \<and> checkValue (ar_validateOutput point) r = None \<or>
        (\<exists>m. terminal = TPanics m) \<and> matchingEntries plan (ar_point point) \<noteq> [] \<and> r = zero))"
  using assms invokeChain_trace [of asFn zero point x terminal "matchingEntries plan (ar_point point)" res tr]
  unfolding InvokeAround_def succeeded_def by (auto split: if_splits)

definition demoAround :: "(nat, nat) RequiredAround" where
  "demoAround = \<lparr>ar_point = Some demoPoint, ar_clone = None, ar_validateOutput = None\<rparr>"

text \<open>A callback that proceeds once, swallowing a panic, and one that tries it twice.\<close>

definition demoCode :: "bool \<Rightarrow> nat \<Rightarrow> acode" where
  "demoCode twice x = AProceed (\<lambda>_. if twice then AProceed (\<lambda>_. AReturn None) else AReturn None)"

lemma demo_around:
  "InvokeAround demoCode 0 (Some (demoPlan [demoEntry ''a'' False, demoEntry ''b'' False])) demoAround 5 (Some (Gives 7 None)) = (Ends 7 None, [Called ''x'' ''a'', Called ''x'' ''b'', TerminalRan])"
  "InvokeAround demoCode 0 (Some (demoPlan [demoEntry ''a'' True, demoEntry ''b'' False])) demoAround 5 (Some (Gives 7 None)) = (Ends 0 (Some ProceedCalledTwice), [Called ''x'' ''a'', Called ''x'' ''b'', TerminalRan])"
  by code_simp+

text \<open>The exception: the terminal panics, the callback recovers and returns, and the chain reports success.\<close>

lemma swallowed_panic_succeeds:
  "InvokeAround demoCode 0 (Some (demoPlan [demoEntry ''a'' False])) demoAround 5 (Some (TPanics ''boom'')) = (Ends 0 None, [Called ''x'' ''a'', TerminalRan])"
  by code_simp

theorem around_runs_terminal_once_witness:
  "\<exists>err tr. InvokeAround demoCode 0 (Some (demoPlan [demoEntry ''a'' True, demoEntry ''b'' False])) demoAround 5 (Some (Gives 7 None)) = (Ends 0 (Some err), tr) \<and> count_list tr TerminalRan \<le> 1"
  using around_runs_terminal_once [OF demo_around(2)] demo_around(2) by blast

end
