(* ===== verification/ToolProps.thy ===== *)
theory ToolProps
  imports ToolPipeline DispatchProps
begin

text \<open>
  What the tool pipeline promises: a tool runs only after every guard abstained and every permission was granted, and what the
  pipeline reports about permissions is its own decision, whatever the tool and the extensions put into the result.
\<close>

section \<open>Permissions\<close>

text \<open>The events \<open>evs\<close> show that a permission was granted: allowed outright, or asked for and approved.\<close>

definition granted :: "'i Tool \<Rightarrow> 'x RToolCall \<Rightarrow> 'x pipeEvent list \<Rightarrow> string \<Rightarrow> bool" where
  "granted tool call evs p \<longleftrightarrow> (\<exists>d. EPolicy (permissionRequest tool call p) (Returns d) \<in> set evs \<and>
     (de_Action d = ActionAllow \<or> de_Action d = ActionAsk \<and> xc_Approval call \<and> EAsk (approvalRequest tool call p) (Returns ()) \<in> set evs))"

fun permissionEvent :: "'x pipeEvent \<Rightarrow> bool" where
  "permissionEvent (EPolicy q a) = True"
| "permissionEvent (EAsk q a) = True"
| "permissionEvent _ = False"

lemma granted_mono: "granted tool call evs p \<Longrightarrow> set evs \<subseteq> set evs' \<Longrightarrow> granted tool call evs' p"
  unfolding granted_def by blast

lemma permissionLoop_trace:
  "permissionLoop policy ask tool call tr ps = (r, tr') \<Longrightarrow>
   \<exists>evs. tr' = tr @ evs \<and> list_all permissionEvent evs \<and> (r = None \<longrightarrow> (\<forall>p \<in> set ps. granted tool call evs p)) \<and>
     (\<forall>x. r = Some (Ret (x, None)) \<longrightarrow> pe_State x \<noteq> toolPermissionAllowed)"
proof (induction ps arbitrary: tr)
  case (Cons p ps)
  let ?q = "permissionRequest tool call p" let ?a = "policy tr ?q" let ?aq = "approvalRequest tool call p"
  let ?tr1 = "tr @ [EPolicy ?q ?a]" let ?b = "ask ?tr1 ?aq"
  have step: ?case if d: "?a = Returns d" and seen: "set (EPolicy ?q ?a # rest) \<supseteq> {EPolicy ?q (Returns d)}" "list_all permissionEvent rest"
      "granted tool call (EPolicy ?q ?a # rest) p" and l: "permissionLoop policy ask tool call (?tr1 @ rest) ps = (r, tr')" for d rest
  proof -
    from Cons.IH [OF l] obtain evs where e: "tr' = (?tr1 @ rest) @ evs" "list_all permissionEvent evs" "r = None \<longrightarrow> (\<forall>p \<in> set ps. granted tool call evs p)"
      "\<forall>x. r = Some (Ret (x, None)) \<longrightarrow> pe_State x \<noteq> toolPermissionAllowed" by blast
    show ?thesis
      by (rule exI [of _ "EPolicy ?q ?a # rest @ evs"]) (use e seen granted_mono [of tool call evs _ "EPolicy ?q ?a # rest @ evs"] granted_mono [OF seen(3), of "EPolicy ?q ?a # rest @ evs"] in auto)
  qed
  show ?case
  proof (cases ?a)
    case (Returns d)
    show ?thesis
    proof (cases "de_Action d")
      case ActionAllow
      then show ?thesis using Cons.prems Returns by (intro step [of d "[]"]) (auto simp: granted_def Let_def)
    next
      case ActionAsk
      show ?thesis
      proof (cases "xc_Approval call \<and> ?b = Returns ()")
        case True
        then show ?thesis using Cons.prems Returns ActionAsk by (intro step [of d "[EAsk ?aq ?b]"]) (auto simp: granted_def Let_def)
      next
        case False
        then show ?thesis using Cons.prems Returns ActionAsk
          by (auto simp: Let_def permissionExecution_def split: outcome.splits if_splits)
      qed
    qed (use Cons.prems Returns in \<open>auto simp: Let_def permissionExecution_def\<close>)
  qed (use Cons.prems in \<open>auto simp: Let_def permissionExecution_def split: if_splits\<close>)
qed auto

section \<open>Guards\<close>

fun abstained :: "'x pipeEvent \<Rightarrow> bool" where
  "abstained (EGuard q (Returns a)) = (gr_Decision a = ToolGuardAbstain)"
| "abstained _ = False"

fun guardEvent :: "'x pipeEvent \<Rightarrow> bool" where
  "guardEvent (EGuard q a) = True"
| "guardEvent _ = False"

lemma guardLoop_trace:
  "guardLoop tool call denial tr gs = (r, tr') \<Longrightarrow>
   \<exists>evs. tr' = tr @ evs \<and> list_all guardEvent evs \<and>
     (\<forall>g. r = Ret (Inr g) \<and> gr_Decision g \<noteq> ToolGuardDeny \<longrightarrow> gr_Decision denial \<noteq> ToolGuardDeny \<and> length evs = length gs \<and> list_all abstained evs)"
proof (induction gs arbitrary: denial tr)
  case (Cons g gs)
  show ?case
  proof (cases g)
    case (Some guard)
    let ?q = "\<lparr>gq_SessionID = xc_SessionID call, gq_RunID = xc_RunID call, gq_Call = extensionToolCall call, gq_ToolName = xt_Name tool\<rparr>"
    have step: ?thesis if a: "guard tr ?q = Returns a" and l: "guardLoop tool call denial' (tr @ [EGuard ?q (guard tr ?q)]) gs = (r, tr')"
      and d: "gr_Decision denial' \<noteq> ToolGuardDeny \<Longrightarrow> gr_Decision a = ToolGuardAbstain \<and> gr_Decision denial \<noteq> ToolGuardDeny" for a denial'
    proof -
      from Cons.IH [OF l] obtain evs where "tr' = (tr @ [EGuard ?q (guard tr ?q)]) @ evs" "list_all guardEvent evs"
        "\<forall>g. r = Ret (Inr g) \<and> gr_Decision g \<noteq> ToolGuardDeny \<longrightarrow> gr_Decision denial' \<noteq> ToolGuardDeny \<and> length evs = length gs \<and> list_all abstained evs" by blast
      then show ?thesis using a d by (intro exI [of _ "EGuard ?q (guard tr ?q) # evs"]) auto
    qed
    show ?thesis
    proof (cases "guard tr ?q")
      case (Returns a)
      show ?thesis
      proof (cases "gr_Decision a")
        case ToolGuardAbstain
        then show ?thesis using Cons.prems Some Returns by (intro step [OF Returns, of denial]) (simp_all add: Let_def)
      next
        case ToolGuardDeny
        define denial' where "denial' = (if gr_Decision denial \<noteq> ToolGuardDeny
          then a\<lparr>gr_Code := (if gr_Code a = [] then ''denied'' else gr_Code a), gr_Message := (if gr_Message a = [] then ''tool call denied by mounted guard'' else gr_Message a)\<rparr>
          else denial)"
        have "gr_Decision denial' = ToolGuardDeny" using ToolGuardDeny by (simp add: denial'_def)
        moreover have "guardLoop tool call denial' (tr @ [EGuard ?q (guard tr ?q)]) gs = (r, tr')"
          using Cons.prems Some Returns ToolGuardDeny unfolding denial'_def by (simp add: Let_def)
        ultimately show ?thesis by (intro step [OF Returns, of denial']) simp_all
      qed (use Cons.prems Some Returns in \<open>auto simp: Let_def\<close>)
    qed (use Cons.prems Some in \<open>auto simp: Let_def\<close>)
  qed (use Cons.prems in auto)
qed auto

section \<open>Outcomes\<close>

definition isMark :: "string \<Rightarrow> bool" where
  "isMark k \<longleftrightarrow> take 11 k = ''permission_''"

text \<open>The permission entries of a result's metadata are those of the state, and no others.\<close>

definition marksOf :: "toolPermissionState \<Rightarrow> (string \<times> string) list" where
  "marksOf state = (if state = toolPermissionAllowed then [] else [(''permission_status'', permissionStatus state)])"

definition wellMarked :: "'x toolOutcome \<Rightarrow> bool" where
  "wellMarked o1 \<longleftrightarrow> filter (\<lambda>(k, v). isMark k) (elems (xr_Metadata (oc_Result o1))) = marksOf (oc_Permission o1) \<and>
     oc_Disposition o1 = dispositionForOutcome (oc_Permission o1) (oc_RawError o1) \<and> \<not> xc_Approval (oc_Call o1) \<and> \<not> xc_SessionTitle (oc_Call o1)"

lemma protect_marks: "filter (\<lambda>(k, v). isMark k) (elems (xr_Metadata (protectPermissionResult r state))) = marksOf state"
proof -
  define kept where "kept = mapDrop (\<lambda>k. take 11 k = ''permission_'') (xr_Metadata r)"
  have m: "xr_Metadata (protectPermissionResult r state) = (if permissionStatus state = [] then kept else mapPut ''permission_status'' (permissionStatus state) kept)"
    by (simp add: protectPermissionResult_def kept_def Let_def)
  have "elems kept = filter (\<lambda>(k, v). \<not> isMark k) (elems (xr_Metadata r))"
    by (cases "xr_Metadata r") (simp_all add: kept_def mapDrop_def isMark_def)
  then have none: "filter (\<lambda>(k, v). isMark k) (elems kept) = []" "filter (\<lambda>(k, v). isMark k) (filter P (elems kept)) = []" for P
    by (auto simp: filter_empty_conv)
  have "isMark ''permission_status''" by (simp add: isMark_def)
  then show ?thesis unfolding m using none
    by (cases state) (simp_all add: permissionStatus_def marksOf_def mapPut_def Let_def del: filter_filter)
qed

lemma finalize_marked [simp]:
  "wellMarked (finalizeToolOutcome o1)" "oc_Permission (finalizeToolOutcome o1) = oc_Permission o1" "oc_RawError (finalizeToolOutcome o1) = oc_RawError o1"
  by (simp_all add: wellMarked_def finalizeToolOutcome_def protect_marks extensionToolCall_def)

lemma newToolOutcome_marked [simp]:
  "wellMarked (newToolOutcome call r p e)" "oc_Permission (newToolOutcome call r p e) = p" "oc_RawError (newToolOutcome call r p e) = e"
  by (simp_all add: newToolOutcome_def)

section \<open>The pipeline\<close>

lemma transforms_trace: "TerminalRan \<notin> set (snd (ApplyTransforms asFn plan point x))"
proof -
  have "TerminalRan \<notin> set tr" if l: "transformLoop asFn point original v es = (r, tr)" for original v es r tr
  proof -
    have "\<exists>n \<le> length es. snd (transformLoop asFn point original v es) = map calledOf (take n es)" by (rule transforms.calls_prefix)
    then show ?thesis using l by (auto simp: calledOf_def)
  qed
  then show ?thesis by (auto simp: ApplyTransforms_def Let_def split: sum.split prod.split)
qed

lemma invokeAround_ran:
  "InvokeAround asFn zero plan point x (Some terminal) = (e, evs) \<Longrightarrow> count_list evs TerminalRan \<le> 1 \<and> (\<forall>res. e = Ends res None \<longrightarrow> TerminalRan \<in> set evs)"
  using invokeChain_trace [of asFn zero point x terminal "matchingEntries plan (ar_point point)" e evs] by (auto simp: InvokeAround_def split: if_splits)

lemma wrappedExecutor_trace:
  assumes "wrappedExecutor env tool tr call = (r, tr')"
  shows "\<exists>evs. tr' = tr @ map EExt evs \<and> count_list evs TerminalRan \<le> 1 \<and> (\<forall>res. r = Ret (res, None) \<longrightarrow> TerminalRan \<in> set evs)"
  using assms by (auto simp: wrappedExecutor_def Let_def dest!: invokeAround_ran split: prod.splits chainEnd.splits)

text \<open>What happened before a tool was executed, and in which order.\<close>

definition inOrder :: "('i, 'x, 'c, 'p) toolEnv \<Rightarrow> 'i Tool \<Rightarrow> 'x RToolCall \<Rightarrow> 'x pipeEvent list \<Rightarrow> bool" where
  "inOrder env tool call tr \<longleftrightarrow> (\<exists>guards perms exts. tr = guards @ perms @ map EExt exts \<and> list_all guardEvent guards \<and> list_all permissionEvent perms \<and>
     count_list exts TerminalRan \<le> 1 \<and> (TerminalRan \<in> set exts \<longrightarrow> length guards = length (tv_guards env) \<and> list_all abstained guards \<and>
       (tv_policy env \<noteq> None \<longrightarrow> (\<forall>p \<in> set (toolPermissions tool call). granted tool call perms p))))"

lemma clone_same:
  assumes "cloneToolChecked cloneInfo tool = Inr w"
  shows "toolPermissions w call = toolPermissions tool call" "permissionRequest w call p = permissionRequest tool call p" "approvalRequest w call p = approvalRequest tool call p"
    "granted w call evs p = granted tool call evs p"
  using assms by (auto simp: cloneToolChecked_def toolPermissions_def permissionRequest_def approvalRequest_def granted_def Let_def split: option.splits sum.splits)

lemma no_terminal: "list_all guardEvent evs \<Longrightarrow> EExt e \<notin> set evs" "list_all permissionEvent evs \<Longrightarrow> EExt e \<notin> set evs"
  by (auto simp: list_all_iff)

lemma executeToolWithPermissions_trace:
  assumes "executeToolWithPermissions (wrappedExecutor env tool) (tv_policy env) ask w call tr = (r, tr')" and "cloneToolChecked cloneInfo tool = Inr w"
  shows "\<exists>perms exts. tr' = tr @ perms @ map EExt exts \<and> list_all permissionEvent perms \<and> count_list exts TerminalRan \<le> 1 \<and>
    (TerminalRan \<in> set exts \<longrightarrow> tv_policy env \<noteq> None \<longrightarrow> (\<forall>p \<in> set (toolPermissions tool call). granted tool call perms p)) \<and>
    (\<forall>x e. r = Ret (x, e) \<longrightarrow> (pe_State x \<noteq> toolPermissionAllowed \<longrightarrow> TerminalRan \<notin> set exts) \<and> (pe_State x = toolPermissionAllowed \<and> e = None \<longrightarrow> TerminalRan \<in> set exts))"
proof -
  have executed: ?thesis if run: "(r, tr') = (case wrappedExecutor env tool (tr @ perms) call of (Panic m, tr1) \<Rightarrow> (Panic m, tr1)
            | (Ret (result, err), tr1) \<Rightarrow> (Ret (\<lparr>pe_Result = result, pe_State = toolPermissionAllowed\<rparr>, err), tr1))"
      and perms: "list_all permissionEvent perms" "tv_policy env \<noteq> None \<longrightarrow> (\<forall>p \<in> set (toolPermissions tool call). granted tool call perms p)" for perms
  proof -
    obtain x tr1 where x: "wrappedExecutor env tool (tr @ perms) call = (x, tr1)" by (metis prod.collapse)
    from wrappedExecutor_trace [OF x] obtain exts where "tr1 = (tr @ perms) @ map EExt exts" "count_list exts TerminalRan \<le> 1"
      "\<forall>res. x = Ret (res, None) \<longrightarrow> TerminalRan \<in> set exts" by blast
    then show ?thesis using run x perms by (intro exI [of _ perms] exI [of _ exts]) (auto split: run.splits)
  qed
  show ?thesis
  proof (cases "tv_policy env")
    case None
    then show ?thesis using assms(1) by (intro executed [of "[]"]) (simp_all add: executeToolWithPermissions_def Let_def)
  next
    case (Some p)
    obtain l tr1 where l: "permissionLoop p ask w call tr (toolPermissions w call) = (l, tr1)" by (metis prod.collapse)
    from permissionLoop_trace [OF l] obtain perms where e: "tr1 = tr @ perms" "list_all permissionEvent perms"
      "l = None \<longrightarrow> (\<forall>p \<in> set (toolPermissions tool call). granted tool call perms p)" "\<forall>x. l = Some (Ret (x, None)) \<longrightarrow> pe_State x \<noteq> toolPermissionAllowed"
      unfolding clone_same [OF assms(2)] by blast
    show ?thesis
    proof (cases l)
      case None
      then show ?thesis using assms(1) l Some e by (intro executed [of perms]) (simp_all add: executeToolWithPermissions_def Let_def)
    next
      case (Some res)
      then have "(r, tr') = (res, tr1)" using assms(1) l \<open>tv_policy env = Some p\<close> by (simp add: executeToolWithPermissions_def Let_def)
      then show ?thesis using e Some by (intro exI [of _ perms] exI [of _ "[]"]) auto
    qed
  qed
qed

lemma executeToolOutcome_trace:
  assumes "executeToolOutcome env tool call = (r, tr)"
  shows "inOrder env tool call tr \<and> (\<forall>o1. r = Ret o1 \<longrightarrow> wellMarked o1 \<and> (oc_Permission o1 \<noteq> toolPermissionAllowed \<longrightarrow> EExt TerminalRan \<notin> set tr) \<and>
    (oc_Permission o1 = toolPermissionAllowed \<and> oc_RawError o1 = None \<longrightarrow> EExt TerminalRan \<in> set tr))"
proof -
  obtain g tr1 where g: "evaluateToolGuards (tv_guards env) tool call [] = (g, tr1)" by (metis prod.collapse)
  from guardLoop_trace [OF g [unfolded evaluateToolGuards_def]] have gs: "list_all guardEvent tr1"
    "\<And>d. g = Ret (Inr d) \<Longrightarrow> gr_Decision d \<noteq> ToolGuardDeny \<Longrightarrow> length tr1 = length (tv_guards env) \<and> list_all abstained tr1" by auto
  have stopped: "inOrder env tool call tr1" unfolding inOrder_def using gs(1) by (intro exI [of _ tr1] exI [of _ "[]"]) simp
  show ?thesis
  proof (cases "\<exists>d w. g = Ret (Inr d) \<and> gr_Decision d \<noteq> ToolGuardDeny \<and> cloneToolChecked (tv_cloneInfo env) tool = Inr w")
    case True
    then obtain d w where d: "g = Ret (Inr d)" "gr_Decision d \<noteq> ToolGuardDeny" "cloneToolChecked (tv_cloneInfo env) tool = Inr w" by blast
    obtain q tr2 where q: "executeToolWithPermissions (wrappedExecutor env tool) (tv_policy env) (tv_ask env) w call tr1 = (q, tr2)" by (metis prod.collapse)
    from executeToolWithPermissions_trace [OF q d(3)] obtain perms exts where t: "tr2 = tr1 @ perms @ map EExt exts" "list_all permissionEvent perms" "count_list exts TerminalRan \<le> 1"
      "TerminalRan \<in> set exts \<longrightarrow> tv_policy env \<noteq> None \<longrightarrow> (\<forall>p \<in> set (toolPermissions tool call). granted tool call perms p)"
      "\<forall>x e. q = Ret (x, e) \<longrightarrow> (pe_State x \<noteq> toolPermissionAllowed \<longrightarrow> TerminalRan \<notin> set exts) \<and> (pe_State x = toolPermissionAllowed \<and> e = None \<longrightarrow> TerminalRan \<in> set exts)"
      by blast
    have "inOrder env tool call tr2" unfolding inOrder_def using t gs d by (intro exI [of _ tr1] exI [of _ perms] exI [of _ exts]) auto
    moreover have "EExt TerminalRan \<in> set tr2 \<longleftrightarrow> TerminalRan \<in> set exts" using t(1,2) gs(1) no_terminal by auto
    ultimately show ?thesis using assms g d q t(5) by (auto simp: executeToolOutcome_def split: run.splits)
  next
    case False
    then have "tr = tr1" "\<And>o1. r = Ret o1 \<Longrightarrow> wellMarked o1 \<and> (oc_Permission o1 = toolPermissionAllowed \<longrightarrow> oc_RawError o1 \<noteq> None)"
      using assms g by (auto simp: executeToolOutcome_def split: run.splits sum.splits if_splits)
    then show ?thesis using stopped no_terminal(1) [OF gs(1)] by auto
  qed
qed

lemma transformToolOutcome_trace:
  assumes "transformToolOutcome env o1 tr = (o2, tr')"
  shows "\<exists>evs. tr' = tr @ map EExt evs \<and> TerminalRan \<notin> set evs \<and> wellMarked o2 \<and> oc_Permission o2 = oc_Permission o1 \<and> (oc_RawError o2 = None \<longrightarrow> oc_RawError o1 = None)"
proof -
  obtain v err evs where a: "ApplyTransforms (tv_transform env) (tv_plan env) ToolResultTransformPoint
      \<lparr>rx_ToolName = xc_Name (oc_Call o1), rx_Call = extensionToolCall (oc_Call o1), rx_Result = oc_Result o1\<rparr> = ((v, err), evs)" by (metis prod.collapse)
  from transforms_trace have "TerminalRan \<notin> set evs" by (metis a snd_conv)
  then show ?thesis using assms a by (cases err) (auto simp: transformToolOutcome_def)
qed

lemma inOrder_more: "inOrder env tool call tr \<Longrightarrow> TerminalRan \<notin> set evs \<Longrightarrow> inOrder env tool call (tr @ map EExt evs)"
  unfolding inOrder_def
proof (elim exE conjE)
  fix guards perms exts
  assume t: "TerminalRan \<notin> set evs" "tr = guards @ perms @ map EExt exts" "list_all guardEvent guards" "list_all permissionEvent perms" "count_list exts TerminalRan \<le> 1"
    "TerminalRan \<in> set exts \<longrightarrow> length guards = length (tv_guards env) \<and> list_all abstained guards \<and>
       (tv_policy env \<noteq> None \<longrightarrow> (\<forall>p \<in> set (toolPermissions tool call). granted tool call perms p))"
  have "count_list (exts @ evs) TerminalRan = count_list exts TerminalRan" using t(1) by (simp add: count_list_0_iff)
  then show "\<exists>guards perms exts. tr @ map EExt evs = guards @ perms @ map EExt exts \<and> list_all guardEvent guards \<and> list_all permissionEvent perms \<and>
     count_list exts TerminalRan \<le> 1 \<and> (TerminalRan \<in> set exts \<longrightarrow> length guards = length (tv_guards env) \<and> list_all abstained guards \<and>
       (tv_policy env \<noteq> None \<longrightarrow> (\<forall>p \<in> set (toolPermissions tool call). granted tool call perms p)))"
    using t by (intro exI [of _ guards] exI [of _ perms] exI [of _ "exts @ evs"]) auto
qed

lemma pipeline_trace:
  assumes "executeClaimedToolPipeline env tool call prep wrap = (o1, tr)"
  shows "inOrder env tool call tr \<and> wellMarked o1 \<and> (EExt TerminalRan \<in> set tr \<longrightarrow> prep = None) \<and> (oc_Permission o1 \<noteq> toolPermissionAllowed \<longrightarrow> EExt TerminalRan \<notin> set tr) \<and>
    (oc_Permission o1 = toolPermissionAllowed \<and> oc_RawError o1 = None \<longrightarrow> EExt TerminalRan \<in> set tr)"
proof -
  have empty: "inOrder env tool call []" unfolding inOrder_def by simp
  have finish: ?thesis if t: "transformToolOutcome env o2 tr0 = (o1, tr)" and o: "inOrder env tool call tr0" "EExt TerminalRan \<in> set tr0 \<longrightarrow> prep = None"
      "oc_Permission o2 \<noteq> toolPermissionAllowed \<longrightarrow> EExt TerminalRan \<notin> set tr0" "oc_Permission o2 = toolPermissionAllowed \<and> oc_RawError o2 = None \<longrightarrow> EExt TerminalRan \<in> set tr0" for o2 tr0
    using transformToolOutcome_trace [OF t] o inOrder_more [OF o(1)] by auto
  show ?thesis
  proof (cases prep)
    case None
    obtain r tr0 where r: "executeToolOutcome env tool call = (r, tr0)" by (metis prod.collapse)
    note e = executeToolOutcome_trace [OF r]
    show ?thesis
    proof (cases "\<exists>o2 o3. r = Ret o2 \<and> applyWrap wrap call tr0 o2 = Ret o3")
      case True
      then obtain o2 o3 where o: "r = Ret o2" "applyWrap wrap call tr0 o2 = Ret o3" by blast
      have "oc_Permission o3 = oc_Permission o2 \<and> (oc_RawError o3 = None \<longrightarrow> oc_RawError o2 = None)"
        using o(2) by (auto simp: applyWrap_def split: option.splits outcome.splits if_splits)
      then show ?thesis using assms None r o e by (intro finish [of o3 tr0]) (auto simp: executeClaimedToolPipeline_def Let_def)
    next
      case False
      then have "tr = tr0" "o1 = newToolOutcome call zeroResult toolPermissionAllowed (Some errToolExecutionPanic)"
        using assms None r by (auto simp: executeClaimedToolPipeline_def Let_def split: run.splits)
      then show ?thesis using e None by simp
    qed
  next
    case (Some p)
    then obtain o2 where "transformToolOutcome env o2 [] = (o1, tr)" "oc_Permission o2 = toolPermissionAllowed \<longrightarrow> oc_RawError o2 \<noteq> None"
      using assms by (cases p) (auto simp: executeClaimedToolPipeline_def)
    then show ?thesis by (intro finish [of o2 "[]"]) (simp_all add: empty)
  qed
qed

text \<open>
  C37. A tool is executed only when it is permitted. If the executor of a tool ran, the call was prepared without an error, every guard of the run had been asked and had
  abstained, and then, if the host has a policy, every permission of the call was granted: allowed by the policy, or asked for and approved. The
  executor ran once.
\<close>

theorem tool_runs_only_when_permitted:
  assumes "executeClaimedToolPipeline env tool call prep wrap = (o1, tr)" "EExt TerminalRan \<in> set tr"
  shows "prep = None \<and> (\<exists>guards perms exts. tr = guards @ perms @ map EExt exts \<and> length guards = length (tv_guards env) \<and> list_all abstained guards \<and>
    list_all permissionEvent perms \<and> (tv_policy env \<noteq> None \<longrightarrow> (\<forall>p \<in> set (toolPermissions tool call). granted tool call perms p)) \<and> count_list exts TerminalRan = 1)"
proof -
  have p: "prep = None" "inOrder env tool call tr" using pipeline_trace [OF assms(1)] assms(2) by simp_all
  from p(2) obtain guards perms exts where t: "tr = guards @ perms @ map EExt exts" "list_all guardEvent guards" "list_all permissionEvent perms" "count_list exts TerminalRan \<le> 1"
    "TerminalRan \<in> set exts \<longrightarrow> length guards = length (tv_guards env) \<and> list_all abstained guards \<and>
       (tv_policy env \<noteq> None \<longrightarrow> (\<forall>p \<in> set (toolPermissions tool call). granted tool call perms p))" unfolding inOrder_def by blast
  have "TerminalRan \<in> set exts" using assms(2) t(1-3) no_terminal by auto
  moreover from this have "count_list exts TerminalRan = 1" using t(4) by (metis count_list_0_iff le_antisym less_one linorder_not_less)
  ultimately show ?thesis using p t by blast
qed

text \<open>
  C38. What the pipeline says about permissions is its own decision. Whatever the tool, its wrappers and the extensions put into the result, its metadata carry the
  permission status of the decision and no other key that begins with \<open>permission_\<close>; a call that is reported as denied, waiting for approval or interrupted while
  asking was not executed; and one that is reported as executed was.
\<close>

theorem permission_marks_are_authentic:
  assumes "executeClaimedToolPipeline env tool call prep wrap = (o1, tr)"
  shows "filter (\<lambda>(k, v). take 11 k = ''permission_'') (elems (xr_Metadata (oc_Result o1))) =
      (if oc_Permission o1 = toolPermissionAllowed then [] else [(''permission_status'', permissionStatus (oc_Permission o1))]) \<and>
    (oc_Permission o1 \<noteq> toolPermissionAllowed \<longrightarrow> EExt TerminalRan \<notin> set tr) \<and> (oc_Disposition o1 = ToolExecuted \<longrightarrow> EExt TerminalRan \<in> set tr)"
proof -
  note p = pipeline_trace [OF assms]
  have m: "filter (\<lambda>(k, v). take 11 k = ''permission_'') (elems (xr_Metadata (oc_Result o1))) = marksOf (oc_Permission o1)"
    and d: "oc_Disposition o1 = dispositionForOutcome (oc_Permission o1) (oc_RawError o1)" using p by (simp_all add: wellMarked_def isMark_def)
  have "oc_Permission o1 = toolPermissionAllowed \<and> oc_RawError o1 = None" if "oc_Disposition o1 = ToolExecuted"
    using that d by (cases "oc_Permission o1"; cases "oc_RawError o1") (auto simp: dispositionForOutcome_def dispositionForError_def split: if_splits)
  then show ?thesis using p m by (auto simp: marksOf_def)
qed

text \<open>A call that needs an approval, under one guard and a policy that asks, with an extension around the execution.\<close>

definition shellTool :: "unit Tool" where
  "shellTool = \<lparr>xt_Name = ''shell'', xt_Info = None, xt_Executor = True, xt_RetrySafe = False, xt_AllowSessionTitle = False,
     xt_Scope = \<lparr>tp_WorkspaceID = [], tp_Root = [], tp_Permissions = None\<rparr>, xt_InputDecoder = False, xt_Pattern = False,
     xt_Retention = \<lparr>rp_MaxInlineBytes = 100, rp_StoreExternal = False, rp_Redact = False\<rparr>, xt_Metadata = None, xt_Aliases = None, xt_ArgumentAliases = None,
     xt_Deferred = False, xt_InterruptPolicy = False\<rparr>"

definition shellCall :: "bool \<Rightarrow> unit RToolCall" where
  "shellCall approval = \<lparr>xc_ID = ''c'', xc_SessionID = ''s'', xc_RunID = ''r'', xc_MessageID = ''m'', xc_ResultMessageID = ''rm'', xc_ResultPartID = ''rp'',
     xc_Name = ''shell'', xc_RequestedName = ''shell'', xc_ProviderCallID = [], xc_Scope = \<lparr>tp_WorkspaceID = [], tp_Root = [], tp_Permissions = None\<rparr>, xc_Pattern = ''ls'',
     xc_Input = ''{}'', xc_Approval = approval, xc_SessionTitle = False, xc_Context = (), xc_ResumeDecision = []\<rparr>"

text \<open>The tool claims to have been denied; the extension lets it run.\<close>

definition demoEnv :: "PermissionRule list \<Rightarrow> (unit, unit, unit, unit) toolEnv" where
  "demoEnv rules = \<lparr>tv_guards = [Some (\<lambda>tr q. Returns \<lparr>gr_Decision = ToolGuardAbstain, gr_Code = [], gr_Message = []\<rparr>)],
     tv_policy = Some (\<lambda>tr q. StaticPolicyDecide (\<lambda>s. s) rules None q), tv_ask = (\<lambda>tr q. Returns ()),
     tv_execute = (\<lambda>tr c. Gives (zeroResult\<lparr>xr_Output := ''done'', xr_Metadata := Some [(''permission_status'', ''denied'')]\<rparr>) None),
     tv_cloneInfo = Inr, tv_plan = Some (demoPlan []), tv_around = (\<lambda>c x. AProceed (\<lambda>_. AReturn None)), tv_transform = (\<lambda>c v. Returns v)\<rparr>"

definition askShell :: "PermissionRule list" where
  "askShell = [\<lparr>pr_Permission = ''shell'', pr_Pattern = ''l*'', pr_Action = ''ask''\<rparr>]"

lemma demo_pipeline:
  "EExt TerminalRan \<in> set (snd (executeClaimedToolPipeline (demoEnv askShell) shellTool (shellCall True) None None))"
  "oc_Permission (fst (executeClaimedToolPipeline (demoEnv askShell) shellTool (shellCall True) None None)) = toolPermissionAllowed"
  by code_simp+

theorem tool_runs_only_when_permitted_witness:
  "\<exists>tr perms exts. executeClaimedToolPipeline (demoEnv askShell) shellTool (shellCall True) None None = (fst (executeClaimedToolPipeline (demoEnv askShell) shellTool (shellCall True) None None), tr) \<and>
     (\<forall>p \<in> set (toolPermissions shellTool (shellCall True)). granted shellTool (shellCall True) perms p) \<and> count_list exts TerminalRan = 1"
proof -
  obtain o1 tr where e: "executeClaimedToolPipeline (demoEnv askShell) shellTool (shellCall True) None None = (o1, tr)" by (metis prod.collapse)
  have "EExt TerminalRan \<in> set tr" using demo_pipeline(1) e by simp
  moreover have "tv_policy (demoEnv askShell) \<noteq> None" by (simp add: demoEnv_def)
  ultimately show ?thesis using tool_runs_only_when_permitted [OF e] e by auto
qed

theorem permission_marks_are_authentic_witness:
  "filter (\<lambda>(k, v). take 11 k = ''permission_'') (elems (xr_Metadata (oc_Result (fst (executeClaimedToolPipeline (demoEnv askShell) shellTool (shellCall True) None None))))) = []"
  using permission_marks_are_authentic [OF prod.collapse [symmetric], of "demoEnv askShell" shellTool "shellCall True" None None] demo_pipeline(2) by simp

section \<open>Static policies\<close>

lemma permissionLoop_answers:
  "permissionLoop policy ask tool call tr ps = (r, tr') \<Longrightarrow> EPolicy q a \<in> set tr' \<Longrightarrow> EPolicy q a \<notin> set tr \<Longrightarrow> \<exists>t. a = policy t q"
proof (induction ps arbitrary: tr)
  case (Cons p ps)
  let ?q = "permissionRequest tool call p" let ?tr1 = "tr @ [EPolicy ?q (policy tr ?q)]"
  have step: ?case if "permissionLoop policy ask tool call (?tr1 @ evs) ps = (r, tr')" "EPolicy q a \<notin> set evs" for evs
    using Cons.IH [OF that(1) Cons.prems(2)] Cons.prems(3) that(2) by auto
  show ?case
  proof (cases "\<exists>evs. permissionLoop policy ask tool call (?tr1 @ evs) ps = (r, tr') \<and> EPolicy q a \<notin> set evs")
    case True
    then show ?thesis using step by blast
  next
    case False
    have "set tr' \<subseteq> set ?tr1 \<union> {EAsk (approvalRequest tool call p) (ask ?tr1 (approvalRequest tool call p))}"
      using Cons.prems(1) spec [OF False [unfolded not_ex], of "[]"] spec [OF False [unfolded not_ex], of "[EAsk (approvalRequest tool call p) (ask ?tr1 (approvalRequest tool call p))]"]
      by (auto simp: Let_def split: outcome.splits Action.splits if_splits)
    then show ?thesis using Cons.prems by auto
  qed
qed simp

lemma decideLoop_first_match:
  "list_all (\<lambda>r. matches quoted r q = Inr False) pre \<Longrightarrow> matches quoted rule q = Inr True \<Longrightarrow> decideLoop quoted (pre @ rule # post) q = ruleDecision quoted rule"
  by (induction pre) auto

lemma pipeline_answers:
  assumes run: "executeClaimedToolPipeline env tool call prep wrap = (o1, tr)" and policy: "tv_policy env = Some policy" and seen: "EPolicy q a \<in> set tr"
  shows "\<exists>t. a = policy t q"
proof -
  have transformed: "EPolicy q a \<in> set tr0" if "transformToolOutcome env o2 tr0 = (o1, tr)" for o2 tr0
    using transformToolOutcome_trace [OF that] seen by auto
  have prep: "prep = None"
  proof (cases prep)
    case (Some e)
    then show ?thesis using run transformed [of _ "[]"] by (cases e) (auto simp: executeClaimedToolPipeline_def)
  qed
  obtain r tr0 where r: "executeToolOutcome env tool call = (r, tr0)" by (metis prod.collapse)
  have "EPolicy q a \<in> set tr0"
  proof (cases "\<exists>o2 o3. r = Ret o2 \<and> applyWrap wrap call tr0 o2 = Ret o3")
    case True
    then show ?thesis using run prep r transformed by (auto simp: executeClaimedToolPipeline_def Let_def)
  next
    case False
    then have "tr = tr0" using run prep r by (auto simp: executeClaimedToolPipeline_def Let_def split: run.splits)
    then show ?thesis using seen by simp
  qed
  obtain g tr1 where g: "evaluateToolGuards (tv_guards env) tool call [] = (g, tr1)" by (metis prod.collapse)
  have guards: "EPolicy q a \<notin> set tr1" using guardLoop_trace [OF g [unfolded evaluateToolGuards_def]] by (auto simp: list_all_iff)
  show ?thesis
  proof (cases "\<exists>d w. g = Ret (Inr d) \<and> gr_Decision d \<noteq> ToolGuardDeny \<and> cloneToolChecked (tv_cloneInfo env) tool = Inr w")
    case True
    then obtain d w where d: "g = Ret (Inr d)" "gr_Decision d \<noteq> ToolGuardDeny" "cloneToolChecked (tv_cloneInfo env) tool = Inr w" by blast
    obtain l tr2 where l: "permissionLoop policy (tv_ask env) w call tr1 (toolPermissions w call) = (l, tr2)" by (metis prod.collapse)
    obtain x tr3 where x: "wrappedExecutor env tool tr2 call = (x, tr3)" by (metis prod.collapse)
    have "tr0 = tr2 \<or> tr0 = tr3" using r g d l x policy
      by (auto simp: executeToolOutcome_def executeToolWithPermissions_def Let_def split: run.splits option.splits prod.splits)
    then have "EPolicy q a \<in> set tr2" using \<open>EPolicy q a \<in> set tr0\<close> wrappedExecutor_trace [OF x] by auto
    then show ?thesis using permissionLoop_answers [OF l] guards by blast
  next
    case False
    then have "tr0 = tr1" using r g by (auto simp: executeToolOutcome_def split: run.splits sum.splits if_splits)
    then show ?thesis using \<open>EPolicy q a \<in> set tr0\<close> guards by simp
  qed
qed

text \<open>
  C39. The rules of a static policy are obeyed. If the first rule that matches one of the permissions of a call denies it, or asks for an approval and the call
  has nobody to ask, or has an action the policy does not know, the tool is not executed, whatever the other permissions, the guards and the extensions say.
\<close>

theorem matching_rule_blocks_tool:
  assumes "tv_policy env = Some (\<lambda>tr q. StaticPolicyDecide quoted (pre @ rule # post) (ctx tr) q)" "p \<in> set (toolPermissions tool call)"
    "list_all (\<lambda>r. matches quoted r (permissionRequest tool call p) = Inr False) pre" "matches quoted rule (permissionRequest tool call p) = Inr True"
    "pr_Action rule \<noteq> ''allow''" "pr_Action rule \<in> {''ask'', []} \<longrightarrow> \<not> xc_Approval call"
  shows "EExt TerminalRan \<notin> set (snd (executeClaimedToolPipeline env tool call prep wrap))"
proof
  assume ran: "EExt TerminalRan \<in> set (snd (executeClaimedToolPipeline env tool call prep wrap))"
  obtain o1 tr where e: "executeClaimedToolPipeline env tool call prep wrap = (o1, tr)" by (metis prod.collapse)
  from pipeline_trace [OF e] ran e have "inOrder env tool call tr" by simp
  then have "granted tool call tr p" using assms(1,2) ran e no_terminal unfolding inOrder_def by (fastforce intro: granted_mono)
  then obtain d where d: "EPolicy (permissionRequest tool call p) (Returns d) \<in> set tr" "de_Action d = ActionAllow \<or> de_Action d = ActionAsk \<and> xc_Approval call"
    unfolding granted_def by blast
  from pipeline_answers [OF e assms(1) d(1)] have "ruleDecision quoted rule = Inr d"
    using decideLoop_first_match [OF assms(3,4), of post] by (auto simp: StaticPolicyDecide_def split: option.splits sum.splits)
  then show False using d(2) assms(5,6) by (auto simp: ruleDecision_def split: if_splits)
qed

text \<open>A policy that denies \<open>shell\<close> for what begins with \<open>r\<close>, and everything of two letters that begins with \<open>l\<close>.\<close>

definition denyShell :: "PermissionRule list" where
  "denyShell = [\<lparr>pr_Permission = ''shell'', pr_Pattern = ''r*'', pr_Action = ''deny''\<rparr>, \<lparr>pr_Permission = [], pr_Pattern = ''l?'', pr_Action = ''deny''\<rparr>]"

theorem matching_rule_blocks_tool_witness:
  "EExt TerminalRan \<notin> set (snd (executeClaimedToolPipeline (demoEnv denyShell) shellTool (shellCall True) None None))"
proof (rule matching_rule_blocks_tool [where quoted = "\<lambda>s. s" and ctx = "\<lambda>tr. None" and pre = "[hd denyShell]" and rule = "denyShell ! 1" and post = "[]" and p = "''shell''"])
  show "tv_policy (demoEnv denyShell) = Some (\<lambda>tr q. StaticPolicyDecide (\<lambda>s. s) ([hd denyShell] @ denyShell ! 1 # []) None q)"
    by (simp add: demoEnv_def denyShell_def)
  show "''shell'' \<in> set (toolPermissions shellTool (shellCall True))" by code_simp
  show "list_all (\<lambda>r. matches (\<lambda>s. s) r (permissionRequest shellTool (shellCall True) ''shell'') = Inr False) [hd denyShell]" by code_simp
  show "matches (\<lambda>s. s) (denyShell ! 1) (permissionRequest shellTool (shellCall True) ''shell'') = Inr True" by code_simp
  show "pr_Action (denyShell ! 1) \<noteq> ''allow''" "pr_Action (denyShell ! 1) \<in> {''ask'', []} \<longrightarrow> \<not> xc_Approval (shellCall True)"
    by (simp_all add: denyShell_def)
qed

text \<open>A wrapper of results is handed the result of a denied call, too, and what it returns is what the model sees.\<close>

lemma wrapper_sees_denial:
  "xr_Output (oc_Result (fst (executeClaimedToolPipeline (demoEnv denyShell) shellTool (shellCall True) None (Some (\<lambda>tr c r. Returns (r\<lparr>xr_Output := ''shortened''\<rparr>)))))) = ''shortened''"
  "oc_Disposition (fst (executeClaimedToolPipeline (demoEnv denyShell) shellTool (shellCall True) None (Some (\<lambda>tr c r. Returns (r\<lparr>xr_Output := ''shortened''\<rparr>))))) = ToolDenied"
  by code_simp+

end
