(* ===== verification/ContentRound.thy ===== *)
theory ContentRound
  imports ContentLogic JsonStrings Samples
begin

text \<open>
  Content reads back as it was written. Every payload of \<open>session/content.go\<close> has an encoder and a decoder; the locale \<open>json_codec\<close>
  states what one pair promises, the lemmas on arrays, pointers and members are proved in it once, and each pair is
  an interpretation.
\<close>

section \<open>Members\<close>

definition keyOK :: "string \<Rightarrow> bool" where
  "keyOK k \<longleftrightarrow> list_all (\<lambda>c. c \<noteq> CHR 0x22 \<and> c \<noteq> CHR 0x5C \<and> 32 \<le> byteOf c) k"

text \<open>The keys of the payloads.\<close>

lemma keys_ok [simp]:
  "keyOK ''CacheReadTokens''" "keyOK ''CacheWriteTokens''" "keyOK ''Cost''" "keyOK ''InputTokens''" "keyOK ''OutputTokens''"
  "keyOK ''ReasoningTokens''" "keyOK ''TotalTokens''" "keyOK ''annotation_index''" "keyOK ''annotations''" "keyOK ''approval_request_id''"
  "keyOK ''approve''" "keyOK ''arguments''" "keyOK ''base64_data''" "keyOK ''block_id''" "keyOK ''call_id''" "keyOK ''chunk_indices''"
  "keyOK ''chunks''" "keyOK ''cited_text''" "keyOK ''claude''" "keyOK ''confidence_scores''" "keyOK ''container_id''" "keyOK ''content''"
  "keyOK ''description''" "keyOK ''detail''" "keyOK ''document_index''" "keyOK ''document_title''" "keyOK ''domain''" "keyOK ''end''"
  "keyOK ''end_block''" "keyOK ''end_index''" "keyOK ''end_page''" "keyOK ''error''" "keyOK ''error_code''" "keyOK ''error_message''"
  "keyOK ''file_id''" "keyOK ''filename''" "keyOK ''finish_reason''" "keyOK ''function_call''" "keyOK ''function_result''" "keyOK ''gemini''"
  "keyOK ''grounding''" "keyOK ''id''" "keyOK ''incomplete_reason''" "keyOK ''input_schema''" "keyOK ''kind''" "keyOK ''mcp_approval_request''"
  "keyOK ''mcp_approval_response''" "keyOK ''mcp_call''" "keyOK ''mcp_list_tools''" "keyOK ''mcp_result''" "keyOK ''media''" "keyOK ''meta''"
  "keyOK ''mime_type''" "keyOK ''name''" "keyOK ''openai''" "keyOK ''part_index''" "keyOK ''prompt_cache_retention''" "keyOK ''reason''"
  "keyOK ''reasoning''" "keyOK ''reasoning_effort''" "keyOK ''reasoning_summary''" "keyOK ''refusal''" "keyOK ''rendered_entry_point''"
  "keyOK ''schema''" "keyOK ''segment''" "keyOK ''server_call''" "keyOK ''server_label''" "keyOK ''server_result''" "keyOK ''service_tier''"
  "keyOK ''start''" "keyOK ''start_block''" "keyOK ''start_index''" "keyOK ''start_page''" "keyOK ''status''" "keyOK ''stop_category''"
  "keyOK ''stop_explanation''" "keyOK ''stop_reason''" "keyOK ''stop_sequence''" "keyOK ''summary''" "keyOK ''supports''" "keyOK ''text''"
  "keyOK ''title''" "keyOK ''tool_search''" "keyOK ''tools''" "keyOK ''type''" "keyOK ''uri''" "keyOK ''url''" "keyOK ''usage''"
  "keyOK ''web_search_queries''"
  by code_simp+

lemma key_lex: "keyOK k \<Longrightarrow> lexStr [] (k @ [CHR 0x22]) = Some (k, [])"
proof -
  assume "keyOK k"
  then have "body k" unfolding keyOK_def by (induction k) (auto intro: body.intros)
  then show ?thesis by (simp add: lexStr_iff_body)
qed

text \<open>Members that are fit to be written, nested no deeper than \<open>n\<close>.\<close>

definition goodMembers :: "nat \<Rightarrow> members \<Rightarrow> bool" where
  "goodMembers n ms \<longleftrightarrow> list_all (\<lambda>(k, v). keyOK k \<and> wfJson v \<and> depth v \<le> n) ms"

lemma good_object: "goodMembers n ms \<Longrightarrow> wfJson (JObj ms) \<and> depth (JObj ms) \<le> Suc n"
  by (auto simp: goodMembers_def list_all_iff key_lex foldr_max_le)

lemma good_append [simp]: "goodMembers n (xs @ ys) \<longleftrightarrow> goodMembers n xs \<and> goodMembers n ys"
  by (simp add: goodMembers_def)

lemma good_Cons [simp]: "goodMembers n ((k, v) # ms) \<longleftrightarrow> keyOK k \<and> wfJson v \<and> depth v \<le> n \<and> goodMembers n ms" "goodMembers n []"
  by (simp_all add: goodMembers_def)

lemma good_members [simp]: "goodMembers n (strM k s) = keyOK k" "goodMembers n (strO k s) = (s = [] \<or> keyOK k)" "goodMembers n (intO k i) = (i = 0 \<or> keyOK k)"
  by (simp_all add: strM_def strO_def intO_def)

lemma getM_Cons [simp]: "getM k ((j, v) # ms) = (if k = j then Some v else getM k ms)" "getM k [] = None"
  by (simp_all add: getM_def)

lemma getM_members [simp]:
  "getM k (strM j s) = (if k = j then Some (jstr s) else None)"
  "getM k (strO j s) = (if k = j then (if s = [] then None else Some (jstr s)) else None)"
  "getM k (intO j i) = (if k = j then (if i = 0 then None else Some (jint i)) else None)"
  "getM k (ptrO j f p) = (if k = j then map_option f p else None)"
  by (auto simp: strM_def strO_def intO_def ptrO_def getM_def split: option.split)

text \<open>Looking a key up in the members after those of other keys.\<close>

lemma getM_append: "getM k (xs @ ys) = (case getM k xs of None \<Rightarrow> getM k ys | Some v \<Rightarrow> Some v)"
  by (cases "map_of xs k") (simp_all add: getM_def map_add_def)

lemma getM_skip [simp]:
  "k \<noteq> j \<Longrightarrow> getM k (strM j s @ ms) = getM k ms"
  "k \<noteq> j \<Longrightarrow> getM k (strO j s @ ms) = getM k ms"
  "k \<noteq> j \<Longrightarrow> getM k (intO j i @ ms) = getM k ms"
  "k \<noteq> j \<Longrightarrow> getM k (ptrO j f p @ ms) = getM k ms"
  by (simp_all add: getM_append)

lemma getM_here [simp]:
  "getM k (strM k s @ ms) = Some (jstr s)"
  "getM k ms = None \<Longrightarrow> getM k (strO k s @ ms) = (if s = [] then None else Some (jstr s))"
  "getM k ms = None \<Longrightarrow> getM k (intO k i @ ms) = (if i = 0 then None else Some (jint i))"
  "getM k ms = None \<Longrightarrow> getM k (ptrO k f p @ ms) = map_option f p"
  by (simp_all add: getM_append split: option.split)

text \<open>Decoding a member that is there, and one that was left out because it is zero.\<close>

definition arrD :: "(json \<Rightarrow> 'a option) \<Rightarrow> json \<Rightarrow> 'a slice option" where
  "arrD f v = (case v of JNull \<Rightarrow> Some None | JArr vs \<Rightarrow> map_option Some (those (map f vs)) | _ \<Rightarrow> None)"

definition ptrD :: "(json \<Rightarrow> 'a option) \<Rightarrow> json \<Rightarrow> 'a option option" where
  "ptrD f v = (case v of JNull \<Rightarrow> Some None | _ \<Rightarrow> map_option Some (f v))"

lemma get_members:
  "getStr k ms = (case getM k ms of None \<Rightarrow> Some [] | Some v \<Rightarrow> strD v)"
  "getInt k ms = (case getM k ms of None \<Rightarrow> Some 0 | Some v \<Rightarrow> decInt v 0)"
  "getBool k ms = (case getM k ms of None \<Rightarrow> Some False | Some v \<Rightarrow> decBool v False)"
  "getRaw k ms = (case getM k ms of None \<Rightarrow> Some [] | Some v \<Rightarrow> Some (emit v))"
  "getArr k f ms = (case getM k ms of None \<Rightarrow> Some None | Some v \<Rightarrow> arrD f v)"
  "getPtr k f ms = (case getM k ms of None \<Rightarrow> Some None | Some v \<Rightarrow> ptrD f v)"
  by (simp_all add: getStr_def strD_def getInt_def getBool_def getRaw_def getArr_def getPtr_def arrD_def ptrD_def split: option.split json.split)

lemma decString_jstr [simp]: "ValidString s \<Longrightarrow> strD (jstr s) = Some s"
  by (simp add: strD_def decString_def jstr_def unquote_quote)

lemma optional_members [simp]:
  "ValidString s \<Longrightarrow> (case (if s = [] then None else Some (jstr s)) of None \<Rightarrow> Some [] | Some v \<Rightarrow> strD v) = Some s"
  "i64 i \<Longrightarrow> (case (if i = 0 then None else Some (jint i)) of None \<Rightarrow> Some 0 | Some v \<Rightarrow> decInt v 0) = Some i"
  by simp_all

lemma jstr_notNull [simp]: "jstr s \<noteq> JNull" "jint i \<noteq> JNull"
  by (simp_all add: jstr_def jint_def)

section \<open>Codecs\<close>

locale json_codec =
  fixes enc :: "'a \<Rightarrow> json option" and dec :: "json \<Rightarrow> 'a option" and ok :: "'a \<Rightarrow> bool" and levels :: nat
  assumes reads_back: "ok x \<Longrightarrow> enc x = Some j \<Longrightarrow> dec j = Some x"
    and writes: "ok x \<Longrightarrow> enc x = Some j \<Longrightarrow> wfJson j \<and> depth j \<le> levels"
begin

lemma all_read_back: "list_all ok xs \<Longrightarrow> those (map enc xs) = Some js \<Longrightarrow> those (map dec js) = Some xs \<and> list_all wfJson js \<and> (\<forall>j \<in> set js. depth j \<le> levels)"
  by (induction xs arbitrary: js) (auto split: option.splits dest: reads_back writes)

lemma array: "list_all ok (elems s) \<Longrightarrow> arrOptJ enc s = Some j \<Longrightarrow> arrD dec j = Some s \<and> wfJson j \<and> depth j \<le> Suc levels"
  using all_read_back by (cases s) (auto simp: arrOptJ_def arrD_def foldr_max_le)

end

text \<open>A pointer to the payload is \<open>null\<close> only when there is none.\<close>

locale pointer_codec = json_codec +
  assumes never_null: "enc x \<noteq> Some JNull"
begin

lemma pointer: "pred_option ok p \<Longrightarrow> optJ k enc p = Some ms \<Longrightarrow> (case getM k ms of None \<Rightarrow> Some None | Some v \<Rightarrow> ptrD dec v) = Some p"
proof (cases p)
  case (Some x)
  assume ok: "pred_option ok p" and ms: "optJ k enc p = Some ms"
  then obtain j where j: "enc x = Some j" "ms = [(k, j)]" using Some by (auto simp: optJ_def)
  moreover have "j \<noteq> JNull" using j never_null by metis
  ultimately show ?thesis using reads_back [of x j] ok Some by (cases j) (simp_all add: ptrD_def)
qed (simp add: optJ_def)

lemma pointer_writes: "pred_option ok p \<Longrightarrow> optJ k enc p = Some ms \<Longrightarrow> keyOK k \<Longrightarrow> goodMembers levels ms"
  using writes by (cases p) (auto simp: optJ_def)

end

lemma arrJ_arrOptJ: "arrOptJ (Some \<circ> f) s = Some (arrJ f s)"
proof -
  have "those (map (Some \<circ> f) xs) = Some (map f xs)" for xs by (induction xs) simp_all
  then show ?thesis by (cases s) (simp_all add: arrOptJ_def arrJ_def)
qed

lemma ptrO_optJ: "optJ k (Some \<circ> f) p = Some (ptrO k f p)"
  by (cases p) (simp_all add: optJ_def ptrO_def)

text \<open>Encoders that cannot fail.\<close>

locale total_codec = pointer_codec "Some \<circ> enc" dec ok levels for enc :: "'a \<Rightarrow> json" and dec :: "json \<Rightarrow> 'a option" and ok levels
begin

lemma arrays [simp]:
  "list_all ok (elems s) \<Longrightarrow> arrD dec (arrJ enc s) = Some s"
  "list_all ok (elems s) \<Longrightarrow> wfJson (arrJ enc s)"
  "list_all ok (elems s) \<Longrightarrow> Suc levels \<le> n \<Longrightarrow> depth (arrJ enc s) \<le> n"
  using array [OF _ arrJ_arrOptJ, of s] by auto

lemma pointers [simp]:
  "pred_option ok p \<Longrightarrow> (case p of None \<Rightarrow> Some None | Some x \<Rightarrow> (ptrD dec \<circ> enc) x) = Some p"
  "pred_option ok p \<Longrightarrow> levels \<le> n \<Longrightarrow> keyOK k \<Longrightarrow> goodMembers n (ptrO k enc p)"
  using pointer [OF _ ptrO_optJ, of p] pointer_writes [OF _ ptrO_optJ, of p k] by (auto simp: goodMembers_def list_all_iff)

end

lemma bind_weak: "m = n \<Longrightarrow> Option.bind m f = Option.bind n f"
  by simp

lemma objectI:
  assumes "\<And>x j. ok x \<Longrightarrow> enc x = Some j \<Longrightarrow> \<exists>ms. j = JObj ms \<and> dec (JObj ms) = Some x \<and> goodMembers n ms" "\<And>x. enc x \<noteq> Some JNull"
  shows "pointer_codec enc dec ok (Suc n)"
proof
  fix x j assume x: "ok x" "enc x = Some j"
  obtain ms where ms: "j = JObj ms" "dec (JObj ms) = Some x" "goodMembers n ms" using assms(1) [OF x] by blast
  then show "dec j = Some x" by simp
  show "wfJson j \<and> depth j \<le> Suc n" unfolding ms(1) by (rule good_object [OF ms(3)])
qed (rule assms(2))

lemma total_objectI:
  assumes "\<And>x. ok x \<Longrightarrow> dec (JObj (enc x)) = Some x" "\<And>x. ok x \<Longrightarrow> goodMembers n (enc x)"
  shows "total_codec (\<lambda>x. JObj (enc x)) dec ok (Suc n)"
  unfolding total_codec_def using assms by (intro objectI) auto

interpretation string_codec: total_codec jstr strD ValidString 0
  by unfold_locales auto

interpretation int_codec: total_codec jint "\<lambda>v. decInt v 0" i64 0
  by unfold_locales auto

section \<open>Payloads\<close>

text \<open>
  What a payload must satisfy to be read back: its strings are UTF-8, its numbers have 64 bits and its raw JSON is
  compact and not nested beyond 64 levels, the bound that validation sets for server tools.
\<close>

definition okReasoning :: "ReasoningBlock \<Rightarrow> bool" where
  "okReasoning b \<longleftrightarrow> ValidString (rb_Text b) \<and> list_all ValidString (elems (rb_Summary b))"

definition okAnnotation :: "TextAnnotation \<Rightarrow> bool" where
  "okAnnotation a \<longleftrightarrow> list_all ValidString [ta_Type a, ta_Title a, ta_URL a, ta_FileID a, ta_Filename a, ta_ContainerID a, ta_CitedText a, ta_DocumentTitle a] \<and>
     list_all i64 [ta_StartIndex a, ta_EndIndex a, ta_DocumentIndex a, ta_StartPage a, ta_EndPage a, ta_StartBlock a, ta_EndBlock a, ta_AnnotationIndex a]"

definition okText :: "TextBlock \<Rightarrow> bool" where
  "okText b \<longleftrightarrow> ValidString (tb_Text b) \<and> ValidString (tb_Refusal b) \<and> list_all okAnnotation (elems (tb_Annotations b))"

definition okMedia :: "MediaBlock \<Rightarrow> bool" where
  "okMedia m \<longleftrightarrow> list_all ValidString [mb_URL m, mb_Base64Data m, mb_MIMEType m, mb_Name m, mb_Detail m]"

definition okFunctionCall :: "FunctionCallBlock \<Rightarrow> bool" where
  "okFunctionCall b \<longleftrightarrow> ValidString (fc_CallID b) \<and> ValidString (fc_Name b) \<and> ValidString (fc_Arguments b)"

definition okResultContent :: "ResultContent \<Rightarrow> bool" where
  "okResultContent c \<longleftrightarrow> (case rc_Type c of ResultContentOther s \<Rightarrow> False | _ \<Rightarrow> True) \<and> ValidString (rc_Text c) \<and> pred_option okMedia (rc_Media c)"

definition okFunctionResult :: "FunctionResultBlock \<Rightarrow> bool" where
  "okFunctionResult b \<longleftrightarrow> ValidString (fr_CallID b) \<and> ValidString (fr_Name b) \<and> list_all okResultContent (elems (fr_Content b))"

definition compactRaw :: "RawMessage \<Rightarrow> bool" where
  "compactRaw r = (case jraw r of None \<Rightarrow> False | Some v \<Rightarrow> emit v = r \<and> depth v \<le> 64)"

definition okToolSearch :: "ToolSearchBlock \<Rightarrow> bool" where
  "okToolSearch b \<longleftrightarrow> ValidString (tq_CallID b) \<and> ValidString (tq_Name b) \<and> list_all compactRaw (elems (tq_Tools b))"

definition okServerCall :: "ServerCallBlock \<Rightarrow> bool" where
  "okServerCall b \<longleftrightarrow> ValidString (sb_Name b) \<and> ValidString (sb_CallID b) \<and> (sb_Arguments b = [] \<or> compactRaw (sb_Arguments b))"

definition okServerResult :: "ServerResultBlock \<Rightarrow> bool" where
  "okServerResult b \<longleftrightarrow> ValidString (sv_Name b) \<and> ValidString (sv_CallID b) \<and> (sv_Content b = [] \<or> compactRaw (sv_Content b))"

definition okMCPCall :: "MCPCallBlock \<Rightarrow> bool" where
  "okMCPCall b \<longleftrightarrow> list_all ValidString [mc_ServerLabel b, mc_ApprovalRequestID b, mc_CallID b, mc_Name b, mc_Arguments b]"

definition okMCPResult :: "MCPResultBlock \<Rightarrow> bool" where
  "okMCPResult b \<longleftrightarrow> list_all ValidString [mx_ServerLabel b, mx_CallID b, mx_Name b, mx_Content b, mx_ErrorMessage b] \<and> pred_option i64 (mx_ErrorCode b)"

definition okMCPTool :: "MCPToolDefinition \<Rightarrow> bool" where
  "okMCPTool d \<longleftrightarrow> ValidString (md_Name d) \<and> ValidString (md_Description d) \<and> (md_InputSchema d = [] \<or> compactRaw (md_InputSchema d))"

definition okMCPListTools :: "MCPListToolsBlock \<Rightarrow> bool" where
  "okMCPListTools b \<longleftrightarrow> ValidString (ml_ServerLabel b) \<and> list_all okMCPTool (elems (ml_Tools b)) \<and> ValidString (ml_Error b)"

definition okMCPApprovalRequest :: "MCPApprovalRequestBlock \<Rightarrow> bool" where
  "okMCPApprovalRequest b \<longleftrightarrow> list_all ValidString [mq_ID b, mq_Name b, mq_Arguments b, mq_ServerLabel b]"

definition okMCPApprovalResponse :: "MCPApprovalResponseBlock \<Rightarrow> bool" where
  "okMCPApprovalResponse b \<longleftrightarrow> ValidString (mp_ApprovalRequestID b) \<and> ValidString (mp_Reason b)"

interpretation reasoning_codec: total_codec reasoningJ reasoningD okReasoning 2
  unfolding reasoningJ_def numeral_2_eq_2 by (rule total_objectI) (simp_all add: reasoningD_def objD_def okReasoning_def get_members)

interpretation annotation_codec: total_codec annotationJ annotationD okAnnotation 1
  unfolding annotationJ_def One_nat_def by (rule total_objectI) (simp_all add: annotationD_def objD_def okAnnotation_def get_members cong: bind_weak)

interpretation text_codec: total_codec textJ textD okText 3
  unfolding textJ_def numeral_3_eq_3 by (rule total_objectI) (simp_all add: textD_def objD_def okText_def get_members)

interpretation media_codec: total_codec mediaJ mediaD okMedia 1
  unfolding mediaJ_def One_nat_def by (rule total_objectI) (simp_all add: mediaD_def objD_def okMedia_def get_members)

interpretation function_call_codec: total_codec functionCallJ functionCallD okFunctionCall 1
  unfolding functionCallJ_def One_nat_def by (rule total_objectI) (simp_all add: functionCallD_def objD_def okFunctionCall_def get_members)

lemma resultType_back: "(case t of ResultContentOther s \<Rightarrow> False | _ \<Rightarrow> True) \<Longrightarrow> resultTypeOfText (resultTypeText t) = t \<and> ValidString (resultTypeText t)"
  by (cases t) (simp_all add: resultTypeOfText_def ValidString_def byteOf_def runeLen_def)

interpretation result_content_codec: total_codec resultContentJ resultContentD okResultContent 2
  unfolding resultContentJ_def numeral_2_eq_2 by (rule total_objectI) (simp_all add: resultContentD_def objD_def okResultContent_def get_members resultType_back)

interpretation function_result_codec: total_codec functionResultJ functionResultD okFunctionResult 4
  unfolding functionResultJ_def eval_nat_numeral by (rule total_objectI) (simp_all add: functionResultD_def objD_def okFunctionResult_def get_members)

interpretation mcp_call_codec: total_codec mcpCallJ mcpCallD okMCPCall 1
  unfolding mcpCallJ_def One_nat_def by (rule total_objectI) (simp_all add: mcpCallD_def objD_def okMCPCall_def get_members)

interpretation mcp_result_codec: total_codec mcpResultJ mcpResultD okMCPResult 1
  unfolding mcpResultJ_def One_nat_def by (rule total_objectI) (simp_all add: mcpResultD_def objD_def okMCPResult_def get_members)

interpretation mcp_approval_request_codec: total_codec mcpApprovalRequestJ mcpApprovalRequestD okMCPApprovalRequest 1
  unfolding mcpApprovalRequestJ_def One_nat_def by (rule total_objectI) (simp_all add: mcpApprovalRequestD_def objD_def okMCPApprovalRequest_def get_members)

interpretation mcp_approval_response_codec: total_codec mcpApprovalResponseJ mcpApprovalResponseD okMCPApprovalResponse 1
  unfolding mcpApprovalResponseJ_def One_nat_def
  by (rule total_objectI) (simp_all add: mcpApprovalResponseD_def objD_def okMCPApprovalResponse_def get_members decBool_def)

text \<open>Payloads that hold raw JSON.\<close>

interpretation raw_codec: json_codec jraw "\<lambda>v. Some (emit v)" compactRaw 64
proof
  fix r j assume r: "compactRaw r" "jraw r = Some j"
  then show "Some (emit j) = Some r" by (simp add: compactRaw_def)
  have "r \<noteq> []" using r by (auto simp: compactRaw_def jraw_def)
  then show "wfJson j \<and> depth j \<le> 64" using r jsonParse_wf by (auto simp: compactRaw_def jraw_def escapeTree_wf)
qed

lemma raw_member:
  assumes "r = [] \<or> compactRaw r" "rawO k r = Some ms"
  shows "(case getM k ms of None \<Rightarrow> Some [] | Some v \<Rightarrow> Some (emit v)) = Some r" "keyOK k \<Longrightarrow> goodMembers 64 ms" "j \<noteq> k \<Longrightarrow> getM j ms = None"
proof -
  consider "r = []" "ms = []" | v where "compactRaw r" "jraw r = Some v" "ms = [(k, v)]"
    using assms by (auto simp: rawO_def split: if_splits)
  then show "(case getM k ms of None \<Rightarrow> Some [] | Some v \<Rightarrow> Some (emit v)) = Some r" "keyOK k \<Longrightarrow> goodMembers 64 ms" "j \<noteq> k \<Longrightarrow> getM j ms = None"
    using raw_codec.reads_back [of r] raw_codec.writes [of r] by (cases; simp)+
qed

lemma tool_search_object: "pointer_codec toolSearchJ toolSearchD okToolSearch (Suc 65)"
proof (rule objectI)
  fix b j assume b: "okToolSearch b" "toolSearchJ b = Some j"
  then obtain ts where ts: "arrOptJ jraw (tq_Tools b) = Some ts" "j = JObj (strM ''call_id'' (tq_CallID b) @ strM ''name'' (tq_Name b) @ [(''tools'', ts)])"
    by (auto simp: toolSearchJ_def)
  then show "\<exists>ms. j = JObj ms \<and> toolSearchD (JObj ms) = Some b \<and> goodMembers 65 ms"
    using raw_codec.array [OF _ ts(1)] b(1) by (simp add: toolSearchD_def objD_def okToolSearch_def get_members)
qed (auto simp: toolSearchJ_def)

lemma server_call_object: "pointer_codec serverCallJ serverCallD okServerCall (Suc 64)"
proof (rule objectI)
  fix b j assume b: "okServerCall b" "serverCallJ b = Some j"
  then obtain a where a: "rawO ''arguments'' (sb_Arguments b) = Some a" "j = JObj (strM ''name'' (sb_Name b) @ strO ''call_id'' (sb_CallID b) @ a)"
    by (auto simp: serverCallJ_def)
  then show "\<exists>ms. j = JObj ms \<and> serverCallD (JObj ms) = Some b \<and> goodMembers 64 ms"
    using raw_member [OF _ a(1)] b(1) by (simp add: serverCallD_def objD_def okServerCall_def get_members)
qed (auto simp: serverCallJ_def)

lemma server_result_object: "pointer_codec serverResultJ serverResultD okServerResult (Suc 64)"
proof (rule objectI)
  fix b j assume b: "okServerResult b" "serverResultJ b = Some j"
  then obtain a where a: "rawO ''content'' (sv_Content b) = Some a" "j = JObj (strM ''name'' (sv_Name b) @ strO ''call_id'' (sv_CallID b) @ a)"
    by (auto simp: serverResultJ_def)
  then show "\<exists>ms. j = JObj ms \<and> serverResultD (JObj ms) = Some b \<and> goodMembers 64 ms"
    using raw_member [OF _ a(1)] b(1) by (simp add: serverResultD_def objD_def okServerResult_def get_members)
qed (auto simp: serverResultJ_def)

lemma mcp_tool_object: "pointer_codec mcpToolJ mcpToolD okMCPTool (Suc 64)"
proof (rule objectI)
  fix d j assume d: "okMCPTool d" "mcpToolJ d = Some j"
  then obtain a where a: "rawO ''input_schema'' (md_InputSchema d) = Some a" "j = JObj (strM ''name'' (md_Name d) @ strM ''description'' (md_Description d) @ a)"
    by (auto simp: mcpToolJ_def)
  then show "\<exists>ms. j = JObj ms \<and> mcpToolD (JObj ms) = Some d \<and> goodMembers 64 ms"
    using raw_member [OF _ a(1)] d(1) by (simp add: mcpToolD_def objD_def okMCPTool_def get_members)
qed (auto simp: mcpToolJ_def)

interpretation tool_search_codec: pointer_codec toolSearchJ toolSearchD okToolSearch 66
  using tool_search_object by simp

interpretation server_call_codec: pointer_codec serverCallJ serverCallD okServerCall 65
  using server_call_object by simp

interpretation server_result_codec: pointer_codec serverResultJ serverResultD okServerResult 65
  using server_result_object by simp

interpretation mcp_tool_codec: pointer_codec mcpToolJ mcpToolD okMCPTool 65
  using mcp_tool_object by simp

lemma mcp_list_tools_object: "pointer_codec mcpListToolsJ mcpListToolsD okMCPListTools (Suc 66)"
proof (rule objectI)
  fix b j assume b: "okMCPListTools b" "mcpListToolsJ b = Some j"
  then obtain ts where ts: "arrOptJ mcpToolJ (ml_Tools b) = Some ts" "j = JObj (strO ''server_label'' (ml_ServerLabel b) @ [(''tools'', ts)] @ strO ''error'' (ml_Error b))"
    by (auto simp: mcpListToolsJ_def)
  then show "\<exists>ms. j = JObj ms \<and> mcpListToolsD (JObj ms) = Some b \<and> goodMembers 66 ms"
    using mcp_tool_codec.array [OF _ ts(1)] b(1) by (simp add: mcpListToolsD_def objD_def okMCPListTools_def get_members)
qed (auto simp: mcpListToolsJ_def)

interpretation mcp_list_tools_codec: pointer_codec mcpListToolsJ mcpListToolsD okMCPListTools 67
  using mcp_list_tools_object by simp

section \<open>Response metadata\<close>

text \<open>Numbers that \<open>strconv\<close> reads back as they were written.\<close>

definition okFloat :: "libs \<Rightarrow> int \<Rightarrow> bool" where
  "okFloat L x \<longleftrightarrow> validNumber (lib_floatText L x) \<and> lib_floatParse L (lib_floatText L x) = Some x"

definition okFloat32 :: "libs \<Rightarrow> int \<Rightarrow> bool" where
  "okFloat32 L x \<longleftrightarrow> validNumber (lib_float32Text L x) \<and> lib_float32Parse L (lib_float32Text L x) = Some x"

definition okUsage :: "libs \<Rightarrow> Usage \<Rightarrow> bool" where
  "okUsage L u \<longleftrightarrow> list_all i64 [u_InputTokens u, u_TotalTokens u, u_OutputTokens u, u_ReasoningTokens u, u_CacheReadTokens u, u_CacheWriteTokens u] \<and> okFloat L (u_Cost u)"

definition okSegment :: "Segment \<Rightarrow> bool" where
  "okSegment s \<longleftrightarrow> list_all i64 [sg_Start s, sg_End s, sg_PartIndex s] \<and> ValidString (sg_Text s)"

definition okChunk :: "GroundingChunk \<Rightarrow> bool" where
  "okChunk c \<longleftrightarrow> list_all ValidString [gc_Domain c, gc_Title c, gc_URI c]"

definition okSupport :: "libs \<Rightarrow> GroundingSupport \<Rightarrow> bool" where
  "okSupport L s \<longleftrightarrow> list_all (okFloat32 L) (elems (gs_ConfidenceScores s)) \<and> list_all i64 (elems (gs_ChunkIndices s)) \<and> pred_option okSegment (gs_Segment s)"

definition okGrounding :: "libs \<Rightarrow> Grounding \<Rightarrow> bool" where
  "okGrounding L g \<longleftrightarrow> list_all okChunk (elems (gr_Chunks g)) \<and> list_all (okSupport L) (elems (gr_Supports g)) \<and>
     ValidString (gr_RenderedEntryPoint g) \<and> list_all ValidString (elems (gr_WebSearchQueries g))"

definition okOpenAIMeta :: "OpenAIResponseMeta \<Rightarrow> bool" where
  "okOpenAIMeta m \<longleftrightarrow> list_all ValidString [om_Status m, om_ErrorCode m, om_ErrorMessage m, om_IncompleteReason m, om_ServiceTier m, om_ReasoningEffort m,
     om_ReasoningSummary m, om_PromptCacheRetention m]"

definition okClaudeMeta :: "ClaudeResponseMeta \<Rightarrow> bool" where
  "okClaudeMeta m \<longleftrightarrow> list_all ValidString [cm_StopReason m, cm_StopSequence m, cm_StopCategory m, cm_StopExplanation m]"

definition okGeminiMeta :: "libs \<Rightarrow> GeminiResponseMeta \<Rightarrow> bool" where
  "okGeminiMeta L m \<longleftrightarrow> ValidString (gm_FinishReason m) \<and> pred_option (okGrounding L) (gm_Grounding m)"

definition okMeta :: "libs \<Rightarrow> ResponseMeta \<Rightarrow> bool" where
  "okMeta L m \<longleftrightarrow> pred_option (okUsage L) (rm_Usage m) \<and> pred_option okOpenAIMeta (rm_OpenAI m) \<and> pred_option okClaudeMeta (rm_Claude m) \<and>
     pred_option (okGeminiMeta L) (rm_Gemini m)"

interpretation float32_codec: total_codec "\<lambda>x. JNum (lib_float32Text L x)" "floatD (lib_float32Parse L)" "okFloat32 L" 0 for L
  by unfold_locales (auto simp: floatD_def okFloat32_def)

interpretation usage_codec: total_codec "usageJ L" "usageD L" "okUsage L" 1 for L
  unfolding usageJ_def One_nat_def by (rule total_objectI) (simp_all add: usageD_def objD_def okUsage_def okFloat_def floatD_def get_members)

interpretation segment_codec: total_codec segmentJ segmentD okSegment 1
  unfolding segmentJ_def One_nat_def by (rule total_objectI) (simp_all add: segmentD_def objD_def okSegment_def get_members)

interpretation chunk_codec: total_codec chunkJ chunkD okChunk 1
  unfolding chunkJ_def One_nat_def by (rule total_objectI) (simp_all add: chunkD_def objD_def okChunk_def get_members)

interpretation support_codec: total_codec "supportJ L" "supportD L" "okSupport L" 2 for L
  unfolding supportJ_def numeral_2_eq_2 by (rule total_objectI) (simp_all add: supportD_def objD_def okSupport_def get_members)

interpretation grounding_codec: total_codec "groundingJ L" "groundingD L" "okGrounding L" 4 for L
  unfolding groundingJ_def eval_nat_numeral by (rule total_objectI) (simp_all add: groundingD_def objD_def okGrounding_def get_members)

interpretation openai_codec: total_codec openAIMetaJ openAIMetaD okOpenAIMeta 1
  unfolding openAIMetaJ_def One_nat_def by (rule total_objectI) (simp_all add: openAIMetaD_def objD_def okOpenAIMeta_def get_members cong: bind_weak)

interpretation claude_codec: total_codec claudeMetaJ claudeMetaD okClaudeMeta 1
  unfolding claudeMetaJ_def One_nat_def by (rule total_objectI) (simp_all add: claudeMetaD_def objD_def okClaudeMeta_def get_members)

interpretation gemini_codec: total_codec "geminiMetaJ L" "geminiMetaD L" "okGeminiMeta L" 5 for L
  unfolding geminiMetaJ_def eval_nat_numeral by (rule total_objectI) (simp_all add: geminiMetaD_def objD_def okGeminiMeta_def get_members)

interpretation meta_codec: total_codec "metaJ L" "metaD L" "okMeta L" 6 for L
  unfolding metaJ_def eval_nat_numeral by (rule total_objectI) (simp_all add: metaD_def objD_def okMeta_def get_members)

section \<open>Envelopes\<close>

definition okBlock :: "ContentBlock \<Rightarrow> bool" where
  "okBlock b \<longleftrightarrow> pred_option okReasoning (cb_Reasoning b) \<and> pred_option okText (cb_Text b) \<and> pred_option okMedia (cb_Media b) \<and>
     pred_option okFunctionCall (cb_FunctionCall b) \<and> pred_option okFunctionResult (cb_FunctionResult b) \<and> pred_option okToolSearch (cb_ToolSearch b) \<and>
     pred_option okServerCall (cb_ServerCall b) \<and> pred_option okServerResult (cb_ServerResult b) \<and> pred_option okMCPCall (cb_MCPCall b) \<and>
     pred_option okMCPResult (cb_MCPResult b) \<and> pred_option okMCPListTools (cb_MCPListTools b) \<and> pred_option okMCPApprovalRequest (cb_MCPApprovalRequest b) \<and>
     pred_option okMCPApprovalResponse (cb_MCPApprovalResponse b)"

lemma those_Cons: "those (x # xs) = Some ys \<longleftrightarrow> (\<exists>y zs. x = Some y \<and> those xs = Some zs \<and> ys = y # zs)"
  by (auto split: option.splits)

lemma optJ_other: "optJ k f p = Some ms \<Longrightarrow> j \<noteq> k \<Longrightarrow> getM j ms = None"
  by (cases p) (auto simp: optJ_def)

lemma getM_parts: "getM k xs = None \<Longrightarrow> getM k (xs @ ys) = getM k ys" "getM k ys = None \<Longrightarrow> getM k (xs @ ys) = getM k xs"
  by (simp_all add: getM_append split: option.split)

lemma blockKind_back: "envelopeKeyForKind k \<noteq> None \<Longrightarrow> blockKindOfText (blockKindText k) = k \<and> ValidString (blockKindText k)"
  by (cases k) (simp_all add: blockKindOfText_def AllBlockKinds_def ValidString_def byteOf_def runeLen_def)

lemma good_mono: "goodMembers m ms \<Longrightarrow> m \<le> n \<Longrightarrow> goodMembers n ms"
  by (auto simp: goodMembers_def list_all_iff)

lemma goodI: "goodMembers m ms \<Longrightarrow> m \<le> 67 \<Longrightarrow> goodMembers 67 ms"
  by (rule good_mono)

lemma envelope_reads_back:
  assumes j: "envelopeJ (schema, b) = Some j" and ok: "okBlock b" and i: "i64 schema" "ValidString (cb_ID b)" and k: "envelopeKeyForKind (cb_Kind b) \<noteq> None"
  shows "envelopeD j = Some (schema, b) \<and> (\<exists>ms. j = JObj ms) \<and> wfJson j \<and> depth j \<le> 68"
proof -
  note p = ok [unfolded okBlock_def]
  obtain m1 m2 m3 m4 m5 m6 m7 m8 m9 m10 m11 m12 m13 where m:
    "optJ ''reasoning'' (Some \<circ> reasoningJ) (cb_Reasoning b) = Some m1" "optJ ''text'' (Some \<circ> textJ) (cb_Text b) = Some m2"
    "optJ ''media'' (Some \<circ> mediaJ) (cb_Media b) = Some m3" "optJ ''function_call'' (Some \<circ> functionCallJ) (cb_FunctionCall b) = Some m4"
    "optJ ''function_result'' (Some \<circ> functionResultJ) (cb_FunctionResult b) = Some m5" "optJ ''tool_search'' toolSearchJ (cb_ToolSearch b) = Some m6"
    "optJ ''server_call'' serverCallJ (cb_ServerCall b) = Some m7" "optJ ''server_result'' serverResultJ (cb_ServerResult b) = Some m8"
    "optJ ''mcp_call'' (Some \<circ> mcpCallJ) (cb_MCPCall b) = Some m9" "optJ ''mcp_result'' (Some \<circ> mcpResultJ) (cb_MCPResult b) = Some m10"
    "optJ ''mcp_list_tools'' mcpListToolsJ (cb_MCPListTools b) = Some m11"
    "optJ ''mcp_approval_request'' (Some \<circ> mcpApprovalRequestJ) (cb_MCPApprovalRequest b) = Some m12"
    "optJ ''mcp_approval_response'' (Some \<circ> mcpApprovalResponseJ) (cb_MCPApprovalResponse b) = Some m13"
    and j': "j = JObj (envelopeHead schema (cb_ID b) (cb_Kind b) @ m1 @ m2 @ m3 @ m4 @ m5 @ m6 @ m7 @ m8 @ m9 @ m10 @ m11 @ m12 @ m13)"
    using j by (auto simp: envelopeJ_def Let_def those_Cons simp del: those.simps(2) o_apply)
  note other = m [THEN optJ_other]
  have "envelopeD j = Some (schema, b)"
    using p i k blockKind_back [OF k] other
      reasoning_codec.pointer [OF _ m(1)] text_codec.pointer [OF _ m(2)] media_codec.pointer [OF _ m(3)] function_call_codec.pointer [OF _ m(4)]
      function_result_codec.pointer [OF _ m(5)] tool_search_codec.pointer [OF _ m(6)] server_call_codec.pointer [OF _ m(7)] server_result_codec.pointer [OF _ m(8)]
      mcp_call_codec.pointer [OF _ m(9)] mcp_result_codec.pointer [OF _ m(10)] mcp_list_tools_codec.pointer [OF _ m(11)]
      mcp_approval_request_codec.pointer [OF _ m(12)] mcp_approval_response_codec.pointer [OF _ m(13)]
    unfolding j' by (simp add: envelopeD_def envelopeHead_def objD_def get_members getM_parts cong: bind_weak)
  moreover have "goodMembers 67 (envelopeHead schema (cb_ID b) (cb_Kind b) @ m1 @ m2 @ m3 @ m4 @ m5 @ m6 @ m7 @ m8 @ m9 @ m10 @ m11 @ m12 @ m13)"
    using p goodI [OF reasoning_codec.pointer_writes [OF _ m(1)]] goodI [OF text_codec.pointer_writes [OF _ m(2)]] goodI [OF media_codec.pointer_writes [OF _ m(3)]]
      goodI [OF function_call_codec.pointer_writes [OF _ m(4)]] goodI [OF function_result_codec.pointer_writes [OF _ m(5)]]
      goodI [OF tool_search_codec.pointer_writes [OF _ m(6)]] goodI [OF server_call_codec.pointer_writes [OF _ m(7)]]
      goodI [OF server_result_codec.pointer_writes [OF _ m(8)]] goodI [OF mcp_call_codec.pointer_writes [OF _ m(9)]]
      goodI [OF mcp_result_codec.pointer_writes [OF _ m(10)]] goodI [OF mcp_list_tools_codec.pointer_writes [OF _ m(11)]]
      goodI [OF mcp_approval_request_codec.pointer_writes [OF _ m(12)]] goodI [OF mcp_approval_response_codec.pointer_writes [OF _ m(13)]]
    by (simp add: envelopeHead_def)
  from good_object [OF this] have "wfJson j \<and> depth j \<le> 68" unfolding j' by simp
  ultimately show ?thesis using j' by blast
qed

lemma count_flags: "length (filter id (x # xs)) = of_bool x + length (filter id xs)" "length (filter id []) = 0"
  by simp_all

lemma variantsSet_flags: "variantsSet b = of_bool (cb_Reasoning b \<noteq> None) + of_bool (cb_Text b \<noteq> None) + of_bool (cb_Media b \<noteq> None) +
    of_bool (cb_FunctionCall b \<noteq> None) + of_bool (cb_FunctionResult b \<noteq> None) + of_bool (cb_ToolSearch b \<noteq> None) + of_bool (cb_ServerCall b \<noteq> None) +
    of_bool (cb_ServerResult b \<noteq> None) + of_bool (cb_MCPCall b \<noteq> None) + of_bool (cb_MCPResult b \<noteq> None) + of_bool (cb_MCPListTools b \<noteq> None) +
    of_bool (cb_MCPApprovalRequest b \<noteq> None) + of_bool (cb_MCPApprovalResponse b \<noteq> None)"
  by (simp only: variantsSet_def count_flags add.assoc add_0_right)

lemma orInvalid_Inr: "orInvalid f p = Inr v \<longleftrightarrow> (\<exists>x. p = Some x \<and> v = f x)"
  by (auto simp: orInvalid_def split: option.split)

lemma variant_envelope:
  assumes "blockVariant (cb_Kind b) b = Inr v" "variantJ v = Some j"
  shows "envelopeJ (schema, b) = Some (JObj (envelopeHead schema (cb_ID b) (cb_Kind b) @ [(variantKey v, j)])) \<and> envelopeKeyForKind (cb_Kind b) \<noteq> None"
proof -
  have one: "variantsSet b = 1" using assms(1) by (simp add: blockVariant_def split: if_splits)
  show ?thesis using assms one
    by (cases "cb_Kind b")
      (auto simp: blockVariant_def orInvalid_Inr variantsSet_flags envelopeJ_def optJ_def variantJ_def variantKey_def Let_def)
qed

lemma decodeStrict_emit:
  assumes "enc x = Some j" "dec j = Some x" "j = JObj ms" "wfJson j" "depth j \<le> maxNestingDepth" "int (length (emit j)) \<le> cl_MaxBlockBytes limits"
  shows "decodeStrict dec enc (emit j) limits = Inr x"
  using assms jsonParse_emit [of j] TrimSpace_object [of ms] by (simp add: decodeStrict_def Let_def del: emit.simps wfJson.simps depth.simps) simp

lemma decode_encoded_block:
  assumes "encodeBlockEnvelope b = Inr raw" and ok: "okBlock b" "ValidString (cb_ID b)" and n: "int (length raw) \<le> cl_MaxBlockBytes limits"
  shows "decodeBlockEnvelope raw (cb_Kind b) limits = Inr b"
proof -
  obtain v j where v: "blockVariant (cb_Kind b) b = Inr v" "variantJ v = Some j"
    and raw: "raw = emit (JObj (envelopeHead ContentSchemaVersion (cb_ID b) (cb_Kind b) @ [(variantKey v, j)]))"
    using assms(1) by (auto simp: encodeBlockEnvelope_def split: sum.splits option.splits)
  note e = variant_envelope [OF v, of ContentSchemaVersion]
  have "i64 ContentSchemaVersion" by (simp add: i64_def ContentSchemaVersion_def)
  from envelope_reads_back [OF conjunct1 [OF e] ok(1) this ok(2) conjunct2 [OF e]]
  have "decodeStrict envelopeD envelopeJ raw limits = Inr (ContentSchemaVersion, b)"
    unfolding raw using e n [unfolded raw] by (intro decodeStrict_emit) (auto simp: maxNestingDepth_def simp del: emit.simps)
  then show ?thesis using v(1) e by (simp add: decodeBlockEnvelope_def)
qed

lemma decode_encoded_meta:
  assumes "okMeta L m" and n: "int (length (emit (metaEnvelopeJ L (ContentSchemaVersion, Some m)))) \<le> cl_MaxBlockBytes limits"
  shows "decodeResponseMetaEnvelope L (emit (metaEnvelopeJ L (ContentSchemaVersion, Some m))) limits = Inr (Some m)"
proof -
  let ?ms = "[(''schema'', jint ContentSchemaVersion), (''meta'', metaJ L m)]"
  have s: "i64 ContentSchemaVersion" by (simp add: i64_def ContentSchemaVersion_def)
  note w = meta_codec.writes [OF assms(1), of "metaJ L m", simplified]
  have nn: "metaJ L m \<noteq> JNull" by (simp add: metaJ_def)
  have "metaEnvelopeD L (JObj ?ms) = Some (ContentSchemaVersion, Some m)"
    using s meta_codec.reads_back [OF assms(1), of "metaJ L m"] nn by (cases "metaJ L m") (simp_all add: metaEnvelopeD_def objD_def get_members ptrD_def)
  moreover have "wfJson (JObj ?ms) \<and> depth (JObj ?ms) \<le> 7" using good_object [of 6 ?ms] w by simp
  ultimately have "decodeStrict (metaEnvelopeD L) (Some \<circ> metaEnvelopeJ L) (emit (metaEnvelopeJ L (ContentSchemaVersion, Some m))) limits = Inr (ContentSchemaVersion, Some m)"
    using n by (intro decodeStrict_emit [where ms = ?ms]) (simp_all add: metaEnvelopeJ_def maxNestingDepth_def del: wfJson.simps depth.simps)
  then show ?thesis by (simp add: decodeResponseMetaEnvelope_def)
qed

section \<open>Parts\<close>

lemma blockKind_part:
  "envelopeKeyForKind k \<noteq> None \<Longrightarrow> BlockKindForPart (PartKindForBlock k) = Some k \<and> PartKindForBlock k \<noteq> PartProviderState \<and> PartKindForBlock k \<noteq> PartResponseMeta"
  by (cases k) (simp_all add: BlockKindForPart_def AllBlockKinds_def)

lemma encoded_kind: "encodeBlockEnvelope b = Inr raw \<Longrightarrow> envelopeKeyForKind (cb_Kind b) \<noteq> None"
  using variant_envelope by (fastforce simp: encodeBlockEnvelope_def split: sum.splits option.splits)

lemma encodeBlocks_Cons:
  assumes "encodeBlocks ids msg sess run time limits i used (b # bs) = Inr (ps, t)"
  obtains raw ps' where "encodeBlockEnvelope b = Inr raw" "int (length raw) \<le> cl_MaxBlockBytes limits" "used + int (length raw) \<le> cl_MaxMessageBytes limits"
    "encodeBlocks ids msg sess run time limits (i + 1) (used + int (length raw)) bs = Inr (ps', t)"
    "ps = \<lparr>p_ID = ids i, p_MessageID = msg, p_SessionID = sess, p_RunID = run, p_Kind = PartKindForBlock (cb_Kind b), p_Ordinal = int i, p_Payload = raw,
        p_CreatedAt = time, p_UpdatedAt = time\<rparr> # ps'"
  using assms by (auto split: sum.splits if_splits prod.splits)

lemma encoded_measure:
  "encodeBlocks ids msg sess run time limits i used bs = Inr (ps, t) \<Longrightarrow> n + int (length bs) \<le> cl_MaxBlocks limits \<Longrightarrow>
   measureParts limits n used (ps @ rest) = measureParts limits (n + int (length bs)) t rest"
proof (induction bs arbitrary: i used ps n)
  case (Cons b bs)
  from Cons.prems(1) show ?case
  proof (rule encodeBlocks_Cons)
    fix raw ps'
    assume e: "encodeBlockEnvelope b = Inr raw" "int (length raw) \<le> cl_MaxBlockBytes limits" "used + int (length raw) \<le> cl_MaxMessageBytes limits"
      "encodeBlocks ids msg sess run time limits (i + 1) (used + int (length raw)) bs = Inr (ps', t)"
      "ps = \<lparr>p_ID = ids i, p_MessageID = msg, p_SessionID = sess, p_RunID = run, p_Kind = PartKindForBlock (cb_Kind b), p_Ordinal = int i, p_Payload = raw,
        p_CreatedAt = time, p_UpdatedAt = time\<rparr> # ps'"
    from Cons.IH [OF e(4), of "n + 1"] Cons.prems(2) e blockKind_part [OF encoded_kind [OF e(1)]]
    show ?thesis by (simp add: Let_def add.assoc)
  qed
qed simp

lemma encoded_decode:
  "encodeBlocks ids msg sess run time limits i used bs = Inr (ps, t) \<Longrightarrow> \<forall>b \<in> set bs. okBlock b \<and> ValidString (cb_ID b) \<Longrightarrow>
   pred_option (\<lambda>l. l < int i) prev \<Longrightarrow>
   \<exists>prev'. pred_option (\<lambda>l. l < int (i + length bs)) prev' \<and>
     decodePartsLoop L limits acc meta False prev (ps @ rest) = decodePartsLoop L limits (acc @ bs) meta False prev' rest"
proof (induction bs arbitrary: i used ps acc prev)
  case (Cons b bs)
  from Cons.prems(1) show ?case
  proof (rule encodeBlocks_Cons)
    fix raw ps'
    assume e: "encodeBlockEnvelope b = Inr raw" "int (length raw) \<le> cl_MaxBlockBytes limits" "used + int (length raw) \<le> cl_MaxMessageBytes limits"
      "encodeBlocks ids msg sess run time limits (i + 1) (used + int (length raw)) bs = Inr (ps', t)"
      "ps = \<lparr>p_ID = ids i, p_MessageID = msg, p_SessionID = sess, p_RunID = run, p_Kind = PartKindForBlock (cb_Kind b), p_Ordinal = int i, p_Payload = raw,
        p_CreatedAt = time, p_UpdatedAt = time\<rparr> # ps'"
    have d: "decodeBlockEnvelope raw (cb_Kind b) limits = Inr b" using Cons.prems(2) by (intro decode_encoded_block [OF e(1) _ _ e(2)]) auto
    have "decodePartsLoop L limits acc meta False prev (ps @ rest) = decodePartsLoop L limits (acc @ [b]) meta False (Some (int i)) (ps' @ rest)"
      using blockKind_part [OF encoded_kind [OF e(1)]] d e(5) Cons.prems(3) by (auto simp: pred_option_def split: option.splits)
    moreover obtain prev' where "pred_option (\<lambda>l. l < int (i + 1 + length bs)) prev'"
        "decodePartsLoop L limits (acc @ [b]) meta False (Some (int i)) (ps' @ rest) = decodePartsLoop L limits ((acc @ [b]) @ bs) meta False prev' rest"
      using Cons.IH [OF e(4), of "Some (int i)" "acc @ [b]"] Cons.prems(2) by auto
    ultimately show ?thesis by (intro exI [of _ prev']) simp
  qed
qed auto

lemma validated_ids:
  "validateBlocks L limits allowed ids calls used bs = Inr u \<Longrightarrow> b \<in> set bs \<Longrightarrow> ValidString (cb_ID b)"
proof (induction bs arbitrary: ids calls used)
  case (Cons c bs)
  have "ValidString s" if "printableASCII s n" for s n
    using that unfolding ValidString_def printableASCII_def by (intro validUTF8_ascii) (auto simp: list_all_iff inRange_def)
  then show ?case using Cons by (auto split: if_splits sum.splits option.splits)
qed simp

definition okContent :: "libs \<Rightarrow> Content \<Rightarrow> bool" where
  "okContent L c \<longleftrightarrow> list_all okBlock (co_Blocks c) \<and> pred_option (okMeta L) (co_Meta c)"

lemma content_decodes:
  assumes enc: "EncodeContentParts L c ids msg sess run time limits = Inr ps" and ok: "okContent L c"
  shows "DecodeContentParts L (co_Role c) ps limits = Inr c"
proof -
  have val: "ValidateContent L c limits = Inr ()" using enc by (auto simp: EncodeContentParts_def split: sum.splits)
  then obtain allowed u where v: "ValidateLimits limits = Inr ()" "int (length (co_Blocks c)) \<le> cl_MaxBlocks limits" "validateBlocks L limits allowed [] [] 0 (co_Blocks c) = Inr u"
    by (auto simp: ValidateContent_def split: sum.splits option.splits if_splits)
  obtain qs t where q: "encodeBlocks ids msg sess run time limits 0 0 (co_Blocks c) = Inr (qs, t)"
    using enc by (auto simp: EncodeContentParts_def split: sum.splits)
  have blocks: "\<forall>b \<in> set (co_Blocks c). okBlock b \<and> ValidString (cb_ID b)"
    using ok validated_ids [OF v(3)] by (auto simp: okContent_def list_all_iff)
  have measured: "measureParts limits 0 0 (qs @ rest) = measureParts limits (int (length (co_Blocks c))) t rest" for rest
    using encoded_measure [OF q, of 0 rest] v(2) by simp
  have decoded: "\<exists>prev. pred_option (\<lambda>l. l < int (length (co_Blocks c))) prev \<and>
      decodePartsLoop L limits [] None False None (qs @ rest) = decodePartsLoop L limits (co_Blocks c) None False prev rest" for rest
    using encoded_decode [OF q blocks, of None L "[]" None rest] by simp
  show ?thesis
  proof (cases "co_Meta c")
    case None
    then have "ps = qs" using enc q val by (simp add: EncodeContentParts_def)
    then show ?thesis using v(1) measured [of "[]"] decoded [of "[]"] val None by (cases c) (simp add: DecodeContentParts_def)
  next
    case (Some m)
    let ?raw = "emit (metaEnvelopeJ L (ContentSchemaVersion, Some m))"
    let ?p = "\<lparr>p_ID = ids (length (co_Blocks c)), p_MessageID = msg, p_SessionID = sess, p_RunID = run, p_Kind = PartResponseMeta,
      p_Ordinal = int (length (co_Blocks c)), p_Payload = ?raw, p_CreatedAt = time, p_UpdatedAt = time\<rparr>"
    have m: "ps = qs @ [?p]" "int (length ?raw) \<le> cl_MaxBlockBytes limits" "t + int (length ?raw) \<le> cl_MaxMessageBytes limits"
      using enc q val Some by (simp_all add: EncodeContentParts_def Let_def split: if_splits)
    have "BlockKindForPart PartResponseMeta = None" by (simp add: BlockKindForPart_def AllBlockKinds_def)
    moreover have "decodeResponseMetaEnvelope L ?raw limits = Inr (Some m)" using ok Some m(2) by (intro decode_encoded_meta) (simp_all add: okContent_def)
    ultimately have "decodePartsLoop L limits [] None False None ps = Inr (co_Blocks c, Some m)"
      using decoded [of "[?p]"] unfolding m(1) by (auto simp: pred_option_def split: option.splits)
    moreover have "measureParts limits 0 0 ps = Inr ()" unfolding m(1) measured using m(2,3) by (simp add: Let_def)
    ultimately show ?thesis using v(1) val Some by (cases c) (simp add: DecodeContentParts_def)
  qed
qed

section \<open>Wider limits\<close>

definition narrower :: "ContentLimits \<Rightarrow> ContentLimits \<Rightarrow> bool" where
  "narrower l m \<longleftrightarrow> cl_MaxMessageBytes l \<le> cl_MaxMessageBytes m \<and> cl_MaxBlocks l \<le> cl_MaxBlocks m \<and> cl_MaxBlockBytes l \<le> cl_MaxBlockBytes m"

lemma media_wider: "narrower l m \<Longrightarrow> validateMediaFields p a d l = Inr u \<Longrightarrow> validateMediaFields p a d m = Inr u"
  by (auto simp: validateMediaFields_def narrower_def split: option.splits if_splits)

lemma resultContent_wider: "narrower l m \<Longrightarrow> validateResultContent c l = Inr u \<Longrightarrow> validateResultContent c m = Inr u"
  by (auto simp: validateResultContent_def media_wider split: ResultContentType.splits if_splits)

lemma firstErr_differ: "firstErr f xs = Inr u \<Longrightarrow> firstErr g xs = Inl e \<Longrightarrow> \<exists>x v e. f x = Inr v \<and> g x = Inl e"
  by (induction xs) (auto split: sum.splits)

lemma variant_wider:
  assumes n: "narrower l m" and v: "validateVariant L kind v seen l = Inr s"
  shows "validateVariant L kind v seen m = Inr s"
proof -
  have "validateResultContent c m \<noteq> Inl e" if "validateResultContent c l = Inr u" for c e u
    using resultContent_wider [OF n that] by simp
  then show ?thesis using v n [unfolded narrower_def] media_wider [OF n]
    by (cases v) (auto simp: validateVariant_def validateMedia_def Let_def split: sum.splits if_splits dest: firstErr_differ)
qed

lemma blocks_wider:
  assumes n: "narrower l m"
  shows "validateBlocks L l allowed ids calls used bs = Inr u \<Longrightarrow> validateBlocks L m allowed ids calls used bs = Inr u"
proof (induction bs arbitrary: ids calls used)
  case (Cons b bs)
  obtain v where v: "blockVariant (cb_Kind b) b = Inr v" using Cons.prems by (auto split: if_splits sum.splits)
  obtain calls' where "validateVariant L (cb_Kind b) v calls l = Inr calls'" using Cons.prems v by (auto split: if_splits sum.splits)
  with variant_wider [OF n this] show ?case using Cons v n [unfolded narrower_def] by (auto split: if_splits option.splits)
qed simp

lemma content_wider:
  assumes n: "narrower l m" and v: "ValidateContent L c l = Inr u"
  shows "ValidateContent L c m = Inr u"
proof -
  obtain allowed t where "roleAllowedKinds (co_Role c) = Some allowed" "validateBlocks L l allowed [] [] 0 (co_Blocks c) = Inr t"
    using v by (auto simp: ValidateContent_def split: sum.splits option.splits if_splits)
  with blocks_wider [OF n this(2)] show ?thesis
    using v n [unfolded narrower_def] by (auto simp: ValidateContent_def ValidateLimits_def Let_def split: option.splits if_splits)
qed

lemma encodeBlocks_wider:
  "narrower l m \<Longrightarrow> encodeBlocks ids msg sess run time l i used bs = Inr r \<Longrightarrow> encodeBlocks ids msg sess run time m i used bs = Inr r"
  by (induction bs arbitrary: i used r) (fastforce simp: narrower_def split: sum.splits if_splits prod.splits)+

lemma encode_wider:
  assumes n: "narrower l m" and e: "EncodeContentParts L c ids msg sess run time l = Inr ps"
  shows "EncodeContentParts L c ids msg sess run time m = Inr ps"
proof -
  obtain r where "ValidateContent L c l = Inr ()" "encodeBlocks ids msg sess run time l 0 0 (co_Blocks c) = Inr r"
    using e by (auto simp: EncodeContentParts_def split: sum.splits)
  with content_wider [OF n this(1)] encodeBlocks_wider [OF n this(2)] show ?thesis
    using e n [unfolded narrower_def] by (auto simp: EncodeContentParts_def Let_def split: option.splits if_splits prod.splits)
qed

text \<open>
  C40. Content reads back as it was written. When a message's content is encoded into durable parts, decoding those parts under the same limits, or
  wider ones, gives the same content: every block with its id, kind and payload, in order, and the response metadata. The strings have to be UTF-8, the numbers
  have 64 bits, and raw JSON has to be compact.
\<close>

theorem content_reads_back:
  assumes "EncodeContentParts L c ids msg sess run time limits = Inr ps" "okContent L c" "narrower limits wider"
  shows "DecodeContentParts L (co_Role c) ps wider = Inr c"
  using content_decodes [OF encode_wider [OF assms(3,1)] assms(2)] .

text \<open>An answer of two blocks, text and a function call, with metadata: token counts, a cost and a confidence score among them.\<close>

definition demoContent :: Content where
  "demoContent = \<lparr>co_Role = RoleAssistant,
     co_Blocks = [zeroBlock\<lparr>cb_ID := ''b1'', cb_Kind := BlockKindAssistantGenText, cb_Text := Some \<lparr>tb_Text = ''one < two'', tb_Refusal = [], tb_Annotations = None\<rparr>\<rparr>,
       zeroBlock\<lparr>cb_ID := ''b2'', cb_Kind := BlockKindFunctionToolCall, cb_FunctionCall := Some \<lparr>fc_CallID = ''c'', fc_Name = ''f'', fc_Arguments = ''{}''\<rparr>\<rparr>],
     co_Meta = Some \<lparr>rm_Usage = Some (zeroUsage\<lparr>u_InputTokens := 12, u_Cost := 25\<rparr>), rm_OpenAI = None,
       rm_Claude = Some \<lparr>cm_StopReason = ''end'', cm_StopSequence = [], cm_StopCategory = [], cm_StopExplanation = []\<rparr>,
       rm_Gemini = Some \<lparr>gm_FinishReason = ''stop'', gm_Grounding = Some \<lparr>gr_Chunks = None,
         gr_Supports = Some [\<lparr>gs_ConfidenceScores = Some [7], gs_ChunkIndices = Some [0], gs_Segment = None\<rparr>],
         gr_RenderedEntryPoint = [], gr_WebSearchQueries = None\<rparr>\<rparr>\<rparr>\<rparr>"

lemma demo_content_encodes:
  "case EncodeContentParts demoLibs demoContent (\<lambda>i. ''p'' @ intText (int i)) ''m'' ''s'' ''r'' (demoTime 1) DefaultContentLimits of Inl e \<Rightarrow> False | Inr ps \<Rightarrow> length ps = 3"
  by code_simp

text \<open>With the numbers of \<open>demoLibs\<close> every 64-bit value reads back, so the conditions on the texts of numbers hold.\<close>

lemma demo_floats: "i64 x \<Longrightarrow> okFloat demoLibs x" "i64 x \<Longrightarrow> okFloat32 demoLibs x"
  by (simp_all add: okFloat_def okFloat32_def demoLibs_def validNumber_intText int64Text_intText)

lemma demo_content_ok: "okContent demoLibs demoContent"
  by (simp add: okContent_def demoContent_def okBlock_def zeroBlock_def okText_def okFunctionCall_def okMeta_def okClaudeMeta_def okUsage_def zeroUsage_def
      okGeminiMeta_def okGrounding_def okSupport_def demo_floats i64_def ValidString_def byteOf_def runeLen_def)

theorem content_reads_back_witness:
  "\<exists>ps. length ps = 3 \<and> DecodeContentParts demoLibs RoleAssistant ps MaxContentLimits = Inr demoContent"
proof -
  obtain ps where ps: "EncodeContentParts demoLibs demoContent (\<lambda>i. ''p'' @ intText (int i)) ''m'' ''s'' ''r'' (demoTime 1) DefaultContentLimits = Inr ps" "length ps = 3"
    using demo_content_encodes
    by (cases "EncodeContentParts demoLibs demoContent (\<lambda>i. ''p'' @ intText (int i)) ''m'' ''s'' ''r'' (demoTime 1) DefaultContentLimits") (auto simp del: id_apply)
  have "co_Role demoContent = RoleAssistant" by (simp add: demoContent_def)
  moreover have "narrower DefaultContentLimits MaxContentLimits" by (simp add: narrower_def DefaultContentLimits_def MaxContentLimits_def)
  ultimately show ?thesis using content_reads_back [OF ps(1) demo_content_ok] ps(2) by auto
qed

end
