(* ===== verification/Spec2Isabelle.thy ===== *)
theory Spec2Isabelle
  imports ReplayProps StreamProps ToolProps ContentRound
begin

text \<open>
  Verification of the durable core of eino-agent: the session contracts (\<open>session/\<close>), the SQL store that
  implements them (\<open>store/internal/sqlstore/\<close>), the projection of history for a model
  (\<open>session/history/\<close>, \<open>session/compaction/\<close>), extension plans (\<open>session/extensions.go\<close>), the
  registry and dispatch of extensions (\<open>extension/\<close>), the execution of a tool call under guards, permissions and
  extensions (\<open>permissions/\<close>, \<open>runtime/\<close>) and the live event tail (\<open>stream/\<close>).

  \<^bold>\<open>The program.\<close> A session is a conversation; a run is one execution in it, owned by the worker whose claim token
  is in the run row (the fence). Input reaches a session through an inbox, a turn admits it, model requests
  and tool calls are recorded with their messages, parts and events, a run may be paused at a checkpoint and
  claimed by another worker, and is settled once. Everything durable goes through the store, which checks the
  fence in the same transaction as each write. Before a model is called, the stored messages and parts are
  loaded page by page, narrowed by the active context epoch and projected into provider messages. Which
  extensions a run executes is fixed by a sealed, fingerprinted plan; the extensions themselves are components
  mounted in a registry, whose handlers are dispatched through plans that hold the components they use. A tool call the
  worker has claimed goes through guards, the permission policy, approvals and the extensions around it before its
  result is settled. Events are
  also offered to live subscribers through a bounded tail.

  \<^bold>\<open>Theories and what they model.\<close>

  \<^item> \<open>Prelude\<close>, \<open>GoBase\<close>, \<open>Results\<close>, \<open>Paging\<close>: errors as values (\<open>err\<close>, sums), operations as state passing
    (\<open>op\<close>, \<open>bindE\<close>, \<open>atomicE\<close>), Go strings as byte lists, slices as optional lists, reading a listing page by
    page (\<open>drain\<close>, partial: \<open>None\<close> is a loop that does not end) and the generic lemmas the other theories share.
  \<^item> \<open>Json\<close>, \<open>JsonText\<close>, \<open>JsonDecode\<close>, \<open>JsonStrings\<close>: \<open>encoding/json\<close> as the program uses it; writing and reading are inverse.
    \<open>JsonEqual\<close>: \<open>internal/jsonequal\<close>. \<open>GoTime\<close>: the time columns of \<open>sqlstore/time.go\<close>. \<open>Sha256\<close>: the digest of a fingerprint.
  \<^item> \<open>SessionTypes\<close>, \<open>ContentTypes\<close>, \<open>ContentCodec\<close>, \<open>ContentLogic\<close>: the records of \<open>session/types.go\<close> and
    \<open>session/content.go\<close> with a prefix per struct, the enumerations as datatypes, validation and the part codec.
  \<^item> \<open>TurnLogic\<close>, \<open>Settlement\<close>, \<open>PauseLogic\<close>, \<open>AdmissionTitle\<close>, \<open>Envelopes\<close>: the pure transitions and validations of
    \<open>session/turn.go\<close>, \<open>run_settlement.go\<close>, \<open>tool_settlement.go\<close>, \<open>tool_transition.go\<close>, \<open>pause_lifecycle.go\<close>,
    \<open>checkpoint.go\<close>, \<open>repause.go\<close>, \<open>admission.go\<close>, \<open>title.go\<close>, \<open>model_request.go\<close>, \<open>inbox.go\<close>, \<open>sqlstore/tool_records.go\<close>.
  \<^item> \<open>StoreDb\<close>: the tables (a \<open>record\<close> per row type, a list per table), the statements with the CHECK and UNIQUE constraints
    of the schema. \<open>StoreRuns\<close>, \<open>StoreMessages\<close>, \<open>StoreEvents\<close>, \<open>StoreInbox\<close>, \<open>StoreTurns\<close>, \<open>StoreCheckpoints\<close>,
    \<open>StoreTools\<close>, \<open>StoreRequests\<close>: one theory per file of \<open>sqlstore\<close>, one definition per method. \<open>Execution\<close>: the fenced
    execution store, the type \<open>call\<close> of all public operations, transactions (\<open>withinTx\<close>: calls in savepoints, a commit that is acknowledged, given
    up or whose acknowledgement is lost) and the reachable databases. \<open>PlainCalls\<close>: the calls whose values JSON carries unchanged
    (\<open>plainCall\<close>) and the databases they produce (\<open>plainReachable\<close>).
  \<^item> \<open>History\<close>: \<open>session/history/projector.go\<close>, \<open>provider_projection.go\<close>, \<open>session/replay.go\<close>, \<open>session/compaction\<close>.
  \<^item> \<open>ExtensionPlans\<close>: \<open>session/extensions.go\<close> and the identity checks of \<open>extension/types.go\<close>.
  \<^item> \<open>ExtensionRegistry\<close>: \<open>extension/registry.go\<close>, the registration functions of \<open>extension/types.go\<close> and
    \<open>extension/notification_dispatcher.go\<close>, one operation per critical section of the registry's mutex, and the steps
    (\<open>regStep\<close>) any interleaving is made of. \<open>ExtensionDispatch\<close>: \<open>extension/dispatch.go\<close>; callbacks, which are code
    outside, are arguments, and an around callback is a datatype of what it does with \<open>proceed\<close>.
  \<^item> \<open>GoErrors\<close>: errors of host code and what \<open>errors.Is\<close> finds in them. \<open>Permissions\<close>: \<open>permissions/policy.go\<close> and
    \<open>path.Match\<close>. \<open>ToolPipeline\<close>: what happens to a claimed call (\<open>runtime/tool_permissions.go\<close>, \<open>extension_tool.go\<close>,
    \<open>tool_execution.go\<close> and the outcomes of \<open>orchestrator.go\<close>); guards, policies, approvers and tools are functions of the trace so far.
  \<^item> \<open>Stream\<close>: \<open>stream/tail.go\<close> as a state machine with one action per channel operation.

  \<^bold>\<open>What is proved.\<close>

  \<^item> \<open>StoreInv\<close>, \<open>StoreWf\<close>, \<open>StoreSteps\<close>, \<open>StoreReads\<close>, \<open>StoreKeeps\<close>, \<open>StoreCore\<close>, \<open>StoreReach\<close>, \<open>StoreEffects\<close>: the invariant of the database (columns
    agree with records, references exist, keys and constraints hold, a finished run is quiet), that every
    operation keeps it, how rows may evolve, which run a call moves and how, and what a failing call or transaction leaves; with the locales of the
    contracts the operations share.
  \<^item> \<open>StoreProps\<close>, \<open>FenceProps\<close>, \<open>InboxProps\<close>: the promises of the store over every reachable database: the
    refinement of the abstract run lifecycle, the fence, exclusive claims, settlement that can be repeated,
    append-only logs, input delivered at most once, rows that stay within their session and run, no partial writes, and, for the databases
    of plain calls, numbering of turns and readability of everything stored.
  \<^item> \<open>HistoryProps\<close>, \<open>ReplayProps\<close>: what an epoch keeps, that private parts are not projected, that a summary reads back, and that
    loading a history ends and is complete.
  \<^item> \<open>PlanProps\<close>: the canonical form of a plan is its meaning, sealing and verifying are inverse, and no foreign scope is accepted.
  \<^item> \<open>RegistryProps\<close>: reference counts are exact, cleanups run only on components that nothing uses and are not repeated after success, and
    an unused component can always be closed. \<open>DispatchProps\<close>: handlers run in one fixed order (locale \<open>handler_loop\<close>), the first refusing
    gate decides, transforms are all or nothing, an around chain runs its terminal at most once.
  \<^item> \<open>ToolProps\<close>: a tool runs only when guards, policy and approvals let it, static rules are obeyed, and the permission entries
    of a result cannot be forged. \<open>ContentRound\<close>: content that was written into parts reads back, under the limits it was written with or wider ones (locales \<open>json_codec\<close>, \<open>pointer_codec\<close>,
    \<open>total_codec\<close>, interpreted for every struct of a block).
  \<^item> \<open>StreamProps\<close>: bounded memory, a producer that never waits, no silent loss.
  \<^item> \<open>Samples\<close>, \<open>Scenario\<close>, \<open>ToolScenario\<close>: concrete runs of the store, evaluated once, that the witnesses use.

  \<^bold>\<open>Assumptions and bounds.\<close> The operations of one database run one after the other (each is a transaction or a
  savepoint; row locks are therefore not modelled). A record column is represented by the record, which is
  what the code reads back when every string is valid UTF-8, times lie in the years 0 to 9999 with a zone of whole minutes and raw JSON is not
  nested to the decoder's limit: the properties that say that something stored can be read again are stated for \<open>plainReachable\<close> databases and
  plain calls, all others hold for every reachable one. What the code takes from the Eino library and from
  \<open>strconv\<close> for floating-point text is the parameter \<open>libs\<close>; the only property that assumes anything about it is the round trip of
  content, whose numbers must read back from their texts (\<open>okFloat\<close>). Floating-point numbers are finite. Row keys
  and ordinals are \<open>int\<close>: the database counts them up from 1 and the 64-bit limit is out of reach. Subscriptions
  of the tail are fewer than 2\<open>^\<close>64.

  \<^bold>\<open>Not modelled.\<close> The connection handling and migrations of the SQL back ends, the discovery and observation readers
  (hand-written SQL with byte budgets in the database), the agentic projection (which fills structs of the third-party
  schema), the goroutines of the runtime around the third-party agent kit (its durable effects are the calls modelled
  here), preparing a tool call, provider adapters, tool executors, configuration and the protocol bridges, generated WebAssembly
  bindings, the conformance suite and the examples.
\<close>

end
